(* ===== verification/Prelude.thy ===== *)
theory Prelude
  imports Main "HOL-Library.AList" "HOL-Library.Sublist" "HOL-Library.Product_Lexorder"
begin

text \<open>
  Shared vocabulary of the development: the model of the Python values the device-management
  server computes with, and the lemmas every component proof relies on.

  \<^item> A Python \<open>str\<close> is a \<^typ>\<open>string\<close> whose characters stand for the code points
    U+0000 to U+00FF; \<open>bytes\<close> is the same type read as octets. \<open>strip\<close>, \<open>lower\<close>,
    \<open>isdigit\<close> and \<open>int()\<close> follow CPython on that range.
  \<^item> A Python \<open>dict\<close> with string keys is an association list in insertion order; an
    assignment is \<^const>\<open>AList.update\<close> (in place for a known key, at the end otherwise).
  \<^item> Every clock reading is an \<^typ>\<open>int\<close> number of microseconds, the resolution of the
    database's timestamps; \<open>secs\<close> converts a number of seconds.
\<close>

named_theorems py_defs \<open>definitions of the string layer\<close>
named_theorems dict_simps \<open>rewrite rules for dictionaries\<close>

type_synonym timestamp = int
type_synonym 'v dict = "(string \<times> 'v) list"
type_synonym bytes = string

definition secs :: "int \<Rightarrow> timestamp" where
  "secs n = n * 1000000"

text \<open>\<open>int(time.time())\<close>: whole seconds, rounded down.\<close>

definition int_time :: "timestamp \<Rightarrow> int" where
  "int_time t = t div 1000000"

text \<open>\<open>int(x)\<close> of a float number of seconds: truncated towards zero.\<close>

definition trunc_secs :: "timestamp \<Rightarrow> int" where
  "trunc_secs t = (if t < 0 then - ((- t) div 1000000) else t div 1000000)"

lemma secs_mono [simp]: "secs a \<le> secs b \<longleftrightarrow> a \<le> b"
  by (simp add: secs_def)

lemma secs_nonneg [simp]: "0 \<le> secs a \<longleftrightarrow> 0 \<le> a"
  by (simp add: secs_def)

lemma int_time_mono: "t \<le> u \<Longrightarrow> int_time t \<le> int_time u"
  by (simp add: int_time_def zdiv_mono1)

lemma int_time_add_secs [simp]: "int_time (t + secs n) = int_time t + n"
  by (simp add: int_time_def secs_def)

section \<open>Strings\<close>

definition py_space :: "char \<Rightarrow> bool" where
  "py_space c = (let n = (of_char c :: nat) in
     (9 \<le> n \<and> n \<le> 13) \<or> (28 \<le> n \<and> n \<le> 32) \<or> n = 133 \<or> n = 160)"

definition lstrip_by :: "(char \<Rightarrow> bool) \<Rightarrow> string \<Rightarrow> string" where
  "lstrip_by p s = dropWhile p s"

definition rstrip_by :: "(char \<Rightarrow> bool) \<Rightarrow> string \<Rightarrow> string" where
  "rstrip_by p s = rev (dropWhile p (rev s))"

definition strip :: "string \<Rightarrow> string" where
  "strip s = rstrip_by py_space (lstrip_by py_space s)"

definition rstrip_char :: "char \<Rightarrow> string \<Rightarrow> string" where
  "rstrip_char c s = rstrip_by (\<lambda>x. x = c) s"

definition lstrip_char :: "char \<Rightarrow> string \<Rightarrow> string" where
  "lstrip_char c s = lstrip_by (\<lambda>x. x = c) s"

text \<open>\<open>str.lower\<close>: the ASCII and the Latin-1 capitals (U+00D7 is the multiplication sign).\<close>

definition lower_char :: "char \<Rightarrow> char" where
  "lower_char c = (let n = (of_char c :: nat) in
     if (65 \<le> n \<and> n \<le> 90) \<or> (192 \<le> n \<and> n \<le> 222 \<and> n \<noteq> 215) then char_of (n + 32) else c)"

definition lower :: "string \<Rightarrow> string" where
  "lower s = map lower_char s"

definition startswith :: "string \<Rightarrow> string \<Rightarrow> bool" where
  "startswith s p = (take (length p) s = p)"

fun contains_sub :: "string \<Rightarrow> string \<Rightarrow> bool" where
  "contains_sub sub [] = (sub = [])"
| "contains_sub sub (c # s) = (startswith (c # s) sub \<or> contains_sub sub s)"

text \<open>\<open>s.split(sep)\<close> for a one-character separator, and \<open>s.split(sep, 1)\<close> when it yields
  two parts.\<close>

fun split_on :: "char \<Rightarrow> string \<Rightarrow> string list" where
  "split_on c [] = [[]]"
| "split_on c (x # xs) =
     (if x = c then [] # split_on c xs
      else (case split_on c xs of [] \<Rightarrow> [[x]] | p # ps \<Rightarrow> (x # p) # ps))"

fun split_once :: "char \<Rightarrow> string \<Rightarrow> (string \<times> string) option" where
  "split_once c [] = None"
| "split_once c (x # xs) =
     (if x = c then Some ([], xs)
      else map_option (\<lambda>(a, b). (x # a, b)) (split_once c xs))"

fun join_with :: "string \<Rightarrow> string list \<Rightarrow> string" where
  "join_with sep [] = []"
| "join_with sep [x] = x"
| "join_with sep (x # y # zs) = x @ sep @ join_with sep (y # zs)"

lemma split_on_not_Nil [simp]: "split_on c s \<noteq> []"
  by (induction s) (auto split: list.splits)

lemma split_on_no_sep: "c \<notin> set s \<Longrightarrow> split_on c s = [s]"
  by (induction s) auto

lemma join_split_on: "join_with [c] (split_on c s) = s"
proof (induction s)
  case (Cons x xs)
  obtain p ps where p: "split_on c xs = p # ps"
    using split_on_not_Nil by (meson neq_Nil_conv)
  with Cons show ?case by (cases ps) auto
qed simp

lemma split_on_app: "c \<notin> set a \<Longrightarrow> split_on c (a @ c # b) = a # split_on c b"
  by (induction a) auto

lemma split_on_append: "split_on c (a @ c # b) = split_on c a @ split_on c b"
  by (induction a) (auto split: list.splits)

lemma split_on_sep: "x \<in> set (split_on c s) \<Longrightarrow> c \<notin> set x"
  by (induction c s arbitrary: x rule: split_on.induct) (auto split: list.splits if_splits)

lemma split_on_join:
  "xs \<noteq> [] \<Longrightarrow> \<forall>x \<in> set xs. c \<notin> set x \<Longrightarrow> split_on c (join_with [c] xs) = xs"
proof (induction "[c]" xs rule: join_with.induct)
  case (2 x)
  then show ?case by (simp add: split_on_no_sep)
next
  case (3 x y zs)
  then show ?case by (simp add: split_on_app)
qed simp

lemma split_once_app [simp]: "c \<notin> set a \<Longrightarrow> split_once c (a @ c # b) = Some (a, b)"
  by (induction a) auto

lemma split_once_Some: "split_once c s = Some (a, b) \<Longrightarrow> s = a @ c # b \<and> c \<notin> set a"
  by (induction s arbitrary: a b) (auto split: if_splits)

lemma startswith_app [simp]: "startswith (p @ s) p"
  by (simp add: startswith_def)

lemma startswith_iff: "startswith s p \<longleftrightarrow> (\<exists>r. s = p @ r)"
proof
  assume "startswith s p"
  then have "s = p @ drop (length p) s"
    by (metis append_take_drop_id startswith_def)
  then show "\<exists>r. s = p @ r" ..
qed auto

lemma startswith_refl [simp]: "startswith s s"
  by (simp add: startswith_def)

lemma startswith_Nil [simp]: "startswith s []"
  by (simp add: startswith_def)

lemma rstrip_by_id: "s = [] \<or> \<not> p (last s) \<Longrightarrow> rstrip_by p s = s"
  by (cases s rule: rev_cases) (auto simp: rstrip_by_def)

lemma lstrip_by_id: "s = [] \<or> \<not> p (hd s) \<Longrightarrow> lstrip_by p s = s"
  by (cases s) (auto simp: lstrip_by_def)

lemma strip_id: "\<forall>c \<in> set s. \<not> py_space c \<Longrightarrow> strip s = s"
  by (cases s; simp add: strip_def lstrip_by_id rstrip_by_id)

lemma strip_ends: "strip s = [] \<or> (\<not> py_space (hd (strip s)) \<and> \<not> py_space (last (strip s)))"
proof -
  let ?l = "dropWhile py_space s" and ?r = "strip s"
  have r: "?r = rev (dropWhile py_space (rev ?l))"
    by (simp add: strip_def lstrip_by_def rstrip_by_def)
  have "\<not> py_space (last ?r)" if "?r \<noteq> []"
    using that hd_dropWhile [of py_space "rev ?l"] by (auto simp: r last_rev)
  moreover have "\<not> py_space (hd ?r)" if n: "?r \<noteq> []"
  proof -
    obtain t where "rev ?l = t @ dropWhile py_space (rev ?l)"
      by (metis takeWhile_dropWhile_id)
    then have "?l = ?r @ rev t"
      by (metis r rev_append rev_rev_ident)
    then have "hd ?l = hd ?r" "?l \<noteq> []" using n by auto
    then show ?thesis using hd_dropWhile [of py_space s] by auto
  qed
  ultimately show ?thesis by blast
qed

lemma strip_ends_id: "s = [] \<or> (\<not> py_space (hd s) \<and> \<not> py_space (last s)) \<Longrightarrow> strip s = s"
  by (auto simp: strip_def lstrip_by_id rstrip_by_id)

lemma strip_strip [simp]: "strip (strip s) = strip s"
  by (rule strip_ends_id) (rule strip_ends)

lemma py_space_lower [simp]: "py_space (lower_char c) = py_space c"
  by (auto simp: py_space_def lower_char_def Let_def)

lemma strip_lower_strip [simp]: "strip (lower (strip s)) = lower (strip s)"
  using strip_ends [of s]
  by (intro strip_ends_id) (cases "strip s = []"; auto simp: lower_def hd_map last_map)

lemma lower_char_idem [simp]: "lower_char (lower_char c) = lower_char c"
  by (auto simp: lower_char_def Let_def)

lemma lower_lower [simp]: "lower (lower s) = lower s"
  by (simp add: lower_def)

lemma lower_Nil_iff [simp]: "lower s = [] \<longleftrightarrow> s = []"
  by (simp add: lower_def)

lemma strip_Nil [simp]: "strip [] = []"
  by (simp add: strip_def lstrip_by_def rstrip_by_def)

lemma rstrip_char_Nil [simp]: "rstrip_char c [] = []"
  by (simp add: rstrip_char_def rstrip_by_def)

lemma rstrip_char_last: "rstrip_char c s = [] \<or> last (rstrip_char c s) \<noteq> c"
proof -
  have "dropWhile (\<lambda>x. x = c) (rev s) = [] \<or> hd (dropWhile (\<lambda>x. x = c) (rev s)) \<noteq> c"
    using hd_dropWhile [of "\<lambda>x. x = c" "rev s"] by blast
  then show ?thesis by (auto simp: rstrip_char_def rstrip_by_def last_rev)
qed

section \<open>Decimal numerals\<close>

definition digit_char :: "nat \<Rightarrow> char" where
  "digit_char d = char_of (48 + d)"

definition is_digit :: "char \<Rightarrow> bool" where
  "is_digit c = (let n = (of_char c :: nat) in 48 \<le> n \<and> n \<le> 57)"

definition digit_val :: "char \<Rightarrow> nat" where
  "digit_val c = of_char c - 48"

text \<open>\<open>str.isdigit\<close> also accepts the superscripts U+00B2, U+00B3 and U+00B9, which
  \<open>int()\<close> refuses.\<close>

definition isdigit :: "string \<Rightarrow> bool" where
  "isdigit s = (s \<noteq> [] \<and> list_all (\<lambda>c. is_digit c \<or> (of_char c :: nat) \<in> {178, 179, 185}) s)"

fun nat_digits :: "nat \<Rightarrow> string" where
  "nat_digits n = (if n < 10 then [digit_char n] else nat_digits (n div 10) @ [digit_char (n mod 10)])"

declare nat_digits.simps [simp del]

fun read_digits :: "nat \<Rightarrow> string \<Rightarrow> nat" where
  "read_digits acc [] = acc"
| "read_digits acc (c # cs) = read_digits (10 * acc + digit_val c) cs"

definition str_of_nat :: "nat \<Rightarrow> string" where
  "str_of_nat n = nat_digits n"

definition str_of_int :: "int \<Rightarrow> string" where
  "str_of_int n = (if n < 0 then CHR ''-'' # nat_digits (nat (- n)) else nat_digits (nat n))"

text \<open>\<open>int(s)\<close> on a string: surrounding white space, one sign, decimal digits with single
  underscores between them; \<^const>\<open>None\<close> where CPython raises \<open>ValueError\<close>.\<close>

fun digits_ok :: "bool \<Rightarrow> string \<Rightarrow> bool" where
  "digits_ok prev [] = prev"
| "digits_ok prev (c # cs) =
     (if is_digit c then digits_ok True cs
      else if c = CHR ''_'' \<and> prev then digits_ok False cs
      else False)"

definition read_unsigned :: "string \<Rightarrow> int option" where
  "read_unsigned s =
     (if digits_ok False s then Some (int (read_digits 0 (filter is_digit s))) else None)"

definition py_int :: "string \<Rightarrow> int option" where
  "py_int s = (case strip s of
       [] \<Rightarrow> None
     | c # cs \<Rightarrow>
         if c = CHR ''-'' then map_option uminus (read_unsigned cs)
         else if c = CHR ''+'' then read_unsigned cs
         else read_unsigned (c # cs))"

lemma of_char_digit_char [simp]: "d < 10 \<Longrightarrow> (of_char (digit_char d) :: nat) = 48 + d"
  by (simp add: digit_char_def)

lemma is_digit_digit_char [simp]: "d < 10 \<Longrightarrow> is_digit (digit_char d)"
  by (simp add: is_digit_def)

lemma digit_val_digit_char [simp]: "d < 10 \<Longrightarrow> digit_val (digit_char d) = d"
  by (simp add: digit_val_def)

lemma read_digits_app [simp]: "read_digits acc (a @ b) = read_digits (read_digits acc a) b"
  by (induction a arbitrary: acc) auto

lemma read_nat_digits [simp]: "read_digits 0 (nat_digits n) = n"
proof (induction n rule: nat_digits.induct)
  case (1 n)
  then show ?case
    by (cases "n < 10") (auto simp: nat_digits.simps [of n])
qed

lemma nat_digits_digits: "\<forall>c \<in> set (nat_digits n). is_digit c"
proof (induction n rule: nat_digits.induct)
  case (1 n)
  then show ?case
    by (cases "n < 10") (auto simp: nat_digits.simps [of n])
qed

lemma nat_digits_not_Nil [simp]: "nat_digits n \<noteq> []"
  by (subst nat_digits.simps) simp

lemma digits_okI: "(\<forall>c \<in> set s. is_digit c) \<Longrightarrow> prev \<or> s \<noteq> [] \<Longrightarrow> digits_ok prev s"
  by (induction s arbitrary: prev) auto

lemma filter_nat_digits [simp]: "filter is_digit (nat_digits n) = nat_digits n"
  using nat_digits_digits by (simp add: filter_id_conv)

lemma read_unsigned_nat_digits [simp]: "read_unsigned (nat_digits n) = Some (int n)"
  using nat_digits_digits [of n] by (simp add: read_unsigned_def digits_okI)

lemma is_digit_not_space: "is_digit c \<Longrightarrow> \<not> py_space c"
  by (auto simp: is_digit_def py_space_def Let_def)

lemma is_digit_neq [simp]:
  "is_digit c \<Longrightarrow> c \<noteq> CHR ''-''" "is_digit c \<Longrightarrow> c \<noteq> CHR ''+''" "is_digit c \<Longrightarrow> c \<noteq> CHR ''_''"
  "is_digit c \<Longrightarrow> c \<noteq> CHR ''.''"
  by (auto simp: is_digit_def)

lemma not_space_minus [simp]: "\<not> py_space CHR ''-''"
  by (simp add: py_space_def)

lemma strip_str_of_int [simp]: "strip (str_of_int n) = str_of_int n"
  by (rule strip_id) (auto simp: str_of_int_def dest!: nat_digits_digits [rule_format]
      simp: is_digit_not_space)

text \<open>Printing an integer and reading it back is the identity.\<close>

lemma py_int_str_of_int [simp]: "py_int (str_of_int n) = Some n"
proof (cases "n < 0")
  case True
  then have s: "str_of_int n = CHR ''-'' # nat_digits (nat (- n))"
    by (simp add: str_of_int_def)
  show ?thesis
    unfolding py_int_def strip_str_of_int unfolding s using True by simp
next
  case False
  then have s: "str_of_int n = nat_digits (nat n)"
    by (simp add: str_of_int_def)
  obtain c cs where c: "nat_digits (nat n) = c # cs"
    by (meson nat_digits_not_Nil neq_Nil_conv)
  have "is_digit c"
    using nat_digits_digits [of "nat n"] c by simp
  moreover have "read_unsigned (c # cs) = Some n"
    using False read_unsigned_nat_digits [of "nat n"] c by simp
  ultimately show ?thesis
    unfolding py_int_def strip_str_of_int unfolding s c by (simp split: list.split)
qed

section \<open>Dictionaries and optional values\<close>

definition dget :: "'v dict \<Rightarrow> string \<Rightarrow> 'v option" where
  "dget d k = map_of d k"

definition dset :: "string \<Rightarrow> 'v \<Rightarrow> 'v dict \<Rightarrow> 'v dict" where
  "dset k v d = AList.update k v d"

definition ddel :: "string \<Rightarrow> 'v dict \<Rightarrow> 'v dict" where
  "ddel k d = AList.delete k d"

text \<open>\<open>{**d, **e}\<close> and \<open>d.update(e)\<close>.\<close>

definition dmerge :: "'v dict \<Rightarrow> 'v dict \<Rightarrow> 'v dict" where
  "dmerge d e = fold (\<lambda>(k, v). dset k v) e d"

lemma dget_Nil [simp]: "dget [] k = None"
  by (simp add: dget_def)

lemma dget_dset [simp, dict_simps]: "dget (dset k v d) j = (if j = k then Some v else dget d j)"
  by (simp add: dget_def dset_def update_conv')

lemma dget_ddel [simp, dict_simps]: "dget (ddel k d) j = (if j = k then None else dget d j)"
  by (simp add: dget_def ddel_def delete_conv')

lemma fst_dset: "fst ` set (dset k v d) = insert k (fst ` set d)"
  by (simp add: dset_def dom_update)

lemma set_dset: "set (dset k v d) \<subseteq> insert (k, v) (set d)"
  unfolding dset_def by (induction d) auto

lemma dset_memD: "(k, v) \<in> set (dset k' v' d) \<Longrightarrow> (k, v) = (k', v') \<or> (k, v) \<in> set d"
  using set_dset [of k' v' d] by auto

lemma distinct_dset [simp]: "distinct (map fst d) \<Longrightarrow> distinct (map fst (dset k v d))"
  by (simp add: dset_def distinct_update)

lemma distinct_ddel [simp]: "distinct (map fst d) \<Longrightarrow> distinct (map fst (ddel k d))"
  by (simp add: ddel_def distinct_delete)

lemma dget_dmerge [dict_simps]:
  "dget (dmerge d e) k = (case dget (rev e) k of Some v \<Rightarrow> Some v | None \<Rightarrow> dget d k)"
  by (induction e arbitrary: d)
     (auto simp: dmerge_def dget_def dset_def map_add_def update_conv' split: option.splits)

lemma map_of_rev: "distinct (map fst e) \<Longrightarrow> map_of (rev e) = map_of e"
  by (rule map_of_eqI) (auto simp: rev_map [symmetric] set_map_of_compr [symmetric])

lemma dget_dmerge_distinct [dict_simps]:
  "distinct (map fst e) \<Longrightarrow>
     dget (dmerge d e) k = (case dget e k of Some v \<Rightarrow> Some v | None \<Rightarrow> dget d k)"
  by (simp add: dget_dmerge dget_def [of "rev e"] dget_def [of e] map_of_rev)

text \<open>\<open>x or y\<close> on an optional string: \<open>None\<close> and the empty string are both false.\<close>

definition str_or :: "string option \<Rightarrow> string \<Rightarrow> string" where
  "str_or x y = (case x of None \<Rightarrow> y | Some s \<Rightarrow> if s = [] then y else s)"

lemma str_or_simps [simp]:
  "str_or None y = y" "str_or (Some []) y = y" "s \<noteq> [] \<Longrightarrow> str_or (Some s) y = s"
  by (simp_all add: str_or_def)

text \<open>Environment variables: \<open>os.getenv(k, default)\<close>.\<close>

type_synonym env = "string \<Rightarrow> string option"

definition getenv :: "env \<Rightarrow> string \<Rightarrow> string \<Rightarrow> string" where
  "getenv e k d = (case e k of None \<Rightarrow> d | Some v \<Rightarrow> v)"

text \<open>Request headers: names are stored in lower case and looked up case-insensitively.\<close>

type_synonym headers = "string dict"

definition header :: "headers \<Rightarrow> string \<Rightarrow> string option" where
  "header hs k = dget hs (lower k)"

section \<open>Errors\<close>

text \<open>The exceptions the code raises or lets through; the argument is the message where one
  is observed. \<open>LlmProxyError\<close> carries the status, the message, the error type, the code and
  the \<open>retry_after\<close> of \<open>app/llm/errors.py\<close>. \<open>binascii.Error\<close> and the Unicode errors are subclasses of \<open>ValueError\<close>.\<close>

datatype py_error =
    ValueError string
  | RuntimeError string
  | TypeError
  | AttributeError
  | KeyError string
  | OverflowError
  | BinasciiError string
  | UnicodeError string
  | OSError string
  | DatabaseError
  | UniqueViolation
  | HTTPException int string
  | LlmProxyError int string string "string option" "int option"

type_synonym 'a result = "py_error + 'a"

definition bind_result :: "'e + 'a \<Rightarrow> ('a \<Rightarrow> 'e + 'b) \<Rightarrow> 'e + 'b" where
  "bind_result r f = (case r of Inl e \<Rightarrow> Inl e | Inr a \<Rightarrow> f a)"

definition result_option :: "'e + 'a \<Rightarrow> 'a option" where
  "result_option r = (case r of Inl e \<Rightarrow> None | Inr a \<Rightarrow> Some a)"

lemma bind_result_simps [simp]:
  "bind_result (Inl e) f = Inl e" "bind_result (Inr a) f = f a"
  by (simp_all add: bind_result_def)

lemma result_option_simps [simp]:
  "result_option (Inl e) = None" "result_option (Inr a) = Some a"
  by (simp_all add: result_option_def)

text \<open>A loop that calls a fallible function for every element and stops at the first exception.\<close>

fun map_result :: "('a \<Rightarrow> 'b result) \<Rightarrow> 'a list \<Rightarrow> 'b list result" where
  "map_result f [] = Inr []"
| "map_result f (x # xs) = bind_result (f x) (\<lambda>y. bind_result (map_result f xs) (\<lambda>ys. Inr (y # ys)))"

lemma map_result_mem: "map_result f xs = Inr ys \<Longrightarrow> y \<in> set ys \<Longrightarrow> \<exists>x \<in> set xs. f x = Inr y"
  by (induction xs arbitrary: ys) (auto simp: bind_result_def split: sum.splits)

lemma map_result_all2: "map_result f xs = Inr ys \<Longrightarrow> list_all2 (\<lambda>x y. f x = Inr y) xs ys"
  by (induction xs arbitrary: ys) (auto simp: bind_result_def split: sum.splits)

lemma map_result_fails: "x \<in> set xs \<Longrightarrow> f x = Inl e \<Longrightarrow> \<exists>e'. map_result f xs = Inl e'"
  by (induction xs) (auto simp: bind_result_def split: sum.splits)

section \<open>Searching tables\<close>

lemma find_snoc: "find P (xs @ [y]) = (case find P xs of None \<Rightarrow> if P y then Some y else None | r \<Rightarrow> r)"
  by (induction xs) auto

lemma find_map_key:
  "(\<And>r. key (g r) = key r) \<Longrightarrow> find (\<lambda>r. key r = k) (map g rs) = map_option g (find (\<lambda>r. key r = k) rs)"
  by (induction rs) auto

end
