(* ===== verification/Json.thy ===== *)
theory Json
  imports Prelude Complex_Main "HOL-Library.Char_ord" "HOL-Library.List_Lexorder"
begin

text \<open>
  JSON values and the parts of Python's \<open>json\<close> module the server uses: \<open>json.dumps\<close> with
  its separators and \<open>sort_keys\<close>, and \<open>json.loads\<close> as CPython's scanner reads a text
  (white space, escapes, \<open>NaN\<close> and \<open>Infinity\<close>, the last of duplicate keys winning).
  \<open>JFloat\<close> keeps the literal of a number with a fraction or an exponent. A \<open>\u\<close> escape above
  U+00FF denotes a character outside the modelled range and is refused.
  The main result is \<open>loads_dumps\<close>: reading back what was written gives the same value.
\<close>

datatype json =
    JNull
  | JBool bool
  | JInt int
  | JFloat string
  | JStr string
  | JList "json list"
  | JObj "(string \<times> json) list"

section \<open>Python's view of a value\<close>

text \<open>Truth: \<open>None\<close>, \<open>False\<close>, zero and empty containers are false.\<close>

definition float_nonzero :: "string \<Rightarrow> bool" where
  "float_nonzero s =
     list_ex (\<lambda>c. is_digit c \<and> c \<noteq> CHR ''0'' \<or> c = CHR ''N'' \<or> c = CHR ''I'')
       (takeWhile (\<lambda>c. c \<noteq> CHR ''e'' \<and> c \<noteq> CHR ''E'') s)"

fun truthy :: "json \<Rightarrow> bool" where
  "truthy JNull = False"
| "truthy (JBool b) = b"
| "truthy (JInt n) = (n \<noteq> 0)"
| "truthy (JFloat s) = float_nonzero s"
| "truthy (JStr s) = (s \<noteq> [])"
| "truthy (JList xs) = (xs \<noteq> [])"
| "truthy (JObj d) = (d \<noteq> [])"

fun is_obj :: "json \<Rightarrow> bool" where
  "is_obj (JObj _) = True"
| "is_obj _ = False"

fun obj_of :: "json \<Rightarrow> json dict" where
  "obj_of (JObj d) = d"
| "obj_of _ = []"

definition jget :: "json dict \<Rightarrow> string \<Rightarrow> json" where
  "jget d k = (case dget d k of None \<Rightarrow> JNull | Some v \<Rightarrow> v)"

text \<open>\<open>d.get(k) or y\<close>.\<close>

definition jget_or :: "json dict \<Rightarrow> string \<Rightarrow> json \<Rightarrow> json" where
  "jget_or d k y = (if truthy (jget d k) then jget d k else y)"

section \<open>Escapes\<close>

definition hex_digit :: "nat \<Rightarrow> char" where
  "hex_digit d = (if d < 10 then char_of (48 + d) else char_of (87 + d))"

definition hex_val :: "char \<Rightarrow> nat option" where
  "hex_val c = (let n = (of_char c :: nat) in
     if 48 \<le> n \<and> n \<le> 57 then Some (n - 48)
     else if 97 \<le> n \<and> n \<le> 102 then Some (n - 87)
     else if 65 \<le> n \<and> n \<le> 70 then Some (n - 55) else None)"

text \<open>\<open>ensure_ascii\<close>: everything outside the printable ASCII range is escaped.\<close>

definition esc_char :: "char \<Rightarrow> string" where
  "esc_char c = (let n = (of_char c :: nat) in
     if n = 34 then [CHR 0x5C, CHR 0x22]
     else if n = 92 then [CHR 0x5C, CHR 0x5C]
     else if n = 10 then [CHR 0x5C, CHR ''n'']
     else if n = 13 then [CHR 0x5C, CHR ''r'']
     else if n = 9 then [CHR 0x5C, CHR ''t'']
     else if n = 12 then [CHR 0x5C, CHR ''f'']
     else if n = 8 then [CHR 0x5C, CHR ''b'']
     else if 32 \<le> n \<and> n \<le> 126 then [c]
     else [CHR 0x5C, CHR ''u'', CHR ''0'', CHR ''0'', hex_digit (n div 16), hex_digit (n mod 16)])"

definition quote :: "string \<Rightarrow> string" where
  "quote s = CHR 0x22 # concat (map esc_char s) @ [CHR 0x22]"

section \<open>\<open>str()\<close> of a value\<close>

definition repr_char :: "char \<Rightarrow> char \<Rightarrow> string" where
  "repr_char q c = (let n = (of_char c :: nat) in
     if c = q \<or> n = 92 then [CHR 0x5C, c]
     else if n = 9 then [CHR 0x5C, CHR ''t'']
     else if n = 10 then [CHR 0x5C, CHR ''n'']
     else if n = 13 then [CHR 0x5C, CHR ''r'']
     else if n < 32 \<or> (127 \<le> n \<and> n \<le> 160) \<or> n = 173
       then [CHR 0x5C, CHR ''x'', hex_digit (n div 16), hex_digit (n mod 16)]
     else [c])"

definition repr_str :: "string \<Rightarrow> string" where
  "repr_str s = (let q = (if CHR 0x27 \<in> set s \<and> CHR 0x22 \<notin> set s then CHR 0x22 else CHR 0x27)
     in q # concat (map (repr_char q) s) @ [q])"

fun py_repr :: "json \<Rightarrow> string" where
  "py_repr JNull = ''None''"
| "py_repr (JBool b) = (if b then ''True'' else ''False'')"
| "py_repr (JInt n) = str_of_int n"
| "py_repr (JFloat s) = s"
| "py_repr (JStr s) = repr_str s"
| "py_repr (JList xs) = CHR ''['' # join_with '', '' (map py_repr xs) @ [CHR '']'']"
| "py_repr (JObj d) = CHR ''{'' # join_with '', '' (map (\<lambda>(k, v). repr_str k @ '': '' @ py_repr v) d) @ [CHR ''}'']"

definition py_str :: "json \<Rightarrow> string" where
  "py_str j = (case j of JStr s \<Rightarrow> s | _ \<Rightarrow> py_repr j)"

lemma py_str_simps [simp]: "py_str (JStr s) = s" "py_str (JInt n) = str_of_int n"
  by (simp_all add: py_str_def)

text \<open>\<open>str(d.get(k) or "")\<close>.\<close>

definition jstr :: "json dict \<Rightarrow> string \<Rightarrow> string" where
  "jstr d k = (if truthy (jget d k) then py_str (jget d k) else [])"

section \<open>Numbers\<close>

text \<open>The value of a number. A float literal stands for its exact decimal value, infinite when
  it rounds beyond the largest double; booleans are the integers 0 and 1.\<close>

datatype pynum = Fin rat | PosInf | NegInf | NaN

definition decimal_val :: "string \<Rightarrow> rat" where
  "decimal_val s =
     (let ip = takeWhile is_digit s; r = dropWhile is_digit s;
          fp = (case r of c # cs \<Rightarrow> if c = CHR ''.'' then takeWhile is_digit cs else [] | [] \<Rightarrow> []);
          ex = tl (dropWhile (\<lambda>c. c \<noteq> CHR ''e'' \<and> c \<noteq> CHR ''E'') s);
          e = (case py_int ex of None \<Rightarrow> 0 | Some n \<Rightarrow> n);
          m = rat_of_nat (read_digits 0 (ip @ fp)) / 10 ^ length fp
      in if e < 0 then m / 10 ^ nat (- e) else m * 10 ^ nat e)"

definition float_val :: "string \<Rightarrow> pynum" where
  "float_val s =
     (if s = ''NaN'' then NaN
      else let neg = (s \<noteq> [] \<and> hd s = CHR ''-''); b = (if neg then tl s else s)
        in if b = ''Infinity'' \<or> decimal_val b \<ge> 2 ^ 1024 - 2 ^ 970
           then (if neg then NegInf else PosInf)
           else Fin (if neg then - decimal_val b else decimal_val b))"

fun num_of :: "json \<Rightarrow> pynum option" where
  "num_of (JInt n) = Some (Fin (of_int n))"
| "num_of (JBool b) = Some (Fin (if b then 1 else 0))"
| "num_of (JFloat s) = Some (float_val s)"
| "num_of _ = None"

fun num_less :: "pynum \<Rightarrow> pynum \<Rightarrow> bool" where
  "num_less (Fin a) (Fin b) = (a < b)"
| "num_less NegInf (Fin b) = True"
| "num_less (Fin a) PosInf = True"
| "num_less NegInf PosInf = True"
| "num_less _ _ = False"

lemma num_less_int [simp]: "num_less (Fin (of_int a)) (Fin (of_int b)) = (a < b)"
  by simp

text \<open>\<open>int(x)\<close>.\<close>

definition int_error :: "string \<Rightarrow> py_error" where
  "int_error s = ValueError (''invalid literal for int() with base 10: '' @ repr_str s)"

fun trunc_num :: "pynum \<Rightarrow> int result" where
  "trunc_num (Fin r) = Inr (if r < 0 then \<lceil>r\<rceil> else \<lfloor>r\<rfloor>)"
| "trunc_num NaN = Inl (ValueError ''cannot convert float NaN to integer'')"
| "trunc_num _ = Inl OverflowError"

fun json_int :: "json \<Rightarrow> int result" where
  "json_int (JInt n) = Inr n"
| "json_int (JBool b) = Inr (if b then 1 else 0)"
| "json_int (JFloat s) = trunc_num (float_val s)"
| "json_int (JStr s) = (case py_int s of None \<Rightarrow> Inl (int_error s) | Some n \<Rightarrow> Inr n)"
| "json_int _ = Inl TypeError"

section \<open>Access to untyped values\<close>

text \<open>\<open>x in v\<close> for a decoded JSON value: membership of a list or of a dictionary's keys, a
  substring of a string, a \<open>TypeError\<close> otherwise.\<close>

fun py_in :: "string \<Rightarrow> json \<Rightarrow> bool result" where
  "py_in x (JList vs) = Inr (JStr x \<in> set vs)"
| "py_in x (JObj d) = Inr (x \<in> fst ` set d)"
| "py_in x (JStr s) = Inr (contains_sub x s)"
| "py_in x _ = Inl TypeError"

text \<open>\<open>d.get(k, default)\<close> on a value that may not be a dictionary.\<close>

definition py_get :: "json \<Rightarrow> string \<Rightarrow> json \<Rightarrow> json result" where
  "py_get j k d = (case j of JObj m \<Rightarrow> Inr (case dget m k of None \<Rightarrow> d | Some v \<Rightarrow> v) | _ \<Rightarrow> Inl AttributeError)"

text \<open>\<open>for x in v\<close> over a decoded JSON value.\<close>

fun py_iter :: "json \<Rightarrow> json list result" where
  "py_iter (JList xs) = Inr xs"
| "py_iter (JObj d) = Inr (map (\<lambda>(k, v). JStr k) d)"
| "py_iter (JStr s) = Inr (map (\<lambda>c. JStr [c]) s)"
| "py_iter _ = Inl TypeError"

section \<open>\<open>json.dumps\<close>\<close>

text \<open>\<open>sort_keys=True\<close>: the members of every object in the order of their keys.\<close>

fun sort_keys :: "json \<Rightarrow> json" where
  "sort_keys (JList xs) = JList (map sort_keys xs)"
| "sort_keys (JObj d) = JObj (sort_key fst (map (\<lambda>(k, v). (k, sort_keys v)) d))"
| "sort_keys j = j"

fun dumps_with :: "string \<Rightarrow> string \<Rightarrow> json \<Rightarrow> string" where
  "dumps_with isep ksep JNull = ''null''"
| "dumps_with isep ksep (JBool b) = (if b then ''true'' else ''false'')"
| "dumps_with isep ksep (JInt n) = str_of_int n"
| "dumps_with isep ksep (JFloat s) = s"
| "dumps_with isep ksep (JStr s) = quote s"
| "dumps_with isep ksep (JList xs) =
     CHR ''['' # join_with isep (map (dumps_with isep ksep) xs) @ [CHR '']'']"
| "dumps_with isep ksep (JObj d) =
     CHR ''{'' # join_with isep (map (\<lambda>(k, v). quote k @ ksep @ dumps_with isep ksep v) d)
       @ [CHR ''}'']"

text \<open>The default separators, and \<open>separators=(",", ":")\<close>.\<close>

definition dumps :: "json \<Rightarrow> string" where
  "dumps = dumps_with '', '' '': ''"

definition dumps_compact :: "json \<Rightarrow> string" where
  "dumps_compact = dumps_with '','' '':''"

section \<open>\<open>json.loads\<close>\<close>

type_synonym 'a parser = "string \<Rightarrow> ('a \<times> string) option"

definition json_ws :: "char \<Rightarrow> bool" where
  "json_ws c = (c = CHR '' '' \<or> c = CHR 0x09 \<or> c = CHR 0x0A \<or> c = CHR 0x0D)"

definition skip_ws :: "string \<Rightarrow> string" where
  "skip_ws s = dropWhile json_ws s"

definition unescape :: "char \<Rightarrow> char option" where
  "unescape e =
     (if e = CHR 0x22 \<or> e = CHR 0x5C \<or> e = CHR ''/'' then Some e
      else if e = CHR ''n'' then Some (CHR 0x0A)
      else if e = CHR ''r'' then Some (CHR 0x0D)
      else if e = CHR ''t'' then Some (CHR 0x09)
      else if e = CHR ''f'' then Some (CHR 0x0C)
      else if e = CHR ''b'' then Some (CHR 0x08)
      else None)"

definition hex4 :: "char \<Rightarrow> char \<Rightarrow> char \<Rightarrow> char \<Rightarrow> char option" where
  "hex4 a b c d =
     (case (hex_val a, hex_val b, hex_val c, hex_val d) of
        (Some x, Some y, Some z, Some w) \<Rightarrow>
          if x = 0 \<and> y = 0 then Some (char_of (16 * z + w)) else None
      | _ \<Rightarrow> None)"

text \<open>The text after the opening quote.\<close>

fun parse_str :: "string parser" where
  "parse_str [] = None"
| "parse_str (c # cs) =
     (if c = CHR 0x22 then Some ([], cs)
      else if c = CHR 0x5C then
        (case cs of
           [] \<Rightarrow> None
         | e # es \<Rightarrow>
             (if e = CHR ''u'' then
                (case es of
                   h1 # h2 # h3 # h4 # rest \<Rightarrow>
                     (case hex4 h1 h2 h3 h4 of
                        None \<Rightarrow> None
                      | Some x \<Rightarrow> map_option (\<lambda>(s, r). (x # s, r)) (parse_str rest))
                 | _ \<Rightarrow> None)
              else
                (case unescape e of
                   None \<Rightarrow> None
                 | Some x \<Rightarrow> map_option (\<lambda>(s, r). (x # s, r)) (parse_str es))))
      else if (of_char c :: nat) < 32 then None
      else map_option (\<lambda>(s, r). (c # s, r)) (parse_str cs))"

definition parse_digits :: "string \<Rightarrow> string \<times> string" where
  "parse_digits s = (takeWhile is_digit s, dropWhile is_digit s)"

text \<open>The number pattern \<open>(-?(?:0|[1-9]\d*))(\.\d+)?([eE][-+]?\d+)?\<close>.\<close>

definition parse_frac :: "string \<Rightarrow> string \<times> string" where
  "parse_frac s = (case s of
       c # cs \<Rightarrow> if c = CHR ''.'' \<and> takeWhile is_digit cs \<noteq> []
                 then (c # takeWhile is_digit cs, dropWhile is_digit cs) else ([], s)
     | [] \<Rightarrow> ([], s))"

definition parse_exp :: "string \<Rightarrow> string \<times> string" where
  "parse_exp s = (case s of
       c # cs \<Rightarrow>
         (if c = CHR ''e'' \<or> c = CHR ''E'' then
            (let (sg, ds) = (case cs of x # xs \<Rightarrow> if x = CHR ''-'' \<or> x = CHR ''+'' then ([x], xs)
                                                   else ([], cs)
                             | [] \<Rightarrow> ([], cs))
             in if takeWhile is_digit ds \<noteq> []
                then (c # sg @ takeWhile is_digit ds, dropWhile is_digit ds) else ([], s))
          else ([], s))
     | [] \<Rightarrow> ([], s))"

definition parse_unsigned :: "string \<Rightarrow> (string \<times> string) option" where
  "parse_unsigned s = (case s of
       [] \<Rightarrow> None
     | c # cs \<Rightarrow> if c = CHR ''0'' then Some ([c], cs)
                 else if is_digit c then Some (c # takeWhile is_digit cs, dropWhile is_digit cs)
                 else None)"

definition parse_number :: "json parser" where
  "parse_number s =
     (let (neg, body) = (case s of c # cs \<Rightarrow> if c = CHR ''-'' then (True, cs) else (False, s)
                         | [] \<Rightarrow> (False, s))
      in case parse_unsigned body of
           None \<Rightarrow> None
         | Some (ds, r1) \<Rightarrow>
             (let (fr, r2) = parse_frac r1; (ex, r3) = parse_exp r2
              in if fr = [] \<and> ex = []
                 then Some (JInt (if neg then - int (read_digits 0 ds)
                                  else int (read_digits 0 ds)), r3)
                 else Some (JFloat ((if neg then [CHR ''-''] else []) @ ds @ fr @ ex), r3)))"

text \<open>The keywords, tried in the scanner's order.\<close>

definition parse_atom :: "json parser" where
  "parse_atom s =
     (if startswith s ''null'' then Some (JNull, drop 4 s)
      else if startswith s ''true'' then Some (JBool True, drop 4 s)
      else if startswith s ''false'' then Some (JBool False, drop 5 s)
      else case parse_number s of
        Some r \<Rightarrow> Some r
      | None \<Rightarrow>
          (if startswith s ''NaN'' then Some (JFloat ''NaN'', drop 3 s)
           else if startswith s ''Infinity'' then Some (JFloat ''Infinity'', drop 8 s)
           else if startswith s ''-Infinity'' then Some (JFloat ''-Infinity'', drop 9 s)
           else None))"

text \<open>The scanner. The first argument bounds the nesting of calls; a text never needs more
  than twice its length plus one (\<open>parse_fuel_enough\<close>).\<close>

fun parse_value :: "nat \<Rightarrow> json parser"
and parse_elems :: "nat \<Rightarrow> json list parser"
and parse_members :: "nat \<Rightarrow> (string \<times> json) list parser" where
  "parse_value 0 s = None"
| "parse_value (Suc n) s = (case s of
       [] \<Rightarrow> None
     | c # cs \<Rightarrow>
         if c = CHR 0x22 then map_option (\<lambda>(x, r). (JStr x, r)) (parse_str cs)
         else if c = CHR ''{'' then
           (case skip_ws cs of
              [] \<Rightarrow> None
            | d # ds \<Rightarrow> if d = CHR ''}'' then Some (JObj [], ds)
                        else map_option (\<lambda>(m, r). (JObj (dmerge [] m), r)) (parse_members n (d # ds)))
         else if c = CHR ''['' then
           (case skip_ws cs of
              [] \<Rightarrow> None
            | d # ds \<Rightarrow> if d = CHR '']'' then Some (JList [], ds)
                        else map_option (\<lambda>(xs, r). (JList xs, r)) (parse_elems n (d # ds)))
         else parse_atom (c # cs))"
| "parse_elems 0 s = None"
| "parse_elems (Suc n) s =
     (case parse_value n s of
        None \<Rightarrow> None
      | Some (x, r) \<Rightarrow>
          (case skip_ws r of
             [] \<Rightarrow> None
           | d # ds \<Rightarrow>
               if d = CHR '']'' then Some ([x], ds)
               else if d = CHR '','' then
                 map_option (\<lambda>(xs, r'). (x # xs, r')) (parse_elems n (skip_ws ds))
               else None))"
| "parse_members 0 s = None"
| "parse_members (Suc n) s =
     (case s of
        [] \<Rightarrow> None
      | q # qs \<Rightarrow>
          if q \<noteq> CHR 0x22 then None
          else (case parse_str qs of
             None \<Rightarrow> None
           | Some (k, r) \<Rightarrow>
               (case skip_ws r of
                  [] \<Rightarrow> None
                | col # r1 \<Rightarrow>
                    if col \<noteq> CHR '':'' then None
                    else (case parse_value n (skip_ws r1) of
                       None \<Rightarrow> None
                     | Some (v, r2) \<Rightarrow>
                         (case skip_ws r2 of
                            [] \<Rightarrow> None
                          | d # ds \<Rightarrow>
                              if d = CHR ''}'' then Some ([(k, v)], ds)
                              else if d = CHR '','' then
                                map_option (\<lambda>(m, r'). ((k, v) # m, r')) (parse_members n (skip_ws ds))
                              else None)))))"

definition loads :: "string \<Rightarrow> json option" where
  "loads s = (case parse_value (Suc (2 * length s)) (skip_ws s) of
       None \<Rightarrow> None
     | Some (j, r) \<Rightarrow> if skip_ws r = [] then Some j else None)"

section \<open>Round trip\<close>

lemma hex_val_hex_digit [simp]: "d < 16 \<Longrightarrow> hex_val (hex_digit d) = Some d"
  by (auto simp: hex_val_def hex_digit_def Let_def)

lemma hex4_char [simp]:
  "hex4 (CHR ''0'') (CHR ''0'') (hex_digit (of_char c div 16)) (hex_digit (of_char c mod 16)) = Some c"
proof -
  have "of_char c < (256 :: nat)"
    by simp
  then have "of_char c div 16 < (16 :: nat)" and "of_char c mod 16 < (16 :: nat)"
    by (simp_all add: less_mult_imp_div_less)
  moreover have "hex_val (CHR ''0'') = Some 0"
    by (simp add: hex_val_def)
  ultimately show ?thesis
    by (simp add: hex4_def)
qed

lemma parse_str_esc:
  "parse_str (esc_char c @ t) = map_option (\<lambda>(s, r). (c # s, r)) (parse_str t)"
proof -
  have char_eqI: "c = d" if "of_char c = (of_char d :: nat)" for d
    using that by simp
  consider "of_char c = (34::nat)" | "of_char c = (92::nat)" | "of_char c = (10::nat)"
    | "of_char c = (13::nat)" | "of_char c = (9::nat)" | "of_char c = (12::nat)"
    | "of_char c = (8::nat)"
    | (plain) "of_char c \<notin> {34, 92, 10, 13, 9, 12, 8 :: nat}" "32 \<le> (of_char c :: nat)" "of_char c \<le> (126::nat)"
    | (hex) "of_char c \<notin> {34, 92, 10, 13, 9, 12, 8 :: nat}" "\<not> (32 \<le> (of_char c :: nat) \<and> of_char c \<le> (126::nat))"
    by auto
  then show ?thesis
  proof cases
    case plain
    then have "c \<noteq> CHR 0x22" "c \<noteq> CHR 0x5C" by auto
    with plain show ?thesis by (simp add: esc_char_def Let_def)
  next
    case hex
    then have e: "esc_char c = [CHR 0x5C, CHR ''u'', CHR ''0'', CHR ''0'',
        hex_digit (of_char c div 16), hex_digit (of_char c mod 16)]"
      by (simp add: esc_char_def Let_def)
    show ?thesis unfolding e by simp
  next
    case 1 then have "c = CHR 0x22" by (intro char_eqI) simp
    then show ?thesis by (simp add: esc_char_def unescape_def)
  next
    case 2 then have "c = CHR 0x5C" by (intro char_eqI) simp
    then show ?thesis by (simp add: esc_char_def unescape_def)
  next
    case 3 then have "c = CHR 0x0A" by (intro char_eqI) simp
    then show ?thesis by (simp add: esc_char_def unescape_def)
  next
    case 4 then have "c = CHR 0x0D" by (intro char_eqI) simp
    then show ?thesis by (simp add: esc_char_def unescape_def)
  next
    case 5 then have "c = CHR 0x09" by (intro char_eqI) simp
    then show ?thesis by (simp add: esc_char_def unescape_def)
  next
    case 6 then have "c = CHR 0x0C" by (intro char_eqI) simp
    then show ?thesis by (simp add: esc_char_def unescape_def)
  next
    case 7 then have "c = CHR 0x08" by (intro char_eqI) simp
    then show ?thesis by (simp add: esc_char_def unescape_def)
  qed
qed

lemma parse_str_quote [simp]:
  "parse_str (concat (map esc_char s) @ CHR 0x22 # r) = Some (s, r)"
  by (induction s) (simp_all add: parse_str_esc del: parse_str.simps, simp)

definition num_end :: "string \<Rightarrow> bool" where
  "num_end r = (case r of [] \<Rightarrow> True
     | c # _ \<Rightarrow> \<not> is_digit c \<and> c \<noteq> CHR ''.'' \<and> c \<noteq> CHR ''e'' \<and> c \<noteq> CHR ''E'')"

lemma takeWhile_digits_app:
  "\<forall>c \<in> set ds. is_digit c \<Longrightarrow> num_end r \<Longrightarrow>
     takeWhile is_digit (ds @ r) = ds \<and> dropWhile is_digit (ds @ r) = r"
  by (induction ds) (auto simp: num_end_def split: list.splits)

lemmas takeWhile_digits_end = takeWhile_digits_app [of "[]", simplified]

lemma nat_digits_head:
  "nat_digits n = [CHR ''0''] \<and> n = 0 \<or>
   (\<exists>c cs. nat_digits n = c # cs \<and> is_digit c \<and> c \<noteq> CHR ''0'')"
proof (induction n rule: nat_digits.induct)
  case (1 n)
  show ?case
  proof (cases "n < 10")
    case True
    have "char_of (48 + n) \<noteq> CHR ''0''" if "0 < n"
    proof
      assume "char_of (48 + n) = CHR ''0''"
      then have "of_char (char_of (48 + n) :: char) = (of_char (CHR ''0'') :: nat)" by simp
      with True that show False by simp
    qed
    then have "n = 0 \<or> digit_char n \<noteq> CHR ''0''"
      by (auto simp: digit_char_def)
    with True show ?thesis
      using nat_digits.simps [of n] is_digit_digit_char [OF True]
      by (auto simp: digit_char_def)
  next
    case False
    with 1 show ?thesis
      by (auto simp: nat_digits.simps [of n])
  qed
qed

lemma parse_unsigned_digits:
  "num_end r \<Longrightarrow> parse_unsigned (nat_digits n @ r) = Some (nat_digits n, r)"
  using nat_digits_head [of n] nat_digits_digits [of n]
  by (auto simp: parse_unsigned_def takeWhile_digits_end)

lemma parse_frac_end [simp]: "num_end r \<Longrightarrow> parse_frac r = ([], r)"
  by (auto simp: parse_frac_def num_end_def split: list.splits)

lemma parse_exp_end [simp]: "num_end r \<Longrightarrow> parse_exp r = ([], r)"
  by (auto simp: parse_exp_def num_end_def split: list.splits)

lemma parse_number_int: "num_end r \<Longrightarrow> parse_number (str_of_int n @ r) = Some (JInt n, r)"
proof (cases "n < 0")
  case True
  assume "num_end r"
  with True show ?thesis
    by (simp add: parse_number_def str_of_int_def parse_unsigned_digits)
next
  case False
  assume r: "num_end r"
  obtain c cs where c: "nat_digits (nat n) = c # cs" "is_digit c"
    using nat_digits_head [of "nat n"] by (auto simp: is_digit_def)
  then have "c \<noteq> CHR ''-''" by simp
  then have "parse_number (nat_digits (nat n) @ r) = Some (JInt n, r)"
    using False parse_unsigned_digits [OF r, of "nat n"] r read_nat_digits [of "nat n"]
    unfolding c(1) by (simp add: parse_number_def)
  with False show ?thesis by (simp add: str_of_int_def)
qed

text \<open>Values without floats and without duplicate keys.\<close>

fun json_ok :: "json \<Rightarrow> bool" where
  "json_ok (JFloat _) = False"
| "json_ok (JList xs) = list_all json_ok xs"
| "json_ok (JObj d) = (distinct (map fst d) \<and> list_all (\<lambda>(k, v). json_ok v) d)"
| "json_ok _ = True"

definition sep_ok :: "char \<Rightarrow> string \<Rightarrow> bool" where
  "sep_ok c s = (\<exists>ws. s = c # ws \<and> (\<forall>x \<in> set ws. json_ws x))"

lemma sep_ok_default [simp]:
  "sep_ok (CHR '','') '', ''" "sep_ok (CHR '':'') '': ''"
  "sep_ok (CHR '','') '',''" "sep_ok (CHR '':'') '':''"
  by (auto simp: sep_ok_def json_ws_def)

lemma skip_ws_app: "\<forall>x \<in> set ws. json_ws x \<Longrightarrow> skip_ws (ws @ s) = skip_ws s"
  by (induction ws) (auto simp: skip_ws_def)

lemma skip_ws_hd: "\<not> json_ws c \<Longrightarrow> skip_ws (c # s) = c # s"
  by (simp add: skip_ws_def)

lemma json_ws_punct [simp]:
  "\<not> json_ws (CHR '','')" "\<not> json_ws (CHR '':'')" "\<not> json_ws (CHR '']'')" "\<not> json_ws (CHR ''}'')"
  "\<not> json_ws (CHR 0x22)" "\<not> json_ws (CHR ''['')" "\<not> json_ws (CHR ''{'')"
  by (simp_all add: json_ws_def)

lemma num_end_punct [simp]:
  "num_end []" "num_end (CHR '','' # s)" "num_end (CHR '']'' # s)" "num_end (CHR ''}'' # s)"
  by (simp_all add: num_end_def is_digit_def)

lemma str_of_int_head:
  obtains c cs where "str_of_int n = c # cs" "is_digit c \<or> c = CHR ''-''"
  by (cases "str_of_int n")
     (auto simp: str_of_int_def split: if_splits, metis nat_digits_digits list.set_intros(1))

lemma is_digit_letters [simp]:
  "\<not> is_digit (CHR ''n'')" "\<not> is_digit (CHR ''t'')" "\<not> is_digit (CHR ''f'')"
  "\<not> is_digit (CHR 0x22)" "\<not> is_digit (CHR ''{'')" "\<not> is_digit (CHR ''['')"
  "\<not> is_digit (CHR '']'')" "\<not> is_digit (CHR ''}'')"
  by (simp_all add: is_digit_def)

lemma is_digit_not_ws: "is_digit c \<Longrightarrow> \<not> json_ws c"
  by (auto simp: is_digit_def json_ws_def)

lemma dumps_head:
  "json_ok j \<Longrightarrow> \<exists>c cs. dumps_with isep ksep j = c # cs \<and> \<not> json_ws c \<and> c \<noteq> CHR '']'' \<and> c \<noteq> CHR ''}''"
proof (cases j)
  case (JInt n)
  obtain c cs where "str_of_int n = c # cs" "is_digit c \<or> c = CHR ''-''"
    by (rule str_of_int_head)
  with JInt show ?thesis by (auto simp: is_digit_not_ws) (simp_all add: json_ws_def)
qed (auto simp: quote_def json_ws_def)

lemma skip_ws_dumps: "json_ok j \<Longrightarrow> skip_ws (dumps_with isep ksep j @ r) = dumps_with isep ksep j @ r"
  using dumps_head [of j isep ksep] by (auto simp: skip_ws_hd)

lemma parse_atom_int: "num_end r \<Longrightarrow> parse_atom (str_of_int n @ r) = Some (JInt n, r)"
proof -
  assume r: "num_end r"
  obtain c cs where c: "str_of_int n = c # cs" "is_digit c \<or> c = CHR ''-''"
    by (rule str_of_int_head)
  then have "c \<noteq> CHR ''n''" "c \<noteq> CHR ''t''" "c \<noteq> CHR ''f''"
    by auto
  then show ?thesis
    using parse_number_int [OF r, of n] by (simp add: parse_atom_def startswith_def c)
qed

lemma parse_value_int: "num_end r \<Longrightarrow> parse_value (Suc n) (str_of_int i @ r) = Some (JInt i, r)"
proof -
  assume r: "num_end r"
  obtain c cs where c: "str_of_int i = c # cs" "is_digit c \<or> c = CHR ''-''"
    by (rule str_of_int_head)
  then have "c \<noteq> CHR 0x22" "c \<noteq> CHR ''{''" "c \<noteq> CHR ''[''"
    by auto
  then show ?thesis
    using parse_atom_int [OF r, of i] by (simp add: c)
qed

lemma dmerge_distinct: "distinct (map fst d) \<Longrightarrow> dmerge [] d = d"
proof -
  have upd: "AList.update k v e = e @ [(k, v)]" if "k \<notin> fst ` set e" for k and v :: 'a and e
    using that by (induction e) auto
  have "distinct (map fst (e @ d)) \<Longrightarrow> dmerge e d = e @ d" for e
  proof (induction d arbitrary: e)
    case (Cons p d)
    obtain k v where p: "p = (k, v)" by (cases p)
    with Cons.prems have "k \<notin> fst ` set e" by force
    then have "dmerge e (p # d) = dmerge (e @ [p]) d"
      by (simp add: dmerge_def dset_def upd p)
    also have "\<dots> = e @ p # d"
      using Cons.IH [of "e @ [p]"] Cons.prems by simp
    finally show ?case by simp
  qed (simp add: dmerge_def)
  from this [of "[]"] show "distinct (map fst d) \<Longrightarrow> dmerge [] d = d" by simp
qed

lemma join_with_head: "\<exists>t. join_with sep (a # as) = a @ t"
  by (cases as) auto

lemma parse_elems_dumps:
  assumes "sep_ok (CHR '','') isep" and "xs \<noteq> []"
    and "\<And>x n r. x \<in> set xs \<Longrightarrow> num_end r \<Longrightarrow> length (f x) \<le> n \<Longrightarrow>
           parse_value n (f x @ r) = Some (x, r)"
    and "\<And>x r. x \<in> set xs \<Longrightarrow> f x \<noteq> [] \<and> skip_ws (f x @ r) = f x @ r"
    and "Suc (length (join_with isep (map f xs))) \<le> n"
  shows "parse_elems n (join_with isep (map f xs) @ CHR '']'' # r) = Some (xs, r)"
  using assms(2-)
proof (induction xs arbitrary: n rule: induct_list012)
  case (2 x)
  then obtain m where "n = Suc m" by (cases n) auto
  with 2 show ?case by (simp add: skip_ws_hd)
next
  case (3 x y zs)
  obtain ws where ws: "isep = CHR '','' # ws" "\<forall>c \<in> set ws. json_ws c"
    using assms(1) by (auto simp: sep_ok_def)
  obtain m where n: "n = Suc m" using 3 by (cases n) auto
  let ?rest = "join_with isep (map f (y # zs)) @ CHR '']'' # r"
  obtain t where "join_with isep (map f (y # zs)) = f y @ t"
    using join_with_head [of isep "f y" "map f zs"] by auto
  then have "f x \<noteq> []" "skip_ws ?rest = ?rest"
    using "3.prems"(3) [of x] "3.prems"(3) [of y] by simp_all
  moreover have "parse_value m (f x @ CHR '','' # ws @ ?rest) = Some (x, CHR '','' # ws @ ?rest)"
    using "3.prems"(2) [of x "CHR '','' # ws @ ?rest" m] "3.prems"(4) n by simp
  moreover have "parse_elems m ?rest = Some (y # zs, r)"
    using "3.IH"(2) [of m] "3.prems"(2-4) n ws(1) \<open>f x \<noteq> []\<close> by (cases "f x") auto
  ultimately show ?case
    using n ws by (simp add: skip_ws_hd skip_ws_app)
qed simp

lemma parse_members_dumps:
  assumes seps: "sep_ok (CHR '','') isep" "sep_ok (CHR '':'') ksep" and "d \<noteq> []"
    and "\<And>k v n r. (k, v) \<in> set d \<Longrightarrow> num_end r \<Longrightarrow> length (f v) \<le> n \<Longrightarrow>
           parse_value n (f v @ r) = Some (v, r)"
    and "\<And>k v r. (k, v) \<in> set d \<Longrightarrow> skip_ws (f v @ r) = f v @ r"
    and "Suc (length (join_with isep (map (\<lambda>(k, v). quote k @ ksep @ f v) d))) \<le> n"
  shows "parse_members n (join_with isep (map (\<lambda>(k, v). quote k @ ksep @ f v) d) @ CHR ''}'' # r)
    = Some (d, r)"
  using assms(3-)
proof (induction d arbitrary: n rule: induct_list012)
  case (2 x)
  obtain k v where x: "x = (k, v)" by (cases x)
  obtain kws where k: "ksep = CHR '':'' # kws" "\<forall>c \<in> set kws. json_ws c"
    using seps(2) by (auto simp: sep_ok_def)
  obtain m where "n = Suc m" using 2 by (cases n) auto
  moreover have "parse_value m (f v @ CHR ''}'' # r) = Some (v, CHR ''}'' # r)"
    using "2.prems"(2) [of k v "CHR ''}'' # r" m] "2.prems"(4) x k \<open>n = Suc m\<close> by simp
  ultimately show ?case
    using "2.prems"(3) [of k v] x k by (simp add: quote_def skip_ws_hd skip_ws_app)
next
  case (3 x y zs)
  obtain k v where x: "x = (k, v)" by (cases x)
  obtain kws where k: "ksep = CHR '':'' # kws" "\<forall>c \<in> set kws. json_ws c"
    using seps(2) by (auto simp: sep_ok_def)
  obtain ws where ws: "isep = CHR '','' # ws" "\<forall>c \<in> set ws. json_ws c"
    using seps(1) by (auto simp: sep_ok_def)
  obtain m where n: "n = Suc m" using 3 by (cases n) auto
  let ?rest = "join_with isep (map (\<lambda>(k, v). quote k @ ksep @ f v) (y # zs)) @ CHR ''}'' # r"
  have "skip_ws ?rest = ?rest"
    by (cases y; cases zs) (simp_all add: quote_def skip_ws_hd)
  moreover have "parse_value m (f v @ CHR '','' # ws @ ?rest) = Some (v, CHR '','' # ws @ ?rest)"
    using "3.prems"(2) [of k v "CHR '','' # ws @ ?rest" m] "3.prems"(4) n x by simp
  moreover have "parse_members m ?rest = Some (y # zs, r)"
  proof (rule "3.IH"(2))
    show "Suc (length (join_with isep (map (\<lambda>(k, v). quote k @ ksep @ f v) (y # zs)))) \<le> m"
      using "3.prems"(4) n ws(1) x by (simp add: quote_def)
    show "skip_ws (f v @ r) = f v @ r" if "(k, v) \<in> set (y # zs)" for k v r
      using "3.prems"(3) [OF list.set_intros(2), OF that] .
    show "parse_value n (f v @ r) = Some (v, r)"
      if "(k, v) \<in> set (y # zs)" "num_end r" "length (f v) \<le> n" for k v n r
      using "3.prems"(2) [OF list.set_intros(2), OF that] .
  qed simp
  ultimately show ?case
    using "3.prems"(3) [of k v] n ws k x by (simp add: quote_def skip_ws_hd skip_ws_app)
qed simp

lemma parse_value_dumps:
  assumes seps: "sep_ok (CHR '','') isep" "sep_ok (CHR '':'') ksep"
  shows "json_ok j \<Longrightarrow> num_end r \<Longrightarrow> length (dumps_with isep ksep j) \<le> n \<Longrightarrow>
    parse_value n (dumps_with isep ksep j @ r) = Some (j, r)"
proof (induction j arbitrary: n r)
  case JNull
  then show ?case by (cases n) (auto simp: parse_atom_def startswith_def)
next
  case (JBool b)
  then show ?case by (cases n; cases b) (auto simp: parse_atom_def startswith_def)
next
  case (JInt i)
  obtain c cs where "str_of_int i = c # cs" by (rule str_of_int_head)
  with JInt show ?case
    using parse_value_int [OF JInt(2), of "n - 1" i] by (cases n) simp_all
next
  case (JFloat s)
  then show ?case by simp
next
  case (JStr s)
  then show ?case by (cases n) (auto simp: quote_def)
next
  case (JList xs)
  obtain m where n: "n = Suc m" using JList.prems by (cases n) auto
  show ?case
  proof (cases "xs = []")
    case True
    with n show ?thesis by (simp add: skip_ws_hd)
  next
    case False
    let ?f = "dumps_with isep ksep"
    have ok: "json_ok x" if "x \<in> set xs" for x
      using JList.prems that by (auto simp: list_all_iff)
    let ?t = "join_with isep (map ?f xs) @ CHR '']'' # r"
    have "parse_elems m ?t = Some (xs, r)"
    proof (rule parse_elems_dumps [OF seps(1) False])
      show "?f x \<noteq> [] \<and> skip_ws (?f x @ r) = ?f x @ r" if "x \<in> set xs" for x r
        using dumps_head [OF ok [OF that], of isep ksep] skip_ws_dumps [OF ok [OF that], of isep ksep r]
        by (auto simp del: append_is_Nil_conv)
    qed (use JList ok n in auto)
    moreover obtain c cs where "?t = c # cs" "\<not> json_ws c" "c \<noteq> CHR '']''"
      using False dumps_head [OF ok, of "hd xs" isep ksep]
      by (cases xs rule: remdups_adj.cases) auto
    ultimately show ?thesis using n by (simp add: skip_ws_hd)
  qed
next
  case (JObj d)
  obtain m where n: "n = Suc m" using JObj.prems by (cases n) auto
  show ?case
  proof (cases "d = []")
    case True
    with n show ?thesis by (simp add: skip_ws_hd)
  next
    case False
    let ?f = "dumps_with isep ksep"
    have ok: "json_ok v" if "(k, v) \<in> set d" for k v
      using JObj.prems that by (auto simp: list_all_iff)
    let ?t = "join_with isep (map (\<lambda>(k, v). quote k @ ksep @ ?f v) d) @ CHR ''}'' # r"
    have "parse_members m ?t = Some (d, r)"
    proof (rule parse_members_dumps [OF seps False])
      show "parse_value n (?f v @ r) = Some (v, r)"
        if "(k, v) \<in> set d" "num_end r" "length (?f v) \<le> n" for k v n r
        using JObj.IH [of "(k, v)" v] that ok by (auto simp: snds.simps)
      show "skip_ws (?f v @ r) = ?f v @ r" if "(k, v) \<in> set d" for k v r
        using skip_ws_dumps ok that by blast
    qed (use JObj n in auto)
    moreover obtain cs where "?t = CHR 0x22 # cs"
      using False by (cases d rule: remdups_adj.cases) (auto simp: quote_def)
    ultimately show ?thesis
      using n JObj.prems(1) by (simp add: skip_ws_hd dmerge_distinct)
  qed
qed

text \<open>Reading back what was written.\<close>

lemma loads_dumps_with:
  assumes "sep_ok (CHR '','') isep" "sep_ok (CHR '':'') ksep" "json_ok j"
  shows "loads (dumps_with isep ksep j) = Some j"
  using parse_value_dumps [OF assms(1,2,3), of "[]" "Suc (2 * length (dumps_with isep ksep j))"]
    skip_ws_dumps [OF assms(3), of isep ksep "[]"]
  by (simp add: loads_def del: parse_value.simps) (simp add: skip_ws_def)

lemma loads_dumps [simp]: "json_ok j \<Longrightarrow> loads (dumps j) = Some j"
  by (simp add: dumps_def loads_dumps_with)

lemma loads_dumps_compact [simp]: "json_ok j \<Longrightarrow> loads (dumps_compact j) = Some j"
  by (simp add: dumps_compact_def loads_dumps_with)

section \<open>The fuel is enough\<close>

lemma length_skip_ws: "length (skip_ws s) \<le> length s"
  by (simp add: skip_ws_def length_dropWhile_le)

lemma skip_ws_ConsD: "skip_ws s = c # cs \<Longrightarrow> length cs < length s"
  using length_skip_ws [of s] by simp

lemma length_parse_str: "parse_str s = Some (x, r) \<Longrightarrow> length r < length s"
proof (induction s arbitrary: x rule: parse_str.induct)
  case (2 c cs)
  then show ?case
    by (auto split: if_splits list.splits option.splits) fastforce+
qed simp

lemma length_parse_frac: "length (snd (parse_frac s)) \<le> length s"
  by (auto simp: parse_frac_def split: list.splits intro: le_SucI length_dropWhile_le)

lemma length_parse_exp: "length (snd (parse_exp s)) \<le> length s"
  by (auto simp: parse_exp_def Let_def split: list.splits prod.splits
      intro!: le_SucI intro: length_dropWhile_le)

lemma length_parse_unsigned: "parse_unsigned s = Some (ds, r) \<Longrightarrow> length r < length s"
  by (auto simp: parse_unsigned_def length_dropWhile_le less_Suc_eq_le split: list.splits if_splits)

lemma length_parse_number: "parse_number s = Some (j, r) \<Longrightarrow> length r < length s"
proof -
  assume p: "parse_number s = Some (j, r)"
  define body where "body = (case s of c # cs \<Rightarrow> if c = CHR ''-'' then cs else s | [] \<Rightarrow> s)"
  have b: "length body \<le> length s"
    by (auto simp: body_def split: list.splits)
  from p obtain ds r1 where u: "parse_unsigned body = Some (ds, r1)"
    and r: "r = snd (parse_exp (snd (parse_frac r1)))"
    by (cases s) (auto simp: parse_number_def body_def Let_def split: option.splits prod.splits if_splits)
  have "length r \<le> length r1"
    unfolding r using length_parse_exp [of "snd (parse_frac r1)"] length_parse_frac [of r1] by linarith
  with length_parse_unsigned [OF u] b show ?thesis by linarith
qed

lemma length_parse_atom: "parse_atom s = Some (j, r) \<Longrightarrow> length r < length s"
proof -
  assume p: "parse_atom s = Some (j, r)"
  have "s \<noteq> []" if "startswith s (c # t)" for c t
    using that by (auto simp: startswith_def)
  with p show ?thesis
    by (auto simp: parse_atom_def dest: length_parse_number split: if_splits option.splits)
qed

lemma length_parse:
  "(parse_value n s = Some (j, r) \<longrightarrow> length r < length s) \<and>
   (parse_elems n s = Some (xs, r') \<longrightarrow> length r' < length s) \<and>
   (parse_members n s = Some (m, r'') \<longrightarrow> length r'' < length s)"
proof (induction n arbitrary: s j r xs r' m r'')
  case (Suc n)
  have v: "parse_value n s = Some (j, r) \<Longrightarrow> length r < length s"
    and e: "parse_elems n s = Some (xs, r) \<Longrightarrow> length r < length s"
    and b: "parse_members n s = Some (m, r) \<Longrightarrow> length r < length s" for s j r xs m
    using Suc by blast+
  have "length r < length s" if "parse_value (Suc n) s = Some (j, r)"
    using that by (auto split: list.splits if_splits dest!: length_parse_str length_parse_atom skip_ws_ConsD e b)
  moreover have "length r' < length s" if p: "parse_elems (Suc n) s = Some (xs, r')"
  proof -
    from p obtain x t d ds where x: "parse_value n s = Some (x, t)" "skip_ws t = d # ds"
      and "r' = ds \<or> (\<exists>ys. parse_elems n (skip_ws ds) = Some (ys, r'))"
      by (auto split: option.splits list.splits if_splits)
    then have "length r' \<le> length ds"
      using e length_skip_ws [of ds] by (metis le_eq_less_or_eq less_le_trans)
    with v [OF x(1)] skip_ws_ConsD [OF x(2)] show ?thesis by linarith
  qed
  moreover have "length r'' < length s" if p: "parse_members (Suc n) s = Some (m, r'')"
  proof -
    from p obtain q qs k t col r1 w r2 d ds where s: "s = q # qs" "parse_str qs = Some (k, t)"
      "skip_ws t = col # r1" "parse_value n (skip_ws r1) = Some (w, r2)" "skip_ws r2 = d # ds"
      and "r'' = ds \<or> (\<exists>ys. parse_members n (skip_ws ds) = Some (ys, r''))"
      by (auto split: option.splits list.splits if_splits)
    then have "length r'' \<le> length ds"
      using b length_skip_ws [of ds] by (metis le_eq_less_or_eq less_le_trans)
    moreover have "length (skip_ws r1) \<le> length r1" by (rule length_skip_ws)
    ultimately show ?thesis
      using s(1) length_parse_str [OF s(2)] skip_ws_ConsD [OF s(3)] v [OF s(4)] skip_ws_ConsD [OF s(5)]
      by simp
  qed
  ultimately show ?case by blast
qed simp

lemmas length_parse_value = length_parse [THEN conjunct1, rule_format]

text \<open>More fuel than twice the length of the text changes nothing.\<close>

lemma parse_fuel_enough:
  "(2 * length s < n \<longrightarrow> parse_value (Suc n) s = parse_value n s) \<and>
   (2 * length s + 1 < n \<longrightarrow> parse_elems (Suc n) s = parse_elems n s) \<and>
   (2 * length s + 1 < n \<longrightarrow> parse_members (Suc n) s = parse_members n s)"
proof (induction n arbitrary: s)
  case (Suc n)
  have v: "parse_value (Suc n) s = parse_value n s" if "2 * length s < n" for s
    using Suc that by blast
  have e: "parse_elems (Suc n) s = parse_elems n s" if "2 * length s + 1 < n" for s
    using Suc that by blast
  have b: "parse_members (Suc n) s = parse_members n s" if "2 * length s + 1 < n" for s
    using Suc that by blast
  have "parse_value (Suc (Suc n)) s = parse_value (Suc n) s" if "2 * length s < Suc n"
  proof -
    have "2 * length (d # ds) + 1 < n" if "s = c # cs" "skip_ws cs = d # ds" for c cs d ds
      using skip_ws_ConsD [OF that(2)] that(1) \<open>2 * length s < Suc n\<close> by simp
    then show ?thesis
      unfolding parse_value.simps(2) by (auto simp: e b simp del: parse_elems.simps parse_members.simps split: list.split)
  qed
  moreover have "parse_elems (Suc (Suc n)) s = parse_elems (Suc n) s" if "2 * length s + 1 < Suc n"
  proof -
    have "2 * length (skip_ws ds) + 1 < n" if "parse_value n s = Some (x, r)" "skip_ws r = d # ds" for x r d ds
      using length_parse_value [OF that(1)] skip_ws_ConsD [OF that(2)] length_skip_ws [of ds]
        \<open>2 * length s + 1 < Suc n\<close> by linarith
    moreover have "parse_value (Suc n) s = parse_value n s"
      using v that by simp
    ultimately show ?thesis
      unfolding parse_elems.simps(2) [of "Suc n" s] parse_elems.simps(2) [of n s]
      by (auto simp: e simp del: parse_elems.simps parse_value.simps split: list.split option.split)
  qed
  moreover have "parse_members (Suc (Suc n)) s = parse_members (Suc n) s" if L: "2 * length s + 1 < Suc n"
  proof -
    have v': "parse_value (Suc n) (skip_ws r1) = parse_value n (skip_ws r1)"
      if "s = q # qs" "parse_str qs = Some (k, t)" "skip_ws t = col # r1" for q qs k t col r1
      by (rule v) (use that length_parse_str [OF that(2)] skip_ws_ConsD [OF that(3)] length_skip_ws [of r1] L in simp)
    have "2 * length (skip_ws ds) + 1 < n"
      if "s = q # qs" "parse_str qs = Some (k, t)" "skip_ws t = col # r1"
        "parse_value n (skip_ws r1) = Some (w, r2)" "skip_ws r2 = d # ds" for q qs k t col r1 w r2 d ds
      using that length_parse_str [OF that(2)] skip_ws_ConsD [OF that(3)] length_parse_value [OF that(4)]
        length_skip_ws [of r1] skip_ws_ConsD [OF that(5)] length_skip_ws [of ds] L by simp
    with v' show ?thesis
      unfolding parse_members.simps(2) [of "Suc n" s] parse_members.simps(2) [of n s]
      by (auto simp: b simp del: parse_members.simps parse_value.simps split: list.split option.split)
  qed
  ultimately show ?case by blast
qed simp

end
