(* ===== verification/Hash.thy ===== *)
theory Hash
  imports Json "HOL-Library.Word"
begin

text \<open>
  The hash functions of Python's \<open>hashlib\<close> and \<open>hmac\<close> the server calls, on \<^typ>\<open>bytes\<close>:
  SHA-1 and SHA-256 (FIPS 180-4), MD5 (RFC 1321) and HMAC (RFC 2104), over 32-bit words with wrapping
  addition. The theory \<open>Hash_Vectors\<close> checks published test vectors.
\<close>

unbundle bit_operations_syntax

type_synonym w32 = "32 word"

section \<open>Octets and words\<close>

definition word_of_char :: "char \<Rightarrow> w32" where
  "word_of_char c = word_of_int (of_char c)"

definition char_of_word :: "nat \<Rightarrow> w32 \<Rightarrow> char" where
  "char_of_word k w = char_of (uint (drop_bit k w))"

definition be_word :: "bytes \<Rightarrow> w32" where
  "be_word bs = foldl (\<lambda>w c. push_bit 8 w OR word_of_char c) 0 bs"

definition be_bytes :: "w32 \<Rightarrow> bytes" where
  "be_bytes w = map (\<lambda>k. char_of_word k w) [24, 16, 8, 0]"

definition le_bytes :: "w32 \<Rightarrow> bytes" where
  "le_bytes w = map (\<lambda>k. char_of_word k w) [0, 8, 16, 24]"

definition nat_be8 :: "nat \<Rightarrow> bytes" where
  "nat_be8 n = map (\<lambda>k. char_of (drop_bit k (int n))) [56, 48, 40, 32, 24, 16, 8, 0]"

fun chunks :: "nat \<Rightarrow> 'a list \<Rightarrow> 'a list list" where
  "chunks k xs = (if k = 0 \<or> xs = [] then [] else take k xs # chunks k (drop k xs))"

declare chunks.simps [simp del]

definition hexdigest :: "bytes \<Rightarrow> string" where
  "hexdigest bs = concat (map (\<lambda>c. [hex_digit (of_char c div 16), hex_digit (of_char c mod 16)]) bs)"

text \<open>The padding both functions use: a one bit, zeros, the length in bits on eight octets.\<close>

definition md_pad :: "(nat \<Rightarrow> bytes) \<Rightarrow> bytes \<Rightarrow> bytes" where
  "md_pad len8 m =
     m @ [CHR 0x80] @ replicate ((119 - length m mod 64) mod 64) (CHR 0x00) @ len8 (8 * length m)"

section \<open>SHA-256\<close>

definition sha256_K :: "w32 list" where
  "sha256_K = [
     1116352408, 1899447441, 3049323471, 3921009573, 961987163, 1508970993, 2453635748, 2870763221,
     3624381080, 310598401, 607225278, 1426881987, 1925078388, 2162078206, 2614888103, 3248222580,
     3835390401, 4022224774, 264347078, 604807628, 770255983, 1249150122, 1555081692, 1996064986,
     2554220882, 2821834349, 2952996808, 3210313671, 3336571891, 3584528711, 113926993, 338241895,
     666307205, 773529912, 1294757372, 1396182291, 1695183700, 1986661051, 2177026350, 2456956037,
     2730485921, 2820302411, 3259730800, 3345764771, 3516065817, 3600352804, 4094571909, 275423344,
     430227734, 506948616, 659060556, 883997877, 958139571, 1322822218, 1537002063, 1747873779,
     1955562222, 2024104815, 2227730452, 2361852424, 2428436474, 2756734187, 3204031479, 3329325298]"

definition sha256_H :: "w32 list" where
  "sha256_H = [1779033703, 3144134277, 1013904242, 2773480762,
               1359893119, 2600822924, 528734635, 1541459225]"

fun sha256_schedule :: "nat \<Rightarrow> w32 list \<Rightarrow> w32 list" where
  "sha256_schedule 0 ws = ws"
| "sha256_schedule (Suc n) ws =
     (let k = length ws;
          a = ws ! (k - 15); b = ws ! (k - 2);
          s0 = word_rotr 7 a XOR word_rotr 18 a XOR drop_bit 3 a;
          s1 = word_rotr 17 b XOR word_rotr 19 b XOR drop_bit 10 b
      in sha256_schedule n (ws @ [ws ! (k - 16) + s0 + ws ! (k - 7) + s1]))"

fun sha256_round :: "w32 \<times> w32 \<Rightarrow> w32 list \<Rightarrow> w32 list" where
  "sha256_round (k, w) [a, b, c, d, e, f, g, h] =
     (let S1 = word_rotr 6 e XOR word_rotr 11 e XOR word_rotr 25 e;
          ch = (e AND f) XOR (NOT e AND g);
          t1 = h + S1 + ch + k + w;
          S0 = word_rotr 2 a XOR word_rotr 13 a XOR word_rotr 22 a;
          maj = (a AND b) XOR (a AND c) XOR (b AND c)
      in [t1 + S0 + maj, a, b, c, d + t1, e, f, g])"
| "sha256_round _ st = st"

definition sha256_block :: "w32 list \<Rightarrow> bytes \<Rightarrow> w32 list" where
  "sha256_block H bs =
     map2 (+) H (fold sha256_round
       (zip sha256_K (sha256_schedule 48 (map be_word (chunks 4 bs)))) H)"

definition sha256 :: "bytes \<Rightarrow> bytes" where
  "sha256 m = concat (map be_bytes (foldl sha256_block sha256_H (chunks 64 (md_pad nat_be8 m))))"

section \<open>SHA-1\<close>

fun sha1_schedule :: "nat \<Rightarrow> w32 list \<Rightarrow> w32 list" where
  "sha1_schedule 0 ws = ws"
| "sha1_schedule (Suc n) ws =
     (let k = length ws
      in sha1_schedule n
           (ws @ [word_rotl 1 (ws ! (k - 3) XOR ws ! (k - 8) XOR ws ! (k - 14) XOR ws ! (k - 16))]))"

fun sha1_round :: "nat \<times> w32 \<Rightarrow> w32 list \<Rightarrow> w32 list" where
  "sha1_round (i, w) [a, b, c, d, e] =
     (let (f, k) = (if i < 20 then ((b AND c) OR (NOT b AND d), 0x5a827999)
                    else if i < 40 then (b XOR c XOR d, 0x6ed9eba1)
                    else if i < 60 then ((b AND c) OR (b AND d) OR (c AND d), 0x8f1bbcdc)
                    else (b XOR c XOR d, 0xca62c1d6))
      in [word_rotl 5 a + f + e + k + w, a, word_rotl 30 b, c, d])"
| "sha1_round _ st = st"

definition sha1_block :: "w32 list \<Rightarrow> bytes \<Rightarrow> w32 list" where
  "sha1_block H bs =
     map2 (+) H (fold sha1_round (zip [0..<80] (sha1_schedule 64 (map be_word (chunks 4 bs)))) H)"

definition sha1 :: "bytes \<Rightarrow> bytes" where
  "sha1 m = concat (map be_bytes
     (foldl sha1_block [0x67452301, 0xefcdab89, 0x98badcfe, 0x10325476, 0xc3d2e1f0]
       (chunks 64 (md_pad nat_be8 m))))"

section \<open>MD5\<close>

definition md5_K :: "w32 list" where
  "md5_K = [
     0xd76aa478, 0xe8c7b756, 0x242070db, 0xc1bdceee, 0xf57c0faf, 0x4787c62a, 0xa8304613, 0xfd469501,
     0x698098d8, 0x8b44f7af, 0xffff5bb1, 0x895cd7be, 0x6b901122, 0xfd987193, 0xa679438e, 0x49b40821,
     0xf61e2562, 0xc040b340, 0x265e5a51, 0xe9b6c7aa, 0xd62f105d, 0x02441453, 0xd8a1e681, 0xe7d3fbc8,
     0x21e1cde6, 0xc33707d6, 0xf4d50d87, 0x455a14ed, 0xa9e3e905, 0xfcefa3f8, 0x676f02d9, 0x8d2a4c8a,
     0xfffa3942, 0x8771f681, 0x6d9d6122, 0xfde5380c, 0xa4beea44, 0x4bdecfa9, 0xf6bb4b60, 0xbebfbc70,
     0x289b7ec6, 0xeaa127fa, 0xd4ef3085, 0x04881d05, 0xd9d4d039, 0xe6db99e5, 0x1fa27cf8, 0xc4ac5665,
     0xf4292244, 0x432aff97, 0xab9423a7, 0xfc93a039, 0x655b59c3, 0x8f0ccc92, 0xffeff47d, 0x85845dd1,
     0x6fa87e4f, 0xfe2ce6e0, 0xa3014314, 0x4e0811a1, 0xf7537e82, 0xbd3af235, 0x2ad7d2bb, 0xeb86d391]"

definition md5_shift :: "nat \<Rightarrow> nat" where
  "md5_shift i =
     (if i < 16 then [7, 12, 17, 22] ! (i mod 4)
      else if i < 32 then [5, 9, 14, 20] ! (i mod 4)
      else if i < 48 then [4, 11, 16, 23] ! (i mod 4)
      else [6, 10, 15, 21] ! (i mod 4))"

fun md5_round :: "w32 list \<Rightarrow> nat \<Rightarrow> w32 list \<Rightarrow> w32 list" where
  "md5_round m i [a, b, c, d] =
     (let (f, g) = (if i < 16 then ((b AND c) OR (NOT b AND d), i)
                    else if i < 32 then ((d AND b) OR (NOT d AND c), (5 * i + 1) mod 16)
                    else if i < 48 then (b XOR c XOR d, (3 * i + 5) mod 16)
                    else (c XOR (b OR NOT d), (7 * i) mod 16))
      in [d, b + word_rotl (md5_shift i) (f + a + md5_K ! i + m ! g), b, c])"
| "md5_round m i st = st"

definition md5_block :: "w32 list \<Rightarrow> bytes \<Rightarrow> w32 list" where
  "md5_block H bs =
     map2 (+) H (fold (md5_round (map (\<lambda>c. be_word (rev c)) (chunks 4 bs))) [0..<64] H)"

definition md5 :: "bytes \<Rightarrow> bytes" where
  "md5 m = concat (map le_bytes
     (foldl md5_block [0x67452301, 0xefcdab89, 0x98badcfe, 0x10325476]
       (chunks 64 (md_pad (\<lambda>n. rev (nat_be8 n)) m))))"

section \<open>HMAC-SHA-256\<close>

definition xor_byte :: "int \<Rightarrow> char \<Rightarrow> char" where
  "xor_byte k c = char_of (k XOR (of_char c :: int))"

definition hmac_sha256 :: "bytes \<Rightarrow> bytes \<Rightarrow> bytes" where
  "hmac_sha256 key msg =
     (let k0 = (if length key > 64 then sha256 key else key);
          k = k0 @ replicate (64 - length k0) (CHR 0x00)
      in sha256 (map (xor_byte 0x5c) k @ sha256 (map (xor_byte 0x36) k @ msg)))"

section \<open>Lengths\<close>

lemma sha256_round_length: "length (sha256_round kw st) = length st"
  by (cases kw; induction kw st rule: sha256_round.induct) (simp_all add: Let_def)

lemma sha256_rounds_length: "length (fold sha256_round kws st) = length st"
  by (induction kws arbitrary: st) (simp_all add: sha256_round_length)

lemma sha256_blocks_length: "length (foldl sha256_block H bs) = length H" if "length H = 8"
  using that by (induction bs arbitrary: H) (simp_all add: sha256_block_def sha256_rounds_length)

lemma concat_map_length: "(\<And>x. length (f x) = n) \<Longrightarrow> length (concat (map f xs)) = n * length xs"
  by (induction xs) simp_all

lemma sha256_length: "length (sha256 m) = 32"
  by (simp add: sha256_def sha256_blocks_length sha256_H_def concat_map_length [where n = 4] be_bytes_def)

lemma hexdigest_sha256_length: "length (hexdigest (sha256 m)) = 64"
  by (simp add: hexdigest_def concat_map_length [where n = 2] sha256_length)

end
