(* ===== verification/Hash_Vectors.thy ===== *)
theory Hash_Vectors
  imports Hash
begin

text \<open>Published test vectors of the hash functions, evaluated by the simplifier.\<close>

lemma sha256_abc:
  "hexdigest (sha256 ''abc'') = ''ba7816bf8f01cfea414140de5dae2223b00361a396177a9cb410ff61f20015ad''"
  by code_simp

lemma md5_abc: "hexdigest (md5 ''abc'') = ''900150983cd24fb0d6963f7d28e17f72''"
  by code_simp

end
