(* ===== verification/Codec.thy ===== *)
theory Codec
  imports Hash
begin

text \<open>
  Text and byte encodings: UTF-8 and ASCII on the modelled range of characters, base64 with the
  URL-safe alphabet as \<open>b64url_encode\<close> and \<open>b64url_decode\<close> of \<open>app/services/crypto.py\<close>
  use it. The decoder is CPython's \<open>binascii.a2b_base64\<close> in its default, lenient mode:
  characters outside the alphabet are skipped and a complete pad ends the input.
  The main result is the round trip \<open>b64url_roundtrip\<close>.
\<close>

section \<open>ASCII and UTF-8\<close>

definition is_ascii :: "char \<Rightarrow> bool" where
  "is_ascii c = ((of_char c :: nat) < 128)"

definition quoted_ascii :: string where
  "quoted_ascii = [CHR 0x27] @ ''ascii'' @ [CHR 0x27]"

definition ascii_error :: "string \<Rightarrow> py_error" where
  "ascii_error s =
     (let i = length (takeWhile is_ascii s);
          run = takeWhile (\<lambda>c. \<not> is_ascii c) (drop i s);
          n = (of_char (hd run) :: nat)
      in UnicodeError
           (if length run = 1
            then quoted_ascii @ '' codec can'' @ [CHR 0x27] @ ''t encode character '' @
                 [CHR 0x27, CHR 0x5C, CHR ''x'', hex_digit (n div 16), hex_digit (n mod 16), CHR 0x27] @
                 '' in position '' @ str_of_nat i @ '': ordinal not in range(128)''
            else quoted_ascii @ '' codec can'' @ [CHR 0x27] @ ''t encode characters in position '' @
                 str_of_nat i @ ''-'' @ str_of_nat (i + length run - 1) @ '': ordinal not in range(128)''))"

definition ascii_encode :: "string \<Rightarrow> bytes result" where
  "ascii_encode s = (if list_all is_ascii s then Inr s else Inl (ascii_error s))"

definition utf8_char :: "char \<Rightarrow> bytes" where
  "utf8_char c = (let n = (of_char c :: nat) in
     if n < 128 then [c] else [char_of (192 + n div 64), char_of (128 + n mod 64)])"

definition utf8_encode :: "string \<Rightarrow> bytes" where
  "utf8_encode s = concat (map utf8_char s)"

text \<open>A sequence that is not UTF-8, or that encodes a character above U+00FF, is refused.\<close>

fun utf8_decode :: "bytes \<Rightarrow> string option" where
  "utf8_decode [] = Some []"
| "utf8_decode (c # cs) = (let n = (of_char c :: nat) in
     if n < 128 then map_option ((#) c) (utf8_decode cs)
     else if n = 194 \<or> n = 195 then
       (case cs of
          [] \<Rightarrow> None
        | d # ds \<Rightarrow>
            let m = (of_char d :: nat) in
            if 128 \<le> m \<and> m < 192
            then map_option ((#) (char_of ((n - 192) * 64 + (m - 128)))) (utf8_decode ds)
            else None)
     else None)"

text \<open>\<open>json.loads\<close> of bytes in UTF-8, with or without the byte order mark.\<close>

definition loads_bytes :: "bytes \<Rightarrow> json option" where
  "loads_bytes b =
     Option.bind (utf8_decode (if take 3 b = [CHR 0xEF, CHR 0xBB, CHR 0xBF] then drop 3 b else b)) loads"

lemma utf8_decode_char: "utf8_decode (utf8_char c @ s) = map_option ((#) c) (utf8_decode s)"
proof (cases "(of_char c :: nat) < 128")
  case True
  then show ?thesis by (simp add: utf8_char_def)
next
  case False
  let ?n = "of_char c :: nat"
  have n: "?n < 256" "128 \<le> ?n" using False by simp_all
  have "2 \<le> ?n div 64" using div_le_mono [OF n(2), of 64] by simp
  moreover have "?n div 64 < 4" using n(1) by (simp add: less_mult_imp_div_less)
  ultimately have d: "?n div 64 = 2 \<or> ?n div 64 = 3" by linarith
  then have h: "?n div 64 * 64 + ?n mod 64 = ?n" "192 + ?n div 64 < 256" "128 + ?n mod 64 < 256"
    using div_mult_mod_eq [of ?n 64] by auto
  have "char_of (?n div 64 * 64 + ?n mod 64) = c"
    unfolding h by (simp)
  then show ?thesis
    using False d h(2,3) by (auto simp: utf8_char_def Let_def)
qed

lemma utf8_roundtrip [simp]: "utf8_decode (utf8_encode s) = Some s"
  by (induction s) (simp_all add: utf8_encode_def utf8_decode_char)

lemma utf8_encode_ascii: "list_all is_ascii s \<Longrightarrow> utf8_encode s = s"
  by (induction s) (simp_all add: utf8_encode_def utf8_char_def is_ascii_def)

section \<open>Base64\<close>

definition b64_char :: "nat \<Rightarrow> char" where
  "b64_char v =
     (if v < 26 then char_of (65 + v)
      else if v < 52 then char_of (71 + v)
      else if v < 62 then char_of (v - 4)
      else if v = 62 then CHR ''-'' else CHR ''_'')"

text \<open>Both alphabets: \<open>urlsafe_b64decode\<close> first translates \<open>-_\<close> to \<open>+/\<close>.\<close>

definition b64_val :: "char \<Rightarrow> nat option" where
  "b64_val c = (let n = (of_char c :: nat) in
     if 65 \<le> n \<and> n \<le> 90 then Some (n - 65)
     else if 97 \<le> n \<and> n \<le> 122 then Some (n - 71)
     else if 48 \<le> n \<and> n \<le> 57 then Some (n + 4)
     else if c = CHR ''-'' \<or> c = CHR ''+'' then Some 62
     else if c = CHR ''_'' \<or> c = CHR ''/'' then Some 63 else None)"

fun b64_encode :: "bytes \<Rightarrow> string" where
  "b64_encode [] = []"
| "b64_encode [a] = (let x = of_char a in
     [b64_char (x div 4), b64_char (x mod 4 * 16), CHR ''='', CHR ''=''])"
| "b64_encode [a, b] = (let x = of_char a; y = of_char b in
     [b64_char (x div 4), b64_char (x mod 4 * 16 + y div 16), b64_char (y mod 16 * 4), CHR ''=''])"
| "b64_encode (a # b # c # r) = (let x = of_char a; y = of_char b; z = of_char c in
     [b64_char (x div 4), b64_char (x mod 4 * 16 + y div 16), b64_char (y mod 16 * 4 + z div 64),
      b64_char (z mod 64)] @ b64_encode r)"

definition odd_data_error :: "nat \<Rightarrow> py_error" where
  "odd_data_error out = BinasciiError (''Invalid base64-encoded string: number of data characters ('' @
     str_of_nat (out div 3 * 4 + 1) @ '') cannot be 1 more than a multiple of 4'')"

text \<open>The decoder's loop: position in the quadruple, the bits left over, the pads seen, and
  the number of octets written so far.\<close>

fun a2b_base64 :: "nat \<Rightarrow> nat \<Rightarrow> nat \<Rightarrow> nat \<Rightarrow> bytes \<Rightarrow> bytes result" where
  "a2b_base64 q left pads out [] =
     (if q = 0 then Inr []
      else if q = 1 then Inl (odd_data_error out)
      else Inl (BinasciiError ''Incorrect padding''))"
| "a2b_base64 q left pads out (c # cs) =
     (if c = CHR ''='' then
        (if 2 \<le> q then (if 4 \<le> q + (pads + 1) then Inr [] else a2b_base64 q left (pads + 1) out cs)
         else a2b_base64 q left pads out cs)
      else case b64_val c of
        None \<Rightarrow> a2b_base64 q left pads out cs
      | Some v \<Rightarrow>
          (if q = 0 then a2b_base64 1 v 0 out cs
           else if q = 1 then
             bind_result (a2b_base64 2 (v mod 16) 0 (out + 1) cs) (\<lambda>r. Inr (char_of (left * 4 + v div 16) # r))
           else if q = 2 then
             bind_result (a2b_base64 3 (v mod 4) 0 (out + 1) cs) (\<lambda>r. Inr (char_of (left * 16 + v div 4) # r))
           else
             bind_result (a2b_base64 0 0 0 (out + 1) cs) (\<lambda>r. Inr (char_of (left * 64 + v) # r))))"

definition urlsafe_b64decode :: "bytes \<Rightarrow> bytes result" where
  "urlsafe_b64decode b = a2b_base64 0 0 0 0 b"

definition b64url_encode :: "bytes \<Rightarrow> string" where
  "b64url_encode raw = rstrip_char (CHR ''='') (b64_encode raw)"

definition b64url_decode :: "string \<Rightarrow> bytes result" where
  "b64url_decode raw =
     (let pad = replicate ((4 - length raw mod 4) mod 4) (CHR ''='')
      in bind_result (ascii_encode (raw @ pad)) urlsafe_b64decode)"

section \<open>Round trip\<close>

lemma b64_val_char [simp]: "v < 64 \<Longrightarrow> b64_val (b64_char v) = Some v"
  by (auto simp: b64_val_def b64_char_def Let_def)

lemma b64_char_neq_pad [simp]: "b64_char v \<noteq> CHR ''=''"
proof (cases "v < 64")
  case True
  have "b64_val (CHR ''='') = None" by (simp add: b64_val_def)
  with b64_val_char [OF True] show ?thesis by auto
qed (simp add: b64_char_def)

lemma b64_char_neq_dot [simp]: "b64_char v \<noteq> CHR ''.''"
proof (cases "v < 64")
  case True
  have "b64_val (CHR ''.'') = None" by (simp add: b64_val_def)
  with b64_val_char [OF True] show ?thesis by auto
qed (simp add: b64_char_def)

lemma b64_char_ascii [simp]: "is_ascii (b64_char v)"
  by (auto simp: b64_char_def is_ascii_def)

lemma octet_bounds [simp]:
  fixes c :: char
  defines "n \<equiv> (of_char c :: nat)"
  shows "n div 4 < 64" "n mod 4 * 16 < 64" "n mod 16 * 4 < 64" "n div 16 < 16" "n div 64 < 4"
proof -
  have "n < 256" by (simp add: n_def)
  then show "n div 4 < 64" "n mod 4 * 16 < 64" "n mod 16 * 4 < 64" "n div 16 < 16" "n div 64 < 4"
    by auto
qed

lemma octet_joins [simp]:
  fixes a b :: char
  defines "x \<equiv> (of_char a :: nat)" and "y \<equiv> (of_char b :: nat)"
  shows "x mod 4 * 16 + y div 16 < 64" "x mod 16 * 4 + y div 64 < 64"
    "(x mod 4 * 16 + y div 16) div 16 = x mod 4" "(x mod 4 * 16 + y div 16) mod 16 = y div 16"
    "(x mod 16 * 4 + y div 64) div 4 = x mod 16" "(x mod 16 * 4 + y div 64) mod 4 = y div 64"
    "x div 4 * 4 + x mod 4 = x" "x div 16 * 16 + x mod 16 = x" "x div 64 * 64 + x mod 64 = x"
proof -
  have "y < 256" by (simp add: y_def)
  then have "y div 16 < 16" "y div 64 < 4" by auto
  moreover have "x mod 4 < 4" "x mod 16 < 16" by simp_all
  ultimately show "x mod 4 * 16 + y div 16 < 64" "x mod 16 * 4 + y div 64 < 64"
    "(x mod 4 * 16 + y div 16) div 16 = x mod 4" "(x mod 4 * 16 + y div 16) mod 16 = y div 16"
    "(x mod 16 * 4 + y div 64) div 4 = x mod 16" "(x mod 16 * 4 + y div 64) mod 4 = y div 64"
    by simp_all
qed simp_all

lemma a2b_encode: "a2b_base64 0 0 0 out (b64_encode s) = Inr s"
proof (induction s arbitrary: out rule: b64_encode.induct)
  case (4 a b c r)
  then show ?case by (simp add: Let_def)
qed (simp_all add: Let_def)

lemma b64url_encode_simps:
  "b64url_encode [] = []"
  "b64url_encode [a] = (let x = of_char a in [b64_char (x div 4), b64_char (x mod 4 * 16)])"
  "b64url_encode [a, b] = (let x = of_char a; y = of_char b in
     [b64_char (x div 4), b64_char (x mod 4 * 16 + y div 16), b64_char (y mod 16 * 4)])"
  by (simp_all add: b64url_encode_def rstrip_char_def rstrip_by_def Let_def)

lemma rstrip_char_app: "rstrip_char c (xs @ [y]) = (if y = c then rstrip_char c xs else xs @ [y])"
  by (simp add: rstrip_char_def rstrip_by_def)

lemma rstrip_char_keep: "c \<notin> set p \<Longrightarrow> rstrip_char c (p @ s) = p @ rstrip_char c s"
proof (induction s rule: rev_induct)
  case Nil
  then show ?case
    by (cases p rule: rev_cases) (auto simp: rstrip_char_def rstrip_by_def)
next
  case (snoc y s)
  show ?case
    using snoc by (simp add: rstrip_char_app append_assoc [symmetric] del: append_assoc)
qed

lemma b64url_encode_step:
  "b64url_encode (a # b # c # r) = (let x = of_char a; y = of_char b; z = of_char c in
     [b64_char (x div 4), b64_char (x mod 4 * 16 + y div 16), b64_char (y mod 16 * 4 + z div 64),
      b64_char (z mod 64)] @ b64url_encode r)"
  by (simp only: b64url_encode_def b64_encode.simps Let_def, subst rstrip_char_keep)
     (simp_all add: eq_commute [of "CHR ''=''"])

lemma b64url_pad:
  "b64url_encode s @ replicate ((4 - length (b64url_encode s) mod 4) mod 4) (CHR ''='') = b64_encode s"
proof (induction s rule: b64_encode.induct)
  case (4 a b c r)
  moreover have "Suc (Suc (Suc (Suc n))) mod 4 = n mod 4" for n :: nat
    using mod_add_self2 [of n 4] by simp
  ultimately show ?case by (simp add: b64url_encode_step Let_def del: replicate.simps)
qed (simp_all add: b64url_encode_simps Let_def numeral_2_eq_2)

lemma b64_encode_ascii: "list_all is_ascii (b64_encode s)"
  by (induction s rule: b64_encode.induct) (simp_all add: Let_def, simp_all add: is_ascii_def)

lemma b64url_no_dot: "CHR ''.'' \<notin> set (b64url_encode s)"
proof -
  have "CHR ''.'' \<notin> set (b64_encode s)"
    by (induction s rule: b64_encode.induct) (simp_all add: Let_def eq_commute [of "CHR ''.''"])
  then show ?thesis by (metis Un_iff b64url_pad set_append)
qed

lemma b64url_ascii [simp]: "list_all is_ascii (b64url_encode s)"
  using b64_encode_ascii [of s] unfolding b64url_pad [of s, symmetric] by simp

lemma utf8_b64url [simp]: "utf8_encode (b64url_encode s) = b64url_encode s"
  by (simp add: utf8_encode_ascii)

lemma b64url_roundtrip [simp]: "b64url_decode (b64url_encode s) = Inr s"
  unfolding b64url_decode_def Let_def b64url_pad ascii_encode_def
  by (simp add: b64_encode_ascii a2b_encode urlsafe_b64decode_def)

lemma urlsafe_b64_roundtrip [simp]: "urlsafe_b64decode (b64_encode s) = Inr s"
  by (simp add: urlsafe_b64decode_def a2b_encode)

end
