(* ===== verification/Crypto.thy ===== *)
theory Crypto
  imports Codec
begin

text \<open>
  \<open>app/services/crypto.py\<close>: hashing of relay keys, the telemetry token helpers, recognition
  and masking of secrets, and the encryption of secret overrides at rest. \<open>cryptography\<close>'s
  Fernet is not part of the repository: its two operations are the arguments \<open>enc\<close> (the random
  initialisation vector, the key, the plain text) and \<open>dec\<close>.
\<close>

section \<open>Definitions\<close>

definition hash_relay_secret :: "string \<Rightarrow> string \<Rightarrow> string \<Rightarrow> string" where
  "hash_relay_secret cid key pepper =
     hexdigest (sha256 (utf8_encode (cid @ '':'' @ key @ '':'' @ pepper)))"

text \<open>\<open>mint_telemetry_token\<close> and \<open>verify_telemetry_token\<close>; every exception of the latter
  gives \<open>None\<close>, the value also returned for a refused token.\<close>

definition telemetry_claims :: "int \<Rightarrow> int \<Rightarrow> string \<Rightarrow> string \<Rightarrow> string \<Rightarrow> json dict" where
  "telemetry_claims now ttl cuuid dev prof =
     [(''client_uuid'', JStr cuuid), (''device_name'', JStr dev), (''profile'', JStr prof),
      (''iat'', JInt now), (''exp'', JInt (now + ttl))]"

definition mint_telemetry_token :: "timestamp \<Rightarrow> int \<Rightarrow> string \<Rightarrow> string \<Rightarrow> string \<Rightarrow> string \<Rightarrow> string" where
  "mint_telemetry_token t ttl signing_key cuuid dev prof =
     (let raw = utf8_encode (dumps_compact (JObj (telemetry_claims (int_time t) ttl cuuid dev prof)));
          sig = hmac_sha256 (utf8_encode signing_key) raw
      in b64url_encode raw @ ''.'' @ b64url_encode sig)"

definition verify_telemetry_token :: "timestamp \<Rightarrow> string \<Rightarrow> string \<Rightarrow> json option" where
  "verify_telemetry_token t signing_key token =
     (case split_on (CHR ''.'') token of
        [p, s] \<Rightarrow>
          (case (b64url_decode p, b64url_decode s) of
             (Inr raw, Inr sig) \<Rightarrow>
               if sig \<noteq> hmac_sha256 (utf8_encode signing_key) raw then None
               else (case loads_bytes raw of
                  Some (JObj claims) \<Rightarrow>
                    (case num_of (case dget claims ''exp'' of None \<Rightarrow> JInt 0 | Some v \<Rightarrow> v) of
                       None \<Rightarrow> None
                     | Some e \<Rightarrow> if num_less e (Fin (of_int (int_time t))) then None
                                 else Some (JObj claims))
                | _ \<Rightarrow> None)
           | _ \<Rightarrow> None)
      | _ \<Rightarrow> None)"

definition SECRET_CONFIG_KEYS :: "string list" where
  "SECRET_CONFIG_KEYS = [''llm_api_tokens'', ''llmToken'', ''tokenOWUI'', ''telemetryKey'',
     ''keycloak_client_secret'', ''keycloakClientSecret'']"

definition SENSITIVE_ENV_VARS :: "string list" where
  "SENSITIVE_ENV_VARS = [''ADMIN_SESSION_SECRET'', ''ADMIN_OIDC_CLIENT_SECRET'',
     ''DM_RELAY_SECRET_PEPPER'', ''DM_CONFIG_SECRET_KEY'', ''DM_RELAY_PROXY_SHARED_TOKEN'',
     ''DM_TELEMETRY_TOKEN_SIGNING_KEY'', ''DM_TELEMETRY_UPSTREAM_KEY'', ''DM_QUEUE_ADMIN_TOKEN'',
     ''LLM_API_TOKEN'', ''AWS_SECRET_ACCESS_KEY'', ''DATABASE_URL'', ''DATABASE_ADMIN_URL'',
     ''POSTGRES_PASSWORD'', ''DB_ADMIN_PASSWORD'', ''TELEMETRY_KEY'', ''TELEMETRY_SALT'']"

definition sensitive_config_keys :: "string list" where
  "sensitive_config_keys = map lower SECRET_CONFIG_KEYS @ [''telemetry_salt'']"

definition sensitive_substrings :: "string list" where
  "sensitive_substrings = [''secret'', ''token'', ''password'', ''passwd'', ''pepper'',
     ''credential'', ''private_key'', ''signing_key'', ''api_key'', ''apikey'']"

definition is_sensitive_key :: "string \<Rightarrow> bool" where
  "is_sensitive_key key =
     (if key = [] then False
      else let k = strip key; kl = lower k
        in k \<in> set SENSITIVE_ENV_VARS \<or> kl \<in> set sensitive_config_keys \<or>
           list_ex (\<lambda>s. contains_sub s kl) sensitive_substrings)"

definition mask_secret :: "string \<Rightarrow> string" where
  "mask_secret val =
     (if val = [] then val
      else ''*** ('' @ str_of_nat (length val) @ '' chars, sha256:'' @
           take 8 (hexdigest (sha256 (utf8_encode val))) @ '')'')"

section \<open>Secrets at rest\<close>

text \<open>\<open>_config_fernet\<close> with its cache: a Fernet instance is represented by its key.\<close>

type_synonym fernet_cache = "(string \<times> bytes) option"
type_synonym fernet_enc = "bytes \<Rightarrow> bytes \<Rightarrow> bytes \<Rightarrow> bytes"
type_synonym fernet_dec = "bytes \<Rightarrow> bytes \<Rightarrow> bytes option"

definition fernet_key :: "string \<Rightarrow> bytes" where
  "fernet_key raw = b64_encode (sha256 (utf8_encode raw))"

definition config_fernet :: "bool \<Rightarrow> env \<Rightarrow> fernet_cache \<Rightarrow> bytes option \<times> fernet_cache" where
  "config_fernet has_fernet e cache =
     (if \<not> has_fernet then (None, cache)
      else let raw = getenv e ''DM_CONFIG_SECRET_KEY'' []
        in if raw = [] then (None, cache)
           else case cache of
             Some (r, f) \<Rightarrow> if r = raw then (Some f, cache) else (Some (fernet_key raw), Some (raw, fernet_key raw))
           | None \<Rightarrow> (Some (fernet_key raw), Some (raw, fernet_key raw)))"

definition secrets_encryption_available :: "bool \<Rightarrow> env \<Rightarrow> fernet_cache \<Rightarrow> bool \<times> fernet_cache" where
  "secrets_encryption_available has_fernet e cache =
     (let (f, c) = config_fernet has_fernet e cache in (f \<noteq> None, c))"

definition ENC_PREFIX :: string where
  "ENC_PREFIX = ''enc:v1:''"

definition encrypt_secret ::
  "fernet_enc \<Rightarrow> bytes \<Rightarrow> bool \<Rightarrow> env \<Rightarrow> fernet_cache \<Rightarrow> string \<Rightarrow> string result \<times> fernet_cache" where
  "encrypt_secret enc iv has_fernet e cache plaintext =
     (case config_fernet has_fernet e cache of
        (None, c) \<Rightarrow> (Inl (RuntimeError (''secret encryption unavailable: set DM_CONFIG_SECRET_KEY '' @
                          ''(and ensure '' @ [CHR 0x27] @ ''cryptography'' @ [CHR 0x27] @ '' is installed)'')), c)
      | (Some f, c) \<Rightarrow> (bind_result (ascii_encode (enc iv f (utf8_encode plaintext)))
                          (\<lambda>tok. Inr (ENC_PREFIX @ tok)), c))"

definition decrypt_secret ::
  "fernet_dec \<Rightarrow> bool \<Rightarrow> env \<Rightarrow> fernet_cache \<Rightarrow> string \<Rightarrow> string result \<times> fernet_cache" where
  "decrypt_secret dec has_fernet e cache stored =
     (if stored = [] \<or> \<not> startswith stored ENC_PREFIX then (Inr stored, cache)
      else case config_fernet has_fernet e cache of
        (None, c) \<Rightarrow> (Inl (RuntimeError ''cannot decrypt secret: DM_CONFIG_SECRET_KEY missing''), c)
      | (Some f, c) \<Rightarrow>
          (bind_result (ascii_encode (drop (length ENC_PREFIX) stored)) (\<lambda>tok.
             case dec f tok of
               None \<Rightarrow> Inl (RuntimeError ''secret decryption failed (wrong DM_CONFIG_SECRET_KEY?)'')
             | Some p \<Rightarrow> (case utf8_decode p of None \<Rightarrow> Inl (UnicodeError ''utf-8'') | Some s \<Rightarrow> Inr s)), c))"

definition is_encrypted_secret :: "string \<Rightarrow> bool" where
  "is_encrypted_secret stored = (stored \<noteq> [] \<and> startswith stored ENC_PREFIX)"

text \<open>The cache always holds the key derived from the environment value it is filed under.\<close>

definition fernet_cache_ok :: "fernet_cache \<Rightarrow> bool" where
  "fernet_cache_ok c = (case c of None \<Rightarrow> True | Some (raw, f) \<Rightarrow> f = fernet_key raw)"

lemma config_fernet_cached:
  "fernet_cache_ok c \<Longrightarrow>
     fst (config_fernet h e c) =
       (if h \<and> getenv e ''DM_CONFIG_SECRET_KEY'' [] \<noteq> []
        then Some (fernet_key (getenv e ''DM_CONFIG_SECRET_KEY'' [])) else None) \<and>
     fernet_cache_ok (snd (config_fernet h e c))"
  by (auto simp: config_fernet_def fernet_cache_ok_def Let_def split: option.splits)

section \<open>Properties\<close>

lemma telemetry_claims_ok [simp]: "json_ok (JObj (telemetry_claims now ttl c d p))"
  by (simp add: telemetry_claims_def)

lemma esc_char_ascii: "list_all is_ascii (esc_char c)"
proof -
  let ?n = "of_char c :: nat"
  have h: "is_ascii (hex_digit d)" if "d < 16" for d
    using that by (simp add: hex_digit_def is_ascii_def)
  have n: "?n < 256" by simp
  then have "?n div 16 < 16" by (simp add: less_mult_imp_div_less)
  then show ?thesis
    by (auto simp: esc_char_def Let_def h) (auto simp: is_ascii_def)
qed

lemma list_all_concat_map: "(\<And>x. x \<in> set xs \<Longrightarrow> list_all P (f x)) \<Longrightarrow> list_all P (concat (map f xs))"
  by (induction xs) auto

lemma quote_ascii: "list_all is_ascii (quote s)"
  by (simp add: quote_def list_all_concat_map esc_char_ascii is_ascii_def [of "CHR 0x22"])

lemma list_all_join:
  "list_all P sep \<Longrightarrow> (\<And>x. x \<in> set xs \<Longrightarrow> list_all P x) \<Longrightarrow> list_all P (join_with sep xs)"
  by (induction sep xs rule: join_with.induct) auto

lemma str_of_int_ascii: "list_all is_ascii (str_of_int n)"
proof -
  have "is_ascii c" if "is_digit c" for c
    using that by (simp add: is_digit_def is_ascii_def Let_def)
  then show ?thesis
    using nat_digits_digits
    by (auto simp: str_of_int_def list_all_iff) (simp add: is_ascii_def)
qed

lemma is_ascii_punct [simp]:
  "is_ascii (CHR ''['')" "is_ascii (CHR '']'')" "is_ascii (CHR ''{'')" "is_ascii (CHR ''}'')"
  "is_ascii (CHR '','')" "is_ascii (CHR '':'')" "is_ascii (CHR '' '')"
  by (simp_all add: is_ascii_def)

text \<open>\<open>ensure_ascii\<close>: what \<open>json.dumps\<close> writes is ASCII, so encoding it changes nothing.\<close>

lemma dumps_ascii:
  assumes "list_all is_ascii isep" "list_all is_ascii ksep"
  shows "json_ok j \<Longrightarrow> list_all is_ascii (dumps_with isep ksep j)"
proof (induction j)
  case (JList xs)
  then have "list_all is_ascii (join_with isep (map (dumps_with isep ksep) xs))"
    using assms by (intro list_all_join) (auto simp: list_all_iff)
  then show ?case by simp
next
  case (JObj d)
  have "list_all is_ascii (join_with isep (map (\<lambda>(k, v). quote k @ ksep @ dumps_with isep ksep v) d))"
  proof (rule list_all_join)
    fix x assume "x \<in> set (map (\<lambda>(k, v). quote k @ ksep @ dumps_with isep ksep v) d)"
    then obtain k v where kv: "(k, v) \<in> set d" "x = quote k @ ksep @ dumps_with isep ksep v"
      by auto
    then have "json_ok v" using JObj.prems by (auto simp: list_all_iff)
    with JObj.IH [of "(k, v)" v] kv assms show "list_all is_ascii x"
      by (auto simp: quote_ascii snds.simps)
  qed (rule assms)
  then show ?case by simp
qed (auto simp: quote_ascii str_of_int_ascii is_ascii_def)

lemma utf8_dumps_compact [simp]: "json_ok j \<Longrightarrow> utf8_encode (dumps_compact j) = dumps_compact j"
  by (simp add: utf8_encode_ascii dumps_compact_def dumps_ascii)

lemma utf8_dumps [simp]: "json_ok j \<Longrightarrow> utf8_encode (dumps j) = dumps j"
  by (simp add: utf8_encode_ascii dumps_def dumps_ascii)

lemma utf8_decode_dumps_compact: "json_ok j \<Longrightarrow> utf8_decode (dumps_compact j) = Some (dumps_compact j)"
  using utf8_roundtrip [of "dumps_compact j"] by (simp del: utf8_roundtrip)

lemma loads_bytes_dumps_compact [simp]:
  assumes "json_ok j"
  shows "loads_bytes (dumps_compact j) = Some j"
proof -
  obtain c cs where c: "dumps_compact j = c # cs"
    using dumps_head [OF assms, of "'',''" "'':''"] by (auto simp: dumps_compact_def)
  have "list_all is_ascii (dumps_compact j)"
    using assms by (simp add: dumps_compact_def dumps_ascii)
  then have "c \<noteq> CHR 0xEF" by (auto simp: c is_ascii_def)
  then have "take 3 (dumps_compact j) \<noteq> [CHR 0xEF, CHR 0xBB, CHR 0xBF]" by (simp add: c)
  with assms show ?thesis by (simp add: loads_bytes_def utf8_decode_dumps_compact)
qed

lemma split_on_two: "c \<notin> set a \<Longrightarrow> c \<notin> set b \<Longrightarrow> split_on c (a @ c # b) = [a, b]"
  by (simp add: split_on_app split_on_no_sep)

text \<open>A telemetry token minted with a signing key is accepted with that key and gives
  back its claims until its expiry second has passed, and is refused afterwards.\<close>

theorem telemetry_token_roundtrip:
  "verify_telemetry_token t' key (mint_telemetry_token t ttl key c d p) =
     (if int_time t + ttl < int_time t' then None
      else Some (JObj (telemetry_claims (int_time t) ttl c d p)))"
proof -
  let ?raw = "dumps_compact (JObj (telemetry_claims (int_time t) ttl c d p))"
  let ?cl = "telemetry_claims (int_time t) ttl c d p"
  have e: "dget ?cl ''exp'' = Some (JInt (int_time t + ttl))"
    by (simp add: telemetry_claims_def dget_def)
  have m: "mint_telemetry_token t ttl key c d p =
      b64url_encode ?raw @ CHR ''.'' # b64url_encode (hmac_sha256 (utf8_encode key) ?raw)"
    by (simp add: mint_telemetry_token_def Let_def utf8_dumps_compact [OF telemetry_claims_ok]
        del: json_ok.simps)
  show ?thesis
    unfolding verify_telemetry_token_def m split_on_two [OF b64url_no_dot b64url_no_dot]
    by (simp add: e loads_bytes_dumps_compact [OF telemetry_claims_ok] del: json_ok.simps)
qed

text \<open>The Fernet instance an environment gives, whatever the cache holds.\<close>

definition env_fernet :: "bool \<Rightarrow> env \<Rightarrow> bytes option" where
  "env_fernet h e = (let raw = getenv e ''DM_CONFIG_SECRET_KEY'' []
     in if h \<and> raw \<noteq> [] then Some (fernet_key raw) else None)"

lemma config_fernet_env: "fernet_cache_ok c \<Longrightarrow> \<exists>c'. config_fernet h e c = (env_fernet h e, c')"
  using config_fernet_cached [of c h e] by (cases "config_fernet h e c") (simp add: env_fernet_def Let_def)

lemma length_prefix: "length ENC_PREFIX = 7"
  by (simp add: ENC_PREFIX_def)

lemma decrypt_cases:
  assumes "fernet_cache_ok c"
  shows "fst (decrypt_secret dec h e c stored) =
    (if \<not> is_encrypted_secret stored then Inr stored
     else case env_fernet h e of
       None \<Rightarrow> Inl (RuntimeError ''cannot decrypt secret: DM_CONFIG_SECRET_KEY missing'')
     | Some k \<Rightarrow>
         let tok = drop 7 stored
         in if \<not> list_all is_ascii tok then Inl (ascii_error tok)
            else case dec k tok of
              None \<Rightarrow> Inl (RuntimeError ''secret decryption failed (wrong DM_CONFIG_SECRET_KEY?)'')
            | Some p \<Rightarrow> (case utf8_decode p of None \<Rightarrow> Inl (UnicodeError ''utf-8'') | Some s \<Rightarrow> Inr s))"
  using config_fernet_env [OF assms, of h e]
  by (auto simp: decrypt_secret_def is_encrypted_secret_def ascii_encode_def length_prefix Let_def
      split: option.split)

text \<open>Property C5. A secret override written with \<open>encrypt_secret\<close> is recognised as encrypted, and
  \<open>decrypt_secret\<close> reads it back unchanged in every environment that gives the same Fernet key and
  reports a failed decryption in every environment that gives another one, whatever the state of the two
  caches; without a key nothing is encrypted and no encrypted value is read. For every stored value, a
  corrupt or foreign one included, the outcome of \<open>decrypt_secret\<close> is determined: no prefix, the value
  itself; no key, a \<open>RuntimeError\<close>; a token that is not ASCII, a \<open>UnicodeError\<close>; a token Fernet
  rejects, a \<open>RuntimeError\<close>; otherwise the UTF-8 text of what Fernet returns. Fernet is assumed to
  decrypt what it encrypted under the same key, to reject it under another, and to produce ASCII.\<close>

theorem secret_at_rest_roundtrip:
  assumes fernet: "\<And>iv k m. dec k (enc iv k m) = Some m" "\<And>iv k k' m. k' \<noteq> k \<Longrightarrow> dec k' (enc iv k m) = None"
      "\<And>iv k m. list_all is_ascii (enc iv k m)"
    and caches: "fernet_cache_ok c1" "fernet_cache_ok c2"
  shows "(case fst (encrypt_secret enc iv h e c1 p) of
       Inr s \<Rightarrow> env_fernet h e \<noteq> None \<and> is_encrypted_secret s \<and>
                fst (decrypt_secret dec h' e' c2 s) =
                  (if env_fernet h' e' = env_fernet h e then Inr p
                   else if env_fernet h' e' = None
                   then Inl (RuntimeError ''cannot decrypt secret: DM_CONFIG_SECRET_KEY missing'')
                   else Inl (RuntimeError ''secret decryption failed (wrong DM_CONFIG_SECRET_KEY?)''))
     | Inl err \<Rightarrow> env_fernet h e = None) \<and>
     fst (decrypt_secret dec h' e' c2 stored) =
       (if \<not> is_encrypted_secret stored then Inr stored
        else case env_fernet h' e' of
          None \<Rightarrow> Inl (RuntimeError ''cannot decrypt secret: DM_CONFIG_SECRET_KEY missing'')
        | Some k \<Rightarrow>
            let tok = drop 7 stored
            in if \<not> list_all is_ascii tok then Inl (ascii_error tok)
               else case dec k tok of
                 None \<Rightarrow> Inl (RuntimeError ''secret decryption failed (wrong DM_CONFIG_SECRET_KEY?)'')
               | Some t \<Rightarrow> (case utf8_decode t of None \<Rightarrow> Inl (UnicodeError ''utf-8'') | Some s \<Rightarrow> Inr s))"
proof (rule conjI)
  show "case fst (encrypt_secret enc iv h e c1 p) of
       Inr s \<Rightarrow> env_fernet h e \<noteq> None \<and> is_encrypted_secret s \<and>
                fst (decrypt_secret dec h' e' c2 s) =
                  (if env_fernet h' e' = env_fernet h e then Inr p
                   else if env_fernet h' e' = None
                   then Inl (RuntimeError ''cannot decrypt secret: DM_CONFIG_SECRET_KEY missing'')
                   else Inl (RuntimeError ''secret decryption failed (wrong DM_CONFIG_SECRET_KEY?)''))
     | Inl err \<Rightarrow> env_fernet h e = None"
  proof (cases "env_fernet h e")
    case None
    with config_fernet_env [OF caches(1), of h e] show ?thesis by (auto simp: encrypt_secret_def)
  next
    case (Some k)
    let ?s = "ENC_PREFIX @ enc iv k (utf8_encode p)"
    have "fst (encrypt_secret enc iv h e c1 p) = Inr ?s"
      using config_fernet_env [OF caches(1), of h e] Some
      by (auto simp: encrypt_secret_def ascii_encode_def fernet(3))
    moreover have s: "is_encrypted_secret ?s" "drop 7 ?s = enc iv k (utf8_encode p)"
      by (simp_all add: is_encrypted_secret_def startswith_def length_prefix) (simp add: ENC_PREFIX_def)
    ultimately show ?thesis
      using Some fernet(1) [of k iv "utf8_encode p"] fernet(2) [of _ k iv "utf8_encode p"]
      by (auto simp: decrypt_cases [OF caches(2)] fernet(3) Let_def split: option.split)
  qed
qed (rule decrypt_cases [OF caches(2)])

text \<open>A stand-in for Fernet that binds the key to the token.\<close>

definition demo_enc :: fernet_enc where
  "demo_enc iv k m = b64url_encode k @ CHR ''.'' # b64url_encode m"

definition demo_dec :: fernet_dec where
  "demo_dec k t = (case split_on (CHR ''.'') t of
       [a, b] \<Rightarrow> if b64url_decode a = Inr k then result_option (b64url_decode b) else None
     | _ \<Rightarrow> None)"

lemma demo_fernet:
  "demo_dec k (demo_enc iv k m) = Some m" "k' \<noteq> k \<Longrightarrow> demo_dec k' (demo_enc iv k m) = None"
  "list_all is_ascii (demo_enc iv k m)"
  by (simp_all add: demo_dec_def demo_enc_def split_on_two b64url_no_dot b64url_ascii result_option_def is_ascii_def [of "CHR ''.''"])

definition key_env :: "string \<Rightarrow> env" where
  "key_env v = (\<lambda>k. if k = ''DM_CONFIG_SECRET_KEY'' then Some v else None)"

theorem secret_at_rest_roundtrip_witness:
  "\<exists>s. fst (encrypt_secret demo_enc [] True (key_env ''key'') None ''hunter2'') = Inr s \<and> is_encrypted_secret s \<and>
     fst (decrypt_secret demo_dec True (key_env ''key'') None s) = Inr ''hunter2'' \<and>
     fst (decrypt_secret demo_dec False (key_env ''key'') None s) =
       Inl (RuntimeError ''cannot decrypt secret: DM_CONFIG_SECRET_KEY missing'')"
proof -
  have k: "env_fernet True (key_env ''key'') = Some (fernet_key ''key'')" "env_fernet False (key_env ''key'') = None"
    "fernet_cache_ok None"
    by (simp_all add: env_fernet_def key_env_def getenv_def fernet_cache_ok_def)
  note r1 = secret_at_rest_roundtrip [where dec = demo_dec and enc = demo_enc and iv = "[]" and h = True and h' = True
      and e = "key_env ''key''" and p = "''hunter2''" and e' = "key_env ''key''", OF demo_fernet k(3) k(3), THEN conjunct1]
  note r2 = secret_at_rest_roundtrip [where dec = demo_dec and enc = demo_enc and iv = "[]" and h = True and h' = False
      and e = "key_env ''key''" and p = "''hunter2''" and e' = "key_env ''key''", OF demo_fernet k(3) k(3), THEN conjunct1]
  obtain s where s: "fst (encrypt_secret demo_enc [] True (key_env ''key'') None ''hunter2'') = Inr s"
    using r1 k by (cases "fst (encrypt_secret demo_enc [] True (key_env ''key'') None ''hunter2'')") simp_all
  from r1 r2 show ?thesis unfolding s sum.case using k by simp
qed

end
