(* ===== verification/Tokens.thy ===== *)
theory Tokens
  imports Crypto Settings "HOL-Library.Multiset"
begin

text \<open>
  Signed bearer tokens: \<open>app/llm/tokens.py\<close> (the \<open>llmToken\<close> of the LLM proxy), the telemetry
  token of \<open>app/main.py\<close>, the error objects of \<open>app/llm/errors.py\<close>, and the extraction and
  comparison of credentials in a request. \<open>uuid4().hex\<close> and the clock are arguments.
\<close>

section \<open>Responses and errors\<close>

record response =
  r_status :: int
  r_body :: json
  r_headers :: "string dict"

definition openai_error :: "int \<Rightarrow> string \<Rightarrow> string \<Rightarrow> string option \<Rightarrow> int option \<Rightarrow> response" where
  "openai_error st msg et code ra =
     \<lparr>r_status = st,
      r_body = JObj ([(''error'', JObj [(''message'', JStr msg), (''type'', JStr et),
                        (''code'', case code of None \<Rightarrow> JNull | Some c \<Rightarrow> JStr c)])] @
                     (case ra of None \<Rightarrow> [] | Some n \<Rightarrow> [(''retry_after'', JInt n)])),
      r_headers = (case ra of None \<Rightarrow> [] | Some n \<Rightarrow> [(''Retry-After'', str_of_int n)])\<rparr>"

definition llm_proxy_error :: "int \<Rightarrow> string \<Rightarrow> string \<Rightarrow> string option \<Rightarrow> int option \<Rightarrow> py_error" where
  "llm_proxy_error st msg et code ra = LlmProxyError st msg et code ra"

fun to_response :: "py_error \<Rightarrow> response option" where
  "to_response (LlmProxyError st msg et code ra) = Some (openai_error st msg et code ra)"
| "to_response _ = None"

text \<open>\<open>LlmProxyError(401, msg, code="invalid_api_key")\<close>.\<close>

definition invalid_api_key :: "string \<Rightarrow> py_error" where
  "invalid_api_key msg = llm_proxy_error 401 msg ''invalid_request_error'' (Some ''invalid_api_key'') None"

section \<open>Credentials of a request\<close>

text \<open>\<open>hmac.compare_digest\<close> on two \<open>str\<close>: only ASCII is accepted.\<close>

definition compare_digest :: "string \<Rightarrow> string \<Rightarrow> bool result" where
  "compare_digest a b = (if list_all is_ascii a \<and> list_all is_ascii b then Inr (a = b) else Inl TypeError)"

definition extract_bearer_token :: "headers \<Rightarrow> string" where
  "extract_bearer_token hs =
     (let auth = strip (str_or (header hs ''authorization'') [])
      in if \<not> startswith (lower auth) ''bearer '' then [] else strip (drop 7 auth))"

definition queue_admin_guard :: "settings \<Rightarrow> headers \<Rightarrow> unit result" where
  "queue_admin_guard cfg hs =
     (let expected = strip (queue_admin_token cfg);
          provided = strip (str_or (header hs ''x-queue-admin-token'') [])
      in if expected = [] then Inl (HTTPException 503 ''Queue admin token is not configured.'')
         else if provided = [] then Inl (HTTPException 401 ''Missing or invalid queue admin token.'')
         else bind_result (compare_digest expected provided) (\<lambda>ok.
           if ok then Inr () else Inl (HTTPException 401 ''Missing or invalid queue admin token.'')))"

section \<open>The LLM token\<close>

definition llm_signing_key :: "env \<Rightarrow> string" where
  "llm_signing_key e = strip (getenv e ''DM_LLM_TOKEN_SIGNING_KEY'' [])"

definition llm_ttl_seconds :: "env \<Rightarrow> int" where
  "llm_ttl_seconds e =
     max 60 (case e ''DM_LLM_TOKEN_TTL_SECONDS'' of
               None \<Rightarrow> 3600
             | Some s \<Rightarrow> (case py_int s of None \<Rightarrow> 3600 | Some n \<Rightarrow> n))"

definition llm_payload :: "string \<Rightarrow> int \<Rightarrow> int \<Rightarrow> string \<Rightarrow> string \<Rightarrow> json dict" where
  "llm_payload jti now ttl cuuid email =
     [(''jti'', JStr jti), (''iat'', JInt now), (''exp'', JInt (now + ttl)),
      (''client_uuid'', JStr cuuid), (''email'', JStr email), (''scope'', JStr ''llm'')]"

definition mint_llm_token :: "env \<Rightarrow> timestamp \<Rightarrow> string \<Rightarrow> string \<Rightarrow> string \<Rightarrow> string \<times> int option" where
  "mint_llm_token e t jti cuuid email =
     (let secret = llm_signing_key e; now = int_time t
      in if secret = [] then ([], None)
         else
           let payload = llm_payload jti now (llm_ttl_seconds e) cuuid email;
               payload_b64 = b64url_encode (utf8_encode (dumps_compact (sort_keys (JObj payload))));
               sig = hmac_sha256 (utf8_encode secret) (utf8_encode payload_b64)
           in (payload_b64 @ ''.'' @ b64url_encode sig, Some (now + llm_ttl_seconds e)))"

definition verify_llm_token :: "env \<Rightarrow> timestamp \<Rightarrow> string \<Rightarrow> json dict result" where
  "verify_llm_token e t token =
     (let secret = llm_signing_key e
      in if secret = [] then
           Inl (llm_proxy_error 503 ''LLM token verification key is not configured.'' ''api_error'' None None)
         else case split_once (CHR ''.'') token of
           None \<Rightarrow> Inl (invalid_api_key ''Malformed llm token.'')
         | Some (payload_b64, sig_b64) \<Rightarrow>
             (let expected = hmac_sha256 (utf8_encode secret) (utf8_encode payload_b64)
              in case b64url_decode sig_b64 of
                Inl _ \<Rightarrow> Inl (invalid_api_key ''Malformed llm token signature.'')
              | Inr provided \<Rightarrow>
                  if expected \<noteq> provided then Inl (invalid_api_key ''Invalid llm token signature.'')
                  else case Option.bind (Option.bind (result_option (b64url_decode payload_b64)) utf8_decode) loads of
                    None \<Rightarrow> Inl (invalid_api_key ''Malformed llm token payload.'')
                  | Some (JObj payload) \<Rightarrow>
                      if jget payload ''scope'' \<noteq> JStr ''llm''
                      then Inl (invalid_api_key ''Invalid llm token payload.'')
                      else bind_result (json_int (jget_or payload ''exp'' (JInt 0))) (\<lambda>ex.
                        if ex \<le> int_time t then Inl (invalid_api_key ''Llm token expired.'')
                        else Inr payload)
                  | Some _ \<Rightarrow> Inl (invalid_api_key ''Invalid llm token payload.'')))"

section \<open>The telemetry token of the config endpoint\<close>

definition main_telemetry_payload ::
  "string \<Rightarrow> int \<Rightarrow> int \<Rightarrow> string option \<Rightarrow> string \<Rightarrow> string \<Rightarrow> json dict" where
  "main_telemetry_payload jti now ttl device profile cuuid =
     [(''jti'', JStr jti), (''iat'', JInt now), (''exp'', JInt (now + ttl)),
      (''profile'', JStr profile), (''device'', JStr (str_or device ''unknown''))] @
     (if cuuid \<noteq> [] then [(''cuid'', JStr cuuid)] else [])"

definition main_mint_telemetry_token ::
  "settings \<Rightarrow> timestamp \<Rightarrow> string \<Rightarrow> string option \<Rightarrow> string \<Rightarrow> string \<Rightarrow> string \<times> int option" where
  "main_mint_telemetry_token cfg t jti device profile cuuid =
     (let secret = strip (telemetry_token_signing_key cfg); now = int_time t;
          ttl = max 30 (telemetry_token_ttl_seconds cfg)
      in if secret = [] then ([], None)
         else
           let payload = main_telemetry_payload jti now ttl device profile cuuid;
               payload_b64 = b64url_encode (utf8_encode (dumps_compact (sort_keys (JObj payload))));
               sig = hmac_sha256 (utf8_encode secret) (utf8_encode payload_b64)
           in (payload_b64 @ ''.'' @ b64url_encode sig, Some (now + ttl)))"

definition main_verify_telemetry_token :: "settings \<Rightarrow> timestamp \<Rightarrow> string \<Rightarrow> json dict result" where
  "main_verify_telemetry_token cfg t token =
     (let secret = strip (telemetry_token_signing_key cfg)
      in if secret = [] then
           Inl (HTTPException 503 ''Telemetry token verification key is not configured.'')
         else case split_once (CHR ''.'') token of
           None \<Rightarrow> Inl (HTTPException 401 ''Malformed telemetry token.'')
         | Some (payload_b64, sig_b64) \<Rightarrow>
             (let expected = hmac_sha256 (utf8_encode secret) (utf8_encode payload_b64)
              in case b64url_decode sig_b64 of
                Inl _ \<Rightarrow> Inl (HTTPException 401 ''Malformed telemetry token signature.'')
              | Inr provided \<Rightarrow>
                  if expected \<noteq> provided then Inl (HTTPException 401 ''Invalid telemetry token signature.'')
                  else case Option.bind (Option.bind (result_option (b64url_decode payload_b64)) utf8_decode) loads of
                    Some (JObj payload) \<Rightarrow>
                      bind_result (json_int (jget_or payload ''exp'' (JInt 0))) (\<lambda>ex.
                        if ex \<le> int_time t then Inl (HTTPException 401 ''Telemetry token expired.'')
                        else Inr payload)
                  | _ \<Rightarrow> Inl (HTTPException 401 ''Malformed telemetry token payload.'')))"

section \<open>Lemmas\<close>

lemma set_sort_key: "set (sort_key f xs) = set xs"
  by simp

lemma dget_sort_key: "distinct (map fst d) \<Longrightarrow> dget (sort_key fst d) k = dget d k"
proof -
  assume d: "distinct (map fst d)"
  have "mset (map fst (sort_key fst d)) = mset (map fst d)"
    by simp
  then have "distinct (map fst (sort_key fst d))"
    using d by (metis mset_eq_imp_distinct_iff)
  then have "map_of (sort_key fst d) = map_of d"
    using d by (intro map_of_eqI) (auto simp: set_map_of_compr [symmetric])
  then show ?thesis by (simp add: dget_def)
qed

lemma json_ok_sort_keys: "json_ok j \<Longrightarrow> json_ok (sort_keys j)"
proof (induction j)
  case (JObj d)
  have fst_id: "map fst (map (\<lambda>(k, v). (k, sort_keys v)) d) = map fst d"
    by (induction d) auto
  have "mset (map fst (sort_key fst (map (\<lambda>(k, v). (k, sort_keys v)) d))) = mset (map fst d)"
    using fst_id by (metis mset_map mset_sort)
  then have "distinct (map fst (sort_key fst (map (\<lambda>(k, v). (k, sort_keys v)) d)))"
    using JObj.prems by (metis json_ok.simps(3) mset_eq_imp_distinct_iff)
  moreover have "json_ok (sort_keys v)" if "(k, v) \<in> set d" for k v
    using JObj.IH [of "(k, v)" v] that JObj.prems by (auto simp: list_all_iff snds.simps)
  ultimately show ?case by (auto simp: list_all_iff)
qed (auto simp: list_all_iff)

text \<open>A payload sealed with a secret: what splitting, checking and decoding the token gives.\<close>

definition seal :: "string \<Rightarrow> json \<Rightarrow> string" where
  "seal secret j = (let b = b64url_encode (dumps_compact j)
     in b @ CHR ''.'' # b64url_encode (hmac_sha256 (utf8_encode secret) b))"

lemma split_seal:
  "split_once (CHR ''.'') (seal secret j) =
     Some (b64url_encode (dumps_compact j),
           b64url_encode (hmac_sha256 (utf8_encode secret) (b64url_encode (dumps_compact j))))"
  by (simp add: seal_def Let_def b64url_no_dot)

definition opened :: "string \<Rightarrow> json option" where
  "opened p = Option.bind (Option.bind (result_option (b64url_decode p)) utf8_decode) loads"

lemma opened_seal: "json_ok j \<Longrightarrow> opened (b64url_encode (dumps_compact j)) = Some j"
  by (simp add: opened_def utf8_decode_dumps_compact)

definition flat :: "json dict \<Rightarrow> bool" where
  "flat d = (distinct (map fst d) \<and> list_all (\<lambda>(k, v). case v of JInt _ \<Rightarrow> True | JStr _ \<Rightarrow> True | _ \<Rightarrow> False) d)"

lemma flat_sort: "flat d \<Longrightarrow> sort_keys (JObj d) = JObj (sort_key fst d)"
proof -
  assume f: "flat d"
  have "map (\<lambda>(k, v). (k, sort_keys v)) d = d"
    by (rule map_idI) (use f in \<open>auto simp: flat_def list_all_iff split: json.splits\<close>)
  then show ?thesis by simp
qed

lemma flat_json_ok: "flat d \<Longrightarrow> json_ok (JObj d)"
  by (auto simp: flat_def list_all_iff split: json.splits)

lemma flat_sorted_ok: "flat d \<Longrightarrow> json_ok (JObj (sort_key fst d))"
  using json_ok_sort_keys [OF flat_json_ok] flat_sort by metis

lemma jget_sort_key: "flat d \<Longrightarrow> jget (sort_key fst d) k = jget d k"
  by (simp add: jget_def dget_sort_key flat_def)

lemma mint_seal:
  "flat d \<Longrightarrow> b64url_encode (utf8_encode (dumps_compact (sort_keys (JObj d)))) =
     b64url_encode (dumps_compact (JObj (sort_key fst d)))"
  by (simp only: flat_sort utf8_dumps_compact [OF flat_sorted_ok])

lemma flat_llm_payload [simp]: "flat (llm_payload jti now ttl c m)"
  by (simp add: flat_def llm_payload_def)

lemma flat_main_telemetry_payload [simp]: "flat (main_telemetry_payload jti now ttl dev p c)"
  by (simp add: flat_def main_telemetry_payload_def)

lemma mint_llm_token_seal:
  "llm_signing_key e \<noteq> [] \<Longrightarrow>
     fst (mint_llm_token e t jti c m) =
       seal (llm_signing_key e) (JObj (sort_key fst (llm_payload jti (int_time t) (llm_ttl_seconds e) c m)))"
  by (simp add: mint_llm_token_def Let_def mint_seal seal_def del: sort_keys.simps)

lemma mint_telemetry_seal:
  "strip (telemetry_token_signing_key s) \<noteq> [] \<Longrightarrow>
     fst (main_mint_telemetry_token s t jti dev p c) =
       seal (strip (telemetry_token_signing_key s)) (JObj (sort_key fst
         (main_telemetry_payload jti (int_time t) (max 30 (telemetry_token_ttl_seconds s)) dev p c)))"
  by (simp add: main_mint_telemetry_token_def Let_def mint_seal seal_def del: sort_keys.simps)

lemma verify_llm_seal:
  assumes "llm_signing_key e \<noteq> []" "json_ok (JObj d)"
  shows "verify_llm_token e t (seal (llm_signing_key e) (JObj d)) =
    (if jget d ''scope'' \<noteq> JStr ''llm'' then Inl (invalid_api_key ''Invalid llm token payload.'')
     else bind_result (json_int (jget_or d ''exp'' (JInt 0))) (\<lambda>ex.
       if ex \<le> int_time t then Inl (invalid_api_key ''Llm token expired.'') else Inr d))"
  using opened_seal [OF assms(2)] assms(1)
  by (simp add: verify_llm_token_def split_seal Let_def opened_def del: json_ok.simps)

lemma verify_telemetry_seal:
  assumes "strip (telemetry_token_signing_key s) \<noteq> []" "json_ok (JObj d)"
  shows "main_verify_telemetry_token s t (seal (strip (telemetry_token_signing_key s)) (JObj d)) =
    bind_result (json_int (jget_or d ''exp'' (JInt 0))) (\<lambda>ex.
       if ex \<le> int_time t then Inl (HTTPException 401 ''Telemetry token expired.'') else Inr d)"
  using opened_seal [OF assms(2)] assms(1)
  by (simp add: main_verify_telemetry_token_def split_seal Let_def opened_def del: json_ok.simps)

lemma llm_payload_get:
  "jget (llm_payload jti now ttl c m) ''scope'' = JStr ''llm''"
  "jget (llm_payload jti now ttl c m) ''exp'' = JInt (now + ttl)"
  by (simp_all add: llm_payload_def jget_def dget_def)

lemma telemetry_payload_get:
  "jget (main_telemetry_payload jti now ttl dev p c) ''scope'' = JNull"
  "jget (main_telemetry_payload jti now ttl dev p c) ''exp'' = JInt (now + ttl)"
  by (simp_all add: main_telemetry_payload_def jget_def dget_def)

lemma verify_minted_llm:
  assumes "llm_signing_key e \<noteq> []"
  shows "verify_llm_token e t' (fst (mint_llm_token e t jti c m)) =
    (if int_time t + llm_ttl_seconds e \<le> int_time t' then Inl (invalid_api_key ''Llm token expired.'')
     else Inr (sort_key fst (llm_payload jti (int_time t) (llm_ttl_seconds e) c m)))"
proof -
  let ?d = "sort_key fst (llm_payload jti (int_time t) (llm_ttl_seconds e) c m)"
  have "jget ?d ''scope'' = JStr ''llm''" "jget ?d ''exp'' = JInt (int_time t + llm_ttl_seconds e)"
    by (simp_all only: jget_sort_key flat_llm_payload llm_payload_get)
  then show ?thesis
    unfolding mint_llm_token_seal [OF assms] verify_llm_seal [OF assms flat_sorted_ok [OF flat_llm_payload]]
    by (simp add: jget_or_def)
qed

section \<open>Properties\<close>

definition demo_env :: env where
  "demo_env = (\<lambda>k. if k = ''DM_LLM_TOKEN_SIGNING_KEY'' then Some ''k1'' else None)"

lemma demo_key: "llm_signing_key demo_env = ''k1''" "llm_ttl_seconds demo_env = 3600"
  by (simp_all add: llm_signing_key_def llm_ttl_seconds_def demo_env_def getenv_def strip_def
      lstrip_by_def rstrip_by_def py_space_def)

text \<open>With a signing key configured, an LLM token lives at least a minute: until the second
  announced at minting it verifies to exactly the minted claims, from that second on it is refused
  as expired, whatever the client, the e-mail address and the token identifier.\<close>

theorem llm_token_roundtrip:
  assumes "llm_signing_key e \<noteq> []"
  shows "snd (mint_llm_token e t jti c m) = Some (int_time t + llm_ttl_seconds e) \<and>
    60 \<le> llm_ttl_seconds e \<and>
    verify_llm_token e t' (fst (mint_llm_token e t jti c m)) =
      (if int_time t + llm_ttl_seconds e \<le> int_time t' then Inl (invalid_api_key ''Llm token expired.'')
       else Inr (sort_key fst (llm_payload jti (int_time t) (llm_ttl_seconds e) c m)))"
  using verify_minted_llm [OF assms] assms
  by (simp add: mint_llm_token_def Let_def llm_ttl_seconds_def)

theorem llm_token_roundtrip_witness:
  "verify_llm_token demo_env (secs 3599) (fst (mint_llm_token demo_env 0 ''j'' ''c'' ''m'')) =
     Inr (sort_key fst (llm_payload ''j'' 0 3600 ''c'' ''m'')) \<and>
   verify_llm_token demo_env (secs 3600) (fst (mint_llm_token demo_env 0 ''j'' ''c'' ''m'')) =
     Inl (invalid_api_key ''Llm token expired.'')"
  using llm_token_roundtrip [of demo_env 0 "''j''" "''c''" "''m''" "secs 3599"]
    llm_token_roundtrip [of demo_env 0 "''j''" "''c''" "''m''" "secs 3600"]
  by (simp add: demo_key secs_def int_time_def)

text \<open>Property C6. Whatever string is presented, the LLM token verification accepts it only when the key
  is configured and the string is a payload and a signature joined by a dot, the signature decodes
  to the HMAC of exactly that payload text, the payload decodes to the returned object, and the
  object has the scope \<open>llm\<close> and an expiry after the current second.\<close>

theorem llm_token_sound:
  assumes "verify_llm_token e t token = Inr payload"
  shows "llm_signing_key e \<noteq> [] \<and>
    (\<exists>p s. token = p @ CHR ''.'' # s \<and> CHR ''.'' \<notin> set p \<and>
       b64url_decode s = Inr (hmac_sha256 (utf8_encode (llm_signing_key e)) (utf8_encode p)) \<and>
       opened p = Some (JObj payload)) \<and>
    jget payload ''scope'' = JStr ''llm'' \<and>
    (\<exists>ex. json_int (jget_or payload ''exp'' (JInt 0)) = Inr ex \<and> int_time t < ex)"
proof -
  have key: "llm_signing_key e \<noteq> []"
    using assms by (auto simp: verify_llm_token_def Let_def)
  then obtain p s where ps: "split_once (CHR ''.'') token = Some (p, s)"
    using assms by (auto simp: verify_llm_token_def Let_def split: option.splits)
  with key assms have sig: "b64url_decode s = Inr (hmac_sha256 (utf8_encode (llm_signing_key e)) (utf8_encode p))"
    by (auto simp: verify_llm_token_def Let_def split: sum.splits if_splits)
  with ps key assms have "opened p = Some (JObj payload) \<and> jget payload ''scope'' = JStr ''llm'' \<and>
      (\<exists>ex. json_int (jget_or payload ''exp'' (JInt 0)) = Inr ex \<and> int_time t < ex)"
    by (auto simp: verify_llm_token_def opened_def Let_def bind_result_def
        split: option.splits json.splits sum.splits if_splits)
  with key split_once_Some [OF ps] sig show ?thesis by blast
qed

theorem llm_token_sound_witness:
  "\<exists>p s. fst (mint_llm_token demo_env 0 ''j'' ''c'' ''m'') = p @ CHR ''.'' # s \<and>
     b64url_decode s = Inr (hmac_sha256 (utf8_encode ''k1'') (utf8_encode p))"
proof -
  have "verify_llm_token demo_env 0 (fst (mint_llm_token demo_env 0 ''j'' ''c'' ''m'')) =
      Inr (sort_key fst (llm_payload ''j'' 0 3600 ''c'' ''m''))"
    using verify_minted_llm [of demo_env 0 0] by (simp add: demo_key int_time_def)
  from llm_token_sound [OF this] show ?thesis by (auto simp: demo_key)
qed

text \<open>Even when both kinds of token are signed with the same key, a telemetry token is never
  accepted as an LLM token. The converse protection does not exist: the telemetry verification
  checks no scope and accepts an unexpired LLM token.\<close>

theorem token_scope_separation:
  assumes "llm_signing_key e = strip (telemetry_token_signing_key s)" "llm_signing_key e \<noteq> []"
    and "int_time t' < int_time t + llm_ttl_seconds e"
  shows "verify_llm_token e t' (fst (main_mint_telemetry_token s t jti dev prof c)) =
      Inl (invalid_api_key ''Invalid llm token payload.'') \<and>
    main_verify_telemetry_token s t' (fst (mint_llm_token e t jti c m)) =
      Inr (sort_key fst (llm_payload jti (int_time t) (llm_ttl_seconds e) c m))"
proof -
  let ?k = "strip (telemetry_token_signing_key s)"
  let ?d = "sort_key fst (main_telemetry_payload jti (int_time t) (max 30 (telemetry_token_ttl_seconds s)) dev prof c)"
  let ?l = "sort_key fst (llm_payload jti (int_time t) (llm_ttl_seconds e) c m)"
  have k: "?k \<noteq> []" using assms by simp
  have "jget ?d ''scope'' = JNull"
    by (simp only: jget_sort_key flat_main_telemetry_payload telemetry_payload_get)
  then have "verify_llm_token e t' (fst (main_mint_telemetry_token s t jti dev prof c)) =
      Inl (invalid_api_key ''Invalid llm token payload.'')"
    using verify_llm_seal [OF assms(2) flat_sorted_ok [OF flat_main_telemetry_payload]]
    unfolding mint_telemetry_seal [OF k] assms(1) by simp
  moreover have "jget ?l ''exp'' = JInt (int_time t + llm_ttl_seconds e)"
    by (simp only: jget_sort_key flat_llm_payload llm_payload_get)
  then have "main_verify_telemetry_token s t' (fst (mint_llm_token e t jti c m)) = Inr ?l"
    using verify_telemetry_seal [OF k flat_sorted_ok [OF flat_llm_payload]] assms(3)
    unfolding mint_llm_token_seal [OF assms(2)] unfolding assms(1) by (simp add: jget_or_def)
  ultimately show ?thesis by blast
qed

theorem token_scope_separation_witness:
  "verify_llm_token demo_env 0 (fst (main_mint_telemetry_token
     ((settings_defaults (\<lambda>_. None))\<lparr>telemetry_token_signing_key := ''k1''\<rparr>) 0 ''j'' None ''p'' ''c'')) =
   Inl (invalid_api_key ''Invalid llm token payload.'')"
proof -
  have "strip ''k1'' = ''k1''" using demo_key by code_simp
  then show ?thesis
    using token_scope_separation [of demo_env "(settings_defaults (\<lambda>_. None))\<lparr>telemetry_token_signing_key := ''k1''\<rparr>"
        0 0 "''j''" None "''p''" "''c''"]
    by (simp add: demo_key int_time_def)
qed

end
