(* ===== verification/AdminAuth.thy ===== *)
theory AdminAuth
  imports Tokens
begin

text \<open>
  \<open>app/admin/auth.py\<close>: the signed session cookie of the admin pages, the group check on the
  identity token, CSRF verification, the cached OIDC discovery document, and the two decorators
  that guard the admin routes. A decorator is a function from the request to what happens next:
  the handler runs with a session, the browser is redirected to the identity provider, or an
  error is raised. The module's constants are the record \<open>auth_cfg\<close>; random draws, the clock and
  the outcome of the discovery request are arguments. The addresses in a discovery document are
  strings.
\<close>

section \<open>Definitions\<close>

record auth_cfg =
  session_secret :: string
  dev_autologin :: bool
  oidc_issuer :: string
  oidc_public_issuer :: string
  client_id :: string
  redirect_uri :: string
  required_group :: string
  service_token :: string

definition SESSION_TTL :: int where
  "SESSION_TTL = 3600"

definition truthy_flag :: "string \<Rightarrow> bool" where
  "truthy_flag s = (lower (strip s) \<in> {''1'', ''true'', ''yes'', ''on''})"

definition oidc_issuer_url :: "env \<Rightarrow> string" where
  "oidc_issuer_url e =
     (let explicit = strip (getenv e ''ADMIN_OIDC_ISSUER_URL'' []);
          base = rstrip_char (CHR ''/'') (strip (getenv e ''KEYCLOAK_ISSUER_URL'' []));
          realm = strip (getenv e ''KEYCLOAK_REALM'' [])
      in if explicit \<noteq> [] then explicit
         else if base \<noteq> [] \<and> realm \<noteq> [] then base @ ''/realms/'' @ realm else base)"

text \<open>The module constants as they are computed at import. The service token is no such constant: the decorator reads it from the
  environment at each request, so the configuration of a request is \<open>load_auth_cfg\<close> of an environment in which only
  \<open>DM_QUEUE_ADMIN_TOKEN\<close> may have changed since import.\<close>

definition load_auth_cfg :: "env \<Rightarrow> string \<Rightarrow> auth_cfg" where
  "load_auth_cfg e redirect =
     \<lparr>session_secret = getenv e ''ADMIN_SESSION_SECRET'' ''changeme-dev-only'',
      dev_autologin = truthy_flag (getenv e ''DM_DEV_AUTOLOGIN'' []),
      oidc_issuer = oidc_issuer_url e,
      oidc_public_issuer = getenv e ''ADMIN_OIDC_PUBLIC_ISSUER_URL'' [],
      client_id = getenv e ''ADMIN_OIDC_CLIENT_ID'' ''admin-dm-ui'',
      redirect_uri = redirect,
      required_group = getenv e ''ADMIN_REQUIRED_GROUP'' ''admin-dm'',
      service_token = strip (getenv e ''DM_QUEUE_ADMIN_TOKEN'' [])\<rparr>"

text \<open>\<open>str.replace(old, new)\<close> for a non-empty \<open>old\<close>.\<close>

fun str_replace :: "string \<Rightarrow> string \<Rightarrow> nat \<Rightarrow> string \<Rightarrow> string" where
  "str_replace old new skip [] = []"
| "str_replace old new (Suc n) (c # cs) = str_replace old new n cs"
| "str_replace old new 0 (c # cs) =
     (if old \<noteq> [] \<and> startswith (c # cs) old then new @ str_replace old new (length old - 1) cs
      else c # str_replace old new 0 cs)"

text \<open>\<open>_get_oidc_config\<close>: \<open>fetched\<close> is the decoded discovery document, \<open>None\<close> when the
  request or its decoding failed. The cache holds the empty dictionary before the first success.\<close>

definition get_oidc_config :: "auth_cfg \<Rightarrow> json dict option \<Rightarrow> json dict \<Rightarrow> json dict \<times> json dict" where
  "get_oidc_config cfg fetched cache =
     (if cache \<noteq> [] then (cache, cache)
      else if oidc_issuer cfg = [] then ([], cache)
      else case fetched of
        None \<Rightarrow> (cache, cache)
      | Some doc \<Rightarrow>
          if oidc_public_issuer cfg \<noteq> [] \<and> oidc_issuer cfg \<noteq> oidc_public_issuer cfg then
            let public_base = rstrip_char (CHR ''/'') (py_str (case dget doc ''issuer'' of None \<Rightarrow> JStr [] | Some v \<Rightarrow> v));
                internal_base = rstrip_char (CHR ''/'') (oidc_issuer cfg);
                tok = py_str (case dget doc ''token_endpoint'' of None \<Rightarrow> JStr [] | Some v \<Rightarrow> v);
                jwks = py_str (case dget doc ''jwks_uri'' of None \<Rightarrow> JStr [] | Some v \<Rightarrow> v);
                rewrite = (\<lambda>u. if public_base \<noteq> [] \<and> internal_base \<noteq> [] \<and> public_base \<noteq> internal_base
                               then str_replace public_base internal_base 0 u else u);
                doc' = dset ''_internal_jwks_uri'' (JStr (rewrite jwks))
                         (dset ''_internal_token_endpoint'' (JStr (rewrite tok)) doc)
            in (doc', doc')
          else (doc, doc))"

definition get_jwks_uri :: "json dict \<Rightarrow> json" where
  "get_jwks_uri doc = jget_or doc ''_internal_jwks_uri'' (case dget doc ''jwks_uri'' of None \<Rightarrow> JStr [] | Some v \<Rightarrow> v)"

definition get_token_endpoint :: "json dict \<Rightarrow> json" where
  "get_token_endpoint doc =
     jget_or doc ''_internal_token_endpoint'' (case dget doc ''token_endpoint'' of None \<Rightarrow> JStr [] | Some v \<Rightarrow> v)"

definition sign_session :: "auth_cfg \<Rightarrow> json \<Rightarrow> string" where
  "sign_session cfg data =
     (let payload = dumps_compact data;
          sig = hexdigest (hmac_sha256 (utf8_encode (session_secret cfg)) (utf8_encode payload))
      in b64_encode (utf8_encode (sig @ ''.'' @ payload)))"

text \<open>Every exception gives \<open>None\<close>, a signature with a character outside ASCII included.\<close>

definition verify_session :: "auth_cfg \<Rightarrow> timestamp \<Rightarrow> string \<Rightarrow> json dict option" where
  "verify_session cfg t cookie =
     (case Option.bind (result_option (urlsafe_b64decode (utf8_encode cookie))) utf8_decode of
        None \<Rightarrow> None
      | Some raw \<Rightarrow>
          (case split_once (CHR ''.'') raw of
             None \<Rightarrow> None
           | Some (sig, payload) \<Rightarrow>
               (case compare_digest sig
                       (hexdigest (hmac_sha256 (utf8_encode (session_secret cfg)) (utf8_encode payload))) of
                  Inr True \<Rightarrow>
                    (case loads payload of
                       Some (JObj data) \<Rightarrow>
                         (case num_of (case dget data ''exp'' of None \<Rightarrow> JInt 0 | Some v \<Rightarrow> v) of
                            None \<Rightarrow> None
                          | Some ex \<Rightarrow> if num_less ex (Fin (of_int t / 1000000)) then None else Some data)
                     | _ \<Rightarrow> None)
                | _ \<Rightarrow> None)))"

definition has_admin_group :: "auth_cfg \<Rightarrow> json dict \<Rightarrow> bool result" where
  "has_admin_group cfg claims =
     bind_result (py_in (required_group cfg) (case dget claims ''groups'' of None \<Rightarrow> JList [] | Some v \<Rightarrow> v)) (\<lambda>b.
       if b then Inr True
       else bind_result (py_get (JObj claims) ''resource_access'' (JObj [])) (\<lambda>ra.
         bind_result (py_get ra (client_id cfg) (JObj [])) (\<lambda>c.
           bind_result (py_get c ''roles'' (JList [])) (\<lambda>roles. py_in (required_group cfg) roles))))"

definition verify_csrf :: "string dict \<Rightarrow> headers \<Rightarrow> bool result" where
  "verify_csrf cookies hs =
     (let c = str_or (dget cookies ''dm_csrf_token'') []; h = str_or (header hs ''X-CSRF-Token'') []
      in if c = [] then Inr False
         else if h \<noteq> [] then compare_digest c h
         else Inr True)"

text \<open>\<open>urllib.parse.urlencode\<close>.\<close>

definition url_safe :: "char \<Rightarrow> bool" where
  "url_safe c = (let n = (of_char c :: nat) in
     (48 \<le> n \<and> n \<le> 57) \<or> (65 \<le> n \<and> n \<le> 90) \<or> (97 \<le> n \<and> n \<le> 122) \<or> c \<in> set ''_.-~'')"

definition upper_hex :: "nat \<Rightarrow> char" where
  "upper_hex d = (if d < 10 then char_of (48 + d) else char_of (55 + d))"

definition quote_plus :: "string \<Rightarrow> string" where
  "quote_plus s = concat (map (\<lambda>c. if url_safe c then [c] else if c = CHR '' '' then ''+''
     else [CHR ''%'', upper_hex (of_char c div 16), upper_hex (of_char c mod 16)]) (utf8_encode s))"

definition urlencode :: "(string \<times> string) list \<Rightarrow> string" where
  "urlencode ps = join_with ''&'' (map (\<lambda>(k, v). quote_plus k @ ''='' @ quote_plus v) ps)"

text \<open>What a guarded route does with a request.\<close>

datatype guarded =
    RunHandler "json dict" "string dict"
  | RedirectTo string "string dict"
  | Refuse py_error

definition dev_session :: "timestamp \<Rightarrow> json dict" where
  "dev_session t = [(''sub'', JStr ''dev-user''), (''email'', JStr ''admin@dev.local''),
     (''name'', JStr ''Dev Admin''), (''exp'', JInt (int_time t + SESSION_TTL))]"

definition service_session :: "json dict" where
  "service_session = [(''sub'', JStr ''service''), (''email'', JStr ''ci@service.local''),
     (''name'', JStr ''CI service token'')]"

text \<open>\<open>require_admin\<close>: the second component of \<open>RunHandler\<close> and \<open>RedirectTo\<close> are the cookies set
  on the answer. \<open>oidc\<close> is what \<open>_get_oidc_config\<close> returns; \<open>state\<close>, \<open>verifier\<close> and
  \<open>csrf\<close> are drawn at random.\<close>

definition require_admin ::
  "auth_cfg \<Rightarrow> timestamp \<Rightarrow> json dict \<Rightarrow> string \<Rightarrow> string \<Rightarrow> string \<Rightarrow> string dict \<Rightarrow> guarded" where
  "require_admin cfg t oidc state verifier csrf cookies =
     (let cookie = str_or (dget cookies ''dm_admin_session'') [];
          session = (if cookie = [] then None else verify_session cfg t cookie)
      in case session of
        Some (x # xs) \<Rightarrow> RunHandler (x # xs) []
      | _ \<Rightarrow>
          if dev_autologin cfg \<and> oidc_issuer cfg = [] then
            RunHandler (dev_session t)
              [(''dm_admin_session'', sign_session cfg (JObj (dev_session t))), (''dm_csrf_token'', csrf)]
          else if oidc = [] then Refuse (HTTPException 503 ''OIDC provider not configured or unreachable'')
          else case dget oidc ''authorization_endpoint'' of
            None \<Rightarrow> Refuse (KeyError ''authorization_endpoint'')
          | Some ep \<Rightarrow>
              RedirectTo (py_str ep @ ''?'' @ urlencode
                [(''response_type'', ''code''), (''client_id'', client_id cfg),
                 (''redirect_uri'', redirect_uri cfg), (''scope'', ''openid profile email''),
                 (''state'', state),
                 (''code_challenge'', b64url_encode (sha256 (utf8_encode verifier))),
                 (''code_challenge_method'', ''S256'')])
                [(''dm_oidc_state'', state), (''dm_pkce_verifier'', verifier)])"

definition require_admin_or_service_token ::
  "auth_cfg \<Rightarrow> timestamp \<Rightarrow> json dict \<Rightarrow> string \<Rightarrow> string \<Rightarrow> string \<Rightarrow> string dict \<Rightarrow> headers \<Rightarrow> guarded" where
  "require_admin_or_service_token cfg t oidc state verifier csrf cookies hs =
     (let tok = strip (str_or (header hs ''x-admin-token'') []); expected = service_token cfg
      in if expected \<noteq> [] \<and> tok \<noteq> [] then
           (case compare_digest tok expected of
              Inl err \<Rightarrow> Refuse err
            | Inr True \<Rightarrow> RunHandler service_session []
            | Inr False \<Rightarrow> require_admin cfg t oidc state verifier csrf cookies)
         else require_admin cfg t oidc state verifier csrf cookies)"

section \<open>The boot gate\<close>

definition PROD_LIKE_ENVS :: "string list" where
  "PROD_LIKE_ENVS = [''prod'', ''production'', ''staging'']"

text \<open>\<open>validate_security_config\<close> of \<open>app/main.py\<close>; the reports are named by what they are
  about.\<close>

datatype security_problem = DefaultSessionSecret | DefaultRelayPepper | OpenCors | DevAutologin

definition security_problems :: "settings \<Rightarrow> env \<Rightarrow> security_problem list" where
  "security_problems s e =
     (if getenv e ''ADMIN_SESSION_SECRET'' ''changeme-dev-only'' = ''changeme-dev-only''
      then [DefaultSessionSecret] else []) @
     (if relay_secret_pepper s = ''change-me-relay-pepper'' then [DefaultRelayPepper] else []) @
     (if strip (allow_origins s) = ''*'' \<or> strip (allow_origins s) = [] then [OpenCors] else []) @
     (if truthy_flag (getenv e ''DM_DEV_AUTOLOGIN'' []) then [DevAutologin] else [])"

definition validate_security_config :: "settings \<Rightarrow> env \<Rightarrow> string option \<Rightarrow> security_problem list" where
  "validate_security_config s e env_name =
     (let env = lower (strip (case env_name of Some x \<Rightarrow> x | None \<Rightarrow> app_env s))
      in if env \<in> set PROD_LIKE_ENVS then security_problems s e else [])"

section \<open>Lemmas\<close>

lemma hex_digit_props: "d < 16 \<Longrightarrow> is_ascii (hex_digit d) \<and> hex_digit d \<noteq> CHR ''.''"
proof -
  assume d: "d < 16"
  have "hex_val (CHR ''.'') = None" by (simp add: hex_val_def)
  with hex_val_hex_digit [OF d] have "hex_digit d \<noteq> CHR ''.''" by auto
  moreover have "is_ascii (hex_digit d)"
    using d by (simp add: hex_digit_def is_ascii_def)
  ultimately show ?thesis by blast
qed

lemma hexdigest_props: "list_all is_ascii (hexdigest b) \<and> CHR ''.'' \<notin> set (hexdigest b)"
proof -
  have n: "of_char c div 16 < (16 :: nat) \<and> of_char c mod 16 < (16 :: nat)" for c :: char
  proof -
    have "of_char c < (256 :: nat)" by simp
    then show ?thesis by (simp add: less_mult_imp_div_less)
  qed
  then have "list_all is_ascii (hexdigest b)"
    unfolding hexdigest_def by (intro list_all_concat_map) (simp add: hex_digit_props)
  moreover have "CHR ''.'' \<noteq> hex_digit (of_char c div 16)" "CHR ''.'' \<noteq> hex_digit (of_char c mod 16)" for c :: char
    using hex_digit_props n by metis+
  then have "CHR ''.'' \<notin> set (hexdigest b)"
    by (auto simp: hexdigest_def)
  ultimately show ?thesis by blast
qed

lemma verify_sign_session:
  assumes "json_ok (JObj d)" "dget d ''exp'' = Some (JInt n)"
  shows "verify_session cfg t (sign_session cfg (JObj d)) = (if secs n < t then None else Some d)"
proof -
  let ?p = "dumps_compact (JObj d)"
  let ?sig = "hexdigest (hmac_sha256 (utf8_encode (session_secret cfg)) ?p)"
  have p: "utf8_encode ?p = ?p" "loads ?p = Some (JObj d)"
    using assms(1) by (simp_all only: utf8_dumps_compact loads_dumps_compact)
  have b: "utf8_encode (b64_encode x) = b64_encode x" for x
    by (simp add: utf8_encode_ascii b64_encode_ascii)
  have "split_once (CHR ''.'') (?sig @ CHR ''.'' # ?p) = Some (?sig, ?p)"
    using hexdigest_props by simp
  moreover have "num_less (Fin (of_int n)) (Fin (of_int t / 1000000)) = (secs n < t)"
  proof -
    have "(of_int n < (of_int t :: rat) / 1000000) = (of_int (n * 1000000) < (of_int t :: rat))"
      by (simp add: field_simps)
    then show ?thesis unfolding num_less.simps of_int_less_iff secs_def .
  qed
  ultimately show ?thesis
    using assms(2) p hexdigest_props
    by (simp add: sign_session_def verify_session_def Let_def b compare_digest_def del: num_less.simps)
qed

lemma require_admin_runs:
  assumes "require_admin cfg t oidc st v csrf cookies = RunHandler s out"
  shows "(\<exists>c. dget cookies ''dm_admin_session'' = Some c \<and> verify_session cfg t c = Some s \<and> out = []) \<or>
    (dev_autologin cfg \<and> oidc_issuer cfg = [] \<and> s = dev_session t)"
  using assms
  by (auto simp: require_admin_def Let_def str_or_def split: option.splits list.splits if_splits)

lemma verify_session_signed:
  assumes "verify_session cfg t c = Some s"
  shows "\<exists>sig payload. utf8_decode (the (result_option (urlsafe_b64decode (utf8_encode c)))) = Some (sig @ CHR ''.'' # payload) \<and>
    sig = hexdigest (hmac_sha256 (utf8_encode (session_secret cfg)) (utf8_encode payload)) \<and>
    loads payload = Some (JObj s)"
proof -
  obtain raw where raw: "Option.bind (result_option (urlsafe_b64decode (utf8_encode c))) utf8_decode = Some raw"
    using assms by (auto simp: verify_session_def split: option.splits)
  moreover from raw assms obtain sig payload where sp: "split_once (CHR ''.'') raw = Some (sig, payload)"
    by (auto simp: verify_session_def split: option.splits)
  moreover from raw sp assms have "sig = hexdigest (hmac_sha256 (utf8_encode (session_secret cfg)) (utf8_encode payload)) \<and>
      loads payload = Some (JObj s)"
    by (auto simp: verify_session_def compare_digest_def
        split: option.splits sum.splits bool.splits json.splits if_splits)
  ultimately show ?thesis
    using split_once_Some by (fastforce simp: bind_eq_Some_conv)
qed

section \<open>Properties\<close>

text \<open>A session signed for the cookie is accepted and given back unchanged up to and including
  the instant of its expiry, and refused after it, for every secret and every session whose
  expiry is an integer.\<close>

theorem session_roundtrip:
  assumes "json_ok (JObj d)" "dget d ''exp'' = Some (JInt n)"
  shows "verify_session cfg t (sign_session cfg (JObj d)) = (if secs n < t then None else Some d)"
  by (rule verify_sign_session [OF assms])

definition demo_cfg :: auth_cfg where
  "demo_cfg = load_auth_cfg (\<lambda>_. None) ''https://dm/admin/callback''"

theorem session_roundtrip_witness:
  "verify_session demo_cfg 3600000000 (sign_session demo_cfg (JObj (dev_session 0))) = Some (dev_session 0) \<and>
   verify_session demo_cfg 3600000001 (sign_session demo_cfg (JObj (dev_session 0))) = None"
proof -
  have "json_ok (JObj (dev_session 0))" "dget (dev_session 0) ''exp'' = Some (JInt 3600)"
    by (simp_all add: dev_session_def dget_def int_time_def SESSION_TTL_def)
  from session_roundtrip [OF this, of demo_cfg 3600000000] session_roundtrip [OF this, of demo_cfg 3600000001]
  show ?thesis by (simp add: secs_def)
qed

text \<open>Property C7. Once the boot gate has passed in a production-like environment, a route guarded by
  \<open>require_admin_or_service_token\<close> runs its handler only for a request that presents the
  configured service token, or a session cookie whose payload is signed with the HMAC of a
  session secret other than the published default; the development login is never taken.\<close>

theorem prod_admin_requires_credentials:
  assumes "lower (strip (app_env s)) \<in> set PROD_LIKE_ENVS" "validate_security_config s e None = []"
    and "cfg = load_auth_cfg e redirect"
    and "require_admin_or_service_token cfg t oidc st v csrf cookies hs = RunHandler sess out"
  shows "(service_token cfg \<noteq> [] \<and> strip (str_or (header hs ''x-admin-token'') []) = service_token cfg \<and>
       sess = service_session) \<or>
     (session_secret cfg \<noteq> ''changeme-dev-only'' \<and>
      (\<exists>c sig payload. dget cookies ''dm_admin_session'' = Some c \<and>
         utf8_decode (the (result_option (urlsafe_b64decode (utf8_encode c)))) = Some (sig @ CHR ''.'' # payload) \<and>
         sig = hexdigest (hmac_sha256 (utf8_encode (session_secret cfg)) (utf8_encode payload)) \<and>
         loads payload = Some (JObj sess)))"
proof -
  have gate: "session_secret cfg \<noteq> ''changeme-dev-only''" "\<not> dev_autologin cfg"
    using assms(1-3)
    by (auto simp: validate_security_config_def security_problems_def load_auth_cfg_def Let_def split: if_splits)
  consider (tok) "service_token cfg \<noteq> []" "strip (str_or (header hs ''x-admin-token'') []) = service_token cfg"
      "sess = service_session"
    | (adm) "require_admin cfg t oidc st v csrf cookies = RunHandler sess out"
    using assms(4)
    by (auto simp: require_admin_or_service_token_def compare_digest_def Let_def split: if_splits bool.splits)
  then show ?thesis
  proof cases
    case adm
    then obtain c where c: "dget cookies ''dm_admin_session'' = Some c" "verify_session cfg t c = Some sess"
      using require_admin_runs [OF adm] gate(2) by blast
    from verify_session_signed [OF c(2)] c(1) gate(1) show ?thesis by blast
  qed blast
qed

definition prod_env :: env where
  "prod_env = (\<lambda>k. if k = ''ADMIN_SESSION_SECRET'' then Some ''s3'' else
     if k = ''DM_QUEUE_ADMIN_TOKEN'' then Some ''tok'' else None)"

definition prod_settings :: settings where
  "prod_settings = (settings_defaults prod_env)\<lparr>app_env := ''prod'', relay_secret_pepper := ''p'',
     allow_origins := ''https://dm''\<rparr>"

theorem prod_admin_requires_credentials_witness:
  "service_token (load_auth_cfg prod_env []) = strip (str_or (header [(''x-admin-token'', ''tok'')] ''x-admin-token'') [])"
proof -
  have h: "lower (strip (app_env prod_settings)) \<in> set PROD_LIKE_ENVS"
    "validate_security_config prod_settings prod_env None = []"
    "require_admin_or_service_token (load_auth_cfg prod_env []) 0 [] [] [] [] [] [(''x-admin-token'', ''tok'')]
      = RunHandler service_session []"
    by code_simp+
  from prod_admin_requires_credentials [OF h(1,2) refl h(3)] show ?thesis by auto
qed

end
