(* ===== verification/Uuid.thy ===== *)
theory Uuid
  imports Codec
begin

text \<open>
  UUIDs as text: Python's \<open>uuid.UUID(s)\<close>, \<open>str()\<close> of a UUID and \<open>uuid.uuid5\<close>, PostgreSQL's input
  function for \<open>uuid\<close> columns, and \<open>_normalize_client_uuid\<close> of \<open>app/main.py\<close>, which turns every
  client identifier into a canonical UUID. A freshly drawn \<open>uuid4\<close> is an argument.
\<close>

section \<open>Definitions\<close>

definition is_hex :: "char \<Rightarrow> bool" where
  "is_hex c = (hex_val c \<noteq> None)"

fun read_hex :: "int \<Rightarrow> string \<Rightarrow> int" where
  "read_hex acc [] = acc"
| "read_hex acc (c # cs) = read_hex (16 * acc + (case hex_val c of None \<Rightarrow> 0 | Some d \<Rightarrow> int d)) cs"

fun hex_digits_ok :: "bool \<Rightarrow> string \<Rightarrow> bool" where
  "hex_digits_ok prev [] = prev"
| "hex_digits_ok prev (c # cs) =
     (if is_hex c then hex_digits_ok True cs
      else if c = CHR ''_'' \<and> prev then hex_digits_ok False cs else False)"

text \<open>\<open>int(s, 16)\<close>: a sign and the prefix \<open>0x\<close>, itself optionally followed by an underscore,
  are accepted.\<close>

definition hex_body :: "string \<Rightarrow> int option" where
  "hex_body s =
     (let pre = (length s \<ge> 2 \<and> s ! 0 = CHR ''0'' \<and> (s ! 1 = CHR ''x'' \<or> s ! 1 = CHR ''X''));
          b = (if pre then drop 2 s else s);
          ok = hex_digits_ok pre b \<and> list_ex is_hex b
      in if ok then Some (read_hex 0 (filter is_hex b)) else None)"

definition py_int16 :: "string \<Rightarrow> int option" where
  "py_int16 s = (case strip s of
       [] \<Rightarrow> None
     | c # cs \<Rightarrow> if c = CHR ''-'' then map_option uminus (hex_body cs)
                 else if c = CHR ''+'' then hex_body cs else hex_body (c # cs))"

fun remove_all :: "string \<Rightarrow> nat \<Rightarrow> string \<Rightarrow> string" where
  "remove_all pat skip [] = []"
| "remove_all pat (Suc n) (c # cs) = remove_all pat n cs"
| "remove_all pat 0 (c # cs) =
     (if pat \<noteq> [] \<and> startswith (c # cs) pat then remove_all pat (length pat - 1) cs
      else c # remove_all pat 0 cs)"

definition strip_chars :: "string \<Rightarrow> string \<Rightarrow> string" where
  "strip_chars cs s = rstrip_by (\<lambda>c. c \<in> set cs) (lstrip_by (\<lambda>c. c \<in> set cs) s)"

text \<open>\<open>uuid.UUID(s)\<close> as its 128-bit value.\<close>

definition uuid_parse :: "string \<Rightarrow> int option" where
  "uuid_parse s =
     (let h = filter (\<lambda>c. c \<noteq> CHR ''-'')
                (strip_chars ''{}'' (remove_all ''uuid:'' 0 (remove_all ''urn:'' 0 s)))
      in if length h \<noteq> 32 then None
         else case py_int16 h of
           None \<Rightarrow> None
         | Some n \<Rightarrow> if 0 \<le> n \<and> n < 2 ^ 128 then Some n else None)"

definition hex32 :: "int \<Rightarrow> string" where
  "hex32 n = map (\<lambda>i. hex_digit (nat (n div 16 ^ i mod 16))) (rev [0..<32])"

definition uuid_str :: "int \<Rightarrow> string" where
  "uuid_str n = (let h = hex32 n in
     take 8 h @ ''-'' @ take 4 (drop 8 h) @ ''-'' @ take 4 (drop 12 h) @ ''-'' @
     take 4 (drop 16 h) @ ''-'' @ drop 20 h)"

definition bytes_int :: "bytes \<Rightarrow> int" where
  "bytes_int b = foldl (\<lambda>a c. 256 * a + of_char c) 0 b"

text \<open>\<open>uuid.uuid5(uuid.NAMESPACE_URL, name)\<close>: the first sixteen octets of the SHA-1, with the
  version and variant bits set.\<close>

definition namespace_url :: bytes where
  "namespace_url = [CHR 0x6b, CHR 0xa7, CHR 0xb8, CHR 0x11, CHR 0x9d, CHR 0xad, CHR 0x11, CHR 0xd1,
                    CHR 0x80, CHR 0xb4, CHR 0x00, CHR 0xc0, CHR 0x4f, CHR 0xd4, CHR 0x30, CHR 0xc8]"

definition uuid5_url :: "string \<Rightarrow> int" where
  "uuid5_url name =
     (let h = bytes_int (take 16 (sha1 (namespace_url @ utf8_encode name)));
          clear = (\<lambda>n lo w. n - (n div 2 ^ lo mod 2 ^ w) * 2 ^ lo);
          v = clear (clear h 62 2) 76 4
      in v + 2 * 2 ^ 62 + 5 * 2 ^ 76)"

definition normalize_client_uuid :: "int \<Rightarrow> string \<Rightarrow> string" where
  "normalize_client_uuid fresh raw_value =
     (let raw = strip raw_value
      in if raw = [] then uuid_str fresh
         else case uuid_parse raw of
           Some n \<Rightarrow> uuid_str n
         | None \<Rightarrow> uuid_str (uuid5_url raw))"

text \<open>PostgreSQL's \<open>uuid\<close> input: sixteen pairs of hexadecimal digits, a hyphen allowed after
  every second pair, braces around the whole; the canonical text is the value of the column.\<close>

fun pg_uuid_pairs :: "nat \<Rightarrow> string \<Rightarrow> (string \<times> string) option" where
  "pg_uuid_pairs 0 s = Some ([], s)"
| "pg_uuid_pairs (Suc n) s = (case s of
     a # b # r \<Rightarrow>
       (if is_hex a \<and> is_hex b then
          (let r' = (case r of c # cs \<Rightarrow> if c = CHR ''-'' \<and> even n \<and> n > 0 then cs else r | [] \<Rightarrow> r)
           in map_option (\<lambda>(ds, t). (a # b # ds, t)) (pg_uuid_pairs n r'))
        else None)
   | _ \<Rightarrow> None)"

definition pg_uuid :: "string \<Rightarrow> string option" where
  "pg_uuid s =
     (let braces = (s \<noteq> [] \<and> hd s = CHR ''{'')
      in case pg_uuid_pairs 16 (if braces then tl s else s) of
           None \<Rightarrow> None
         | Some (ds, r) \<Rightarrow> if r = (if braces then ''}'' else []) then Some (uuid_str (read_hex 0 ds)) else None)"

section \<open>Canonical form\<close>

text \<open>Thirty-two lower-case hexadecimal digits, hyphens at the usual places.\<close>

definition lower_hex :: "char \<Rightarrow> bool" where
  "lower_hex c = (let n = (of_char c :: nat) in (48 \<le> n \<and> n \<le> 57) \<or> (97 \<le> n \<and> n \<le> 102))"

definition canonical_uuid :: "string \<Rightarrow> bool" where
  "canonical_uuid s = (length s = 36 \<and>
     list_all (\<lambda>(i, c). if i \<in> {8, 13, 18, 23} then c = CHR ''-'' else lower_hex c) (List.enumerate 0 s))"

section \<open>Lemmas\<close>

definition hex_nibble :: "int \<Rightarrow> nat \<Rightarrow> char" where
  "hex_nibble n i = hex_digit (nat (n div 16 ^ i mod 16))"

lemma nibble_bound: "nat (n div 16 ^ i mod 16) < 16" for n :: int
  using pos_mod_bound [of 16 "n div 16 ^ i"] pos_mod_sign [of 16 "n div 16 ^ i"] by linarith

lemma lower_hex_nibble [simp]: "lower_hex (hex_nibble n i)"
  using nibble_bound [of n i] by (auto simp: hex_nibble_def lower_hex_def hex_digit_def Let_def)

lemma hex_val_nibble [simp]: "hex_val (hex_nibble n i) = Some (nat (n div 16 ^ i mod 16))"
  by (simp add: hex_nibble_def hex_val_hex_digit [OF nibble_bound])

lemma lower_hexD:
  "lower_hex c \<Longrightarrow> is_hex c" "lower_hex c \<Longrightarrow> \<not> py_space c"
  "lower_hex c \<Longrightarrow> c \<noteq> CHR ''-''" "lower_hex c \<Longrightarrow> c \<noteq> CHR ''+''" "lower_hex c \<Longrightarrow> c \<noteq> CHR ''x''"
  "lower_hex c \<Longrightarrow> c \<noteq> CHR ''X''" "lower_hex c \<Longrightarrow> c \<noteq> CHR ''u''" "lower_hex c \<Longrightarrow> c \<noteq> CHR ''{''"
  "lower_hex c \<Longrightarrow> c \<noteq> CHR ''}''"
  by (auto simp: lower_hex_def is_hex_def hex_val_def py_space_def Let_def)

lemma hex32_list: "hex32 n = map (hex_nibble n) [31, 30, 29, 28, 27, 26, 25, 24, 23, 22, 21, 20, 19, 18, 17, 16,
    15, 14, 13, 12, 11, 10, 9, 8, 7, 6, 5, 4, 3, 2, 1, 0]"
proof -
  have "rev [0..<32] = [31, 30, 29, 28, 27, 26, 25, 24, 23, 22, 21, 20, 19, 18, 17, 16,
    15, 14, 13, 12, 11, 10, 9, 8, 7, 6, 5, 4, 3, 2, 1, 0 :: nat]"
    by code_simp
  then show ?thesis by (simp add: hex32_def hex_nibble_def)
qed

lemma uuid_str_list: "uuid_str n =
    map (hex_nibble n) [31, 30, 29, 28, 27, 26, 25, 24] @ ''-'' @ map (hex_nibble n) [23, 22, 21, 20] @ ''-'' @
    map (hex_nibble n) [19, 18, 17, 16] @ ''-'' @ map (hex_nibble n) [15, 14, 13, 12] @ ''-'' @
    map (hex_nibble n) [11, 10, 9, 8, 7, 6, 5, 4, 3, 2, 1, 0]"
  by (simp add: uuid_str_def hex32_list Let_def)

lemma uuid_str_canonical [simp]: "canonical_uuid (uuid_str n)"
  unfolding uuid_str_list canonical_uuid_def by simp

lemma read_hex_acc: "read_hex acc s = acc * 16 ^ length s + read_hex 0 s"
proof (induction s arbitrary: acc)
  case (Cons c s)
  define d where "d = (case hex_val c of None \<Rightarrow> 0 | Some d \<Rightarrow> int d)"
  have "read_hex acc (c # s) = read_hex (16 * acc + d) s" by (simp add: d_def)
  also have "\<dots> = (16 * acc + d) * 16 ^ length s + read_hex 0 s" by (rule Cons)
  also have "\<dots> = acc * 16 ^ length (c # s) + (d * 16 ^ length s + read_hex 0 s)"
    by (simp add: algebra_simps)
  also have "d * 16 ^ length s + read_hex 0 s = read_hex d s" by (rule Cons [symmetric])
  also have "read_hex d s = read_hex 0 (c # s)" by (simp add: d_def)
  finally show ?case .
qed simp

lemma read_hex_nibbles: "read_hex 0 (map (hex_nibble n) (rev [0..<k])) = n mod 16 ^ k"
proof (induction k)
  case (Suc k)
  have "read_hex 0 (map (hex_nibble n) (rev [0..<Suc k])) =
      (n div 16 ^ k mod 16) * 16 ^ k + n mod 16 ^ k"
    using Suc read_hex_acc [of "n div 16 ^ k mod 16" "map (hex_nibble n) (rev [0..<k])"] by simp
  also have "\<dots> = n mod 16 ^ Suc k"
    using zmod_zmult2_eq [of 16 n "16 ^ k"] by (simp add: mult.commute)
  finally show ?case .
qed simp

lemma hex32_nibbles: "hex32 n = map (hex_nibble n) (rev [0..<32])"
  by (simp add: hex32_def hex_nibble_def [abs_def])

lemma read_hex32: "read_hex 0 (hex32 n) = n mod 2 ^ 128"
  using read_hex_nibbles [of n 32] by (simp add: hex32_nibbles)

lemma nibble_mod: "i < k \<Longrightarrow> hex_nibble (n mod 16 ^ k) i = hex_nibble n i"
proof -
  assume "i < k"
  then obtain j where k: "k = i + Suc j" using less_imp_Suc_add by auto
  have "n mod (16 ^ i * (16 * 16 ^ j)) = 16 ^ i * (n div 16 ^ i mod (16 * 16 ^ j)) + n mod 16 ^ i"
    by (rule zmod_zmult2_eq) simp
  then have "n mod (16 ^ i * (16 * 16 ^ j)) div 16 ^ i = n div 16 ^ i mod (16 * 16 ^ j)"
    by simp
  then have "n mod 16 ^ k div 16 ^ i mod 16 = n div 16 ^ i mod 16"
    unfolding k power_add power_Suc by (simp only: mod_mod_cancel dvd_triv_left)
  then show ?thesis by (simp add: hex_nibble_def)
qed

lemma hex32_mod: "hex32 (n mod 2 ^ 128) = hex32 n"
proof -
  have "(2 :: int) ^ 128 = 16 ^ 32" by simp
  then show ?thesis
    unfolding hex32_nibbles using nibble_mod [of _ 32 n] by (auto simp only: map_eq_conv set_rev set_upt atLeastLessThan_iff)
qed

lemma uuid_str_mod: "uuid_str (n mod 2 ^ 128) = uuid_str n"
  unfolding uuid_str_def by (simp only: hex32_mod)

lemmas uuid_str_mod_numeral [simp] = uuid_str_mod [simplified]

lemma remove_all_id: "p \<notin> set s \<Longrightarrow> remove_all (p # ps) 0 s = s"
  by (induction s) (auto simp: startswith_def)

lemma strip_chars_id: "\<forall>c \<in> set s. c \<notin> set cs \<Longrightarrow> strip_chars cs s = s"
  by (cases s; cases s rule: rev_cases) (auto simp: strip_chars_def lstrip_by_id rstrip_by_id)

lemma hex_digits_ok_all: "\<forall>c \<in> set s. is_hex c \<Longrightarrow> prev \<or> s \<noteq> [] \<Longrightarrow> hex_digits_ok prev s"
  by (induction s arbitrary: prev) auto

lemma hex32_lower: "\<forall>c \<in> set (hex32 n). lower_hex c"
  by (simp add: hex32_list)

lemma py_int16_hex32: "py_int16 (hex32 n) = Some (n mod 2 ^ 128)"
proof -
  let ?h = "hex32 n"
  have s: "strip ?h = ?h"
    using hex32_lower lower_hexD(2) by (intro strip_id) blast
  obtain a b r where h: "?h = a # b # r" by (simp add: hex32_list)
  have ab: "lower_hex a" "lower_hex b" using hex32_lower [of n] h by auto
  have "hex_body ?h = Some (read_hex 0 ?h)"
    using hex32_lower [of n] lower_hexD(5,6) [OF ab(2)] lower_hexD(1)
    by (auto simp: hex_body_def Let_def h hex_digits_ok_all list_ex_iff)
  then show ?thesis
    unfolding py_int16_def s read_hex32 [symmetric] using lower_hexD(3,4) [OF ab(1)] by (simp add: h)
qed

lemma uuid_parse_str [simp]: "uuid_parse (uuid_str n) = Some (n mod 2 ^ 128)"
proof -
  have set: "\<forall>c \<in> set (uuid_str n). lower_hex c \<or> c = CHR ''-''"
    by (simp add: uuid_str_list)
  have "CHR ''u'' \<notin> set (uuid_str n)"
    using set lower_hexD(7) by blast
  moreover have "strip_chars ''{}'' (uuid_str n) = uuid_str n"
    by (rule strip_chars_id) (use set lower_hexD(8,9) in fastforce)
  moreover have "filter (\<lambda>c. c \<noteq> CHR ''-'') (uuid_str n) = hex32 n"
    using lower_hexD(3) by (simp add: uuid_str_list hex32_list)
  moreover have "length (hex32 n) = 32" by (simp add: hex32_list)
  ultimately show ?thesis
    by (simp add: uuid_parse_def Let_def remove_all_id py_int16_hex32)
qed

lemmas pg_uuid_pairs_numeral = pg_uuid_pairs.simps(2) [of "pred_numeral k" for k, folded numeral_eq_Suc]

lemma pg_uuid_str [simp]: "pg_uuid (uuid_str n) = Some (uuid_str n)"
proof -
  have hx: "is_hex (hex_nibble n i)" "hex_nibble n i \<noteq> CHR ''-''" "hex_nibble n i \<noteq> CHR ''{''" for i
    using lower_hexD(1,3,8) by simp_all
  have "pg_uuid_pairs 16 (uuid_str n) = Some (hex32 n, [])"
    unfolding uuid_str_list hex32_list
    by (simp add: hx pg_uuid_pairs_numeral pg_uuid_pairs.simps(2) [of 0] del: pg_uuid_pairs.simps(2))
  moreover have "uuid_str n \<noteq> []" "hd (uuid_str n) \<noteq> CHR ''{''"
    using hx by (simp_all add: uuid_str_list)
  ultimately show ?thesis
    by (simp add: pg_uuid_def Let_def read_hex32 uuid_str_mod del: pg_uuid_pairs.simps)
qed

section \<open>Property\<close>

text \<open>Whatever identifier a client sends, its normalised form is a canonical UUID, is accepted
  unchanged by a \<open>uuid\<close> column, and normalises to itself; two spellings of one UUID normalise to
  the same text.\<close>

theorem normalize_client_uuid_canonical:
  "canonical_uuid (normalize_client_uuid fresh raw) \<and>
   pg_uuid (normalize_client_uuid fresh raw) = Some (normalize_client_uuid fresh raw) \<and>
   normalize_client_uuid fresh' (normalize_client_uuid fresh raw) = normalize_client_uuid fresh raw \<and>
   (strip raw \<noteq> [] \<and> uuid_parse (strip raw) = uuid_parse (strip raw') \<and> uuid_parse (strip raw) \<noteq> None \<longrightarrow>
      normalize_client_uuid fresh raw' = normalize_client_uuid fresh raw)"
proof -
  obtain n where n: "normalize_client_uuid fresh raw = uuid_str n"
    by (cases "strip raw = []"; cases "uuid_parse (strip raw)") (simp_all add: normalize_client_uuid_def Let_def)
  have "strip (uuid_str n) = uuid_str n"
    by (rule strip_id) (auto simp: uuid_str_list lower_hexD(2) py_space_def [of "CHR ''-''"])
  moreover have "uuid_str n \<noteq> []" by (simp add: uuid_str_list)
  ultimately have "normalize_client_uuid fresh' (uuid_str n) = uuid_str n"
    by (simp add: normalize_client_uuid_def Let_def uuid_str_mod)
  moreover have "normalize_client_uuid fresh raw' = normalize_client_uuid fresh raw"
    if "strip raw \<noteq> []" "uuid_parse (strip raw) = uuid_parse (strip raw')" "uuid_parse (strip raw) \<noteq> None"
  proof -
    have "strip raw' \<noteq> []"
      using that by (auto simp: uuid_parse_def strip_chars_def lstrip_by_def rstrip_by_def)
    with that show ?thesis by (auto simp: normalize_client_uuid_def Let_def)
  qed
  ultimately show ?thesis unfolding n by (intro conjI impI) (simp_all, metis)
qed

theorem normalize_client_uuid_canonical_witness:
  "normalize_client_uuid 0 ''{A2345678-1234-5678-1234-567812345678}'' =
   normalize_client_uuid 0 ''a2345678123456781234567812345678''"
proof -
  have "strip ''a2345678123456781234567812345678'' \<noteq> [] \<and>
      uuid_parse (strip ''a2345678123456781234567812345678'') =
        uuid_parse (strip ''{A2345678-1234-5678-1234-567812345678}'') \<and>
      uuid_parse (strip ''a2345678123456781234567812345678'') \<noteq> None"
    by code_simp
  then show ?thesis
    using normalize_client_uuid_canonical [of 0 "''a2345678123456781234567812345678''" 0
        "''{A2345678-1234-5678-1234-567812345678}''"] by blast
qed

end
