(* ===== verification/Relay.thy ===== *)
theory Relay
  imports Tokens Uuid
begin

text \<open>
  Relay credentials (\<open>app/main.py\<close>): minting and rotation in the table \<open>relay_clients\<close> or, without
  a database, in the process's memory store; verification of a pair of headers for a target;
  and the identity resolution of the LLM proxy (\<open>app/llm/auth.py\<close>), which accepts relay headers or
  a signed LLM token whose client still has an active credential. The random identifier and key,
  the clock and the choice between database and memory (\<open>use_db\<close>) are arguments. The two statements
  of a rotation run in autocommit mode: each is a step of its own.
\<close>

section \<open>State\<close>

record relay_row =
  rr_created_at :: timestamp
  rr_client_uuid :: string
  rr_email :: string
  rr_client_id :: string
  rr_key_hash :: string
  rr_allowed_targets :: "string list"
  rr_expires_at :: "int option"
  rr_revoked_at :: "timestamp option"
  rr_comments :: string

record mem_relay =
  mr_client_uuid :: string
  mr_email :: string
  mr_key_hash :: string
  mr_allowed_targets :: "string list"
  mr_expires_at :: int
  mr_revoked :: bool

record relay_state =
  relay_clients :: "relay_row list"
  relay_memory :: "mem_relay dict"

record relay_data =
  rd_client_id :: string
  rd_client_key :: string
  rd_allowed_targets :: "string list"
  rd_expires_at :: int
  rd_ttl_seconds :: int

record relay_meta =
  rm_client_uuid :: string
  rm_email :: string
  rm_allowed_targets :: "string list"
  rm_expires_at :: int

section \<open>Minting\<close>

definition csv_items :: "string \<Rightarrow> string list" where
  "csv_items raw = map strip (filter (\<lambda>t. strip t \<noteq> []) (split_on (CHR '','') raw))"

definition add_missing :: "string \<Rightarrow> string list \<Rightarrow> string list" where
  "add_missing t ts = (if t \<in> set ts then ts else ts @ [t])"

definition sorted_set :: "string list \<Rightarrow> string list" where
  "sorted_set ts = sort (remdups ts)"

definition relay_allowed_targets :: "settings \<Rightarrow> string list" where
  "relay_allowed_targets cfg =
     (let targets = map lower (csv_items (strip (relay_allowed_targets_csv cfg)));
          targets = (if targets = [] then [''keycloak'', ''config'', ''telemetry''] else targets)
      in sorted_set (add_missing ''llm'' (add_missing ''telemetry'' (add_missing ''config'' targets))))"

definition relay_hash :: "settings \<Rightarrow> string \<Rightarrow> string \<Rightarrow> string" where
  "relay_hash cfg cid key = hash_relay_secret cid key (relay_secret_pepper cfg)"

definition active :: "relay_row \<Rightarrow> bool" where
  "active r = (rr_revoked_at r = None)"

definition revoke_client :: "timestamp \<Rightarrow> string \<Rightarrow> relay_row list \<Rightarrow> relay_row list" where
  "revoke_client now cuuid rows =
     map (\<lambda>r. if rr_client_uuid r = cuuid \<and> active r
              then r\<lparr>rr_revoked_at := Some now, rr_comments := ''rotated''\<rparr> else r) rows"

text \<open>The two partial unique indexes: one active row per client and per credential.\<close>

definition insert_relay :: "relay_row \<Rightarrow> relay_row list \<Rightarrow> relay_row list result" where
  "insert_relay row rows =
     (if list_ex (\<lambda>r. active r \<and> (rr_client_uuid r = rr_client_uuid row \<or> rr_client_id r = rr_client_id row)) rows
      then Inl UniqueViolation else Inr (rows @ [row]))"

definition relay_ttl :: "settings \<Rightarrow> int" where
  "relay_ttl cfg = max 60 (relay_key_ttl_seconds cfg)"

text \<open>\<open>relay_client_id = "rc_" + hex24\<close>, \<open>relay_client_key = b64url(32 random octets)\<close>.\<close>

definition mint_or_rotate_relay_credentials ::
  "settings \<Rightarrow> bool \<Rightarrow> timestamp \<Rightarrow> string \<Rightarrow> bytes \<Rightarrow> string \<Rightarrow> string \<Rightarrow> relay_state
     \<Rightarrow> relay_data result \<times> relay_state" where
  "mint_or_rotate_relay_credentials cfg use_db now hex rnd cuuid email st =
     (let cid = ''rc_'' @ take 24 hex;
          key = b64url_encode rnd;
          h = relay_hash cfg cid key;
          targets = relay_allowed_targets cfg;
          ttl = relay_ttl cfg;
          ex = int_time now + ttl;
          data = \<lparr>rd_client_id = cid, rd_client_key = key, rd_allowed_targets = targets,
                  rd_expires_at = ex, rd_ttl_seconds = ttl\<rparr>
      in if use_db then
           let rows = revoke_client now cuuid (relay_clients st);
               row = \<lparr>rr_created_at = now, rr_client_uuid = cuuid, rr_email = email, rr_client_id = cid,
                      rr_key_hash = h, rr_allowed_targets = targets, rr_expires_at = Some ex,
                      rr_revoked_at = None, rr_comments = ''enroll''\<rparr>
           in (case insert_relay row rows of
                 Inl err \<Rightarrow> (Inl err, st\<lparr>relay_clients := rows\<rparr>)
               | Inr rows' \<Rightarrow> (Inr data, st\<lparr>relay_clients := rows'\<rparr>))
         else
           (Inr data,
            st\<lparr>relay_memory := dset cid \<lparr>mr_client_uuid = cuuid, mr_email = email, mr_key_hash = h,
                 mr_allowed_targets = targets, mr_expires_at = ex, mr_revoked = False\<rparr> (relay_memory st)\<rparr>))"

section \<open>Verification\<close>

text \<open>\<open>ORDER BY created_at DESC LIMIT 1\<close>, as the dictionary the code builds from the row.\<close>

definition find_relay :: "string \<Rightarrow> relay_row list \<Rightarrow> relay_row option" where
  "find_relay cid rows =
     (case sort_key (\<lambda>r. - rr_created_at r) (filter (\<lambda>r. rr_client_id r = cid) rows) of
        [] \<Rightarrow> None | r # _ \<Rightarrow> Some r)"

definition row_mem :: "relay_row \<Rightarrow> mem_relay" where
  "row_mem r = \<lparr>mr_client_uuid = rr_client_uuid r, mr_email = rr_email r, mr_key_hash = rr_key_hash r,
     mr_allowed_targets = rr_allowed_targets r,
     mr_expires_at = (case rr_expires_at r of None \<Rightarrow> 0 | Some n \<Rightarrow> n),
     mr_revoked = (rr_revoked_at r \<noteq> None)\<rparr>"

definition lookup_relay :: "bool \<Rightarrow> string \<Rightarrow> relay_state \<Rightarrow> mem_relay option" where
  "lookup_relay use_db cid st =
     (if use_db then map_option row_mem (find_relay cid (relay_clients st)) else dget (relay_memory st) cid)"

definition effective_targets :: "string list \<Rightarrow> string list" where
  "effective_targets raw =
     (let ts = sorted_set (map (\<lambda>t. lower (strip t)) (filter (\<lambda>t. strip t \<noteq> []) raw));
          ts = (if ''config'' \<in> set ts \<and> ''telemetry'' \<notin> set ts then sort (ts @ [''telemetry'']) else ts)
      in if ''config'' \<in> set ts \<and> ''llm'' \<notin> set ts then sort (ts @ [''llm'']) else ts)"

definition verify_relay_credentials ::
  "settings \<Rightarrow> bool \<Rightarrow> timestamp \<Rightarrow> string \<Rightarrow> string \<Rightarrow> string option \<Rightarrow> relay_state \<Rightarrow> string + relay_meta" where
  "verify_relay_credentials cfg use_db now cid0 key0 target st =
     (let cid = strip cid0; key = strip key0; tgt = lower (strip (str_or target []))
      in if cid = [] \<or> key = [] then Inl ''missing relay headers''
         else case lookup_relay use_db cid st of
           None \<Rightarrow> Inl ''unknown relay client''
         | Some row \<Rightarrow>
             if mr_revoked row then Inl ''relay key revoked''
             else if mr_key_hash row = [] \<or> mr_key_hash row \<noteq> relay_hash cfg cid key
               then Inl ''invalid relay key''
             else if mr_expires_at row \<noteq> 0 \<and> mr_expires_at row \<le> int_time now
               then Inl ''relay key expired''
             else let eff = effective_targets (mr_allowed_targets row)
               in if tgt \<noteq> [] \<and> eff \<noteq> [] \<and> tgt \<notin> set eff
                  then Inl (''target '' @ [CHR 0x27] @ tgt @ [CHR 0x27] @ '' not allowed'')
                  else Inr \<lparr>rm_client_uuid = mr_client_uuid row, rm_email = mr_email row,
                            rm_allowed_targets = eff, rm_expires_at = mr_expires_at row\<rparr>)"

definition header_or :: "headers \<Rightarrow> string \<Rightarrow> string \<Rightarrow> string" where
  "header_or hs a b = str_or (header hs a) (str_or (header hs b) [])"

definition relay_auth_from_request ::
  "settings \<Rightarrow> bool \<Rightarrow> timestamp \<Rightarrow> headers \<Rightarrow> string option \<Rightarrow> bool \<Rightarrow> relay_state
     \<Rightarrow> (string + relay_meta) result" where
  "relay_auth_from_request cfg use_db now hs target require_proxy_token st =
     (if \<not> relay_enabled cfg then Inr (Inl ''relay auth disabled'')
      else
        let expected = strip (relay_proxy_shared_token cfg);
            provided = strip (str_or (header hs ''x-relay-proxy-token'') []);
            verdict = Inr (verify_relay_credentials cfg use_db now
                       (header_or hs ''x-relay-client'' ''x-client-id'')
                       (header_or hs ''x-relay-key'' ''x-client-key'') target st)
        in if require_proxy_token \<and> expected \<noteq> [] then
             bind_result (compare_digest expected provided) (\<lambda>same.
               if same then verdict else Inr (Inl ''invalid relay proxy token''))
           else verdict)"

section \<open>Identity of an LLM request\<close>

record llm_identity =
  li_client_uuid :: string
  li_email :: string
  li_auth_method :: string
  li_expires_at :: "int option"

definition client_uuid_is_active :: "bool \<Rightarrow> timestamp \<Rightarrow> string \<Rightarrow> relay_state \<Rightarrow> bool result" where
  "client_uuid_is_active use_db now cuuid st =
     (if cuuid = [] then Inr False
      else if use_db then
        (case pg_uuid cuuid of
           None \<Rightarrow> Inl DatabaseError
         | Some u \<Rightarrow> Inr (list_ex (\<lambda>r. rr_client_uuid r = u \<and> active r \<and>
                         (case rr_expires_at r of None \<Rightarrow> True | Some ex \<Rightarrow> now < secs ex)) (relay_clients st)))
      else if relay_memory st = [] then Inr True
      else Inr (list_ex (\<lambda>(k, r). mr_client_uuid r = cuuid \<and> \<not> mr_revoked r) (relay_memory st)))"

definition opt_int :: "int \<Rightarrow> int option" where
  "opt_int n = (if n = 0 then None else Some n)"

definition resolve_llm_identity ::
  "settings \<Rightarrow> env \<Rightarrow> bool \<Rightarrow> timestamp \<Rightarrow> headers \<Rightarrow> relay_state \<Rightarrow> llm_identity result" where
  "resolve_llm_identity cfg e use_db now hs st =
     (let relay_client = strip (header_or hs ''x-relay-client'' ''x-client-id'');
          auth = strip (str_or (header hs ''authorization'') []);
          token = strip (drop 7 auth)
      in if relay_client \<noteq> [] then
           bind_result (relay_auth_from_request cfg use_db now hs (Some ''llm'') False st) (\<lambda>r. case r of
             Inl msg \<Rightarrow> Inl (invalid_api_key (''Relay authentication failed: '' @ msg @ ''.''))
           | Inr meta \<Rightarrow> Inr \<lparr>li_client_uuid = rm_client_uuid meta, li_email = rm_email meta,
                              li_auth_method = ''relay_headers'', li_expires_at = opt_int (rm_expires_at meta)\<rparr>)
         else if startswith (lower auth) ''bearer '' \<and> token \<noteq> [] then
           bind_result (verify_llm_token e now token) (\<lambda>payload.
             let cuuid = jstr payload ''client_uuid''
             in bind_result (client_uuid_is_active use_db now cuuid st) (\<lambda>ok.
                  if \<not> ok then Inl (invalid_api_key ''Relay client revoked or expired.'')
                  else bind_result (json_int (jget_or payload ''exp'' (JInt 0))) (\<lambda>ex.
                    Inr \<lparr>li_client_uuid = cuuid, li_email = jstr payload ''email'',
                         li_auth_method = ''llm_token'', li_expires_at = opt_int ex\<rparr>)))
         else Inl (invalid_api_key (''Missing credentials: provide X-Relay-Client/X-Relay-Key headers or '' @
                ''Authorization: Bearer <llmToken> (obtained from /config after enrollment).'')))"

section \<open>Concurrent enrolments\<close>

text \<open>The statements several processes execute on the table, in any order.\<close>

inductive relay_step :: "relay_row list \<Rightarrow> relay_row list \<Rightarrow> bool" where
  revoke: "relay_step rows (revoke_client now cuuid rows)"
| insert: "insert_relay row rows = Inr rows' \<Longrightarrow> relay_step rows rows'"

inductive relay_reach :: "relay_row list \<Rightarrow> bool" where
  start: "relay_reach []"
| step: "relay_reach rows \<Longrightarrow> relay_step rows rows' \<Longrightarrow> relay_reach rows'"

definition relay_inv :: "relay_row list \<Rightarrow> bool" where
  "relay_inv rows = (distinct (map rr_client_uuid (filter active rows)) \<and>
     distinct (map rr_client_id (filter active rows)))"

section \<open>Lemmas\<close>

lemma filter_active_revoke:
  "filter active (revoke_client now c rows) = filter (\<lambda>r. active r \<and> rr_client_uuid r \<noteq> c) rows"
  by (induction rows) (auto simp: revoke_client_def active_def)

lemma relay_inv_filter: "relay_inv rows \<Longrightarrow> relay_inv (filter P rows)"
proof -
  assume inv: "relay_inv rows"
  have "filter active (filter P rows) = filter P (filter active rows)"
    by (simp add: conj_commute)
  then show ?thesis
    using inv by (auto simp: relay_inv_def distinct_map_filter simp del: filter_filter)
qed

lemma relay_step_inv: "relay_step rows rows' \<Longrightarrow> relay_inv rows \<Longrightarrow> relay_inv rows'"
proof (induction rule: relay_step.induct)
  case (revoke rows now c)
  have "filter active (revoke_client now c rows) = filter active (filter (\<lambda>r. rr_client_uuid r \<noteq> c) rows)"
    by (simp add: filter_active_revoke conj_commute)
  then show ?case
    using relay_inv_filter [OF revoke, of "\<lambda>r. rr_client_uuid r \<noteq> c"] by (simp add: relay_inv_def)
next
  case (insert row rows rows')
  then show ?case
    by (auto simp: insert_relay_def relay_inv_def list_ex_iff split: if_splits) blast+
qed

lemma relay_reach_inv: "relay_reach rows \<Longrightarrow> relay_inv rows"
  by (induction rule: relay_reach.induct) (auto simp: relay_step_inv relay_inv_def [of "[]"])

lemma sorted_set_props: "sorted (sorted_set ts) \<and> distinct (sorted_set ts) \<and> set (sorted_set ts) = set ts"
  by (simp add: sorted_set_def)

lemma sorted_set_id: "sorted ts \<Longrightarrow> distinct ts \<Longrightarrow> sorted_set ts = ts"
  by (simp add: sorted_set_def sorted_sort_id distinct_remdups_id)

lemma csv_items_stripped: "t \<in> set (csv_items raw) \<Longrightarrow> strip t = t \<and> t \<noteq> []"
  by (auto simp: csv_items_def)

definition norm_target :: "string \<Rightarrow> bool" where
  "norm_target t = (t \<noteq> [] \<and> lower (strip t) = t)"

lemma relay_allowed_targets_props:
  "sorted (relay_allowed_targets cfg)" "distinct (relay_allowed_targets cfg)"
  "{''config'', ''telemetry'', ''llm''} \<subseteq> set (relay_allowed_targets cfg)"
  "\<forall>t \<in> set (relay_allowed_targets cfg). norm_target t"
proof -
  have base: "\<forall>t \<in> set (map lower (csv_items raw)). norm_target t" for raw
  proof
    fix t assume "t \<in> set (map lower (csv_items raw))"
    then obtain u where u: "u \<in> set (csv_items raw)" "t = lower u" by auto
    from csv_items_stripped [OF u(1)] strip_lower_strip [of u] u(2) show "norm_target t"
      by (simp add: norm_target_def)
  qed
  have std: "norm_target ''keycloak'' \<and> norm_target ''config'' \<and> norm_target ''telemetry'' \<and> norm_target ''llm''"
    by code_simp
  show "sorted (relay_allowed_targets cfg)" "distinct (relay_allowed_targets cfg)"
    by (simp_all add: relay_allowed_targets_def Let_def sorted_set_props)
  show "{''config'', ''telemetry'', ''llm''} \<subseteq> set (relay_allowed_targets cfg)"
    by (simp add: relay_allowed_targets_def Let_def sorted_set_props add_missing_def)
  show "\<forall>t \<in> set (relay_allowed_targets cfg). norm_target t"
    using base [of "strip (relay_allowed_targets_csv cfg)"] std
    by (auto simp: relay_allowed_targets_def Let_def sorted_set_props add_missing_def)
qed

lemma effective_allowed: "effective_targets (relay_allowed_targets cfg) = relay_allowed_targets cfg"
proof -
  let ?ts = "relay_allowed_targets cfg"
  have t: "\<forall>t \<in> set ?ts. strip t \<noteq> [] \<and> lower (strip t) = t"
    using relay_allowed_targets_props(4) [of cfg] lower_Nil_iff unfolding norm_target_def by metis
  then have "filter (\<lambda>t. strip t \<noteq> []) ?ts = ?ts" "map (\<lambda>t. lower (strip t)) ?ts = ?ts"
    by (auto simp: filter_id_conv intro: map_idI)
  then show ?thesis
    using relay_allowed_targets_props(1-3) [of cfg]
    by (simp add: effective_targets_def Let_def sorted_set_id)
qed

lemma filter_no_id: "cid \<notin> rr_client_id ` set rows \<Longrightarrow> filter (\<lambda>r. rr_client_id r = cid) rows = []"
  by (induction rows) auto

lemma find_relay_snoc:
  "rr_client_id row \<notin> rr_client_id ` set rows \<Longrightarrow> find_relay (rr_client_id row) (rows @ [row]) = Some row"
  by (simp add: find_relay_def filter_no_id)

lemma revoke_append: "revoke_client now c (xs @ ys) = revoke_client now c xs @ revoke_client now c ys"
  by (simp add: revoke_client_def)

lemma set_revoke_ids [simp]: "rr_client_id ` set (revoke_client now c rows) = rr_client_id ` set rows"
  by (induction rows) (simp_all add: revoke_client_def)

definition relay_id :: "string \<Rightarrow> string" where
  "relay_id hex = ''rc_'' @ take 24 hex"

lemma relay_id_not_Nil [simp]: "relay_id hex \<noteq> []"
  by (simp add: relay_id_def)

lemma strip_relay_id: "list_all is_hex hex \<Longrightarrow> strip (relay_id hex) = relay_id hex"
proof (rule strip_id, rule ballI)
  fix c assume h: "list_all is_hex hex" and c: "c \<in> set (relay_id hex)"
  have "\<not> py_space c" if "is_hex c"
    using that by (auto simp: is_hex_def hex_val_def py_space_def Let_def split: if_splits)
  moreover have "c \<in> set ''rc_'' \<or> is_hex c"
    using h c by (auto simp: relay_id_def list_all_iff dest: in_set_takeD)
  ultimately show "\<not> py_space c" by (auto simp: py_space_def)
qed

lemma not_space_b64: "\<forall>c \<in> set (b64_encode s). \<not> py_space c"
proof -
  have "\<not> py_space (b64_char v)" for v
    by (auto simp: b64_char_def py_space_def Let_def)
  moreover have "\<not> py_space (CHR ''='')" by (simp add: py_space_def)
  ultimately show ?thesis
    by (induction s rule: b64_encode.induct) (auto simp: Let_def)
qed

lemma strip_b64url: "strip (b64url_encode s) = b64url_encode s"
proof (rule strip_id)
  show "\<forall>c \<in> set (b64url_encode s). \<not> py_space c"
    using not_space_b64 [of s] unfolding b64url_pad [of s, symmetric] by auto
qed

lemma b64url_not_Nil: "s \<noteq> [] \<Longrightarrow> b64url_encode s \<noteq> []"
  by (metis a2b_encode b64url_roundtrip b64url_encode_simps(1) sum.inject(2))

lemma relay_hash_not_Nil: "relay_hash cfg cid key \<noteq> []"
  using hexdigest_sha256_length [of "utf8_encode (cid @ '':'' @ key @ '':'' @ relay_secret_pepper cfg)"]
  by (auto simp: relay_hash_def hash_relay_secret_def)

text \<open>The row a mint leaves behind, in either store.\<close>

definition minted_row :: "settings \<Rightarrow> timestamp \<Rightarrow> string \<Rightarrow> bytes \<Rightarrow> string \<Rightarrow> string \<Rightarrow> mem_relay" where
  "minted_row cfg now hex rnd cuuid email =
     \<lparr>mr_client_uuid = cuuid, mr_email = email,
      mr_key_hash = relay_hash cfg (relay_id hex) (b64url_encode rnd),
      mr_allowed_targets = relay_allowed_targets cfg, mr_expires_at = int_time now + relay_ttl cfg,
      mr_revoked = False\<rparr>"

lemma mint_result:
  assumes "mint_or_rotate_relay_credentials cfg use_db now hex rnd cuuid email st = (Inr d, st')"
  shows "rd_client_id d = relay_id hex \<and> rd_client_key d = b64url_encode rnd \<and>
    rd_expires_at d = int_time now + relay_ttl cfg"
  using assms
  by (auto simp: mint_or_rotate_relay_credentials_def Let_def relay_id_def split: if_splits sum.splits)

lemma mint_rows:
  assumes "mint_or_rotate_relay_credentials cfg use_db now hex rnd cuuid email st = (Inr d, st')" "use_db"
  shows "\<exists>row. relay_clients st' = revoke_client now cuuid (relay_clients st) @ [row] \<and>
    rr_client_id row = relay_id hex \<and> rr_client_uuid row = cuuid \<and> active row \<and>
    row_mem row = minted_row cfg now hex rnd cuuid email"
  using assms
  by (auto simp: mint_or_rotate_relay_credentials_def Let_def relay_id_def insert_relay_def row_mem_def
      minted_row_def active_def split: if_splits sum.splits)

lemma mint_lookup:
  assumes "mint_or_rotate_relay_credentials cfg use_db now hex rnd cuuid email st = (Inr d, st')"
    and "relay_id hex \<notin> rr_client_id ` set (relay_clients st)"
  shows "lookup_relay use_db (relay_id hex) st' = Some (minted_row cfg now hex rnd cuuid email)"
proof (cases use_db)
  case True
  then obtain row where r: "relay_clients st' = revoke_client now cuuid (relay_clients st) @ [row]"
    "rr_client_id row = relay_id hex" "row_mem row = minted_row cfg now hex rnd cuuid email"
    using mint_rows [OF assms(1) True] by blast
  with True assms(2) show ?thesis
    using find_relay_snoc [of row "revoke_client now cuuid (relay_clients st)"]
    by (simp add: lookup_relay_def)
next
  case False
  with assms(1) show ?thesis
    by (auto simp: mint_or_rotate_relay_credentials_def lookup_relay_def Let_def relay_id_def minted_row_def)
qed

definition minted_verdict ::
  "settings \<Rightarrow> timestamp \<Rightarrow> timestamp \<Rightarrow> string \<Rightarrow> string \<Rightarrow> string option \<Rightarrow> string + relay_meta" where
  "minted_verdict cfg now now' cuuid email target =
     (let ex = int_time now + relay_ttl cfg; tgt = lower (strip (str_or target []))
      in if ex \<le> int_time now' then Inl ''relay key expired''
         else if tgt \<noteq> [] \<and> tgt \<notin> set (relay_allowed_targets cfg)
         then Inl (''target '' @ [CHR 0x27] @ tgt @ [CHR 0x27] @ '' not allowed'')
         else Inr \<lparr>rm_client_uuid = cuuid, rm_email = email,
                   rm_allowed_targets = relay_allowed_targets cfg, rm_expires_at = ex\<rparr>)"

lemma verify_minted:
  assumes "list_all is_hex hex" "rnd \<noteq> []" "0 \<le> now"
    and "lookup_relay use_db (relay_id hex) st = Some (minted_row cfg now hex rnd cuuid email)"
  shows "verify_relay_credentials cfg use_db now' (relay_id hex) (b64url_encode rnd) target st =
    minted_verdict cfg now now' cuuid email target"
proof -
  have "int_time now + relay_ttl cfg \<noteq> 0"
    using assms(3) by (simp add: int_time_def relay_ttl_def)
  moreover have "relay_id hex \<noteq> []" by (simp add: relay_id_def)
  moreover have "relay_allowed_targets cfg \<noteq> []"
    using relay_allowed_targets_props(3) [of cfg] by auto
  ultimately show ?thesis
    using assms(4) b64url_not_Nil [OF assms(2)]
    by (simp add: verify_relay_credentials_def Let_def strip_relay_id [OF assms(1)] strip_b64url
        minted_row_def relay_hash_not_Nil effective_allowed minted_verdict_def)
qed

lemma find_relay_Some: "find_relay cid rows = Some r \<Longrightarrow> r \<in> set rows \<and> rr_client_id r = cid"
proof -
  assume "find_relay cid rows = Some r"
  then obtain rs where "sort_key (\<lambda>r. - rr_created_at r) (filter (\<lambda>r. rr_client_id r = cid) rows) = r # rs"
    by (auto simp: find_relay_def split: list.splits)
  then have "r \<in> set (sort_key (\<lambda>r. - rr_created_at r) (filter (\<lambda>r. rr_client_id r = cid) rows))"
    by simp
  then show ?thesis by simp
qed

section \<open>Properties\<close>

text \<open>In every state reached by any interleaving of the statements of concurrent enrolments, the
  indexes of the schema give each client and each credential identifier at most one active row.\<close>

lemma relay_one_active:
  assumes "relay_reach rows" "r \<in> set rows" "r' \<in> set rows" "active r" "active r'"
  shows "(rr_client_uuid r = rr_client_uuid r' \<longrightarrow> r = r') \<and> (rr_client_id r = rr_client_id r' \<longrightarrow> r = r')"
proof -
  have "r \<in> set (filter active rows)" "r' \<in> set (filter active rows)"
    using assms by simp_all
  then show ?thesis
    using relay_reach_inv [OF assms(1)] by (auto simp: relay_inv_def distinct_map inj_on_def)
qed

text \<open>Revoking keeps the order of the rows and the credential a lookup finds.\<close>

lemma insort_key_map: "(\<And>x. f (g x) = f x) \<Longrightarrow> insort_key f (g x) (map g xs) = map g (insort_key f x xs)"
  by (induction xs) auto

lemma sort_key_map: "(\<And>x. f (g x) = f x) \<Longrightarrow> sort_key f (map g xs) = map g (sort_key f xs)"
  by (induction xs) (auto simp: insort_key_map)

lemma find_relay_map:
  assumes "\<And>r. rr_client_id (g r) = rr_client_id r" "\<And>r. rr_created_at (g r) = rr_created_at r"
  shows "find_relay cid (map g rows) = map_option g (find_relay cid rows)"
proof -
  have "filter (\<lambda>r. rr_client_id r = cid) (map g rows) = map g (filter (\<lambda>r. rr_client_id r = cid) rows)"
    by (simp add: filter_map comp_def assms(1))
  then show ?thesis
    using sort_key_map [of "\<lambda>r. - rr_created_at r" g] assms(2) by (simp add: find_relay_def split: list.split)
qed

lemma find_relay_other: "rr_client_id row \<noteq> cid \<Longrightarrow> find_relay cid (rows @ [row]) = find_relay cid rows"
  by (simp add: find_relay_def)

lemma find_relay_revoke:
  "find_relay cid rows = Some r \<Longrightarrow> rr_client_uuid r \<noteq> cuuid \<Longrightarrow> find_relay cid (revoke_client now cuuid rows) = Some r"
  "find_relay cid rows = None \<Longrightarrow> find_relay cid (revoke_client now cuuid rows) = None"
  unfolding revoke_client_def by (subst find_relay_map; simp)+

text \<open>With a database and a new identifier the rotation cannot fail: the revocation clears the way
  for the insert.\<close>

lemma mint_succeeds:
  assumes "relay_id hex \<notin> rr_client_id ` set (relay_clients st)"
  shows "\<exists>d st'. mint_or_rotate_relay_credentials cfg True now hex rnd cuuid email st = (Inr d, st')"
proof -
  have "\<not> list_ex (\<lambda>r. active r \<and> (rr_client_uuid r = cuuid \<or> rr_client_id r = relay_id hex))
      (revoke_client now cuuid (relay_clients st))"
    using assms by (auto simp: list_ex_iff revoke_client_def active_def image_iff)
  then show ?thesis
    by (simp add: mint_or_rotate_relay_credentials_def Let_def insert_relay_def relay_id_def)
qed

lemma accepted_row:
  assumes "verify_relay_credentials cfg True t cid key target st = Inr m"
  shows "\<exists>r \<in> set (relay_clients st). rr_client_id r = strip cid \<and> rr_client_uuid r = rm_client_uuid m \<and> active r"
proof -
  obtain r where "find_relay (strip cid) (relay_clients st) = Some r" "active r" "rr_client_uuid r = rm_client_uuid m"
    using assms by (auto simp: verify_relay_credentials_def Let_def lookup_relay_def row_mem_def active_def
        split: if_splits option.splits)
  with find_relay_Some [of "strip cid"] show ?thesis by blast
qed

text \<open>Property C8. Rotating a client's relay credentials replaces them: with a database and a new
  identifier the call succeeds; the new pair is accepted as minted, until its expiry second and for
  the configured targets; it is the only pair accepted for that client from then on, whatever
  pairs were issued before; and every pair of another client is judged exactly as before.\<close>

theorem relay_rotation_replaces:
  assumes "list_all is_hex hex" "rnd \<noteq> []" "0 \<le> now"
    and "relay_id hex \<notin> rr_client_id ` set (relay_clients st)"
  shows "\<exists>d st'. mint_or_rotate_relay_credentials cfg True now hex rnd cuuid email st = (Inr d, st') \<and>
    (\<forall>t target. verify_relay_credentials cfg True t (rd_client_id d) (rd_client_key d) target st' =
       minted_verdict cfg now t cuuid email target) \<and>
    (\<forall>t cid key target m. verify_relay_credentials cfg True t cid key target st' = Inr m \<and> rm_client_uuid m = cuuid \<longrightarrow>
       strip cid = rd_client_id d) \<and>
    (\<forall>t cid key target r. find_relay (strip cid) (relay_clients st) = Some r \<and> rr_client_uuid r \<noteq> cuuid \<longrightarrow>
       verify_relay_credentials cfg True t cid key target st' = verify_relay_credentials cfg True t cid key target st)"
proof -
  obtain d st' where m: "mint_or_rotate_relay_credentials cfg True now hex rnd cuuid email st = (Inr d, st')"
    using mint_succeeds [OF assms(4)] by blast
  obtain row where row: "relay_clients st' = revoke_client now cuuid (relay_clients st) @ [row]"
    "rr_client_id row = relay_id hex" using mint_rows [OF m] by blast
  note d = mint_result [OF m]
  have "verify_relay_credentials cfg True t (rd_client_id d) (rd_client_key d) target st' =
      minted_verdict cfg now t cuuid email target" for t target
    using verify_minted [OF assms(1-3) mint_lookup [OF m assms(4)]] d by simp
  moreover have "strip cid = rd_client_id d"
    if "verify_relay_credentials cfg True t cid key target st' = Inr mm" "rm_client_uuid mm = cuuid" for t cid key target mm
    using accepted_row [OF that(1)] that(2) row d by (auto simp: revoke_client_def active_def split: if_splits)
  moreover have "verify_relay_credentials cfg True t cid key target st' = verify_relay_credentials cfg True t cid key target st"
    if r: "find_relay (strip cid) (relay_clients st) = Some r" "rr_client_uuid r \<noteq> cuuid" for t cid key target r
  proof -
    have "relay_id hex \<noteq> strip cid" using find_relay_Some [OF r(1)] assms(4) by (auto simp: image_iff)
    then have "find_relay (strip cid) (relay_clients st') = find_relay (strip cid) (relay_clients st)"
      using r row by (simp add: find_relay_other find_relay_revoke)
    then show ?thesis by (simp add: verify_relay_credentials_def lookup_relay_def Let_def)
  qed
  ultimately show ?thesis using m by blast
qed

text \<open>Freshly minted relay credentials are accepted, for the client and e-mail they were minted
  for, until their expiry second and refused as expired from then on; before it only a target
  outside the configured list is refused, and \<open>config\<close>, \<open>telemetry\<close> and \<open>llm\<close> are always in that
  list. The lifetime is at least a minute. This holds for the database and for the memory store.\<close>

theorem relay_mint_verify:
  assumes "list_all is_hex hex" "rnd \<noteq> []" "0 \<le> now"
    and "relay_id hex \<notin> rr_client_id ` set (relay_clients st)"
    and "mint_or_rotate_relay_credentials cfg use_db now hex rnd cuuid email st = (Inr d, st')"
  shows "verify_relay_credentials cfg use_db now' (rd_client_id d) (rd_client_key d) target st' =
      minted_verdict cfg now now' cuuid email target \<and>
    rd_expires_at d = int_time now + relay_ttl cfg \<and> 60 \<le> relay_ttl cfg \<and>
    {''config'', ''telemetry'', ''llm''} \<subseteq> set (relay_allowed_targets cfg)"
  using verify_minted [OF assms(1-3) mint_lookup [OF assms(5,4)]] mint_result [OF assms(5)]
    relay_allowed_targets_props(3) [of cfg] by (simp add: relay_ttl_def)

text \<open>Rotating a client's credentials in the database revokes the previous ones at once: they
  are refused as revoked for every target and at every later time. The memory store, used without
  a database, does not revoke: there the previous credentials stay valid until their own expiry.\<close>

theorem relay_rotation:
  assumes "list_all is_hex hex" "rnd \<noteq> []" "0 \<le> now" "relay_id hex' \<noteq> relay_id hex"
    and "relay_id hex \<notin> rr_client_id ` set (relay_clients st)"
    and "mint_or_rotate_relay_credentials cfg use_db now hex rnd cuuid email st = (Inr d, st1)"
    and "mint_or_rotate_relay_credentials cfg use_db now' hex' rnd' cuuid email' st1 = (Inr d', st2)"
  shows "verify_relay_credentials cfg use_db t (rd_client_id d) (rd_client_key d) target st2 =
    (if use_db then Inl ''relay key revoked'' else minted_verdict cfg now t cuuid email target)"
proof (cases use_db)
  case True
  note m = mint_result [OF assms(6)]
  obtain row where row: "relay_clients st1 = revoke_client now cuuid (relay_clients st) @ [row]"
    "rr_client_id row = relay_id hex" "rr_client_uuid row = cuuid" "active row"
    using mint_rows [OF assms(6) True] by blast
  obtain row' where row': "relay_clients st2 = revoke_client now' cuuid (relay_clients st1) @ [row']"
    "rr_client_id row' = relay_id hex'"
    using mint_rows [OF assms(7) True] by blast
  let ?old = "revoke_client now' cuuid [row]"
  have "filter (\<lambda>r. rr_client_id r = relay_id hex) (revoke_client t c (relay_clients st)) = []" for t c
    using assms(5) by (simp add: filter_no_id)
  moreover have "revoke_client now' cuuid (revoke_client now cuuid (relay_clients st)) =
      revoke_client now cuuid (relay_clients st)"
    by (simp add: revoke_client_def active_def)
  ultimately have "filter (\<lambda>r. rr_client_id r = relay_id hex) (relay_clients st2) = ?old"
    using row row' assms(4) revoke_client_def [of now' cuuid "[row]"] by (simp add: revoke_append)
  then have "lookup_relay True (relay_id hex) st2 = Some (row_mem (hd ?old))"
    by (simp add: lookup_relay_def find_relay_def revoke_client_def)
  moreover have "mr_revoked (row_mem (hd ?old))"
    using row by (simp add: revoke_client_def row_mem_def)
  ultimately show ?thesis
    using True m b64url_not_Nil [OF assms(2)]
    by (simp add: verify_relay_credentials_def Let_def strip_relay_id [OF assms(1)] strip_b64url)
next
  case False
  note m = mint_result [OF assms(6)]
  have "lookup_relay False (relay_id hex) st1 = Some (minted_row cfg now hex rnd cuuid email)"
    using mint_lookup [OF assms(6,5)] False by simp
  then have "lookup_relay False (relay_id hex) st2 = Some (minted_row cfg now hex rnd cuuid email)"
    using assms(4,7) False
    by (auto simp: mint_or_rotate_relay_credentials_def lookup_relay_def Let_def relay_id_def)
  from verify_minted [OF assms(1-3) this] show ?thesis using m False by simp
qed

text \<open>Verification accepts a pair only when a stored credential with that identifier is not
  revoked, its hash is the peppered hash of the presented key, and it has not expired; the answer
  names that credential's client, and a requested target is among the effective targets unless
  the stored list is empty, in which case every target is accepted.\<close>

theorem relay_verify_sound:
  assumes "verify_relay_credentials cfg use_db now cid key target st = Inr m"
  shows "\<exists>row. lookup_relay use_db (strip cid) st = Some row \<and> \<not> mr_revoked row \<and>
    mr_key_hash row = hash_relay_secret (strip cid) (strip key) (relay_secret_pepper cfg) \<and>
    (mr_expires_at row = 0 \<or> int_time now < mr_expires_at row) \<and>
    rm_client_uuid m = mr_client_uuid row \<and> rm_email m = mr_email row \<and>
    (str_or target [] = [] \<or> lower (strip (str_or target [])) = [] \<or>
     lower (strip (str_or target [])) \<in> set (rm_allowed_targets m) \<or> rm_allowed_targets m = [])"
  using assms
  by (auto simp: verify_relay_credentials_def Let_def relay_hash_def split: if_splits option.splits)

lemma not_space_seal: "\<forall>c \<in> set (seal k j). \<not> py_space c"
proof -
  have "\<forall>c \<in> set (b64url_encode s). \<not> py_space c" for s
    using not_space_b64 [of s] unfolding b64url_pad [of s, symmetric] by auto
  then show ?thesis by (auto simp: seal_def Let_def py_space_def [of "CHR ''.''"])
qed

lemma bearer_seal:
  fixes k j
  defines "tok \<equiv> seal k j"
  shows "strip (''Bearer '' @ tok) = ''Bearer '' @ tok" "startswith (lower (''Bearer '' @ tok)) ''bearer ''"
    "strip (drop 7 (''Bearer '' @ tok)) = tok" "tok \<noteq> []"
proof -
  show n: "tok \<noteq> []" by (simp add: tok_def seal_def Let_def)
  have sp: "\<forall>c \<in> set tok. \<not> py_space c" unfolding tok_def by (rule not_space_seal)
  then show "strip (drop 7 (''Bearer '' @ tok)) = tok" by (simp add: strip_id)
  show "strip (''Bearer '' @ tok) = ''Bearer '' @ tok"
    using n sp by (intro strip_ends_id) (auto simp: py_space_def [of "CHR ''B''"])
  show "startswith (lower (''Bearer '' @ tok)) ''bearer ''"
  proof -
    have "lower ''Bearer '' = ''bearer ''" by code_simp
    then have "lower (''Bearer '' @ tok) = ''bearer '' @ lower tok"
      by (metis lower_def map_append)
    then show ?thesis by (simp only: startswith_app)
  qed
qed

text \<open>Property C9. An LLM token that is still within its lifetime is only as good as its client's relay
  credentials: with a database, a request bearing it is resolved to the client and e-mail it was
  minted for exactly when the client has a credential that is neither revoked nor expired, and is
  refused with 401 otherwise.\<close>

theorem llm_token_needs_active_client:
  assumes "llm_signing_key e \<noteq> []" "int_time now < int_time t + llm_ttl_seconds e" "pg_uuid c = Some c"
    and "strip (header_or hs ''x-relay-client'' ''x-client-id'') = []"
    and "header hs ''authorization'' = Some (''Bearer '' @ fst (mint_llm_token e t jti c m))"
  shows "resolve_llm_identity cfg e True now hs st =
    (if \<exists>r \<in> set (relay_clients st). rr_client_uuid r = c \<and> active r \<and>
          (case rr_expires_at r of None \<Rightarrow> True | Some ex \<Rightarrow> now < secs ex)
     then Inr \<lparr>li_client_uuid = c, li_email = m, li_auth_method = ''llm_token'',
               li_expires_at = opt_int (int_time t + llm_ttl_seconds e)\<rparr>
     else Inl (invalid_api_key ''Relay client revoked or expired.''))"
proof -
  let ?pl = "sort_key fst (llm_payload jti (int_time t) (llm_ttl_seconds e) c m)"
  note s = mint_llm_token_seal [OF assms(1), of t jti c m]
  have v: "verify_llm_token e now (fst (mint_llm_token e t jti c m)) = Inr ?pl"
    using verify_minted_llm [OF assms(1)] assms(2) by simp
  have g: "jget ?pl k = jget (llm_payload jti (int_time t) (llm_ttl_seconds e) c m) k" for k
    by (rule jget_sort_key) simp
  have j: "jstr ?pl ''client_uuid'' = c" "jstr ?pl ''email'' = m"
    "json_int (jget_or ?pl ''exp'' (JInt 0)) = Inr (int_time t + llm_ttl_seconds e)"
    unfolding jstr_def jget_or_def g by (simp_all add: llm_payload_def jget_def dget_def)
  have "c \<noteq> []" using assms(3) by (auto simp: pg_uuid_def numeral_eq_Suc)
  then show ?thesis
    using assms(3-5) j v bearer_seal [of "llm_signing_key e" "JObj ?pl"]
    by (simp add: resolve_llm_identity_def Let_def s client_uuid_is_active_def list_ex_iff
        del: lower_lower)
qed

section \<open>Witnesses\<close>

definition demo_settings :: settings where
  "demo_settings = settings_defaults (\<lambda>_. None)"

definition no_relays :: relay_state where
  "no_relays = \<lparr>relay_clients = [], relay_memory = []\<rparr>"

definition demo_mint :: "bool \<Rightarrow> timestamp \<Rightarrow> string \<Rightarrow> relay_state \<Rightarrow> relay_data result \<times> relay_state" where
  "demo_mint use_db now hex st =
     mint_or_rotate_relay_credentials demo_settings use_db now hex ''x'' ''u1'' ''a@b'' st"

lemma demo_mint_Inr:
  "demo_mint use_db 0 ''aa'' no_relays = (Inr (projr (fst (demo_mint use_db 0 ''aa'' no_relays))), snd (demo_mint use_db 0 ''aa'' no_relays))"
  by (cases use_db)
     (simp_all add: demo_mint_def mint_or_rotate_relay_credentials_def Let_def insert_relay_def revoke_client_def no_relays_def)

lemma demo_ids: "list_all is_hex ''aa''" "relay_id ''bb'' \<noteq> relay_id ''aa''"
  by (simp_all add: relay_id_def is_hex_def hex_val_def)

lemma demo_mint2_Inr:
  assumes "demo_mint use_db 0 ''aa'' no_relays = (Inr d, st1)"
  shows "demo_mint use_db 5 ''bb'' st1 =
    (Inr (projr (fst (demo_mint use_db 5 ''bb'' st1))), snd (demo_mint use_db 5 ''bb'' st1))"
proof (cases use_db)
  case True
  have "\<not> list_ex (\<lambda>r. active r \<and> (rr_client_uuid r = ''u1'' \<or> rr_client_id r = relay_id ''bb''))
      (revoke_client 5 ''u1'' (relay_clients st1))"
    using mint_rows [OF assms [unfolded demo_mint_def] True]
    by (auto simp: revoke_client_def no_relays_def active_def)
  then show ?thesis
    using True by (simp add: demo_mint_def mint_or_rotate_relay_credentials_def Let_def insert_relay_def relay_id_def)
next
  case False
  then show ?thesis
    by (simp add: demo_mint_def mint_or_rotate_relay_credentials_def Let_def)
qed

theorem relay_mint_verify_witness:
  "\<exists>d st'. demo_mint True 0 ''aa'' no_relays = (Inr d, st') \<and>
     verify_relay_credentials demo_settings True 9 (rd_client_id d) (rd_client_key d) (Some ''llm'') st' =
       minted_verdict demo_settings 0 9 ''u1'' ''a@b'' (Some ''llm'')"
proof -
  have "''x'' \<noteq> []" "0 \<le> (0 :: int)" "relay_id ''aa'' \<notin> rr_client_id ` set (relay_clients no_relays)"
    by (simp_all add: no_relays_def)
  from relay_mint_verify [OF demo_ids(1) this demo_mint_Inr [of True, unfolded demo_mint_def]]
  show ?thesis using demo_mint_Inr [of True] unfolding demo_mint_def by blast
qed

theorem relay_rotation_witness:
  "\<exists>d st1 d' st2. demo_mint True 0 ''aa'' no_relays = (Inr d, st1) \<and> demo_mint True 5 ''bb'' st1 = (Inr d', st2) \<and>
     verify_relay_credentials demo_settings True 9 (rd_client_id d) (rd_client_key d) (Some ''llm'') st2 =
       Inl ''relay key revoked''"
proof -
  note m1 = demo_mint_Inr [of True]
  note m2 = demo_mint2_Inr [OF m1]
  have "''x'' \<noteq> []" "0 \<le> (0 :: int)" by simp_all
  from relay_rotation [OF demo_ids(1) this demo_ids(2) _ m1 [unfolded demo_mint_def] m2 [unfolded demo_mint_def],
      of 9 "Some ''llm''"] m1 m2
  show ?thesis unfolding demo_mint_def by (simp add: no_relays_def) metis
qed

theorem relay_verify_sound_witness:
  "\<exists>row. lookup_relay False ''c'' \<lparr>relay_clients = [], relay_memory = [(''c'', \<lparr>mr_client_uuid = ''u'', mr_email = ''e'',
       mr_key_hash = hash_relay_secret ''c'' ''k'' ''change-me-relay-pepper'', mr_allowed_targets = [],
       mr_expires_at = 0, mr_revoked = False\<rparr>)]\<rparr> = Some row \<and> \<not> mr_revoked row"
proof -
  let ?row = "\<lparr>mr_client_uuid = ''u'', mr_email = ''e'',
       mr_key_hash = hash_relay_secret ''c'' ''k'' ''change-me-relay-pepper'', mr_allowed_targets = [],
       mr_expires_at = 0, mr_revoked = False\<rparr>"
  let ?st = "\<lparr>relay_clients = [], relay_memory = [(''c'', ?row)]\<rparr>"
  have s: "strip ''c'' = ''c''" "strip ''k'' = ''k''" by code_simp+
  have "verify_relay_credentials demo_settings False 0 ''c'' ''k'' None ?st =
      Inr \<lparr>rm_client_uuid = ''u'', rm_email = ''e'', rm_allowed_targets = effective_targets [], rm_expires_at = 0\<rparr>"
    using relay_hash_not_Nil [of demo_settings "''c''" "''k''"]
    by (simp add: verify_relay_credentials_def Let_def s lookup_relay_def dget_def relay_hash_def
        demo_settings_def settings_defaults_def)
  from relay_verify_sound [OF this] show ?thesis by (simp add: s lookup_relay_def dget_def)
qed

definition demo_row :: relay_row where
  "demo_row = \<lparr>rr_created_at = 0, rr_client_uuid = ''u'', rr_email = ''e'', rr_client_id = ''c'',
     rr_key_hash = ''h'', rr_allowed_targets = [], rr_expires_at = None, rr_revoked_at = None, rr_comments = []\<rparr>"

theorem relay_rotation_replaces_witness:
  "\<exists>d st'. mint_or_rotate_relay_credentials demo_settings True 0 ''aa'' ''x'' ''u'' ''a@b''
       \<lparr>relay_clients = [demo_row], relay_memory = []\<rparr> = (Inr d, st') \<and>
     (\<nexists>key m. verify_relay_credentials demo_settings True 9 ''c'' key (Some ''llm'') st' = Inr m \<and> rm_client_uuid m = ''u'')"
proof -
  let ?st = "\<lparr>relay_clients = [demo_row], relay_memory = []\<rparr>"
  have "''x'' \<noteq> []" "0 \<le> (0 :: int)" "relay_id ''aa'' \<notin> rr_client_id ` set (relay_clients ?st)"
    by (simp_all add: demo_row_def relay_id_def)
  from relay_rotation_replaces [OF demo_ids(1) this, of demo_settings "''u''" "''a@b''"] obtain d st' where
    r: "mint_or_rotate_relay_credentials demo_settings True 0 ''aa'' ''x'' ''u'' ''a@b'' ?st = (Inr d, st')"
    "\<forall>t cid key target m. verify_relay_credentials demo_settings True t cid key target st' = Inr m \<and> rm_client_uuid m = ''u'' \<longrightarrow>
       strip cid = rd_client_id d" by blast
  have "rd_client_id d \<noteq> strip ''c''" using mint_result [OF r(1)] by (simp add: relay_id_def strip_id py_space_def)
  with r show ?thesis by metis
qed

theorem llm_token_needs_active_client_witness:
  "resolve_llm_identity demo_settings demo_env True 0
     [(''authorization'', ''Bearer '' @ fst (mint_llm_token demo_env 0 ''j'' (uuid_str 1) ''m''))] no_relays =
   Inl (invalid_api_key ''Relay client revoked or expired.'')"
proof -
  let ?hs = "[(''authorization'', ''Bearer '' @ fst (mint_llm_token demo_env 0 ''j'' (uuid_str 1) ''m''))]"
  have "strip (header_or ?hs ''x-relay-client'' ''x-client-id'') = []"
    "header ?hs ''authorization'' = Some (''Bearer '' @ fst (mint_llm_token demo_env 0 ''j'' (uuid_str 1) ''m''))"
    by (simp_all add: header_or_def header_def dget_def lower_def lower_char_def)
  from llm_token_needs_active_client [OF _ _ pg_uuid_str this, of 0 demo_settings no_relays]
  show ?thesis by (simp add: demo_key int_time_def no_relays_def)
qed

end
