(* ===== verification/RuntimeConfig.thy ===== *)
theory RuntimeConfig
  imports Relay
begin

text \<open>
  Runtime configuration (\<open>app/runtime_config.py\<close>), its service (\<open>app/admin/services/runtime_config.py\<close>)
  and the two routes that edit it (\<open>app/admin/router.py\<close>): the registry of editable keys, the baseline
  taken from the environment, overrides stored in PostgreSQL, their application to a process, the
  generation counter, and the fleet of pods. Python values are JSON values; \<open>to_float\<close> stands for
  \<open>float(v)\<close>, which no registered key uses, and \<open>dec\<close> for \<open>decrypt_secret\<close> under the key of the
  process. Labels and groups of the user interface, log messages and health figures are left out.
\<close>

section \<open>The registry\<close>

record key_spec =
  ks_env_name :: string
  ks_type :: string
  ks_hot_reloadable :: bool
  ks_sensitive :: bool
  ks_settings_field :: "string option"
  ks_min :: "int option"
  ks_max :: "int option"

definition key_spec :: "string \<Rightarrow> string \<Rightarrow> bool \<Rightarrow> bool \<Rightarrow> string option \<Rightarrow> int option \<Rightarrow> int option \<Rightarrow> key_spec" where
  "key_spec n ty hot sens field mn mx =
     \<lparr>ks_env_name = n, ks_type = ty, ks_hot_reloadable = hot, ks_sensitive = sens, ks_settings_field = field,
      ks_min = mn, ks_max = mx\<rparr>"

definition EDITABLE_KEYS :: "key_spec list" where
  "EDITABLE_KEYS =
     [key_spec ''API_BASE'' ''str'' True False None None None,
      key_spec ''RELAY_ASSISTANT_BASE_URL'' ''str'' False False None None None,
      key_spec ''COMPTE_RENDU_URL'' ''str'' True False None None None,
      key_spec ''COMU_URL'' ''str'' True False None None None,
      key_spec ''PUBLIC_BASE_URL'' ''str'' True False None None None,
      key_spec ''DM_BOOTSTRAP_URLS'' ''list'' True False None None None,
      key_spec ''KEYCLOAK_ISSUER_URL'' ''str'' False False None None None,
      key_spec ''KEYCLOAK_REALM'' ''str'' False False None None None,
      key_spec ''KEYCLOAK_CLIENT_ID'' ''str'' False False None None None,
      key_spec ''KEYCLOAK_REDIRECT_URI'' ''str'' False False None None None,
      key_spec ''KEYCLOAK_ALLOWED_REDIRECT_URI'' ''str'' True False None None None,
      key_spec ''ADMIN_OIDC_CLIENT_SECRET'' ''str'' False True None None None,
      key_spec ''LLM_BASE_URL'' ''str'' True False None None None,
      key_spec ''LLM_API_TOKEN'' ''str'' True True None None None,
      key_spec ''DEFAULT_MODEL_NAME'' ''str'' True False None None None,
      key_spec ''EMBD_MODEL_NAME'' ''str'' True False None None None,
      key_spec ''FORCE_LLM_ENDPOINT_OVERRIDE'' ''bool'' True False None None None,
      key_spec ''PUBLIC_LLM_PROXY_URL'' ''str'' True False None None None,
      key_spec ''DM_LLM_TOKEN_SIGNING_KEY'' ''str'' True True None None None,
      key_spec ''DM_LLM_TOKEN_TTL_SECONDS'' ''int'' True False None (Some 60) (Some 86400),
      key_spec ''LLM_QUOTA_REQUESTS_PER_MINUTE'' ''int'' True False None (Some 0) None,
      key_spec ''LLM_QUOTA_WINDOW_SECONDS'' ''int'' True False None (Some 10) (Some 3600),
      key_spec ''LLM_BACKENDS'' ''str'' True False None None None,
      key_spec ''LLM_GUARDRAILS'' ''str'' True False None None None,
      key_spec ''DM_LLM_READ_TIMEOUT_SECONDS'' ''int'' True False None (Some 10) (Some 600),
      key_spec ''DM_TELEMETRY_ENABLED'' ''bool'' True False (Some ''telemetry_enabled'') None None,
      key_spec ''DM_TELEMETRY_PUBLIC_ENDPOINT'' ''str'' True False (Some ''telemetry_public_endpoint'') None None,
      key_spec ''DM_TELEMETRY_UPSTREAM_ENDPOINT'' ''str'' True False (Some ''telemetry_upstream_endpoint'') None None,
      key_spec ''DM_TELEMETRY_UPSTREAM_KEY'' ''str'' True True (Some ''telemetry_upstream_key'') None None,
      key_spec ''DM_TELEMETRY_TOKEN_SIGNING_KEY'' ''str'' True True (Some ''telemetry_token_signing_key'') None None,
      key_spec ''DM_TELEMETRY_REQUIRE_TOKEN'' ''bool'' True False (Some ''telemetry_require_token'') None None,
      key_spec ''DM_RELAY_PROXY_SHARED_TOKEN'' ''str'' True True (Some ''relay_proxy_shared_token'') None None,
      key_spec ''DM_RELAY_SECRET_PEPPER'' ''str'' True True (Some ''relay_secret_pepper'') None None]"

definition spec_of :: "string \<Rightarrow> key_spec option" where
  "spec_of k = find (\<lambda>s. ks_env_name s = k) EDITABLE_KEYS"

section \<open>Coercion\<close>

definition parse_list :: "json \<Rightarrow> string list" where
  "parse_list raw = (case raw of
       JList xs \<Rightarrow> map py_str xs
     | _ \<Rightarrow>
         let s = strip (if truthy raw then py_str raw else [])
         in if s = [] then []
            else case (if startswith s ''['' then loads s else None) of
                Some (JList xs) \<Rightarrow> map py_str xs
              | _ \<Rightarrow> csv_items s)"

definition on_word :: "string \<Rightarrow> bool" where
  "on_word s = (lower (strip s) \<in> {''1'', ''true'', ''yes'', ''on''})"

definition coerce :: "(json \<Rightarrow> json result) \<Rightarrow> json \<Rightarrow> string \<Rightarrow> json result" where
  "coerce to_float v ty =
     (if v = JNull then Inr JNull
      else if ty = ''bool'' then Inr (case v of JBool b \<Rightarrow> JBool b | _ \<Rightarrow> JBool (on_word (py_str v)))
      else if ty = ''int'' then bind_result (json_int v) (\<lambda>n. Inr (JInt n))
      else if ty = ''float'' then to_float v
      else if ty = ''list'' then Inr (JList (map JStr (parse_list v)))
      else Inr (JStr (py_str v)))"

definition to_env_str :: "json \<Rightarrow> string \<Rightarrow> string" where
  "to_env_str v ty =
     (if v = JNull then []
      else if ty = ''bool'' then
        (if (case v of JBool b \<Rightarrow> b | _ \<Rightarrow> on_word (py_str v)) then ''true'' else ''false'')
      else if ty = ''list'' then dumps (JList (map JStr (parse_list v)))
      else py_str v)"

fun clean_items :: "string list \<Rightarrow> string list \<Rightarrow> string list" where
  "clean_items seen [] = []"
| "clean_items seen (x # xs) =
     (let i = strip x in if i = [] \<or> i \<in> set seen then clean_items seen xs else i # clean_items (i # seen) xs)"

definition coerce_input :: "(json \<Rightarrow> json result) \<Rightarrow> key_spec \<Rightarrow> json \<Rightarrow> json result" where
  "coerce_input to_float spec v =
     bind_result (coerce to_float v (ks_type spec)) (\<lambda>py.
       if ks_type spec \<in> {''int'', ''float''} \<and> py \<noteq> JNull \<and>
          (case (ks_min spec, num_of py) of (Some m, Some n) \<Rightarrow> num_less n (Fin (of_int m)) | _ \<Rightarrow> False)
       then Inl (ValueError (ks_env_name spec @ '' < '' @ str_of_int (the (ks_min spec))))
       else if ks_type spec \<in> {''int'', ''float''} \<and> py \<noteq> JNull \<and>
          (case (ks_max spec, num_of py) of (Some m, Some n) \<Rightarrow> num_less (Fin (of_int m)) n | _ \<Rightarrow> False)
       then Inl (ValueError (ks_env_name spec @ '' > '' @ str_of_int (the (ks_max spec))))
       else if ks_type spec = ''list'' then
         (case py of JList xs \<Rightarrow> Inr (JList (map JStr (clean_items [] (map py_str xs)))) | _ \<Rightarrow> Inl TypeError)
       else Inr py)"

definition to_stored_value :: "key_spec \<Rightarrow> json \<Rightarrow> string" where
  "to_stored_value spec py =
     (if ks_type spec = ''list'' then dumps (JList (map JStr (parse_list py))) else to_env_str py (ks_type spec))"

section \<open>The state of a process\<close>

record override_meta =
  om_value :: json
  om_is_secret :: bool
  om_updated_by :: "string option"
  om_updated_at :: timestamp

text \<open>\<open>pc_env\<close> is \<open>os.environ\<close>, \<open>pc_settings\<close> the attributes of the settings object, \<open>pc_reloads\<close> counts
  the runs of the reload hooks (they drop the cached \<open>/config\<close> responses).\<close>

record proc =
  pc_env :: env
  pc_settings :: "string \<Rightarrow> json"
  pc_baseline :: "string \<Rightarrow> json"
  pc_meta :: "override_meta dict"
  pc_generation :: int
  pc_ready :: bool
  pc_baseline_ready :: bool
  pc_gate :: bool
  pc_bootstrapped :: bool
  pc_reloads :: nat

definition baseline_value :: "(json \<Rightarrow> json result) \<Rightarrow> proc \<Rightarrow> key_spec \<Rightarrow> json result" where
  "baseline_value to_float p s = (case ks_settings_field s of
       Some f \<Rightarrow> Inr (pc_settings p f)
     | None \<Rightarrow>
         let raw = getenv (pc_env p) (ks_env_name s) []
         in if raw \<noteq> [] then coerce to_float (JStr raw) (ks_type s)
            else Inr (if ks_type s = ''list'' then JList [] else if ks_type s = ''str'' then JStr [] else JNull))"

fun snapshot_keys :: "(json \<Rightarrow> json result) \<Rightarrow> key_spec list \<Rightarrow> proc \<Rightarrow> unit result \<times> proc" where
  "snapshot_keys to_float [] p = (Inr (), p)"
| "snapshot_keys to_float (s # ss) p = (case baseline_value to_float p s of
       Inl e \<Rightarrow> (Inl e, p)
     | Inr v \<Rightarrow> snapshot_keys to_float ss (p\<lparr>pc_baseline := (pc_baseline p)(ks_env_name s := v)\<rparr>))"

definition snapshot_baseline :: "(json \<Rightarrow> json result) \<Rightarrow> bool \<Rightarrow> proc \<Rightarrow> unit result \<times> proc" where
  "snapshot_baseline to_float force p =
     (if pc_baseline_ready p \<and> \<not> force then (Inr (), p)
      else case snapshot_keys to_float EDITABLE_KEYS p of
        (Inl e, q) \<Rightarrow> (Inl e, q)
      | (Inr _, q) \<Rightarrow> (Inr (), q\<lparr>pc_baseline_ready := True\<rparr>))"

definition apply_one :: "key_spec \<Rightarrow> json \<Rightarrow> proc \<Rightarrow> proc" where
  "apply_one s v p =
     p\<lparr>pc_env := (pc_env p)(ks_env_name s \<mapsto> to_env_str v (ks_type s)),
       pc_settings := (case ks_settings_field s of None \<Rightarrow> pc_settings p | Some f \<Rightarrow> (pc_settings p)(f := v))\<rparr>"

definition effective_py :: "json dict \<Rightarrow> proc \<Rightarrow> key_spec \<Rightarrow> json" where
  "effective_py ov p s = (case dget ov (ks_env_name s) of Some v \<Rightarrow> v | None \<Rightarrow> pc_baseline p (ks_env_name s))"

definition apply_state :: "json dict \<Rightarrow> proc \<Rightarrow> proc" where
  "apply_state ov p =
     (let q = fold (\<lambda>s q. apply_one s (effective_py ov p s) q) EDITABLE_KEYS p in q\<lparr>pc_reloads := pc_reloads q + 1\<rparr>)"

definition cfg_value :: "proc \<Rightarrow> string \<Rightarrow> string option \<Rightarrow> string option" where
  "cfg_value p k d = (case pc_env p k of None \<Rightarrow> d | Some v \<Rightarrow> Some v)"

definition cfg_list :: "proc \<Rightarrow> string \<Rightarrow> string option \<Rightarrow> string list" where
  "cfg_list p k d = parse_list (case cfg_value p k d of None \<Rightarrow> JStr [] | Some v \<Rightarrow> JStr v)"

definition display_value :: "json \<Rightarrow> key_spec \<Rightarrow> json" where
  "display_value v s =
     (if v = JNull then (if ks_type s \<noteq> ''list'' then JStr [] else JList [])
      else if ks_sensitive s then JStr (mask_secret (py_str v))
      else if ks_type s = ''list'' then JList (map JStr (parse_list v)) else v)"

record view_row =
  vr_key :: string
  vr_type :: string
  vr_hot_reloadable :: bool
  vr_sensitive :: bool
  vr_baseline :: json
  vr_effective :: json
  vr_override_present :: bool
  vr_modified :: bool
  vr_updated_by :: "string option"
  vr_updated_at :: "timestamp option"

definition effective_view :: "proc \<Rightarrow> view_row list" where
  "effective_view p = map (\<lambda>s.
     let b = pc_baseline p (ks_env_name s); m = dget (pc_meta p) (ks_env_name s);
         e = (case m of None \<Rightarrow> b | Some m \<Rightarrow> om_value m)
     in \<lparr>vr_key = ks_env_name s, vr_type = ks_type s, vr_hot_reloadable = ks_hot_reloadable s, vr_sensitive = ks_sensitive s,
         vr_baseline = display_value b s, vr_effective = display_value e s, vr_override_present = (m \<noteq> None),
         vr_modified = (m \<noteq> None \<and> e \<noteq> b), vr_updated_by = Option.bind m om_updated_by,
         vr_updated_at = map_option om_updated_at m\<rparr>) EDITABLE_KEYS"

definition should_gate_requests :: "proc \<Rightarrow> bool" where
  "should_gate_requests p = (pc_gate p \<and> \<not> pc_ready p)"

definition editing_enabled :: "env \<Rightarrow> bool" where
  "editing_enabled e = (lower (strip (getenv e ''DM_RUNTIME_CONFIG_EDITABLE'' ''true'')) \<notin> {''0'', ''false'', ''no'', ''off''})"

section \<open>Overrides in the database\<close>

record override_row =
  ov_key :: string
  ov_value :: string
  ov_type :: string
  ov_is_secret :: bool
  ov_updated_by :: "string option"
  ov_updated_at :: timestamp

record pod_row =
  pod_name :: string
  pod_node :: "string option"
  pod_mode :: string
  pod_pid :: int
  pod_ip :: "string option"
  pod_port :: int
  pod_generation :: int
  pod_version :: string
  pod_restarts :: nat
  pod_started_at :: timestamp
  pod_heartbeat_at :: timestamp

text \<open>\<open>cd_generation\<close> is the one row of \<open>config_state\<close>, if it exists.\<close>

record config_db =
  cd_generation :: "int option"
  cd_updated_by :: "string option"
  cd_overrides :: "override_row list"
  cd_pods :: "pod_row list"

definition get_current_generation :: "config_db \<Rightarrow> int option" where
  "get_current_generation db = cd_generation db"

definition list_overrides :: "config_db \<Rightarrow> override_row list" where
  "list_overrides db = sort_key ov_key (cd_overrides db)"

definition get_override :: "config_db \<Rightarrow> string \<Rightarrow> override_row option" where
  "get_override db k = find (\<lambda>r. ov_key r = k) (cd_overrides db)"

definition set_override ::
  "timestamp \<Rightarrow> string \<Rightarrow> string \<Rightarrow> string \<Rightarrow> bool \<Rightarrow> string option \<Rightarrow> config_db \<Rightarrow> config_db" where
  "set_override now k v ty secret actor db =
     (let row = \<lparr>ov_key = k, ov_value = v, ov_type = ty, ov_is_secret = secret, ov_updated_by = actor, ov_updated_at = now\<rparr>
      in db\<lparr>cd_overrides :=
           (if list_ex (\<lambda>r. ov_key r = k) (cd_overrides db)
            then map (\<lambda>r. if ov_key r = k then row else r) (cd_overrides db) else cd_overrides db @ [row])\<rparr>)"

definition remove_override :: "string \<Rightarrow> config_db \<Rightarrow> bool \<times> config_db" where
  "remove_override k db =
     (list_ex (\<lambda>r. ov_key r = k) (cd_overrides db), db\<lparr>cd_overrides := filter (\<lambda>r. ov_key r \<noteq> k) (cd_overrides db)\<rparr>)"

definition get_state :: "config_db \<Rightarrow> int \<times> string option" where
  "get_state db = (case cd_generation db of None \<Rightarrow> (0, None) | Some g \<Rightarrow> (g, cd_updated_by db))"

definition bump_generation :: "string option \<Rightarrow> config_db \<Rightarrow> (int \<times> config_db) result" where
  "bump_generation actor db = (case cd_generation db of
       None \<Rightarrow> Inl TypeError
     | Some g \<Rightarrow> Inr (g + 1, db\<lparr>cd_generation := Some (g + 1), cd_updated_by := actor\<rparr>))"

text \<open>The rows that survive decoding, in table order; a later row of the same key would win.\<close>

definition decode_row :: "(json \<Rightarrow> json result) \<Rightarrow> (string \<Rightarrow> string result) \<Rightarrow> override_row \<Rightarrow> json option" where
  "decode_row to_float dec r =
     (if spec_of (ov_key r) = None then None
      else result_option (bind_result (if ov_is_secret r then dec (ov_value r) else Inr (ov_value r))
             (\<lambda>raw. coerce to_float (JStr raw) (ov_type r))))"

definition load_overrides ::
  "(json \<Rightarrow> json result) \<Rightarrow> (string \<Rightarrow> string result) \<Rightarrow> override_row list \<Rightarrow> override_meta dict" where
  "load_overrides to_float dec rows =
     fold (\<lambda>r d. case decode_row to_float dec r of
         None \<Rightarrow> d
       | Some v \<Rightarrow> dset (ov_key r) \<lparr>om_value = v, om_is_secret = ov_is_secret r, om_updated_by = ov_updated_by r,
                                   om_updated_at = ov_updated_at r\<rparr> d) rows []"

definition meta_values :: "override_meta dict \<Rightarrow> json dict" where
  "meta_values d = map (\<lambda>(k, m). (k, om_value m)) d"

text \<open>\<open>reload_overrides\<close> reads the generation, then the rows, then applies, then records the
  generation; the last two steps are separate definitions because other threads can run in between.\<close>

definition apply_rows :: "(json \<Rightarrow> json result) \<Rightarrow> (string \<Rightarrow> string result) \<Rightarrow> override_row list \<Rightarrow> proc \<Rightarrow> proc" where
  "apply_rows to_float dec rows p =
     (let meta = load_overrides to_float dec rows in apply_state (meta_values meta) (p\<lparr>pc_meta := meta\<rparr>))"

definition mark_applied :: "int option \<Rightarrow> proc \<Rightarrow> proc" where
  "mark_applied gen p = p\<lparr>pc_generation := (case gen of None \<Rightarrow> pc_generation p | Some g \<Rightarrow> g), pc_ready := True\<rparr>"

definition reload_overrides ::
  "(json \<Rightarrow> json result) \<Rightarrow> (string \<Rightarrow> string result) \<Rightarrow> config_db \<Rightarrow> proc \<Rightarrow> int option \<times> proc" where
  "reload_overrides to_float dec db p =
     (let gen = get_current_generation db in (gen, mark_applied gen (apply_rows to_float dec (cd_overrides db) p)))"

text \<open>\<open>conn\<close> is the database if it can be reached.\<close>

definition force_local_reload ::
  "(json \<Rightarrow> json result) \<Rightarrow> (string \<Rightarrow> string result) \<Rightarrow> config_db option \<Rightarrow> proc \<Rightarrow> int option \<times> proc" where
  "force_local_reload to_float dec conn p =
     (case conn of None \<Rightarrow> (None, p) | Some db \<Rightarrow> reload_overrides to_float dec db p)"

definition bootstrap_env_overrides ::
  "(json \<Rightarrow> json result) \<Rightarrow> (string \<Rightarrow> string result) \<Rightarrow> config_db option \<Rightarrow> proc \<Rightarrow> proc" where
  "bootstrap_env_overrides to_float dec conn p =
     (if pc_bootstrapped p then p
      else case snapshot_baseline to_float False (p\<lparr>pc_bootstrapped := True\<rparr>) of
        (Inl _, q) \<Rightarrow> q
      | (Inr _, q) \<Rightarrow> (case conn of None \<Rightarrow> q | Some db \<Rightarrow> snd (reload_overrides to_float dec db q)))"

section \<open>The editing routes\<close>

text \<open>\<open>PUT /admin/api/config/{key}\<close> behind the authentication and CSRF guards, up to the commit; \<open>enc\<close> is
  \<open>encrypt_secret\<close>, \<open>None\<close> when no encryption key is configured, \<open>exc\<close> the text of an exception. The audit entry is left out.\<close>

text \<open>What \<open>except (ValueError, TypeError)\<close> catches, with the subclasses of \<open>ValueError\<close>.\<close>

fun value_or_type_error :: "py_error \<Rightarrow> bool" where
  "value_or_type_error (ValueError m) = True"
| "value_or_type_error (UnicodeError m) = True"
| "value_or_type_error (BinasciiError m) = True"
| "value_or_type_error TypeError = True"
| "value_or_type_error e = False"

definition config_set ::
  "(json \<Rightarrow> json result) \<Rightarrow> (py_error \<Rightarrow> string) \<Rightarrow> (string \<Rightarrow> string) option \<Rightarrow> timestamp \<Rightarrow> env \<Rightarrow> bool \<Rightarrow> string
     \<Rightarrow> json \<Rightarrow> string option \<Rightarrow> config_db \<Rightarrow> (int \<times> config_db) result" where
  "config_set to_float exc enc now e csrf_ok key v actor db =
     (if \<not> editing_enabled e then Inl (HTTPException 403 ''runtime config editing is disabled'')
      else if \<not> csrf_ok then Inl (HTTPException 403 ''CSRF token invalid'')
      else case spec_of key of
        None \<Rightarrow> Inl (HTTPException 404 ''unknown or non-editable key'')
      | Some spec \<Rightarrow>
          (case coerce_input to_float spec v of
             Inl er \<Rightarrow> if value_or_type_error er then Inl (HTTPException 400 (''invalid value: '' @ exc er)) else Inl er
           | Inr py \<Rightarrow>
               (if ks_sensitive spec \<and> enc = None
                then Inl (HTTPException 503 ''secret editing unavailable: DM_CONFIG_SECRET_KEY missing'')
                else
                  let stored = (if ks_sensitive spec then (the enc) (py_str py) else to_stored_value spec py)
                  in case bump_generation actor (set_override now key stored (ks_type spec) (ks_sensitive spec) actor db) of
                    Inl er \<Rightarrow> Inl (HTTPException 400 (exc er))
                  | Inr (g, db') \<Rightarrow> Inr (g, db'))))"

definition config_reset :: "(py_error \<Rightarrow> string) \<Rightarrow> env \<Rightarrow> bool \<Rightarrow> string \<Rightarrow> string option \<Rightarrow> config_db \<Rightarrow> (bool \<times> int \<times> config_db) result" where
  "config_reset exc e csrf_ok key actor db =
     (if \<not> editing_enabled e then Inl (HTTPException 403 ''runtime config editing is disabled'')
      else if \<not> csrf_ok then Inl (HTTPException 403 ''CSRF token invalid'')
      else if spec_of key = None then Inl (HTTPException 404 ''unknown or non-editable key'')
      else case remove_override key db of (existed, db1) \<Rightarrow>
        (case bump_generation actor db1 of
           Inl er \<Rightarrow> Inl (HTTPException 400 (exc er))
         | Inr (g, db') \<Rightarrow> Inr (existed, g, db')))"

section \<open>The fleet\<close>

record pod_identity =
  id_name :: string
  id_node :: "string option"
  id_mode :: string
  id_pid :: int
  id_ip :: "string option"
  id_port :: int
  id_version :: string

definition pod_identity :: "env \<Rightarrow> string \<Rightarrow> int \<Rightarrow> string option \<Rightarrow> pod_identity result" where
  "pod_identity e hostname pid role =
     (let port = str_or (Some (getenv e ''DM_PORT'' ''3001'')) ''3001''
      in case py_int port of
        None \<Rightarrow> Inl (int_error port)
      | Some n \<Rightarrow> Inr \<lparr>id_name = hostname, id_node = e ''NODE_NAME'',
           id_mode = str_or role (getenv e ''DM_RUNTIME_MODE'' ''api''), id_pid = pid, id_ip = e ''POD_IP'', id_port = n,
           id_version = str_or (e ''DM_APP_VERSION'') (str_or (e ''APP_VERSION'') ''dev'')\<rparr>)"

definition enroll_pod :: "timestamp \<Rightarrow> pod_identity \<Rightarrow> int \<Rightarrow> config_db \<Rightarrow> config_db" where
  "enroll_pod now i gen db =
     (let row = (\<lambda>n. \<lparr>pod_name = id_name i, pod_node = id_node i, pod_mode = id_mode i, pod_pid = id_pid i, pod_ip = id_ip i,
                 pod_port = id_port i, pod_generation = gen, pod_version = id_version i, pod_restarts = n,
                 pod_started_at = now, pod_heartbeat_at = now\<rparr>)
      in db\<lparr>cd_pods :=
           (if list_ex (\<lambda>r. pod_name r = id_name i) (cd_pods db)
            then map (\<lambda>r. if pod_name r = id_name i then row (pod_restarts r + 1) else r) (cd_pods db)
            else cd_pods db @ [row 0])\<rparr>)"

definition heartbeat :: "timestamp \<Rightarrow> pod_identity \<Rightarrow> int \<Rightarrow> config_db \<Rightarrow> config_db" where
  "heartbeat now i gen db =
     (if list_ex (\<lambda>r. pod_name r = id_name i) (cd_pods db)
      then db\<lparr>cd_pods := map (\<lambda>r. if pod_name r = id_name i
             then r\<lparr>pod_generation := gen, pod_mode := id_mode i, pod_ip := id_ip i, pod_heartbeat_at := now\<rparr> else r) (cd_pods db)\<rparr>
      else enroll_pod now i gen db)"

definition pod_ttl_seconds :: "env \<Rightarrow> int" where
  "pod_ttl_seconds e = (case py_int (getenv e ''DM_CONFIG_POD_TTL_SECONDS'' ''600'') of None \<Rightarrow> 600 | Some n \<Rightarrow> max 60 n)"

definition reap_stale_pods :: "timestamp \<Rightarrow> int \<Rightarrow> config_db \<Rightarrow> nat \<times> config_db" where
  "reap_stale_pods now ttl db =
     (let keep = filter (\<lambda>r. \<not> pod_heartbeat_at r < now - secs ttl) (cd_pods db)
      in (length (cd_pods db) - length keep, db\<lparr>cd_pods := keep\<rparr>))"

definition list_pods :: "config_db \<Rightarrow> pod_row list" where
  "list_pods db = sort_key (\<lambda>r. (pod_mode r, pod_name r)) (cd_pods db)"

text \<open>\<open>GET /admin/api/config/propagation\<close>: which pods are alive (the age is rounded to seconds) and
  carry the current generation.\<close>

definition pod_up_to_date :: "timestamp \<Rightarrow> config_db \<Rightarrow> pod_row \<Rightarrow> bool" where
  "pod_up_to_date now db r = ((now - pod_heartbeat_at r + 500000) div 1000000 \<le> 30 \<and> pod_generation r \<ge> fst (get_state db))"

section \<open>The synchronisation loop\<close>

record loop_state =
  lp_enrolled :: bool
  lp_last_reap :: timestamp

text \<open>One iteration. \<open>conn\<close> is the database the connection sees; an error of \<open>pod_identity\<close> ends the
  iteration after the reload and resets the connection. \<open>clock\<close> is the monotonic clock.\<close>

definition sync_iteration ::
  "(json \<Rightarrow> json result) \<Rightarrow> (string \<Rightarrow> string result) \<Rightarrow> timestamp \<Rightarrow> timestamp \<Rightarrow> string option \<Rightarrow> string \<Rightarrow> int
     \<Rightarrow> config_db option \<Rightarrow> loop_state \<Rightarrow> proc \<Rightarrow> config_db option \<times> loop_state \<times> proc" where
  "sync_iteration to_float dec now clock role hostname pid conn l p = (case conn of
       None \<Rightarrow> (None, l, p)
     | Some db \<Rightarrow>
         let p1 = (case get_current_generation db of
                     None \<Rightarrow> p
                   | Some g \<Rightarrow> if g \<noteq> pc_generation p then snd (reload_overrides to_float dec db p) else p)
         in case pod_identity (pc_env p1) hostname pid role of
              Inl _ \<Rightarrow> (conn, l\<lparr>lp_enrolled := False\<rparr>, p1)
            | Inr i \<Rightarrow>
                let db1 = (if lp_enrolled l then heartbeat now i (pc_generation p1) db else enroll_pod now i (pc_generation p1) db);
                    reaper = lower (strip (str_or role [])) \<in> {''admin'', ''all''};
                    due = (reaper \<and> clock - lp_last_reap l > secs 60);
                    db2 = (if due then snd (reap_stale_pods now (pod_ttl_seconds (pc_env p1)) db1) else db1)
                in (Some db2, \<lparr>lp_enrolled = True, lp_last_reap = (if due then clock else lp_last_reap l)\<rparr>, p1))"

section \<open>Lemmas\<close>

lemma registry_types: "list_all (\<lambda>s. ks_type s \<in> {''bool'', ''int'', ''str'', ''list''} \<and> (ks_sensitive s \<longrightarrow> ks_type s = ''str'')) EDITABLE_KEYS"
  by code_simp

lemma registry_names: "distinct (map ks_env_name EDITABLE_KEYS)"
  by code_simp

lemma registry_fields: "distinct (List.map_filter ks_settings_field EDITABLE_KEYS)"
  by code_simp

lemma spec_of_Some: "spec_of k = Some s \<Longrightarrow> s \<in> set EDITABLE_KEYS \<and> ks_env_name s = k"
  by (auto simp: spec_of_def find_Some_iff)

lemma spec_of_name: "s \<in> set EDITABLE_KEYS \<Longrightarrow> spec_of (ks_env_name s) = Some s"
proof -
  have "s \<in> set xs \<Longrightarrow> distinct (map ks_env_name xs) \<Longrightarrow> find (\<lambda>t. ks_env_name t = ks_env_name s) xs = Some s" for xs
    by (induction xs) auto
  then show "s \<in> set EDITABLE_KEYS \<Longrightarrow> ?thesis" using registry_names by (simp add: spec_of_def)
qed

lemma apply_one_simps [simp]:
  "pc_baseline (apply_one s v p) = pc_baseline p" "pc_meta (apply_one s v p) = pc_meta p"
  "pc_generation (apply_one s v p) = pc_generation p" "pc_ready (apply_one s v p) = pc_ready p"
  "pc_env (apply_one s v p) = (pc_env p)(ks_env_name s \<mapsto> to_env_str v (ks_type s))"
  by (simp_all add: apply_one_def)

lemma fold_apply_env:
  "distinct (map ks_env_name ss) \<Longrightarrow> pc_env (fold (\<lambda>s q. apply_one s (f s) q) ss p) k =
     (case find (\<lambda>s. ks_env_name s = k) ss of None \<Rightarrow> pc_env p k | Some s \<Rightarrow> Some (to_env_str (f s) (ks_type s)))"
proof (induction ss arbitrary: p)
  case (Cons s ss)
  have "find (\<lambda>t. ks_env_name t = ks_env_name s) ss = None"
    using Cons.prems by (force simp: find_None_iff image_iff)
  then show ?case using Cons by (auto split: option.split)
qed simp

lemma fold_apply_settings:
  "distinct (List.map_filter ks_settings_field ss) \<Longrightarrow> s \<in> set ss \<Longrightarrow> ks_settings_field s = Some fd \<Longrightarrow>
     pc_settings (fold (\<lambda>s q. apply_one s (f s) q) ss p) fd = f s"
proof (induction ss arbitrary: p)
  case (Cons t ss)
  have keep: "fd \<notin> set (List.map_filter ks_settings_field xs) \<Longrightarrow>
    pc_settings (fold (\<lambda>s q. apply_one s (f s) q) xs q) fd = pc_settings q fd" for xs q
    by (induction xs arbitrary: q) (auto simp: apply_one_def map_filter_simps split: option.splits)
  show ?case
  proof (cases "s = t")
    case True
    with Cons.prems have "fd \<notin> set (List.map_filter ks_settings_field ss)" by (simp add: map_filter_simps)
    moreover have "pc_settings (apply_one t (f t) p) fd = f t" using True Cons.prems(3) by (simp add: apply_one_def)
    ultimately show ?thesis using True by (simp add: keep)
  next
    case False
    then show ?thesis using Cons by (auto simp: map_filter_simps split: option.splits)
  qed
qed simp

lemma fold_apply_rest [simp]:
  "pc_baseline (fold (\<lambda>s q. apply_one s (f s) q) ss p) = pc_baseline p"
  "pc_meta (fold (\<lambda>s q. apply_one s (f s) q) ss p) = pc_meta p"
  "pc_generation (fold (\<lambda>s q. apply_one s (f s) q) ss p) = pc_generation p"
  "pc_ready (fold (\<lambda>s q. apply_one s (f s) q) ss p) = pc_ready p"
  by (induction ss arbitrary: p) simp_all

lemma apply_state_env:
  "pc_env (apply_state ov p) k = (case spec_of k of None \<Rightarrow> pc_env p k | Some s \<Rightarrow> Some (to_env_str (effective_py ov p s) (ks_type s)))"
  by (simp add: apply_state_def Let_def fold_apply_env [OF registry_names] spec_of_def)

lemma apply_state_settings:
  "s \<in> set EDITABLE_KEYS \<Longrightarrow> ks_settings_field s = Some f \<Longrightarrow> pc_settings (apply_state ov p) f = effective_py ov p s"
  by (simp add: apply_state_def Let_def fold_apply_settings [OF registry_fields])

lemma apply_state_rest [simp]:
  "pc_baseline (apply_state ov p) = pc_baseline p" "pc_meta (apply_state ov p) = pc_meta p"
  "pc_generation (apply_state ov p) = pc_generation p" "pc_ready (apply_state ov p) = pc_ready p"
  by (simp_all add: apply_state_def Let_def)

lemma dget_meta_values: "dget (meta_values d) k = map_option om_value (dget d k)"
  by (induction d) (auto simp: meta_values_def dget_def)

text \<open>What a table of overrides gives for a key.\<close>

definition table_value :: "(json \<Rightarrow> json result) \<Rightarrow> (string \<Rightarrow> string result) \<Rightarrow> override_row list \<Rightarrow> string \<Rightarrow> json option" where
  "table_value to_float dec rows k = Option.bind (find (\<lambda>r. ov_key r = k) rows) (decode_row to_float dec)"

lemma load_overrides_get:
  assumes "distinct (map ov_key rows)"
  shows "map_option om_value (dget (load_overrides to_float dec rows) k) = table_value to_float dec rows k"
proof -
  let ?g = "\<lambda>r d. case decode_row to_float dec r of None \<Rightarrow> d
       | Some v \<Rightarrow> dset (ov_key r) \<lparr>om_value = v, om_is_secret = ov_is_secret r, om_updated_by = ov_updated_by r,
                                   om_updated_at = ov_updated_at r\<rparr> d"
  have keep: "k \<notin> ov_key ` set xs \<Longrightarrow> dget (fold ?g xs d) k = dget d k" for xs d
    by (induction xs arbitrary: d) (auto split: option.split)
  have "distinct (map ov_key xs) \<Longrightarrow> map_option om_value (dget (fold ?g xs d) k) =
    (case find (\<lambda>r. ov_key r = k) xs of None \<Rightarrow> map_option om_value (dget d k)
     | Some r \<Rightarrow> (case decode_row to_float dec r of None \<Rightarrow> map_option om_value (dget d k) | Some v \<Rightarrow> Some v))" for xs d
  proof (induction xs arbitrary: d)
    case (Cons r xs)
    show ?case
    proof (cases "ov_key r = k")
      case True
      with Cons.prems have "k \<notin> ov_key ` set xs" by auto
      then show ?thesis using True by (simp add: keep split: option.split)
    next
      case False
      then show ?thesis using Cons by (auto split: option.splits)
    qed
  qed simp
  from this [OF assms, of "[]"] show ?thesis
    by (simp add: load_overrides_def table_value_def split: option.splits)
qed

lemma apply_rows_value:
  assumes "distinct (map ov_key rows)"
  shows "pc_env (apply_rows to_float dec rows p) k = (case spec_of k of
       None \<Rightarrow> pc_env p k
     | Some s \<Rightarrow> Some (to_env_str (case table_value to_float dec rows k of Some v \<Rightarrow> v | None \<Rightarrow> pc_baseline p k) (ks_type s)))"
  using load_overrides_get [OF assms, of to_float dec k, symmetric]
  by (auto simp: apply_rows_def Let_def apply_state_env effective_py_def dget_meta_values dest!: spec_of_Some split: option.splits)

subsection \<open>Threads of one process against the database\<close>

text \<open>The interleavings of a process: each of its threads \<open>t\<close> (the synchronisation loop, the request
  that edits the configuration) runs \<open>reload_overrides\<close> as four steps, and other processes commit
  edits, each with its increment of the generation, between any two of them.\<close>

datatype phase = Idle | HaveGen int | HaveRows int "override_row list" | Applied int

record fleet =
  fl_db :: config_db
  fl_proc :: proc
  fl_phase :: "nat \<Rightarrow> phase"

inductive sync_step ::
  "(json \<Rightarrow> json result) \<Rightarrow> (string \<Rightarrow> string result) \<Rightarrow> nat set \<Rightarrow> fleet \<Rightarrow> fleet \<Rightarrow> bool"
  for to_float dec ts where
  edit: "config_set tf exc enc now e ok key v actor (fl_db f) = Inr (g, db') \<Longrightarrow>
     sync_step to_float dec ts f (f\<lparr>fl_db := db'\<rparr>)"
| reset: "config_reset exc e ok key actor (fl_db f) = Inr (ex, g, db') \<Longrightarrow>
     sync_step to_float dec ts f (f\<lparr>fl_db := db'\<rparr>)"
| read_gen: "t \<in> ts \<Longrightarrow> fl_phase f t = Idle \<Longrightarrow> get_current_generation (fl_db f) = Some g \<Longrightarrow>
     sync_step to_float dec ts f (f\<lparr>fl_phase := (fl_phase f)(t := HaveGen g)\<rparr>)"
| read_rows: "t \<in> ts \<Longrightarrow> fl_phase f t = HaveGen g \<Longrightarrow>
     sync_step to_float dec ts f (f\<lparr>fl_phase := (fl_phase f)(t := HaveRows g (cd_overrides (fl_db f)))\<rparr>)"
| apply_rows: "t \<in> ts \<Longrightarrow> fl_phase f t = HaveRows g rows \<Longrightarrow>
     sync_step to_float dec ts f (f\<lparr>fl_proc := apply_rows to_float dec rows (fl_proc f),
       fl_phase := (fl_phase f)(t := Applied g)\<rparr>)"
| set_gen: "t \<in> ts \<Longrightarrow> fl_phase f t = Applied g \<Longrightarrow>
     sync_step to_float dec ts f (f\<lparr>fl_proc := mark_applied (Some g) (fl_proc f), fl_phase := (fl_phase f)(t := Idle)\<rparr>)"

definition fresh_fleet :: "fleet \<Rightarrow> bool" where
  "fresh_fleet f = (\<not> pc_ready (fl_proc f) \<and> pc_generation (fl_proc f) = -1 \<and> (\<forall>t. fl_phase f t = Idle) \<and>
     (\<exists>g \<ge> 0. cd_generation (fl_db f) = Some g) \<and> distinct (map ov_key (cd_overrides (fl_db f))))"

inductive sync_reach ::
  "(json \<Rightarrow> json result) \<Rightarrow> (string \<Rightarrow> string result) \<Rightarrow> nat set \<Rightarrow> fleet \<Rightarrow> bool"
  for to_float dec ts where
  start: "fresh_fleet f \<Longrightarrow> sync_reach to_float dec ts f"
| step: "sync_reach to_float dec ts f \<Longrightarrow> sync_step to_float dec ts f f' \<Longrightarrow> sync_reach to_float dec ts f'"

text \<open>The process holds what the table \<open>rows\<close> says: environment, settings and the record of overrides.\<close>

definition holds_rows :: "(json \<Rightarrow> json result) \<Rightarrow> (string \<Rightarrow> string result) \<Rightarrow> override_row list \<Rightarrow> proc \<Rightarrow> bool" where
  "holds_rows to_float dec rows p =
     ((\<forall>s \<in> set EDITABLE_KEYS. let v = (case table_value to_float dec rows (ks_env_name s) of Some v \<Rightarrow> v | None \<Rightarrow> pc_baseline p (ks_env_name s))
        in pc_env p (ks_env_name s) = Some (to_env_str v (ks_type s)) \<and>
           (\<forall>f. ks_settings_field s = Some f \<longrightarrow> pc_settings p f = v)) \<and>
      pc_meta p = load_overrides to_float dec rows)"

lemma apply_rows_holds:
  assumes "distinct (map ov_key rows)"
  shows "holds_rows to_float dec rows (apply_rows to_float dec rows p)"
proof -
  have "effective_py (meta_values (load_overrides to_float dec rows)) (p\<lparr>pc_meta := m\<rparr>) s =
    (case table_value to_float dec rows (ks_env_name s) of Some v \<Rightarrow> v | None \<Rightarrow> pc_baseline p (ks_env_name s))" for s m
    using load_overrides_get [OF assms, of to_float dec "ks_env_name s", symmetric]
    by (auto simp: effective_py_def dget_meta_values split: option.splits)
  then show ?thesis
    using apply_rows_value [OF assms]
    by (simp add: holds_rows_def Let_def spec_of_name apply_rows_def apply_state_settings cong: option.case_cong)
qed

lemma config_set_db:
  assumes "config_set tf exc enc now e ok key v actor db = Inr (g, db')"
  obtains spec py where "spec_of key = Some spec" "coerce_input tf spec v = Inr py"
    "ks_sensitive spec \<longrightarrow> enc \<noteq> None" "editing_enabled e" "ok"
    "cd_generation db' = map_option (\<lambda>g. g + 1) (cd_generation db)" "cd_generation db' = Some g"
    "cd_overrides db' = cd_overrides (set_override now key
       (if ks_sensitive spec then (the enc) (py_str py) else to_stored_value spec py) (ks_type spec) (ks_sensitive spec) actor db)"
  using assms
  by (auto simp: config_set_def bump_generation_def set_override_def Let_def split: if_splits option.splits sum.splits)

lemma set_override_keys:
  "distinct (map ov_key (cd_overrides db)) \<Longrightarrow> distinct (map ov_key (cd_overrides (set_override now k v ty sec actor db)))"
proof -
  have "ov_key \<circ> (\<lambda>r. if ov_key r = k then row else r) = ov_key" if "ov_key row = k" for row :: override_row
    using that by auto
  then show "distinct (map ov_key (cd_overrides db)) \<Longrightarrow> ?thesis"
    by (simp add: set_override_def Let_def list_ex_iff) blast
qed

lemma edit_db:
  assumes "config_set tf exc enc now e ok key v actor db = Inr (g', db')" "cd_generation db = Some g"
  shows "cd_generation db' = Some (g + 1) \<and> (distinct (map ov_key (cd_overrides db)) \<longrightarrow> distinct (map ov_key (cd_overrides db')))"
proof -
  obtain spec py where "cd_generation db' = map_option (\<lambda>g. g + 1) (cd_generation db)"
    "cd_overrides db' = cd_overrides (set_override now key
       (if ks_sensitive spec then (the enc) (py_str py) else to_stored_value spec py) (ks_type spec) (ks_sensitive spec) actor db)"
    by (rule config_set_db [OF assms(1)])
  then show ?thesis using assms(2) set_override_keys by simp
qed

lemma reset_db:
  assumes "config_reset exc e ok key actor db = Inr (ex, g', db')" "cd_generation db = Some g"
  shows "cd_generation db' = Some (g + 1) \<and> (distinct (map ov_key (cd_overrides db)) \<longrightarrow> distinct (map ov_key (cd_overrides db')))"
  using assms by (auto simp: config_reset_def remove_override_def bump_generation_def distinct_map_filter split: if_splits)

definition sync_inv :: "(json \<Rightarrow> json result) \<Rightarrow> (string \<Rightarrow> string result) \<Rightarrow> nat \<Rightarrow> fleet \<Rightarrow> bool" where
  "sync_inv to_float dec t f =
     (\<exists>g. cd_generation (fl_db f) = Some g \<and> pc_generation (fl_proc f) \<le> g \<and> distinct (map ov_key (cd_overrides (fl_db f))) \<and>
        (pc_generation (fl_proc f) = g \<longrightarrow> holds_rows to_float dec (cd_overrides (fl_db f)) (fl_proc f)) \<and>
        (case fl_phase f t of
           Idle \<Rightarrow> True
         | HaveGen h \<Rightarrow> pc_generation (fl_proc f) \<le> h \<and> h \<le> g
         | HaveRows h rows \<Rightarrow> pc_generation (fl_proc f) \<le> h \<and> h \<le> g \<and> distinct (map ov_key rows) \<and>
             (h = g \<longrightarrow> rows = cd_overrides (fl_db f))
         | Applied h \<Rightarrow> pc_generation (fl_proc f) \<le> h \<and> h \<le> g \<and>
             (h = g \<longrightarrow> holds_rows to_float dec (cd_overrides (fl_db f)) (fl_proc f))))"

lemma holds_mark [simp]: "holds_rows to_float dec rows (mark_applied g p) = holds_rows to_float dec rows p"
  by (simp add: holds_rows_def mark_applied_def Let_def cong: option.case_cong)

lemma mark_generation [simp]: "pc_generation (mark_applied (Some g) p) = g"
  by (simp add: mark_applied_def)

lemma apply_rows_rest [simp]:
  "pc_generation (apply_rows to_float dec rows p) = pc_generation p" "pc_baseline (apply_rows to_float dec rows p) = pc_baseline p"
  by (simp_all add: apply_rows_def Let_def)

lemma sync_inv_db:
  assumes "sync_inv to_float dec t f" "cd_generation (fl_db f) = Some g" "cd_generation db' = Some (g + 1)" "distinct (map ov_key (cd_overrides db'))"
  shows "sync_inv to_float dec t (f\<lparr>fl_db := db'\<rparr>)"
  using assms by (auto simp: sync_inv_def split: phase.splits)

lemma sync_step_inv:
  assumes "sync_step to_float dec {t} f f'" "sync_inv to_float dec t f"
  shows "sync_inv to_float dec t f'"
proof -
  obtain g where g: "cd_generation (fl_db f) = Some g" "distinct (map ov_key (cd_overrides (fl_db f)))"
    using assms(2) by (auto simp: sync_inv_def)
  from assms(1) show ?thesis
  proof cases
    case edit
    then show ?thesis using sync_inv_db [OF assms(2) g(1)] edit_db [OF edit(2) g(1)] g(2) by simp
  next
    case reset
    then show ?thesis using sync_inv_db [OF assms(2) g(1)] reset_db [OF reset(2) g(1)] g(2) by simp
  next
    case read_gen
    then show ?thesis using assms(2) by (auto simp: sync_inv_def get_current_generation_def)
  next
    case read_rows
    then show ?thesis using assms(2) by (auto simp: sync_inv_def)
  next
    case apply_rows
    then show ?thesis using assms(2) apply_rows_holds by (auto simp: sync_inv_def)
  next
    case set_gen
    then show ?thesis using assms(2) by (auto simp: sync_inv_def)
  qed
qed

lemma sync_reach_inv: "sync_reach to_float dec {t} f \<Longrightarrow> sync_inv to_float dec t f"
proof (induction rule: sync_reach.induct)
  case (start f)
  then show ?case by (auto simp: fresh_fleet_def sync_inv_def)
next
  case (step f f')
  then show ?case using sync_step_inv by blast
qed

lemma parse_list_strings [simp]: "parse_list (JList (map JStr xs)) = xs"
  by (simp add: parse_list_def comp_def py_str_def)

lemma parse_list_dumps: "parse_list (JStr (dumps (JList (map JStr xs)))) = xs"
proof -
  let ?d = "dumps (JList (map JStr xs))"
  have d: "?d = ''['' @ join_with '', '' (map dumps (map JStr xs)) @ '']''" by (simp add: dumps_def)
  have "strip ?d = ?d" unfolding d by (rule strip_ends_id) (auto simp: py_space_def)
  moreover have "startswith ?d ''[''" unfolding d by (simp add: startswith_def)
  moreover have "loads ?d = Some (JList (map JStr xs))" by (rule loads_dumps) (simp add: list_all_iff)
  moreover have "?d \<noteq> []" by (simp add: d)
  ultimately show ?thesis by (simp add: parse_list_def py_str_def comp_def)
qed

lemma stored_roundtrip:
  assumes "coerce_input to_float spec v = Inr py" "py \<noteq> JNull" "ks_type spec \<in> {''bool'', ''int'', ''str'', ''list''}"
  shows "coerce to_float (JStr (to_stored_value spec py)) (ks_type spec) = Inr py"
proof -
  consider (bool) "ks_type spec = ''bool''" | (int) "ks_type spec = ''int''" | (str) "ks_type spec = ''str''"
    | (list) "ks_type spec = ''list''" using assms(3) by auto
  then show ?thesis
  proof cases
    case bool
    then obtain b where "py = JBool b" using assms(1,2)
      by (auto simp: coerce_input_def coerce_def split: if_splits json.splits)
    moreover have "on_word ''true''" "\<not> on_word ''false''" by code_simp+
    ultimately show ?thesis using bool by (simp add: coerce_def to_stored_value_def to_env_str_def py_str_def)
  next
    case int
    then obtain n where "py = JInt n" using assms(1,2)
      by (auto simp: coerce_input_def coerce_def bind_result_def split: if_splits sum.splits)
    then show ?thesis using int by (simp add: coerce_def to_stored_value_def to_env_str_def py_str_def)
  next
    case str
    then obtain t where "py = JStr t" using assms(1,2) by (auto simp: coerce_input_def coerce_def split: if_splits)
    then show ?thesis using str by (simp add: coerce_def to_stored_value_def to_env_str_def py_str_def)
  next
    case list
    then obtain xs where "py = JList (map JStr xs)" using assms(1,2)
      by (auto simp: coerce_input_def coerce_def split: if_splits)
    then show ?thesis using list by (simp add: coerce_def to_stored_value_def parse_list_dumps)
  qed
qed

lemma find_set_override:
  "find (\<lambda>r. ov_key r = k) (cd_overrides (set_override now key v ty sec actor db)) =
     (if k = key then Some \<lparr>ov_key = key, ov_value = v, ov_type = ty, ov_is_secret = sec, ov_updated_by = actor, ov_updated_at = now\<rparr>
      else find (\<lambda>r. ov_key r = k) (cd_overrides db))"
proof -
  let ?row = "\<lparr>ov_key = key, ov_value = v, ov_type = ty, ov_is_secret = sec, ov_updated_by = actor, ov_updated_at = now\<rparr>"
  have "find (\<lambda>r. ov_key r = k) (map (\<lambda>r. if ov_key r = key then ?row else r) xs) =
    (if k = key \<and> list_ex (\<lambda>r. ov_key r = key) xs then Some ?row else find (\<lambda>r. ov_key r = k) xs)" for xs
    by (induction xs) auto
  moreover have "find (\<lambda>r. ov_key r = k) (xs @ [?row]) = (if k = key then Some ?row else find (\<lambda>r. ov_key r = k) xs)"
    if "\<not> list_ex (\<lambda>r. ov_key r = key) xs" for xs
    using that by (induction xs) auto
  ultimately show ?thesis by (cases "k = key"; cases "list_ex (\<lambda>r. ov_key r = key) (cd_overrides db)") (auto simp: set_override_def Let_def)
qed

lemma config_set_table:
  assumes "config_set to_float exc enc now e ok key v actor db = Inr (g, db')"
    and "\<forall>x. enc \<noteq> None \<longrightarrow> dec (the enc x) = Inr x" "distinct (map ov_key (cd_overrides db))"
  obtains spec py where "spec_of key = Some spec" "coerce_input to_float spec v = Inr py"
    "cd_generation db = Some (g - 1)" "cd_generation db' = Some g" "distinct (map ov_key (cd_overrides db'))"
    "py \<noteq> JNull \<longrightarrow> table_value to_float dec (cd_overrides db') key = Some py"
    "py = JNull \<and> ks_sensitive spec \<longrightarrow> table_value to_float dec (cd_overrides db') key = Some (JStr ''None'')"
    "\<forall>k. k \<noteq> key \<longrightarrow> table_value to_float dec (cd_overrides db') k = table_value to_float dec (cd_overrides db) k"
proof -
  obtain spec py where c: "spec_of key = Some spec" "coerce_input to_float spec v = Inr py"
    "ks_sensitive spec \<longrightarrow> enc \<noteq> None" "editing_enabled e" "ok"
    "cd_generation db' = map_option (\<lambda>g. g + 1) (cd_generation db)" "cd_generation db' = Some g"
    "cd_overrides db' = cd_overrides (set_override now key
       (if ks_sensitive spec then (the enc) (py_str py) else to_stored_value spec py) (ks_type spec) (ks_sensitive spec) actor db)"
    by (rule config_set_db [OF assms(1)])
  have ty: "ks_type spec \<in> {''bool'', ''int'', ''str'', ''list''}" "ks_sensitive spec \<Longrightarrow> ks_type spec = ''str''"
    using registry_types spec_of_Some [OF c(1)] by (auto simp: list_all_iff)
  have val: "table_value to_float dec (cd_overrides db') key = Some (if ks_sensitive spec then JStr (py_str py) else py)"
    if "py \<noteq> JNull \<or> ks_sensitive spec"
    using that stored_roundtrip [OF c(2) _ ty(1)] ty(2) c(3) assms(2)
    by (auto simp: table_value_def c(8) find_set_override decode_row_def c(1) coerce_def [of _ _ "''str''"] result_option_def py_str_def)
  have str: "\<exists>t. py = JStr t" if "py \<noteq> JNull" "ks_sensitive spec"
    using c(2) that ty(2) by (auto simp: coerce_input_def coerce_def split: if_splits)
  show thesis
  proof (rule that [OF c(1,2)])
    show "cd_generation db = Some (g - 1)" using c(6,7) by (cases "cd_generation db") auto
    show "distinct (map ov_key (cd_overrides db'))" using set_override_keys [OF assms(3)] by (simp add: c(8))
    show "py \<noteq> JNull \<longrightarrow> table_value to_float dec (cd_overrides db') key = Some py"
      using val str by (auto simp: py_str_def)
    show "py = JNull \<and> ks_sensitive spec \<longrightarrow> table_value to_float dec (cd_overrides db') key = Some (JStr ''None'')"
      using val by (simp add: py_str_def)
    show "\<forall>k. k \<noteq> key \<longrightarrow> table_value to_float dec (cd_overrides db') k = table_value to_float dec (cd_overrides db) k"
      by (simp add: table_value_def c(8) find_set_override)
  qed (rule c(7))
qed

lemma reload_views:
  "pc_env (snd (reload_overrides to_float dec db p)) = pc_env (apply_rows to_float dec (cd_overrides db) p)"
  "pc_settings (snd (reload_overrides to_float dec db p)) = pc_settings (apply_rows to_float dec (cd_overrides db) p)"
  "fst (reload_overrides to_float dec db p) = cd_generation db"
  by (simp_all add: reload_overrides_def mark_applied_def Let_def get_current_generation_def)

lemma apply_rows_settings:
  assumes "distinct (map ov_key rows)" "spec_of k = Some s" "ks_settings_field s = Some f"
  shows "pc_settings (apply_rows to_float dec rows p) f =
    (case table_value to_float dec rows k of Some v \<Rightarrow> v | None \<Rightarrow> pc_baseline p k)"
  using apply_rows_holds [OF assms(1), of to_float dec p] spec_of_Some [OF assms(2)] assms(3)
  by (auto simp: holds_rows_def Let_def cong: option.case_cong)

section \<open>Properties\<close>

text \<open>Property C17. An accepted edit to a value other than \<open>null\<close> takes effect: after a process reloads, the
  edited key has the value the administrator entered, coerced to the key's type, in \<open>os.environ\<close> and in
  the settings object, a secret included (it is stored encrypted, and the decryption is assumed to undo the
  encryption); every other key keeps what the table gave before, and the generation has grown by
  one. A secret set to \<open>null\<close> becomes the text \<open>None\<close>; a \<open>null\<close> accepted for another key is stored as
  the empty text, and the statement says nothing of its effect (a numeric key falls back to its baseline).\<close>

theorem config_set_effective:
  assumes "config_set to_float exc enc now e ok key v actor db = Inr (g, db')"
    and "distinct (map ov_key (cd_overrides db))" "\<forall>x. enc \<noteq> None \<longrightarrow> dec (the enc x) = Inr x"
  shows "\<exists>spec py. spec_of key = Some spec \<and> coerce_input to_float spec v = Inr py \<and>
    cd_generation db = Some (g - 1) \<and> fst (reload_overrides to_float dec db' p) = Some g \<and>
    (py \<noteq> JNull \<longrightarrow> pc_env (snd (reload_overrides to_float dec db' p)) key = Some (to_env_str py (ks_type spec)) \<and>
       (\<forall>f. ks_settings_field spec = Some f \<longrightarrow> pc_settings (snd (reload_overrides to_float dec db' p)) f = py)) \<and>
    (py = JNull \<and> ks_sensitive spec \<longrightarrow> pc_env (snd (reload_overrides to_float dec db' p)) key = Some ''None'') \<and>
    (\<forall>k. k \<noteq> key \<longrightarrow> pc_env (snd (reload_overrides to_float dec db' p)) k = pc_env (snd (reload_overrides to_float dec db p)) k)"
proof -
  obtain spec py where c: "spec_of key = Some spec" "coerce_input to_float spec v = Inr py"
    "cd_generation db = Some (g - 1)" "cd_generation db' = Some g" "distinct (map ov_key (cd_overrides db'))"
    "py \<noteq> JNull \<longrightarrow> table_value to_float dec (cd_overrides db') key = Some py"
    "py = JNull \<and> ks_sensitive spec \<longrightarrow> table_value to_float dec (cd_overrides db') key = Some (JStr ''None'')"
    "\<forall>k. k \<noteq> key \<longrightarrow> table_value to_float dec (cd_overrides db') k = table_value to_float dec (cd_overrides db) k"
    by (rule config_set_table [OF assms(1,3,2)])
  have "ks_sensitive spec \<Longrightarrow> ks_type spec = ''str''"
    using registry_types spec_of_Some [OF c(1)] by (auto simp: list_all_iff)
  then show ?thesis using c apply_rows_settings [OF c(5,1)]
    by (intro exI [of _ spec] exI [of _ py])
       (auto simp: reload_views apply_rows_value [OF c(5)] apply_rows_value [OF assms(2)] to_env_str_def py_str_def
          cong: option.case_cong)
qed

definition demo_proc :: proc where
  "demo_proc = \<lparr>pc_env = (\<lambda>_. None), pc_settings = (\<lambda>_. JStr []), pc_baseline = (\<lambda>_. JStr []), pc_meta = [],
     pc_generation = -1, pc_ready = False, pc_baseline_ready = True, pc_gate = True, pc_bootstrapped = True, pc_reloads = 0\<rparr>"

definition demo_db :: config_db where
  "demo_db = \<lparr>cd_generation = Some 1, cd_updated_by = None, cd_overrides = [], cd_pods = []\<rparr>"

definition edited_db :: config_db where
  "edited_db = \<lparr>cd_generation = Some 2, cd_updated_by = None, cd_overrides =
     [\<lparr>ov_key = ''COMU_URL'', ov_value = ''x'', ov_type = ''str'', ov_is_secret = False, ov_updated_by = None, ov_updated_at = 0\<rparr>],
     cd_pods = []\<rparr>"

lemma comu_spec: "spec_of ''COMU_URL'' = Some (key_spec ''COMU_URL'' ''str'' True False None None None)"
  by code_simp

lemma demo_edit:
  "config_set to_float exc None 0 (\<lambda>_. None) True ''COMU_URL'' (JStr ''x'') None demo_db = Inr (2, edited_db)"
proof -
  have "editing_enabled (\<lambda>_. None)" by code_simp
  then show ?thesis
    by (simp add: config_set_def comu_spec key_spec_def coerce_input_def coerce_def py_str_def to_stored_value_def to_env_str_def
        bump_generation_def set_override_def demo_db_def edited_db_def Let_def)
qed

text \<open>A secret edited under a stand-in cipher.\<close>

definition rev_enc :: "string \<Rightarrow> string" where
  "rev_enc x = ''enc:v1:'' @ rev x"

definition rev_dec :: "string \<Rightarrow> string result" where
  "rev_dec x = Inr (rev (drop 7 x))"

lemma rev_cipher: "rev_dec (rev_enc x) = Inr x"
  by (simp add: rev_dec_def rev_enc_def)

definition secret_db :: config_db where
  "secret_db = \<lparr>cd_generation = Some 2, cd_updated_by = None, cd_overrides =
     [\<lparr>ov_key = ''LLM_API_TOKEN'', ov_value = ''enc:v1:c-b-a'', ov_type = ''str'', ov_is_secret = True, ov_updated_by = None, ov_updated_at = 0\<rparr>],
     cd_pods = []\<rparr>"

lemma token_spec: "spec_of ''LLM_API_TOKEN'' = Some (key_spec ''LLM_API_TOKEN'' ''str'' True True None None None)"
  by code_simp

lemma secret_edit:
  "config_set to_float exc (Some rev_enc) 0 (\<lambda>_. None) True ''LLM_API_TOKEN'' (JStr ''a-b-c'') None demo_db = Inr (2, secret_db)"
proof -
  have "editing_enabled (\<lambda>_. None)" by code_simp
  then show ?thesis
    by (simp add: config_set_def token_spec key_spec_def coerce_input_def coerce_def py_str_def rev_enc_def
        bump_generation_def set_override_def demo_db_def secret_db_def Let_def)
qed

theorem config_set_effective_witness:
  "ov_value (hd (cd_overrides secret_db)) = ''enc:v1:c-b-a'' \<and>
   pc_env (snd (reload_overrides Inr rev_dec secret_db demo_proc)) ''LLM_API_TOKEN'' = Some ''a-b-c'' \<and>
   pc_env (snd (reload_overrides Inr Inr edited_db demo_proc)) ''COMU_URL'' = Some ''x''"
proof -
  have d: "distinct (map ov_key (cd_overrides demo_db))" by (simp add: demo_db_def)
  have "\<forall>x. Some rev_enc \<noteq> None \<longrightarrow> rev_dec (the (Some rev_enc) x) = Inr x" by (simp add: rev_cipher)
  from config_set_effective [OF secret_edit [of Inr "\<lambda>_. []"] d this, of demo_proc]
    config_set_effective [OF demo_edit [of Inr "\<lambda>_. []"] d, of Inr demo_proc] show ?thesis
    by (auto simp: comu_spec token_spec key_spec_def coerce_input_def coerce_def py_str_def to_env_str_def secret_db_def)
qed

text \<open>Reloading makes the process state a function of the baseline and the table alone: every
  editable key holds its decodable override or else the baseline (so a deleted or unreadable override restores
  the deploy-time value), in \<open>os.environ\<close> and in the settings; rows of unknown keys and variables outside the
  registry have no effect, and earlier reloads leave no trace. A key that was unset at start and has no
  override is set to the empty text, never unset.\<close>

theorem config_effective:
  assumes "distinct (map ov_key (cd_overrides db))"
  shows "let q = snd (reload_overrides to_float dec db p) in
    pc_ready q \<and> pc_baseline q = pc_baseline p \<and> holds_rows to_float dec (cd_overrides db) q \<and>
    (\<forall>k. spec_of k = None \<longrightarrow> pc_env q k = pc_env p k) \<and>
    pc_env (snd (reload_overrides to_float dec db (snd (reload_overrides to_float dec db0 p)))) = pc_env q \<and>
    (\<forall>s \<in> set EDITABLE_KEYS. table_value to_float dec (cd_overrides db) (ks_env_name s) = None \<and>
       pc_baseline p (ks_env_name s) = JNull \<longrightarrow> pc_env q (ks_env_name s) = Some [])"
proof -
  have base: "pc_baseline (snd (reload_overrides to_float dec x q)) = pc_baseline q" for x q
    by (simp add: reload_overrides_def mark_applied_def Let_def)
  have twice: "pc_env (apply_rows to_float dec (cd_overrides db) (snd (reload_overrides to_float dec db0 p))) k =
    pc_env (apply_rows to_float dec (cd_overrides db) p) k" for k
  proof (cases "spec_of k")
    case None
    then show ?thesis by (simp add: apply_rows_value [OF assms] reload_views) (simp add: apply_rows_def Let_def apply_state_env)
  qed (simp add: apply_rows_value [OF assms] base cong: option.case_cong)
  have "holds_rows to_float dec (cd_overrides db) (snd (reload_overrides to_float dec db p))"
    using apply_rows_holds [OF assms] by (simp add: reload_overrides_def Let_def)
  then show ?thesis
    using twice by (auto simp: Let_def base reload_views apply_rows_value [OF assms] spec_of_name to_env_str_def)
       (simp add: reload_overrides_def mark_applied_def Let_def)
qed

theorem config_effective_witness:
  "holds_rows Inr Inr (cd_overrides edited_db) (snd (reload_overrides Inr Inr edited_db demo_proc))"
proof -
  have "distinct (map ov_key (cd_overrides edited_db))" by (simp add: edited_db_def)
  from config_effective [OF this] show ?thesis by (simp add: Let_def)
qed

text \<open>Property C18. Propagation is safe while one thread of the process reloads: whatever edits other
  processes commit between its steps, a process whose recorded generation is the current one holds exactly
  the current table, so the polling loop never misses an edit; and one iteration of the loop that reaches the
  database brings the process to the current generation.\<close>

theorem config_sync_converges:
  assumes "sync_reach to_float dec {t} f" "cd_generation (fl_db f) = Some g"
  shows "(pc_generation (fl_proc f) = g \<longrightarrow> holds_rows to_float dec (cd_overrides (fl_db f)) (fl_proc f)) \<and>
    (let p' = snd (snd (sync_iteration to_float dec now clock role hostname pid (Some (fl_db f)) l (fl_proc f)))
     in pc_generation p' = g \<and> holds_rows to_float dec (cd_overrides (fl_db f)) p')"
proof -
  have inv: "sync_inv to_float dec t f" by (rule sync_reach_inv [OF assms(1)])
  then have same: "pc_generation (fl_proc f) = g \<longrightarrow> holds_rows to_float dec (cd_overrides (fl_db f)) (fl_proc f)"
    and d: "distinct (map ov_key (cd_overrides (fl_db f)))" using assms(2) by (auto simp: sync_inv_def)
  let ?p = "if g \<noteq> pc_generation (fl_proc f) then snd (reload_overrides to_float dec (fl_db f) (fl_proc f)) else fl_proc f"
  have "snd (snd (sync_iteration to_float dec now clock role hostname pid (Some (fl_db f)) l (fl_proc f))) = ?p"
    using assms(2) by (simp add: sync_iteration_def get_current_generation_def Let_def split: sum.split)
  moreover have "pc_generation ?p = g \<and> holds_rows to_float dec (cd_overrides (fl_db f)) ?p"
    using same apply_rows_holds [OF d] assms(2)
    by (auto simp: reload_overrides_def get_current_generation_def Let_def)
  ultimately show ?thesis using same by (simp add: Let_def)
qed

definition demo_fleet :: fleet where
  "demo_fleet = \<lparr>fl_db = demo_db, fl_proc = demo_proc, fl_phase = (\<lambda>_. Idle)\<rparr>"

lemma demo_fleet_fresh: "fresh_fleet demo_fleet"
  by (simp add: fresh_fleet_def demo_fleet_def demo_db_def demo_proc_def)

theorem config_sync_converges_witness:
  "pc_generation (snd (snd (sync_iteration Inr Inr 0 0 None ''pod'' 1 (Some demo_db)
      \<lparr>lp_enrolled = False, lp_last_reap = 0\<rparr> demo_proc))) = 1"
proof -
  have "cd_generation (fl_db demo_fleet) = Some 1" by (simp add: demo_fleet_def demo_db_def)
  from config_sync_converges [OF sync_reach.start [OF demo_fleet_fresh] this, where to_float = Inr and dec = Inr and
      now = 0 and clock = 0 and role = None and hostname = "''pod''" and pid = 1 and l = "\<lparr>lp_enrolled = False, lp_last_reap = 0\<rparr>"]
  show ?thesis by (simp add: demo_fleet_def Let_def)
qed

text \<open>A process with two reloading threads.\<close>

definition duo :: "config_db \<Rightarrow> proc \<Rightarrow> phase \<Rightarrow> phase \<Rightarrow> fleet" where
  "duo db p a b = \<lparr>fl_db = db, fl_proc = p, fl_phase = (\<lambda>t. if t = 0 then a else if t = 2 then b else Idle)\<rparr>"

lemma duo_upd:
  fixes a b c :: phase
  shows "(\<lambda>t :: nat. if t = 0 then a else if t = 2 then b else Idle)(0 := c) = (\<lambda>t. if t = 0 then c else if t = 2 then b else Idle)"
    "(\<lambda>t :: nat. if t = 0 then a else if t = 2 then b else Idle)(2 := c) = (\<lambda>t. if t = 0 then a else if t = 2 then c else Idle)"
  by auto

lemma duo_steps:
  fixes to_float dec
  defines "S \<equiv> sync_step to_float dec {0, 2}"
  shows "cd_generation db = Some g \<Longrightarrow> S (duo db p Idle b) (duo db p (HaveGen g) b)"
    and "cd_generation db = Some g \<Longrightarrow> S (duo db p a Idle) (duo db p a (HaveGen g))"
    and "S (duo db p (HaveGen g) b) (duo db p (HaveRows g (cd_overrides db)) b)"
    and "S (duo db p a (HaveGen g)) (duo db p a (HaveRows g (cd_overrides db)))"
    and "S (duo db p (HaveRows g rows) b) (duo db (apply_rows to_float dec rows p) (Applied g) b)"
    and "S (duo db p a (HaveRows g rows)) (duo db (apply_rows to_float dec rows p) a (Applied g))"
    and "S (duo db p (Applied g) b) (duo db (mark_applied (Some g) p) Idle b)"
    and "S (duo db p a (Applied g)) (duo db (mark_applied (Some g) p) a Idle)"
  using read_gen [of 0 "{0, 2}" "duo db p Idle b" g to_float dec] read_gen [of 2 "{0, 2}" "duo db p a Idle" g to_float dec]
    read_rows [of 0 "{0, 2}" "duo db p (HaveGen g) b" g to_float dec] read_rows [of 2 "{0, 2}" "duo db p a (HaveGen g)" g to_float dec]
    sync_step.apply_rows [of 0 "{0, 2}" "duo db p (HaveRows g rows) b" g rows to_float dec]
    sync_step.apply_rows [of 2 "{0, 2}" "duo db p a (HaveRows g rows)" g rows to_float dec]
    set_gen [of 0 "{0, 2}" "duo db p (Applied g) b" g to_float dec] set_gen [of 2 "{0, 2}" "duo db p a (Applied g)" g to_float dec]
  by (simp_all add: S_def duo_def duo_upd get_current_generation_def)

text \<open>With a second reloading thread (the request that edits the configuration reloads in the
  same process as the polling loop) the protocol is not safe: an interleaving leaves the process with the
  current generation recorded and every thread idle while it holds an older table, so an edit reported as
  applied is not in effect, and the polling loop does not repair it.\<close>

theorem config_sync_race:
  "\<exists>f. sync_reach to_float dec {0, 2} f \<and> (\<forall>t. fl_phase f t = Idle) \<and>
     cd_generation (fl_db f) = Some (pc_generation (fl_proc f)) \<and>
     table_value to_float dec (cd_overrides (fl_db f)) ''COMU_URL'' = Some (JStr ''x'') \<and>
     (\<forall>now clock role hostname pid l.
        pc_env (snd (snd (sync_iteration to_float dec now clock role hostname pid (Some (fl_db f)) l (fl_proc f)))) ''COMU_URL'' = Some [])"
proof -
  let ?S = "sync_step to_float dec {0, 2}" and ?rows = "cd_overrides edited_db"
  let ?p1 = "apply_rows to_float dec ?rows demo_proc"
  let ?p2 = "apply_rows to_float dec [] ?p1"
  let ?p = "mark_applied (Some 2) (mark_applied (Some 1) ?p2)"
  have gens: "cd_generation demo_db = Some 1" "cd_overrides demo_db = []" "cd_generation edited_db = Some 2"
    by (simp_all add: demo_db_def edited_db_def)
  have edit: "?S (duo demo_db q a b) (duo edited_db q a b)" for q a b
    using sync_step.edit [of Inr "\<lambda>_. []" None 0 "\<lambda>_. None" True "''COMU_URL''" "JStr ''x''" None "duo demo_db q a b" 2 edited_db]
    by (simp add: duo_def demo_edit)
  have "demo_fleet = duo demo_db demo_proc Idle Idle" by (auto simp: demo_fleet_def duo_def)
  then have "sync_reach to_float dec {0, 2} (duo demo_db demo_proc Idle Idle)"
    using sync_reach.start [OF demo_fleet_fresh] by simp
  note r = this
  note r = sync_reach.step [OF r duo_steps(1) [OF gens(1)]]
  note r = sync_reach.step [OF r duo_steps(3) [of _ _ demo_db, unfolded gens(2)]]
  note r = sync_reach.step [OF r edit]
  note r = sync_reach.step [OF r duo_steps(2) [OF gens(3)]]
  note r = sync_reach.step [OF r duo_steps(4)]
  note r = sync_reach.step [OF r duo_steps(6)]
  note r = sync_reach.step [OF r duo_steps(5)]
  note r = sync_reach.step [OF r duo_steps(7)]
  note r = sync_reach.step [OF r duo_steps(8)]
  have "pc_env ?p ''COMU_URL'' = Some []"
    using apply_rows_value [of "[]" to_float dec ?p1 "''COMU_URL''"]
    by (simp add: mark_applied_def comu_spec key_spec_def table_value_def demo_proc_def to_env_str_def py_str_def)
  then have "\<forall>now clock role hostname pid l.
      pc_env (snd (snd (sync_iteration to_float dec now clock role hostname pid (Some edited_db) l ?p))) ''COMU_URL'' = Some []"
    by (simp add: sync_iteration_def get_current_generation_def gens(3) Let_def split: sum.split)
  moreover have "table_value to_float dec ?rows ''COMU_URL'' = Some (JStr ''x'')"
    by (simp add: table_value_def edited_db_def decode_row_def comu_spec result_option_def coerce_def py_str_def)
  ultimately show ?thesis
    using r by (intro exI [of _ "duo edited_db ?p Idle Idle"]) (simp add: duo_def gens(3))
qed

end
