(* ===== verification/LlmQuota.thy ===== *)
theory LlmQuota
  imports RuntimeConfig
begin

text \<open>
  Per-user throttling of the LLM proxy (\<open>app/llm/throttle.py\<close>): the interface \<open>QuotaStore\<close> as a locale,
  its PostgreSQL and memory implementations as interpretations, and the interceptor that uses
  them. Windows are fixed: request times are grouped by \<open>now // window\<close>.
\<close>

section \<open>Stores\<close>

definition window_index :: "timestamp \<Rightarrow> int \<Rightarrow> int" where
  "window_index now win = int_time now div win"

text \<open>\<open>max(1, ceil((index + 1) * window - now))\<close>.\<close>

definition retry_after :: "timestamp \<Rightarrow> int \<Rightarrow> int" where
  "retry_after now win = max 1 (- ((now - secs ((window_index now win + 1) * win)) div secs 1))"

record quota_row =
  qr_subject :: string
  qr_window_start :: int
  qr_count :: int

text \<open>The table, and the time of this process's last purge.\<close>

record pg_quota =
  pq_rows :: "quota_row list"
  pq_last_purge :: timestamp

definition upsert_count :: "string \<Rightarrow> int \<Rightarrow> quota_row list \<Rightarrow> quota_row list" where
  "upsert_count subject ws rows =
     (if list_ex (\<lambda>r. qr_subject r = subject \<and> qr_window_start r = ws) rows
      then map (\<lambda>r. if qr_subject r = subject \<and> qr_window_start r = ws then r\<lparr>qr_count := qr_count r + 1\<rparr> else r) rows
      else rows @ [\<lparr>qr_subject = subject, qr_window_start = ws, qr_count = 1\<rparr>])"

definition quota_count :: "string \<Rightarrow> int \<Rightarrow> quota_row list \<Rightarrow> int" where
  "quota_count subject ws rows =
     (case find (\<lambda>r. qr_subject r = subject \<and> qr_window_start r = ws) rows of None \<Rightarrow> 0 | Some r \<Rightarrow> qr_count r)"

definition maybe_purge :: "timestamp \<Rightarrow> timestamp \<Rightarrow> pg_quota \<Rightarrow> pg_quota" where
  "maybe_purge now clock s =
     (if clock - pq_last_purge s < secs 60 then s
      else s\<lparr>pq_rows := filter (\<lambda>r. \<not> secs (qr_window_start r) < now - secs 3600) (pq_rows s), pq_last_purge := clock\<rparr>)"

definition pg_incr ::
  "timestamp \<Rightarrow> timestamp \<Rightarrow> string \<Rightarrow> int \<Rightarrow> int \<Rightarrow> pg_quota \<Rightarrow> (bool \<times> int \<times> int) \<times> pg_quota" where
  "pg_incr now clock subject limit win s =
     (let ws = window_index now win * win; rows = upsert_count subject ws (pq_rows s); n = quota_count subject ws rows
      in ((n \<le> limit, n, retry_after now win), maybe_purge now clock (s\<lparr>pq_rows := rows\<rparr>)))"

type_synonym mem_quota = "((string \<times> int) \<times> int) list"

definition mem_incr ::
  "timestamp \<Rightarrow> timestamp \<Rightarrow> string \<Rightarrow> int \<Rightarrow> int \<Rightarrow> mem_quota \<Rightarrow> (bool \<times> int \<times> int) \<times> mem_quota" where
  "mem_incr now clock subject limit win s =
     (let i = window_index now win; n = (case map_of s (subject, i) of None \<Rightarrow> 0 | Some c \<Rightarrow> c) + 1;
          s' = AList.update (subject, i) n s
      in ((n \<le> limit, n, retry_after now win), filter (\<lambda>((sub, j), _). \<not> (sub = subject \<and> j < i)) s'))"

text \<open>The answers of a store to a sequence of requests (wall clock, monotonic clock, subject).\<close>

fun serve ::
  "(timestamp \<Rightarrow> timestamp \<Rightarrow> string \<Rightarrow> int \<Rightarrow> int \<Rightarrow> 's \<Rightarrow> (bool \<times> int \<times> int) \<times> 's) \<Rightarrow> int \<Rightarrow> int
     \<Rightarrow> (timestamp \<times> timestamp \<times> string) list \<Rightarrow> 's \<Rightarrow> (timestamp \<times> string \<times> bool) list" where
  "serve incr win limit [] s = []"
| "serve incr win limit ((now, clock, subject) # rs) s =
     (case incr now clock subject limit win s of ((ok, _), s') \<Rightarrow> (now, subject, ok) # serve incr win limit rs s')"

definition in_window :: "int \<Rightarrow> string \<Rightarrow> int \<Rightarrow> timestamp \<Rightarrow> string \<Rightarrow> bool" where
  "in_window win subject i now sub = (sub = subject \<and> window_index now win = i)"

definition admitted :: "int \<Rightarrow> string \<Rightarrow> int \<Rightarrow> (timestamp \<times> string \<times> bool) list \<Rightarrow> int" where
  "admitted win subject i as = int (length (filter (\<lambda>(now, sub, ok). in_window win subject i now sub \<and> ok) as))"

definition requested :: "int \<Rightarrow> string \<Rightarrow> int \<Rightarrow> (timestamp \<times> timestamp \<times> string) list \<Rightarrow> int" where
  "requested win subject i rs = int (length (filter (\<lambda>(now, c, sub). in_window win subject i now sub) rs))"

section \<open>The contract of a store\<close>

text \<open>\<open>cnt s subject win i\<close> is the number of requests counted for the subject in window \<open>i\<close>. Past windows
  may be forgotten.\<close>

locale quota_store =
  fixes incr :: "timestamp \<Rightarrow> timestamp \<Rightarrow> string \<Rightarrow> int \<Rightarrow> int \<Rightarrow> 's \<Rightarrow> (bool \<times> int \<times> int) \<times> 's"
    and cnt :: "'s \<Rightarrow> string \<Rightarrow> int \<Rightarrow> int \<Rightarrow> int"
    and max_win :: int
  assumes incr_count: "0 < win \<Longrightarrow> win \<le> max_win \<Longrightarrow> incr now clock subject limit win s = (r, s') \<Longrightarrow>
      r = (cnt s subject win (window_index now win) + 1 \<le> limit, cnt s subject win (window_index now win) + 1, retry_after now win)"
    and incr_state: "0 < win \<Longrightarrow> win \<le> max_win \<Longrightarrow> incr now clock subject limit win s = (r, s') \<Longrightarrow> window_index now win \<le> i \<Longrightarrow>
      cnt s' sub win i = cnt s sub win i + (if sub = subject \<and> i = window_index now win then 1 else 0)"
begin

lemma answers_requests: "map (\<lambda>(now, sub, _). (now, sub)) (serve incr win limit rs s) = map (\<lambda>(now, _, sub). (now, sub)) rs"
proof (induction rs arbitrary: s)
  case (Cons r rs)
  obtain now clock sub where "r = (now, clock, sub)" by (cases r)
  moreover obtain ok c w s' where "incr now clock sub limit win s = ((ok, c, w), s')"
    by (metis prod.exhaust)
  ultimately show ?case using Cons by simp
qed simp

lemma window_mono: "0 < win \<Longrightarrow> now \<le> now' \<Longrightarrow> window_index now win \<le> window_index now' win"
  by (simp add: window_index_def int_time_def zdiv_mono1)

lemma answers_late:
  assumes "0 < win" "sorted (map fst rs)" "\<forall>r \<in> set rs. i < window_index (fst r) win"
  shows "filter (\<lambda>(now, sub, ok). in_window win subject i now sub) (serve incr win limit rs s) = []"
proof -
  have "window_index now win \<noteq> i" if "(now, sub, ok) \<in> set (serve incr win limit rs s)" for now sub ok
  proof -
    have "(now, sub) \<in> set (map (\<lambda>(now, sub, _). (now, sub)) (serve incr win limit rs s))" using that by force
    then have "\<exists>c. (now, c, sub) \<in> set rs" unfolding answers_requests by auto
    then show ?thesis using assms(3) by fastforce
  qed
  then show ?thesis by (auto simp: filter_empty_conv in_window_def)
qed

lemma answers_count:
  assumes "0 < win" "win \<le> max_win" "sorted (map fst rs)"
  shows "admitted win subject i (serve incr win limit rs s) =
    max 0 (min limit (cnt s subject win i + requested win subject i rs) - cnt s subject win i)"
  using assms(3)
proof (induction rs arbitrary: s)
  case (Cons r rs)
  obtain now clock sub where r: "r = (now, clock, sub)" by (cases r)
  obtain ok c w s' where inc: "incr now clock sub limit win s = ((ok, c, w), s')" by (metis prod.exhaust)
  have later: "now \<le> fst x" if "x \<in> set rs" for x using Cons.prems that by (auto simp: r)
  show ?case
  proof (cases "i < window_index now win")
    case True
    have late: "\<forall>x \<in> set (r # rs). i < window_index (fst x) win"
      using True later window_mono [OF assms(1)] by (fastforce simp: r)
    have "filter (\<lambda>(now, sub, ok). in_window win subject i now sub \<and> ok) (serve incr win limit (r # rs) s) = []"
      using answers_late [OF assms(1) Cons.prems late, of subject limit s] by (auto simp: filter_empty_conv)
    moreover have "filter (\<lambda>(now, c, sub). in_window win subject i now sub) (r # rs) = []"
      using late by (force simp: filter_empty_conv in_window_def)
    ultimately show ?thesis by (simp add: admitted_def requested_def)
  next
    case False
    then have "cnt s' subject win i = cnt s subject win i + (if in_window win subject i now sub then 1 else 0)"
      using incr_state [OF assms(1,2) inc, of i subject] by (auto simp: in_window_def)
    moreover have "ok = (cnt s sub win (window_index now win) + 1 \<le> limit)" using incr_count [OF assms(1,2) inc] by simp
    ultimately show ?thesis
      using Cons inc by (auto simp: r in_window_def admitted_def requested_def)
  qed
qed (simp add: admitted_def requested_def)

end

section \<open>The two stores keep it\<close>

definition pg_cnt :: "pg_quota \<Rightarrow> string \<Rightarrow> int \<Rightarrow> int \<Rightarrow> int" where
  "pg_cnt s subject win i = quota_count subject (i * win) (pq_rows s)"

definition mem_cnt :: "mem_quota \<Rightarrow> string \<Rightarrow> int \<Rightarrow> int \<Rightarrow> int" where
  "mem_cnt s subject win i = (case map_of s (subject, i) of None \<Rightarrow> 0 | Some c \<Rightarrow> c)"

lemma quota_count_upsert:
  "quota_count sub w (upsert_count subject ws rows) = quota_count sub w rows + (if sub = subject \<and> w = ws then 1 else 0)"
proof -
  let ?same = "\<lambda>r. qr_subject r = subject \<and> qr_window_start r = ws"
  let ?q = "\<lambda>r. qr_subject r = sub \<and> qr_window_start r = w"
  have bump: "find ?q (map (\<lambda>r. if ?same r then r\<lparr>qr_count := qr_count r + 1\<rparr> else r) rows) =
    map_option (\<lambda>r. if ?same r then r\<lparr>qr_count := qr_count r + 1\<rparr> else r) (find ?q rows)"
    by (induction rows) auto
  have found: "?q r" if "find ?q rows = Some r" for r using that by (auto simp: find_Some_iff)
  have add: "find ?q (rows @ [x]) = (case find ?q rows of None \<Rightarrow> if ?q x then Some x else None | Some r \<Rightarrow> Some r)" for x
    by (induction rows) auto
  show ?thesis
  proof (cases "list_ex ?same rows")
    case True
    have some: "find ?q rows \<noteq> None" if "sub = subject \<and> w = ws" using True that by (auto simp: find_None_iff list_ex_iff)
    have up: "upsert_count subject ws rows = map (\<lambda>r. if ?same r then r\<lparr>qr_count := qr_count r + 1\<rparr> else r) rows"
      using True by (simp add: upsert_count_def)
    show ?thesis
    proof (cases "find ?q rows")
      case None
      then show ?thesis using some by (auto simp: quota_count_def up bump)
    next
      case (Some r)
      then show ?thesis using found [OF Some] by (simp add: quota_count_def up bump)
    qed
  next
    case False
    have none: "find ?q rows = None" if "sub = subject \<and> w = ws" using False that by (auto simp: find_None_iff list_ex_iff)
    have up: "upsert_count subject ws rows = rows @ [\<lparr>qr_subject = subject, qr_window_start = ws, qr_count = 1\<rparr>]"
      using False by (simp add: upsert_count_def)
    show ?thesis
    proof (cases "find ?q rows")
      case None
      then show ?thesis by (auto simp: quota_count_def up add)
    next
      case (Some r)
      then show ?thesis using none by (auto simp: quota_count_def up add)
    qed
  qed
qed

lemma quota_count_filter:
  "(\<And>r. qr_window_start r = w \<Longrightarrow> P r) \<Longrightarrow> quota_count sub w (filter P rows) = quota_count sub w rows"
  unfolding quota_count_def by (induction rows) auto

lemma current_window_kept:
  assumes "0 < win" "win \<le> 3600" "window_index now win \<le> i"
  shows "\<not> secs (i * win) < now - secs 3600"
proof -
  have "int_time now = window_index now win * win + int_time now mod win" by (simp add: window_index_def)
  then have "int_time now < (window_index now win + 1) * win"
    using pos_mod_bound [OF assms(1), of "int_time now"] by (simp add: distrib_right)
  also have "\<dots> \<le> (i + 1) * win" using assms(1,3) by (intro mult_right_mono) auto
  finally have "int_time now < i * win + 3600" using assms(2) by (simp add: algebra_simps)
  moreover have "now < secs (int_time now + 1)"
    by (simp add: int_time_def secs_def)
  ultimately show ?thesis by (simp add: secs_def)
qed

interpretation pgq: quota_store pg_incr pg_cnt 3600
proof unfold_locales
  fix win now clock limit i :: int and subject sub :: string and s s' r
  assume a: "0 < win" "win \<le> 3600" "pg_incr now clock subject limit win s = (r, s')"
  show "r = (pg_cnt s subject win (window_index now win) + 1 \<le> limit, pg_cnt s subject win (window_index now win) + 1, retry_after now win)"
    using a(3) by (auto simp: pg_incr_def Let_def pg_cnt_def quota_count_upsert)
  assume "window_index now win \<le> i"
  then have "quota_count sub (i * win) (pq_rows (maybe_purge now clock q)) = quota_count sub (i * win) (pq_rows q)" for q
    using current_window_kept [OF a(1,2)] by (auto simp: maybe_purge_def intro!: quota_count_filter)
  moreover have "(i * win = window_index now win * win) = (i = window_index now win)" using a(1) by auto
  ultimately show "pg_cnt s' sub win i = pg_cnt s sub win i + (if sub = subject \<and> i = window_index now win then 1 else 0)"
    using a(3) by (auto simp: pg_incr_def Let_def pg_cnt_def quota_count_upsert)
qed

lemma map_of_filter_keep:
  "(\<And>v. P (k, v)) \<Longrightarrow> map_of (filter P xs) k = map_of xs k"
  by (induction xs) auto

interpretation memq: quota_store mem_incr mem_cnt m for m
proof unfold_locales
  fix win now clock limit i :: int and subject sub :: string and s s' r
  assume a: "0 < win" "mem_incr now clock subject limit win s = (r, s')"
  show "r = (mem_cnt s subject win (window_index now win) + 1 \<le> limit, mem_cnt s subject win (window_index now win) + 1, retry_after now win)"
    using a(2) by (auto simp: mem_incr_def Let_def mem_cnt_def)
  assume i: "window_index now win \<le> i"
  show "mem_cnt s' sub win i = mem_cnt s sub win i + (if sub = subject \<and> i = window_index now win then 1 else 0)"
    using a(2) i by (auto simp: mem_incr_def Let_def mem_cnt_def map_of_filter_keep update_conv' split: option.split)
qed

section \<open>The interceptor\<close>

definition quota_limit :: "env \<Rightarrow> int" where
  "quota_limit e = (case e ''LLM_QUOTA_REQUESTS_PER_MINUTE'' of
       None \<Rightarrow> 0 | Some v \<Rightarrow> if v = [] then 0 else (case py_int v of None \<Rightarrow> 0 | Some n \<Rightarrow> n))"

definition quota_window_seconds :: "env \<Rightarrow> int" where
  "quota_window_seconds e = max 10 (case e ''LLM_QUOTA_WINDOW_SECONDS'' of
       None \<Rightarrow> 60 | Some v \<Rightarrow> if v = [] then 60 else (case py_int v of None \<Rightarrow> 60 | Some n \<Rightarrow> n))"

definition quota_message :: "int \<Rightarrow> int \<Rightarrow> int \<Rightarrow> string" where
  "quota_message limit win ra = ''Rate limit exceeded: '' @ str_of_int limit @ '' requests per '' @ str_of_int win @
     ''s window. Retry after '' @ str_of_int ra @ ''s.''"

definition quota_denied :: "int \<Rightarrow> int \<Rightarrow> int \<Rightarrow> response" where
  "quota_denied limit win ra =
     openai_error 429 (quota_message limit win ra) ''rate_limit_exceeded'' (Some ''rate_limit_exceeded'') (Some ra)"

text \<open>\<open>incr\<close> gives \<open>None\<close> when the store raises: the request is then let through. The result carries the
  refusal, the quota note of the audit entry (count, limit, window) and the store.\<close>

definition throttle_before ::
  "(timestamp \<Rightarrow> timestamp \<Rightarrow> string \<Rightarrow> int \<Rightarrow> int \<Rightarrow> 's \<Rightarrow> ((bool \<times> int \<times> int) \<times> 's) option) \<Rightarrow> env \<Rightarrow> timestamp \<Rightarrow> timestamp
     \<Rightarrow> llm_identity \<Rightarrow> 's \<Rightarrow> response option \<times> (int \<times> int \<times> int) option \<times> 's" where
  "throttle_before incr e now clock ident s =
     (let limit = quota_limit e; win = quota_window_seconds e;
          subject = (if li_client_uuid ident \<noteq> [] then li_client_uuid ident else li_email ident)
      in if limit \<le> 0 \<or> subject = [] then (None, None, s)
         else case incr now clock subject limit win s of
             None \<Rightarrow> (None, None, s)
           | Some ((ok, n, ra), s') \<Rightarrow>
               (if ok then None else Some (quota_denied limit win ra), Some (n, limit, win), s'))"

lemma window_index_retry:
  assumes "0 < win" "now + secs (retry_after now win) \<le> now'"
  shows "window_index now win < window_index now' win"
proof -
  let ?e = "secs ((window_index now win + 1) * win)"
  have "?e \<le> now + secs (- ((now - ?e) div secs 1))"
  proof -
    have "(now - ?e) div secs 1 * secs 1 \<le> now - ?e" by (simp add: secs_def)
    then show ?thesis by (simp add: secs_def)
  qed
  also have "\<dots> \<le> now + secs (retry_after now win)" by (simp add: retry_after_def)
  also have "\<dots> \<le> now'" by (rule assms(2))
  finally have "(window_index now win + 1) * win \<le> int_time now'" by (simp add: secs_def int_time_def)
  then have "window_index now win + 1 \<le> window_index now' win"
    using zdiv_mono1 [OF _ assms(1)] assms(1) by (fastforce simp: window_index_def)
  then show ?thesis by simp
qed

section \<open>Properties\<close>

text \<open>Property C19. The quota is exact, whichever store is used and however many processes share the table:
  of the requests a subject makes in one window exactly the first ones up to the limit are admitted,
  provided the window is at most an hour (the age at which the purge removes counters) and time does
  not run backwards. Other subjects do not matter.\<close>

theorem quota_exact:
  assumes "0 < win" "win \<le> 3600" "sorted (map fst rs)"
  shows "admitted win subject i (serve pg_incr win limit rs s) =
      max 0 (min limit (pg_cnt s subject win i + requested win subject i rs) - pg_cnt s subject win i) \<and>
    admitted win subject i (serve mem_incr win limit rs m) =
      max 0 (min limit (mem_cnt m subject win i + requested win subject i rs) - mem_cnt m subject win i)"
  using pgq.answers_count [OF assms] memq.answers_count [OF assms] by blast

definition burst :: "(timestamp \<times> timestamp \<times> string) list" where
  "burst = [(secs 1, secs 1, ''u''), (secs 2, secs 2, ''v''), (secs 3, secs 3, ''u''), (secs 4, secs 4, ''u'')]"

theorem quota_exact_witness:
  "admitted 60 ''u'' 0 (serve pg_incr 60 2 burst \<lparr>pq_rows = [], pq_last_purge = 0\<rparr>) = 2"
proof -
  have s: "sorted (map fst burst)" by (simp add: burst_def secs_def)
  have r: "requested 60 ''u'' 0 burst = 3" by (simp add: requested_def burst_def in_window_def window_index_def int_time_def secs_def)
  show ?thesis using quota_exact [OF _ _ s, of 60 "''u''" 0 2 "\<lparr>pq_rows = [], pq_last_purge = 0\<rparr>" "[]"]
    by (simp add: r pg_cnt_def quota_count_def)
qed

text \<open>Property C20. A refused client is told when to come back, and coming back then works: the announced
  delay is between a second and the window length, waiting for it always reaches a later window, and the
  first request of a subject in a window is admitted whenever the limit is positive.\<close>

theorem quota_retry_progress:
  assumes "0 < win" "now + secs (retry_after now win) \<le> now'"
  shows "window_index now win < window_index now' win \<and> 1 \<le> retry_after now win \<and> retry_after now win \<le> max 1 win \<and>
    (pg_cnt s subject win (window_index now' win) = 0 \<and> 0 < limit \<and> win \<le> 3600 \<longrightarrow>
       fst (fst (pg_incr now' clock subject limit win s)))"
proof -
  have "secs (window_index now win * win) \<le> now"
  proof -
    have "window_index now win * win + int_time now mod win = int_time now" by (simp add: window_index_def)
    then have "window_index now win * win \<le> int_time now" using pos_mod_sign [OF assms(1), of "int_time now"] by linarith
    then show ?thesis by (simp add: secs_def int_time_def)
  qed
  then have "- secs win \<le> now - secs ((window_index now win + 1) * win)" by (simp add: secs_def distrib_right)
  then have "(- secs win) div secs 1 \<le> (now - secs ((window_index now win + 1) * win)) div secs 1"
    by (rule zdiv_mono1) (simp add: secs_def)
  moreover have "(- secs win) div secs 1 = - win"
    using nonzero_mult_div_cancel_right [of 1000000 "- win"] by (simp add: secs_def)
  ultimately have "retry_after now win \<le> max 1 win" by (simp add: retry_after_def max_def)
  moreover have "1 \<le> retry_after now win" by (simp add: retry_after_def)
  ultimately show ?thesis using window_index_retry [OF assms]
    by (auto simp: pg_incr_def Let_def pg_cnt_def quota_count_upsert)
qed

theorem quota_retry_progress_witness:
  "fst (fst (pg_incr (secs 60) 0 ''u'' 1 60 \<lparr>pq_rows = [\<lparr>qr_subject = ''u'', qr_window_start = 0, qr_count = 9\<rparr>], pq_last_purge = 0\<rparr>))"
proof -
  let ?s = "\<lparr>pq_rows = [\<lparr>qr_subject = ''u'', qr_window_start = 0, qr_count = 9\<rparr>], pq_last_purge = 0\<rparr>"
  have "secs 5 + secs (retry_after (secs 5) 60) \<le> secs 60" "pg_cnt ?s ''u'' 60 (window_index (secs 60) 60) = 0"
    by (simp_all add: retry_after_def window_index_def int_time_def secs_def pg_cnt_def quota_count_def)
  then show ?thesis using quota_retry_progress [of 60 "secs 5" "secs 60" ?s "''u''" 1 0] by simp
qed

text \<open>Beyond an hour the purge removes the counter of the running window, and the limit is not enforced.\<close>

lemma quota_purge_gap:
  "map (\<lambda>(_, _, ok). ok) (serve pg_incr 86400 1
     [(secs 7200, secs 7200, ''u''), (secs 7300, secs 7300, ''u'')] \<lparr>pq_rows = [], pq_last_purge = 0\<rparr>) = [True, True]"
  by code_simp

end
