(* ===== verification/Queue.thy ===== *)
theory Queue
  imports Json
begin

text \<open>
  The PostgreSQL job queue (\<open>app/postgres_queue.py\<close>): the rows of \<open>queue_jobs\<close> and
  \<open>queue_job_dead_letters\<close>, and every method of \<open>PostgresQueue\<close> as a function from the
  tables to the tables. Each method is one SQL transaction, so an interleaving of several
  workers is a sequence of these operations. \<open>now\<close> is the transaction's \<open>now()\<close>;
  \<open>gen_random_uuid()\<close>, the rows a concurrent transaction holds and the drawn jitter are
  arguments. Rows of equal sort keys are taken in table order, one of the orders the database
  may choose.
\<close>

section \<open>Tables\<close>

datatype job_status = Pending | Processing | Done | Dead

record job_row =
  job_id :: string
  created_at :: timestamp
  updated_at :: timestamp
  topic :: string
  payload :: json
  status :: job_status
  attempts :: int
  max_attempts :: int
  next_attempt_at :: timestamp
  locked_at :: "timestamp option"
  lock_owner :: "string option"
  dedupe_key :: "string option"
  completed_at :: "timestamp option"
  last_error :: "string option"

record dead_letter =
  dl_job_id :: string
  dl_created_at :: timestamp
  dl_topic :: string
  dl_payload :: "json dict"
  dl_dedupe_key :: "string option"
  dl_attempts :: int
  dl_max_attempts :: int
  dl_last_error :: string

record queue_db =
  queue_jobs :: "job_row list"
  dead_letters :: "dead_letter list"

text \<open>The \<open>QueueJob\<close> dataclass a claim returns.\<close>

record queue_job =
  qj_id :: string
  qj_topic :: string
  qj_payload :: "json dict"
  qj_attempts :: int
  qj_max_attempts :: int
  qj_dedupe_key :: "string option"
  qj_created_at :: timestamp
  qj_next_attempt_at :: timestamp

text \<open>The fields \<open>__init__\<close> sets; the jitter is in microseconds.\<close>

record queue_cfg =
  lock_ttl_seconds :: int
  default_max_attempts :: int
  retry_base_seconds :: int
  retry_max_seconds :: int
  retry_jitter :: int

section \<open>Operations\<close>

definition init_queue :: "int \<Rightarrow> int \<Rightarrow> int \<Rightarrow> int \<Rightarrow> int \<Rightarrow> queue_cfg" where
  "init_queue ttl dmax base rmax jitter =
     \<lparr>lock_ttl_seconds = max 1 ttl,
      default_max_attempts = max 1 dmax,
      retry_base_seconds = max 1 base,
      retry_max_seconds = max (max 1 base) rmax,
      retry_jitter = max 0 jitter\<rparr>"

definition payload_to_dict :: "json \<Rightarrow> json dict" where
  "payload_to_dict raw = (case raw of
       JObj d \<Rightarrow> d
     | JStr s \<Rightarrow> (case loads s of Some (JObj d) \<Rightarrow> d | _ \<Rightarrow> [(''raw'', JStr s)])
     | _ \<Rightarrow> [(''raw'', JStr (py_str raw))])"

text \<open>\<open>INSERT ... ON CONFLICT (topic, dedupe_key) DO UPDATE SET updated_at = now()\<close>. A null
  key conflicts with nothing; a repeated \<open>id\<close> violates the primary key.\<close>

definition dedupe_match :: "string \<Rightarrow> string option \<Rightarrow> job_row \<Rightarrow> bool" where
  "dedupe_match t k r = (topic r = t \<and> k \<noteq> None \<and> dedupe_key r = k)"

definition new_job :: "timestamp \<Rightarrow> string \<Rightarrow> string \<Rightarrow> json \<Rightarrow> string option \<Rightarrow> int \<Rightarrow> int \<Rightarrow> job_row" where
  "new_job now jid t p k limit delay =
     \<lparr>job_id = jid, created_at = now, updated_at = now, topic = t, payload = p,
      status = Pending, attempts = 0, max_attempts = limit, next_attempt_at = now + secs delay,
      locked_at = None, lock_owner = None, dedupe_key = k, completed_at = None, last_error = None\<rparr>"

definition enqueue ::
  "queue_cfg \<Rightarrow> timestamp \<Rightarrow> string \<Rightarrow> string \<Rightarrow> json \<Rightarrow> string option \<Rightarrow> int \<Rightarrow> int option \<Rightarrow> queue_db
     \<Rightarrow> py_error + ((string \<times> job_status) \<times> queue_db)" where
  "enqueue cfg now jid t p k run_after max_att db =
     (if t = [] \<or> \<not> is_obj p then Inl (ValueError ''queue enqueue requires topic and object payload'')
      else
        let limit = max 1 (case max_att of None \<Rightarrow> default_max_attempts cfg
                           | Some n \<Rightarrow> if n = 0 then default_max_attempts cfg else n);
            delay = max 0 run_after
        in case find (dedupe_match t k) (queue_jobs db) of
             Some r \<Rightarrow>
               Inr ((job_id r, status r),
                    db\<lparr>queue_jobs := map (\<lambda>x. if dedupe_match t k x then x\<lparr>updated_at := now\<rparr> else x)
                                          (queue_jobs db)\<rparr>)
           | None \<Rightarrow>
               if jid \<in> job_id ` set (queue_jobs db) then Inl UniqueViolation
               else Inr ((jid, Pending),
                         db\<lparr>queue_jobs := queue_jobs db @ [new_job now jid t p k limit delay]\<rparr>))"

text \<open>The \<open>WHERE\<close> clause of the claim, its \<open>ORDER BY\<close>, \<open>SKIP LOCKED\<close> and \<open>LIMIT\<close>.\<close>

definition claimable :: "queue_cfg \<Rightarrow> timestamp \<Rightarrow> job_row \<Rightarrow> bool" where
  "claimable cfg now r =
     (status r = Pending \<and> next_attempt_at r \<le> now \<and>
      (case locked_at r of None \<Rightarrow> True | Some t \<Rightarrow> t < now - secs (lock_ttl_seconds cfg)))"

definition claim_ids :: "queue_cfg \<Rightarrow> timestamp \<Rightarrow> string list \<Rightarrow> int \<Rightarrow> queue_db \<Rightarrow> string list" where
  "claim_ids cfg now skip limit db =
     take (nat (max 1 limit))
       (map job_id
         (sort_key (\<lambda>r. (next_attempt_at r, created_at r))
           (filter (\<lambda>r. claimable cfg now r \<and> job_id r \<notin> set skip) (queue_jobs db))))"

definition claim_row :: "timestamp \<Rightarrow> string \<Rightarrow> job_row \<Rightarrow> job_row" where
  "claim_row now w r =
     r\<lparr>status := Processing, lock_owner := Some w, locked_at := Some now,
       attempts := attempts r + 1, updated_at := now\<rparr>"

definition row_to_job :: "queue_cfg \<Rightarrow> job_row \<Rightarrow> queue_job" where
  "row_to_job cfg r =
     \<lparr>qj_id = job_id r, qj_topic = topic r, qj_payload = payload_to_dict (payload r),
      qj_attempts = attempts r,
      qj_max_attempts = (if max_attempts r = 0 then default_max_attempts cfg else max_attempts r),
      qj_dedupe_key = (case dedupe_key r of Some [] \<Rightarrow> None | k \<Rightarrow> k),
      qj_created_at = created_at r, qj_next_attempt_at = next_attempt_at r\<rparr>"

definition claim_jobs ::
  "queue_cfg \<Rightarrow> timestamp \<Rightarrow> string list \<Rightarrow> string \<Rightarrow> int \<Rightarrow> queue_db \<Rightarrow> queue_job list \<times> queue_db" where
  "claim_jobs cfg now skip w limit db =
     (let ids = claim_ids cfg now skip limit db;
          rows = map (\<lambda>r. if job_id r \<in> set ids then claim_row now w r else r) (queue_jobs db)
      in (map (row_to_job cfg) (filter (\<lambda>r. job_id r \<in> set ids) rows), db\<lparr>queue_jobs := rows\<rparr>))"

text \<open>The rows an \<open>UPDATE ... WHERE id = .. AND status = 'processing' AND lock_owner = ..\<close>
  touches, and its \<open>rowcount > 0\<close>.\<close>

definition owned :: "string \<Rightarrow> string \<Rightarrow> job_row \<Rightarrow> bool" where
  "owned jid w r = (job_id r = jid \<and> status r = Processing \<and> lock_owner r = Some w)"

definition update_owned ::
  "string \<Rightarrow> string \<Rightarrow> (job_row \<Rightarrow> job_row) \<Rightarrow> queue_db \<Rightarrow> bool \<times> queue_db" where
  "update_owned jid w f db =
     (list_ex (owned jid w) (queue_jobs db),
      db\<lparr>queue_jobs := map (\<lambda>r. if owned jid w r then f r else r) (queue_jobs db)\<rparr>)"

definition ack_row :: "timestamp \<Rightarrow> job_row \<Rightarrow> job_row" where
  "ack_row now r = r\<lparr>status := Done, lock_owner := None, locked_at := None,
                     completed_at := Some now, updated_at := now\<rparr>"

definition ack :: "timestamp \<Rightarrow> string \<Rightarrow> string \<Rightarrow> queue_db \<Rightarrow> bool \<times> queue_db" where
  "ack now jid w db = update_owned jid w (ack_row now) db"

text \<open>\<open>_retry_delay_seconds\<close>: \<open>draw\<close> is the value of \<open>random.uniform(0, jitter)\<close> in
  microseconds, used when the jitter is positive.\<close>

definition retry_delay_seconds :: "queue_cfg \<Rightarrow> int \<Rightarrow> int \<Rightarrow> int" where
  "retry_delay_seconds cfg draw att =
     (let ex = nat (max 0 (att - 1));
          delay = min (retry_max_seconds cfg) (retry_base_seconds cfg * 2 ^ ex);
          total = secs delay + (if retry_jitter cfg > 0 then draw else 0)
      in max 1 (int_time total))"

definition retry_row :: "timestamp \<Rightarrow> int \<Rightarrow> string \<Rightarrow> job_row \<Rightarrow> job_row" where
  "retry_row now delay err r =
     r\<lparr>status := Pending, lock_owner := None, locked_at := None,
       next_attempt_at := now + secs delay, last_error := Some (take 2000 err), updated_at := now\<rparr>"

definition retry ::
  "queue_cfg \<Rightarrow> timestamp \<Rightarrow> int \<Rightarrow> string \<Rightarrow> string \<Rightarrow> int \<Rightarrow> string \<Rightarrow> queue_db \<Rightarrow> bool \<times> queue_db" where
  "retry cfg now draw jid w att err db =
     update_owned jid w (retry_row now (retry_delay_seconds cfg draw att) err) db"

definition dead_row :: "timestamp \<Rightarrow> string \<Rightarrow> job_row \<Rightarrow> job_row" where
  "dead_row now err r =
     r\<lparr>status := Dead, lock_owner := None, locked_at := None, completed_at := Some now,
       last_error := Some (take 2000 err), updated_at := now\<rparr>"

text \<open>The unique keys of \<open>queue_job_dead_letters\<close> in \<open>db/schema.sql\<close>: the primary key only. An
  \<open>ON CONFLICT (cols)\<close> clause is accepted only for columns that form one of them.\<close>

definition DEAD_LETTER_KEYS :: "string list list" where
  "DEAD_LETTER_KEYS = [[''id'']]"

text \<open>The row the \<open>INSERT ... ON CONFLICT (job_id) DO UPDATE\<close> would write.\<close>

definition insert_dead_letter :: "timestamp \<Rightarrow> queue_job \<Rightarrow> string \<Rightarrow> dead_letter list \<Rightarrow> dead_letter list" where
  "insert_dead_letter now job err dls =
     (if qj_id job \<in> dl_job_id ` set dls
      then map (\<lambda>d. if dl_job_id d = qj_id job
                    then d\<lparr>dl_attempts := qj_attempts job, dl_max_attempts := qj_max_attempts job,
                           dl_last_error := take 2000 err, dl_created_at := now\<rparr> else d) dls
      else dls @ [\<lparr>dl_job_id = qj_id job, dl_created_at = now, dl_topic = qj_topic job,
                   dl_payload = qj_payload job, dl_dedupe_key = qj_dedupe_key job,
                   dl_attempts = qj_attempts job, dl_max_attempts = qj_max_attempts job,
                   dl_last_error = take 2000 err\<rparr>])"

text \<open>\<open>move_to_dead_letter\<close>: without a unique key on \<open>job_id\<close> PostgreSQL refuses the first statement
  (\<open>InvalidColumnReference\<close>); the exception leaves the method before the commit, so the transaction
  is rolled back.\<close>

definition move_to_dead_letter ::
  "timestamp \<Rightarrow> queue_job \<Rightarrow> string \<Rightarrow> string \<Rightarrow> queue_db \<Rightarrow> bool result \<times> queue_db" where
  "move_to_dead_letter now job w err db =
     (if [''job_id''] \<notin> set DEAD_LETTER_KEYS then (Inl DatabaseError, db)
      else case update_owned (qj_id job) w (dead_row now err)
             (db\<lparr>dead_letters := insert_dead_letter now job err (dead_letters db)\<rparr>) of
        (updated, db') \<Rightarrow> (Inr updated, db'))"

record queue_stats =
  st_pending :: nat
  st_processing :: nat
  st_done :: nat
  st_dead :: nat
  st_total :: nat
  st_oldest_pending_age_seconds :: int
  st_stale_processing :: nat
  st_timestamp :: int

definition count_status :: "job_status \<Rightarrow> job_row list \<Rightarrow> nat" where
  "count_status s rs = length (filter (\<lambda>r. status r = s) rs)"

definition stale :: "queue_cfg \<Rightarrow> timestamp \<Rightarrow> job_row \<Rightarrow> bool" where
  "stale cfg now r = (status r = Processing \<and>
     (case locked_at r of None \<Rightarrow> False | Some t \<Rightarrow> t < now - secs (lock_ttl_seconds cfg)))"

definition stats :: "queue_cfg \<Rightarrow> timestamp \<Rightarrow> queue_db \<Rightarrow> queue_stats" where
  "stats cfg now db =
     (let rs = queue_jobs db;
          ages = map (\<lambda>r. now - created_at r) (filter (\<lambda>r. status r = Pending) rs)
      in \<lparr>st_pending = count_status Pending rs, st_processing = count_status Processing rs,
          st_done = count_status Done rs, st_dead = count_status Dead rs, st_total = length rs,
          st_oldest_pending_age_seconds = (case ages of [] \<Rightarrow> 0 | a # as \<Rightarrow> trunc_secs (fold max as a)),
          st_stale_processing = length (filter (stale cfg now) rs),
          st_timestamp = int_time now\<rparr>)"

section \<open>Invariant\<close>

text \<open>What every row keeps: the lock columns are set exactly while the job is processed, a
  finished job has a completion time, and the counters are in range.\<close>

definition row_ok :: "job_row \<Rightarrow> bool" where
  "row_ok r =
     (0 \<le> attempts r \<and> 1 \<le> max_attempts r \<and>
      (status r = Processing \<longrightarrow> 1 \<le> attempts r) \<and>
      ((lock_owner r \<noteq> None) = (status r = Processing)) \<and>
      ((locked_at r \<noteq> None) = (status r = Processing)) \<and>
      ((completed_at r \<noteq> None) = (status r \<in> {Done, Dead})))"

definition dedupe_keys :: "job_row list \<Rightarrow> (string \<times> string option) list" where
  "dedupe_keys rs = map (\<lambda>r. (topic r, dedupe_key r)) (filter (\<lambda>r. dedupe_key r \<noteq> None) rs)"

definition qinv :: "queue_db \<Rightarrow> bool" where
  "qinv db = (distinct (map job_id (queue_jobs db)) \<and> list_all row_ok (queue_jobs db) \<and>
     distinct (dedupe_keys (queue_jobs db)) \<and> distinct (map dl_job_id (dead_letters db)))"

definition empty_queue :: queue_db where
  "empty_queue = \<lparr>queue_jobs = [], dead_letters = []\<rparr>"

definition find_job :: "queue_db \<Rightarrow> string \<Rightarrow> job_row option" where
  "find_job db jid = find (\<lambda>r. job_id r = jid) (queue_jobs db)"

text \<open>The steps several processes can take, in any order.\<close>

datatype qlabel =
    LEnqueue
  | LClaim string
  | LAck string string
  | LRetry string string
  | LDead string string

inductive queue_step :: "queue_cfg \<Rightarrow> qlabel \<Rightarrow> queue_db \<Rightarrow> queue_db \<Rightarrow> bool" for cfg where
  enq: "enqueue cfg now jid t p k ra ma db = Inr (res, db') \<Longrightarrow> queue_step cfg LEnqueue db db'"
| claim: "queue_step cfg (LClaim w) db (snd (claim_jobs cfg now skip w limit db))"
| acked: "queue_step cfg (LAck jid w) db (snd (ack now jid w db))"
| retried: "queue_step cfg (LRetry jid w) db (snd (retry cfg now draw jid w att err db))"
| buried: "qj_id job = jid \<Longrightarrow>
     queue_step cfg (LDead jid w) db (snd (move_to_dead_letter now job w err db))"

inductive queue_run :: "queue_cfg \<Rightarrow> qlabel list \<Rightarrow> queue_db \<Rightarrow> queue_db \<Rightarrow> bool" for cfg where
  stop: "queue_run cfg [] db db"
| more: "queue_step cfg l db db1 \<Longrightarrow> queue_run cfg ls db1 db2 \<Longrightarrow> queue_run cfg (l # ls) db db2"

inductive_cases queue_run_ConsE: "queue_run cfg (l # ls) db db'"
inductive_cases queue_run_NilE: "queue_run cfg [] db db'"

section \<open>Lemmas\<close>

lemma find_job_Some: "find_job db jid = Some r \<Longrightarrow> r \<in> set (queue_jobs db) \<and> job_id r = jid"
  by (auto simp: find_job_def find_Some_iff)

lemma find_job_iff:
  "distinct (map job_id (queue_jobs db)) \<Longrightarrow>
     find_job db jid = Some r \<longleftrightarrow> r \<in> set (queue_jobs db) \<and> job_id r = jid"
proof
  assume d: "distinct (map job_id (queue_jobs db))" and r: "r \<in> set (queue_jobs db) \<and> job_id r = jid"
  then obtain r' where r': "find_job db jid = Some r'"
    by (cases "find_job db jid") (auto simp: find_job_def find_None_iff)
  then have "r' \<in> set (queue_jobs db)" "job_id r' = jid"
    by (auto dest: find_job_Some)
  with d r have "r' = r"
    by (metis inj_on_eq_iff distinct_map)
  with r' show "find_job db jid = Some r" by simp
qed (auto dest: find_job_Some)

lemma map_rows_ids: "(\<And>r. job_id (g r) = job_id r) \<Longrightarrow> map job_id (map g rs) = map job_id rs"
  by simp

lemma dedupe_keys_map:
  "(\<And>r. topic (g r) = topic r) \<Longrightarrow> (\<And>r. dedupe_key (g r) = dedupe_key r) \<Longrightarrow>
     dedupe_keys (map g rs) = dedupe_keys rs"
  by (induction rs) (auto simp: dedupe_keys_def)

lemma qinv_map:
  assumes "qinv db" and "\<And>r. job_id (g r) = job_id r" "\<And>r. topic (g r) = topic r"
    "\<And>r. dedupe_key (g r) = dedupe_key r" "\<And>r. row_ok r \<Longrightarrow> row_ok (g r)"
  shows "qinv (db\<lparr>queue_jobs := map g (queue_jobs db)\<rparr>)"
  using assms by (auto simp: qinv_def dedupe_keys_map list_all_iff comp_def)

text \<open>The ways a worker gives a job back share one contract: they keep the identity of
  the row and release the lock.\<close>

locale owner_update =
  fixes f :: "job_row \<Rightarrow> job_row"
  assumes keep_id [simp]: "job_id (f r) = job_id r"
    and keep_topic [simp]: "topic (f r) = topic r"
    and keep_key [simp]: "dedupe_key (f r) = dedupe_key r"
    and keep_attempts [simp]: "attempts (f r) = attempts r" "max_attempts (f r) = max_attempts r"
    and released [simp]: "lock_owner (f r) = None" "status (f r) \<noteq> Processing"
    and ok: "row_ok r \<Longrightarrow> status r = Processing \<Longrightarrow> row_ok (f r)"
begin

lemma update_owned_inv: "qinv db \<Longrightarrow> qinv (snd (update_owned jid w f db))"
  unfolding update_owned_def snd_conv
  by (rule qinv_map) (auto simp: owned_def intro: ok)

lemma find_update_owned:
  "find_job (snd (update_owned jid w f db)) j =
     map_option (\<lambda>r. if owned jid w r then f r else r) (find_job db j)"
  by (simp add: find_job_def update_owned_def find_map_key)

text \<open>A caller that does not hold the lock changes nothing and is told so.\<close>

lemma update_not_owner:
  "\<forall>r \<in> set (queue_jobs db). \<not> owned jid w r \<Longrightarrow>
     update_owned jid w f db = (False, db)"
proof -
  assume n: "\<forall>r \<in> set (queue_jobs db). \<not> owned jid w r"
  then have "map (\<lambda>r. if owned jid w r then f r else r) (queue_jobs db) = queue_jobs db"
    by (simp add: map_idI)
  with n show ?thesis by (simp add: update_owned_def list_ex_iff)
qed

lemma update_owner:
  "qinv db \<Longrightarrow> find_job db jid = Some r \<Longrightarrow> owned jid w r \<Longrightarrow>
     fst (update_owned jid w f db) \<and> find_job (snd (update_owned jid w f db)) jid = Some (f r)"
  using find_job_Some [of db jid r]
  by (auto simp: find_update_owned) (auto simp: update_owned_def list_ex_iff)

end

interpretation acking: owner_update "ack_row now" for now
  by unfold_locales (auto simp: ack_row_def row_ok_def)

interpretation retrying: owner_update "retry_row now delay err" for now delay err
  by unfold_locales (auto simp: retry_row_def row_ok_def)

text \<open>With the keys the schema declares the third way, the move to the dead letters, is closed.\<close>

lemma move_to_dead_letter_raises [simp]: "move_to_dead_letter now job w err db = (Inl DatabaseError, db)"
  by (simp add: move_to_dead_letter_def DEAD_LETTER_KEYS_def)

lemmas owner_ops = ack_def retry_def

lemma claim_row_simps [simp]:
  "job_id (claim_row now w r) = job_id r" "topic (claim_row now w r) = topic r"
  "dedupe_key (claim_row now w r) = dedupe_key r" "status (claim_row now w r) = Processing"
  "lock_owner (claim_row now w r) = Some w" "attempts (claim_row now w r) = attempts r + 1"
  "max_attempts (claim_row now w r) = max_attempts r"
  by (simp_all add: claim_row_def)

lemma claim_ids_claimable:
  "jid \<in> set (claim_ids cfg now skip limit db) \<Longrightarrow>
     \<exists>r \<in> set (queue_jobs db). job_id r = jid \<and> claimable cfg now r \<and> jid \<notin> set skip"
  by (auto simp: claim_ids_def dest!: in_set_takeD)

lemma distinct_claim_ids:
  "distinct (map job_id (queue_jobs db)) \<Longrightarrow> distinct (claim_ids cfg now skip limit db)"
proof -
  assume "distinct (map job_id (queue_jobs db))"
  then have "distinct (map job_id (filter (\<lambda>r. claimable cfg now r \<and> job_id r \<notin> set skip) (queue_jobs db)))"
    by (simp add: distinct_map_filter)
  then show ?thesis
    unfolding claim_ids_def by (intro distinct_take) (simp add: distinct_map)
qed

text \<open>A row whose identifier was selected is itself claimable, since identifiers are unique.\<close>

lemma selected_row:
  assumes "qinv db" "r \<in> set (queue_jobs db)" "job_id r \<in> set (claim_ids cfg now skip limit db)"
  shows "claimable cfg now r"
proof -
  obtain r' where "r' \<in> set (queue_jobs db)" "job_id r' = job_id r" "claimable cfg now r'"
    using claim_ids_claimable [OF assms(3)] by auto
  with assms(1,2) show ?thesis
    by (metis qinv_def distinct_map inj_onD)
qed

lemma row_ok_claim: "row_ok r \<Longrightarrow> claimable cfg now r \<Longrightarrow> row_ok (claim_row now w r)"
  by (auto simp: row_ok_def claimable_def claim_row_def)

lemma claim_inv: "qinv db \<Longrightarrow> qinv (snd (claim_jobs cfg now skip w limit db))"
proof -
  assume q: "qinv db"
  let ?ids = "claim_ids cfg now skip limit db"
  let ?g = "\<lambda>r. if job_id r \<in> set ?ids then claim_row now w r else r"
  have "row_ok (?g r)" if "r \<in> set (queue_jobs db)" for r
    using that q selected_row [OF q that, of cfg now skip limit] row_ok_claim [of r cfg now w]
    by (auto simp: qinv_def list_all_iff)
  then have "list_all row_ok (map ?g (queue_jobs db))"
    unfolding list_all_iff set_map by blast
  moreover have "dedupe_keys (map ?g (queue_jobs db)) = dedupe_keys (queue_jobs db)"
    by (rule dedupe_keys_map) auto
  moreover have "map job_id (map ?g (queue_jobs db)) = map job_id (queue_jobs db)"
    by (rule map_rows_ids) auto
  ultimately show ?thesis
    using q by (simp add: qinv_def claim_jobs_def Let_def del: map_map)
qed

lemma enqueue_inv: "qinv db \<Longrightarrow> enqueue cfg now jid t p k ra ma db = Inr (res, db') \<Longrightarrow> qinv db'"
proof -
  assume q: "qinv db" and e: "enqueue cfg now jid t p k ra ma db = Inr (res, db')"
  let ?g = "\<lambda>x. if dedupe_match t k x then x\<lparr>updated_at := now\<rparr> else x"
  have upd: "qinv (db\<lparr>queue_jobs := map ?g (queue_jobs db)\<rparr>)"
    using q by (rule qinv_map) (auto simp: row_ok_def)
  have ins: "qinv (db\<lparr>queue_jobs := queue_jobs db @ [new_job now jid t p k (max 1 l) d]\<rparr>)"
    if "find (dedupe_match t k) (queue_jobs db) = None" "jid \<notin> job_id ` set (queue_jobs db)" for l d
    using q that by (auto simp: qinv_def dedupe_keys_def new_job_def row_ok_def find_None_iff dedupe_match_def)
  show ?thesis
    using e upd ins by (auto simp: enqueue_def Let_def split: if_splits option.splits)
qed

lemma queue_step_inv: "queue_step cfg l db db' \<Longrightarrow> qinv db \<Longrightarrow> qinv db'"
  by (induction rule: queue_step.induct)
     (auto simp: owner_ops intro: enqueue_inv claim_inv acking.update_owned_inv retrying.update_owned_inv)

lemma queue_run_inv: "queue_run cfg ls db db' \<Longrightarrow> qinv db \<Longrightarrow> qinv db'"
  by (induction rule: queue_run.induct) (auto dest: queue_step_inv)

lemma qinv_empty [simp]: "qinv empty_queue"
  by (simp add: qinv_def empty_queue_def dedupe_keys_def)

lemma find_claim:
  "find_job (snd (claim_jobs cfg now skip w limit db)) j =
     map_option (\<lambda>r. if job_id r \<in> set (claim_ids cfg now skip limit db) then claim_row now w r else r)
       (find_job db j)"
  by (simp add: find_job_def claim_jobs_def Let_def find_map_key)

lemma qj_id_row_to_job [simp]: "qj_id (row_to_job cfg r) = job_id r"
  by (simp add: row_to_job_def)

lemma claimed_ids:
  "qj_id ` set (fst (claim_jobs cfg now skip w limit db)) = set (claim_ids cfg now skip limit db)"
proof -
  let ?ids = "claim_ids cfg now skip limit db"
  let ?g = "\<lambda>r. if job_id r \<in> set ?ids then claim_row now w r else r"
  have "qj_id ` set (fst (claim_jobs cfg now skip w limit db)) =
      job_id ` {r \<in> set (map ?g (queue_jobs db)). job_id r \<in> set ?ids}"
    by (simp add: claim_jobs_def Let_def image_comp comp_def)
  also have "\<dots> = job_id ` set (map ?g (queue_jobs db)) \<inter> set ?ids"
    by auto
  also have "job_id ` set (map ?g (queue_jobs db)) = job_id ` set (queue_jobs db)"
    by (simp only: set_map image_image if_distrib [of job_id] claim_row_simps(1) if_cancel)
  also have "\<dots> \<inter> set ?ids = set ?ids"
    using claim_ids_claimable by fastforce
  finally show ?thesis .
qed

text \<open>What a claimed job says about the row it came from.\<close>

definition claimed_from :: "queue_cfg \<Rightarrow> timestamp \<Rightarrow> string list \<Rightarrow> string \<Rightarrow> queue_db \<Rightarrow> job_row \<Rightarrow> queue_job \<Rightarrow> bool" where
  "claimed_from cfg now skip w db' r j =
     (status r = Pending \<and> next_attempt_at r \<le> now \<and> qj_id j \<notin> set skip \<and>
      find_job db' (qj_id j) = Some (claim_row now w r) \<and> qj_attempts j = attempts r + 1)"

lemma claim_rows:
  "fst (claim_jobs cfg now skip w limit db) =
     map (\<lambda>r. row_to_job cfg (claim_row now w r))
       (filter (\<lambda>r. job_id r \<in> set (claim_ids cfg now skip limit db)) (queue_jobs db))"
  by (auto simp: claim_jobs_def Let_def filter_map comp_def intro!: map_cong filter_cong)

lemma claim_distinct:
  "qinv db \<Longrightarrow> claim_jobs cfg now skip w limit db = (js, db') \<Longrightarrow> distinct (map qj_id js)"
  using claim_rows [of cfg now skip w limit db]
  by (simp add: qinv_def comp_def distinct_map_filter)

lemma claim_length:
  assumes "qinv db" "claim_jobs cfg now skip w limit db = (js, db')"
  shows "length js \<le> nat (max 1 limit)"
proof -
  have "length js = card (qj_id ` set js)"
    using claim_distinct [OF assms] distinct_card by fastforce
  also have "\<dots> = card (set (claim_ids cfg now skip limit db))"
    using claimed_ids [of cfg now skip w limit db] assms(2) by simp
  also have "\<dots> \<le> length (claim_ids cfg now skip limit db)"
    by (rule card_length)
  finally show ?thesis by (simp add: claim_ids_def)
qed

lemma claim_job_state:
  assumes q: "qinv db" and c: "claim_jobs cfg now skip w limit db = (js, db')" and j: "j \<in> set js"
  shows "\<exists>r. find_job db (qj_id j) = Some r \<and> claimed_from cfg now skip w db' r j"
proof -
  from j c obtain r where r: "r \<in> set (queue_jobs db)" "job_id r \<in> set (claim_ids cfg now skip limit db)"
    "j = row_to_job cfg (claim_row now w r)"
    using claim_rows [of cfg now skip w limit db] by auto
  have f: "find_job db (job_id r) = Some r"
    using r(1) q by (simp add: find_job_iff qinv_def)
  moreover have "find_job db' (job_id r) = Some (claim_row now w r)"
    using find_claim [of cfg now skip w limit db "job_id r"] c f r(2) by simp
  moreover have "job_id r \<notin> set skip"
    using claim_ids_claimable [OF r(2)] by auto
  ultimately show ?thesis
    using selected_row [OF q r(1,2)] r(3)
    by (auto simp: claimed_from_def claimable_def row_to_job_def)
qed

text \<open>Only pending rows are ever returned.\<close>

lemma claim_pending:
  assumes "qinv db" "j \<in> set (fst (claim_jobs cfg now skip w limit db))" "find_job db (qj_id j) = Some r"
  shows "status r = Pending"
  using claim_job_state [OF assms(1) prod.collapse [symmetric] assms(2)] assms(3)
  by (auto simp: claimed_from_def)

lemma claim_again:
  assumes "qinv db" "claim_jobs cfg now skip w limit db = (js, db')" "j \<in> set js"
    and "j' \<in> set (fst (claim_jobs cfg' now' skip' w' limit' db'))"
  shows "qj_id j' \<noteq> qj_id j"
proof
  assume eq: "qj_id j' = qj_id j"
  obtain r where "find_job db' (qj_id j') = Some (claim_row now w r)"
    using claim_job_state [OF assms(1-3)] eq by (auto simp: claimed_from_def)
  moreover have "qinv db'"
    using claim_inv [OF assms(1), of cfg now skip w limit] assms(2) by simp
  ultimately show False
    using claim_pending [OF _ assms(4)] by fastforce
qed

text \<open>The abstract life of one job: its status, its owner and its attempt counter.\<close>

datatype job_state = JobState job_status "string option" int

definition abs_row :: "job_row \<Rightarrow> job_state" where
  "abs_row r = JobState (status r) (lock_owner r) (attempts r)"

definition abs_job :: "queue_db \<Rightarrow> string \<Rightarrow> job_state option" where
  "abs_job db jid = map_option abs_row (find_job db jid)"

inductive job_trans :: "job_state \<Rightarrow> job_state \<Rightarrow> bool" where
  t_stay: "job_trans s s"
| t_claim: "job_trans (JobState Pending None n) (JobState Processing (Some w) (n + 1))"
| t_ack: "job_trans (JobState Processing (Some w) n) (JobState Done None n)"
| t_retry: "job_trans (JobState Processing (Some w) n) (JobState Pending None n)"

inductive_simps job_trans_Done: "job_trans (JobState Done x n) s"
inductive_simps job_trans_Dead: "job_trans s (JobState Dead x n)"

lemma abs_update_owned:
  assumes "owner_update f" "\<And>r. job_trans (JobState Processing (Some w) (attempts r)) (abs_row (f r))"
    and "abs_job db j = Some s"
  shows "\<exists>s'. abs_job (snd (update_owned jid w f db)) j = Some s' \<and> job_trans s s'"
proof -
  obtain r where r: "find_job db j = Some r" "s = abs_row r"
    using assms(3) by (auto simp: abs_job_def)
  have "job_trans (abs_row r) (abs_row (if owned jid w r then f r else r))"
    using assms(2) [of r] by (auto simp: abs_row_def owned_def intro: job_trans.intros)
  moreover have "find_job (snd (update_owned jid w f db)) j = Some (if owned jid w r then f r else r)"
    using owner_update.find_update_owned [OF assms(1), of jid w db j] r by simp
  ultimately show ?thesis
    using r by (simp add: abs_job_def)
qed

lemma find_job_dead_letters [simp]: "find_job (db\<lparr>dead_letters := dl\<rparr>) j = find_job db j"
  by (simp add: find_job_def)

lemma enqueue_find:
  assumes "enqueue cfg now jid t p k ra ma db = Inr (res, db')" "find_job db j = Some r"
  shows "\<exists>u. find_job db' j = Some (r\<lparr>updated_at := u\<rparr>)"
proof -
  let ?g = "\<lambda>x. if dedupe_match t k x then x\<lparr>updated_at := now\<rparr> else x"
  consider (upd) "db' = db\<lparr>queue_jobs := map ?g (queue_jobs db)\<rparr>"
    | (ins) x where "db' = db\<lparr>queue_jobs := queue_jobs db @ [x]\<rparr>"
    using assms(1) by (auto simp: enqueue_def Let_def split: if_splits option.splits)
  then show ?thesis
  proof cases
    case upd
    have "find_job db' j = Some (?g r)"
      using assms(2) by (simp add: find_job_def upd find_map_key)
    also have "?g r = r\<lparr>updated_at := if dedupe_match t k r then now else updated_at r\<rparr>"
      by simp
    finally show ?thesis by blast
  next
    case ins
    then have "find_job db' j = Some (r\<lparr>updated_at := updated_at r\<rparr>)"
      using assms(2) by (simp add: find_job_def find_snoc)
    then show ?thesis by blast
  qed
qed

lemma claim_trans:
  assumes "qinv db" "find_job db j = Some r"
  shows "\<exists>r'. find_job (snd (claim_jobs cfg now skip w limit db)) j = Some r' \<and> job_trans (abs_row r) (abs_row r')"
proof (cases "job_id r \<in> set (claim_ids cfg now skip limit db)")
  case True
  have "r \<in> set (queue_jobs db)" using assms(2) find_job_Some by blast
  then have "status r = Pending" "row_ok r"
    using selected_row [OF assms(1) _ True] assms(1) by (auto simp: claimable_def qinv_def list_all_iff)
  then have "job_trans (abs_row r) (abs_row (claim_row now w r))"
    by (auto simp: abs_row_def row_ok_def intro: job_trans.intros)
  with True assms(2) show ?thesis by (simp add: find_claim)
next
  case False
  with assms(2) show ?thesis by (auto simp: find_claim intro: job_trans.intros)
qed

lemma step_trans:
  "queue_step cfg l db db' \<Longrightarrow> qinv db \<Longrightarrow> abs_job db j = Some s \<Longrightarrow>
     \<exists>s'. abs_job db' j = Some s' \<and> job_trans s s'"
proof (induction rule: queue_step.induct)
  case (enq now jid t p k ra ma db res db')
  then obtain r where "find_job db j = Some r" "s = abs_row r"
    by (auto simp: abs_job_def)
  then show ?case
    using enqueue_find [OF enq(1)] by (fastforce simp: abs_job_def abs_row_def intro: job_trans.intros)
next
  case (claim w db now skip limit)
  then show ?case
    using claim_trans by (fastforce simp: abs_job_def)
qed (auto simp: owner_ops abs_row_def ack_row_def retry_row_def
     intro!: abs_update_owned acking.owner_update_axioms retrying.owner_update_axioms intro: job_trans.intros)

text \<open>A job in the hands of a worker stays there until that worker gives it back.\<close>

lemma step_processing:
  assumes "queue_step cfg l db db'" "qinv db" "find_job db jid = Some r" "owned jid w r"
    and "l \<notin> {LAck jid w, LRetry jid w}"
  shows "\<exists>r'. find_job db' jid = Some r' \<and> owned jid w r' \<and> locked_at r' = locked_at r"
  using assms
proof (induction rule: queue_step.induct)
  case (enq now jid' t p k ra ma db res db')
  then show ?case using enqueue_find [OF enq(1) enq(3)] by (auto simp: owned_def)
next
  case (claim w' db now skip limit)
  have "r \<in> set (queue_jobs db)" using claim find_job_Some by blast
  then have "job_id r \<notin> set (claim_ids cfg now skip limit db)"
    using selected_row [OF claim(1)] claim(3) by (auto simp: owned_def claimable_def)
  with claim show ?case by (simp add: find_claim)
next
  case (acked jid' w' db now)
  then show ?case by (auto simp: owner_ops acking.find_update_owned owned_def)
next
  case (retried jid' w' db now draw att err)
  then show ?case by (auto simp: owner_ops retrying.find_update_owned owned_def)
next
  case (buried job jid' w' db now err)
  then show ?case by simp
qed

text \<open>A job whose worker disappears is never taken over: as long as the worker that
  claimed it neither acknowledges nor retries it, no sequence of operations by the rest
  of the fleet, however long after the lock's time to live, moves it out of processing. The
  lock age in the claim's condition concerns pending rows only, whose lock is always null.\<close>

lemma abandoned_job_stuck:
  assumes "queue_run cfg ls db db'" and "qinv db" and "find_job db jid = Some r" and "owned jid w r"
    and "\<forall>l \<in> set ls. l \<notin> {LAck jid w, LRetry jid w}"
  shows "\<exists>r'. find_job db' jid = Some r' \<and> status r' = Processing \<and> lock_owner r' = Some w \<and>
    locked_at r' = locked_at r"
  using assms
proof (induction arbitrary: r rule: queue_run.induct)
  case (stop db)
  then show ?case by (auto simp: owned_def)
next
  case (more l db db1 ls db2)
  then obtain r1 where "find_job db1 jid = Some r1" "owned jid w r1" "locked_at r1 = locked_at r"
    using step_processing [OF more(1,4,5,6)] by auto
  then show ?case
    using more.IH [OF queue_step_inv [OF more(1,4)]] more.prems by auto
qed

lemma abandoned_job_stuck_witness:
  "let db = empty_queue\<lparr>queue_jobs := [claim_row (secs 5) ''w1'' (new_job (secs 1) ''j1'' ''t'' (JObj []) None 8 0)]\<rparr>
   in \<exists>r'. find_job (snd (claim_jobs (init_queue 60 8 2 300 0) (secs 100000) [] ''w2'' 10 db)) ''j1'' = Some r' \<and>
        status r' = Processing \<and> lock_owner r' = Some ''w1''"
proof -
  let ?r = "claim_row (secs 5) ''w1'' (new_job (secs 1) ''j1'' ''t'' (JObj []) None 8 0)"
  let ?db = "empty_queue\<lparr>queue_jobs := [?r]\<rparr>"
  let ?cfg = "init_queue 60 8 2 300 0"
  have "queue_run ?cfg [LClaim ''w2''] ?db (snd (claim_jobs ?cfg (secs 100000) [] ''w2'' 10 ?db))"
    using queue_run.more [OF queue_step.claim queue_run.stop] by blast
  moreover have "qinv ?db"
    by (simp add: qinv_def empty_queue_def new_job_def claim_row_def dedupe_keys_def row_ok_def)
  moreover have "find_job ?db ''j1'' = Some ?r" "owned ''j1'' ''w1'' ?r"
    by (simp_all add: find_job_def owned_def new_job_def)
  ultimately show ?thesis
    using abandoned_job_stuck by (fastforce simp: Let_def)
qed

text \<open>No dead letter is ever written and no job ever becomes dead.\<close>

definition no_dead :: "queue_db \<Rightarrow> bool" where
  "no_dead db = (dead_letters db = [] \<and> list_all (\<lambda>r. status r \<noteq> Dead) (queue_jobs db))"

lemma no_dead_map:
  "no_dead db \<Longrightarrow> (\<And>r. status r \<noteq> Dead \<Longrightarrow> status (g r) \<noteq> Dead) \<Longrightarrow>
     no_dead (db\<lparr>queue_jobs := map g (queue_jobs db)\<rparr>)"
  by (auto simp: no_dead_def list_all_iff)

lemma enqueue_no_dead: "enqueue cfg now jid t p k ra ma db = Inr (res, db') \<Longrightarrow> no_dead db \<Longrightarrow> no_dead db'"
  by (auto simp: enqueue_def Let_def no_dead_def list_all_iff new_job_def split: if_splits option.splits)

lemma queue_step_no_dead: "queue_step cfg l db db' \<Longrightarrow> no_dead db \<Longrightarrow> no_dead db'"
  by (induction rule: queue_step.induct)
     (auto simp: owner_ops update_owned_def claim_jobs_def Let_def ack_row_def retry_row_def
       intro: enqueue_no_dead intro!: no_dead_map split: if_splits)

lemma queue_run_no_dead: "queue_run cfg ls db db' \<Longrightarrow> no_dead db \<Longrightarrow> no_dead db'"
  by (induction rule: queue_run.induct) (auto dest: queue_step_no_dead)

text \<open>A claimed job is in the hands of the claiming worker, and stays there until that worker
  acknowledges or retries it, whatever the other processes do in the meantime.\<close>

lemma held_not_claimed:
  assumes c: "qinv db" "claim_jobs cfg now skip w limit db = (js, db')" "j \<in> set js"
    and run: "queue_run cfg ls db' db2" "\<forall>l \<in> set ls. l \<notin> {LAck (qj_id j) w, LRetry (qj_id j) w}"
  shows "qj_id j \<notin> qj_id ` set (fst (claim_jobs cfg now' skip' w' limit' db2))"
proof
  assume "qj_id j \<in> qj_id ` set (fst (claim_jobs cfg now' skip' w' limit' db2))"
  then obtain j' where j': "j' \<in> set (fst (claim_jobs cfg now' skip' w' limit' db2))" "qj_id j' = qj_id j" by auto
  have q: "qinv db'" using claim_inv [OF c(1), of cfg now skip w limit] c(2) by simp
  obtain r where r: "find_job db' (qj_id j) = Some (claim_row now w r)"
    using claim_job_state [OF c] by (auto simp: claimed_from_def)
  then have "owned (qj_id j) w (claim_row now w r)" using find_job_Some [OF r] by (simp add: owned_def)
  from abandoned_job_stuck [OF run(1) q r this run(2)] obtain r' where
    "find_job db2 (qj_id j) = Some r'" "status r' = Processing" by auto
  with claim_pending [OF queue_run_inv [OF run(1) q] j'(1)] j'(2) show False by simp
qed

section \<open>Properties\<close>

text \<open>Property C1. Whatever sequence of enqueue, claim, ack, retry and dead-letter operations
  the API pods and the workers issue, in any interleaving, every reachable state of the queue
  tables keeps the invariant: job identifiers are unique, no two jobs share a topic and a
  de-duplication key, the lock columns are set exactly on the jobs being processed, and finished
  jobs carry a completion time. Since the dead-letter statement names a conflict target the schema
  does not declare, it also keeps the dead-letter table empty and no job in state dead.\<close>

theorem queue_reachable_inv:
  assumes "queue_run cfg ls empty_queue db"
  shows "qinv db \<and> dead_letters db = [] \<and> (\<forall>r \<in> set (queue_jobs db). status r \<noteq> Dead)"
proof -
  have "no_dead empty_queue" by (simp add: no_dead_def empty_queue_def)
  from queue_run_no_dead [OF assms this] show ?thesis
    using queue_run_inv [OF assms] by (simp add: no_dead_def list_all_iff)
qed

theorem queue_reachable_inv_witness:
  "qinv (snd (claim_jobs (init_queue 60 8 2 300 0) (secs 10) [] ''w1'' 5
     (empty_queue\<lparr>queue_jobs := [new_job (secs 1) ''j1'' ''enroll.process'' (JObj []) None 8 0]\<rparr>)))"
proof (rule queue_reachable_inv [THEN conjunct1])
  let ?cfg = "init_queue 60 8 2 300 0"
  let ?db1 = "empty_queue\<lparr>queue_jobs := [new_job (secs 1) ''j1'' ''enroll.process'' (JObj []) None 8 0]\<rparr>"
  have "enqueue ?cfg (secs 1) ''j1'' ''enroll.process'' (JObj []) None 0 None empty_queue
      = Inr ((''j1'', Pending), ?db1)"
    by (simp add: enqueue_def init_queue_def empty_queue_def)
  then show "queue_run ?cfg [LEnqueue, LClaim ''w1''] empty_queue
      (snd (claim_jobs ?cfg (secs 10) [] ''w1'' 5 ?db1))"
    using queue_run.more [OF queue_step.enq queue_run.more [OF queue_step.claim queue_run.stop]]
    by blast
qed

text \<open>Enqueuing twice with the same topic and de-duplication key is idempotent:
  the second call returns the identifier of the first job and adds no row, whatever payload,
  delay and attempt limit it carries.\<close>

theorem enqueue_dedupe:
  assumes "enqueue cfg now jid t p (Some k) ra ma db = Inr ((j1, s1), db1)"
    and "is_obj p'"
  shows "\<exists>s2 db2. enqueue cfg now' jid' t p' (Some k) ra' ma' db1 = Inr ((j1, s2), db2)
      \<and> map job_id (queue_jobs db2) = map job_id (queue_jobs db1)"
proof -
  let ?m = "dedupe_match t (Some k)"
  have t: "t \<noteq> []" using assms(1) by (auto simp: enqueue_def split: if_splits)
  have "\<exists>r. find ?m (queue_jobs db1) = Some r \<and> job_id r = j1"
  proof (cases "find ?m (queue_jobs db)")
    case None
    with assms(1) t have "db1 = db\<lparr>queue_jobs := queue_jobs db @ [new_job now j1 t p (Some k)
        (max 1 (case ma of None \<Rightarrow> default_max_attempts cfg
                | Some n \<Rightarrow> if n = 0 then default_max_attempts cfg else n)) (max 0 ra)]\<rparr>"
      by (auto simp: enqueue_def Let_def split: if_splits)
    with None show ?thesis
      by (simp add: find_snoc dedupe_match_def new_job_def)
  next
    case (Some r)
    have "find ?m (map (\<lambda>x. if ?m x then x\<lparr>updated_at := now\<rparr> else x) rs) =
        map_option (\<lambda>x. x\<lparr>updated_at := now\<rparr>) (find ?m rs)" for rs
      by (induction rs) (auto simp: dedupe_match_def)
    with Some assms(1) t show ?thesis
      by (auto simp: enqueue_def Let_def split: if_splits)
  qed
  then obtain r where "find ?m (queue_jobs db1) = Some r" "job_id r = j1" by blast
  with t assms(2) show ?thesis
    by (auto simp: enqueue_def Let_def)
qed

theorem enqueue_dedupe_witness:
  "\<exists>s2 db2. enqueue (init_queue 60 8 2 300 0) (secs 9) ''j2'' ''t'' (JObj [(''a'', JInt 1)]) (Some ''k'') 5 (Some 3)
       (empty_queue\<lparr>queue_jobs := [new_job (secs 1) ''j1'' ''t'' (JObj []) (Some ''k'') 8 0]\<rparr>)
       = Inr ((''j1'', s2), db2) \<and> map job_id (queue_jobs db2) = [''j1'']"
proof -
  have "enqueue (init_queue 60 8 2 300 0) (secs 1) ''j1'' ''t'' (JObj []) (Some ''k'') 0 None empty_queue
      = Inr ((''j1'', Pending), empty_queue\<lparr>queue_jobs := [new_job (secs 1) ''j1'' ''t'' (JObj []) (Some ''k'') 8 0]\<rparr>)"
    by (simp add: enqueue_def init_queue_def empty_queue_def)
  from enqueue_dedupe [OF this, of "JObj [(''a'', JInt 1)]" "secs 9" "''j2''" 5 "Some 3"] show ?thesis
    by (simp add: new_job_def empty_queue_def)
qed

text \<open>Property C2. A claim is exclusive and bounded: every returned job was pending, due and not
  locked by a concurrent claim; it is afterwards being processed by the claiming worker with
  one more attempt counted; at most \<open>max(1, limit)\<close> jobs are returned, each once; and as long as
  the lock is not older than its time to live, no claim by any worker returns the job again, whatever
  operations were issued in the meantime, unless the claiming worker acknowledged or retried it. (For
  older locks the tests and the rollout report promise a takeover, which the code does not
  perform: \<open>abandoned_job_stuck\<close>.)\<close>

theorem claim_exclusive:
  assumes "qinv db" and "claim_jobs cfg now skip w limit db = (js, db')"
    and "queue_run cfg ls db' db2" and "now' \<le> now + secs (lock_ttl_seconds cfg)"
  shows "length js \<le> nat (max 1 limit) \<and> distinct (map qj_id js) \<and>
    (\<forall>j \<in> set js. (\<exists>r. find_job db (qj_id j) = Some r \<and> claimed_from cfg now skip w db' r j) \<and>
       ((\<forall>l \<in> set ls. l \<notin> {LAck (qj_id j) w, LRetry (qj_id j) w}) \<longrightarrow>
        qj_id j \<notin> qj_id ` set (fst (claim_jobs cfg now' skip' w' limit' db2))))"
  by (intro conjI ballI impI claim_length [OF assms(1,2)] claim_distinct [OF assms(1,2)]
      claim_job_state [OF assms(1,2)]) (assumption | rule held_not_claimed [OF assms(1,2) _ assms(3)])+

theorem claim_exclusive_witness:
  "let cfg = init_queue 60 8 2 300 0;
       db = empty_queue\<lparr>queue_jobs := [new_job (secs 1) ''j1'' ''t'' (JObj []) None 8 0,
                                        new_job (secs 2) ''j2'' ''t'' (JObj []) None 8 0]\<rparr>;
       db' = snd (claim_jobs cfg (secs 5) [] ''w1'' 1 db);
       db2 = snd (claim_jobs cfg (secs 6) [] ''w2'' 1 db')
   in map qj_id (fst (claim_jobs cfg (secs 5) [] ''w1'' 1 db)) = [''j1''] \<and>
      ''j1'' \<notin> qj_id ` set (fst (claim_jobs cfg (secs 60) [] ''w3'' 7 db2))"
proof -
  let ?cfg = "init_queue 60 8 2 300 0"
  let ?db = "empty_queue\<lparr>queue_jobs := [new_job (secs 1) ''j1'' ''t'' (JObj []) None 8 0,
                                        new_job (secs 2) ''j2'' ''t'' (JObj []) None 8 0]\<rparr>"
  have q: "qinv ?db"
    by (simp add: qinv_def empty_queue_def new_job_def dedupe_keys_def row_ok_def)
  obtain js db' where c: "claim_jobs ?cfg (secs 5) [] ''w1'' 1 ?db = (js, db')"
    by (cases "claim_jobs ?cfg (secs 5) [] ''w1'' 1 ?db")
  have "map qj_id (fst (claim_jobs ?cfg (secs 5) [] ''w1'' 1 ?db)) = [''j1'']"
    by code_simp
  with c obtain j where j: "js = [j]" "qj_id j = ''j1''"
    by auto
  have run: "queue_run ?cfg [LClaim ''w2''] db' (snd (claim_jobs ?cfg (secs 6) [] ''w2'' 1 db'))"
    using queue_run.more [OF queue_step.claim queue_run.stop] by blast
  have t: "secs 60 \<le> secs 5 + secs (lock_ttl_seconds ?cfg)"
    by (simp add: secs_def init_queue_def)
  show ?thesis
    using claim_exclusive [OF q c run t, of "[]" "''w3''" 7] c j by (simp add: Let_def)
qed

text \<open>Property C3. The queue implements the abstract life of a job: every operation, by anyone,
  leaves each existing job where it was or takes it along one arrow of \<open>job_trans\<close> (pending
  to processing with one more attempt; processing to done or pending with the lock
  released). No operation deletes a job, done is final, and no operation makes a job dead. Two
  arrows the documentation has are missing, because the code cannot take them: from processing to dead
  (the dead-letter statement raises) and from processing to another worker once the lock has expired.\<close>

theorem queue_refines_job_life:
  assumes "queue_step cfg l db db'" and "qinv db" and "abs_job db jid = Some s"
  shows "\<exists>s'. abs_job db' jid = Some s' \<and> job_trans s s' \<and>
    (\<forall>n. s = JobState Done None n \<longrightarrow> s' = s) \<and> (\<forall>x n. s' = JobState Dead x n \<longrightarrow> s' = s)"
  using step_trans [OF assms] by (auto simp: job_trans_Done job_trans_Dead)

theorem queue_refines_job_life_witness:
  "\<exists>s'. abs_job (snd (ack (secs 6) ''j1'' ''w1''
       (empty_queue\<lparr>queue_jobs := [claim_row (secs 5) ''w1'' (new_job (secs 1) ''j1'' ''t'' (JObj []) None 8 0)]\<rparr>))) ''j1''
     = Some s' \<and> job_trans (JobState Processing (Some ''w1'') 1) s'"
proof -
  let ?db = "empty_queue\<lparr>queue_jobs := [claim_row (secs 5) ''w1'' (new_job (secs 1) ''j1'' ''t'' (JObj []) None 8 0)]\<rparr>"
  have "qinv ?db"
    by (simp add: qinv_def empty_queue_def new_job_def claim_row_def dedupe_keys_def row_ok_def)
  moreover have "abs_job ?db ''j1'' = Some (JobState Processing (Some ''w1'') 1)"
    by (simp add: abs_job_def find_job_def abs_row_def new_job_def empty_queue_def claim_row_def)
  ultimately show ?thesis
    using queue_refines_job_life [OF queue_step.acked, of ?db "''j1''"] by blast
qed



text \<open>The retry delay is at least one second, at least the exponential back-off
  capped at the maximum, and at most that maximum plus the whole seconds of the jitter.\<close>

theorem retry_delay_bounds:
  assumes "0 \<le> draw" and "draw \<le> max 0 jitter"
  shows "let cfg = init_queue ttl dmax base rmax jitter;
             d = retry_delay_seconds cfg draw att;
             backoff = min (retry_max_seconds cfg) (retry_base_seconds cfg * 2 ^ nat (att - 1))
         in 1 \<le> d \<and> backoff \<le> d \<and> d \<le> backoff + int_time (max 0 jitter)"
proof -
  define cfg where "cfg = init_queue ttl dmax base rmax jitter"
  define b where "b = min (retry_max_seconds cfg) (retry_base_seconds cfg * 2 ^ nat (att - 1))"
  have "1 \<le> retry_base_seconds cfg * 2 ^ nat (att - 1)"
    using mult_mono [of 1 "retry_base_seconds cfg" 1 "2 ^ nat (att - 1)"]
    by (simp add: cfg_def init_queue_def)
  then have b1: "1 \<le> b"
    by (auto simp: b_def cfg_def init_queue_def)
  have nat_max: "nat (max 0 (att - 1)) = nat (att - 1)"
    by simp
  have "retry_delay_seconds cfg draw att =
      max 1 (int_time (secs b + (if retry_jitter cfg > 0 then draw else 0)))"
    using nat_max by (simp add: retry_delay_seconds_def b_def Let_def)
  also have "int_time (secs b + (if retry_jitter cfg > 0 then draw else 0)) = b + int_time draw"
    using assms by (auto simp: cfg_def init_queue_def int_time_def secs_def)
  finally have "retry_delay_seconds cfg draw att = max 1 (b + int_time draw)" .
  moreover have "0 \<le> int_time draw" "int_time draw \<le> int_time (max 0 jitter)"
    using assms by (auto simp: int_time_def intro: zdiv_mono1)
  ultimately show ?thesis
    using b1 by (simp add: Let_def cfg_def [symmetric] b_def [symmetric])
qed

theorem retry_delay_bounds_witness:
  "let d = retry_delay_seconds (init_queue 60 8 2 300 1000000) 400000 3 in 1 \<le> d \<and> 8 \<le> d \<and> d \<le> 9"
  using retry_delay_bounds [of 400000 1000000 60 8 2 300 3]
  by (simp add: Let_def init_queue_def int_time_def)

end
