(* ===== verification/Enroll.thy ===== *)
theory Enroll
  imports Queue Relay
begin

text \<open>
  Enrolment (\<open>app/main.py\<close>): the checks on the request body, the verification of the access token,
  the tables and files an enrolment writes, the enqueueing of its job and the \<open>/enroll\<close> endpoint
  itself. PyJWT and the key server are the argument \<open>jwt\<close>, the file system and S3 the outcomes in
  \<open>io\<close>; whether PostgreSQL accepts an address as \<open>inet\<close> is the argument \<open>inet_ok\<close>.
\<close>

section \<open>Identity\<close>

definition header_json :: "headers \<Rightarrow> string \<Rightarrow> json" where
  "header_json hs k = (case header hs k of None \<Rightarrow> JNull | Some v \<Rightarrow> JStr v)"

definition json_or :: "json \<Rightarrow> json \<Rightarrow> json" where
  "json_or a b = (if truthy a then a else b)"

definition extract_identity :: "headers \<Rightarrow> json dict \<Rightarrow> json \<times> json \<times> json" where
  "extract_identity hs body =
     (json_or (header_json hs ''X-User-Email'') (jget_or body ''email'' (JStr ''unknown@local'')),
      json_or (header_json hs ''X-Client-UUID'')
        (jget_or body ''client_uuid'' (jget_or body ''plugin_uuid'' (JStr ''00000000-0000-0000-0000-000000000000''))),
      json_or (header_json hs ''X-Encryption-Key-Fingerprint'')
        (jget_or body ''encryption_key_fingerprint'' (JStr ''unknown'')))"

definition blank :: "json \<Rightarrow> bool" where
  "blank j = (case j of JStr s \<Rightarrow> strip s = [] | _ \<Rightarrow> True)"

definition validate_enroll_payload :: "json dict \<Rightarrow> string list" where
  "validate_enroll_payload body = filter (\<lambda>f. blank (jget body f)) [''device_name'', ''plugin_uuid'']"

section \<open>Access tokens\<close>

definition parse_unverified_jwt_payload :: "string \<Rightarrow> json dict" where
  "parse_unverified_jwt_payload token =
     (if token = [] then []
      else case split_on (CHR ''.'') token of
        _ # p # _ \<Rightarrow>
          (case Option.bind (Option.bind (result_option (b64url_decode p)) utf8_decode) loads of
             Some (JObj d) \<Rightarrow> d | _ \<Rightarrow> [])
      | _ \<Rightarrow> [])"

definition normalized_url :: "string \<Rightarrow> string" where
  "normalized_url u = rstrip_char (CHR ''/'') (strip u)"

definition resolve_allowed_auth_algorithms :: "settings \<Rightarrow> string list" where
  "resolve_allowed_auth_algorithms cfg =
     (let vs = csv_items (strip (auth_allowed_algorithms_csv cfg)) in if vs = [] then [''RS256''] else vs)"

text \<open>The outcome of fetching the signing key and decoding the token with PyJWT.\<close>

datatype jwt_outcome = JwtPayload json | JwtInvalid | JwtBackendError

record jwt_request =
  jq_token :: string
  jq_issuer :: string
  jq_algorithms :: "string list"
  jq_audience :: string
  jq_leeway :: int

definition verify_access_token ::
  "settings \<Rightarrow> bool \<Rightarrow> (jwt_request \<Rightarrow> jwt_outcome) \<Rightarrow> string \<Rightarrow> json dict result" where
  "verify_access_token cfg has_jwt jwt token =
     (if token = [] then Inr []
      else if \<not> auth_verify_access_token cfg then Inr (parse_unverified_jwt_payload token)
      else if \<not> has_jwt then Inl (HTTPException 503 ''JWT verification backend is unavailable.'')
      else let issuer = normalized_url (auth_issuer_url cfg)
        in if issuer = [] then Inl (HTTPException 503 ''Auth issuer URL is not configured.'')
           else case jwt \<lparr>jq_token = token, jq_issuer = issuer,
                    jq_algorithms = resolve_allowed_auth_algorithms cfg,
                    jq_audience = strip (auth_audience cfg),
                    jq_leeway = max 0 (auth_leeway_seconds cfg)\<rparr> of
             JwtInvalid \<Rightarrow> Inl (HTTPException 401 ''Invalid PKCE access token.'')
           | JwtBackendError \<Rightarrow> Inl (HTTPException 503 ''Access token verification service unavailable.'')
           | JwtPayload (JObj pl) \<Rightarrow>
               (let iss = normalized_url (jstr pl ''iss'')
                in if iss = [] \<or> iss \<noteq> issuer then Inl (HTTPException 401 ''Invalid PKCE access token issuer.'')
                   else Inr pl)
           | JwtPayload _ \<Rightarrow> Inl (HTTPException 401 ''Invalid PKCE access token.''))"

definition email_from_access_token ::
  "settings \<Rightarrow> bool \<Rightarrow> (jwt_request \<Rightarrow> jwt_outcome) \<Rightarrow> string \<Rightarrow> string result" where
  "email_from_access_token cfg has_jwt jwt token =
     bind_result (verify_access_token cfg has_jwt jwt token) (\<lambda>pl.
       case jget_or pl ''email'' (jget_or pl ''preferred_username'' (jget pl ''sub'')) of
         JStr s \<Rightarrow> Inr (strip s) | _ \<Rightarrow> Inr [])"

section \<open>What an enrolment writes\<close>

record prov_row =
  pv_email :: string
  pv_device_name :: string
  pv_client_uuid :: string
  pv_status :: string
  pv_encryption_key :: string
  pv_comments :: string
  pv_updated_at :: timestamp

record conn_row =
  cn_email :: string
  cn_client_uuid :: string
  cn_action :: string
  cn_fingerprint :: string
  cn_connected_at :: timestamp
  cn_source_ip :: "string option"
  cn_user_agent :: "string option"

record enroll_store =
  provisioning :: "prov_row list"
  device_connections :: "conn_row list"
  local_files :: "bytes dict"
  s3_objects :: "bytes dict"

text \<open>\<open>INSERT ... ON CONFLICT (client_uuid) WHERE status IN ('PENDING', 'ENROLLED') DO UPDATE\<close>.\<close>

definition prov_active :: "string \<Rightarrow> prov_row \<Rightarrow> bool" where
  "prov_active u r = (pv_client_uuid r = u \<and> pv_status r \<in> {''PENDING'', ''ENROLLED''})"

definition upsert_provisioning ::
  "bool \<Rightarrow> timestamp \<Rightarrow> string \<Rightarrow> string \<Rightarrow> string \<Rightarrow> string \<Rightarrow> enroll_store \<Rightarrow> enroll_store result" where
  "upsert_provisioning use_db now email cuuid device key st =
     (if \<not> use_db then Inr st
      else case pg_uuid cuuid of
        None \<Rightarrow> Inl DatabaseError
      | Some u \<Rightarrow>
          Inr (if list_ex (prov_active u) (provisioning st)
               then st\<lparr>provisioning := map (\<lambda>r. if prov_active u r
                      then r\<lparr>pv_email := email, pv_device_name := device, pv_status := ''ENROLLED'',
                             pv_encryption_key := key, pv_updated_at := now\<rparr> else r) (provisioning st)\<rparr>
               else st\<lparr>provisioning := provisioning st @
                      [\<lparr>pv_email = email, pv_device_name = device, pv_client_uuid = u, pv_status = ''ENROLLED'',
                        pv_encryption_key = key, pv_comments = ''enroll'', pv_updated_at = now\<rparr>]\<rparr>))"

definition log_device_connection ::
  "bool \<Rightarrow> (string \<Rightarrow> bool) \<Rightarrow> timestamp \<Rightarrow> string \<Rightarrow> string \<Rightarrow> string \<Rightarrow> string \<Rightarrow> string option \<Rightarrow> string option
     \<Rightarrow> enroll_store \<Rightarrow> enroll_store result" where
  "log_device_connection use_db inet_ok now action email cuuid fp ip ua st =
     (if action = ''HEALTHZ'' \<or> \<not> use_db then Inr st
      else case pg_uuid cuuid of
        None \<Rightarrow> Inl DatabaseError
      | Some u \<Rightarrow>
          if (case ip of None \<Rightarrow> False | Some a \<Rightarrow> \<not> inet_ok a) then Inl DatabaseError
          else Inr (st\<lparr>device_connections := device_connections st @
                 [\<lparr>cn_email = email, cn_client_uuid = u, cn_action = action, cn_fingerprint = fp,
                   cn_connected_at = now, cn_source_ip = ip, cn_user_agent = ua\<rparr>]\<rparr>))"

text \<open>\<open>os.path.join(dir, name)\<close> for a relative name.\<close>

definition path_join :: "string \<Rightarrow> string \<Rightarrow> string" where
  "path_join d n = (if d = [] then n else if last d = CHR ''/'' then d @ n else d @ ''/'' @ n)"

record enroll_io =
  io_use_db :: bool
  io_rid :: string
  io_local_error :: "string option"
  io_s3_error :: "string option"

record enroll_args =
  ea_body :: bytes
  ea_email :: string
  ea_client_uuid :: string
  ea_fingerprint :: string
  ea_device_name :: string
  ea_source_ip :: "string option"
  ea_user_agent :: "string option"

definition try_db :: "enroll_store \<Rightarrow> enroll_store result \<Rightarrow> enroll_store" where
  "try_db st r = (case r of Inl _ \<Rightarrow> st | Inr st' \<Rightarrow> st')"

definition enroll_fname :: "timestamp \<Rightarrow> string \<Rightarrow> string" where
  "enroll_fname now rid = str_of_int (now div 1000) @ ''-'' @ rid @ ''.json''"

text \<open>The two writes of the payload; an error of either leaves the function at once.\<close>

definition store_payload ::
  "settings \<Rightarrow> enroll_io \<Rightarrow> timestamp \<Rightarrow> bytes \<Rightarrow> enroll_store \<Rightarrow> string dict result \<times> enroll_store" where
  "store_payload cfg io now body st =
     (let fname = enroll_fname now (io_rid io);
          path = path_join (enroll_dir cfg) fname;
          key = rstrip_char (CHR ''/'') (s3_prefix_enroll cfg) @ ''/'' @ fname;
          local = (if \<not> store_enroll_locally cfg then (Inr [], st)
                   else case io_local_error io of
                     Some e \<Rightarrow> (Inl (OSError e), st)
                   | None \<Rightarrow> (Inr [(''local'', path)], st\<lparr>local_files := dset path body (local_files st)\<rparr>))
      in case local of
           (Inl e, st1) \<Rightarrow> (Inl e, st1)
         | (Inr stored, st1) \<Rightarrow>
             if \<not> store_enroll_s3 cfg then (Inr stored, st1)
             else (case s3_bucket cfg of
                None \<Rightarrow> (Inl (RuntimeError ''S3 bucket not configured (DM_S3_BUCKET).''), st1)
              | Some b \<Rightarrow>
                  if b = [] then (Inl (RuntimeError ''S3 bucket not configured (DM_S3_BUCKET).''), st1)
                  else case io_s3_error io of
                    Some e \<Rightarrow> (Inl (OSError e), st1)
                  | None \<Rightarrow> (Inr (stored @ [(''s3'', ''s3://'' @ b @ ''/'' @ key)]),
                              st1\<lparr>s3_objects := dset key body (s3_objects st1)\<rparr>)))"

definition persist_enroll_side_effects ::
  "settings \<Rightarrow> enroll_io \<Rightarrow> (string \<Rightarrow> bool) \<Rightarrow> timestamp \<Rightarrow> enroll_args \<Rightarrow> enroll_store
     \<Rightarrow> string dict result \<times> enroll_store" where
  "persist_enroll_side_effects cfg io inet_ok now a st =
     (case store_payload cfg io now (ea_body a) st of
        (Inl e, st1) \<Rightarrow> (Inl e, st1)
      | (Inr stored, st1) \<Rightarrow>
          (let key = (if ea_fingerprint a \<noteq> [] \<and> ea_fingerprint a \<noteq> ''unknown'' then ea_fingerprint a else ''unknown'');
               st2 = try_db st1 (upsert_provisioning (io_use_db io) now (ea_email a) (ea_client_uuid a)
                       (ea_device_name a) key st1);
               st3 = try_db st2 (log_device_connection (io_use_db io) inet_ok now ''ENROLL'' (ea_email a)
                       (ea_client_uuid a) (ea_fingerprint a) (ea_source_ip a) (ea_user_agent a) st2)
           in (Inr stored, st3)))"

section \<open>Enqueueing\<close>

definition enroll_payload :: "timestamp \<Rightarrow> enroll_args \<Rightarrow> json" where
  "enroll_payload now a = JObj
     [(''body_b64'', JStr (b64url_encode (ea_body a))), (''email'', JStr (ea_email a)),
      (''client_uuid'', JStr (ea_client_uuid a)), (''fingerprint'', JStr (ea_fingerprint a)),
      (''device_name'', JStr (ea_device_name a)), (''source_ip'', JStr (str_or (ea_source_ip a) [])),
      (''user_agent'', JStr (str_or (ea_user_agent a) [])), (''received_at'', JInt (int_time now))]"

text \<open>\<open>queue\<close> is \<open>None\<close> when the queue is disabled; \<open>jid\<close> is the identifier the database draws. An
  exception while enqueueing falls back to the synchronous path.\<close>

definition enqueue_enroll_payload ::
  "queue_cfg option \<Rightarrow> timestamp \<Rightarrow> string \<Rightarrow> enroll_args \<Rightarrow> string option \<Rightarrow> queue_db
     \<Rightarrow> string option \<times> queue_db" where
  "enqueue_enroll_payload queue now jid a dedupe db =
     (case queue of
        None \<Rightarrow> (None, db)
      | Some q \<Rightarrow>
          (case enqueue q now jid ''enroll.process'' (enroll_payload now a) dedupe 0 None db of
             Inl _ \<Rightarrow> (None, db)
           | Inr ((j, _), db') \<Rightarrow> (Some j, db')))"

definition telemetry_payload :: "timestamp \<Rightarrow> bytes \<Rightarrow> string \<Rightarrow> string option \<Rightarrow> string \<Rightarrow> json" where
  "telemetry_payload now body ctype ua cuuid = JObj
     [(''body_b64'', JStr (b64url_encode body)),
      (''content_type'', JStr (if ctype = [] then ''application/json'' else ctype)),
      (''user_agent'', JStr (str_or ua [])), (''client_uuid'', JStr cuuid),
      (''received_at'', JInt (int_time now))]"

definition enqueue_telemetry_payload ::
  "queue_cfg option \<Rightarrow> timestamp \<Rightarrow> string \<Rightarrow> bytes \<Rightarrow> string \<Rightarrow> string option \<Rightarrow> string \<Rightarrow> string option
     \<Rightarrow> queue_db \<Rightarrow> (string option \<times> queue_db) result" where
  "enqueue_telemetry_payload queue now jid body ctype ua cuuid dedupe db =
     (case queue of
        None \<Rightarrow> Inr (None, db)
      | Some q \<Rightarrow>
          bind_result (enqueue q now jid ''telemetry.forward'' (telemetry_payload now body ctype ua cuuid) dedupe 0 None db)
            (\<lambda>((j, _), db'). Inr (Some j, db')))"

section \<open>The endpoint\<close>

record world =
  w_relay :: relay_state
  w_queue :: queue_db
  w_store :: enroll_store

record enroll_request =
  er_method :: string
  er_headers :: headers
  er_body :: bytes
  er_client_host :: "string option"

text \<open>What the surroundings contribute to one call: clock, random draws, queue, tokens.\<close>

record enroll_ctx =
  ec_now :: timestamp
  ec_fresh_uuid :: int
  ec_hex :: string
  ec_rnd :: bytes
  ec_jid :: string
  ec_queue :: "queue_cfg option"
  ec_io :: enroll_io
  ec_has_jwt :: bool
  ec_jwt :: "jwt_request \<Rightarrow> jwt_outcome"
  ec_inet_ok :: "string \<Rightarrow> bool"

definition stored_json :: "string dict \<Rightarrow> json" where
  "stored_json d = JObj (map (\<lambda>(k, v). (k, JStr v)) d)"

definition relay_json :: "relay_data \<Rightarrow> json" where
  "relay_json d = JObj [(''client_id'', JStr (rd_client_id d)), (''client_key'', JStr (rd_client_key d)),
     (''allowed_targets'', JList (map JStr (rd_allowed_targets d))), (''expires_at'', JInt (rd_expires_at d)),
     (''ttl_seconds'', JInt (rd_ttl_seconds d))]"

text \<open>\<open>repr\<close> of the exceptions storing can raise; the text of an \<open>OSError\<close> is its \<open>repr\<close>.\<close>

fun exc_repr :: "py_error \<Rightarrow> string" where
  "exc_repr (RuntimeError m) = ''RuntimeError('' @ repr_str m @ '')''"
| "exc_repr (OSError m) = m"
| "exc_repr _ = []"

definition enroll_persist_sync ::
  "settings \<Rightarrow> enroll_ctx \<Rightarrow> enroll_args \<Rightarrow> string option \<Rightarrow> world
     \<Rightarrow> (relay_data \<times> json \<times> string option) result \<times> world" where
  "enroll_persist_sync cfg c a dedupe w =
     (case mint_or_rotate_relay_credentials cfg (io_use_db (ec_io c)) (ec_now c) (ec_hex c) (ec_rnd c)
             (ea_client_uuid a) (ea_email a) (w_relay w) of
        (Inl e, rs) \<Rightarrow> (Inl e, w\<lparr>w_relay := rs\<rparr>)
      | (Inr data, rs) \<Rightarrow>
          (let w1 = w\<lparr>w_relay := rs\<rparr>
           in case enqueue_enroll_payload (ec_queue c) (ec_now c) (ec_jid c) a dedupe (w_queue w1) of
                (Some j, db) \<Rightarrow>
                  (Inr (data, JObj [(''queued'', JBool True), (''jobId'', JStr j)], Some j), w1\<lparr>w_queue := db\<rparr>)
              | (None, db) \<Rightarrow>
                  (case persist_enroll_side_effects cfg (ec_io c) (ec_inet_ok c) (ec_now c) a (w_store w1) of
                     (Inl e, st) \<Rightarrow> (Inl (HTTPException 500 (''Cannot persist enroll payload: '' @ exc_repr e)), w1\<lparr>w_store := st\<rparr>)
                   | (Inr stored, st) \<Rightarrow> (Inr (data, stored_json stored, None), w1\<lparr>w_store := st\<rparr>))))"

definition fail_json :: "int \<Rightarrow> string \<Rightarrow> response" where
  "fail_json st msg = \<lparr>r_status = st, r_body = JObj [(''ok'', JBool False), (''error'', JStr msg)], r_headers = []\<rparr>"

definition MAX_BODY_BYTES :: "settings \<Rightarrow> int" where
  "MAX_BODY_BYTES cfg = max_body_size_mb cfg * 1024 * 1024"

text \<open>The arguments of the blocking part and the de-duplication key, from an accepted body.\<close>

definition enroll_args_of :: "enroll_ctx \<Rightarrow> enroll_request \<Rightarrow> json dict \<Rightarrow> string \<Rightarrow> enroll_args \<times> string option" where
  "enroll_args_of c req body email =
     (let hs = er_headers req;
          device = strip (py_str (case dget body ''device_name'' of None \<Rightarrow> JStr [] | Some v \<Rightarrow> v));
          plugin = strip (py_str (case dget body ''plugin_uuid'' of None \<Rightarrow> JStr [] | Some v \<Rightarrow> v));
          (_, cu, fp) = extract_identity hs body;
          raw = (if plugin \<noteq> [] then JStr plugin else cu);
          cuuid = normalize_client_uuid (ec_fresh_uuid c) (if truthy raw then py_str raw else []);
          ik = strip (header_or hs ''x-idempotency-key'' ''x-request-id'')
      in (\<lparr>ea_body = er_body req, ea_email = email, ea_client_uuid = cuuid, ea_fingerprint = py_str fp,
           ea_device_name = device, ea_source_ip = er_client_host req, ea_user_agent = header hs ''user-agent''\<rparr>,
          if ik \<noteq> [] then Some (''enroll:'' @ cuuid @ '':'' @ ik) else None))"

definition enroll :: "settings \<Rightarrow> enroll_ctx \<Rightarrow> enroll_request \<Rightarrow> world \<Rightarrow> response result \<times> world" where
  "enroll cfg c req w =
     (if er_method req = ''OPTIONS'' then (Inr \<lparr>r_status = 204, r_body = JNull, r_headers = []\<rparr>, w)
      else if er_body req = [] then (Inr (fail_json 400 ''Empty body''), w)
      else if int (length (er_body req)) > MAX_BODY_BYTES cfg then (Inr (fail_json 413 ''Body too large''), w)
      else case Option.bind (utf8_decode (er_body req)) loads of
        None \<Rightarrow> (Inr (fail_json 400 ''Body is not valid JSON''), w)
      | Some (JObj body) \<Rightarrow>
          (let missing = validate_enroll_payload body
           in if missing \<noteq> [] then
                (Inr (fail_json 400 (''Missing required fields: '' @ join_with '', '' missing)), w)
              else case email_from_access_token cfg (ec_has_jwt c) (ec_jwt c) (extract_bearer_token (er_headers req)) of
                Inl (HTTPException s d) \<Rightarrow>
                  if 500 \<le> s then (Inl (HTTPException s d), w)
                  else (Inr (fail_json 401 ''Missing or invalid PKCE access token.''), w)
              | Inl e \<Rightarrow> (Inl e, w)
              | Inr email \<Rightarrow>
                  if email = [] then (Inr (fail_json 401 ''Missing or invalid PKCE access token.''), w)
                  else let (a, dedupe) = enroll_args_of c req body email
                    in case enroll_persist_sync cfg c a dedupe w of
                      (Inl e, w') \<Rightarrow> (Inl e, w')
                    | (Inr (data, stored, job), w') \<Rightarrow>
                        (Inr \<lparr>r_status = 201, r_body = JObj
                           [(''ok'', JBool True), (''stored'', stored), (''queued'', JBool (job \<noteq> None)),
                            (''jobId'', case job of None \<Rightarrow> JNull | Some j \<Rightarrow> JStr j), (''relay'', relay_json data),
                            (''relayClientId'', JStr (rd_client_id data)), (''relayClientKey'', JStr (rd_client_key data)),
                            (''relayKeyExpiresAt'', JInt (rd_expires_at data))], r_headers = []\<rparr>, w'))
      | Some _ \<Rightarrow> (Inr (fail_json 400 ''Body must be a JSON object''), w))"

section \<open>Lemmas\<close>

lemma persist_sync_mints:
  assumes "enroll_persist_sync cfg c a dedupe w = (Inr (data, stored, job), w')"
  shows "mint_or_rotate_relay_credentials cfg (io_use_db (ec_io c)) (ec_now c) (ec_hex c) (ec_rnd c)
    (ea_client_uuid a) (ea_email a) (w_relay w) = (Inr data, w_relay w')"
  using assms
  by (auto simp: enroll_persist_sync_def Let_def split: prod.splits sum.splits option.splits)

text \<open>The identity an accepted body is enrolled under: the address of the token and the plug-in
  identifier of the body in normal form.\<close>

lemma normalize_canonical: "canonical_uuid (normalize_client_uuid f r)"
  by (auto simp: normalize_client_uuid_def Let_def split: option.split)

lemma normalize_strip: "normalize_client_uuid f (strip r) = normalize_client_uuid f r"
  by (simp add: normalize_client_uuid_def)

lemma validated_field:
  "validate_enroll_payload body = [] \<Longrightarrow> f \<in> {''device_name'', ''plugin_uuid''} \<Longrightarrow>
     \<exists>v. jget body f = JStr v \<and> strip v \<noteq> []"
  by (cases "jget body f") (auto simp: validate_enroll_payload_def blank_def split: if_splits)

lemma enroll_args_identity:
  assumes "enroll_args_of c req body email = (a, dedupe)" "validate_enroll_payload body = []"
  shows "ea_email a = email \<and>
    (\<exists>u. jget body ''plugin_uuid'' = JStr u \<and> strip u \<noteq> [] \<and>
       ea_client_uuid a = normalize_client_uuid (ec_fresh_uuid c) u) \<and>
    (\<exists>d. jget body ''device_name'' = JStr d \<and> strip d \<noteq> [] \<and> ea_device_name a = strip d)"
proof -
  obtain u where u: "jget body ''plugin_uuid'' = JStr u" "strip u \<noteq> []"
    using validated_field [OF assms(2), of "''plugin_uuid''"] by auto
  obtain d where d: "jget body ''device_name'' = JStr d" "strip d \<noteq> []"
    using validated_field [OF assms(2), of "''device_name''"] by auto
  have g: "dget body ''plugin_uuid'' = Some (JStr u)" "dget body ''device_name'' = Some (JStr d)"
    using u(1) d(1) by (simp_all add: jget_def split: option.splits)
  obtain e cu fp where x: "extract_identity (er_headers req) body = (e, cu, fp)" by (cases "extract_identity (er_headers req) body")
  have "fst (enroll_args_of c req body email) =
      \<lparr>ea_body = er_body req, ea_email = email, ea_client_uuid = normalize_client_uuid (ec_fresh_uuid c) u,
       ea_fingerprint = py_str fp, ea_device_name = strip d, ea_source_ip = er_client_host req,
       ea_user_agent = header (er_headers req) ''user-agent''\<rparr>"
    unfolding enroll_args_of_def Let_def x g by (simp add: u(2) normalize_strip)
  with assms(1) u d show ?thesis by simp
qed

text \<open>With verification on, an address is only read from a payload PyJWT returned for this token.\<close>

lemma email_verified:
  assumes "email_from_access_token cfg has_jwt jwt token = Inr email" "email \<noteq> []" "auth_verify_access_token cfg"
  shows "\<exists>jq pl. jwt jq = JwtPayload (JObj pl) \<and> jq_token jq = token"
proof -
  let ?jq = "\<lparr>jq_token = token, jq_issuer = normalized_url (auth_issuer_url cfg),
    jq_algorithms = resolve_allowed_auth_algorithms cfg, jq_audience = strip (auth_audience cfg),
    jq_leeway = max 0 (auth_leeway_seconds cfg)\<rparr>"
  obtain pl where pl: "verify_access_token cfg has_jwt jwt token = Inr pl"
    using assms(1) by (cases "verify_access_token cfg has_jwt jwt token") (simp_all add: email_from_access_token_def)
  have "pl \<noteq> []"
    using assms(1,2) pl by (auto simp: email_from_access_token_def jget_or_def jget_def dget_def)
  with pl have "token \<noteq> []" by (auto simp: verify_access_token_def)
  with pl assms(3) have "jwt ?jq = JwtPayload (JObj pl)"
    by (cases "jwt ?jq") (simp_all add: verify_access_token_def Let_def split: if_splits json.splits)
  then show ?thesis by (intro exI [of _ ?jq] exI [of _ pl]) simp
qed

text \<open>An exception never leaves a job behind.\<close>

lemma enqueue_none: "enqueue_enroll_payload q now jid a k db = (None, db') \<Longrightarrow> db' = db"
  by (auto simp: enqueue_enroll_payload_def split: option.splits sum.splits prod.splits)

lemma persist_sync_raises:
  "enroll_persist_sync cfg c a dedupe w = (Inl e, w') \<Longrightarrow> w_queue w' = w_queue w"
  by (auto simp: enroll_persist_sync_def Let_def split: prod.splits sum.splits option.splits)

lemma enroll_raises:
  assumes "enroll cfg c req w = (Inl e, w')"
  shows "w_queue w' = w_queue w"
proof (cases "Option.bind (utf8_decode (er_body req)) loads")
  case (Some j)
  with assms show ?thesis
    by (cases j) (auto simp: enroll_def Let_def dest!: persist_sync_raises
        split: if_splits sum.splits py_error.splits prod.splits)
qed (use assms in \<open>auto simp: enroll_def split: if_splits\<close>)

text \<open>The single path to a 201, and the answers on all others.\<close>

lemma enroll_cases:
  assumes "enroll cfg c req w = (Inr resp, w')"
  shows "(r_status resp \<noteq> 201 \<and> w' = w) \<or>
    (r_status resp = 201 \<and> (\<exists>body email a dedupe data stored job.
       Option.bind (utf8_decode (er_body req)) loads = Some (JObj body) \<and> validate_enroll_payload body = [] \<and>
       email_from_access_token cfg (ec_has_jwt c) (ec_jwt c) (extract_bearer_token (er_headers req)) = Inr email \<and>
       email \<noteq> [] \<and> enroll_args_of c req body email = (a, dedupe) \<and>
       enroll_persist_sync cfg c a dedupe w = (Inr (data, stored, job), w') \<and>
       jget (obj_of (r_body resp)) ''relayClientId'' = JStr (rd_client_id data) \<and>
       jget (obj_of (r_body resp)) ''relayClientKey'' = JStr (rd_client_key data) \<and>
       jget (obj_of (r_body resp)) ''relayKeyExpiresAt'' = JInt (rd_expires_at data)))"
proof (cases "Option.bind (utf8_decode (er_body req)) loads")
  case None
  with assms show ?thesis by (auto simp: enroll_def fail_json_def split: if_splits)
next
  case (Some j)
  show ?thesis
  proof (cases "\<exists>body. j = JObj body \<and> validate_enroll_payload body = []")
    case False
    with Some assms show ?thesis
      by (cases j) (auto simp: enroll_def fail_json_def Let_def split: if_splits)
  next
    case True
    then obtain body where b: "j = JObj body" "validate_enroll_payload body = []" by blast
    let ?e = "email_from_access_token cfg (ec_has_jwt c) (ec_jwt c) (extract_bearer_token (er_headers req))"
    show ?thesis
    proof (cases ?e)
      case (Inl e)
      with Some b assms show ?thesis
        by (cases e) (auto simp: enroll_def fail_json_def Let_def split: if_splits)
    next
      case (Inr email)
      obtain a dedupe where a: "enroll_args_of c req body email = (a, dedupe)" by fastforce
      obtain res w1 where p: "enroll_persist_sync cfg c a dedupe w = (res, w1)" by fastforce
      from Some b assms Inr a p show ?thesis
        by (cases res) (auto simp: enroll_def fail_json_def Let_def jget_def dget_def split: if_splits prod.splits)
    qed
  qed
qed

section \<open>Property\<close>

text \<open>Property C10. Every response the enrolment endpoint returns other than a 201 leaves the whole
  state unchanged, and when it raises instead (a 5xx, which may come after the relay credentials were
  rotated or a file was written) at least no job was queued. It answers 201 only for a body with
  a device name and a plug-in identifier and an access token that yields an e-mail address (a token
  PyJWT accepted, when \<open>auth_verify_access_token\<close> is on; otherwise the payload is read
  unverified). The credentials in the answer are then accepted for the \<open>config\<close> target until the
  announced second, for the normal form of the plug-in identifier of the body and for the
  address of the token, whatever address the body or the headers claim. The drawn identifier is assumed
  hexadecimal and new, the drawn key not empty.\<close>

theorem enroll_grants_credentials:
  assumes "enroll cfg c req w = (res, w')"
    and "list_all is_hex (ec_hex c)" "ec_rnd c \<noteq> []" "0 \<le> ec_now c"
    and "relay_id (ec_hex c) \<notin> rr_client_id ` set (relay_clients (w_relay w))"
  shows "case res of
      Inl e \<Rightarrow> w_queue w' = w_queue w
    | Inr resp \<Rightarrow>
        (r_status resp \<noteq> 201 \<and> w' = w) \<or>
        (r_status resp = 201 \<and> (\<exists>body u email cid key ex.
           Option.bind (utf8_decode (er_body req)) loads = Some (JObj body) \<and> validate_enroll_payload body = [] \<and>
           jget body ''plugin_uuid'' = JStr u \<and>
           email_from_access_token cfg (ec_has_jwt c) (ec_jwt c) (extract_bearer_token (er_headers req)) = Inr email \<and>
           email \<noteq> [] \<and>
           (auth_verify_access_token cfg \<longrightarrow>
              (\<exists>jq pl. ec_jwt c jq = JwtPayload (JObj pl) \<and> jq_token jq = extract_bearer_token (er_headers req))) \<and>
           jget (obj_of (r_body resp)) ''relayClientId'' = JStr cid \<and>
           jget (obj_of (r_body resp)) ''relayClientKey'' = JStr key \<and>
           jget (obj_of (r_body resp)) ''relayKeyExpiresAt'' = JInt ex \<and>
           (\<forall>t. int_time t < ex \<longrightarrow>
              (\<exists>m. verify_relay_credentials cfg (io_use_db (ec_io c)) t cid key (Some ''config'') (w_relay w') = Inr m \<and>
                 rm_email m = email \<and> rm_client_uuid m = normalize_client_uuid (ec_fresh_uuid c) u))))"
proof (cases res)
  case (Inl e)
  with assms(1) enroll_raises show ?thesis by simp
next
  case (Inr resp)
  with assms(1) have "enroll cfg c req w = (Inr resp, w')" by simp
  from enroll_cases [OF this] show ?thesis
  proof (elim disjE conjE exE)
    fix body email a dedupe data stored job
    assume st: "r_status resp = 201"
      and b: "Option.bind (utf8_decode (er_body req)) loads = Some (JObj body)" "validate_enroll_payload body = []"
      and em: "email_from_access_token cfg (ec_has_jwt c) (ec_jwt c) (extract_bearer_token (er_headers req)) = Inr email"
        "email \<noteq> []"
      and a: "enroll_args_of c req body email = (a, dedupe)"
      and p: "enroll_persist_sync cfg c a dedupe w = (Inr (data, stored, job), w')"
      and out: "jget (obj_of (r_body resp)) ''relayClientId'' = JStr (rd_client_id data)"
        "jget (obj_of (r_body resp)) ''relayClientKey'' = JStr (rd_client_key data)"
        "jget (obj_of (r_body resp)) ''relayKeyExpiresAt'' = JInt (rd_expires_at data)"
    note m = persist_sync_mints [OF p]
    obtain u where u: "jget body ''plugin_uuid'' = JStr u" "ea_email a = email"
      "ea_client_uuid a = normalize_client_uuid (ec_fresh_uuid c) u" using enroll_args_identity [OF a b(2)] by blast
    have v: "verify_relay_credentials cfg (io_use_db (ec_io c)) t (rd_client_id data) (rd_client_key data)
        (Some ''config'') (w_relay w') =
        minted_verdict cfg (ec_now c) t (ea_client_uuid a) (ea_email a) (Some ''config'')" for t
      using verify_minted [OF assms(2-4) mint_lookup [OF m assms(5)]] mint_result [OF m] by simp
    have "lower (strip ''config'') = ''config''" by code_simp
    then have "\<exists>mm. verify_relay_credentials cfg (io_use_db (ec_io c)) t (rd_client_id data) (rd_client_key data)
        (Some ''config'') (w_relay w') = Inr mm \<and> rm_email mm = email \<and>
        rm_client_uuid mm = normalize_client_uuid (ec_fresh_uuid c) u"
      if "int_time t < rd_expires_at data" for t
      using that v [of t] mint_result [OF m] relay_allowed_targets_props(3) [of cfg] u(2,3)
      by (auto simp: minted_verdict_def Let_def)
    with st b em out u(1) email_verified [OF em] Inr show ?thesis by auto
  qed (use Inr in simp)
qed

definition demo_body :: "json dict" where
  "demo_body = [(''device_name'', JStr ''pc''), (''plugin_uuid'', JStr ''a2345678123456781234567812345678'')]"

definition demo_request :: enroll_request where
  "demo_request = \<lparr>er_method = ''POST'', er_headers = [(''authorization'', ''Bearer t'')],
     er_body = dumps_compact (JObj demo_body), er_client_host = None\<rparr>"

definition demo_cfg :: settings where
  "demo_cfg = (settings_defaults (\<lambda>_. None))\<lparr>auth_issuer_url := ''https://kc''\<rparr>"

definition demo_enroll_ctx :: enroll_ctx where
  "demo_enroll_ctx = \<lparr>ec_now = 0, ec_fresh_uuid = 0, ec_hex = ''aa'', ec_rnd = ''x'', ec_jid = ''j'', ec_queue = None,
     ec_io = \<lparr>io_use_db = True, io_rid = ''r'', io_local_error = None, io_s3_error = None\<rparr>, ec_has_jwt = True,
     ec_jwt = (\<lambda>_. JwtPayload (JObj [(''iss'', JStr ''https://kc/''), (''email'', JStr ''a@b'')])),
     ec_inet_ok = (\<lambda>_. True)\<rparr>"

definition demo_world :: world where
  "demo_world = \<lparr>w_relay = no_relays, w_queue = empty_queue,
     w_store = \<lparr>provisioning = [], device_connections = [], local_files = [], s3_objects = []\<rparr>\<rparr>"

lemma demo_enroll_created:
  "\<exists>resp w' ex. enroll demo_cfg demo_enroll_ctx demo_request demo_world = (Inr resp, w') \<and> r_status resp = 201 \<and>
     jget (obj_of (r_body resp)) ''relayKeyExpiresAt'' = JInt ex \<and> 0 < ex"
proof -
  have b: "er_method demo_request = ''POST''" "er_body demo_request \<noteq> []"
    "int (length (er_body demo_request)) \<le> MAX_BODY_BYTES demo_cfg"
    "Option.bind (utf8_decode (er_body demo_request)) loads = Some (JObj demo_body)"
    "validate_enroll_payload demo_body = []"
    by code_simp+
  have e: "email_from_access_token demo_cfg (ec_has_jwt demo_enroll_ctx) (ec_jwt demo_enroll_ctx)
      (extract_bearer_token (er_headers demo_request)) = Inr ''a@b''"
    by code_simp
  obtain a dedupe where a: "enroll_args_of demo_enroll_ctx demo_request demo_body ''a@b'' = (a, dedupe)" by fastforce
  have "\<exists>data stored job w'. enroll_persist_sync demo_cfg demo_enroll_ctx a dedupe demo_world = (Inr (data, stored, job), w')"
    by (simp add: enroll_persist_sync_def mint_or_rotate_relay_credentials_def Let_def insert_relay_def revoke_client_def
        demo_world_def no_relays_def demo_enroll_ctx_def enqueue_enroll_payload_def persist_enroll_side_effects_def
        store_payload_def demo_cfg_def settings_defaults_def)
  then obtain data stored job w' where
    p: "enroll_persist_sync demo_cfg demo_enroll_ctx a dedupe demo_world = (Inr (data, stored, job), w')" by blast
  have "0 < rd_expires_at data"
    using mint_result [OF persist_sync_mints [OF p]]
    by (simp add: demo_enroll_ctx_def relay_ttl_def demo_cfg_def settings_defaults_def int_time_def)
  then show ?thesis
    using b e a p by (auto simp: enroll_def Let_def jget_def dget_def)
qed

theorem enroll_grants_credentials_witness:
  "\<exists>resp w' cid key m. enroll demo_cfg demo_enroll_ctx demo_request demo_world = (Inr resp, w') \<and> r_status resp = 201 \<and>
     jget (obj_of (r_body resp)) ''relayClientId'' = JStr cid \<and> jget (obj_of (r_body resp)) ''relayClientKey'' = JStr key \<and>
     verify_relay_credentials demo_cfg True 0 cid key (Some ''config'') (w_relay w') = Inr m \<and> rm_email m = ''a@b''"
proof -
  from demo_enroll_created obtain resp w' ex where
    r: "enroll demo_cfg demo_enroll_ctx demo_request demo_world = (Inr resp, w')" "r_status resp = 201"
      "jget (obj_of (r_body resp)) ''relayKeyExpiresAt'' = JInt ex" "0 < ex" by blast
  have "list_all is_hex (ec_hex demo_enroll_ctx)" "ec_rnd demo_enroll_ctx \<noteq> []" "0 \<le> ec_now demo_enroll_ctx"
    "relay_id (ec_hex demo_enroll_ctx) \<notin> rr_client_id ` set (relay_clients (w_relay demo_world))"
    using demo_ids(1) by (simp_all add: demo_enroll_ctx_def demo_world_def no_relays_def)
  note g = enroll_grants_credentials [OF r(1) this]
  have i: "int_time 0 = 0" "io_use_db (ec_io demo_enroll_ctx)" by (simp_all add: int_time_def demo_enroll_ctx_def)
  have e: "email_from_access_token demo_cfg (ec_has_jwt demo_enroll_ctx) (ec_jwt demo_enroll_ctx)
      (extract_bearer_token (er_headers demo_request)) = Inr ''a@b''" by code_simp
  from g r(2,3) obtain cid key u where
    k: "jget (obj_of (r_body resp)) ''relayClientId'' = JStr cid" "jget (obj_of (r_body resp)) ''relayClientKey'' = JStr key"
      "\<forall>t. int_time t < ex \<longrightarrow> (\<exists>m. verify_relay_credentials demo_cfg (io_use_db (ec_io demo_enroll_ctx)) t cid key
         (Some ''config'') (w_relay w') = Inr m \<and> rm_email m = ''a@b'' \<and>
         rm_client_uuid m = normalize_client_uuid (ec_fresh_uuid demo_enroll_ctx) u)" using e by auto
  from k(3) [rule_format, of 0] i r(4) obtain m where
    "verify_relay_credentials demo_cfg True 0 cid key (Some ''config'') (w_relay w') = Inr m" "rm_email m = ''a@b''" by auto
  with r(1,2) k(1,2) show ?thesis by blast
qed

end
