(* ===== verification/LlmProxy.thy ===== *)
theory LlmProxy
  imports LlmQuota Enroll
begin

text \<open>
  The OpenAI-compatible proxy: interceptor pipeline (\<open>app/llm/pipeline.py\<close>), guardrails
  (\<open>app/llm/guardrails.py\<close>), backend registry (\<open>app/llm/backends.py\<close>), forwarding (\<open>app/llm/proxy.py\<close>)
  and the three routes (\<open>app/llm/router.py\<close>). The HTTP client is the parameter \<open>send\<close>; \<open>renderable\<close> says
  whether the framework can render a JSON body. A stream is the list of its chunks.
\<close>

section \<open>Request context and interceptors\<close>

record llm_ctx =
  lc_identity :: llm_identity
  lc_trace_id :: string
  lc_route :: string
  lc_model :: string
  lc_stream :: bool
  lc_payload :: json
  lc_backend_name :: string
  lc_verdicts :: "string list"
  lc_quota :: "(int \<times> int \<times> int) option"
  lc_usage :: "json option"

definition add_verdict :: "string \<Rightarrow> llm_ctx \<Rightarrow> llm_ctx" where
  "add_verdict v ctx = ctx\<lparr>lc_verdicts := lc_verdicts ctx @ [v]\<rparr>"

record 's interceptor =
  ic_name :: string
  ic_before :: "llm_ctx \<Rightarrow> 's \<Rightarrow> response option \<times> llm_ctx \<times> 's"
  ic_after :: "llm_ctx \<Rightarrow> json \<Rightarrow> json result \<times> llm_ctx"
  ic_on_chunk :: "llm_ctx \<Rightarrow> bytes \<Rightarrow> bytes"

definition base_interceptor :: "'s interceptor" where
  "base_interceptor = \<lparr>ic_name = ''interceptor'', ic_before = (\<lambda>ctx s. (None, ctx, s)), ic_after = (\<lambda>ctx b. (Inr b, ctx)),
     ic_on_chunk = (\<lambda>ctx c. c)\<rparr>"

fun run_before :: "'s interceptor list \<Rightarrow> llm_ctx \<Rightarrow> 's \<Rightarrow> response option \<times> llm_ctx \<times> 's" where
  "run_before [] ctx s = (None, ctx, s)"
| "run_before (i # is) ctx s = (case ic_before i ctx s of
       (Some r, ctx', s') \<Rightarrow> (Some r, add_verdict (ic_name i @ '':deny'') ctx', s')
     | (None, ctx', s') \<Rightarrow> run_before is ctx' s')"

fun run_after :: "'s interceptor list \<Rightarrow> llm_ctx \<Rightarrow> json \<Rightarrow> json result \<times> llm_ctx" where
  "run_after [] ctx b = (Inr b, ctx)"
| "run_after (i # is) ctx b = (case ic_after i ctx b of
       (Inl e, ctx') \<Rightarrow> (Inl e, ctx') | (Inr b', ctx') \<Rightarrow> run_after is ctx' b')"

definition wrap_stream :: "'s interceptor list \<Rightarrow> llm_ctx \<Rightarrow> bytes list \<Rightarrow> bytes list" where
  "wrap_stream is ctx cs = map (fold (\<lambda>i. ic_on_chunk i ctx) is) cs"

section \<open>Guardrails\<close>

datatype direction = REQUEST | RESPONSE

text \<open>A transformation without a payload (\<open>JNull\<close>) changes nothing.\<close>

datatype guardrail_result = Allow | Deny string | Transform json

record guardrail =
  gr_name :: string
  gr_check :: "json \<Rightarrow> direction \<Rightarrow> llm_ctx \<Rightarrow> guardrail_result"

definition noop_guardrail :: guardrail where
  "noop_guardrail = \<lparr>gr_name = ''noop'', gr_check = (\<lambda>_ _ _. Allow)\<rparr>"

definition deny_all_guardrail :: guardrail where
  "deny_all_guardrail = \<lparr>gr_name = ''deny_all'', gr_check = (\<lambda>_ _ _. Deny ''blocked by policy (deny_all)'')\<rparr>"

definition GUARDRAIL_REGISTRY :: "guardrail dict" where
  "GUARDRAIL_REGISTRY = [(''noop'', noop_guardrail), (''deny_all'', deny_all_guardrail)]"

definition configured_names :: "env \<Rightarrow> string list" where
  "configured_names e =
     (let raw = strip (str_or (e ''LLM_GUARDRAILS'') [])
      in if raw = [] then [''noop'']
         else if startswith raw ''['' then
           (case loads raw of
              Some (JList xs) \<Rightarrow> filter (\<lambda>n. n \<noteq> []) (map (\<lambda>x. strip (py_str x)) xs)
            | _ \<Rightarrow> [''noop''])
         else csv_items raw)"

definition build_guardrails :: "env \<Rightarrow> guardrail list" where
  "build_guardrails e = List.map_filter (dget GUARDRAIL_REGISTRY) (configured_names e)"

definition policy_violation :: "string \<Rightarrow> string \<Rightarrow> py_error" where
  "policy_violation reason fallback =
     llm_proxy_error 403 (if reason \<noteq> [] then reason else fallback) ''invalid_request_error'' (Some ''content_policy_violation'') None"

fun check_request :: "guardrail list \<Rightarrow> json \<Rightarrow> llm_ctx \<Rightarrow> response option \<times> llm_ctx" where
  "check_request [] pl ctx = (None, ctx\<lparr>lc_payload := pl\<rparr>)"
| "check_request (g # gs) pl ctx = (case gr_check g pl REQUEST ctx of
       Deny reason \<Rightarrow>
         (to_response (policy_violation reason ''Request blocked by guardrail.''),
          add_verdict (''guardrail:'' @ gr_name g @ '':deny'') ctx)
     | Transform p \<Rightarrow>
         if p \<noteq> JNull then check_request gs p (add_verdict (''guardrail:'' @ gr_name g @ '':transform'') ctx)
         else check_request gs pl ctx
     | Allow \<Rightarrow> check_request gs pl ctx)"

fun check_response :: "guardrail list \<Rightarrow> llm_ctx \<Rightarrow> json \<Rightarrow> json result \<times> llm_ctx" where
  "check_response [] ctx body = (Inr body, ctx)"
| "check_response (g # gs) ctx body = (case gr_check g body RESPONSE ctx of
       Deny reason \<Rightarrow>
         (Inl (policy_violation reason ''Response blocked by guardrail.''),
          add_verdict (''guardrail:'' @ gr_name g @ '':deny_response'') ctx)
     | Transform p \<Rightarrow>
         if p \<noteq> JNull then check_response gs (add_verdict (''guardrail:'' @ gr_name g @ '':transform_response'') ctx) p
         else check_response gs ctx body
     | Allow \<Rightarrow> check_response gs ctx body)"

definition guardrail_interceptor :: "guardrail list \<Rightarrow> 's interceptor" where
  "guardrail_interceptor gs = base_interceptor\<lparr>ic_name := ''guardrail'',
     ic_before := (\<lambda>ctx s. case check_request gs (lc_payload ctx) ctx of (r, ctx') \<Rightarrow> (r, ctx', s)),
     ic_after := (\<lambda>ctx b. check_response gs ctx b)\<rparr>"

definition throttle_interceptor ::
  "(timestamp \<Rightarrow> timestamp \<Rightarrow> string \<Rightarrow> int \<Rightarrow> int \<Rightarrow> 's \<Rightarrow> ((bool \<times> int \<times> int) \<times> 's) option) \<Rightarrow> env \<Rightarrow> timestamp \<Rightarrow> timestamp
     \<Rightarrow> 's interceptor" where
  "throttle_interceptor incr e now clock = base_interceptor\<lparr>ic_name := ''throttle'',
     ic_before := (\<lambda>ctx s. case throttle_before incr e now clock (lc_identity ctx) s of
         (r, q, s') \<Rightarrow>
           let ctx1 = (case q of None \<Rightarrow> ctx | Some _ \<Rightarrow> ctx\<lparr>lc_quota := q\<rparr>)
           in (r, if r = None then ctx1 else add_verdict ''throttle:deny'' ctx1, s'))\<rparr>"

definition build_pipeline ::
  "(timestamp \<Rightarrow> timestamp \<Rightarrow> string \<Rightarrow> int \<Rightarrow> int \<Rightarrow> 's \<Rightarrow> ((bool \<times> int \<times> int) \<times> 's) option) \<Rightarrow> env \<Rightarrow> timestamp \<Rightarrow> timestamp
     \<Rightarrow> 's interceptor list" where
  "build_pipeline incr e now clock = [throttle_interceptor incr e now clock, guardrail_interceptor (build_guardrails e)]"

section \<open>Backends\<close>

text \<open>\<open>fnmatch.fnmatch\<close>: \<open>*\<close>, \<open>?\<close> and character classes with ranges and negation.\<close>

fun class_items :: "string \<Rightarrow> (char \<times> char) list" where
  "class_items (a # m # b # cs) =
     (if m = CHR ''-'' then (a, b) # class_items cs else (a, a) # class_items (m # b # cs))"
| "class_items (a # cs) = (a, a) # class_items cs"
| "class_items [] = []"

text \<open>The text of a class after \<open>[\<close> and what follows its \<open>]\<close>; a \<open>]\<close> in first position is literal.\<close>

definition split_class :: "string \<Rightarrow> (bool \<times> string \<times> string) option" where
  "split_class p =
     (let neg = (p \<noteq> [] \<and> hd p = CHR ''!''); q = (if neg then tl p else p);
          first = (if q \<noteq> [] \<and> hd q = CHR '']'' then [CHR '']''] else []);
          body = takeWhile (\<lambda>c. c \<noteq> CHR '']'') (drop (length first) q);
          rest = drop (length first + length body) q
      in if rest = [] then None else Some (neg, first @ body, tl rest))"

definition class_match :: "bool \<Rightarrow> string \<Rightarrow> char \<Rightarrow> bool" where
  "class_match neg body c = (neg \<noteq> list_ex (\<lambda>(lo, hi). of_char lo \<le> (of_char c :: nat) \<and> of_char c \<le> (of_char hi :: nat)) (class_items body))"

lemma split_class_length: "split_class p = Some (neg, body, rest) \<Longrightarrow> length rest < length p"
  by (cases p) (auto simp: split_class_def Let_def split: if_splits)

function fnmatch :: "string \<Rightarrow> string \<Rightarrow> bool" where
  "fnmatch [] s = (s = [])"
| "fnmatch (p # ps) [] = (p = CHR ''*'' \<and> fnmatch ps [])"
| "fnmatch (p # ps) (c # cs) =
     (if p = CHR ''*'' then fnmatch ps (c # cs) \<or> fnmatch (p # ps) cs
      else if p = CHR ''?'' then fnmatch ps cs
      else if p = CHR ''['' then
        (case split_class ps of
           None \<Rightarrow> c = p \<and> fnmatch ps cs
         | Some (neg, body, rest) \<Rightarrow> class_match neg body c \<and> fnmatch rest cs)
      else c = p \<and> fnmatch ps cs)"
  by pat_completeness auto

termination
  by (relation "measure (\<lambda>(p, s). length p + length s)") (auto dest: split_class_length)

record backend =
  be_name :: string
  be_base_url :: string
  be_api_token :: string

record registry =
  rg_backends :: "backend dict"
  rg_model_map :: "string dict"

definition cfg_or :: "env \<Rightarrow> string \<Rightarrow> string \<Rightarrow> string" where
  "cfg_or e a b = str_or (e a) (str_or (e b) [])"

definition url_text :: "string \<Rightarrow> string" where
  "url_text s = rstrip_char (CHR ''/'') (strip s)"

definition public_llm_proxy_url :: "env \<Rightarrow> string" where
  "public_llm_proxy_url e =
     (let url = url_text (str_or (e ''PUBLIC_LLM_PROXY_URL'') []); base = url_text (str_or (e ''PUBLIC_BASE_URL'') [])
      in if url \<noteq> [] then url else if base \<noteq> [] then base @ ''/llm/v1'' else [])"

text \<open>The loop over the configured backends; a malformed entry ends it, and what was added before stays.\<close>

fun add_backends :: "env \<Rightarrow> (string \<times> json) list \<Rightarrow> backend dict \<Rightarrow> bool \<times> backend dict" where
  "add_backends e [] bs = (True, bs)"
| "add_backends e ((name, entry) # es) bs = (case entry of
       JObj d \<Rightarrow>
         (let url = url_text (jstr d ''base_url''); te = strip (jstr d ''token_env'')
          in if url = [] then add_backends e es bs
             else add_backends e es (dset name \<lparr>be_name = name, be_base_url = url,
                    be_api_token = (if te \<noteq> [] then getenv e te [] else [])\<rparr> bs))
     | _ \<Rightarrow> (False, bs))"

definition items_or_empty :: "json \<Rightarrow> (string \<times> json) list option" where
  "items_or_empty j = (if truthy j then (case j of JObj d \<Rightarrow> Some d | _ \<Rightarrow> None) else Some [])"

definition registry_from_env :: "env \<Rightarrow> registry" where
  "registry_from_env e =
     (let url = url_text (cfg_or e ''LLM_BASE_URL'' ''LLM_BACKEND_URL'');
          token = strip (cfg_or e ''LLM_API_TOKEN'' ''LLM_BACKEND_API_KEY'');
          bs = (if url \<noteq> [] then [(''default'', \<lparr>be_name = ''default'', be_base_url = url, be_api_token = token\<rparr>)] else []);
          raw = strip (str_or (e ''LLM_BACKENDS'') [])
      in case (if raw = [] then None else loads raw) of
           Some (JObj spec) \<Rightarrow>
             (case items_or_empty (jget spec ''backends'') of
                None \<Rightarrow> \<lparr>rg_backends = bs, rg_model_map = []\<rparr>
              | Some es \<Rightarrow>
                  (case add_backends e es bs of
                     (False, bs') \<Rightarrow> \<lparr>rg_backends = bs', rg_model_map = []\<rparr>
                   | (True, bs') \<Rightarrow>
                       (case items_or_empty (jget spec ''model_map'') of
                          None \<Rightarrow> \<lparr>rg_backends = bs', rg_model_map = []\<rparr>
                        | Some mm \<Rightarrow> \<lparr>rg_backends = bs', rg_model_map = map (\<lambda>(k, v). (k, py_str v)) mm\<rparr>)))
         | _ \<Rightarrow> \<lparr>rg_backends = bs, rg_model_map = []\<rparr>)"

fun route_model :: "string \<Rightarrow> (string \<times> string) list \<Rightarrow> backend dict \<Rightarrow> backend option" where
  "route_model model [] bs = dget bs ''default''"
| "route_model model ((pat, name) # mm) bs =
     (if fnmatch pat model then (case dget bs name of Some b \<Rightarrow> Some b | None \<Rightarrow> route_model model mm bs)
      else route_model model mm bs)"

definition registry_resolve :: "registry \<Rightarrow> string \<Rightarrow> backend option" where
  "registry_resolve r model = route_model (strip model) (rg_model_map r) (rg_backends r)"

definition is_self_proxy :: "env \<Rightarrow> string \<Rightarrow> bool" where
  "is_self_proxy e base =
     (let u = public_llm_proxy_url e
      in u \<noteq> [] \<and> startswith (rstrip_char (CHR ''/'') base) (rstrip_char (CHR ''/'') u))"

section \<open>Forwarding\<close>

definition STRIP_INBOUND_HEADERS :: "string list" where
  "STRIP_INBOUND_HEADERS = [''authorization'', ''cookie'', ''x-relay-client'', ''x-relay-key'', ''x-client-id'', ''x-client-key'',
     ''x-relay-proxy-token'', ''accept-encoding'', ''content-length'', ''content-type'', ''x-request-id'']"

definition RELAY_HOP_HEADERS :: "string list" where
  "RELAY_HOP_HEADERS = [''host'', ''transfer-encoding'', ''connection'', ''keep-alive'', ''proxy-authenticate'',
     ''proxy-authorization'', ''te'', ''trailers'', ''upgrade'']"

definition build_outbound_headers :: "headers \<Rightarrow> string \<Rightarrow> backend \<Rightarrow> string list \<Rightarrow> headers" where
  "build_outbound_headers hs trace_id be hop =
     (let kept = filter (\<lambda>(k, v). lower k \<notin> set STRIP_INBOUND_HEADERS \<and> lower k \<notin> lower ` set hop) hs;
          d = fold (\<lambda>(k, v). dset k v) kept [];
          d1 = (if be_api_token be \<noteq> [] then dset ''Authorization'' (''Bearer '' @ be_api_token be) d else d)
      in dset ''X-Request-Id'' trace_id (dset ''Accept-Encoding'' ''identity'' d1))"

record outbound =
  ob_method :: string
  ob_url :: string
  ob_headers :: headers
  ob_payload :: json

text \<open>What the HTTP client reports: a timeout, another transport error, or a response with its chunks;
  \<open>up_broken\<close> says that a streamed body ended in a transport error after them.\<close>

record upstream_resp =
  up_status :: int
  up_content_type :: "string option"
  up_chunks :: "bytes list"
  up_broken :: bool

datatype upstream = UpTimeout | UpError | UpResp upstream_resp

datatype llm_response = JsonResp response | RawResp int string bytes | StreamResp int string headers "bytes list"

fun status_of :: "llm_response \<Rightarrow> int" where
  "status_of (JsonResp r) = r_status r"
| "status_of (RawResp st _ _) = st"
| "status_of (StreamResp st _ _ _) = st"

text \<open>\<open>_make_finalize\<close>: the flag, the gauge of active requests and the entries handed to the metrics, the
  traffic counters and the audit log, without the duration.\<close>

record log_entry =
  le_route :: string
  le_model :: string
  le_backend :: string
  le_status :: int
  le_error :: "string option"
  le_usage :: "json option"

record fin =
  fn_done :: bool
  fn_active :: int
  fn_log :: "log_entry list"

definition make_finalize :: "int \<Rightarrow> fin" where
  "make_finalize gauge = \<lparr>fn_done = False, fn_active = gauge + 1, fn_log = []\<rparr>"

definition finalize :: "llm_ctx \<Rightarrow> int \<Rightarrow> string option \<Rightarrow> fin \<Rightarrow> fin" where
  "finalize ctx st err f =
     (if fn_done f then f
      else \<lparr>fn_done = True, fn_active = fn_active f - 1,
            fn_log = fn_log f @ [\<lparr>le_route = lc_route ctx, le_model = lc_model ctx, le_backend = lc_backend_name ctx,
              le_status = st, le_error = err, le_usage = lc_usage ctx\<rparr>]\<rparr>)"

text \<open>The usage figures of a backend answer, noted on the context when they are an object.\<close>

definition capture_usage :: "json \<Rightarrow> llm_ctx \<Rightarrow> llm_ctx" where
  "capture_usage body ctx = (case body of
       JObj d \<Rightarrow> (case jget d ''usage'' of JObj u \<Rightarrow> ctx\<lparr>lc_usage := Some (JObj u)\<rparr> | _ \<Rightarrow> ctx)
     | _ \<Rightarrow> ctx)"

definition transport_error :: "upstream \<Rightarrow> int \<times> string \<times> string" where
  "transport_error u = (case u of
       UpTimeout \<Rightarrow> (504, ''LLM backend timed out.'', ''backend_timeout'')
     | _ \<Rightarrow> (502, ''LLM backend unreachable.'', ''backend_unreachable''))"

definition transport_failed :: "llm_ctx \<Rightarrow> upstream \<Rightarrow> fin \<Rightarrow> llm_response \<times> fin" where
  "transport_failed ctx u f = (case transport_error u of (st, msg, code) \<Rightarrow>
     (JsonResp (openai_error st msg ''api_error'' (Some code) None), finalize ctx st (Some code) f))"

definition passthrough_response :: "upstream_resp \<Rightarrow> llm_response" where
  "passthrough_response r =
     RawResp (up_status r) (case up_content_type r of None \<Rightarrow> ''application/json'' | Some t \<Rightarrow> t) (concat (up_chunks r))"

definition forward_models :: "(outbound \<Rightarrow> upstream) \<Rightarrow> llm_ctx \<Rightarrow> backend \<Rightarrow> headers \<Rightarrow> fin \<Rightarrow> llm_response \<times> fin" where
  "forward_models send ctx be hs f =
     (case send \<lparr>ob_method = ''GET'', ob_url = be_base_url be @ ''/models'', ob_headers = hs, ob_payload = JNull\<rparr> of
        UpResp r \<Rightarrow>
          (passthrough_response r, finalize ctx (up_status r) (if up_status r < 400 then None else Some ''backend_error'') f)
      | u \<Rightarrow> transport_failed ctx u f)"

definition forward_embeddings ::
  "(outbound \<Rightarrow> upstream) \<Rightarrow> headers \<Rightarrow> llm_ctx \<Rightarrow> backend \<Rightarrow> string list \<Rightarrow> fin \<Rightarrow> llm_response \<times> fin" where
  "forward_embeddings send hs ctx be hop f =
     (case send \<lparr>ob_method = ''POST'', ob_url = be_base_url be @ ''/embeddings'',
                 ob_headers = build_outbound_headers hs (lc_trace_id ctx) be hop, ob_payload = lc_payload ctx\<rparr> of
        UpResp r \<Rightarrow>
          (passthrough_response r,
           if up_status r \<ge> 400 then finalize ctx (up_status r) (Some ''backend_error'') f
           else finalize (case loads_bytes (concat (up_chunks r)) of None \<Rightarrow> ctx | Some body \<Rightarrow> capture_usage body ctx)
                  (up_status r) None f)
      | u \<Rightarrow> transport_failed ctx u f)"

definition invalid_backend_json :: response where
  "invalid_backend_json = openai_error 502 ''LLM backend returned invalid JSON.'' ''api_error'' (Some ''backend_invalid_json'') None"

text \<open>The error branch is an exception raised after \<open>finalize\<close>: the body cannot be rendered.\<close>

definition forward_chat_plain ::
  "(outbound \<Rightarrow> upstream) \<Rightarrow> (json \<Rightarrow> bool) \<Rightarrow> outbound \<Rightarrow> 's interceptor list \<Rightarrow> llm_ctx \<Rightarrow> fin
     \<Rightarrow> llm_response result \<times> fin" where
  "forward_chat_plain send renderable req is ctx f = (case send req of
       UpResp r \<Rightarrow>
         if up_status r \<ge> 400 then (Inr (passthrough_response r), finalize ctx (up_status r) (Some ''backend_error'') f)
         else if \<not> contains_sub ''application/json'' (case up_content_type r of None \<Rightarrow> [] | Some t \<Rightarrow> t)
         then (Inr (passthrough_response r), finalize ctx (up_status r) None f)
         else (case loads_bytes (concat (up_chunks r)) of
             None \<Rightarrow> (Inr (JsonResp invalid_backend_json), finalize ctx 502 (Some ''backend_invalid_json'') f)
           | Some body \<Rightarrow>
               (case run_after is ctx body of
                  (Inl (LlmProxyError st msg et code ra), ctx') \<Rightarrow>
                    (Inr (JsonResp (openai_error st msg et code ra)), finalize ctx' st code f)
                | (Inl e, _) \<Rightarrow> (Inl e, f)
                | (Inr body', ctx') \<Rightarrow>
                    (if renderable body' then Inr (JsonResp \<lparr>r_status = up_status r, r_body = body', r_headers = []\<rparr>)
                     else Inl (ValueError ''Out of range float values are not JSON compliant''),
                     finalize (capture_usage body' ctx') (up_status r) None f)))
     | u \<Rightarrow> (case transport_failed ctx u f of (x, f') \<Rightarrow> (Inr x, f')))"

text \<open>A streamed answer, read to its end: a client that disconnects in the middle, or before the first chunk, is not modelled.\<close>

definition forward_chat_stream ::
  "(outbound \<Rightarrow> upstream) \<Rightarrow> outbound \<Rightarrow> 's interceptor list \<Rightarrow> llm_ctx \<Rightarrow> fin \<Rightarrow> llm_response result \<times> fin" where
  "forward_chat_stream send req is ctx f = (case send req of
       UpResp r \<Rightarrow>
         if up_status r \<ge> 400 then
           (if up_broken r then (Inl (OSError ''read error''), f)
            else (Inr (passthrough_response r), finalize ctx (up_status r) (Some ''backend_error'') f))
         else (Inr (StreamResp (up_status r) (case up_content_type r of None \<Rightarrow> ''text/event-stream'' | Some t \<Rightarrow> t)
                      [(''Cache-Control'', ''no-store''), (''X-Accel-Buffering'', ''no''), (''X-Request-Id'', lc_trace_id ctx)]
                      (wrap_stream is ctx (up_chunks r))),
               finalize ctx (up_status r) (if up_broken r then Some ''backend_stream_interrupted'' else None) f)
     | u \<Rightarrow> (case transport_failed ctx u f of (x, f') \<Rightarrow> (Inr x, f')))"

definition forward_chat_completions ::
  "(outbound \<Rightarrow> upstream) \<Rightarrow> (json \<Rightarrow> bool) \<Rightarrow> headers \<Rightarrow> llm_ctx \<Rightarrow> backend \<Rightarrow> 's interceptor list \<Rightarrow> string list \<Rightarrow> fin
     \<Rightarrow> llm_response result \<times> fin" where
  "forward_chat_completions send renderable hs ctx be is hop f =
     (let req = \<lparr>ob_method = ''POST'', ob_url = be_base_url be @ ''/chat/completions'',
                 ob_headers = build_outbound_headers hs (lc_trace_id ctx) be hop, ob_payload = lc_payload ctx\<rparr>
      in if lc_stream ctx then forward_chat_stream send req is ctx f
         else forward_chat_plain send renderable req is ctx f)"

section \<open>Routes\<close>

record 's llm_io =
  lo_env :: env
  lo_cfg :: settings
  lo_use_db :: bool
  lo_now :: timestamp
  lo_clock :: timestamp
  lo_relays :: relay_state
  lo_incr :: "timestamp \<Rightarrow> timestamp \<Rightarrow> string \<Rightarrow> int \<Rightarrow> int \<Rightarrow> 's \<Rightarrow> ((bool \<times> int \<times> int) \<times> 's) option"
  lo_send :: "outbound \<Rightarrow> upstream"
  lo_renderable :: "json \<Rightarrow> bool"

definition initial_ctx :: "string \<Rightarrow> string \<Rightarrow> llm_ctx" where
  "initial_ctx trace_id route =
     \<lparr>lc_identity = \<lparr>li_client_uuid = [], li_email = [], li_auth_method = ''none'', li_expires_at = None\<rparr>,
      lc_trace_id = trace_id, lc_route = route, lc_model = [], lc_stream = False, lc_payload = JNull, lc_backend_name = [],
      lc_verdicts = [], lc_quota = None, lc_usage = None\<rparr>"

definition internal_error :: "llm_ctx \<Rightarrow> fin \<Rightarrow> llm_response \<times> fin" where
  "internal_error ctx f = (JsonResp (openai_error 500 ''Internal proxy error.'' ''api_error'' (Some ''internal_error'') None),
     finalize ctx 500 (Some ''internal_error'') f)"

definition resolve_backend :: "env \<Rightarrow> llm_ctx \<Rightarrow> fin \<Rightarrow> (llm_response \<times> fin) + backend \<times> llm_ctx" where
  "resolve_backend e ctx f = (case registry_resolve (registry_from_env e) (lc_model ctx) of
       None \<Rightarrow>
         if lc_model ctx \<noteq> [] then
           Inl (JsonResp (openai_error 404 (''Model '' @ [CHR 0x27] @ lc_model ctx @ [CHR 0x27] @ '' has no configured backend.'')
                  ''invalid_request_error'' (Some ''model_not_found'') None), finalize ctx 404 (Some ''model_not_found'') f)
         else Inl (JsonResp (openai_error 503 ''No LLM backend configured.'' ''api_error'' (Some ''no_backend'') None),
                   finalize ctx 503 (Some ''no_backend'') f)
     | Some be \<Rightarrow>
         if is_self_proxy e (be_base_url be) then
           Inl (JsonResp (openai_error 508 ''LLM backend points back to this proxy.'' ''api_error'' (Some ''backend_loop'') None),
                finalize ctx 508 (Some ''backend_loop'') f)
         else Inr (be, ctx\<lparr>lc_backend_name := be_name be\<rparr>))"

definition authenticated ::
  "'s llm_io \<Rightarrow> headers \<Rightarrow> llm_ctx \<Rightarrow> fin \<Rightarrow> (llm_response \<times> fin) + llm_ctx" where
  "authenticated io hs ctx f =
     (case resolve_llm_identity (lo_cfg io) (lo_env io) (lo_use_db io) (lo_now io) hs (lo_relays io) of
        Inl (LlmProxyError st msg et code ra) \<Rightarrow>
          Inl (JsonResp (openai_error st msg et code ra), finalize ctx st (Some ''auth_failed'') f)
      | Inl _ \<Rightarrow> Inl (internal_error ctx f)
      | Inr ident \<Rightarrow> Inr (ctx\<lparr>lc_identity := ident\<rparr>))"

definition llm_models :: "'s llm_io \<Rightarrow> string \<Rightarrow> headers \<Rightarrow> int \<Rightarrow> llm_response \<times> fin" where
  "llm_models io trace_id hs gauge =
     (let f = make_finalize gauge
      in case authenticated io hs (initial_ctx trace_id ''models'') f of
           Inl out \<Rightarrow> out
         | Inr ctx \<Rightarrow>
             (case resolve_backend (lo_env io) ctx f of
                Inl out \<Rightarrow> out
              | Inr (be, ctx') \<Rightarrow> forward_models (lo_send io) ctx' be (build_outbound_headers hs trace_id be RELAY_HOP_HEADERS) f))"

text \<open>The body of a POST: the JSON object, or the refusal.\<close>

definition read_payload :: "settings \<Rightarrow> llm_ctx \<Rightarrow> bytes \<Rightarrow> fin \<Rightarrow> (llm_response \<times> fin) + json dict" where
  "read_payload cfg ctx raw f =
     (if int (length raw) > MAX_BODY_BYTES cfg then
        Inl (JsonResp (openai_error 413 ''Request body too large.'' ''invalid_request_error'' (Some ''body_too_large'') None),
             finalize ctx 413 (Some ''body_too_large'') f)
      else case loads_bytes (if raw = [] then ''{}'' else raw) of
        Some (JObj d) \<Rightarrow> Inr d
      | _ \<Rightarrow> Inl (JsonResp (openai_error 400 ''Request body must be a JSON object.'' ''invalid_request_error'' (Some ''invalid_json'') None),
                 finalize ctx 400 (Some ''invalid_json'') f))"

definition chosen_model :: "env \<Rightarrow> string \<Rightarrow> json dict \<Rightarrow> string" where
  "chosen_model e var d = (if truthy (jget d ''model'') then py_str (jget d ''model'') else getenv e var [])"

definition post_ctx :: "env \<Rightarrow> string \<Rightarrow> json dict \<Rightarrow> llm_ctx \<Rightarrow> llm_ctx" where
  "post_ctx e var d ctx =
     (let m = chosen_model e var d
      in ctx\<lparr>lc_model := m,
            lc_payload := JObj (if m \<noteq> [] \<and> \<not> truthy (jget d ''model'') then dset ''model'' (JStr m) d else d)\<rparr>)"

definition llm_chat_completions ::
  "'s llm_io \<Rightarrow> string \<Rightarrow> headers \<Rightarrow> bytes \<Rightarrow> int \<Rightarrow> 's \<Rightarrow> (llm_response \<times> fin) \<times> 's" where
  "llm_chat_completions io trace_id hs raw gauge s =
     (let f = make_finalize gauge; e = lo_env io
      in case authenticated io hs (initial_ctx trace_id ''chat/completions'') f of
           Inl out \<Rightarrow> (out, s)
         | Inr ctx \<Rightarrow>
             (case read_payload (lo_cfg io) ctx raw f of
                Inl out \<Rightarrow> (out, s)
              | Inr d \<Rightarrow>
                  let is = build_pipeline (lo_incr io) e (lo_now io) (lo_clock io)
                  in case run_before is ((post_ctx e ''DEFAULT_MODEL_NAME'' d ctx)\<lparr>lc_stream := truthy (jget d ''stream'')\<rparr>) s of
                       (Some r, ctx1, s') \<Rightarrow> ((JsonResp r, finalize ctx1 (r_status r) (Some ''denied'') f), s')
                     | (None, ctx1, s') \<Rightarrow>
                         (case resolve_backend e ctx1 f of
                            Inl out \<Rightarrow> (out, s')
                          | Inr (be, ctx2) \<Rightarrow>
                              (case forward_chat_completions (lo_send io) (lo_renderable io) hs ctx2 be is RELAY_HOP_HEADERS f of
                                 (Inl _, f') \<Rightarrow> (internal_error ctx2 f', s')
                               | (Inr r, f') \<Rightarrow> ((r, f'), s')))))"

definition llm_embeddings ::
  "'s llm_io \<Rightarrow> string \<Rightarrow> headers \<Rightarrow> bytes \<Rightarrow> int \<Rightarrow> 's \<Rightarrow> (llm_response \<times> fin) \<times> 's" where
  "llm_embeddings io trace_id hs raw gauge s =
     (let f = make_finalize gauge; e = lo_env io
      in case authenticated io hs (initial_ctx trace_id ''embeddings'') f of
           Inl out \<Rightarrow> (out, s)
         | Inr ctx \<Rightarrow>
             (case read_payload (lo_cfg io) ctx raw f of
                Inl out \<Rightarrow> (out, s)
              | Inr d \<Rightarrow>
                  (case run_before (build_pipeline (lo_incr io) e (lo_now io) (lo_clock io)) (post_ctx e ''EMBD_MODEL_NAME'' d ctx) s of
                     (Some r, ctx1, s') \<Rightarrow> ((JsonResp r, finalize ctx1 (r_status r) (Some ''denied'') f), s')
                   | (None, ctx1, s') \<Rightarrow>
                       (case resolve_backend e ctx1 f of
                          Inl out \<Rightarrow> (out, s')
                        | Inr (be, ctx2) \<Rightarrow> (forward_embeddings (lo_send io) hs ctx2 be RELAY_HOP_HEADERS f, s')))))"

section \<open>Lemmas\<close>

lemma finalize_fresh [simp]:
  "fn_done (finalize ctx st err f)"
  "\<not> fn_done f \<Longrightarrow> fn_log (finalize ctx st err f) = fn_log f @
     [\<lparr>le_route = lc_route ctx, le_model = lc_model ctx, le_backend = lc_backend_name ctx, le_status = st, le_error = err, le_usage = lc_usage ctx\<rparr>]"
  "\<not> fn_done f \<Longrightarrow> fn_active (finalize ctx st err f) = fn_active f - 1" "fn_done f \<Longrightarrow> finalize ctx st err f = f"
  by (simp_all add: finalize_def)

lemma make_finalize_simps [simp]:
  "\<not> fn_done (make_finalize g)" "fn_active (make_finalize g) = g + 1" "fn_log (make_finalize g) = []"
  by (simp_all add: make_finalize_def)

lemma openai_error_status [simp]: "r_status (openai_error st msg et code ra) = st"
  by (simp add: openai_error_def)

text \<open>A request is recorded once, with the status the client gets.\<close>

definition recorded :: "int \<Rightarrow> llm_response \<times> fin \<Rightarrow> bool" where
  "recorded g out = (case out of (r, f) \<Rightarrow> fn_done f \<and> fn_active f = g \<and> (\<exists>le. fn_log f = [le] \<and> le_status le = status_of r))"

definition recorded_ok :: "int \<Rightarrow> llm_response \<times> fin \<Rightarrow> bool" where
  "recorded_ok g out = (case out of (r, f) \<Rightarrow> fn_done f \<and> fn_active f = g \<and> status_of r = 500 \<and>
     (\<exists>le. fn_log f = [le] \<and> le_status le < 400 \<and> le_error le = None))"

lemma recorded_finalize [simp]: "recorded g (r, finalize ctx st err (make_finalize g)) = (st = status_of r)"
  by (auto simp: recorded_def)

lemma recorded_internal [simp]: "recorded g (internal_error ctx (make_finalize g))"
  by (simp add: internal_error_def)

lemma recorded_authenticated: "authenticated io hs ctx (make_finalize g) = Inl out \<Longrightarrow> recorded g out"
  by (auto simp: authenticated_def split: sum.splits py_error.splits)

lemma recorded_backend: "resolve_backend e ctx (make_finalize g) = Inl out \<Longrightarrow> recorded g out"
  by (auto simp: resolve_backend_def split: option.splits if_splits)

lemma recorded_payload: "read_payload cfg ctx raw (make_finalize g) = Inl out \<Longrightarrow> recorded g out"
  by (auto simp: read_payload_def split: option.splits json.splits if_splits)

lemma recorded_transport [simp]: "recorded g (transport_failed ctx u (make_finalize g))"
  by (auto simp: transport_failed_def transport_error_def split: upstream.splits)

lemma recorded_embeddings: "recorded g (forward_embeddings send hs ctx be hop (make_finalize g))"
  by (auto simp: forward_embeddings_def passthrough_response_def split: upstream.splits)

lemma recorded_models: "recorded g (forward_models send ctx be hs (make_finalize g))"
  by (auto simp: forward_models_def passthrough_response_def split: upstream.splits)

lemma recorded_transport_pair: "transport_failed ctx u (make_finalize g) = (x, f) \<Longrightarrow> recorded g (x, f)"
  using recorded_transport [of g ctx u] by simp

lemma recorded_chat_stream:
  assumes "forward_chat_stream send req is ctx (make_finalize g) = (r, f)"
  shows "case r of Inr x \<Rightarrow> recorded g (x, f) | Inl _ \<Rightarrow> f = make_finalize g"
proof (cases "send req")
  case (UpResp x)
  then show ?thesis using assms by (auto simp: forward_chat_stream_def passthrough_response_def split: if_splits)
qed (use assms in \<open>auto simp: forward_chat_stream_def recorded_transport_pair split: prod.splits\<close>)

lemma recorded_chat_plain:
  assumes "forward_chat_plain send rend req is ctx (make_finalize g) = (r, f)"
  shows "case r of Inr x \<Rightarrow> recorded g (x, f)
    | Inl _ \<Rightarrow> f = make_finalize g \<or> (\<exists>st < 400. \<exists>ctx. f = finalize ctx st None (make_finalize g))"
proof (cases "send req")
  case (UpResp x)
  show ?thesis
  proof (cases "loads_bytes (concat (up_chunks x))")
    case None
    then show ?thesis using assms UpResp
      by (auto simp: forward_chat_plain_def passthrough_response_def invalid_backend_json_def split: if_splits)
  next
    case (Some body)
    obtain ra ctx' where ra: "run_after is ctx body = (ra, ctx')" by (cases "run_after is ctx body")
    show ?thesis using assms UpResp Some ra
      by (auto simp: forward_chat_plain_def passthrough_response_def not_le split: if_splits sum.splits py_error.splits)
  qed
qed (use assms in \<open>auto simp: forward_chat_plain_def recorded_transport_pair split: prod.splits\<close>)

lemma recorded_chat:
  assumes "forward_chat_completions send rend hs ctx be is hop (make_finalize g) = (r, f)"
  shows "case r of Inr x \<Rightarrow> recorded g (x, f)
    | Inl _ \<Rightarrow> f = make_finalize g \<or> (\<exists>st < 400. \<exists>ctx. f = finalize ctx st None (make_finalize g))"
proof (cases "lc_stream ctx")
  case True
  then obtain req where "forward_chat_stream send req is ctx (make_finalize g) = (r, f)"
    using assms by (auto simp: forward_chat_completions_def Let_def)
  from recorded_chat_stream [OF this] show ?thesis by (cases r) simp_all
next
  case False
  then obtain req where "forward_chat_plain send rend req is ctx (make_finalize g) = (r, f)"
    using assms by (auto simp: forward_chat_completions_def Let_def)
  then show ?thesis by (rule recorded_chat_plain)
qed

lemma set_fold_dset: "set (fold (\<lambda>(k, v). dset k v) kept d) \<subseteq> set kept \<union> set d"
proof (induction kept arbitrary: d)
  case (Cons x xs)
  obtain k v where "x = (k, v)" by (cases x)
  then show ?case using Cons [of "dset k v d"] set_dset [of k v d] by auto
qed simp

text \<open>What may leave the server, independently of the lists of the code: a request to a configured backend that is
  not the proxy itself; its only credential is the server's token for that backend, none of the client's cookies, relay
  credentials and proxy credentials is passed on, nor its \<open>Host\<close>, and the trace identifier is the server's.\<close>

definition clean_header :: "string \<Rightarrow> backend \<Rightarrow> string \<times> string \<Rightarrow> bool" where
  "clean_header trace_id be = (\<lambda>(k, v). let n = lower k in
     (n = ''authorization'' \<longrightarrow> be_api_token be \<noteq> [] \<and> v = ''Bearer '' @ be_api_token be) \<and>
     (n = ''x-request-id'' \<longrightarrow> v = trace_id) \<and> (n = ''accept-encoding'' \<longrightarrow> v = ''identity'') \<and>
     n \<notin> {''cookie'', ''x-relay-client'', ''x-relay-key'', ''x-client-id'', ''x-client-key'', ''x-relay-proxy-token'',
          ''proxy-authorization'', ''host''})"

definition clean_request :: "env \<Rightarrow> string \<Rightarrow> outbound \<Rightarrow> bool" where
  "clean_request e trace_id req = (\<exists>name be. (name, be) \<in> set (rg_backends (registry_from_env e)) \<and>
     startswith (ob_url req) (be_base_url be) \<and> \<not> is_self_proxy e (be_base_url be) \<and>
     list_all (clean_header trace_id be) (ob_headers req))"

lemma outbound_headers_clean:
  assumes "(k, v) \<in> set (build_outbound_headers hs tid be RELAY_HOP_HEADERS)"
    "lower k \<in> set STRIP_INBOUND_HEADERS \<union> set RELAY_HOP_HEADERS"
  shows "(k, v) \<in> {(''Accept-Encoding'', ''identity''), (''X-Request-Id'', tid)} \<or>
    (k, v) = (''Authorization'', ''Bearer '' @ be_api_token be) \<and> be_api_token be \<noteq> []"
proof -
  define kept where "kept = filter (\<lambda>(k, v). lower k \<notin> set STRIP_INBOUND_HEADERS \<and> lower k \<notin> lower ` set RELAY_HOP_HEADERS) hs"
  define d where "d = fold (\<lambda>(k, v). dset k v) kept []"
  have low: "lower h = h" if "h \<in> set RELAY_HOP_HEADERS" for h
    using that by (auto simp: RELAY_HOP_HEADERS_def lower_def lower_char_def)
  have "(k, v) \<notin> set d"
  proof
    assume "(k, v) \<in> set d"
    then have "(k, v) \<in> set kept" using set_fold_dset [of kept "[]"] by (auto simp: d_def)
    then have "lower k \<notin> set STRIP_INBOUND_HEADERS" "lower k \<notin> lower ` set RELAY_HOP_HEADERS" by (auto simp: kept_def)
    then show False using assms(2) low by force
  qed
  then show ?thesis
    using assms(1) unfolding build_outbound_headers_def Let_def kept_def [symmetric] d_def [symmetric]
    by (auto dest!: dset_memD split: if_splits)
qed

lemma outbound_header_clean:
  assumes "kv \<in> set (build_outbound_headers hs tid be RELAY_HOP_HEADERS)"
  shows "clean_header tid be kv"
proof -
  obtain k v where kv: "kv = (k, v)" by (cases kv)
  have low: "lower ''Authorization'' = ''authorization''" "lower ''Accept-Encoding'' = ''accept-encoding''"
    "lower ''X-Request-Id'' = ''x-request-id''" by code_simp+
  show ?thesis
  proof (cases "lower k \<in> set STRIP_INBOUND_HEADERS \<union> set RELAY_HOP_HEADERS")
    case True
    with outbound_headers_clean [of k v hs tid be] assms kv show ?thesis
      by (auto simp: clean_header_def low)
  next
    case False
    then show ?thesis by (simp add: kv clean_header_def Let_def STRIP_INBOUND_HEADERS_def RELAY_HOP_HEADERS_def)
  qed
qed

lemma route_model_mem: "route_model m mm bs = Some be \<Longrightarrow> \<exists>name. (name, be) \<in> set bs"
  by (induction m mm bs rule: route_model.induct) (auto simp: dget_def dest: map_of_SomeD split: if_splits option.splits)

lemma resolve_backend_Inr:
  "resolve_backend e ctx f = Inr (be, ctx2) \<Longrightarrow> lc_trace_id ctx2 = lc_trace_id ctx \<and> (\<exists>name. (name, be) \<in> set (rg_backends (registry_from_env e))) \<and> \<not> is_self_proxy e (be_base_url be)"
  by (auto simp: resolve_backend_def registry_resolve_def dest: route_model_mem split: option.splits if_splits)

lemma clean_outbound:
  assumes "resolve_backend e ctx f = Inr (be, ctx2)"
  shows "clean_request e tid \<lparr>ob_method = m, ob_url = be_base_url be @ path,
     ob_headers = build_outbound_headers hs tid be RELAY_HOP_HEADERS, ob_payload = pl\<rparr>"
proof -
  obtain name where "(name, be) \<in> set (rg_backends (registry_from_env e))" "\<not> is_self_proxy e (be_base_url be)"
    using resolve_backend_Inr [OF assms] by blast
  then show ?thesis
    unfolding clean_request_def using outbound_header_clean [of _ hs tid be]
    by (intro exI [of _ name] exI [of _ be]) (auto simp: startswith_def list_all_iff)
qed

lemma check_request_trace: "lc_trace_id (snd (check_request gs pl ctx)) = lc_trace_id ctx"
  by (induction gs pl ctx rule: check_request.induct) (auto simp: add_verdict_def split: guardrail_result.split)

lemma run_before_trace:
  assumes "run_before (build_pipeline incr e now clock) ctx s = (r, ctx', s')"
  shows "lc_trace_id ctx' = lc_trace_id ctx"
proof -
  obtain r1 q s1 where t: "throttle_before incr e now clock (lc_identity ctx) s = (r1, q, s1)" by (metis prod.exhaust)
  let ?ctx1 = "case q of None \<Rightarrow> ctx | Some _ \<Rightarrow> ctx\<lparr>lc_quota := q\<rparr>"
  obtain r2 ctx2 where c: "check_request (build_guardrails e) (lc_payload ?ctx1) ?ctx1 = (r2, ctx2)" by (metis prod.exhaust)
  have "lc_trace_id ctx2 = lc_trace_id ctx"
    using check_request_trace [of "build_guardrails e" "lc_payload ?ctx1" ?ctx1] c by (auto split: option.splits)
  then show ?thesis using assms t c
    by (cases r1; cases r2)
       (auto simp: build_pipeline_def throttle_interceptor_def guardrail_interceptor_def base_interceptor_def add_verdict_def Let_def
        split: option.splits)
qed

lemma post_ctx_trace [simp]: "lc_trace_id (post_ctx e var d ctx) = lc_trace_id ctx"
  by (simp add: post_ctx_def Let_def)

lemma authenticated_send [simp]: "authenticated (io\<lparr>lo_send := sd\<rparr>) hs ctx f = authenticated io hs ctx f"
  by (simp add: authenticated_def)

lemma forward_chat_send:
  assumes "send' \<lparr>ob_method = ''POST'', ob_url = be_base_url be @ ''/chat/completions'',
      ob_headers = build_outbound_headers hs (lc_trace_id ctx) be hop, ob_payload = lc_payload ctx\<rparr> =
    send \<lparr>ob_method = ''POST'', ob_url = be_base_url be @ ''/chat/completions'',
      ob_headers = build_outbound_headers hs (lc_trace_id ctx) be hop, ob_payload = lc_payload ctx\<rparr>"
  shows "forward_chat_completions send' rend hs ctx be is hop f = forward_chat_completions send rend hs ctx be is hop f"
  using assms by (simp add: forward_chat_completions_def Let_def forward_chat_stream_def forward_chat_plain_def)

lemma authenticated_Inr:
  "authenticated io hs (initial_ctx tid rt) f = Inr ctx \<Longrightarrow> lc_trace_id ctx = tid \<and>
   (\<exists>ident. resolve_llm_identity (lo_cfg io) (lo_env io) (lo_use_db io) (lo_now io) hs (lo_relays io) = Inr ident)"
  by (auto simp: authenticated_def initial_ctx_def split: sum.splits py_error.splits)

text \<open>Every run of a route ends before the backend is contacted, with the outcome recorded, or in the forwarding
  step of an authenticated request to the resolved backend.\<close>

lemma io_send [simp]: "io\<lparr>lo_send := lo_send io\<rparr> = io"
  by simp

lemma models_cases:
  "(\<exists>out. recorded g out \<and> (\<forall>sd. llm_models (io\<lparr>lo_send := sd\<rparr>) tid hs g = out)) \<or>
   (\<exists>ctx ctx2 be. authenticated io hs (initial_ctx tid ''models'') (make_finalize g) = Inr ctx \<and>
      resolve_backend (lo_env io) ctx (make_finalize g) = Inr (be, ctx2) \<and>
      (\<forall>sd. llm_models (io\<lparr>lo_send := sd\<rparr>) tid hs g =
         forward_models sd ctx2 be (build_outbound_headers hs tid be RELAY_HOP_HEADERS) (make_finalize g)))"
proof (cases "authenticated io hs (initial_ctx tid ''models'') (make_finalize g)")
  case (Inl out)
  then show ?thesis using recorded_authenticated [OF Inl] by (cases out) (simp add: llm_models_def Let_def)
next
  case (Inr ctx)
  note auth = Inr
  show ?thesis
  proof (cases "resolve_backend (lo_env io) ctx (make_finalize g)")
    case (Inl out)
    then show ?thesis using recorded_backend [OF Inl] auth by (cases out) (simp add: llm_models_def Let_def)
  next
    case (Inr res)
    then show ?thesis using auth
      by (intro disjI2 exI [of _ ctx] exI [of _ "snd res"] exI [of _ "fst res"]) (simp add: llm_models_def Let_def split_beta)
  qed
qed

lemma chat_cases:
  fixes io :: "'s llm_io" and s :: 's
  defines "is \<equiv> build_pipeline (lo_incr io) (lo_env io) (lo_now io) (lo_clock io)"
  shows "(\<exists>out s'. recorded g out \<and> (\<forall>sd. llm_chat_completions (io\<lparr>lo_send := sd\<rparr>) tid hs raw g s = (out, s'))) \<or>
   (\<exists>ctx ctx0 ctx1 ctx2 be s'. authenticated io hs (initial_ctx tid ''chat/completions'') (make_finalize g) = Inr ctx \<and>
      run_before is ctx0 s = (None, ctx1, s') \<and> lc_trace_id ctx2 = tid \<and>
      resolve_backend (lo_env io) ctx1 (make_finalize g) = Inr (be, ctx2) \<and>
      (\<forall>sd. llm_chat_completions (io\<lparr>lo_send := sd\<rparr>) tid hs raw g s = (case forward_chat_completions sd (lo_renderable io) hs ctx2 be is RELAY_HOP_HEADERS (make_finalize g) of
            (Inl _, f') \<Rightarrow> internal_error ctx2 f' | (Inr r, f') \<Rightarrow> (r, f'), s')))"
proof (cases "authenticated io hs (initial_ctx tid ''chat/completions'') (make_finalize g)")
  case (Inl out)
  then show ?thesis using recorded_authenticated [OF Inl] by (cases out) (simp add: llm_chat_completions_def Let_def)
next
  case (Inr ctx)
  note auth = Inr and tid = authenticated_Inr [OF Inr]
  show ?thesis
  proof (cases "read_payload (lo_cfg io) ctx raw (make_finalize g)")
    case (Inl out)
    then show ?thesis using recorded_payload [OF Inl] auth by (cases out) (simp add: llm_chat_completions_def Let_def)
  next
    case (Inr d)
    note pay = Inr
    let ?ctx0 = "(post_ctx (lo_env io) ''DEFAULT_MODEL_NAME'' d ctx)\<lparr>lc_stream := truthy (jget d ''stream'')\<rparr>"
    obtain r ctx1 s' where run: "run_before is ?ctx0 s = (r, ctx1, s')" by (metis prod.exhaust)
    show ?thesis
    proof (cases r)
      case (Some x)
      then show ?thesis using auth pay run
        by (intro disjI1 exI [of _ "(JsonResp x, finalize ctx1 (r_status x) (Some ''denied'') (make_finalize g))"] exI [of _ s'])
           (simp add: llm_chat_completions_def Let_def is_def)
    next
      case None
      show ?thesis
      proof (cases "resolve_backend (lo_env io) ctx1 (make_finalize g)")
        case (Inl out)
        then show ?thesis using recorded_backend [OF Inl] auth pay run None
          by (intro disjI1 exI [of _ out] exI [of _ s']) (simp add: llm_chat_completions_def Let_def is_def)
      next
        case (Inr res)
        obtain be ctx2 where res: "res = (be, ctx2)" by (cases res)
        have "lc_trace_id ctx2 = tid"
          using resolve_backend_Inr [of "lo_env io" ctx1] Inr res run run_before_trace [of "lo_incr io"] tid by (simp add: is_def)
        then show ?thesis using auth pay run None Inr res
          by (intro disjI2 exI [of _ ctx] exI [of _ ?ctx0] exI [of _ ctx1] exI [of _ ctx2] exI [of _ be] exI [of _ s'])
             (simp add: llm_chat_completions_def Let_def is_def split: prod.split sum.split)
      qed
    qed
  qed
qed

lemma embeddings_cases:
  fixes io :: "'s llm_io" and s :: 's
  defines "is \<equiv> build_pipeline (lo_incr io) (lo_env io) (lo_now io) (lo_clock io)"
  shows "(\<exists>out s'. recorded g out \<and> (\<forall>sd. llm_embeddings (io\<lparr>lo_send := sd\<rparr>) tid hs raw g s = (out, s'))) \<or>
   (\<exists>ctx ctx0 ctx1 ctx2 be s'. authenticated io hs (initial_ctx tid ''embeddings'') (make_finalize g) = Inr ctx \<and>
      run_before is ctx0 s = (None, ctx1, s') \<and> lc_trace_id ctx2 = tid \<and>
      resolve_backend (lo_env io) ctx1 (make_finalize g) = Inr (be, ctx2) \<and>
      (\<forall>sd. llm_embeddings (io\<lparr>lo_send := sd\<rparr>) tid hs raw g s = (forward_embeddings sd hs ctx2 be RELAY_HOP_HEADERS (make_finalize g), s')))"
proof (cases "authenticated io hs (initial_ctx tid ''embeddings'') (make_finalize g)")
  case (Inl out)
  then show ?thesis using recorded_authenticated [OF Inl] by (cases out) (simp add: llm_embeddings_def Let_def)
next
  case (Inr ctx)
  note auth = Inr and tid = authenticated_Inr [OF Inr]
  show ?thesis
  proof (cases "read_payload (lo_cfg io) ctx raw (make_finalize g)")
    case (Inl out)
    then show ?thesis using recorded_payload [OF Inl] auth by (cases out) (simp add: llm_embeddings_def Let_def)
  next
    case (Inr d)
    note pay = Inr
    let ?ctx0 = "post_ctx (lo_env io) ''EMBD_MODEL_NAME'' d ctx"
    obtain r ctx1 s' where run: "run_before is ?ctx0 s = (r, ctx1, s')" by (metis prod.exhaust)
    show ?thesis
    proof (cases r)
      case (Some x)
      then show ?thesis using auth pay run
        by (intro disjI1 exI [of _ "(JsonResp x, finalize ctx1 (r_status x) (Some ''denied'') (make_finalize g))"] exI [of _ s'])
           (simp add: llm_embeddings_def Let_def is_def)
    next
      case None
      show ?thesis
      proof (cases "resolve_backend (lo_env io) ctx1 (make_finalize g)")
        case (Inl out)
        then show ?thesis using recorded_backend [OF Inl] auth pay run None
          by (intro disjI1 exI [of _ out] exI [of _ s']) (simp add: llm_embeddings_def Let_def is_def)
      next
        case (Inr res)
        obtain be ctx2 where res: "res = (be, ctx2)" by (cases res)
        have "lc_trace_id ctx2 = tid"
          using resolve_backend_Inr [of "lo_env io" ctx1] Inr res run run_before_trace [of "lo_incr io"] tid by (simp add: is_def)
        then show ?thesis using auth pay run None Inr res
          by (intro disjI2 exI [of _ ctx] exI [of _ ?ctx0] exI [of _ ctx1] exI [of _ ctx2] exI [of _ be] exI [of _ s'])
             (simp add: llm_embeddings_def Let_def is_def split: prod.split sum.split)
      qed
    qed
  qed
qed

lemma check_request_deny_all:
  "deny_all_guardrail \<in> set gs \<Longrightarrow> set gs \<subseteq> {noop_guardrail, deny_all_guardrail} \<Longrightarrow>
   \<exists>r ctx'. check_request gs pl ctx = (Some r, ctx') \<and> r_status r = 403"
proof (induction gs)
  case (Cons x gs)
  show ?case
  proof (cases "x = deny_all_guardrail")
    case True
    then show ?thesis by (simp add: deny_all_guardrail_def policy_violation_def llm_proxy_error_def)
  next
    case False
    then show ?thesis using Cons by (auto simp: noop_guardrail_def)
  qed
qed simp

lemma set_map_filter_Some: "set (List.map_filter f xs) = {y. \<exists>x \<in> set xs. f x = Some y}"
  by (induction xs) (auto simp: List.map_filter_simps split: option.splits)

lemma build_guardrails_mem:
  "set (build_guardrails e) \<subseteq> {noop_guardrail, deny_all_guardrail}"
  "''deny_all'' \<in> set (configured_names e) \<Longrightarrow> deny_all_guardrail \<in> set (build_guardrails e)"
proof -
  have "dget GUARDRAIL_REGISTRY n = (if n = ''noop'' then Some noop_guardrail else if n = ''deny_all'' then Some deny_all_guardrail else None)" for n
    by (simp add: GUARDRAIL_REGISTRY_def dget_def)
  then show "set (build_guardrails e) \<subseteq> {noop_guardrail, deny_all_guardrail}"
    "''deny_all'' \<in> set (configured_names e) \<Longrightarrow> deny_all_guardrail \<in> set (build_guardrails e)"
    unfolding build_guardrails_def by (auto simp: set_map_filter_Some split: if_splits)
qed

lemma run_before_deny_all:
  assumes "''deny_all'' \<in> set (configured_names e)"
  shows "\<exists>r ctx' s'. run_before (build_pipeline incr e now clock) ctx s = (Some r, ctx', s') \<and> r_status r \<in> {403, 429}"
proof -
  obtain r1 q s1 where t: "throttle_before incr e now clock (lc_identity ctx) s = (r1, q, s1)" by (metis prod.exhaust)
  let ?ctx1 = "case q of None \<Rightarrow> ctx | Some _ \<Rightarrow> ctx\<lparr>lc_quota := q\<rparr>"
  obtain r2 ctx2 where c: "check_request (build_guardrails e) (lc_payload ?ctx1) ?ctx1 = (Some r2, ctx2)" "r_status r2 = 403"
    using check_request_deny_all [OF build_guardrails_mem(2) [OF assms] build_guardrails_mem(1)] by blast
  have "r1 = Some r \<Longrightarrow> r_status r = 429" for r
    using t by (auto simp: throttle_before_def Let_def quota_denied_def split: if_splits option.splits)
  then show ?thesis using t c
    by (cases r1) (auto simp: build_pipeline_def throttle_interceptor_def guardrail_interceptor_def base_interceptor_def Let_def)
qed

section \<open>Properties\<close>

definition same_answers :: "'s llm_io \<Rightarrow> string \<Rightarrow> headers \<Rightarrow> (outbound \<Rightarrow> upstream) \<Rightarrow> bool" where
  "same_answers io tid hs sd = (\<forall>req ident. clean_request (lo_env io) tid req \<and>
      resolve_llm_identity (lo_cfg io) (lo_env io) (lo_use_db io) (lo_now io) hs (lo_relays io) = Inr ident \<longrightarrow> sd req = lo_send io req)"

lemma outbound_same:
  assumes "same_answers io tid hs sd"
    and "authenticated io hs (initial_ctx tid rt) f = Inr ctx" "resolve_backend (lo_env io) ctx1 f = Inr (be, ctx2)"
  shows "sd \<lparr>ob_method = m, ob_url = be_base_url be @ path, ob_headers = build_outbound_headers hs tid be RELAY_HOP_HEADERS, ob_payload = pl\<rparr> =
    lo_send io \<lparr>ob_method = m, ob_url = be_base_url be @ path, ob_headers = build_outbound_headers hs tid be RELAY_HOP_HEADERS, ob_payload = pl\<rparr>"
  using assms(1) authenticated_Inr [OF assms(2)] clean_outbound [OF assms(3)] unfolding same_answers_def by blast

lemma models_same:
  assumes "same_answers io tid hs sd"
  shows "llm_models (io\<lparr>lo_send := sd\<rparr>) tid hs g = llm_models io tid hs g"
  using models_cases [of g io tid hs]
proof (elim disjE exE conjE)
  fix ctx ctx2 be
  assume *: "authenticated io hs (initial_ctx tid ''models'') (make_finalize g) = Inr ctx"
      "resolve_backend (lo_env io) ctx (make_finalize g) = Inr (be, ctx2)"
    and all: "\<forall>sd. llm_models (io\<lparr>lo_send := sd\<rparr>) tid hs g =
       forward_models sd ctx2 be (build_outbound_headers hs tid be RELAY_HOP_HEADERS) (make_finalize g)"
  from outbound_same [OF assms *] show ?thesis
    using all [rule_format, of sd] all [rule_format, of "lo_send io"] by (simp add: forward_models_def)
qed (metis io_send)

lemma chat_same:
  assumes "same_answers io tid hs sd"
  shows "llm_chat_completions (io\<lparr>lo_send := sd\<rparr>) tid hs raw g s = llm_chat_completions io tid hs raw g s"
  using chat_cases [of g io tid hs raw s]
proof (elim disjE exE conjE)
  let ?is = "build_pipeline (lo_incr io) (lo_env io) (lo_now io) (lo_clock io)"
  fix ctx ctx0 ctx1 ctx2 be s'
  assume *: "authenticated io hs (initial_ctx tid ''chat/completions'') (make_finalize g) = Inr ctx"
      "resolve_backend (lo_env io) ctx1 (make_finalize g) = Inr (be, ctx2)"
    and "lc_trace_id ctx2 = tid"
    and all: "\<forall>sd. llm_chat_completions (io\<lparr>lo_send := sd\<rparr>) tid hs raw g s =
      (case forward_chat_completions sd (lo_renderable io) hs ctx2 be ?is RELAY_HOP_HEADERS (make_finalize g) of
          (Inl _, f') \<Rightarrow> internal_error ctx2 f' | (Inr r, f') \<Rightarrow> (r, f'), s')"
  then have "forward_chat_completions sd (lo_renderable io) hs ctx2 be ?is RELAY_HOP_HEADERS (make_finalize g) =
      forward_chat_completions (lo_send io) (lo_renderable io) hs ctx2 be ?is RELAY_HOP_HEADERS (make_finalize g)"
    by (intro forward_chat_send) (simp add: outbound_same [OF assms *])
  then show ?thesis using all [rule_format, of sd] all [rule_format, of "lo_send io"] by simp
qed (metis io_send)

lemma embeddings_same:
  assumes "same_answers io tid hs sd"
  shows "llm_embeddings (io\<lparr>lo_send := sd\<rparr>) tid hs raw g s = llm_embeddings io tid hs raw g s"
  using embeddings_cases [of g io tid hs raw s]
proof (elim disjE exE conjE)
  fix ctx ctx0 ctx1 ctx2 be s'
  assume *: "authenticated io hs (initial_ctx tid ''embeddings'') (make_finalize g) = Inr ctx"
      "resolve_backend (lo_env io) ctx1 (make_finalize g) = Inr (be, ctx2)"
    and "lc_trace_id ctx2 = tid"
    and all: "\<forall>sd. llm_embeddings (io\<lparr>lo_send := sd\<rparr>) tid hs raw g s =
      (forward_embeddings sd hs ctx2 be RELAY_HOP_HEADERS (make_finalize g), s')"
  then show ?thesis using outbound_same [OF assms *] all [rule_format, of sd] all [rule_format, of "lo_send io"]
    by (simp add: forward_embeddings_def)
qed (metis io_send)

text \<open>Property C21. The three routes contact a backend only with clean requests and only for an authenticated
  caller: two HTTP clients that give the same answers to clean requests (to a configured backend which is not the proxy
  itself, with no authorization but the server's token for it, and with no cookie, relay or proxy credential of the
  client) when the identity of the caller resolves, whatever they answer to all others, are indistinguishable through
  the routes.\<close>

theorem llm_backend_contact:
  fixes io :: "'s llm_io"
  assumes "\<forall>req ident. clean_request (lo_env io) tid req \<and>
      resolve_llm_identity (lo_cfg io) (lo_env io) (lo_use_db io) (lo_now io) hs (lo_relays io) = Inr ident \<longrightarrow>
      sd req = lo_send io req"
  shows "llm_models (io\<lparr>lo_send := sd\<rparr>) tid hs g = llm_models io tid hs g \<and>
    llm_chat_completions (io\<lparr>lo_send := sd\<rparr>) tid hs raw g s = llm_chat_completions io tid hs raw g s \<and>
    llm_embeddings (io\<lparr>lo_send := sd\<rparr>) tid hs raw g s = llm_embeddings io tid hs raw g s"
proof -
  have "same_answers io tid hs sd" unfolding same_answers_def by (rule assms)
  then show ?thesis by (simp add: models_same chat_same embeddings_same)
qed

text \<open>Property C22. Every request to the three routes is recorded exactly once and the gauge of active requests returns
  to its value: the recorded status is the one the client gets, except that a chat answer that cannot be rendered is
  recorded as the success of the backend while the client gets a 500.\<close>

theorem llm_finalize_once:
  "recorded g (llm_models io tid hs g) \<and> recorded g (fst (llm_embeddings io tid hs raw g s)) \<and>
   (recorded g (fst (llm_chat_completions io tid hs raw g s)) \<or> recorded_ok g (fst (llm_chat_completions io tid hs raw g s)))"
proof (intro conjI)
  show "recorded g (llm_models io tid hs g)"
    using models_cases [of g io tid hs] by (metis io_send recorded_models)
  show "recorded g (fst (llm_embeddings io tid hs raw g s))"
    using embeddings_cases [of g io tid hs raw s] by (metis fst_conv io_send recorded_embeddings)
  show "recorded g (fst (llm_chat_completions io tid hs raw g s)) \<or> recorded_ok g (fst (llm_chat_completions io tid hs raw g s))"
    using chat_cases [of g io tid hs raw s]
  proof (elim disjE exE conjE)
    fix out s' assume "recorded g out" "\<forall>sd. llm_chat_completions (io\<lparr>lo_send := sd\<rparr>) tid hs raw g s = (out, s')"
    then show ?thesis by (metis fst_conv io_send)
  next
    let ?is = "build_pipeline (lo_incr io) (lo_env io) (lo_now io) (lo_clock io)"
    fix ctx2 be s'
    assume all: "\<forall>sd. llm_chat_completions (io\<lparr>lo_send := sd\<rparr>) tid hs raw g s =
        (case forward_chat_completions sd (lo_renderable io) hs ctx2 be ?is RELAY_HOP_HEADERS (make_finalize g) of
            (Inl _, f') \<Rightarrow> internal_error ctx2 f' | (Inr r, f') \<Rightarrow> (r, f'), s')"
    obtain r f where fwd: "forward_chat_completions (lo_send io) (lo_renderable io) hs ctx2 be ?is RELAY_HOP_HEADERS (make_finalize g) = (r, f)"
      by fastforce
    show ?thesis using all [rule_format, of "lo_send io"] recorded_chat [OF fwd] fwd
      by (auto simp: internal_error_def recorded_ok_def split: sum.splits)
  qed
qed

text \<open>With the guardrail \<open>deny_all\<close> configured no prompt leaves the server: the chat and embedding
  routes give the same answer whatever the HTTP client does, with an error status.\<close>

theorem deny_all_blocks:
  fixes io :: "'s llm_io"
  assumes "''deny_all'' \<in> set (configured_names (lo_env io))"
  shows "llm_chat_completions (io\<lparr>lo_send := sd\<rparr>) tid hs raw g s = llm_chat_completions io tid hs raw g s \<and>
    llm_embeddings (io\<lparr>lo_send := sd\<rparr>) tid hs raw g s = llm_embeddings io tid hs raw g s"
proof -
  have blocked: "run_before (build_pipeline (lo_incr io) (lo_env io) (lo_now io) (lo_clock io)) ctx s \<noteq> (None, ctx', s')" for ctx ctx' s'
    using run_before_deny_all [OF assms, of "lo_incr io" "lo_now io" "lo_clock io" ctx s] by auto
  show ?thesis
    using chat_cases [of g io tid hs raw s] embeddings_cases [of g io tid hs raw s] blocked by (metis io_send)
qed

section \<open>Witnesses\<close>

definition demo_io :: "env \<Rightarrow> unit llm_io" where
  "demo_io e = \<lparr>lo_env = e, lo_cfg = demo_settings, lo_use_db = True, lo_now = 0, lo_clock = 0, lo_relays = no_relays,
     lo_incr = (\<lambda>_ _ _ _ _ _. None), lo_send = (\<lambda>_. UpTimeout), lo_renderable = (\<lambda>_. True)\<rparr>"

definition llm_env :: env where
  "llm_env = [''LLM_BASE_URL'' \<mapsto> ''https://b/v1'', ''LLM_GUARDRAILS'' \<mapsto> ''noop,deny_all'']"

lemma llm_env_registry:
  "rg_backends (registry_from_env llm_env) = [(''default'', \<lparr>be_name = ''default'', be_base_url = ''https://b/v1'', be_api_token = []\<rparr>)]"
  by code_simp

text \<open>A caller with relay credentials, in the memory store, and a backend that answers.\<close>

definition open_env :: env where
  "open_env = [''LLM_BASE_URL'' \<mapsto> ''https://b/v1'', ''LLM_API_TOKEN'' \<mapsto> ''srv'']"

definition ok_answer :: upstream where
  "ok_answer = UpResp \<lparr>up_status = 200, up_content_type = None, up_chunks = [''[]''], up_broken = False\<rparr>"

definition caller_headers :: headers where
  "caller_headers = [(''x-relay-client'', ''c''), (''x-relay-key'', ''k''), (''cookie'', ''session'')]"

definition caller_io :: "unit llm_io" where
  "caller_io = (demo_io open_env)\<lparr>lo_use_db := False, lo_send := (\<lambda>_. ok_answer),
     lo_relays := \<lparr>relay_clients = [], relay_memory = [(''c'', \<lparr>mr_client_uuid = ''u'', mr_email = ''e'',
       mr_key_hash = hash_relay_secret ''c'' ''k'' ''change-me-relay-pepper'', mr_allowed_targets = [],
       mr_expires_at = 0, mr_revoked = False\<rparr>)]\<rparr>\<rparr>"

lemma open_env_registry:
  "registry_from_env open_env = \<lparr>rg_backends = [(''default'', \<lparr>be_name = ''default'', be_base_url = ''https://b/v1'', be_api_token = ''srv''\<rparr>)],
     rg_model_map = []\<rparr>" "\<not> is_self_proxy open_env ''https://b/v1''"
  by code_simp+

lemma caller_identity:
  "\<exists>ident. resolve_llm_identity (lo_cfg caller_io) (lo_env caller_io) (lo_use_db caller_io) (lo_now caller_io) caller_headers
     (lo_relays caller_io) = Inr ident"
proof -
  have h: "header_or caller_headers ''x-relay-client'' ''x-client-id'' = ''c''" "header_or caller_headers ''x-relay-key'' ''x-client-key'' = ''k''"
    "strip ''c'' = ''c''" "strip ''k'' = ''k''" "relay_enabled demo_settings" "effective_targets [] = []"
    "relay_secret_pepper demo_settings = ''change-me-relay-pepper''"
    by code_simp+
  show ?thesis
    using relay_hash_not_Nil [of demo_settings "''c''" "''k''"]
    by (simp add: resolve_llm_identity_def relay_auth_from_request_def verify_relay_credentials_def lookup_relay_def dget_def
        relay_hash_def caller_io_def demo_io_def Let_def h)
qed

lemma caller_served: "status_of (fst (llm_models caller_io ''t'' caller_headers 0)) = 200"
proof -
  obtain ident where i: "resolve_llm_identity (lo_cfg caller_io) (lo_env caller_io) (lo_use_db caller_io) (lo_now caller_io) caller_headers
     (lo_relays caller_io) = Inr ident" using caller_identity by blast
  have "strip [] = []" by simp
  with i show ?thesis
    by (simp add: llm_models_def authenticated_def Let_def resolve_backend_def registry_resolve_def initial_ctx_def dget_def
        caller_io_def demo_io_def open_env_registry ok_answer_def) (simp add: forward_models_def passthrough_response_def)
qed

text \<open>A backend that refuses every request with a cookie or a relay key still serves that caller.\<close>

definition strict_backend :: "outbound \<Rightarrow> upstream" where
  "strict_backend req = (if list_ex (\<lambda>(k, v). lower k \<in> {''cookie'', ''x-relay-key''}) (ob_headers req) then UpError else ok_answer)"

theorem llm_backend_contact_witness:
  "status_of (fst (llm_models (caller_io\<lparr>lo_send := strict_backend\<rparr>) ''t'' caller_headers 0)) = 200 \<and>
   (\<exists>ident. resolve_llm_identity (lo_cfg caller_io) (lo_env caller_io) (lo_use_db caller_io) (lo_now caller_io) caller_headers
     (lo_relays caller_io) = Inr ident)"
proof -
  have "\<forall>req ident. clean_request (lo_env caller_io) ''t'' req \<and>
      resolve_llm_identity (lo_cfg caller_io) (lo_env caller_io) (lo_use_db caller_io) (lo_now caller_io) caller_headers
        (lo_relays caller_io) = Inr ident \<longrightarrow> strict_backend req = lo_send caller_io req"
    by (auto simp: clean_request_def clean_header_def Let_def strict_backend_def caller_io_def list_all_iff list_ex_iff)
  from llm_backend_contact [OF this, of 0 "[]" "()"] show ?thesis using caller_served caller_identity by simp
qed

theorem deny_all_blocks_witness:
  "llm_embeddings ((demo_io llm_env)\<lparr>lo_send := (\<lambda>_. UpError)\<rparr>) ''t'' [] ''{}'' 0 () = llm_embeddings (demo_io llm_env) ''t'' [] ''{}'' 0 ()"
proof -
  have "''deny_all'' \<in> set (configured_names llm_env)" by code_simp
  then have "''deny_all'' \<in> set (configured_names (lo_env (demo_io llm_env)))" by (simp add: demo_io_def)
  from deny_all_blocks [OF this] show ?thesis by blast
qed

end
