(* ===== verification/LlmTraffic.thy ===== *)
theory LlmTraffic
  imports LlmProxy
begin

text \<open>
  Traffic counters of the LLM proxy (\<open>app/llm/traffic.py\<close>), the figures the dashboard reads from them
  (\<open>app/admin/services/llm_traffic.py\<close>) and the audit line of a request (\<open>app/llm/audit.py\<close>). Requests are added up in
  memory per five-minute bucket and a single background thread moves the sums to the table \<open>llm_traffic\<close>, one
  committed statement per key, while requests go on being recorded. Durations are in microseconds.
\<close>

section \<open>Cells and keys\<close>

definition BUCKET_SECONDS :: int where "BUCKET_SECONDS = 300"
definition MAX_PENDING_KEYS :: nat where "MAX_PENDING_KEYS = 1000"
definition PURGE_AFTER_DAYS :: int where "PURGE_AFTER_DAYS = 90"
definition PURGE_EVERY_SECONDS :: int where "PURGE_EVERY_SECONDS = 6 * 3600"

type_synonym tkey = "int \<times> string \<times> string \<times> string"

record cell =
  tc_count :: nat
  tc_dur_sum :: nat
  tc_dur_max :: nat
  tc_tokens :: int

type_synonym counters = "(tkey \<times> cell) list"

definition cell_zero :: cell where
  "cell_zero = \<lparr>tc_count = 0, tc_dur_sum = 0, tc_dur_max = 0, tc_tokens = 0\<rparr>"

definition cell_add :: "cell \<Rightarrow> cell \<Rightarrow> cell" where
  "cell_add a b = \<lparr>tc_count = tc_count a + tc_count b, tc_dur_sum = tc_dur_sum a + tc_dur_sum b,
     tc_dur_max = max (tc_dur_max a) (tc_dur_max b), tc_tokens = tc_tokens a + tc_tokens b\<rparr>"

definition look :: "counters \<Rightarrow> tkey \<Rightarrow> cell" where
  "look m k = (case map_of m k of None \<Rightarrow> cell_zero | Some c \<Rightarrow> c)"

definition status_class :: "int \<Rightarrow> string" where
  "status_class st = str_of_int (st div 100) @ ''xx''"

definition route_alias :: "string \<Rightarrow> string" where
  "route_alias rt = (if rt = ''chat/completions'' then ''chat'' else if rt = [] then ''?'' else rt)"

definition usage_tokens :: "json option \<Rightarrow> int" where
  "usage_tokens usage = (case usage of
       Some (JObj d) \<Rightarrow>
         (let v = jget d ''total_tokens''
          in if truthy v then (case json_int v of Inl _ \<Rightarrow> 0 | Inr n \<Rightarrow> n) else 0)
     | _ \<Rightarrow> 0)"

definition traffic_key :: "timestamp \<Rightarrow> string \<Rightarrow> string \<Rightarrow> int \<Rightarrow> tkey" where
  "traffic_key now rt model st =
     (now div secs BUCKET_SECONDS * BUCKET_SECONDS, route_alias rt, take 200 model, status_class st)"

definition traffic_cell :: "timestamp \<Rightarrow> json option \<Rightarrow> cell" where
  "traffic_cell dur usage =
     (let ms = nat (dur div 1000)
      in \<lparr>tc_count = 1, tc_dur_sum = ms, tc_dur_max = ms, tc_tokens = usage_tokens usage\<rparr>)"

section \<open>Accumulator and flush\<close>

text \<open>A new key evicts the smallest one when the accumulator is full.\<close>

definition record_acc :: "tkey \<Rightarrow> cell \<Rightarrow> counters \<Rightarrow> counters" where
  "record_acc k c acc = (case map_of acc k of
       None \<Rightarrow>
         AList.update k c (if length acc \<ge> MAX_PENDING_KEYS then AList.delete (Min (fst ` set acc)) acc else acc)
     | Some row \<Rightarrow> AList.update k (cell_add row c) acc)"

definition traffic_record :: "timestamp \<Rightarrow> timestamp \<Rightarrow> log_entry \<Rightarrow> counters \<Rightarrow> counters" where
  "traffic_record now dur le acc =
     record_acc (traffic_key now (le_route le) (le_model le) (le_status le)) (traffic_cell dur (le_usage le)) acc"

definition restore_one :: "tkey \<times> cell \<Rightarrow> counters \<Rightarrow> counters" where
  "restore_one kc acc = (case kc of (k, c) \<Rightarrow>
     (case map_of acc k of
        None \<Rightarrow> if length acc < MAX_PENDING_KEYS then AList.update k c acc else acc
      | Some row \<Rightarrow> AList.update k (cell_add row c) acc))"

definition upsert_traffic :: "tkey \<times> cell \<Rightarrow> counters \<Rightarrow> counters" where
  "upsert_traffic kc tbl = (case kc of (k, c) \<Rightarrow> AList.update k (cell_add (look tbl k) c) tbl)"

record traffic_state =
  ts_acc :: counters
  ts_table :: counters
  ts_last_purge :: timestamp

definition purge_cutoff :: "timestamp \<Rightarrow> timestamp" where
  "purge_cutoff now = now - secs (PURGE_AFTER_DAYS * 86400)"

definition purge_due :: "timestamp \<Rightarrow> timestamp \<Rightarrow> bool" where
  "purge_due now last_purge = (secs PURGE_EVERY_SECONDS \<le> now - last_purge)"

text \<open>\<open>ok\<close> says whether the deletion succeeds; its failure is swallowed.\<close>

definition purge_traffic :: "bool \<Rightarrow> timestamp \<Rightarrow> traffic_state \<Rightarrow> traffic_state" where
  "purge_traffic ok now s =
     (if \<not> purge_due now (ts_last_purge s) then s
      else s\<lparr>ts_last_purge := now,
             ts_table := (if ok then filter (\<lambda>((b, _), _). purge_cutoff now \<le> secs b) (ts_table s) else ts_table s)\<rparr>)"

text \<open>\<open>flush_now\<close> without concurrent requests: \<open>fails = Some n\<close> means that the statement after the first \<open>n\<close> raises
  (no pool: \<open>Some 0\<close>). The connection commits each statement.\<close>

definition flush_now :: "nat option \<Rightarrow> bool \<Rightarrow> timestamp \<Rightarrow> traffic_state \<Rightarrow> nat \<times> traffic_state" where
  "flush_now fails ok now s =
     (let pending = ts_acc s; cleared = s\<lparr>ts_acc := []\<rparr>
      in if pending = [] then (0, s)
         else case (case fails of None \<Rightarrow> None | Some n \<Rightarrow> if n < length pending then Some n else None) of
             None \<Rightarrow> (length pending, purge_traffic ok now (cleared\<lparr>ts_table := fold upsert_traffic pending (ts_table s)\<rparr>))
           | Some n \<Rightarrow> (0, cleared\<lparr>ts_table := fold upsert_traffic (take n pending) (ts_table s),
                                   ts_acc := fold restore_one pending []\<rparr>))"

section \<open>The background thread among the requests\<close>

text \<open>The pending rows of a running flush and those already written.\<close>

record flusher = traffic_state +
  fl_pending :: counters
  fl_written :: counters

text \<open>\<open>traffic_run reqs lossy dup gone s\<close>: \<open>s\<close> is reached after recording \<open>reqs\<close>; \<open>lossy\<close> says that a full accumulator
  dropped a key, \<open>dup\<close> that a flush failed after it had written a row, \<open>gone\<close> is the latest date of a purge.\<close>

inductive traffic_run :: "(tkey \<times> cell) list \<Rightarrow> bool \<Rightarrow> bool \<Rightarrow> timestamp \<Rightarrow> flusher \<Rightarrow> bool" where
  start: "traffic_run [] False False gone \<lparr>ts_acc = [], ts_table = [], ts_last_purge = t, fl_pending = [], fl_written = []\<rparr>"
| recorded_request: "traffic_run reqs lossy dup gone s \<Longrightarrow> k = traffic_key now rt model st \<Longrightarrow> c = traffic_cell dur usage \<Longrightarrow>
    traffic_run (reqs @ [(k, c)]) (lossy \<or> map_of (ts_acc s) k = None \<and> length (ts_acc s) \<ge> MAX_PENDING_KEYS) dup gone
      (s\<lparr>ts_acc := record_acc k c (ts_acc s)\<rparr>)"
| take_pending: "traffic_run reqs lossy dup gone s \<Longrightarrow> fl_pending s = [] \<Longrightarrow> fl_written s = [] \<Longrightarrow>
    traffic_run reqs lossy dup gone (s\<lparr>fl_pending := ts_acc s, ts_acc := []\<rparr>)"
| write_row: "traffic_run reqs lossy dup gone s \<Longrightarrow> fl_pending s = kc # rest \<Longrightarrow>
    traffic_run reqs lossy dup gone
      (s\<lparr>ts_table := upsert_traffic kc (ts_table s), fl_pending := rest, fl_written := fl_written s @ [kc]\<rparr>)"
| purge: "traffic_run reqs lossy dup gone s \<Longrightarrow> fl_pending s = [] \<Longrightarrow> purge_due now (ts_last_purge s) \<Longrightarrow>
    traffic_run reqs lossy dup (max gone (purge_cutoff now))
      (s\<lparr>fl_written := [], ts_last_purge := now,
         ts_table := (if ok then filter (\<lambda>((b, _), _). purge_cutoff now \<le> secs b) (ts_table s) else ts_table s)\<rparr>)"
| no_purge: "traffic_run reqs lossy dup gone s \<Longrightarrow> fl_pending s = [] \<Longrightarrow> traffic_run reqs lossy dup gone (s\<lparr>fl_written := []\<rparr>)"
| failed: "traffic_run reqs lossy dup gone s \<Longrightarrow> acc = fold restore_one (fl_written s @ fl_pending s) (ts_acc s) \<Longrightarrow>
    traffic_run reqs (lossy \<or> length (ts_acc s) + length (fl_written s @ fl_pending s) > MAX_PENDING_KEYS)
      (dup \<or> fl_written s \<noteq> []) gone (s\<lparr>ts_acc := acc, fl_pending := [], fl_written := []\<rparr>)"

section \<open>Dashboard\<close>

text \<open>Interval and granularity of a period in seconds; an unknown period is the first.\<close>

definition PERIODS :: "(int \<times> int) dict" where
  "PERIODS = [(''1J'', (24 * 3600, 3600)), (''1S'', (7 * 86400, 86400)), (''1M'', (30 * 86400, 86400)), (''3M'', (90 * 86400, 86400))]"

definition period_of :: "string \<Rightarrow> int \<times> int" where
  "period_of period = (case dget PERIODS period of Some p \<Rightarrow> p | None \<Rightarrow> (24 * 3600, 3600))"

definition recent :: "timestamp \<Rightarrow> int \<Rightarrow> counters \<Rightarrow> counters" where
  "recent now interval tbl = filter (\<lambda>((b, _), _). now - secs interval < secs b) tbl"

definition sum_counts :: "(tkey \<Rightarrow> bool) \<Rightarrow> counters \<Rightarrow> nat" where
  "sum_counts P rows = sum_list (map (tc_count \<circ> snd) (filter (P \<circ> fst) rows))"

definition is_route :: "string \<Rightarrow> tkey \<Rightarrow> bool" where
  "is_route rt k = (case k of (_, r, _, _) \<Rightarrow> r = rt)"

definition is_error :: "tkey \<Rightarrow> bool" where
  "is_error k = (case k of (_, _, _, c) \<Rightarrow> c \<noteq> ''2xx'')"

definition date_trunc :: "int \<Rightarrow> tkey \<Rightarrow> int" where
  "date_trunc g k = fst k div g * g"

record series_point =
  sp_date :: int
  sp_chat :: nat
  sp_embeddings :: nat
  sp_errors :: nat

text \<open>Dates are truncated in UTC.\<close>

definition series :: "timestamp \<Rightarrow> string \<Rightarrow> counters \<Rightarrow> series_point list" where
  "series now period tbl =
     (let (interval, g) = period_of period; rows = recent now interval tbl
      in map (\<lambda>t. let here = filter (\<lambda>(k, _). date_trunc g k = t) rows
                  in \<lparr>sp_date = t, sp_chat = sum_counts (is_route ''chat'') here,
                      sp_embeddings = sum_counts (is_route ''embeddings'') here, sp_errors = sum_counts is_error here\<rparr>)
             (sorted_list_of_set (date_trunc g ` fst ` set rows)))"

text \<open>The sums behind the tiles: calls, total duration, errors, embeddings, tokens. Averages and shares are their
  rounded quotients.\<close>

definition tiles :: "timestamp \<Rightarrow> counters \<Rightarrow> nat \<times> nat \<times> nat \<times> nat \<times> int" where
  "tiles now tbl =
     (let rows = recent now (24 * 3600) tbl
      in (sum_counts (\<lambda>_. True) rows, sum_list (map (tc_dur_sum \<circ> snd) rows), sum_counts is_error rows,
          sum_counts (is_route ''embeddings'') rows, sum_list (map (tc_tokens \<circ> snd) rows)))"

section \<open>Audit line\<close>

definition json_or_none :: "string \<Rightarrow> json" where
  "json_or_none x = (if x = [] then JNull else JStr x)"

definition audit_usage :: "json option \<Rightarrow> (string \<times> json) list" where
  "audit_usage usage = (case usage of
       Some (JObj u) \<Rightarrow> [(''usage'', JObj (map (\<lambda>k. (k, jget u k))
          (filter (\<lambda>k. dget u k \<noteq> None) [''prompt_tokens'', ''completion_tokens'', ''total_tokens''])))]
     | _ \<Rightarrow> [])"

text \<open>\<open>latency\<close> is the rounded number of milliseconds.\<close>

definition audit_entry :: "llm_ctx \<Rightarrow> int \<Rightarrow> json \<Rightarrow> string option \<Rightarrow> json option \<Rightarrow> json" where
  "audit_entry ctx st latency error_kind usage =
     JObj (filter (\<lambda>(_, v). v \<noteq> JNull)
       ([(''event'', JStr ''llm.request''), (''trace_id'', JStr (lc_trace_id ctx)), (''route'', JStr (lc_route ctx)),
         (''email'', JStr (li_email (lc_identity ctx))), (''client_uuid'', JStr (li_client_uuid (lc_identity ctx))),
         (''auth_method'', JStr (li_auth_method (lc_identity ctx))), (''model'', json_or_none (lc_model ctx)),
         (''backend'', json_or_none (lc_backend_name ctx)), (''stream'', JBool (lc_stream ctx)), (''status'', JInt st),
         (''latency_ms'', latency),
         (''verdicts'', if lc_verdicts ctx = [] then JNull else JList (map JStr (lc_verdicts ctx))),
         (''quota'', case lc_quota ctx of None \<Rightarrow> JNull
            | Some (n, l, w) \<Rightarrow> JObj [(''count'', JInt n), (''limit'', JInt l), (''window_seconds'', JInt w)]),
         (''error'', case error_kind of None \<Rightarrow> JNull | Some x \<Rightarrow> JStr x)] @ audit_usage usage))"

section \<open>Lemmas\<close>

lemma cell_add_ac [simp]:
  "cell_add (cell_add a b) c = cell_add a (cell_add b c)" "cell_add cell_zero a = a" "cell_add a cell_zero = a"
  by (simp_all add: cell_add_def cell_zero_def max.assoc)

lemma cell_add_commute: "cell_add a b = cell_add b a"
  by (simp add: cell_add_def max.commute add.commute)

lemma cell_add_left_commute: "cell_add a (cell_add b c) = cell_add b (cell_add a c)"
  by (metis cell_add_ac(1) cell_add_commute)

lemma cell_add_count [simp]: "tc_count (cell_add a b) = tc_count a + tc_count b" "tc_count cell_zero = 0"
  by (simp_all add: cell_add_def cell_zero_def)

text \<open>The sum of the entries of a key.\<close>

fun tot :: "tkey \<Rightarrow> counters \<Rightarrow> cell" where
  "tot k [] = cell_zero"
| "tot k ((k', c) # xs) = (if k' = k then cell_add c (tot k xs) else tot k xs)"

lemma tot_append [simp]: "tot k (xs @ ys) = cell_add (tot k xs) (tot k ys)"
  by (induction k xs rule: tot.induct) simp_all

lemma look_update [simp]: "look (AList.update k c m) k' = (if k' = k then c else look m k')"
  by (simp add: look_def update_conv')

lemma look_delete [simp]: "look (AList.delete k m) k' = (if k' = k then cell_zero else look m k')"
  by (simp add: look_def delete_conv')

lemma look_tot: "distinct (map fst m) \<Longrightarrow> look m k = tot k m"
proof (induction m)
  case (Cons x xs)
  have "tot k xs = cell_zero" if "k \<notin> fst ` set xs"
    using that by (induction k xs rule: tot.induct) auto
  moreover obtain k' c where "x = (k', c)" by (cases x)
  ultimately show ?case using Cons by (auto simp: look_def split: if_splits)
qed (simp add: look_def)

lemma record_acc_look:
  "look (record_acc k c acc) k' =
     (if k' = k then cell_add (look acc k) c
      else if map_of acc k = None \<and> length acc \<ge> MAX_PENDING_KEYS \<and> k' = Min (fst ` set acc) then cell_zero
      else look acc k')"
proof (cases "map_of acc k")
  case None
  moreover from None have "k \<notin> fst ` set acc" by (simp add: map_of_eq_None_iff)
  ultimately show ?thesis by (auto simp: record_acc_def look_def update_conv' delete_conv')
next
  case (Some a)
  then show ?thesis by (simp add: record_acc_def) (simp add: look_def)
qed

lemma record_acc_distinct: "distinct (map fst acc) \<Longrightarrow> distinct (map fst (record_acc k c acc))"
  by (auto simp: record_acc_def distinct_update distinct_delete split: option.split)

lemma length_update: "distinct (map fst m) \<Longrightarrow> length (AList.update k c m) = (if k \<in> fst ` set m then length m else Suc (length m))"
  by (induction m) (auto split: if_splits)

lemma length_delete_key: "distinct (map fst m) \<Longrightarrow> k \<in> fst ` set m \<Longrightarrow> Suc (length (AList.delete k m)) = length m"
proof (induction m)
  case (Cons x xs)
  have "AList.delete k xs = xs" if "k \<notin> fst ` set xs" for xs :: "('a \<times> 'b) list"
    using that by (induction xs) auto
  then show ?case using Cons by (cases "fst x = k") (auto simp: AList.delete_eq split: if_splits)
qed simp

lemma length_update_le: "length (AList.update k c m) \<le> Suc (length m)"
  by (induction m) auto

lemma record_acc_length:
  assumes "distinct (map fst acc)" "length acc \<le> MAX_PENDING_KEYS"
  shows "length (record_acc k c acc) \<le> MAX_PENDING_KEYS"
proof (cases "map_of acc k")
  case None
  show ?thesis
  proof (cases "length acc \<ge> MAX_PENDING_KEYS")
    case True
    then have "acc \<noteq> []" by (auto simp: MAX_PENDING_KEYS_def)
    then have "Min (fst ` set acc) \<in> fst ` set acc" by (intro Min_in) auto
    then have "Suc (length (AList.delete (Min (fst ` set acc)) acc)) = length acc" by (rule length_delete_key [OF assms(1)])
    then show ?thesis using None True assms(2) length_update_le [of k c "AList.delete (Min (fst ` set acc)) acc"]
      by (simp add: record_acc_def)
  next
    case False
    then show ?thesis using None length_update_le [of k c acc] by (simp add: record_acc_def)
  qed
next
  case (Some row)
  then have "k \<in> fst ` set acc" by (force dest: map_of_SomeD)
  then show ?thesis using Some assms by (simp add: record_acc_def length_update)
qed

lemma restore_one_look:
  "look (restore_one (k, c) acc) k' =
     (if k' = k \<and> (map_of acc k \<noteq> None \<or> length acc < MAX_PENDING_KEYS) then cell_add (look acc k) c else look acc k')"
proof (cases "map_of acc k")
  case None
  then have "look acc k = cell_zero" by (simp add: look_def)
  then show ?thesis using None by (simp add: restore_one_def)
next
  case (Some row)
  then have "look acc k = row" by (simp add: look_def)
  then show ?thesis using Some by (simp add: restore_one_def)
qed

lemma restore_one_distinct: "distinct (map fst acc) \<Longrightarrow> distinct (map fst (restore_one kc acc))"
  by (simp add: restore_one_def distinct_update split: prod.split option.split)

lemma restore_one_length:
  assumes "distinct (map fst acc)"
  shows "length (restore_one kc acc) \<le> Suc (length acc)"
    "length acc \<le> MAX_PENDING_KEYS \<Longrightarrow> length (restore_one kc acc) \<le> MAX_PENDING_KEYS"
proof -
  obtain k c where kc: "kc = (k, c)" by (cases kc)
  show "length (restore_one kc acc) \<le> Suc (length acc)"
    by (simp add: kc restore_one_def length_update_le le_SucI split: option.split)
  have "k \<in> fst ` set acc" if "map_of acc k = Some row" for row using that by (force dest: map_of_SomeD)
  then show "length acc \<le> MAX_PENDING_KEYS \<Longrightarrow> length (restore_one kc acc) \<le> MAX_PENDING_KEYS"
    using length_update_le [of k c acc] by (auto simp: kc restore_one_def length_update [OF assms] split: option.split)
qed

lemma restore_distinct: "distinct (map fst acc) \<Longrightarrow> distinct (map fst (fold restore_one xs acc))"
  by (induction xs arbitrary: acc) (simp_all add: restore_one_distinct)

lemma restore_length:
  "distinct (map fst acc) \<Longrightarrow> length acc \<le> MAX_PENDING_KEYS \<Longrightarrow> length (fold restore_one xs acc) \<le> MAX_PENDING_KEYS"
  by (induction xs arbitrary: acc) (simp_all add: restore_one_distinct restore_one_length)

lemma restore_look:
  "distinct (map fst acc) \<Longrightarrow> length acc + length xs \<le> MAX_PENDING_KEYS \<Longrightarrow>
   look (fold restore_one xs acc) k = cell_add (look acc k) (tot k xs)"
proof (induction xs arbitrary: acc)
  case (Cons x xs)
  obtain k' c where x: "x = (k', c)" by (cases x)
  have "length (restore_one x acc) + length xs \<le> MAX_PENDING_KEYS"
    using restore_one_length(1) [OF Cons.prems(1), of x] Cons.prems(2) by simp
  then have "look (fold restore_one (x # xs) acc) k = cell_add (look (restore_one x acc) k) (tot k xs)"
    using Cons.IH restore_one_distinct [OF Cons.prems(1)] by simp
  then show ?case using Cons.prems(2) by (simp add: x restore_one_look)
qed simp

lemma restore_count: "tc_count (look (fold restore_one xs acc) k) \<le> tc_count (look acc k) + tc_count (tot k xs)"
proof (induction xs arbitrary: acc)
  case (Cons x xs)
  obtain k' c where x: "x = (k', c)" by (cases x)
  show ?case using Cons [of "restore_one x acc"] by (auto simp: x restore_one_look split: if_splits)
qed simp

text \<open>What is held for a key against what was recorded for it.\<close>

definition conserved :: "bool \<Rightarrow> bool \<Rightarrow> cell \<Rightarrow> cell \<Rightarrow> bool" where
  "conserved lossy dup h r = ((\<not> lossy \<and> \<not> dup \<longrightarrow> h = r) \<and> (\<not> lossy \<longrightarrow> tc_count r \<le> tc_count h) \<and>
     (\<not> dup \<longrightarrow> tc_count h \<le> tc_count r))"

lemma conserved_add:
  assumes "conserved lossy dup h r" "\<not> full \<Longrightarrow> h' = cell_add h x" "tc_count h' \<le> tc_count h + tc_count x"
  shows "conserved (lossy \<or> full) dup h' (cell_add r x)"
proof (cases full)
  case True
  then show ?thesis using assms(1,3) by (auto simp: conserved_def)
next
  case False
  then show ?thesis using assms(1) assms(2) by (auto simp: conserved_def)
qed

lemma conserved_fail:
  assumes "conserved lossy dup h r" "\<not> full \<Longrightarrow> h' = cell_add h w" "\<not> again \<Longrightarrow> w = cell_zero \<and> tc_count h' \<le> tc_count h"
  shows "conserved (lossy \<or> full) (dup \<or> again) h' r"
  using assms by (cases full; cases again) (auto simp: conserved_def)

definition held :: "flusher \<Rightarrow> tkey \<Rightarrow> cell" where
  "held s k = cell_add (look (ts_table s) k) (cell_add (look (ts_acc s) k) (tot k (fl_pending s)))"

definition tables_ok :: "flusher \<Rightarrow> bool" where
  "tables_ok s = (distinct (map fst (ts_acc s)) \<and> distinct (map fst (ts_table s)) \<and> length (ts_acc s) \<le> MAX_PENDING_KEYS)"

lemma look_filter: "P k \<Longrightarrow> look (filter (\<lambda>(k, _). P k) m) k = look m k"
  by (induction m) (auto simp: look_def split: if_splits)

lemma look_purge: "c \<le> secs (fst k) \<Longrightarrow> look (filter (\<lambda>((b, _), _). c \<le> secs b) m) k = look m k"
  using look_filter [of "\<lambda>k. c \<le> secs (fst k)" k m] by (simp add: case_prod_unfold)

lemma tables_ok_run: "traffic_run reqs lossy dup gone s \<Longrightarrow> tables_ok s"
proof (induction rule: traffic_run.induct)
  case (write_row reqs lossy dup gone s kc rest)
  then show ?case by (cases kc) (simp add: tables_ok_def upsert_traffic_def distinct_update)
next
  case (failed reqs lossy dup gone s acc)
  then show ?case by (simp add: tables_ok_def restore_distinct restore_length)
qed (simp_all add: tables_ok_def record_acc_distinct record_acc_length distinct_map_filter)

lemma conserved_run:
  "traffic_run reqs lossy dup gone s \<Longrightarrow> gone \<le> secs (fst k) \<Longrightarrow> conserved lossy dup (held s k) (tot k reqs)"
proof (induction rule: traffic_run.induct)
  case (start gone t)
  show ?case by (simp add: conserved_def held_def look_def)
next
  case (recorded_request reqs lossy dup gone s k' now rt model st c dur usage)
  have "conserved (lossy \<or> map_of (ts_acc s) k' = None \<and> length (ts_acc s) \<ge> MAX_PENDING_KEYS) dup
      (held (s\<lparr>ts_acc := record_acc k' c (ts_acc s)\<rparr>) k) (cell_add (tot k reqs) (tot k [(k', c)]))"
    by (rule conserved_add [OF recorded_request.IH [OF recorded_request.prems]])
       (auto simp: held_def record_acc_look cell_add_commute cell_add_left_commute)
  then show ?case by simp
next
  case (take_pending reqs lossy dup gone s)
  then have "held (s\<lparr>fl_pending := ts_acc s, ts_acc := []\<rparr>) k = held s k"
    using tables_ok_run [OF take_pending.hyps(1)] by (simp add: tables_ok_def held_def look_tot)
  then show ?case using take_pending by simp
next
  case (write_row reqs lossy dup gone s kc rest)
  obtain k' c where "kc = (k', c)" by (cases kc)
  then have "held (s\<lparr>ts_table := upsert_traffic kc (ts_table s), fl_pending := rest, fl_written := fl_written s @ [kc]\<rparr>) k = held s k"
    using write_row.hyps by (simp add: held_def upsert_traffic_def cell_add_commute cell_add_left_commute)
  then show ?case using write_row by simp
next
  case (purge reqs lossy dup gone s now ok)
  then show ?case by (simp add: held_def look_purge)
next
  case (no_purge reqs lossy dup gone s)
  then show ?case by (simp add: held_def)
next
  case (failed reqs lossy dup gone s acc)
  let ?xs = "fl_written s @ fl_pending s"
  have d: "distinct (map fst (ts_acc s))" using tables_ok_run [OF failed.hyps(1)] by (simp add: tables_ok_def)
  show ?case
  proof (rule conserved_fail [OF failed.IH [OF failed.prems], where w = "tot k (fl_written s)"])
    assume "\<not> length (ts_acc s) + length ?xs > MAX_PENDING_KEYS"
    then show "held (s\<lparr>ts_acc := acc, fl_pending := [], fl_written := []\<rparr>) k = cell_add (held s k) (tot k (fl_written s))"
      using restore_look [OF d, of ?xs k] failed.hyps(2) by (simp add: held_def cell_add_commute cell_add_left_commute)
  next
    assume "\<not> fl_written s \<noteq> []"
    then show "tot k (fl_written s) = cell_zero \<and>
        tc_count (held (s\<lparr>ts_acc := acc, fl_pending := [], fl_written := []\<rparr>) k) \<le> tc_count (held s k)"
      using restore_count [of ?xs "ts_acc s" k] failed.hyps(2) by (simp add: held_def)
  qed
qed

lemma sum_counts_Cons: "sum_counts P ((k, c) # xs) = (if P k then tc_count c else 0) + sum_counts P xs"
  by (simp add: sum_counts_def)

lemma sum_counts_tot:
  assumes "finite A" "fst ` set xs \<subseteq> A"
  shows "sum_counts P xs = (\<Sum>k \<in> A. if P k then tc_count (tot k xs) else 0)"
  using assms(2)
proof (induction xs)
  case Nil
  show ?case by (simp add: sum_counts_def cong: if_cong)
next
  case (Cons x xs)
  obtain k c where x: "x = (k, c)" by (cases x)
  have "(\<Sum>k' \<in> A. if P k' then tc_count (tot k' (x # xs)) else 0) =
      (\<Sum>k' \<in> A. (if k' = k then if P k then tc_count c else 0 else 0) + (if P k' then tc_count (tot k' xs) else 0))"
    by (intro sum.cong) (auto simp: x)
  also have "\<dots> = (if P k then tc_count c else 0) + (\<Sum>k' \<in> A. if P k' then tc_count (tot k' xs) else 0)"
    using assms(1) Cons.prems x by (simp add: sum.distrib sum.delta)
  finally show ?case using Cons by (simp add: x sum_counts_Cons)
qed

lemma sum_counts_cong:
  assumes "\<And>k. P k \<Longrightarrow> tot k xs = tot k ys"
  shows "sum_counts P xs = sum_counts P ys"
proof -
  let ?A = "fst ` set xs \<union> fst ` set ys"
  have "sum_counts P xs = (\<Sum>k \<in> ?A. if P k then tc_count (tot k xs) else 0)" by (rule sum_counts_tot) auto
  also have "\<dots> = (\<Sum>k \<in> ?A. if P k then tc_count (tot k ys) else 0)" by (intro sum.cong) (auto simp: assms)
  also have "\<dots> = sum_counts P ys" by (rule sum_counts_tot [symmetric]) auto
  finally show ?thesis .
qed

lemma sum_counts_groups:
  assumes "finite A" "g ` fst ` set xs \<subseteq> A"
  shows "(\<Sum>t \<in> A. sum_counts P (filter (\<lambda>(k, _). g k = t) xs)) = sum_counts P xs"
  using assms(2)
proof (induction xs)
  case Nil
  show ?case by (simp add: sum_counts_def)
next
  case (Cons x xs)
  obtain k c where x: "x = (k, c)" by (cases x)
  have "(\<Sum>t \<in> A. sum_counts P (filter (\<lambda>(k, _). g k = t) (x # xs))) =
      (\<Sum>t \<in> A. (if t = g k then if P k then tc_count c else 0 else 0) + sum_counts P (filter (\<lambda>(k, _). g k = t) xs))"
    by (intro sum.cong) (auto simp: x sum_counts_Cons)
  also have "\<dots> = (if P k then tc_count c else 0) + (\<Sum>t \<in> A. sum_counts P (filter (\<lambda>(k, _). g k = t) xs))"
    using assms(1) Cons.prems x by (simp add: sum.distrib sum.delta)
  finally show ?case using Cons by (simp add: x sum_counts_Cons)
qed

lemma sum_counts_recent: "sum_counts P (recent now i tbl) = sum_counts (\<lambda>k. P k \<and> now - secs i < secs (fst k)) tbl"
  by (simp add: sum_counts_def recent_def filter_filter comp_def case_prod_unfold) (metis (no_types, lifting) filter_cong)

lemma run_count_one: "traffic_run reqs lossy dup gone s \<Longrightarrow> (k, c) \<in> set reqs \<Longrightarrow> tc_count c = 1"
  by (induction rule: traffic_run.induct) (auto simp: traffic_cell_def Let_def)

lemma sum_counts_length:
  "\<forall>(k, c) \<in> set xs. tc_count c = 1 \<Longrightarrow> sum_counts P xs = length (filter (P \<circ> fst) xs)"
  by (induction xs) (auto simp: sum_counts_def)

lemma idle_counts:
  assumes "traffic_run reqs False False gone s" "ts_acc s = []" "fl_pending s = []" "gone \<le> now - secs i"
  shows "sum_counts P (recent now i (ts_table s)) = length (filter (\<lambda>(k, _). P k \<and> now - secs i < secs (fst k)) reqs)"
proof -
  let ?Q = "\<lambda>k. P k \<and> now - secs i < secs (fst k)"
  have "tot k (ts_table s) = tot k reqs" if "?Q k" for k
  proof -
    have "gone \<le> secs (fst k)" using that assms(4) by simp
    from conserved_run [OF assms(1) this] have "look (ts_table s) k = tot k reqs"
      using assms(2,3) by (simp add: conserved_def held_def look_def)
    then show ?thesis using tables_ok_run [OF assms(1)] by (simp add: tables_ok_def look_tot)
  qed
  then have "sum_counts ?Q (ts_table s) = sum_counts ?Q reqs" by (rule sum_counts_cong)
  also have "\<dots> = length (filter (?Q \<circ> fst) reqs)" using run_count_one [OF assms(1)] by (intro sum_counts_length) auto
  finally show ?thesis by (simp add: sum_counts_recent comp_def case_prod_unfold)
qed

section \<open>Properties\<close>

text \<open>Property C23. The counters are bounded and conserved while requests are recorded and flushed in any interleaving:
  the accumulator never holds more than a thousand keys; unless it dropped a key nothing recorded since the last purge
  date is missing, unless a flush failed half-way nothing is counted twice, and with neither the table, the accumulator and
  the pending rows together hold exactly the recorded sums.\<close>

theorem traffic_conserved:
  assumes "traffic_run reqs lossy dup gone s" "gone \<le> secs (fst k)"
  shows "length (ts_acc s) \<le> MAX_PENDING_KEYS \<and>
    (\<not> lossy \<longrightarrow> tc_count (tot k reqs) \<le> tc_count (held s k)) \<and>
    (\<not> dup \<longrightarrow> tc_count (held s k) \<le> tc_count (tot k reqs)) \<and>
    (\<not> lossy \<and> \<not> dup \<longrightarrow> held s k = tot k reqs)"
  using conserved_run [OF assms] tables_ok_run [OF assms(1)] by (simp add: conserved_def tables_ok_def)

text \<open>Once everything is flushed, with no loss and no failed flush, the curves and the tile of the dashboard
  add up to the number of recorded requests of the period.\<close>

theorem dashboard_counts_requests:
  assumes "traffic_run reqs False False gone s" "ts_acc s = []" "fl_pending s = []"
    "period_of period = (interval, g)" "gone \<le> now - secs interval"
  shows "sum_list (map sp_chat (series now period (ts_table s))) =
      length (filter (\<lambda>(k, _). is_route ''chat'' k \<and> now - secs interval < secs (fst k)) reqs) \<and>
    sum_list (map sp_embeddings (series now period (ts_table s))) =
      length (filter (\<lambda>(k, _). is_route ''embeddings'' k \<and> now - secs interval < secs (fst k)) reqs) \<and>
    sum_list (map sp_errors (series now period (ts_table s))) =
      length (filter (\<lambda>(k, _). is_error k \<and> now - secs interval < secs (fst k)) reqs) \<and>
    (interval = 24 * 3600 \<longrightarrow> fst (tiles now (ts_table s)) = length (filter (\<lambda>(k, _). now - secs interval < secs (fst k)) reqs))"
proof -
  let ?rows = "recent now interval (ts_table s)"
  let ?A = "date_trunc g ` fst ` set ?rows"
  have groups: "(\<Sum>t \<leftarrow> sorted_list_of_set ?A. sum_counts P (filter (\<lambda>(k, _). date_trunc g k = t) ?rows)) = sum_counts P ?rows" for P
    using sum_counts_groups [of ?A "date_trunc g" ?rows P] by (simp add: sum_list_distinct_conv_sum_set)
  have "interval = 86400 \<Longrightarrow> sum_counts (\<lambda>_. True) (recent now 86400 (ts_table s)) =
      length (filter (\<lambda>(k, _). now - secs 86400 < secs (fst k)) reqs)"
    using idle_counts [OF assms(1-3), of now 86400 "\<lambda>_. True"] assms(5) by simp
  then show ?thesis using assms(4) groups idle_counts [OF assms(1-3,5)]
    by (simp add: series_def tiles_def Let_def comp_def)
qed

text \<open>A flush that fails after its first statement: the request is in the table and again in the accumulator, and the
  next flush counts it twice.\<close>

lemma flush_double_count:
  "let k = traffic_key 0 ''models'' [] 200; c = traffic_cell 0 None; k2 = traffic_key 0 ''embeddings'' [] 200;
       s = \<lparr>ts_acc = [(k, c), (k2, c)], ts_table = [], ts_last_purge = 0\<rparr>;
       s' = snd (flush_now None True 0 (snd (flush_now (Some 1) True 0 s)))
   in tc_count (look (ts_table s') k) = 2 \<and> tc_count (look (ts_table s') k2) = 1"
  by code_simp

text \<open>\<open>flush_now\<close> is a run of the background thread between two requests.\<close>

lemma writes_run:
  "traffic_run reqs lossy dup gone s \<Longrightarrow> fl_pending s = xs @ ys \<Longrightarrow>
   traffic_run reqs lossy dup gone
     (s\<lparr>ts_table := fold upsert_traffic xs (ts_table s), fl_pending := ys, fl_written := fl_written s @ xs\<rparr>)"
proof (induction xs arbitrary: s)
  case (Cons x xs)
  then have "traffic_run reqs lossy dup gone
      (s\<lparr>ts_table := upsert_traffic x (ts_table s), fl_pending := xs @ ys, fl_written := fl_written s @ [x]\<rparr>)"
    by (intro write_row) simp_all
  from Cons.IH [OF this] show ?case by simp
next
  case Nil
  from Nil.prems(2) [symmetric] Nil.prems(1) show ?case by simp
qed

lemma flush_now_run:
  assumes "traffic_run reqs lossy dup gone (traffic_state.extend s \<lparr>fl_pending = [], fl_written = []\<rparr>)"
  shows "\<exists>lossy' dup' gone'. traffic_run reqs lossy' dup' gone'
     (traffic_state.extend (snd (flush_now fails ok now s)) \<lparr>fl_pending = [], fl_written = []\<rparr>)"
proof -
  let ?ext = "\<lambda>s. traffic_state.extend s \<lparr>fl_pending = [], fl_written = []\<rparr>"
  note exts = traffic_state.extend_def
  have taken: "traffic_run reqs lossy dup gone ((?ext s)\<lparr>fl_pending := ts_acc s, ts_acc := []\<rparr>)"
    using take_pending [OF assms] by (simp add: exts)
  have written: "traffic_run reqs lossy dup gone ((?ext s)\<lparr>ts_acc := [], ts_table := fold upsert_traffic (take n (ts_acc s)) (ts_table s),
      fl_pending := drop n (ts_acc s), fl_written := take n (ts_acc s)\<rparr>)" for n
    using writes_run [OF taken, of "take n (ts_acc s)" "drop n (ts_acc s)"] by (simp add: exts)
  show ?thesis
  proof (cases "\<exists>n. fails = Some n \<and> n < length (ts_acc s)")
    case True
    then obtain n where "fails = Some n" "n < length (ts_acc s)" by blast
    then show ?thesis using failed [OF written [of n] refl] assms
      by (auto simp: flush_now_def Let_def exts)
  next
    case False
    then have res: "ts_acc s \<noteq> [] \<Longrightarrow> snd (flush_now fails ok now s) =
        purge_traffic ok now (s\<lparr>ts_acc := [], ts_table := fold upsert_traffic (ts_acc s) (ts_table s)\<rparr>)"
      by (auto simp: flush_now_def Let_def split: option.split)
    show ?thesis
    proof (cases "ts_acc s = []")
      case True
      then show ?thesis using assms by (auto simp: flush_now_def)
    next
      case False
      show ?thesis
        using purge [OF written [of "length (ts_acc s)"], of now ok] no_purge [OF written [of "length (ts_acc s)"]] res [OF False]
        by (cases "purge_due now (ts_last_purge s)"; cases ok; simp add: purge_traffic_def exts; blast)
    qed
  qed
qed

section \<open>Witnesses\<close>

definition day_run :: flusher where
  "day_run = \<lparr>ts_acc = [], ts_table = [((0, ''chat'', [], ''2xx''), traffic_cell 0 None)], ts_last_purge = 0, fl_pending = [],
     fl_written = [((0, ''chat'', [], ''2xx''), traffic_cell 0 None)]\<rparr>"

lemma day_run: "traffic_run [((0, ''chat'', [], ''2xx''), traffic_cell 0 None)] False False (- secs 99999999) day_run"
proof -
  let ?k = "traffic_key 0 ''chat/completions'' [] 200" and ?c = "traffic_cell 0 None"
  have k: "?k = (0, ''chat'', [], ''2xx'')" by code_simp
  note r1 = recorded_request [OF start [of "- secs 99999999" 0] refl refl, of 0 "''chat/completions''" "[]" 200 0 None]
  note r2 = take_pending [OF r1]
  note r3 = write_row [OF r2]
  show ?thesis using r3 [of "(?k, ?c)" "[]"] by (simp add: k day_run_def record_acc_def upsert_traffic_def look_def MAX_PENDING_KEYS_def)
qed

theorem traffic_conserved_witness:
  "held day_run (0, ''chat'', [], ''2xx'') = traffic_cell 0 None"
  using traffic_conserved [OF day_run, of "(0, ''chat'', [], ''2xx'')"] by (simp add: secs_def)

theorem dashboard_counts_requests_witness:
  "sum_list (map sp_chat (series 1 ''1J'' (ts_table day_run))) = 1 \<and> fst (tiles 1 (ts_table day_run)) = 1"
proof -
  have "period_of ''1J'' = (24 * 3600, 3600)" by code_simp
  from dashboard_counts_requests [OF day_run _ _ this, of 1] show ?thesis
    by (simp add: day_run_def secs_def is_route_def)
qed

end
