(* ===== verification/LogFilter.thy ===== *)
theory LogFilter
  imports Json "HOL-Library.Multiset"
begin

text \<open>
  \<open>app/logfilters.py\<close>: the filter that keeps probe and polling requests out of the access log, counts what it drops and reports the
  counts from time to time. A run of the filter is a sequence of log records with their arrival times, in the order of the lock.
\<close>

section \<open>Records\<close>

definition PROBE_PATHS :: "string list" where "PROBE_PATHS = [''/livez'', ''/healthz'', ''/readyz'']"
definition POLL_PATHS :: "string list" where "POLL_PATHS = [''/admin/api/config/propagation'']"
definition FILTERED_PATHS :: "string list" where "FILTERED_PATHS = PROBE_PATHS @ POLL_PATHS"

text \<open>\<open>lr_args\<close> is \<open>None\<close> when the arguments are not a tuple, \<open>lr_message\<close> when rendering the message raises.\<close>

record log_record =
  lr_args :: "json list option"
  lr_message :: "string option"

text \<open>\<open>str.split()\<close>: the words between white space.\<close>

fun words_acc :: "string \<Rightarrow> string \<Rightarrow> string list" where
  "words_acc acc [] = (if acc = [] then [] else [rev acc])"
| "words_acc acc (c # cs) =
     (if py_space c then (if acc = [] then words_acc [] cs else rev acc # words_acc [] cs) else words_acc (c # acc) cs)"

definition extract_path :: "log_record \<Rightarrow> string option" where
  "extract_path r =
     (case lr_args r of
        Some (_ # _ # JStr p # _) \<Rightarrow> Some p
      | _ \<Rightarrow>
          (case lr_message r of
             None \<Rightarrow> None
           | Some msg \<Rightarrow>
               (case split_once (CHR 0x22) msg of
                  None \<Rightarrow> None
                | Some (_, rest) \<Rightarrow>
                    (case split_once (CHR 0x22) rest of
                       None \<Rightarrow> None
                     | Some (inside, _) \<Rightarrow> (case words_acc [] inside of _ # w # _ \<Rightarrow> Some w | _ \<Rightarrow> None)))))"

definition match_filtered :: "string option \<Rightarrow> string option" where
  "match_filtered path =
     (case path of
        None \<Rightarrow> None
      | Some s \<Rightarrow> if s = [] then None else find (\<lambda>p. s = p \<or> startswith s (p @ ''?'')) FILTERED_PATHS)"

section \<open>The filter\<close>

record probe_filter =
  pf_counts :: "nat dict"
  pf_interval :: timestamp
  pf_last :: "timestamp option"
  pf_grace :: timestamp
  pf_created :: timestamp

definition init_filter :: "timestamp \<Rightarrow> timestamp \<Rightarrow> timestamp \<Rightarrow> probe_filter" where
  "init_filter interval grace now = \<lparr>pf_counts = [], pf_interval = interval, pf_last = None, pf_grace = grace, pf_created = now\<rparr>"

text \<open>A line of the summary logger: the seconds it covers and the counts in the order of the paths.\<close>

type_synonym summary_line = "int \<times> (string \<times> nat) list"

definition maybe_emit_summary :: "timestamp \<Rightarrow> probe_filter \<Rightarrow> probe_filter \<times> summary_line list" where
  "maybe_emit_summary now s =
     (case pf_last s of
        None \<Rightarrow> (s\<lparr>pf_last := Some now\<rparr>, [])
      | Some t \<Rightarrow>
          if now - t \<ge> pf_interval s \<and> pf_counts s \<noteq> []
          then (s\<lparr>pf_counts := [], pf_last := Some now\<rparr>, [(trunc_secs (now - t), sort_key fst (pf_counts s))])
          else (s, []))"

definition count_hit :: "string \<Rightarrow> nat dict \<Rightarrow> nat dict" where
  "count_hit p d = dset p ((case dget d p of Some n \<Rightarrow> n | None \<Rightarrow> 0) + 1) d"

definition log_filter :: "log_record \<Rightarrow> timestamp \<Rightarrow> probe_filter \<Rightarrow> bool \<times> probe_filter \<times> summary_line list" where
  "log_filter r now s =
     (let hit = match_filtered (extract_path r);
          in_grace = (now - pf_created s < pf_grace s);
          s1 = (case hit of Some p \<Rightarrow> if in_grace then s else s\<lparr>pf_counts := count_hit p (pf_counts s)\<rparr> | None \<Rightarrow> s);
          (s2, out) = maybe_emit_summary now s1
      in (hit = None \<or> in_grace, s2, out))"

section \<open>Runs\<close>

fun filter_run :: "(log_record \<times> timestamp) list \<Rightarrow> probe_filter \<Rightarrow> bool list \<times> probe_filter \<times> summary_line list" where
  "filter_run [] s = ([], s, [])"
| "filter_run ((r, t) # rs) s =
     (let (k, s1, o1) = log_filter r t s; (ks, s2, o2) = filter_run rs s1 in (k # ks, s2, o1 @ o2))"

definition hits_path :: "string \<Rightarrow> log_record \<Rightarrow> bool" where
  "hits_path p r = (match_filtered (extract_path r) = Some p)"

text \<open>How many records of a path were dropped, and how many of them the summaries or the counters report.\<close>

definition dropped :: "string \<Rightarrow> (log_record \<times> timestamp) list \<Rightarrow> bool list \<Rightarrow> nat" where
  "dropped p rs ks = length (filter (\<lambda>((r, t), k). hits_path p r \<and> \<not> k) (zip rs ks))"

definition counted :: "nat dict \<Rightarrow> string \<Rightarrow> nat" where
  "counted d p = sum_list (map (\<lambda>(q, n). if q = p then n else 0) d)"

definition reported :: "summary_line list \<Rightarrow> string \<Rightarrow> nat" where
  "reported ls p = sum_list (map (\<lambda>(_, d). counted d p) ls)"

lemma counted_absent: "p \<notin> fst ` set d \<Longrightarrow> counted d p = 0"
  by (induction d) (auto simp: counted_def)

lemma counted_get: "distinct (map fst d) \<Longrightarrow> counted d p = (case dget d p of Some n \<Rightarrow> n | None \<Rightarrow> 0)"
proof (induction d)
  case (Cons x d)
  obtain q n where x: "x = (q, n)" by fastforce
  have "counted (x # d) p = (if q = p then n else 0) + counted d p" by (simp add: counted_def x)
  then show ?case using Cons counted_absent [of q d] by (auto simp: x dget_def)
qed (simp add: counted_def)

lemma counted_hit:
  assumes "distinct (map fst d)"
  shows "counted (count_hit q d) p = counted d p + (if p = q then 1 else 0)"
  using assms by (simp add: count_hit_def counted_get)

lemma counted_sort: "counted (sort_key fst d) p = counted d p"
  unfolding counted_def by (metis (no_types, lifting) mset_map mset_sort sum_mset_sum_list)

lemma reported_append [simp]: "reported (a @ b) p = reported a p + reported b p"
  by (simp add: reported_def)

lemma emit_conserves:
  assumes "maybe_emit_summary now s = (s', out)"
  shows "counted (pf_counts s') p + reported out p = counted (pf_counts s) p \<and>
    (distinct (map fst (pf_counts s)) \<longrightarrow> distinct (map fst (pf_counts s')))"
  using assms by (auto simp: maybe_emit_summary_def reported_def counted_sort counted_def [of "[]"] split: option.splits if_splits)

lemma log_filter_conserves:
  assumes "log_filter r t s = (k, s', out)" "distinct (map fst (pf_counts s))"
  shows "counted (pf_counts s') p + reported out p = counted (pf_counts s) p + (if hits_path p r \<and> \<not> k then 1 else 0) \<and>
    distinct (map fst (pf_counts s'))"
proof -
  let ?g = "t - pf_created s < pf_grace s"
  let ?s1 = "case match_filtered (extract_path r) of Some p \<Rightarrow> if ?g then s else s\<lparr>pf_counts := count_hit p (pf_counts s)\<rparr> | None \<Rightarrow> s"
  have e: "maybe_emit_summary t ?s1 = (s', out)" "k = (match_filtered (extract_path r) = None \<or> ?g)"
    using assms(1) by (auto simp: log_filter_def Let_def split: prod.splits)
  have "distinct (map fst (pf_counts ?s1))" using assms(2) by (simp add: count_hit_def split: option.split)
  moreover have "counted (pf_counts ?s1) p = counted (pf_counts s) p + (if hits_path p r \<and> \<not> k then 1 else 0)"
    using e(2) by (auto simp: hits_path_def counted_hit [OF assms(2)] split: option.split)
  ultimately show ?thesis using emit_conserves [OF e(1), of p] by simp
qed

section \<open>Properties\<close>

text \<open>The access-log filter loses no count: for every probe or polling path, the records it dropped are exactly the ones
  its summaries reported plus the ones still in its counters, for any sequence of records and times.\<close>

theorem filter_conserves:
  assumes "filter_run rs s = (ks, s', out)" "distinct (map fst (pf_counts s))"
  shows "counted (pf_counts s') p + reported out p = counted (pf_counts s) p + dropped p rs ks"
  using assms
proof (induction rs s arbitrary: ks s' out rule: filter_run.induct)
  case (1 s)
  then show ?case by (simp add: reported_def dropped_def)
next
  case (2 r t rs s)
  obtain k s1 o1 where l: "log_filter r t s = (k, s1, o1)" by (cases "log_filter r t s") auto
  obtain ks2 s2 o2 where f: "filter_run rs s1 = (ks2, s2, o2)" by (cases "filter_run rs s1") auto
  have e: "ks = k # ks2" "s' = s2" "out = o1 @ o2" using "2.prems"(1) l f by simp_all
  note c = log_filter_conserves [OF l "2.prems"(2), of p]
  have "counted (pf_counts s2) p + reported o2 p = counted (pf_counts s1) p + dropped p rs ks2"
    using "2.IH" [OF l [symmetric] refl refl f] c by simp
  moreover have "dropped p ((r, t) # rs) ks = (if hits_path p r \<and> \<not> k then 1 else 0) + dropped p rs ks2"
    by (simp add: e(1) dropped_def)
  ultimately show ?case using c by (simp add: e(2,3))
qed

theorem filter_conserves_witness:
  "(let rs = [(\<lparr>lr_args = Some [JStr ''a'', JStr ''GET'', JStr ''/livez''], lr_message = None\<rparr>, secs 5),
              (\<lparr>lr_args = Some [JStr ''a'', JStr ''GET'', JStr ''/livez?x=1''], lr_message = None\<rparr>, secs 70),
              (\<lparr>lr_args = None, lr_message = Some (CHR 0x22 # ''GET /config HTTP/1.1'' @ [CHR 0x22])\<rparr>, secs 1000)];
        (ks, s', out) = filter_run rs (init_filter (secs 900) (secs 60) 0)
    in ks = [True, False, True] \<and> out = [(995, [(''/livez'', 1)])] \<and>
       counted (pf_counts s') ''/livez'' + reported out ''/livez'' = 0 + dropped ''/livez'' rs ks)"
proof -
  let ?rs = "[(\<lparr>lr_args = Some [JStr ''a'', JStr ''GET'', JStr ''/livez''], lr_message = None\<rparr>, secs 5),
     (\<lparr>lr_args = Some [JStr ''a'', JStr ''GET'', JStr ''/livez?x=1''], lr_message = None\<rparr>, secs 70),
     (\<lparr>lr_args = None, lr_message = Some (CHR 0x22 # ''GET /config HTTP/1.1'' @ [CHR 0x22])\<rparr>, secs 1000)]"
  let ?s = "init_filter (secs 900) (secs 60) 0"
  obtain ks s' out where f: "filter_run ?rs ?s = (ks, s', out)" by (cases "filter_run ?rs ?s") auto
  have v: "fst (filter_run ?rs ?s) = [True, False, True]" "snd (snd (filter_run ?rs ?s)) = [(995, [(''/livez'', 1)])]" by code_simp+
  have "distinct (map fst (pf_counts ?s))" "counted (pf_counts ?s) ''/livez'' = 0" by (simp_all add: init_filter_def counted_def)
  then show ?thesis using filter_conserves [OF f, of "''/livez''"] f v by (simp add: Let_def)
qed

text \<open>Real traffic and everything in the grace period passes.\<close>

lemma real_traffic_kept:
  "fst (log_filter r t s) = (match_filtered (extract_path r) = None \<or> t - pf_created s < pf_grace s)"
  by (simp add: log_filter_def Let_def split: prod.split)

lemma match_filtered_sound:
  "match_filtered path = Some p \<Longrightarrow> p \<in> set FILTERED_PATHS \<and> (path = Some p \<or> (\<exists>q. path = Some (p @ ''?'' @ q)))"
  by (auto simp: match_filtered_def find_Some_iff startswith_iff in_set_conv_nth split: option.splits if_splits)

end
