(* ===== verification/Flags.thy ===== *)
theory Flags
  imports Tokens Uuid
begin

text \<open>
  Feature flags and cohorts: version tuples, platform variants, cohort membership, the flag
  resolution of the config endpoint (all \<open>app/main.py\<close>), the flag catalogue service
  (\<open>app/admin/services/flags.py\<close>) and the cohort service (\<open>app/admin/services/cohorts.py\<close>).
  Tables are lists of rows in the order the database returns them; a fresh \<open>SERIAL\<close> value, the
  clock and the regular-expression matcher (\<open>re_match\<close>, \<open>None\<close> for an invalid pattern) are
  arguments. Length limits of the columns are not modelled.
\<close>

section \<open>Versions\<close>

fun all_some :: "'a option list \<Rightarrow> 'a list option" where
  "all_some [] = Some []"
| "all_some (x # xs) = (case x of None \<Rightarrow> None | Some a \<Rightarrow> map_option ((#) a) (all_some xs))"

definition parse_version_tuple :: "string \<Rightarrow> int list" where
  "parse_version_tuple v = (case all_some (map py_int (split_on (CHR ''.'') v)) of None \<Rightarrow> [0] | Some t \<Rightarrow> t)"

definition infer_platform_variant :: "string \<Rightarrow> string \<Rightarrow> int option \<Rightarrow> string option" where
  "infer_platform_variant ptype pver manifest =
     (if ptype = ''thunderbird'' then
        (let v = parse_version_tuple pver
         in Some (if v < [78, 0, 0] then ''tb60'' else if v < [128, 0, 0] then ''tb78'' else ''tb128''))
      else if ptype \<in> {''chrome'', ''edge''} then
        Some (case manifest of Some m \<Rightarrow> if m \<noteq> 0 then ''mv'' @ str_of_int m else ''mv3'' | None \<Rightarrow> ''mv3'')
      else None)"

section \<open>Tables\<close>

record flag_row =
  ff_id :: int
  ff_name :: string
  ff_plugin_slug :: string
  ff_description :: string
  ff_default_value :: "bool option"
  ff_deprecated :: bool
  ff_min_plugin_version :: "string option"
  ff_updated_at :: timestamp

record override_row =
  fo_feature_id :: int
  fo_cohort_id :: int
  fo_value :: bool
  fo_min_plugin_version :: "string option"
  fo_updated_at :: timestamp

record flag_db =
  feature_flags :: "flag_row list"
  flag_overrides :: "override_row list"

record cohort_row =
  co_id :: int
  co_name :: string
  co_description :: string
  co_type :: string
  co_config :: json

record member_row =
  cm_cohort_id :: int
  cm_type :: string
  cm_value :: string
  cm_added_at :: timestamp

record cohort_db =
  cohorts :: "cohort_row list"
  cohort_members :: "member_row list"

section \<open>Resolution for a device\<close>

text \<open>The cache of group members: expiry and addresses per group.\<close>

type_synonym kc_cache = "(timestamp \<times> string list) dict"

definition cohort_bucket :: "string \<Rightarrow> int" where
  "cohort_bucket cuuid = read_hex 0 (hexdigest (sha256 (utf8_encode cuuid))) mod 100"

definition manual_matched :: "cohort_db \<Rightarrow> string \<Rightarrow> string \<Rightarrow> int \<Rightarrow> bool" where
  "manual_matched db email cuuid cid =
     list_ex (\<lambda>m. cm_cohort_id m = cid \<and>
        ((cm_type m = ''email'' \<and> cm_value m = email) \<or> (cm_type m = ''client_uuid'' \<and> cm_value m = cuuid)))
       (cohort_members db)"

text \<open>\<open>cconfig\<close>: a stored text is decoded, anything undecodable or false is the empty dictionary.\<close>

definition cohort_config :: "json \<Rightarrow> json" where
  "cohort_config c = (let v = (if truthy c then c else JObj [])
     in case v of JStr s \<Rightarrow> (case loads s of None \<Rightarrow> JObj [] | Some j \<Rightarrow> j) | _ \<Rightarrow> v)"

definition kc_lookup :: "timestamp \<Rightarrow> string \<Rightarrow> kc_cache \<Rightarrow> string list \<times> kc_cache" where
  "kc_lookup now g cache = (case dget cache g of
       Some (ex, es) \<Rightarrow> if now < ex then (es, cache) else ([], dset g (now + secs 300, []) cache)
     | None \<Rightarrow> ([], dset g (now + secs 300, []) cache))"

definition cohort_matches ::
  "(string \<Rightarrow> string \<Rightarrow> bool option) \<Rightarrow> timestamp \<Rightarrow> cohort_db \<Rightarrow> string \<Rightarrow> string \<Rightarrow> cohort_row \<Rightarrow> kc_cache
     \<Rightarrow> bool result \<times> kc_cache" where
  "cohort_matches re_match now db email cuuid row cache =
     (let cfg = cohort_config (co_config row)
      in if co_type row = ''manual'' then (Inr (manual_matched db email cuuid (co_id row)), cache)
         else if co_type row = ''percentage'' then
           (bind_result (bind_result (py_get cfg ''percentage'' (JInt 0)) json_int) (\<lambda>pct.
              Inr (pct > 0 \<and> cuuid \<noteq> [] \<and> cohort_bucket cuuid < pct)), cache)
         else if co_type row = ''email_pattern'' then
           (bind_result (py_get cfg ''pattern'' (JStr [])) (\<lambda>p.
              Inr (py_str p \<noteq> [] \<and> re_match (py_str p) email = Some True)), cache)
         else if co_type row = ''keycloak_group'' then
           (case py_get cfg ''group_name'' (JStr []) of
              Inl e \<Rightarrow> (Inl e, cache)
            | Inr g \<Rightarrow>
                if py_str g = [] \<or> email = [] then (Inr False, cache)
                else case kc_lookup now (py_str g) cache of
                  (es, cache') \<Rightarrow> (Inr (lower email \<in> lower ` set es), cache'))
         else (Inr False, cache))"

fun match_cohorts ::
  "(cohort_row \<Rightarrow> kc_cache \<Rightarrow> bool result \<times> kc_cache) \<Rightarrow> cohort_row list \<Rightarrow> kc_cache \<Rightarrow> int list result \<times> kc_cache" where
  "match_cohorts f [] cache = (Inr [], cache)"
| "match_cohorts f (r # rs) cache =
     (case f r cache of
        (Inl e, c1) \<Rightarrow> (Inl e, c1)
      | (Inr b, c1) \<Rightarrow>
          (case match_cohorts f rs c1 of
             (Inl e, c2) \<Rightarrow> (Inl e, c2)
           | (Inr ids, c2) \<Rightarrow> (Inr (if b then co_id r # ids else ids), c2)))"

definition resolve_device_cohorts ::
  "(string \<Rightarrow> string \<Rightarrow> bool option) \<Rightarrow> timestamp \<Rightarrow> cohort_db \<Rightarrow> string \<Rightarrow> string \<Rightarrow> kc_cache
     \<Rightarrow> int list result \<times> kc_cache" where
  "resolve_device_cohorts re_match now db email cuuid cache =
     match_cohorts (cohort_matches re_match now db email cuuid) (cohorts db) cache"

text \<open>The rows the join of overrides and flags returns: name, value and the two gates.\<close>

definition override_rows :: "flag_db \<Rightarrow> int list \<Rightarrow> string \<Rightarrow> (string \<times> bool \<times> string option \<times> string option) list" where
  "override_rows db cohort_ids slug =
     concat (map (\<lambda>ov.
       map (\<lambda>f. (ff_name f, fo_value ov, fo_min_plugin_version ov, ff_min_plugin_version f))
         (filter (\<lambda>f. ff_id f = fo_feature_id ov \<and> fo_cohort_id ov \<in> set cohort_ids \<and> \<not> ff_deprecated f \<and>
                      ff_plugin_slug f \<in> {[], slug}) (feature_flags db))) (flag_overrides db))"

definition gated :: "string \<Rightarrow> string option \<Rightarrow> bool" where
  "gated pv min_pv = (case min_pv of
       None \<Rightarrow> False
     | Some m \<Rightarrow> if m = [] then False else if pv = [] then True else parse_version_tuple pv < parse_version_tuple m)"

fun merge_overrides :: "string \<Rightarrow> (string \<times> bool \<times> string option \<times> string option) list \<Rightarrow> bool dict \<Rightarrow> bool dict" where
  "merge_overrides pv [] flags = flags"
| "merge_overrides pv ((name, v, omin, fmin) # rows) flags =
     merge_overrides pv rows
       (if gated pv fmin \<or> gated pv omin then flags
        else dset name ((case dget flags name of None \<Rightarrow> True | Some b \<Rightarrow> b) \<and> v) flags)"

definition resolve_feature_flags :: "flag_db \<Rightarrow> int list \<Rightarrow> string \<Rightarrow> string \<Rightarrow> bool dict" where
  "resolve_feature_flags db cohort_ids pv slug =
     (if cohort_ids = [] then [] else merge_overrides pv (override_rows db cohort_ids slug) [])"

definition resolve_forced_flags :: "flag_db \<Rightarrow> string \<Rightarrow> string \<Rightarrow> bool dict" where
  "resolve_forced_flags db pv slug =
     fold (\<lambda>f out. case ff_default_value f of
         None \<Rightarrow> out
       | Some v \<Rightarrow> if gated pv (ff_min_plugin_version f) then out else dset (ff_name f) v out)
       (filter (\<lambda>f. ff_default_value f \<noteq> None \<and> \<not> ff_deprecated f \<and> ff_plugin_slug f \<in> {[], slug}) (feature_flags db)) []"

section \<open>Installations\<close>

record install_row =
  pi_plugin_id :: int
  pi_client_uuid :: string
  pi_email :: string
  pi_version :: string
  pi_status :: string
  pi_last_seen_at :: timestamp

definition nonempty_or :: "string \<Rightarrow> string \<Rightarrow> string" where
  "nonempty_or new old = (if new = [] then old else new)"

definition upsert_plugin_installation ::
  "timestamp \<Rightarrow> int \<Rightarrow> string \<Rightarrow> string \<Rightarrow> string \<Rightarrow> install_row list \<Rightarrow> install_row list" where
  "upsert_plugin_installation now pid cuuid email version rows =
     (if pid = 0 \<or> cuuid = [] \<or> version = [] then rows
      else if list_ex (\<lambda>r. pi_plugin_id r = pid \<and> pi_client_uuid r = cuuid) rows
      then map (\<lambda>r. if pi_plugin_id r = pid \<and> pi_client_uuid r = cuuid
                    then r\<lparr>pi_version := nonempty_or version (pi_version r), pi_email := nonempty_or email (pi_email r),
                           pi_last_seen_at := now, pi_status := ''active''\<rparr> else r) rows
      else rows @ [\<lparr>pi_plugin_id = pid, pi_client_uuid = cuuid, pi_email = email, pi_version = version,
                     pi_status = ''active'', pi_last_seen_at = now\<rparr>])"

section \<open>The flag catalogue\<close>

definition flag_state :: "bool option \<Rightarrow> string" where
  "flag_state v = (case v of None \<Rightarrow> ''transparent'' | Some b \<Rightarrow> if b then ''forced_on'' else ''forced_off'')"

definition list_flags :: "flag_db \<Rightarrow> (flag_row \<times> nat \<times> string) list" where
  "list_flags db = map (\<lambda>f. (f, length (filter (\<lambda>ov. fo_feature_id ov = ff_id f) (flag_overrides db)), flag_state (ff_default_value f)))
     (sort_key (\<lambda>f. (ff_plugin_slug f, ff_name f)) (feature_flags db))"

definition get_flag :: "flag_db \<Rightarrow> int \<Rightarrow> (flag_row \<times> string) option" where
  "get_flag db fid = map_option (\<lambda>f. (f, flag_state (ff_default_value f))) (find (\<lambda>f. ff_id f = fid) (feature_flags db))"

definition get_flag_overrides :: "flag_db \<Rightarrow> cohort_db \<Rightarrow> int \<Rightarrow> (override_row \<times> string) list" where
  "get_flag_overrides db cdb fid =
     sort_key snd (concat (map (\<lambda>ov. map (\<lambda>c. (ov, co_name c)) (filter (\<lambda>c. co_id c = fo_cohort_id ov) (cohorts cdb)))
       (filter (\<lambda>ov. fo_feature_id ov = fid) (flag_overrides db))))"

definition create_flag ::
  "timestamp \<Rightarrow> int \<Rightarrow> string \<Rightarrow> string \<Rightarrow> bool option \<Rightarrow> string \<Rightarrow> string option \<Rightarrow> flag_db \<Rightarrow> (int \<times> flag_db) result" where
  "create_flag now fid name desc v slug minv db =
     (if list_ex (\<lambda>f. ff_plugin_slug f = slug \<and> ff_name f = name) (feature_flags db) then Inl UniqueViolation
      else Inr (fid, db\<lparr>feature_flags := feature_flags db @
        [\<lparr>ff_id = fid, ff_name = name, ff_plugin_slug = slug, ff_description = desc, ff_default_value = v,
          ff_deprecated = False, ff_min_plugin_version = (case minv of Some [] \<Rightarrow> None | m \<Rightarrow> m), ff_updated_at = now\<rparr>]\<rparr>))"

definition update_flag_default :: "timestamp \<Rightarrow> int \<Rightarrow> bool option \<Rightarrow> flag_db \<Rightarrow> bool \<times> flag_db" where
  "update_flag_default now fid v db =
     (list_ex (\<lambda>f. ff_id f = fid) (feature_flags db),
      db\<lparr>feature_flags := map (\<lambda>f. if ff_id f = fid then f\<lparr>ff_default_value := v, ff_updated_at := now\<rparr> else f) (feature_flags db)\<rparr>)"

definition create_override ::
  "timestamp \<Rightarrow> cohort_db \<Rightarrow> int \<Rightarrow> int \<Rightarrow> bool \<Rightarrow> string option \<Rightarrow> flag_db \<Rightarrow> flag_db result" where
  "create_override now cdb fid cid v minv db =
     (if \<not> list_ex (\<lambda>f. ff_id f = fid) (feature_flags db) \<or> \<not> list_ex (\<lambda>c. co_id c = cid) (cohorts cdb)
      then Inl DatabaseError
      else if list_ex (\<lambda>ov. fo_feature_id ov = fid \<and> fo_cohort_id ov = cid) (flag_overrides db)
      then Inr (db\<lparr>flag_overrides := map (\<lambda>ov. if fo_feature_id ov = fid \<and> fo_cohort_id ov = cid
              then ov\<lparr>fo_value := v, fo_min_plugin_version := minv, fo_updated_at := now\<rparr> else ov) (flag_overrides db)\<rparr>)
      else Inr (db\<lparr>flag_overrides := flag_overrides db @
              [\<lparr>fo_feature_id = fid, fo_cohort_id = cid, fo_value = v, fo_min_plugin_version = minv, fo_updated_at = now\<rparr>]\<rparr>))"

definition delete_override :: "int \<Rightarrow> int \<Rightarrow> flag_db \<Rightarrow> bool \<times> flag_db" where
  "delete_override fid cid db =
     (list_ex (\<lambda>ov. fo_feature_id ov = fid \<and> fo_cohort_id ov = cid) (flag_overrides db),
      db\<lparr>flag_overrides := filter (\<lambda>ov. \<not> (fo_feature_id ov = fid \<and> fo_cohort_id ov = cid)) (flag_overrides db)\<rparr>)"

definition delete_flag :: "int \<Rightarrow> flag_db \<Rightarrow> bool \<times> flag_db" where
  "delete_flag fid db =
     (list_ex (\<lambda>f. ff_id f = fid) (feature_flags db),
      db\<lparr>feature_flags := filter (\<lambda>f. ff_id f \<noteq> fid) (feature_flags db),
         flag_overrides := filter (\<lambda>ov. fo_feature_id ov \<noteq> fid) (flag_overrides db)\<rparr>)"

section \<open>Reconciliation with a template\<close>

definition toggles :: "json \<Rightarrow> json dict" where
  "toggles section = (case section of
       JObj d \<Rightarrow> (case dget d ''featureToggles'' of Some (JObj t) \<Rightarrow> t | _ \<Rightarrow> []) | _ \<Rightarrow> [])"

definition setdefault :: "string \<Rightarrow> 'v \<Rightarrow> 'v dict \<Rightarrow> 'v dict" where
  "setdefault k v d = (if dget d k = None then dset k v d else d)"

definition template_names :: "json \<Rightarrow> bool dict" where
  "template_names template = (case template of
       JObj t \<Rightarrow>
         (let names = fold (\<lambda>(_, sec) acc. fold (\<lambda>(k, v) a. setdefault k (truthy v) a) (toggles sec) acc) t []
          in fold (\<lambda>(k, v) a. dset k (truthy v) a) (toggles (jget t ''default'')) names)
     | _ \<Rightarrow> [])"

record reconcile_diff =
  df_added :: "string list"
  df_kept :: "string list"
  df_reactivated :: "string list"
  df_orphaned :: "string list"
  df_already_deprecated :: "string list"

definition import_description :: "string \<Rightarrow> string" where
  "import_description slug = ''Import'' @ [CHR 0xE9] @ '' du template '' @ slug"

text \<open>One \<open>INSERT ... ON CONFLICT (plugin_slug, name) DO UPDATE SET deprecated = false\<close>; \<open>ids\<close> draws
  the identifiers.\<close>

definition import_flag :: "timestamp \<Rightarrow> (string \<Rightarrow> int) \<Rightarrow> string \<Rightarrow> string \<Rightarrow> flag_row list \<Rightarrow> flag_row list" where
  "import_flag now ids slug name rows =
     (if list_ex (\<lambda>f. ff_plugin_slug f = slug \<and> ff_name f = name) rows
      then map (\<lambda>f. if ff_plugin_slug f = slug \<and> ff_name f = name
                    then f\<lparr>ff_deprecated := False, ff_updated_at := now\<rparr> else f) rows
      else rows @ [\<lparr>ff_id = ids name, ff_name = name, ff_plugin_slug = slug, ff_description = import_description slug,
                     ff_default_value = None, ff_deprecated = False, ff_min_plugin_version = None, ff_updated_at = now\<rparr>])"

definition reconcile_catalog_from_template ::
  "timestamp \<Rightarrow> (string \<Rightarrow> int) \<Rightarrow> string \<Rightarrow> json \<Rightarrow> flag_db \<Rightarrow> reconcile_diff \<times> flag_db" where
  "reconcile_catalog_from_template now ids slug template db =
     (let names = sort (map fst (template_names template));
          existing = fold (\<lambda>f d. dset (ff_name f) (ff_deprecated f) d)
                       (filter (\<lambda>f. ff_plugin_slug f = slug) (feature_flags db)) [];
          rows = fold (import_flag now ids slug) names (feature_flags db);
          orphaned = sort (map fst (filter (\<lambda>(n, dep). n \<notin> set names \<and> \<not> dep) existing));
          rows' = map (\<lambda>f. if ff_plugin_slug f = slug \<and> ff_name f \<in> set orphaned
                           then f\<lparr>ff_deprecated := True, ff_updated_at := now\<rparr> else f) rows
      in (\<lparr>df_added = filter (\<lambda>n. dget existing n = None) names,
           df_kept = filter (\<lambda>n. dget existing n = Some False) names,
           df_reactivated = filter (\<lambda>n. dget existing n = Some True) names,
           df_orphaned = orphaned,
           df_already_deprecated = sort (map fst (filter (\<lambda>(n, dep). n \<notin> set names \<and> dep) existing))\<rparr>,
          db\<lparr>feature_flags := rows'\<rparr>))"

section \<open>Cohorts\<close>

definition list_cohorts :: "cohort_db \<Rightarrow> (cohort_row \<times> nat) list" where
  "list_cohorts db = map (\<lambda>c. (c, length (filter (\<lambda>m. cm_cohort_id m = co_id c) (cohort_members db)))) (sort_key co_name (cohorts db))"

definition get_cohort :: "cohort_db \<Rightarrow> int \<Rightarrow> cohort_row option" where
  "get_cohort db cid = find (\<lambda>c. co_id c = cid) (cohorts db)"

definition get_cohort_members :: "cohort_db \<Rightarrow> int \<Rightarrow> nat \<Rightarrow> nat \<Rightarrow> member_row list" where
  "get_cohort_members db cid limit offset =
     take limit (drop offset (sort_key (\<lambda>m. - cm_added_at m) (filter (\<lambda>m. cm_cohort_id m = cid) (cohort_members db))))"

definition create_cohort :: "int \<Rightarrow> string \<Rightarrow> string \<Rightarrow> string \<Rightarrow> json \<Rightarrow> cohort_db \<Rightarrow> (int \<times> cohort_db) result" where
  "create_cohort cid name desc ctype config db =
     (if list_ex (\<lambda>c. co_name c = name) (cohorts db) then Inl UniqueViolation
      else if ctype \<notin> {''manual'', ''percentage'', ''email_pattern'', ''keycloak_group''} then Inl DatabaseError
      else Inr (cid, db\<lparr>cohorts := cohorts db @ [\<lparr>co_id = cid, co_name = name, co_description = desc, co_type = ctype,
             co_config = (if truthy config then config else JObj [])\<rparr>]\<rparr>))"

fun add_members :: "timestamp \<Rightarrow> int \<Rightarrow> (string \<times> string) list \<Rightarrow> cohort_db \<Rightarrow> (nat \<times> cohort_db) result" where
  "add_members now cid [] db = Inr (0, db)"
| "add_members now cid ((ty, v) # ms) db =
     (if \<not> list_ex (\<lambda>c. co_id c = cid) (cohorts db) \<or> ty \<notin> {''email'', ''client_uuid''} then Inl DatabaseError
      else if list_ex (\<lambda>m. cm_cohort_id m = cid \<and> cm_type m = ty \<and> cm_value m = strip v) (cohort_members db)
      then add_members now cid ms db
      else bind_result (add_members now cid ms (db\<lparr>cohort_members := cohort_members db @
             [\<lparr>cm_cohort_id = cid, cm_type = ty, cm_value = strip v, cm_added_at = now\<rparr>]\<rparr>)) (\<lambda>(n, d). Inr (n + 1, d)))"

text \<open>Members and overrides follow by cascade; a campaign or communication that targets the cohort
  (\<open>referenced\<close>) blocks the deletion.\<close>

definition delete_cohort :: "bool \<Rightarrow> int \<Rightarrow> cohort_db \<Rightarrow> flag_db \<Rightarrow> (bool \<times> cohort_db \<times> flag_db) result" where
  "delete_cohort referenced cid db fdb =
     (if \<not> list_ex (\<lambda>c. co_id c = cid) (cohorts db) then Inr (False, db, fdb)
      else if referenced then Inl DatabaseError
      else Inr (True,
        db\<lparr>cohorts := filter (\<lambda>c. co_id c \<noteq> cid) (cohorts db),
           cohort_members := filter (\<lambda>m. cm_cohort_id m \<noteq> cid) (cohort_members db)\<rparr>,
        fdb\<lparr>flag_overrides := filter (\<lambda>ov. fo_cohort_id ov \<noteq> cid) (flag_overrides fdb)\<rparr>))"

text \<open>\<open>round(total * pct / 100)\<close>: Python rounds halves to the even neighbour.\<close>

definition round_half_even :: "int \<Rightarrow> int \<Rightarrow> int" where
  "round_half_even a b = (let q = a div b; r = a mod b in
     if 2 * r < b then q else if 2 * r > b then q + 1 else if even q then q else q + 1)"

text \<open>\<open>devices\<close> and \<open>matching\<close> are the two counts over \<open>device_connections\<close>.\<close>

definition estimate_device_count :: "string \<Rightarrow> string \<Rightarrow> int \<Rightarrow> int \<Rightarrow> int" where
  "estimate_device_count ctype v devices matching =
     (if ctype = ''percentage'' then round_half_even (devices * (case py_int v of None \<Rightarrow> 0 | Some p \<Rightarrow> p)) 100
      else if ctype = ''email_pattern'' then matching else 0)"

section \<open>Lemmas\<close>

lemma all_some_map: "all_some (map (Some \<circ> f) xs) = Some (map f xs)"
  by (induction xs) auto

lemma no_dot_int: "CHR ''.'' \<notin> set (str_of_int n)"
proof -
  have "\<not> is_digit (CHR ''.'')" by (simp add: is_digit_def)
  then have "CHR ''.'' \<notin> set (nat_digits m)" for m
    using nat_digits_digits by blast
  then show ?thesis by (simp add: str_of_int_def)
qed

definition applicable :: "string \<Rightarrow> string \<Rightarrow> (string \<times> bool \<times> string option \<times> string option) list
    \<Rightarrow> (string \<times> bool \<times> string option \<times> string option) list" where
  "applicable pv name rows = filter (\<lambda>(n, v, omin, fmin). n = name \<and> \<not> gated pv fmin \<and> \<not> gated pv omin) rows"

lemma merge_overrides_get:
  "dget (merge_overrides pv rows flags) name =
     (if applicable pv name rows = [] then dget flags name
      else Some ((case dget flags name of None \<Rightarrow> True | Some b \<Rightarrow> b) \<and>
                 list_all (\<lambda>(n, v, _). v) (applicable pv name rows)))"
  by (induction pv rows flags rule: merge_overrides.induct) (auto simp: applicable_def split: option.split)

definition refresh :: "timestamp \<Rightarrow> string \<Rightarrow> string set \<Rightarrow> flag_row \<Rightarrow> flag_row" where
  "refresh now slug ns f = (if ff_plugin_slug f = slug \<and> ff_name f \<in> ns
     then f\<lparr>ff_deprecated := False, ff_updated_at := now\<rparr> else f)"

definition fresh_flag :: "timestamp \<Rightarrow> (string \<Rightarrow> int) \<Rightarrow> string \<Rightarrow> string \<Rightarrow> flag_row" where
  "fresh_flag now ids slug n = \<lparr>ff_id = ids n, ff_name = n, ff_plugin_slug = slug, ff_description = import_description slug,
     ff_default_value = None, ff_deprecated = False, ff_min_plugin_version = None, ff_updated_at = now\<rparr>"

definition has_flag :: "string \<Rightarrow> flag_row list \<Rightarrow> string \<Rightarrow> bool" where
  "has_flag slug rows n = list_ex (\<lambda>f. ff_plugin_slug f = slug \<and> ff_name f = n) rows"

lemma refresh_simps [simp]:
  "ff_name (refresh now slug ns f) = ff_name f" "ff_plugin_slug (refresh now slug ns f) = ff_plugin_slug f"
  "ff_default_value (refresh now slug ns f) = ff_default_value f" "ff_id (refresh now slug ns f) = ff_id f"
  "ff_description (refresh now slug ns f) = ff_description f"
  "ff_min_plugin_version (refresh now slug ns f) = ff_min_plugin_version f"
  by (simp_all add: refresh_def)

lemma fresh_flag_simps [simp]:
  "ff_name (fresh_flag now ids slug n) = n" "ff_plugin_slug (fresh_flag now ids slug n) = slug"
  "\<not> ff_deprecated (fresh_flag now ids slug n)" "ff_default_value (fresh_flag now ids slug n) = None"
  by (simp_all add: fresh_flag_def)

lemma has_flag_map [simp]: "has_flag slug (map (refresh now s ns) rows) n = has_flag slug rows n"
  by (simp add: has_flag_def list_ex_iff)

lemma has_flag_snoc [simp]: "has_flag slug (rows @ [fresh_flag now ids slug m]) n = (has_flag slug rows n \<or> m = n)"
  by (auto simp: has_flag_def)

lemma import_flag_cases:
  "import_flag now ids slug n rows =
     (if has_flag slug rows n then map (refresh now slug {n}) rows else rows @ [fresh_flag now ids slug n])"
  by (auto simp: import_flag_def has_flag_def refresh_def fresh_flag_def)

lemma refresh_refresh: "refresh now slug ns (refresh now slug {n} f) = refresh now slug (insert n ns) f"
  by (auto simp: refresh_def)

lemma refresh_miss: "\<not> has_flag slug rows n \<Longrightarrow> map (refresh now slug (insert n ns)) rows = map (refresh now slug ns) rows"
  by (auto simp: refresh_def has_flag_def list_ex_iff)

lemma fold_import:
  "distinct names \<Longrightarrow> fold (import_flag now ids slug) names rows =
     map (refresh now slug (set names)) rows @ map (fresh_flag now ids slug) (filter (\<lambda>n. \<not> has_flag slug rows n) names)"
proof (induction names arbitrary: rows)
  case Nil
  have "refresh now slug {} = id" by (auto simp: refresh_def)
  then show ?case by simp
next
  case (Cons n ns)
  have d: "distinct ns" "n \<notin> set ns" using Cons.prems by auto
  show ?case
  proof (cases "has_flag slug rows n")
    case True
    then show ?thesis
      using Cons.IH [OF d(1)] by (simp add: import_flag_cases refresh_refresh comp_def)
  next
    case False
    have "refresh now slug (set ns) (fresh_flag now ids slug n) = fresh_flag now ids slug n"
      using d(2) by (simp add: refresh_def)
    moreover have "filter (\<lambda>m. \<not> (has_flag slug rows m \<or> n = m)) ns = filter (\<lambda>m. \<not> has_flag slug rows m) ns"
      using d(2) by (intro filter_cong) auto
    ultimately show ?thesis
      using False Cons.IH [OF d(1)] refresh_miss [OF False] by (simp add: import_flag_cases)
  qed
qed

lemma existing_get:
  fixes rows :: "flag_row list"
  assumes "distinct (map (\<lambda>f. (ff_plugin_slug f, ff_name f)) rows)" "f \<in> set rows" "ff_plugin_slug f = slug"
  shows "dget (fold (\<lambda>f d. dset (ff_name f) (ff_deprecated f) d) (filter (\<lambda>f. ff_plugin_slug f = slug) rows) acc)
    (ff_name f) = Some (ff_deprecated f)"
proof -
  let ?g = "\<lambda>f. dset (ff_name f) (ff_deprecated f)"
  have keep: "dget (fold ?g xs acc) n = dget acc n" if "n \<notin> ff_name ` set xs" for xs :: "flag_row list" and n acc
    using that by (induction xs arbitrary: acc) auto
  have "dget (fold ?g xs acc) (ff_name f) = Some (ff_deprecated f)"
    if "distinct (map ff_name xs)" "f \<in> set xs" for xs acc
    using that
  proof (induction xs arbitrary: acc)
    case (Cons x xs)
    show ?case
    proof (cases "f = x")
      case True
      then have "ff_name f \<notin> ff_name ` set xs" using Cons.prems by auto
      then show ?thesis using True by (simp add: keep)
    next
      case False
      then show ?thesis using Cons by simp
    qed
  qed simp
  moreover have "distinct (map ff_name (filter (\<lambda>f. ff_plugin_slug f = slug) rows))"
    using assms(1) by (auto simp: distinct_map inj_on_def)
  ultimately show ?thesis using assms(2,3) by simp
qed

lemma existing_keys:
  "fst ` set (fold (\<lambda>f d. dset (ff_name f) (ff_deprecated f) d) xs acc) = ff_name ` set xs \<union> fst ` set acc"
  by (induction xs arbitrary: acc) (auto simp: fst_dset)

lemma distinct_existing:
  "distinct (map fst acc) \<Longrightarrow> distinct (map fst (fold (\<lambda>f d. dset (ff_name f) (ff_deprecated f) d) xs acc))"
  by (induction xs arbitrary: acc) auto

lemma distinct_template_names: "distinct (map fst (template_names template))"
proof -
  have "distinct (map fst (fold (\<lambda>(k, v) a. setdefault k (truthy v) a) t a))"
    if "distinct (map fst a)" for t :: "json dict" and a :: "bool dict"
    using that by (induction t arbitrary: a) (auto simp: setdefault_def)
  then have sections: "distinct (map fst (fold (\<lambda>(_, sec) acc. fold (\<lambda>(k, v) a. setdefault k (truthy v) a) (toggles sec) acc) t a))"
    if "distinct (map fst a)" for t :: "json dict" and a :: "bool dict"
    using that by (induction t arbitrary: a) auto
  have "distinct (map fst (fold (\<lambda>(k, v) a. dset k (truthy v) a) t a))"
    if "distinct (map fst a)" for t :: "json dict" and a :: "bool dict"
    using that by (induction t arbitrary: a) auto
  then show ?thesis
    using sections [of "[]"] by (auto simp: template_names_def Let_def split: json.split)
qed

definition flag_identity :: "flag_row \<Rightarrow> int \<times> string \<times> string \<times> string \<times> bool option \<times> string option" where
  "flag_identity f = (ff_id f, ff_name f, ff_plugin_slug f, ff_description f, ff_default_value f, ff_min_plugin_version f)"

definition active_names :: "string \<Rightarrow> flag_row list \<Rightarrow> string set" where
  "active_names slug rows = {ff_name f | f. f \<in> set rows \<and> ff_plugin_slug f = slug \<and> \<not> ff_deprecated f}"

text \<open>The rows reconciliation leaves: one refreshed row per old row, then the fresh ones.\<close>

definition settle_flag :: "timestamp \<Rightarrow> string \<Rightarrow> string set \<Rightarrow> flag_row \<Rightarrow> flag_row" where
  "settle_flag now slug names f =
     (if ff_plugin_slug f \<noteq> slug then f
      else if ff_name f \<in> names then f\<lparr>ff_deprecated := False, ff_updated_at := now\<rparr>
      else if ff_deprecated f then f else f\<lparr>ff_deprecated := True, ff_updated_at := now\<rparr>)"

lemma dget_distinct: "distinct (map fst d) \<Longrightarrow> dget d k = Some v \<longleftrightarrow> (k, v) \<in> set d"
  unfolding dget_def by simp

lemma reconcile_rows:
  fixes db :: flag_db and template :: json
  assumes u: "distinct (map (\<lambda>f. (ff_plugin_slug f, ff_name f)) (feature_flags db))"
  defines "names \<equiv> sort (map fst (template_names template))"
  shows "feature_flags (snd (reconcile_catalog_from_template now ids slug template db)) =
    map (settle_flag now slug (set names)) (feature_flags db) @
    map (fresh_flag now ids slug) (filter (\<lambda>n. \<not> has_flag slug (feature_flags db) n) names)"
proof -
  define existing where "existing = fold (\<lambda>f d. dset (ff_name f) (ff_deprecated f) d)
    (filter (\<lambda>f. ff_plugin_slug f = slug) (feature_flags db)) []"
  define orphans where "orphans = set (map fst (filter (\<lambda>(n, dep). n \<notin> set names \<and> \<not> dep) existing))"
  have dn: "distinct names" unfolding names_def by (simp add: distinct_template_names)
  have de: "distinct (map fst existing)" unfolding existing_def by (simp add: distinct_existing)
  have orph: "ff_name f \<in> orphans \<longleftrightarrow> ff_name f \<notin> set names \<and> \<not> ff_deprecated f"
    if "f \<in> set (feature_flags db)" "ff_plugin_slug f = slug" for f
  proof -
    have "dget existing (ff_name f) = Some (ff_deprecated f)"
      unfolding existing_def by (rule existing_get [OF u that])
    then have "(ff_name f, b) \<in> set existing \<longleftrightarrow> b = ff_deprecated f" for b
      by (auto simp: dget_distinct [OF de, symmetric])
    moreover have "ff_name f \<in> orphans \<longleftrightarrow> (\<exists>b. (ff_name f, b) \<in> set existing \<and> ff_name f \<notin> set names \<and> \<not> b)"
      unfolding orphans_def by (auto simp: image_iff)
    ultimately show ?thesis by simp
  qed
  have fresh: "n \<notin> orphans" if "n \<in> set names" for n using that unfolding orphans_def by auto
  let ?mark = "\<lambda>f. if ff_plugin_slug f = slug \<and> ff_name f \<in> orphans then f\<lparr>ff_deprecated := True, ff_updated_at := now\<rparr> else f"
  have old: "?mark (refresh now slug (set names) f) = settle_flag now slug (set names) f" if "f \<in> set (feature_flags db)" for f
    using orph [OF that] fresh [of "ff_name f"] by (simp add: refresh_def settle_flag_def)
  have new: "?mark (fresh_flag now ids slug n) = fresh_flag now ids slug n" if "n \<in> set names" for n
    using fresh [OF that] by simp
  have "feature_flags (snd (reconcile_catalog_from_template now ids slug template db)) =
    map ?mark (fold (import_flag now ids slug) names (feature_flags db))"
    by (simp add: reconcile_catalog_from_template_def Let_def names_def existing_def orphans_def)
  then show ?thesis using old new by (simp add: fold_import [OF dn])
qed

lemma flag_identity_settle [simp]: "flag_identity (settle_flag now slug ns f) = flag_identity f"
  by (simp add: flag_identity_def settle_flag_def)

lemma settle_flag_key [simp]:
  "ff_name (settle_flag now slug ns f) = ff_name f" "ff_plugin_slug (settle_flag now slug ns f) = ff_plugin_slug f"
  by (simp_all add: settle_flag_def)

lemma settle_flag_active: "ff_plugin_slug f = slug \<Longrightarrow> ff_deprecated (settle_flag now slug ns f) \<longleftrightarrow> ff_name f \<notin> ns"
  by (simp add: settle_flag_def)

lemma settle_flag_other: "ff_plugin_slug f \<noteq> slug \<Longrightarrow> settle_flag now slug ns f = f"
  by (simp add: settle_flag_def)

lemma reconcile_active_names:
  fixes rows :: "flag_row list"
  shows "active_names slug (map (settle_flag now slug (set names)) rows @
     map (fresh_flag now ids slug) (filter (\<lambda>n. \<not> has_flag slug rows n) names)) = set names"
  (is "?A = _")
proof
  show "?A \<subseteq> set names"
  proof
    fix n assume "n \<in> ?A"
    then obtain f where f: "n = ff_name f" "ff_plugin_slug f = slug" "\<not> ff_deprecated f"
      "(\<exists>g \<in> set rows. f = settle_flag now slug (set names) g) \<or> (\<exists>m \<in> set names. f = fresh_flag now ids slug m)"
      unfolding active_names_def by auto
    then show "n \<in> set names"
      using settle_flag_active [of _ slug now "set names"] by (metis fresh_flag_simps(1) settle_flag_key(1) settle_flag_key(2))
  qed
  show "set names \<subseteq> ?A"
  proof
    fix n assume n: "n \<in> set names"
    show "n \<in> ?A"
    proof (cases "has_flag slug rows n")
      case True
      then obtain f where f: "f \<in> set rows" "ff_plugin_slug f = slug" "ff_name f = n"
        by (auto simp: has_flag_def list_ex_iff)
      then have "settle_flag now slug (set names) f \<in> set (map (settle_flag now slug (set names)) rows)" by simp
      then show ?thesis unfolding active_names_def using f n settle_flag_active [OF f(2)]
        by (intro CollectI exI [of _ "settle_flag now slug (set names) f"]) simp
    next
      case False
      then show ?thesis unfolding active_names_def using n
        by (intro CollectI exI [of _ "fresh_flag now ids slug n"]) simp
    qed
  qed
qed

lemma filter_settle_other:
  "filter (\<lambda>f. ff_plugin_slug f \<noteq> slug) (map (settle_flag now slug ns) rows) = filter (\<lambda>f. ff_plugin_slug f \<noteq> slug) rows"
  by (induction rows) (simp_all add: settle_flag_other)

section \<open>Properties\<close>

text \<open>A dotted version number is read back as its components, so versions compare
  component by component as integers; a missing component counts as smaller than zero
  (\<open>1.2\<close> is before \<open>1.2.0\<close>) and an unreadable version is the single component zero.\<close>

theorem version_roundtrip:
  "(vs \<noteq> [] \<longrightarrow> parse_version_tuple (join_with ''.'' (map str_of_int vs)) = vs) \<and>
   (all_some (map py_int (split_on (CHR ''.'') s)) = None \<longrightarrow> parse_version_tuple s = [0]) \<and>
   parse_version_tuple ''1.2'' < parse_version_tuple ''1.2.0''"
proof (intro conjI impI)
  assume "vs \<noteq> []"
  then have "split_on (CHR ''.'') (join_with ''.'' (map str_of_int vs)) = map str_of_int vs"
    using split_on_join [of "map str_of_int vs" "CHR ''.''"] by (simp add: no_dot_int)
  then show "parse_version_tuple (join_with ''.'' (map str_of_int vs)) = vs"
    using all_some_map [of "\<lambda>v. v" vs] by (simp add: parse_version_tuple_def comp_def)
next
  show "parse_version_tuple ''1.2'' < parse_version_tuple ''1.2.0''" by code_simp
qed (simp add: parse_version_tuple_def)

theorem version_roundtrip_witness:
  "parse_version_tuple (join_with ''.'' (map str_of_int [1, 20, 3])) = [1, 20, 3]"
  using version_roundtrip [where vs = "[1, 20, 3]"] by simp

text \<open>The flags of a device: a flag is reported exactly when at least one override of
  the device's cohorts applies (flag active, in the plugin's scope, neither version gate closed), and
  its value is the conjunction of all applicable overrides, in whatever order the rows come: a single
  false wins. A forced flag is reported only if an active flag row in scope carries that value.\<close>

theorem flags_false_wins:
  "dget (resolve_feature_flags db ids pv slug) name =
     (let rows = applicable pv name (override_rows db ids slug)
      in if rows = [] then None else Some (list_all (\<lambda>(n, v, _). v) rows)) \<and>
   (dget (resolve_forced_flags db pv slug) name = Some b \<longrightarrow>
      (\<exists>f \<in> set (feature_flags db). ff_name f = name \<and> ff_default_value f = Some b \<and> \<not> ff_deprecated f \<and>
         ff_plugin_slug f \<in> {[], slug} \<and> \<not> gated pv (ff_min_plugin_version f)))"
proof
  have "override_rows db [] slug = []" by (simp add: override_rows_def)
  then show "dget (resolve_feature_flags db ids pv slug) name =
     (let rows = applicable pv name (override_rows db ids slug)
      in if rows = [] then None else Some (list_all (\<lambda>(n, v, _). v) rows))"
    by (simp add: resolve_feature_flags_def merge_overrides_get Let_def applicable_def)
  let ?g = "\<lambda>f out. case ff_default_value f of None \<Rightarrow> out
       | Some v \<Rightarrow> if gated pv (ff_min_plugin_version f) then out else dset (ff_name f) v out"
  have step: "(\<exists>f \<in> set fs. ff_name f = name \<and> ff_default_value f = Some b \<and> \<not> gated pv (ff_min_plugin_version f)) \<or>
    dget out name = Some b" if "dget (fold ?g fs out) name = Some b" for fs :: "flag_row list" and out
    using that by (induction fs arbitrary: out) (fastforce split: option.splits if_splits)+
  show "dget (resolve_forced_flags db pv slug) name = Some b \<longrightarrow>
      (\<exists>f \<in> set (feature_flags db). ff_name f = name \<and> ff_default_value f = Some b \<and> \<not> ff_deprecated f \<and>
         ff_plugin_slug f \<in> {[], slug} \<and> \<not> gated pv (ff_min_plugin_version f))"
    unfolding resolve_forced_flags_def using step [of _ "[]"] by fastforce
qed

definition demo_flags :: flag_db where
  "demo_flags = \<lparr>feature_flags =
     [\<lparr>ff_id = 1, ff_name = ''writer'', ff_plugin_slug = ''mirai'', ff_description = [], ff_default_value = Some True,
       ff_deprecated = False, ff_min_plugin_version = Some ''2.0'', ff_updated_at = 0\<rparr>,
      \<lparr>ff_id = 2, ff_name = ''old'', ff_plugin_slug = ''mirai'', ff_description = [], ff_default_value = None,
       ff_deprecated = False, ff_min_plugin_version = None, ff_updated_at = 0\<rparr>],
     flag_overrides =
     [\<lparr>fo_feature_id = 1, fo_cohort_id = 7, fo_value = True, fo_min_plugin_version = None, fo_updated_at = 0\<rparr>,
      \<lparr>fo_feature_id = 1, fo_cohort_id = 8, fo_value = False, fo_min_plugin_version = None, fo_updated_at = 0\<rparr>]\<rparr>"

theorem flags_false_wins_witness:
  "dget (resolve_feature_flags demo_flags [7, 8] ''2.1'' ''mirai'') ''writer'' = Some False \<and>
   (\<exists>f \<in> set (feature_flags demo_flags). ff_name f = ''writer'' \<and> ff_default_value f = Some True)"
proof -
  have "dget (resolve_forced_flags demo_flags ''2.1'' ''mirai'') ''writer'' = Some True"
    "\<not> (let rows = applicable ''2.1'' ''writer'' (override_rows demo_flags [7, 8] ''mirai'')
      in if rows = [] then None else Some (list_all (\<lambda>(n, v, _). v) rows)) \<noteq> Some False"
    by code_simp+
  then show ?thesis
    using flags_false_wins [of demo_flags "[7, 8]" "''2.1''" "''mirai''" "''writer''" True] by auto
qed

text \<open>Property C13. Reconciling a plugin's catalogue with its template: afterwards the active flags of
  the plugin are exactly the names the template declares; every old row survives with its identifier,
  scope, description, default and gate, rows of other plugins and all overrides are untouched, and
  a new row is transparent, so nothing becomes forced. The reported difference partitions the
  template's names.\<close>

theorem reconcile_catalog:
  fixes db :: flag_db and template :: json
  assumes "distinct (map (\<lambda>f. (ff_plugin_slug f, ff_name f)) (feature_flags db))"
  shows "let (d, db') = reconcile_catalog_from_template now ids slug template db;
             n = length (feature_flags db)
         in active_names slug (feature_flags db') = fst ` set (template_names template) \<and>
            map flag_identity (take n (feature_flags db')) = map flag_identity (feature_flags db) \<and>
            list_all (\<lambda>f. ff_plugin_slug f = slug \<and> ff_default_value f = None) (drop n (feature_flags db')) \<and>
            filter (\<lambda>f. ff_plugin_slug f \<noteq> slug) (feature_flags db') = filter (\<lambda>f. ff_plugin_slug f \<noteq> slug) (feature_flags db) \<and>
            flag_overrides db' = flag_overrides db \<and>
            set (df_added d) \<union> set (df_kept d) \<union> set (df_reactivated d) = fst ` set (template_names template)"
proof -
  let ?r = "reconcile_catalog_from_template now ids slug template db"
  let ?names = "sort (map fst (template_names template))"
  note rows = reconcile_rows [OF assms, of now ids slug template]
  have "set ?names = fst ` set (template_names template)" by simp
  then have "active_names slug (feature_flags (snd ?r)) = fst ` set (template_names template)"
    unfolding rows using reconcile_active_names by metis
  moreover have "set (df_added (fst ?r)) \<union> set (df_kept (fst ?r)) \<union> set (df_reactivated (fst ?r)) = set ?names"
  proof -
    have three: "x \<noteq> Some True \<Longrightarrow> x \<noteq> Some False \<Longrightarrow> x = None" for x :: "bool option" by (cases x) auto
    have "set (filter (\<lambda>n. e n = None) ns) \<union> set (filter (\<lambda>n. e n = Some False) ns) \<union>
      set (filter (\<lambda>n. e n = Some True) ns) = set ns" for e :: "string \<Rightarrow> bool option" and ns
      using three by auto
    then show ?thesis by (simp add: reconcile_catalog_from_template_def Let_def del: set_filter)
  qed
  moreover have "flag_overrides (snd ?r) = flag_overrides db"
    by (simp add: reconcile_catalog_from_template_def Let_def)
  moreover have "map flag_identity (take (length (feature_flags db)) (feature_flags (snd ?r))) = map flag_identity (feature_flags db)"
    unfolding rows by simp
  moreover have "list_all (\<lambda>f. ff_plugin_slug f = slug \<and> ff_default_value f = None) (drop (length (feature_flags db)) (feature_flags (snd ?r)))"
    unfolding rows by (simp add: list_all_iff)
  moreover have "filter (\<lambda>f. ff_plugin_slug f \<noteq> slug) (feature_flags (snd ?r)) = filter (\<lambda>f. ff_plugin_slug f \<noteq> slug) (feature_flags db)"
    unfolding rows filter_append filter_settle_other by simp
  ultimately show ?thesis by (simp add: case_prod_beta Let_def)
qed

theorem reconcile_catalog_witness:
  "active_names ''mirai'' (feature_flags (snd (reconcile_catalog_from_template 5 (\<lambda>_. 3) ''mirai''
     (JObj [(''default'', JObj [(''featureToggles'', JObj [(''writer'', JBool True), (''chat'', JBool False)])])])
     demo_flags))) = {''writer'', ''chat''}"
proof -
  let ?t = "JObj [(''default'', JObj [(''featureToggles'', JObj [(''writer'', JBool True), (''chat'', JBool False)])])]"
  have "distinct (map (\<lambda>f. (ff_plugin_slug f, ff_name f)) (feature_flags demo_flags))" by (simp add: demo_flags_def)
  from reconcile_catalog [OF this, where now = 5 and ids = "\<lambda>_. 3" and slug = "''mirai''" and template = ?t]
  have "active_names ''mirai'' (feature_flags (snd (reconcile_catalog_from_template 5 (\<lambda>_. 3) ''mirai'' ?t demo_flags)))
    = fst ` set (template_names ?t)" unfolding Let_def case_prod_beta by (rule conjunct1)
  moreover have "fst ` set (template_names ?t) = {''writer'', ''chat''}"
    by (simp add: template_names_def toggles_def setdefault_def dget_def dset_def jget_def)
  ultimately show ?thesis by (rule trans)
qed

end
