(* ===== verification/Campaign.thy ===== *)
theory Campaign
  imports Enroll Flags
begin

text \<open>
  Update campaigns: which campaign a device sees, the staged rollout, the directive sent to the
  plugin, the status reports it sends back (all \<open>app/main.py\<close>), the campaign REST interface and
  the service of \<open>app/admin/services/campaigns.py\<close>. PostgreSQL's reading of a JSON value as a
  column value is the parameter \<open>pg\<close>; the text of an exception is the parameter \<open>exc\<close>. A deadline
  is kept as an instant where the code keeps its ISO text. Hours are exact rationals where the code
  uses floats. Length limits of the columns are not modelled.
\<close>

section \<open>Tables\<close>

record artifact_row =
  ar_id :: int
  ar_device_type :: string
  ar_version :: string
  ar_s3_path :: "string option"
  ar_checksum :: "string option"
  ar_min_host_version :: "string option"
  ar_max_host_version :: "string option"
  ar_changelog_url :: "string option"

record plugin_ref =
  pl_id :: int
  pl_device_type :: string
  pl_status :: string

text \<open>The columns an insertion sets, and the whole row. \<open>JNull\<close> stands for a missing
  \<open>rollout_config\<close>; \<open>NULL\<close> passes the \<open>CHECK\<close> constraints.\<close>

record campaign_args =
  ca_name :: string
  ca_description :: "string option"
  ca_type :: "string option"
  ca_artifact_id :: "int option"
  ca_rollback_artifact_id :: "int option"
  ca_target_cohort_id :: "int option"
  ca_urgency :: "string option"
  ca_deadline_at :: "timestamp option"
  ca_status :: "string option"
  ca_rollout_config :: json
  ca_created_by :: "string option"
  ca_plugin_id :: "int option"

record campaign_row = campaign_args +
  ca_id :: int
  ca_created_at :: timestamp
  ca_updated_at :: timestamp

record status_row =
  ds_campaign_id :: int
  ds_client_uuid :: string
  ds_email :: "string option"
  ds_status :: string
  ds_version_before :: "string option"
  ds_version_after :: "string option"
  ds_error_message :: "string option"
  ds_last_contact_at :: "timestamp option"
  ds_updated_at :: timestamp

record campaign_db =
  campaigns :: "campaign_row list"
  device_status :: "status_row list"
  artifacts :: "artifact_row list"
  plugin_refs :: "plugin_ref list"
  cohort_ids :: "int list"

section \<open>The campaign of a device\<close>

record campaign_view =
  cv_campaign_id :: int
  cv_urgency :: string
  cv_deadline :: "timestamp option"
  cv_artifact_version :: string
  cv_artifact_s3_path :: string
  cv_artifact_checksum :: string
  cv_changelog_url :: "string option"
  cv_rollback_s3_path :: "string option"
  cv_rollback_version :: string
  cv_rollback_checksum :: string
  cv_rollout_config :: "json dict option"
  cv_created_at :: "timestamp option"

definition artifact_of :: "campaign_db \<Rightarrow> int option \<Rightarrow> artifact_row option" where
  "artifact_of db aid = Option.bind aid (\<lambda>i. find (\<lambda>a. ar_id a = i) (artifacts db))"

definition col :: "('r \<Rightarrow> string option) \<Rightarrow> 'r option \<Rightarrow> string option" where
  "col f r = Option.bind r f"

definition eligible_campaigns :: "campaign_db \<Rightarrow> int list \<Rightarrow> campaign_row list" where
  "eligible_campaigns db cohort_filter =
     filter (\<lambda>c. ca_status c = Some ''active'' \<and> ca_type c = Some ''plugin_update'' \<and>
       (case ca_target_cohort_id c of None \<Rightarrow> True | Some t \<Rightarrow> t \<in> set cohort_filter)) (campaigns db)"

definition newest_campaign :: "campaign_row list \<Rightarrow> campaign_row option" where
  "newest_campaign rows = (case sort_key (\<lambda>c. - ca_created_at c) rows of [] \<Rightarrow> None | c # _ \<Rightarrow> Some c)"

definition host_compatible :: "string \<Rightarrow> string option \<Rightarrow> string option \<Rightarrow> bool" where
  "host_compatible pv minv maxv =
     (\<not> (pv \<noteq> [] \<and> str_or minv [] \<noteq> [] \<and> parse_version_tuple pv < parse_version_tuple (str_or minv [])) \<and>
      \<not> (pv \<noteq> [] \<and> str_or maxv [] \<noteq> [] \<and> parse_version_tuple pv \<ge> parse_version_tuple (str_or maxv [])))"

definition campaign_of_row :: "campaign_db \<Rightarrow> campaign_row \<Rightarrow> campaign_view" where
  "campaign_of_row db c =
     (let a = artifact_of db (ca_artifact_id c); ra = artifact_of db (ca_rollback_artifact_id c)
      in \<lparr>cv_campaign_id = ca_id c, cv_urgency = str_or (ca_urgency c) ''normal'', cv_deadline = ca_deadline_at c,
          cv_artifact_version = str_or (map_option ar_version a) [], cv_artifact_s3_path = str_or (col ar_s3_path a) [],
          cv_artifact_checksum = str_or (col ar_checksum a) [], cv_changelog_url = col ar_changelog_url a,
          cv_rollback_s3_path = col ar_s3_path ra, cv_rollback_version = str_or (map_option ar_version ra) [],
          cv_rollback_checksum = str_or (col ar_checksum ra) [],
          cv_rollout_config = (case ca_rollout_config c of JObj d \<Rightarrow> Some d | _ \<Rightarrow> None),
          cv_created_at = Some (ca_created_at c)\<rparr>)"

definition resolve_active_campaign :: "campaign_db \<Rightarrow> int list \<Rightarrow> string \<Rightarrow> string \<Rightarrow> campaign_view option" where
  "resolve_active_campaign db device_cohort_ids device_type platform_version =
     (case newest_campaign (eligible_campaigns db device_cohort_ids) of
        None \<Rightarrow> None
      | Some c \<Rightarrow>
          let a = artifact_of db (ca_artifact_id c)
          in if host_compatible platform_version (col ar_min_host_version a) (col ar_max_host_version a)
             then Some (campaign_of_row db c) else None)"

section \<open>Staged rollout\<close>

fun num_add :: "pynum \<Rightarrow> pynum \<Rightarrow> pynum" where
  "num_add (Fin a) (Fin b) = Fin (a + b)"
| "num_add NaN _ = NaN"
| "num_add _ NaN = NaN"
| "num_add PosInf NegInf = NaN"
| "num_add NegInf PosInf = NaN"
| "num_add PosInf _ = PosInf"
| "num_add _ PosInf = PosInf"
| "num_add NegInf _ = NegInf"
| "num_add _ NegInf = NegInf"

fun stage_percent :: "rat \<Rightarrow> pynum \<Rightarrow> json list \<Rightarrow> json result" where
  "stage_percent elapsed cumulative [] = Inr (JInt 100)"
| "stage_percent elapsed cumulative (stage # stages) =
     bind_result (py_get stage ''duration_hours'' (JInt 0)) (\<lambda>h.
     case num_of h of
       None \<Rightarrow> Inl TypeError
     | Some n \<Rightarrow>
         let cum = num_add cumulative n
         in bind_result (py_get stage ''percent'' (JInt 100)) (\<lambda>p.
              if num_less (Fin elapsed) cum \<or> num_of p = Some (Fin 100) then Inr p
              else stage_percent elapsed cum stages))"

definition elapsed_hours :: "timestamp \<Rightarrow> timestamp \<Rightarrow> rat" where
  "elapsed_hours now start = of_int (now - start) / of_int (secs 3600)"

definition get_current_rollout_percent :: "timestamp \<Rightarrow> timestamp option \<Rightarrow> json \<Rightarrow> json result" where
  "get_current_rollout_percent now start stages = (case start of
       None \<Rightarrow> Inr (JInt 100)
     | Some t \<Rightarrow> bind_result (py_iter stages) (stage_percent (elapsed_hours now t) (Fin 0)))"

definition device_hash :: "string \<Rightarrow> int" where
  "device_hash cuuid = read_hex 0 (take 8 (hexdigest (md5 (utf8_encode cuuid)))) mod 100"

text \<open>Whether the rollout gate lets the device through.\<close>

definition rollout_eligible :: "timestamp \<Rightarrow> campaign_view \<Rightarrow> string \<Rightarrow> bool result" where
  "rollout_eligible now c cuuid = (case cv_rollout_config c of
       None \<Rightarrow> Inr True
     | Some cfg \<Rightarrow>
         if cfg = [] \<or> cuuid = [] then Inr True
         else let stages = (case dget cfg ''stages'' of None \<Rightarrow> JList [] | Some v \<Rightarrow> v)
           in if \<not> truthy stages then Inr True
              else bind_result (get_current_rollout_percent now (cv_created_at c) stages) (\<lambda>p.
                case num_of p of
                  None \<Rightarrow> Inl TypeError
                | Some n \<Rightarrow> Inr (num_less n (Fin 100) \<longrightarrow> num_less (Fin (of_int (device_hash cuuid))) n)))"

section \<open>The update directive\<close>

record directive =
  di_action :: string
  di_current_version :: string
  di_target_version :: string
  di_artifact_url :: string
  di_checksum :: string
  di_urgency :: string
  di_changelog_url :: "string option"
  di_deadline_at :: "timestamp option"
  di_campaign_id :: int

definition artifact_url :: "string \<Rightarrow> string \<Rightarrow> string" where
  "artifact_url device_name s3 =
     (if device_name \<noteq> [] then ''/catalog/'' @ device_name @ ''/download''
      else ''/binaries/'' @ lstrip_char (CHR ''/'') s3)"

definition directive_for :: "string \<Rightarrow> string \<Rightarrow> string \<Rightarrow> string \<Rightarrow> string \<Rightarrow> campaign_view \<Rightarrow> directive" where
  "directive_for action pv target url chk c =
     \<lparr>di_action = action, di_current_version = pv, di_target_version = target, di_artifact_url = url, di_checksum = chk,
      di_urgency = cv_urgency c, di_changelog_url = cv_changelog_url c, di_deadline_at = cv_deadline c,
      di_campaign_id = cv_campaign_id c\<rparr>"

definition build_update_directive ::
  "timestamp \<Rightarrow> string \<Rightarrow> campaign_view option \<Rightarrow> string \<Rightarrow> string \<Rightarrow> directive option result" where
  "build_update_directive now pv campaign cuuid device_name = (case campaign of
       None \<Rightarrow> Inr None
     | Some c \<Rightarrow>
         let av = cv_artifact_version c; rb = str_or (cv_rollback_s3_path c) []
         in if pv \<in> {[], ''unknown'', ''0''} \<or> av = [] \<or> pv = av then Inr None
            else bind_result (rollout_eligible now c cuuid) (\<lambda>ok.
              if \<not> ok then Inr None
              else if parse_version_tuple pv < parse_version_tuple av then
                Inr (Some (directive_for ''update'' pv av (artifact_url device_name (cv_artifact_s3_path c))
                       (cv_artifact_checksum c) c))
              else if rb \<noteq> [] \<and> cv_rollback_version c \<noteq> [] then
                Inr (Some (directive_for ''rollback'' pv (cv_rollback_version c) (artifact_url device_name rb)
                       (cv_rollback_checksum c) c))
              else Inr None))"

section \<open>Device status\<close>

definition none_if_empty :: "string \<Rightarrow> string option" where
  "none_if_empty s = (if s = [] then None else Some s)"

text \<open>\<open>INSERT ... ON CONFLICT (campaign_id, client_uuid) DO UPDATE\<close>: \<open>upd\<close> is the \<open>SET\<close> clause.\<close>

definition upsert_status :: "status_row \<Rightarrow> (status_row \<Rightarrow> status_row) \<Rightarrow> campaign_db \<Rightarrow> campaign_db result" where
  "upsert_status row upd db =
     (let same = (\<lambda>r. ds_campaign_id r = ds_campaign_id row \<and> ds_client_uuid r = ds_client_uuid row)
      in if \<not> list_ex (\<lambda>c. ca_id c = ds_campaign_id row) (campaigns db) then Inl DatabaseError
         else if list_ex same (device_status db)
         then Inr (db\<lparr>device_status := map (\<lambda>r. if same r then upd r else r) (device_status db)\<rparr>)
         else Inr (db\<lparr>device_status := device_status db @ [row]\<rparr>))"

definition upsert_campaign_device_status ::
  "timestamp \<Rightarrow> int \<Rightarrow> string \<Rightarrow> string \<Rightarrow> string \<Rightarrow> campaign_db \<Rightarrow> campaign_db result" where
  "upsert_campaign_device_status now cid cuuid email version_before db =
     upsert_status
       \<lparr>ds_campaign_id = cid, ds_client_uuid = cuuid, ds_email = none_if_empty email, ds_status = ''notified'',
        ds_version_before = none_if_empty version_before, ds_version_after = None, ds_error_message = None,
        ds_last_contact_at = Some now, ds_updated_at = now\<rparr>
       (\<lambda>r. r\<lparr>ds_status := ''notified'', ds_version_before := none_if_empty version_before, ds_last_contact_at := Some now\<rparr>) db"

text \<open>Query parameters: \<open>None\<close> is \<open>NULL\<close>, anything else is what the server makes of the value.\<close>

record pg_adapter =
  as_int :: "json \<Rightarrow> int option"
  as_text :: "json \<Rightarrow> string option"
  jsonb_ok :: "json \<Rightarrow> bool"

definition sql_param :: "(json \<Rightarrow> 'a option) \<Rightarrow> json \<Rightarrow> 'a option result" where
  "sql_param f j = (if j = JNull then Inr None else case f j of None \<Rightarrow> Inl DatabaseError | Some a \<Rightarrow> Inr (Some a))"

definition sql_not_null :: "(json \<Rightarrow> 'a option) \<Rightarrow> json \<Rightarrow> 'a result" where
  "sql_not_null f j = bind_result (sql_param f j) (\<lambda>r. case r of None \<Rightarrow> Inl DatabaseError | Some a \<Rightarrow> Inr a)"

definition json_or_null :: "json \<Rightarrow> json" where
  "json_or_null j = (if truthy j then j else JNull)"

definition update_campaign_device_status ::
  "pg_adapter \<Rightarrow> timestamp \<Rightarrow> json \<Rightarrow> json \<Rightarrow> string \<Rightarrow> json \<Rightarrow> json \<Rightarrow> json \<Rightarrow> campaign_db \<Rightarrow> campaign_db result" where
  "update_campaign_device_status pg now campaign_id cuuid st vb va err db =
     bind_result (sql_not_null (as_int pg) campaign_id) (\<lambda>cid.
     bind_result (sql_not_null (as_text pg) cuuid) (\<lambda>cu.
     bind_result (sql_param (as_text pg) vb) (\<lambda>vbt.
     bind_result (sql_param (as_text pg) (json_or_null va)) (\<lambda>vat.
     bind_result (sql_param (as_text pg) (json_or_null err)) (\<lambda>et.
       let s = (if st = ''installed'' then ''updated'' else ''failed'')
       in upsert_status
            \<lparr>ds_campaign_id = cid, ds_client_uuid = cu, ds_email = None, ds_status = s, ds_version_before = vbt,
             ds_version_after = vat, ds_error_message = et, ds_last_contact_at = None, ds_updated_at = now\<rparr>
            (\<lambda>r. r\<lparr>ds_status := s, ds_version_after := vat, ds_error_message := et, ds_updated_at := now\<rparr>) db)))))"

text \<open>A database error is logged and swallowed.\<close>

definition update_campaign_device_status_sync ::
  "pg_adapter \<Rightarrow> bool \<Rightarrow> timestamp \<Rightarrow> json \<Rightarrow> json \<Rightarrow> string \<Rightarrow> json \<Rightarrow> json \<Rightarrow> json \<Rightarrow> campaign_db \<Rightarrow> campaign_db" where
  "update_campaign_device_status_sync pg use_db now campaign_id cuuid st vb va err db =
     (if \<not> use_db then db
      else case update_campaign_device_status pg now campaign_id cuuid st vb va err db of Inl _ \<Rightarrow> db | Inr d \<Rightarrow> d)"

definition allowed_reports :: "string list" where
  "allowed_reports = [''installed'', ''failed'', ''checksum_error'', ''download_error'', ''deferred'']"

definition reports_repr :: string where
  "reports_repr = ''('' @ join_with '', '' (map repr_str allowed_reports) @ '')''"

definition body_get :: "json dict \<Rightarrow> string \<Rightarrow> json" where
  "body_get b k = (case dget b k of None \<Rightarrow> JStr [] | Some v \<Rightarrow> v)"

definition ok_json :: "int \<Rightarrow> (string \<times> json) list \<Rightarrow> response" where
  "ok_json st kvs = \<lparr>r_status = st, r_body = JObj ((''ok'', JBool True) # kvs), r_headers = []\<rparr>"

definition accept_report ::
  "pg_adapter \<Rightarrow> bool \<Rightarrow> timestamp \<Rightarrow> relay_meta option \<Rightarrow> json \<Rightarrow> campaign_db \<Rightarrow> response result \<times> campaign_db" where
  "accept_report pg use_db now authed body db = (case body of
       JObj b \<Rightarrow>
         (case body_get b ''status'' of
            JStr st \<Rightarrow>
              if st \<notin> set allowed_reports then (Inr (fail_json 400 (''status must be one of '' @ reports_repr)), db)
              else
                let cu = body_get b ''client_uuid''
                in if \<not> truthy cu then (Inr (fail_json 400 ''client_uuid required''), db)
                   else if (case authed of None \<Rightarrow> False
                     | Some meta \<Rightarrow> rm_client_uuid meta \<noteq> [] \<and> py_str cu \<noteq> rm_client_uuid meta)
                   then (Inr (fail_json 403 ''client_uuid mismatch''), db)
                   else (Inr (ok_json 200 [(''status'', JStr st)]),
                         update_campaign_device_status_sync pg use_db now (jget b ''campaign_id'') cu st
                           (body_get b ''version_before'') (body_get b ''version_after'') (body_get b ''error_detail'') db)
          | _ \<Rightarrow> (Inr (fail_json 400 (''status must be one of '' @ reports_repr)), db))
     | _ \<Rightarrow> (Inl AttributeError, db))"

definition report_update_status ::
  "settings \<Rightarrow> pg_adapter \<Rightarrow> bool \<Rightarrow> timestamp \<Rightarrow> headers \<Rightarrow> json option \<Rightarrow> relay_state \<Rightarrow> campaign_db
     \<Rightarrow> response result \<times> campaign_db" where
  "report_update_status cfg pg use_db now hs body rs db =
     (let go = (\<lambda>authed. case body of
          None \<Rightarrow> (Inr (fail_json 400 ''Invalid JSON''), db)
        | Some j \<Rightarrow> accept_report pg use_db now authed j db)
      in if relay_enabled cfg then
           (case relay_auth_from_request cfg use_db now hs None False rs of
              Inl e \<Rightarrow> (Inl e, db)
            | Inr (Inl _) \<Rightarrow> (Inr (fail_json 401 ''Unauthorized''), db)
            | Inr (Inr meta) \<Rightarrow> go (Some meta))
         else go None)"

section \<open>Creating and steering campaigns\<close>

definition in_check :: "string option \<Rightarrow> string list \<Rightarrow> bool" where
  "in_check x xs = (case x of None \<Rightarrow> True | Some v \<Rightarrow> v \<in> set xs)"

definition fk_ok :: "int option \<Rightarrow> int list \<Rightarrow> bool" where
  "fk_ok x ids = (case x of None \<Rightarrow> True | Some i \<Rightarrow> i \<in> set ids)"

definition campaign_types :: "string list" where
  "campaign_types = [''plugin_update'', ''config_patch'', ''feature_set'']"

definition campaign_statuses :: "string list" where
  "campaign_statuses = [''draft'', ''active'', ''paused'', ''completed'', ''rolled_back'']"

definition urgencies :: "string list" where
  "urgencies = [''low'', ''normal'', ''critical'']"

definition args_ok :: "campaign_db \<Rightarrow> campaign_args \<Rightarrow> bool" where
  "args_ok db a = (in_check (ca_type a) campaign_types \<and> in_check (ca_status a) campaign_statuses \<and>
     in_check (ca_urgency a) urgencies \<and> fk_ok (ca_plugin_id a) (map pl_id (plugin_refs db)) \<and>
     fk_ok (ca_target_cohort_id a) (cohort_ids db) \<and> fk_ok (ca_artifact_id a) (map ar_id (artifacts db)) \<and>
     fk_ok (ca_rollback_artifact_id a) (map ar_id (artifacts db)))"

definition new_row :: "timestamp \<Rightarrow> int \<Rightarrow> campaign_args \<Rightarrow> campaign_row" where
  "new_row now cid a = campaign_args.extend a \<lparr>ca_id = cid, ca_created_at = now, ca_updated_at = now\<rparr>"

definition insert_campaign :: "timestamp \<Rightarrow> int \<Rightarrow> campaign_args \<Rightarrow> campaign_db \<Rightarrow> (int \<times> campaign_db) result" where
  "insert_campaign now cid a db =
     (if args_ok db a then Inr (cid, db\<lparr>campaigns := campaigns db @ [new_row now cid a]\<rparr>) else Inl DatabaseError)"

text \<open>\<open>type = %s AND (%s IS NULL OR plugin_id = %s OR plugin_id IS NULL)\<close>.\<close>

definition superseded :: "string option \<Rightarrow> int option \<Rightarrow> campaign_row \<Rightarrow> bool" where
  "superseded ty pid c = (ca_status c = Some ''active'' \<and> ty \<noteq> None \<and> ca_type c = ty \<and>
     (pid = None \<or> ca_plugin_id c = pid \<or> ca_plugin_id c = None))"

definition complete_older :: "timestamp \<Rightarrow> string option \<Rightarrow> int option \<Rightarrow> campaign_db \<Rightarrow> campaign_db" where
  "complete_older now ty pid db = db\<lparr>campaigns :=
     map (\<lambda>c. if superseded ty pid c then c\<lparr>ca_status := Some ''completed'', ca_updated_at := now\<rparr> else c) (campaigns db)\<rparr>"

definition create_campaign :: "timestamp \<Rightarrow> int \<Rightarrow> campaign_args \<Rightarrow> campaign_db \<Rightarrow> (int \<times> campaign_db) result" where
  "create_campaign now cid a db =
     insert_campaign now cid (if truthy (ca_rollout_config a) then a else a\<lparr>ca_rollout_config := JNull\<rparr>)
       (if ca_status a = Some ''active'' then complete_older now (ca_type a) (ca_plugin_id a) db else db)"

definition update_campaign_status :: "timestamp \<Rightarrow> int \<Rightarrow> string \<Rightarrow> campaign_db \<Rightarrow> (bool \<times> campaign_db) result" where
  "update_campaign_status now cid st db =
     (if \<not> list_ex (\<lambda>c. ca_id c = cid) (campaigns db) then Inr (False, db)
      else if st \<notin> set campaign_statuses then Inl DatabaseError
      else Inr (True, db\<lparr>campaigns := map (\<lambda>c. if ca_id c = cid
             then c\<lparr>ca_status := Some st, ca_updated_at := now\<rparr> else c) (campaigns db)\<rparr>))"

text \<open>Reading.\<close>

definition list_campaigns ::
  "campaign_db \<Rightarrow> cohort_db \<Rightarrow> string \<Rightarrow> nat \<Rightarrow> nat \<Rightarrow> (campaign_row \<times> string option \<times> artifact_row option \<times> artifact_row option) list" where
  "list_campaigns db cdb status_filter limit offset =
     map (\<lambda>c. (c, map_option co_name (Option.bind (ca_target_cohort_id c) (get_cohort cdb)),
               artifact_of db (ca_artifact_id c), artifact_of db (ca_rollback_artifact_id c)))
       (take limit (drop offset (sort_key (\<lambda>c. - ca_updated_at c)
         (filter (\<lambda>c. status_filter = [] \<or> ca_status c = Some status_filter) (campaigns db)))))"

definition get_campaign ::
  "campaign_db \<Rightarrow> cohort_db \<Rightarrow> int \<Rightarrow> (campaign_row \<times> cohort_row option \<times> artifact_row option \<times> artifact_row option) option" where
  "get_campaign db cdb cid =
     map_option (\<lambda>c. (c, Option.bind (ca_target_cohort_id c) (get_cohort cdb),
        artifact_of db (ca_artifact_id c), artifact_of db (ca_rollback_artifact_id c)))
       (find (\<lambda>c. ca_id c = cid) (campaigns db))"

definition status_count :: "campaign_db \<Rightarrow> int \<Rightarrow> string \<Rightarrow> nat" where
  "status_count db cid st = length (filter (\<lambda>r. ds_campaign_id r = cid \<and> ds_status r = st) (device_status db))"

record campaign_stats =
  cs_total :: nat
  cs_updated :: nat
  cs_notified :: nat
  cs_pending :: nat
  cs_failed :: nat
  cs_rolled_back :: nat

definition get_campaign_stats :: "campaign_db \<Rightarrow> int \<Rightarrow> campaign_stats" where
  "get_campaign_stats db cid =
     \<lparr>cs_total = length (filter (\<lambda>r. ds_campaign_id r = cid) (device_status db)),
      cs_updated = status_count db cid ''updated'', cs_notified = status_count db cid ''notified'',
      cs_pending = status_count db cid ''pending'', cs_failed = status_count db cid ''failed'',
      cs_rolled_back = status_count db cid ''rolled_back''\<rparr>"

definition get_campaign_events :: "campaign_db \<Rightarrow> int \<Rightarrow> nat \<Rightarrow> status_row list" where
  "get_campaign_events db cid limit =
     take limit (sort_key (\<lambda>r. - ds_updated_at r) (filter (\<lambda>r. ds_campaign_id r = cid) (device_status db)))"

section \<open>The REST interface\<close>

definition verify_admin_token :: "env \<Rightarrow> headers \<Rightarrow> bool result" where
  "verify_admin_token env hs =
     (let expected = getenv env ''DM_QUEUE_ADMIN_TOKEN'' []
      in if expected = [] then Inr False
         else compare_digest (case header hs ''X-Admin-Token'' of None \<Rightarrow> [] | Some t \<Rightarrow> t) expected)"

text \<open>\<open>plugin_id\<close> of the body, or the first active plugin of the artifact's device type.\<close>

definition body_plugin_id :: "pg_adapter \<Rightarrow> campaign_db \<Rightarrow> json dict \<Rightarrow> json result" where
  "body_plugin_id pg db b =
     (let pid = jget b ''plugin_id''; aid = jget b ''artifact_id''
      in if truthy pid \<or> \<not> truthy aid then Inr pid
         else bind_result (sql_param (as_int pg) aid) (\<lambda>a.
           Inr (case artifact_of db a of
                  None \<Rightarrow> pid
                | Some ar \<Rightarrow> (case find (\<lambda>p. pl_device_type p = ar_device_type ar \<and> pl_status p = ''active'') (plugin_refs db) of
                    None \<Rightarrow> pid | Some p \<Rightarrow> JInt (pl_id p)))))"

definition body_args :: "pg_adapter \<Rightarrow> json dict \<Rightarrow> json \<Rightarrow> campaign_args result" where
  "body_args pg b pid =
     (let field = (\<lambda>k d. case dget b k of None \<Rightarrow> JStr d | Some v \<Rightarrow> v); rc = jget b ''rollout_config''
      in bind_result (sql_not_null (as_text pg) (field ''name'' ''API Campaign'')) (\<lambda>name.
         bind_result (sql_param (as_text pg) (field ''description'' [])) (\<lambda>desc.
         bind_result (sql_param (as_text pg) (field ''type'' ''plugin_update'')) (\<lambda>ty.
         bind_result (sql_param (as_int pg) (jget b ''artifact_id'')) (\<lambda>aid.
         bind_result (sql_param (as_int pg) (jget b ''rollback_artifact_id'')) (\<lambda>rid.
         bind_result (sql_param (as_int pg) (jget b ''target_cohort_id'')) (\<lambda>coh.
         bind_result (sql_param (as_text pg) (field ''urgency'' ''normal'')) (\<lambda>urg.
         bind_result (sql_param (as_text pg) (field ''status'' ''draft'')) (\<lambda>st.
         bind_result (sql_param (as_int pg) pid) (\<lambda>p.
           if truthy rc \<and> \<not> jsonb_ok pg rc then Inl DatabaseError
           else Inr \<lparr>ca_name = name, ca_description = desc, ca_type = ty, ca_artifact_id = aid,
              ca_rollback_artifact_id = rid, ca_target_cohort_id = coh, ca_urgency = urg, ca_deadline_at = None,
              ca_status = st, ca_rollout_config = json_or_null rc, ca_created_by = Some ''api'', ca_plugin_id = p\<rparr>))))))))))"

text \<open>The connection is in autocommit mode: the completion of the older campaigns stays even when the
  insertion fails.\<close>

definition create_campaign_db_work ::
  "pg_adapter \<Rightarrow> (py_error \<Rightarrow> string) \<Rightarrow> timestamp \<Rightarrow> int \<Rightarrow> json \<Rightarrow> campaign_db \<Rightarrow> response \<times> campaign_db" where
  "create_campaign_db_work pg exc now cid body db =
     (let failed = (\<lambda>e d. (fail_json 500 (exc e), d))
      in case body of
        JObj b \<Rightarrow>
          (case body_plugin_id pg db b of
             Inl e \<Rightarrow> failed e db
           | Inr pid \<Rightarrow>
               let st = (case dget b ''status'' of None \<Rightarrow> JStr ''draft'' | Some v \<Rightarrow> v);
                   ty = (case dget b ''type'' of None \<Rightarrow> JStr ''plugin_update'' | Some v \<Rightarrow> v);
                   step = (if st = JStr ''active'' then
                             bind_result (sql_param (as_text pg) ty) (\<lambda>t.
                             bind_result (sql_param (as_int pg) pid) (\<lambda>p. Inr (complete_older now t p db)))
                           else Inr db)
               in case step of
                    Inl e \<Rightarrow> failed e db
                  | Inr db1 \<Rightarrow>
                      (case bind_result (body_args pg b pid) (\<lambda>a. insert_campaign now cid a db1) of
                         Inl e \<Rightarrow> failed e db1
                       | Inr (i, db2) \<Rightarrow> (ok_json 201 [(''campaign_id'', JInt i)], db2)))
      | _ \<Rightarrow> failed AttributeError db)"

definition api_create_campaign ::
  "pg_adapter \<Rightarrow> (py_error \<Rightarrow> string) \<Rightarrow> env \<Rightarrow> bool \<Rightarrow> timestamp \<Rightarrow> int \<Rightarrow> headers \<Rightarrow> json option \<Rightarrow> campaign_db
     \<Rightarrow> response result \<times> campaign_db" where
  "api_create_campaign pg exc env use_db now cid hs body db = (case verify_admin_token env hs of
       Inl e \<Rightarrow> (Inl e, db)
     | Inr ok \<Rightarrow>
         if \<not> ok then (Inr (fail_json 401 ''Unauthorized''), db)
         else case body of
           None \<Rightarrow> (Inr (fail_json 400 ''Invalid JSON''), db)
         | Some j \<Rightarrow>
             if \<not> use_db then (Inr (fail_json 500 ''Database not configured''), db)
             else (case create_campaign_db_work pg exc now cid j db of (r, db') \<Rightarrow> (Inr r, db')))"

datatype campaign_action = Start | Pause | Resume | Abort

fun action_status :: "campaign_action \<Rightarrow> string" where
  "action_status Start = ''active''"
| "action_status Pause = ''paused''"
| "action_status Resume = ''active''"
| "action_status Abort = ''rolled_back''"

definition api_campaign_action ::
  "(py_error \<Rightarrow> string) \<Rightarrow> env \<Rightarrow> bool \<Rightarrow> timestamp \<Rightarrow> headers \<Rightarrow> int \<Rightarrow> campaign_action \<Rightarrow> campaign_db
     \<Rightarrow> response result \<times> campaign_db" where
  "api_campaign_action exc env use_db now hs cid act db = (case verify_admin_token env hs of
       Inl e \<Rightarrow> (Inl e, db)
     | Inr ok \<Rightarrow>
         if \<not> ok then (Inr (fail_json 401 ''Unauthorized''), db)
         else if \<not> use_db then (Inr (fail_json 500 ''Database not configured''), db)
         else case update_campaign_status now cid (action_status act) db of
           Inl e \<Rightarrow> (Inr (fail_json 500 (exc e)), db)
         | Inr (False, _) \<Rightarrow> (Inr (fail_json 404 ''Campaign not found''), db)
         | Inr (True, db') \<Rightarrow>
             (Inr (ok_json 200 [(''campaign_id'', JInt cid), (''status'', JStr (action_status act))]), db'))"

text \<open>The stage label of the progress report.\<close>

fun stage_label :: "pynum \<Rightarrow> json list \<Rightarrow> json result" where
  "stage_label cur [] = Inr (JStr ''unknown'')"
| "stage_label cur (s # ss) =
     bind_result (py_get s ''percent'' (JInt 100)) (\<lambda>p.
     case num_of p of
       None \<Rightarrow> Inl TypeError
     | Some n \<Rightarrow> if num_less cur n \<or> n = cur then py_get s ''label'' (JStr ''unknown'') else stage_label cur ss)"

definition progress_stage :: "timestamp \<Rightarrow> json \<Rightarrow> json result" where
  "progress_stage now rollout = (case rollout of
       JObj cfg \<Rightarrow>
         (let stages = (case dget cfg ''stages'' of None \<Rightarrow> JList [] | Some v \<Rightarrow> v)
          in bind_result (get_current_rollout_percent now None stages) (\<lambda>p.
             bind_result (py_iter stages) (\<lambda>ss.
               case num_of p of None \<Rightarrow> Inl TypeError | Some n \<Rightarrow> stage_label n ss)))
     | _ \<Rightarrow> Inr (JStr ''unknown''))"

section \<open>Lemmas\<close>

lemma newest_campaign_Some:
  assumes "newest_campaign rows = Some c"
  shows "c \<in> set rows \<and> (\<forall>c' \<in> set rows. ca_created_at c' \<le> ca_created_at c)"
proof -
  obtain cs where cs: "sort_key (\<lambda>c. - ca_created_at c) rows = c # cs"
    using assms by (auto simp: newest_campaign_def split: list.splits)
  have "sorted (map (\<lambda>c. - ca_created_at c) (c # cs))"
    using sorted_sort_key [of "\<lambda>c. - ca_created_at c" rows] cs by simp
  moreover have "set rows = set (c # cs)" using cs set_sort by metis
  ultimately show ?thesis by auto
qed

lemma newest_campaign_strict:
  assumes "c \<in> set rows" "\<forall>c' \<in> set rows. c' \<noteq> c \<longrightarrow> ca_created_at c' < ca_created_at c"
  shows "newest_campaign rows = Some c"
proof (cases "newest_campaign rows")
  case None
  then have "sort_key (\<lambda>c. - ca_created_at c) rows = []" by (auto simp: newest_campaign_def split: list.splits)
  with assms(1) show ?thesis by (metis empty_iff list.set(1) set_sort)
next
  case (Some d)
  then show ?thesis using newest_campaign_Some [OF Some] assms by (metis leD)
qed

lemma artifact_of_Some: "artifact_of db i = Some a \<Longrightarrow> a \<in> set (artifacts db) \<and> i = Some (ar_id a)"
  by (auto simp: artifact_of_def find_Some_iff split: bind_splits)

lemma str_or_map_option [simp]: "str_or (map_option f x) [] = [] \<longleftrightarrow> (case x of None \<Rightarrow> True | Some a \<Rightarrow> f a = [])"
  by (cases x) (auto simp: str_or_def)

lemma resolve_Some:
  assumes "resolve_active_campaign db ids dt plat = Some v"
  obtains c where "c \<in> set (eligible_campaigns db ids)" "v = campaign_of_row db c"
    "\<forall>c' \<in> set (eligible_campaigns db ids). ca_created_at c' \<le> ca_created_at c"
    "host_compatible plat (col ar_min_host_version (artifact_of db (ca_artifact_id c)))
       (col ar_max_host_version (artifact_of db (ca_artifact_id c)))"
proof -
  obtain c where c: "newest_campaign (eligible_campaigns db ids) = Some c" "v = campaign_of_row db c"
    "host_compatible plat (col ar_min_host_version (artifact_of db (ca_artifact_id c)))
       (col ar_max_host_version (artifact_of db (ca_artifact_id c)))"
    using assms by (auto simp: resolve_active_campaign_def Let_def split: option.splits if_splits)
  then show thesis using newest_campaign_Some [OF c(1)] that by blast
qed

lemma directive_Some:
  assumes "build_update_directive now pv (Some c) cuuid dev = Inr (Some d)"
  shows "di_campaign_id d = cv_campaign_id c \<and> di_current_version d = pv \<and> rollout_eligible now c cuuid = Inr True \<and>
    pv \<noteq> cv_artifact_version c \<and> cv_artifact_version c \<noteq> [] \<and>
    (di_action d = ''update'' \<and> parse_version_tuple pv < parse_version_tuple (cv_artifact_version c) \<and>
       di_target_version d = cv_artifact_version c \<and> di_checksum d = cv_artifact_checksum c \<or>
     di_action d = ''rollback'' \<and> \<not> parse_version_tuple pv < parse_version_tuple (cv_artifact_version c) \<and>
       di_target_version d = cv_rollback_version c \<and> cv_rollback_version c \<noteq> [] \<and> di_checksum d = cv_rollback_checksum c)"
  using assms
  by (auto simp: build_update_directive_def Let_def directive_for_def bind_result_def split: if_splits sum.splits)

text \<open>Stages as the administration form writes them, and their percentage on numbers.\<close>

definition stage_json :: "int \<times> int \<Rightarrow> json" where
  "stage_json s = JObj [(''duration_hours'', JInt (fst s)), (''percent'', JInt (snd s))]"


lemma stage_json_get [simp]:
  "py_get (stage_json s) ''duration_hours'' d = Inr (JInt (fst s))" "py_get (stage_json s) ''percent'' d = Inr (JInt (snd s))"
  by (simp_all add: stage_json_def py_get_def dget_def)








lemma verify_admin_token_True:
  "verify_admin_token env hs = Inr True \<Longrightarrow> \<exists>t. header hs ''X-Admin-Token'' = Some t \<and> t \<noteq> [] \<and> t = getenv env ''DM_QUEUE_ADMIN_TOKEN'' []"
  by (auto simp: verify_admin_token_def compare_digest_def Let_def split: if_splits option.splits)

lemma new_row_simps [simp]:
  "ca_id (new_row now cid a) = cid" "ca_created_at (new_row now cid a) = now" "ca_status (new_row now cid a) = ca_status a"
  "ca_type (new_row now cid a) = ca_type a" "ca_plugin_id (new_row now cid a) = ca_plugin_id a"
  "ca_target_cohort_id (new_row now cid a) = ca_target_cohort_id a" "ca_artifact_id (new_row now cid a) = ca_artifact_id a"
  by (simp_all add: new_row_def campaign_args.defs)

lemma complete_older_simps [simp]:
  "artifacts (complete_older now ty pid db) = artifacts db" "device_status (complete_older now ty pid db) = device_status db"
  "map ca_id (campaigns (complete_older now ty pid db)) = map ca_id (campaigns db)"
  by (auto simp: complete_older_def)

lemma complete_older_row:
  assumes "c \<in> set (campaigns (complete_older now ty pid db))"
  shows "\<not> superseded ty pid c \<and> (\<exists>c0 \<in> set (campaigns db). ca_created_at c = ca_created_at c0)"
  using assms by (auto simp: complete_older_def superseded_def)

lemma create_campaign_row:
  assumes "create_campaign now cid a db = Inr (i, db')"
  obtains a' db1 where "campaigns db' = campaigns db1 @ [new_row now cid a']" "i = cid" "artifacts db' = artifacts db"
    "ca_status a' = ca_status a" "ca_type a' = ca_type a" "ca_plugin_id a' = ca_plugin_id a"
    "ca_target_cohort_id a' = ca_target_cohort_id a" "ca_artifact_id a' = ca_artifact_id a"
    "db1 = (if ca_status a = Some ''active'' then complete_older now (ca_type a) (ca_plugin_id a) db else db)"
proof -
  let ?a = "if truthy (ca_rollout_config a) then a else a\<lparr>ca_rollout_config := JNull\<rparr>"
  let ?db = "if ca_status a = Some ''active'' then complete_older now (ca_type a) (ca_plugin_id a) db else db"
  have "campaigns db' = campaigns ?db @ [new_row now cid ?a]" "i = cid" "artifacts db' = artifacts db"
    using assms by (auto simp: create_campaign_def insert_campaign_def split: if_splits)
  then show thesis by (rule that) simp_all
qed

lemma upsert_status_effect:
  assumes "upsert_status row upd db = Inr db'"
    "\<And>r. ds_campaign_id (upd r) = ds_campaign_id r \<and> ds_client_uuid (upd r) = ds_client_uuid r \<and> ds_status (upd r) = ds_status row"
  shows "campaigns db' = campaigns db \<and> artifacts db' = artifacts db \<and>
    (\<exists>r \<in> set (device_status db'). ds_campaign_id r = ds_campaign_id row \<and> ds_client_uuid r = ds_client_uuid row) \<and>
    (\<forall>r \<in> set (device_status db'). r \<in> set (device_status db) \<or>
       ds_campaign_id r = ds_campaign_id row \<and> ds_client_uuid r = ds_client_uuid row \<and> ds_status r = ds_status row)"
proof -
  let ?same = "\<lambda>r. ds_campaign_id r = ds_campaign_id row \<and> ds_client_uuid r = ds_client_uuid row"
  show ?thesis
  proof (cases "list_ex ?same (device_status db)")
    case True
    then have db': "db' = db\<lparr>device_status := map (\<lambda>r. if ?same r then upd r else r) (device_status db)\<rparr>"
      using assms(1) by (simp add: upsert_status_def Let_def split: if_splits)
    obtain r where "r \<in> set (device_status db)" "?same r" using True by (auto simp: list_ex_iff)
    then have "\<exists>r \<in> set (device_status db'). ?same r"
      using assms(2) [of r] by (intro bexI [of _ "upd r"]) (auto simp: db' image_iff)
    moreover have "r \<in> set (device_status db) \<or> ?same r \<and> ds_status r = ds_status row" if "r \<in> set (device_status db')" for r
      using that assms(2) by (auto simp: db')
    ultimately show ?thesis by (simp add: db')
  next
    case False
    then have "db' = db\<lparr>device_status := device_status db @ [row]\<rparr>"
      using assms(1) by (simp add: upsert_status_def Let_def split: if_splits)
    then show ?thesis by auto
  qed
qed

lemma status_update_effect:
  assumes "update_campaign_device_status pg now i cu st vb va err db = Inr db'"
  shows "\<exists>n t. as_int pg i = Some n \<and> as_text pg cu = Some t \<and> campaigns db' = campaigns db \<and>
    (\<forall>r \<in> set (device_status db'). r \<in> set (device_status db) \<or>
       ds_campaign_id r = n \<and> ds_client_uuid r = t \<and> ds_status r = (if st = ''installed'' then ''updated'' else ''failed''))"
proof -
  from assms obtain n t vbt vat et where p: "as_int pg i = Some n" "as_text pg cu = Some t"
    and u: "upsert_status
            \<lparr>ds_campaign_id = n, ds_client_uuid = t, ds_email = None,
             ds_status = (if st = ''installed'' then ''updated'' else ''failed''), ds_version_before = vbt,
             ds_version_after = vat, ds_error_message = et, ds_last_contact_at = None, ds_updated_at = now\<rparr>
            (\<lambda>r. r\<lparr>ds_status := (if st = ''installed'' then ''updated'' else ''failed''), ds_version_after := vat,
               ds_error_message := et, ds_updated_at := now\<rparr>) db = Inr db'"
    by (auto simp: update_campaign_device_status_def sql_not_null_def sql_param_def bind_result_def Let_def
        split: if_splits sum.splits option.splits)
  show ?thesis using upsert_status_effect [OF u] p by auto
qed

section \<open>Properties\<close>

text \<open>Property C14. Where an update directive comes from: its campaign is active, of type
  \<open>plugin_update\<close>, addressed to everybody or to one of the device's cohorts, and the newest such one;
  target version and checksum belong to one and the same artifact of that campaign. An update goes to
  a strictly greater version on a compatible host and is sent only to a device the rollout stage
  admits; a rollback is sent only when the installed version is not smaller than the campaign's.\<close>

theorem directive_provenance:
  assumes "build_update_directive now pv (resolve_active_campaign db ids dt plat) cuuid dev = Inr (Some d)"
  shows "\<exists>c \<in> set (eligible_campaigns db ids). \<exists>a \<in> set (artifacts db).
    ca_id c = di_campaign_id d \<and> (\<forall>c' \<in> set (eligible_campaigns db ids). ca_created_at c' \<le> ca_created_at c) \<and>
    ar_version a = di_target_version d \<and> str_or (ar_checksum a) [] = di_checksum d \<and>
    rollout_eligible now (campaign_of_row db c) cuuid = Inr True \<and>
    (di_action d = ''update'' \<and> ca_artifact_id c = Some (ar_id a) \<and> parse_version_tuple pv < parse_version_tuple (ar_version a) \<and>
       host_compatible plat (ar_min_host_version a) (ar_max_host_version a) \<or>
     di_action d = ''rollback'' \<and> ca_rollback_artifact_id c = Some (ar_id a) \<and>
       (\<exists>a0 \<in> set (artifacts db). ca_artifact_id c = Some (ar_id a0) \<and> pv \<noteq> ar_version a0 \<and>
          parse_version_tuple (ar_version a0) \<le> parse_version_tuple pv))"
proof -
  obtain v where v: "resolve_active_campaign db ids dt plat = Some v"
    using assms by (auto simp: build_update_directive_def split: option.splits)
  then obtain c where c: "c \<in> set (eligible_campaigns db ids)" "v = campaign_of_row db c"
    "\<forall>c' \<in> set (eligible_campaigns db ids). ca_created_at c' \<le> ca_created_at c"
    "host_compatible plat (col ar_min_host_version (artifact_of db (ca_artifact_id c)))
       (col ar_max_host_version (artifact_of db (ca_artifact_id c)))"
    by (rule resolve_Some)
  note d = directive_Some [OF assms [unfolded v]]
  then obtain a where a: "artifact_of db (ca_artifact_id c) = Some a" "cv_artifact_version v = ar_version a"
    "cv_artifact_checksum v = str_or (ar_checksum a) []"
    unfolding c(2) by (auto simp: campaign_of_row_def Let_def col_def str_or_def split: option.splits)
  have host: "host_compatible plat (ar_min_host_version a) (ar_max_host_version a)"
    using c(4) by (simp add: a(1) col_def)
  show ?thesis
  proof (cases "di_action d = ''update''")
    case True
    then show ?thesis using c(1,3) d a host artifact_of_Some [OF a(1)]
      by (intro bexI [of _ c] bexI [of _ a]) (auto simp: c(2) campaign_of_row_def Let_def)
  next
    case False
    with d have rb: "cv_rollback_version v \<noteq> []" "di_target_version d = cv_rollback_version v"
      "di_checksum d = cv_rollback_checksum v" by auto
    then obtain r where r: "artifact_of db (ca_rollback_artifact_id c) = Some r" "cv_rollback_version v = ar_version r"
      "cv_rollback_checksum v = str_or (ar_checksum r) []"
      unfolding c(2) by (auto simp: campaign_of_row_def Let_def col_def str_or_def split: option.splits)
    show ?thesis using False c(1,3) d a r rb artifact_of_Some [OF a(1)] artifact_of_Some [OF r(1)]
      by (intro bexI [of _ c] bexI [of _ r]) (auto simp: c(2) campaign_of_row_def Let_def not_less)
  qed
qed

definition demo_artifact :: "int \<Rightarrow> string \<Rightarrow> artifact_row" where
  "demo_artifact i v = \<lparr>ar_id = i, ar_device_type = ''libreoffice'', ar_version = v, ar_s3_path = Some ''mirai.oxt'',
     ar_checksum = Some ''abc'', ar_min_host_version = Some ''7.0'', ar_max_host_version = None, ar_changelog_url = None\<rparr>"

definition demo_args :: campaign_args where
  "demo_args = \<lparr>ca_name = ''release'', ca_description = None, ca_type = Some ''plugin_update'', ca_artifact_id = Some 2,
     ca_rollback_artifact_id = Some 1, ca_target_cohort_id = None, ca_urgency = Some ''normal'', ca_deadline_at = None,
     ca_status = Some ''active'', ca_rollout_config = JNull, ca_created_by = None, ca_plugin_id = Some 1\<rparr>"

definition demo_campaigns :: campaign_db where
  "demo_campaigns = \<lparr>campaigns = [new_row 10 1 demo_args], device_status = [],
     artifacts = [demo_artifact 1 ''1.0'', demo_artifact 2 ''2.0''],
     plugin_refs = [\<lparr>pl_id = 1, pl_device_type = ''libreoffice'', pl_status = ''active''\<rparr>], cohort_ids = []\<rparr>"

theorem directive_provenance_witness:
  "\<exists>d. build_update_directive 20 ''1.5'' (resolve_active_campaign demo_campaigns [] ''libreoffice'' ''7.4'') ''u'' [] = Inr (Some d) \<and>
     di_target_version d = ''2.0'' \<and> (\<exists>a \<in> set (artifacts demo_campaigns). ar_version a = di_target_version d)"
proof -
  define d where "d = \<lparr>di_action = ''update'', di_current_version = ''1.5'', di_target_version = ''2.0'',
    di_artifact_url = ''/binaries/mirai.oxt'', di_checksum = ''abc'', di_urgency = ''normal'', di_changelog_url = None,
    di_deadline_at = None, di_campaign_id = 1\<rparr>"
  have d: "build_update_directive 20 ''1.5'' (resolve_active_campaign demo_campaigns [] ''libreoffice'' ''7.4'') ''u'' [] = Inr (Some d)"
    unfolding d_def by code_simp
  show ?thesis using directive_provenance [OF d] d by (intro exI [of _ d]) (auto simp: d_def)
qed



text \<open>Property C16. Creating an active update campaign leaves no competitor: every other active update
  campaign then belongs to another plugin, and there is none at all when no plugin is given. A campaign
  created for all devices and later than all existing ones is the one resolved, for every device whose host
  version its artifact admits.\<close>

theorem create_campaign_exclusive:
  assumes "create_campaign now cid a db = Inr (i, db')" "ca_status a = Some ''active''" "ca_type a = Some ''plugin_update''"
  shows "(\<forall>c \<in> set (campaigns db'). ca_status c = Some ''active'' \<and> ca_type c = Some ''plugin_update'' \<longrightarrow>
      c = last (campaigns db') \<or> (ca_plugin_id c \<noteq> None \<and> ca_plugin_id a \<noteq> None \<and> ca_plugin_id c \<noteq> ca_plugin_id a)) \<and>
    (ca_target_cohort_id a = None \<and> (\<forall>c \<in> set (campaigns db). ca_created_at c < now) \<and>
       (let art = artifact_of db (ca_artifact_id a)
        in host_compatible plat (col ar_min_host_version art) (col ar_max_host_version art)) \<longrightarrow>
     map_option cv_campaign_id (resolve_active_campaign db' ids dt plat) = Some cid)"
proof -
  obtain a' db1 where r: "campaigns db' = campaigns db1 @ [new_row now cid a']" "artifacts db' = artifacts db"
    "ca_status a' = ca_status a" "ca_type a' = ca_type a" "ca_plugin_id a' = ca_plugin_id a"
    "ca_target_cohort_id a' = ca_target_cohort_id a" "ca_artifact_id a' = ca_artifact_id a"
    "db1 = complete_older now (ca_type a) (ca_plugin_id a) db"
    using create_campaign_row [OF assms(1)] assms(2) by metis
  have old: "\<not> superseded (ca_type a) (ca_plugin_id a) c \<and> (\<exists>c0 \<in> set (campaigns db). ca_created_at c = ca_created_at c0)"
    if "c \<in> set (campaigns db1)" for c
    using complete_older_row [of c now "ca_type a" "ca_plugin_id a" db] that by (simp add: r(8))
  have art: "artifact_of db' (ca_artifact_id a) = artifact_of db (ca_artifact_id a)" by (simp add: artifact_of_def r(2))
  have "newest_campaign (eligible_campaigns db' ids) = Some (new_row now cid a')"
    if "ca_target_cohort_id a = None" "\<forall>c \<in> set (campaigns db). ca_created_at c < now"
    using that assms(2,3) r old
    by (intro newest_campaign_strict) (fastforce simp: eligible_campaigns_def)+
  then show ?thesis using assms(2,3) r(1) old art
    by (auto simp: superseded_def resolve_active_campaign_def Let_def r(7) campaign_of_row_def)
qed

theorem create_campaign_exclusive_witness:
  "\<exists>db'. create_campaign 20 2 demo_args demo_campaigns = Inr (2, db') \<and>
     map_option cv_campaign_id (resolve_active_campaign db' [] ''libreoffice'' ''7.4'') = Some 2"
proof -
  define db' where "db' = snd (the (result_option (create_campaign 20 2 demo_args demo_campaigns)))"
  have c: "create_campaign 20 2 demo_args demo_campaigns = Inr (2, db')"
    unfolding db'_def by (simp add: create_campaign_def insert_campaign_def args_ok_def demo_args_def demo_campaigns_def
      in_check_def fk_ok_def campaign_types_def campaign_statuses_def urgencies_def complete_older_def demo_artifact_def
      result_option_def)
  have h: "let art = artifact_of demo_campaigns (ca_artifact_id demo_args)
     in host_compatible ''7.4'' (col ar_min_host_version art) (col ar_max_host_version art)" by code_simp
  show ?thesis
    using create_campaign_exclusive [OF c, of "''7.4''" "[]" "''libreoffice''"] c h
    by (simp add: demo_args_def demo_campaigns_def)
qed

text \<open>With relay authentication on, a device status changes only through a report whose
  relay credentials were accepted, about the client those credentials belong to: every row the report
  touches is the one of that client and the reported campaign, and it reads \<open>updated\<close> for an
  installation and \<open>failed\<close> for every other accepted status, a deferred update included.\<close>

theorem report_bound_to_client:
  assumes "relay_enabled cfg" "report_update_status cfg pg use_db now hs body rs db = (r, db')" "db' \<noteq> db"
  shows "\<exists>meta b st n t. relay_auth_from_request cfg use_db now hs None False rs = Inr (Inr meta) \<and>
    body = Some (JObj b) \<and> body_get b ''status'' = JStr st \<and> st \<in> set allowed_reports \<and>
    rm_client_uuid meta \<in> {[], py_str (body_get b ''client_uuid'')} \<and>
    as_int pg (jget b ''campaign_id'') = Some n \<and> as_text pg (body_get b ''client_uuid'') = Some t \<and>
    campaigns db' = campaigns db \<and>
    (\<forall>x \<in> set (device_status db'). x \<in> set (device_status db) \<or>
       ds_campaign_id x = n \<and> ds_client_uuid x = t \<and> ds_status x = (if st = ''installed'' then ''updated'' else ''failed''))"
proof -
  obtain meta j where m: "relay_auth_from_request cfg use_db now hs None False rs = Inr (Inr meta)" "body = Some j"
    and acc: "accept_report pg use_db now (Some meta) j db = (r, db')"
    using assms by (auto simp: report_update_status_def Let_def split: sum.splits option.splits)
  then obtain b st where b: "j = JObj b" "body_get b ''status'' = JStr st" "st \<in> set allowed_reports"
    "rm_client_uuid meta \<in> {[], py_str (body_get b ''client_uuid'')}"
    and upd: "update_campaign_device_status_sync pg use_db now (jget b ''campaign_id'') (body_get b ''client_uuid'') st
        (body_get b ''version_before'') (body_get b ''version_after'') (body_get b ''error_detail'') db = db'"
    using assms(3) by (auto simp: accept_report_def Let_def split: json.splits if_splits)
  then have "update_campaign_device_status pg now (jget b ''campaign_id'') (body_get b ''client_uuid'') st
        (body_get b ''version_before'') (body_get b ''version_after'') (body_get b ''error_detail'') db = Inr db'"
    using assms(3) by (auto simp: update_campaign_device_status_sync_def split: if_splits sum.splits)
  from status_update_effect [OF this] m b show ?thesis by blast
qed

definition demo_pg :: pg_adapter where
  "demo_pg = \<lparr>as_int = (\<lambda>j. case j of JInt n \<Rightarrow> Some n | _ \<Rightarrow> None),
     as_text = (\<lambda>j. case j of JStr t \<Rightarrow> Some t | _ \<Rightarrow> None), jsonb_ok = (\<lambda>_. True)\<rparr>"

definition demo_report :: json where
  "demo_report = JObj [(''status'', JStr ''deferred''), (''client_uuid'', JStr ''u1''), (''campaign_id'', JInt 1)]"

definition demo_relay_headers :: headers where
  "demo_relay_headers = [(''x-relay-client'', relay_id ''aa''), (''x-relay-key'', b64url_encode ''x'')]"

lemma relay_on: "relay_enabled demo_settings"
  by (simp add: demo_settings_def settings_defaults_def)

lemma demo_relay_parts:
  "header_or demo_relay_headers ''x-relay-client'' ''x-client-id'' = relay_id ''aa''"
  "header_or demo_relay_headers ''x-relay-key'' ''x-client-key'' = b64url_encode ''x''"
  by (simp_all add: demo_relay_headers_def header_or_def header_def relay_id_def str_or_def b64url_not_Nil
      dget_def lower_def lower_char_def)

lemma demo_relay_accepted:
  "relay_auth_from_request demo_settings True 0 demo_relay_headers None False (snd (demo_mint True 0 ''aa'' no_relays)) =
     Inr (minted_verdict demo_settings 0 0 ''u1'' ''a@b'' None)"
proof -
  have "lookup_relay True (relay_id ''aa'') (snd (demo_mint True 0 ''aa'' no_relays)) =
    Some (minted_row demo_settings 0 ''aa'' ''x'' ''u1'' ''a@b'')"
    using mint_lookup [OF demo_mint_Inr [of True, unfolded demo_mint_def]] by (simp add: demo_mint_def no_relays_def)
  then show ?thesis
    using verify_minted [OF demo_ids(1), where rnd = "''x''" and now = 0 and now' = 0]
    by (simp add: relay_auth_from_request_def relay_on demo_relay_parts)
qed

theorem report_bound_to_client_witness:
  "\<exists>x. set (device_status (snd (report_update_status demo_settings demo_pg True 0 demo_relay_headers (Some demo_report)
       (snd (demo_mint True 0 ''aa'' no_relays)) demo_campaigns))) = {x} \<and> ds_client_uuid x = ''u1'' \<and> ds_status x = ''failed''"
proof -
  let ?db = "demo_campaigns\<lparr>device_status := [\<lparr>ds_campaign_id = 1, ds_client_uuid = ''u1'', ds_email = None, ds_status = ''failed'',
    ds_version_before = Some [], ds_version_after = None, ds_error_message = None, ds_last_contact_at = None, ds_updated_at = 0\<rparr>]\<rparr>"
  obtain meta where meta: "relay_auth_from_request demo_settings True 0 demo_relay_headers None False
      (snd (demo_mint True 0 ''aa'' no_relays)) = Inr (Inr meta)" "rm_client_uuid meta = ''u1''"
    unfolding demo_relay_accepted by (simp add: minted_verdict_def str_or_def relay_ttl_def int_time_def)
  have "report_update_status demo_settings demo_pg True 0 demo_relay_headers (Some demo_report)
       (snd (demo_mint True 0 ''aa'' no_relays)) demo_campaigns = (Inr (ok_json 200 [(''status'', JStr ''deferred'')]), ?db)"
    using meta
    by (simp add: report_update_status_def accept_report_def demo_report_def body_get_def dget_def jget_def allowed_reports_def
        py_str_def update_campaign_device_status_sync_def update_campaign_device_status_def sql_not_null_def sql_param_def
        demo_pg_def json_or_null_def upsert_status_def demo_campaigns_def relay_on)
  moreover have "?db \<noteq> demo_campaigns" by (simp add: demo_campaigns_def)
  ultimately show ?thesis
    using report_bound_to_client [OF relay_on, of demo_pg True 0 demo_relay_headers "Some demo_report"
        "snd (demo_mint True 0 ''aa'' no_relays)" demo_campaigns _ ?db]
    by (auto simp: demo_campaigns_def demo_report_def body_get_def dget_def jget_def demo_pg_def)
qed

text \<open>Creating an active campaign over the REST interface is not atomic: when the row to
  insert violates a constraint, the caller gets an error and no campaign is added, but the campaigns it
  was to replace are already completed and stay so.\<close>

theorem api_create_not_atomic:
  assumes "body_plugin_id pg db b = Inr pid" "dget b ''status'' = Some (JStr ''active'')" "as_text pg (JStr ''active'') = Some ''active''"
    "body_args pg b pid = Inr a" "\<not> args_ok db a"
  shows "create_campaign_db_work pg exc now cid (JObj b) db =
    (fail_json 500 (exc DatabaseError), complete_older now (ca_type a) (ca_plugin_id a) db)"
proof -
  have "sql_param (as_text pg) (case dget b ''type'' of None \<Rightarrow> JStr ''plugin_update'' | Some v \<Rightarrow> v) = Inr (ca_type a)"
    "sql_param (as_int pg) pid = Inr (ca_plugin_id a)"
    using assms(4) by (auto simp: body_args_def Let_def bind_result_def split: sum.splits if_splits)
  moreover have "args_ok (complete_older now (ca_type a) (ca_plugin_id a) db) a = args_ok db a"
    by (simp add: args_ok_def complete_older_def)
  ultimately show ?thesis using assms by (simp add: create_campaign_db_work_def Let_def insert_campaign_def)
qed

definition bad_body :: "json dict" where
  "bad_body = [(''status'', JStr ''active''), (''urgency'', JStr ''high''), (''plugin_id'', JInt 1)]"

theorem api_create_not_atomic_witness:
  "map ca_status (campaigns (snd (create_campaign_db_work demo_pg (\<lambda>_. []) 30 3 (JObj bad_body) demo_campaigns))) = [Some ''completed''] \<and>
   r_status (fst (create_campaign_db_work demo_pg (\<lambda>_. []) 30 3 (JObj bad_body) demo_campaigns)) = 500"
proof -
  define a where "a = the (result_option (body_args demo_pg bad_body (JInt 1)))"
  have "body_plugin_id demo_pg demo_campaigns bad_body = Inr (JInt 1)" "dget bad_body ''status'' = Some (JStr ''active'')"
    "as_text demo_pg (JStr ''active'') = Some ''active''"
    by (simp_all add: body_plugin_id_def bad_body_def dget_def jget_def demo_pg_def)
  moreover have "body_args demo_pg bad_body (JInt 1) = Inr a"
    unfolding a_def by (simp add: body_args_def bad_body_def dget_def jget_def demo_pg_def sql_param_def sql_not_null_def result_option_def)
  moreover have "\<not> args_ok demo_campaigns a" "complete_older 30 (ca_type a) (ca_plugin_id a) demo_campaigns =
    demo_campaigns\<lparr>campaigns := map (\<lambda>c. c\<lparr>ca_status := Some ''completed'', ca_updated_at := 30\<rparr>) (campaigns demo_campaigns)\<rparr>"
    unfolding a_def by (simp_all add: body_args_def bad_body_def dget_def jget_def demo_pg_def sql_param_def sql_not_null_def
      result_option_def args_ok_def in_check_def urgencies_def complete_older_def demo_campaigns_def superseded_def demo_args_def)
  ultimately show ?thesis
    using api_create_not_atomic [where pg = demo_pg and db = demo_campaigns and b = bad_body and pid = "JInt 1" and a = a
        and exc = "\<lambda>_. []" and now = 30 and cid = 3]
    by (simp add: demo_campaigns_def fail_json_def)
qed

end
