(* ===== verification/Worker.thy ===== *)
theory Worker
  imports Enroll
begin

text \<open>
  The queue worker (\<open>app/main.py\<close>, \<open>app/worker_main.py\<close>): what a job of each topic does, and the
  loop that claims a batch, processes the jobs one by one and acknowledges, retries or buries
  each. An exception the loop does not catch (the move to the dead letters raises) ends it. The upstream collector is the argument \<open>up\<close>, the database's acceptance of a batch of
  telemetry rows the argument \<open>db_accepts\<close>. The loop reads its clock, the drawn jitter and the
  stop flag from a script of inputs, one entry per poll and one per job.
\<close>

section \<open>Forwarding telemetry\<close>

record upstream_req =
  uq_endpoint :: string
  uq_body :: bytes
  uq_headers :: "string dict"

datatype upstream_reply = Reply int bytes string | Unreachable string

definition forward_telemetry_to_upstream ::
  "settings \<Rightarrow> (upstream_req \<Rightarrow> upstream_reply) \<Rightarrow> bytes \<Rightarrow> string \<Rightarrow> string option \<Rightarrow> (int \<times> bytes \<times> string) result" where
  "forward_telemetry_to_upstream cfg up body ctype ua =
     (let endpoint = strip (telemetry_upstream_endpoint cfg);
          auth_type = strip (telemetry_upstream_auth_type cfg);
          key = strip (telemetry_upstream_key cfg);
          hs = [(''Content-Type'', if ctype = [] then ''application/json'' else ctype)] @
               (case ua of Some u \<Rightarrow> if u \<noteq> [] then [(''User-Agent'', u)] else [] | None \<Rightarrow> []) @
               (if auth_type \<noteq> [] \<and> key \<noteq> [] then [(''Authorization'', strip (auth_type @ '' '' @ key))] else [])
      in if endpoint = [] then Inl (HTTPException 503 ''Telemetry upstream endpoint is not configured.'')
         else case up \<lparr>uq_endpoint = endpoint, uq_body = body, uq_headers = hs\<rparr> of
           Reply st reply_body ct \<Rightarrow> Inr (st, reply_body, ct)
         | Unreachable e \<Rightarrow> Inl (HTTPException 502 (''Telemetry upstream unreachable: '' @ e)))"

definition decode_job_body :: "string \<Rightarrow> bytes result" where
  "decode_job_body encoded = (let v = strip encoded in if v = [] then Inr [] else b64url_decode v)"

section \<open>Spans\<close>

text \<open>A parameter tuple of the insert; the timestamp is the span's start in nanoseconds.\<close>

record span_row =
  sp_client_uuid :: string
  sp_email :: json
  sp_name :: json
  sp_ts :: "int option"
  sp_attributes :: "(json \<times> json) list"
  sp_plugin_version :: json

text \<open>\<open>{a["key"]: a.get("value", {}).get("stringValue", "") for a in attrs}\<close>; a list or a dictionary
  is no dictionary key.\<close>

definition attr_pair :: "json \<Rightarrow> (json \<times> json) result" where
  "attr_pair a = (case a of
       JObj d \<Rightarrow>
         (case dget d ''key'' of
            None \<Rightarrow> Inl (KeyError ''key'')
          | Some k \<Rightarrow>
              bind_result (py_get (case dget d ''value'' of None \<Rightarrow> JObj [] | Some v \<Rightarrow> v) ''stringValue'' (JStr []))
                (\<lambda>v. case k of JList _ \<Rightarrow> Inl TypeError | JObj _ \<Rightarrow> Inl TypeError | _ \<Rightarrow> Inr (k, v)))
     | _ \<Rightarrow> Inl TypeError)"

definition attr_dict :: "json \<Rightarrow> (json \<times> json) list result" where
  "attr_dict attrs =
     bind_result (py_iter attrs) (\<lambda>as. bind_result (map_result attr_pair as) (\<lambda>ps.
       Inr (fold (\<lambda>(k, v). AList.update k v) ps [])))"

definition attr_get :: "(json \<times> json) list \<Rightarrow> string \<Rightarrow> json" where
  "attr_get d k = (case map_of d (JStr k) of None \<Rightarrow> JNull | Some v \<Rightarrow> v)"

text \<open>\<open>datetime.fromtimestamp(start_ns / 1e9)\<close> raises outside the years 1 to 9999.\<close>

definition span_time :: "int \<Rightarrow> int option result" where
  "span_time start_ns =
     (if start_ns = 0 then Inr None
      else if start_ns div 1000000000 < - 62135596800 \<or> 253402300800 \<le> start_ns div 1000000000
      then Inl (ValueError ''year is out of range'') else Inr (Some start_ns))"

definition span_to_row :: "string \<Rightarrow> (json \<times> json) list \<Rightarrow> json \<Rightarrow> span_row option result" where
  "span_to_row cuuid res_attrs sp =
     bind_result (py_get sp ''name'' (JStr [])) (\<lambda>name.
       if \<not> truthy name then Inr None
       else bind_result (bind_result (py_get sp ''attributes'' (JList [])) attr_dict) (\<lambda>sa.
         let email = json_or (attr_get sa ''user.email'') (json_or (attr_get res_attrs ''user.email'') (JStr []));
             ver = json_or (attr_get sa ''extension.version'') (json_or (attr_get res_attrs ''service.version'') (JStr []))
         in bind_result (bind_result (py_get sp ''startTimeUnixNano'' (JInt 0)) json_int) (\<lambda>ns.
              bind_result (span_time ns) (\<lambda>ts.
                Inr (Some \<lparr>sp_client_uuid = cuuid, sp_email = email, sp_name = name, sp_ts = ts,
                           sp_attributes = sa, sp_plugin_version = ver\<rparr>)))))"

definition scope_rows :: "string \<Rightarrow> (json \<times> json) list \<Rightarrow> json \<Rightarrow> span_row list result" where
  "scope_rows cuuid res_attrs ss =
     bind_result (bind_result (py_get ss ''spans'' (JList [])) py_iter) (\<lambda>spans.
       bind_result (map_result (span_to_row cuuid res_attrs) spans) (\<lambda>rs.
         Inr (concat (map (\<lambda>r. case r of None \<Rightarrow> [] | Some x \<Rightarrow> [x]) rs))))"

definition resource_rows :: "string \<Rightarrow> json \<Rightarrow> span_row list result" where
  "resource_rows cuuid rs =
     bind_result (bind_result (py_get rs ''resource'' (JObj [])) (\<lambda>r. py_get r ''attributes'' (JList []))) (\<lambda>ra.
       bind_result (attr_dict ra) (\<lambda>res_attrs.
         bind_result (bind_result (py_get rs ''scopeSpans'' (JList [])) py_iter) (\<lambda>scopes.
           bind_result (map_result (scope_rows cuuid res_attrs) scopes) (\<lambda>rows. Inr (concat rows)))))"

definition otlp_rows :: "string \<Rightarrow> json \<Rightarrow> span_row list result" where
  "otlp_rows cuuid otlp =
     bind_result (bind_result (py_get otlp ''resourceSpans'' (JList [])) py_iter) (\<lambda>rss.
       bind_result (map_result (resource_rows cuuid) rss) (\<lambda>rows. Inr (concat rows)))"

text \<open>\<open>_persist_telemetry_spans\<close>: a body that is not JSON is ignored, a shape the loops cannot walk
  raises, a refusal of the database is logged and dropped.\<close>

definition persist_telemetry_spans ::
  "bool \<Rightarrow> (span_row list \<Rightarrow> bool) \<Rightarrow> bytes \<Rightarrow> string \<Rightarrow> span_row list \<Rightarrow> span_row list result" where
  "persist_telemetry_spans use_db db_accepts body cuuid tbl =
     (if \<not> use_db then Inr tbl
      else case loads_bytes body of
        None \<Rightarrow> Inr tbl
      | Some otlp \<Rightarrow>
          bind_result (otlp_rows cuuid otlp) (\<lambda>rows.
            Inr (if rows \<noteq> [] \<and> db_accepts rows then tbl @ rows else tbl)))"

section \<open>One job\<close>

record job_ctx =
  jc_settings :: settings
  jc_io :: enroll_io
  jc_inet_ok :: "string \<Rightarrow> bool"
  jc_up :: "upstream_req \<Rightarrow> upstream_reply"
  jc_db_accepts :: "span_row list \<Rightarrow> bool"
  jc_message :: "py_error \<Rightarrow> string"

record job_effects =
  je_store :: enroll_store
  je_spans :: "span_row list"

definition opt_str :: "string \<Rightarrow> string option" where
  "opt_str s = (if s = [] then None else Some s)"

definition payload_or :: "json dict \<Rightarrow> string \<Rightarrow> string \<Rightarrow> string" where
  "payload_or p k d = py_str (jget_or p k (JStr d))"

definition process_telemetry_job :: "job_ctx \<Rightarrow> json dict \<Rightarrow> job_effects \<Rightarrow> unit result \<times> job_effects" where
  "process_telemetry_job c p je =
     (case decode_job_body (jstr p ''body_b64'') of
        Inl e \<Rightarrow> (Inl e, je)
      | Inr body \<Rightarrow>
          (case forward_telemetry_to_upstream (jc_settings c) (jc_up c) body
                  (payload_or p ''content_type'' ''application/json'') (opt_str (strip (jstr p ''user_agent''))) of
             Inl e \<Rightarrow> (Inl e, je)
           | Inr (st, _, _) \<Rightarrow>
               (let st' = (if st = 0 then 500 else st)
                in if st' < 200 \<or> 300 \<le> st'
                   then (Inl (RuntimeError (''telemetry upstream returned status='' @ str_of_int st')), je)
                   else case persist_telemetry_spans (io_use_db (jc_io c)) (jc_db_accepts c) body
                               (strip (jstr p ''client_uuid'')) (je_spans je) of
                     Inl e \<Rightarrow> (Inl e, je)
                   | Inr spans \<Rightarrow> (Inr (), je\<lparr>je_spans := spans\<rparr>))))"

definition process_enroll_job :: "job_ctx \<Rightarrow> timestamp \<Rightarrow> json dict \<Rightarrow> job_effects \<Rightarrow> unit result \<times> job_effects" where
  "process_enroll_job c now p je =
     (case decode_job_body (jstr p ''body_b64'') of
        Inl e \<Rightarrow> (Inl e, je)
      | Inr body \<Rightarrow>
          (let email = strip (jstr p ''email''); cuuid = strip (jstr p ''client_uuid'');
               fp = str_or (Some (strip (payload_or p ''fingerprint'' ''unknown''))) ''unknown'';
               dev = strip (jstr p ''device_name'');
               ip = opt_str (strip (jstr p ''source_ip'')); ua = opt_str (strip (jstr p ''user_agent''))
           in if email = [] \<or> cuuid = [] \<or> dev = [] then (Inl (RuntimeError ''invalid enroll.process payload''), je)
              else case persist_enroll_side_effects (jc_settings c) (jc_io c) (jc_inet_ok c) now
                     \<lparr>ea_body = body, ea_email = email, ea_client_uuid = cuuid, ea_fingerprint = fp,
                      ea_device_name = dev, ea_source_ip = ip, ea_user_agent = ua\<rparr> (je_store je) of
                (Inl e, st) \<Rightarrow> (Inl e, je\<lparr>je_store := st\<rparr>)
              | (Inr _, st) \<Rightarrow> (Inr (), je\<lparr>je_store := st\<rparr>)))"

definition process_queue_job :: "job_ctx \<Rightarrow> timestamp \<Rightarrow> queue_job \<Rightarrow> job_effects \<Rightarrow> unit result \<times> job_effects" where
  "process_queue_job c now job je =
     (if qj_topic job = ''telemetry.forward'' then process_telemetry_job c (qj_payload job) je
      else if qj_topic job = ''enroll.process'' then process_enroll_job c now (qj_payload job) je
      else (Inl (RuntimeError (''unknown queue topic '' @ [CHR 0x27] @ qj_topic job @ [CHR 0x27])), je))"

text \<open>\<open>str(exc)\<close>; Starlette prints an \<open>HTTPException\<close> with its status. The message the interpreter or
  the driver composes for an exception the model names without one is the argument \<open>message\<close>.\<close>

fun exc_text :: "(py_error \<Rightarrow> string) \<Rightarrow> py_error \<Rightarrow> string" where
  "exc_text message (ValueError m) = m"
| "exc_text message (RuntimeError m) = m"
| "exc_text message (BinasciiError m) = m"
| "exc_text message (UnicodeError m) = m"
| "exc_text message (OSError m) = m"
| "exc_text message (KeyError k) = repr_str k"
| "exc_text message (HTTPException st d) = str_of_int st @ '': '' @ d"
| "exc_text message e = message e"

section \<open>The loop\<close>

text \<open>What the loop reads while it handles one job: the stop flag before it, the clock, the
  jitter.\<close>

record tick =
  tk_stop :: bool
  tk_now :: timestamp
  tk_draw :: int

definition finish_job ::
  "job_ctx \<Rightarrow> queue_cfg \<Rightarrow> string \<Rightarrow> tick \<Rightarrow> queue_job \<Rightarrow> unit result \<Rightarrow> queue_db \<Rightarrow> unit result \<times> queue_db" where
  "finish_job c cfg w tk job outcome db = (case outcome of
       Inr _ \<Rightarrow> (Inr (), snd (ack (tk_now tk) (qj_id job) w db))
     | Inl e \<Rightarrow>
         if qj_attempts job \<ge> qj_max_attempts job
         then (case move_to_dead_letter (tk_now tk) job w (exc_text (jc_message c) e) db of
                 (Inl e', db') \<Rightarrow> (Inl e', db')
               | (Inr _, db') \<Rightarrow> (Inr (), db'))
         else (Inr (), snd (retry cfg (tk_now tk) (tk_draw tk) (qj_id job) w (qj_attempts job)
                 (exc_text (jc_message c) e) db)))"

text \<open>The jobs of a batch; an exception of \<open>finish_job\<close>, raised inside the \<open>except\<close> clause, leaves the
  loop.\<close>

fun run_jobs ::
  "job_ctx \<Rightarrow> queue_cfg \<Rightarrow> string \<Rightarrow> (queue_job \<times> tick) list \<Rightarrow> queue_db \<Rightarrow> job_effects
     \<Rightarrow> unit result \<times> queue_db \<times> job_effects" where
  "run_jobs c cfg w [] db je = (Inr (), db, je)"
| "run_jobs c cfg w ((job, tk) # rest) db je =
     (if tk_stop tk then (Inr (), db, je)
      else let (outcome, je') = process_queue_job c (tk_now tk) job je
        in case finish_job c cfg w tk job outcome db of
             (Inl e, db') \<Rightarrow> (Inl e, db', je')
           | (Inr _, db') \<Rightarrow> run_jobs c cfg w rest db' je')"

text \<open>One turn of the loop: the stop flag, the clock of the claim, the rows other transactions hold,
  and a tick per claimed job.\<close>

record poll =
  po_stop :: bool
  po_now :: timestamp
  po_skip :: "string list"
  po_tick :: "string \<Rightarrow> tick"

text \<open>The loop ends when the stop flag is set, when an \<open>once\<close> run finds nothing to do, when a job
  raises out of it, or when the script of polls is used up (the process is killed).\<close>

fun worker_loop ::
  "job_ctx \<Rightarrow> queue_cfg \<Rightarrow> string \<Rightarrow> int \<Rightarrow> bool \<Rightarrow> poll list \<Rightarrow> queue_db \<Rightarrow> job_effects
     \<Rightarrow> unit result \<times> queue_db \<times> job_effects" where
  "worker_loop c cfg w limit once [] db je = (Inr (), db, je)"
| "worker_loop c cfg w limit once (p # ps) db je =
     (if po_stop p then (Inr (), db, je)
      else case claim_jobs cfg (po_now p) (po_skip p) w limit db of
        (jobs, db1) \<Rightarrow>
          (if jobs = [] then (if once then (Inr (), db1, je) else worker_loop c cfg w limit once ps db1 je)
           else case run_jobs c cfg w (map (\<lambda>j. (j, po_tick p (qj_id j))) jobs) db1 je of
             (Inl e, db2, je2) \<Rightarrow> (Inl e, db2, je2)
           | (Inr _, db2, je2) \<Rightarrow> worker_loop c cfg w limit once ps db2 je2))"

definition run_queue_worker_loop ::
  "job_ctx \<Rightarrow> queue_cfg option \<Rightarrow> string \<Rightarrow> bool \<Rightarrow> poll list \<Rightarrow> queue_db \<Rightarrow> job_effects
     \<Rightarrow> unit result \<times> queue_db \<times> job_effects" where
  "run_queue_worker_loop c queue w once ps db je = (case queue of
       None \<Rightarrow> (Inr (), db, je)
     | Some cfg \<Rightarrow> worker_loop c cfg w (max 1 (queue_batch_size (jc_settings c))) once ps db je)"

text \<open>\<open>worker_main.main\<close>: the mode gate in front of the loop.\<close>

definition worker_main ::
  "job_ctx \<Rightarrow> queue_cfg option \<Rightarrow> string \<Rightarrow> poll list \<Rightarrow> queue_db \<Rightarrow> job_effects
     \<Rightarrow> unit result \<times> queue_db \<times> job_effects" where
  "worker_main c queue w ps db je =
     (let mode = lower (strip (str_or (Some (runtime_mode (jc_settings c))) ''worker''))
      in if mode \<notin> {''worker'', ''all''} then (Inr (), db, je)
         else run_queue_worker_loop c queue w False ps db je)"

section \<open>What the loop relies on\<close>

text \<open>The contract between the loop and the queue: an action on a held job rewrites that job as
  agreed and touches no other.\<close>

locale job_board =
  fixes view :: "'q \<Rightarrow> string \<Rightarrow> 'v option"
    and held :: "'v \<Rightarrow> bool"
    and act :: "'a \<Rightarrow> 'q \<Rightarrow> 'q"
    and target :: "'a \<Rightarrow> string"
    and res :: "'a \<Rightarrow> 'v \<Rightarrow> 'v"
  assumes act_target: "view q (target a) = Some v \<Longrightarrow> held v \<Longrightarrow> view (act a q) (target a) = Some (res a v)"
    and act_other: "i \<noteq> target a \<Longrightarrow> view (act a q) i = view q i"
begin

lemma fold_other: "i \<notin> target ` set as \<Longrightarrow> view (fold act as q) i = view q i"
  by (induction as arbitrary: q) (auto simp: act_other)

text \<open>Over a batch of distinct held jobs every job ends in the state its own action gives it.\<close>

lemma fold_target:
  "distinct (map target as) \<Longrightarrow> a \<in> set as \<Longrightarrow> view q (target a) = Some v \<Longrightarrow> held v \<Longrightarrow>
     view (fold act as q) (target a) = Some (res a v)"
proof (induction as arbitrary: q)
  case (Cons b bs)
  show ?case
  proof (cases "a = b")
    case True
    then have "target a \<notin> target ` set bs" using Cons.prems(1) by auto
    with True Cons.prems(3,4) show ?thesis by (simp add: fold_other act_target)
  next
    case False
    then have a: "a \<in> set bs" using Cons.prems(2) by simp
    then have "target a \<noteq> target b" using Cons.prems(1) by (metis distinct.simps(2) image_eqI list.set_map list.simps(9))
    then have "view (act b q) (target a) = Some v" using Cons.prems(3) by (simp add: act_other)
    with Cons a show ?thesis by simp
  qed
qed simp

end

type_synonym action = "tick \<times> queue_job \<times> unit result"

text \<open>A failure of the last allowed attempt, after which the loop calls \<open>move_to_dead_letter\<close>.\<close>

definition exhausted :: "queue_job \<Rightarrow> unit result \<Rightarrow> bool" where
  "exhausted job outcome = (isl outcome \<and> qj_max_attempts job \<le> qj_attempts job)"

definition act_job :: "job_ctx \<Rightarrow> queue_cfg \<Rightarrow> string \<Rightarrow> action \<Rightarrow> queue_db \<Rightarrow> queue_db" where
  "act_job c cfg w = (\<lambda>(tk, job, outcome) db. snd (finish_job c cfg w tk job outcome db))"

definition act_target :: "action \<Rightarrow> string" where
  "act_target = (\<lambda>(tk, job, outcome). qj_id job)"

definition held_by :: "string \<Rightarrow> job_row \<Rightarrow> bool" where
  "held_by w r = (status r = Processing \<and> lock_owner r = Some w)"

text \<open>The row an action leaves behind: a job that is out of attempts stays as it is.\<close>

definition act_row :: "job_ctx \<Rightarrow> queue_cfg \<Rightarrow> action \<Rightarrow> job_row \<Rightarrow> job_row" where
  "act_row c cfg = (\<lambda>(tk, job, outcome) r. case outcome of
       Inr _ \<Rightarrow> ack_row (tk_now tk) r
     | Inl e \<Rightarrow>
         if qj_attempts job \<ge> qj_max_attempts job then r
         else retry_row (tk_now tk) (retry_delay_seconds cfg (tk_draw tk) (qj_attempts job)) (exc_text (jc_message c) e) r)"

lemma act_row_simps [simp]:
  "act_row c cfg (tk, job, Inr u) r = ack_row (tk_now tk) r"
  "act_row c cfg (tk, job, Inl e) r =
     (if qj_attempts job \<ge> qj_max_attempts job then r
      else retry_row (tk_now tk) (retry_delay_seconds cfg (tk_draw tk) (qj_attempts job)) (exc_text (jc_message c) e) r)"
  by (simp_all add: act_row_def)

lemma owned_held: "find_job db jid = Some r \<Longrightarrow> owned jid w r = held_by w r"
  using find_job_Some by (auto simp: owned_def held_by_def)

lemma not_owned_other: "find_job db j = Some r \<Longrightarrow> j \<noteq> jid \<Longrightarrow> \<not> owned jid w r"
  using find_job_Some by (auto simp: owned_def)

lemma find_finish_job:
  "find_job (snd (finish_job c cfg w tk job outcome db)) j =
     map_option (\<lambda>r. if owned (qj_id job) w r then act_row c cfg (tk, job, outcome) r else r) (find_job db j)"
  by (auto simp: finish_job_def owner_ops acking.find_update_owned retrying.find_update_owned option.map_ident
      cong: if_cong split: sum.split)

text \<open>Finishing a job raises exactly when it is out of attempts.\<close>

lemma finish_job_raises:
  "fst (finish_job c cfg w tk job outcome db) = (if exhausted job outcome then Inl DatabaseError else Inr ())"
  by (cases outcome) (simp_all add: finish_job_def exhausted_def)

interpretation board: job_board find_job "held_by w" "act_job c cfg w" act_target "act_row c cfg" for c cfg w
proof unfold_locales
  fix q :: queue_db and a :: action and v
  assume v: "find_job q (act_target a) = Some v" "held_by w v"
  obtain tk job out where a: "a = (tk, job, out)" by (cases a) auto
  from v have "owned (qj_id job) w v" using owned_held a by (simp add: act_target_def)
  with v show "find_job (act_job c cfg w a q) (act_target a) = Some (act_row c cfg a v)"
    by (simp add: a act_job_def act_target_def find_finish_job)
next
  fix i :: string and a :: action and q :: queue_db
  assume i: "i \<noteq> act_target a"
  obtain tk job out where a: "a = (tk, job, out)" by (cases a) auto
  show "find_job (act_job c cfg w a q) i = find_job q i"
    using i not_owned_other by (cases "find_job q i") (auto simp: a act_job_def act_target_def find_finish_job)
qed

text \<open>The actions of a batch that complete, in order: up to the job before which the stop flag is
  seen, or the one that fails its last attempt.\<close>

fun batch_actions :: "job_ctx \<Rightarrow> (queue_job \<times> tick) list \<Rightarrow> job_effects \<Rightarrow> action list" where
  "batch_actions c [] je = []"
| "batch_actions c ((job, tk) # rest) je =
     (case process_queue_job c (tk_now tk) job je of
        (outcome, je') \<Rightarrow>
          if tk_stop tk \<or> exhausted job outcome then []
          else (tk, job, outcome) # batch_actions c rest je')"

lemma finish_exhausted: "exhausted job out \<Longrightarrow> finish_job c cfg w tk job out db = (Inl DatabaseError, db)"
  by (cases out) (simp_all add: finish_job_def exhausted_def)

lemma finish_done: "\<not> exhausted job out \<Longrightarrow> \<exists>db'. finish_job c cfg w tk job out db = (Inr (), db')"
  using finish_job_raises [of c cfg w tk job out db] by (cases "finish_job c cfg w tk job out db") simp

lemma run_jobs_fold: "fst (snd (run_jobs c cfg w js db je)) = fold (act_job c cfg w) (batch_actions c js je) db"
proof (induction c cfg w js db je rule: run_jobs.induct)
  case (2 c cfg w job tk rest db je)
  obtain out je' where p: "process_queue_job c (tk_now tk) job je = (out, je')" by fastforce
  show ?case
  proof (cases "tk_stop tk \<or> exhausted job out")
    case True
    with p show ?thesis by (auto simp: finish_exhausted)
  next
    case False
    then obtain db' where f: "finish_job c cfg w tk job out db = (Inr (), db')" using finish_done by blast
    with False p "2" [OF _ refl p [symmetric] f [symmetric] refl] show ?thesis by (simp add: act_job_def)
  qed
qed simp

text \<open>Which jobs complete: a prefix of the batch. When the loop raises, the next job has failed its last
  attempt; when it does not raise and no stop is seen, the prefix is the whole batch.\<close>

lemma batch_prefix: "\<exists>n. map (\<lambda>(tk, job, out). (job, tk)) (batch_actions c js je) = take n js"
proof (induction c js je rule: batch_actions.induct)
  case (2 c job tk rest je)
  obtain out je' where p: "process_queue_job c (tk_now tk) job je = (out, je')" by fastforce
  show ?case
  proof (cases "tk_stop tk \<or> exhausted job out")
    case True
    with p show ?thesis by (auto intro!: exI [of _ 0])
  next
    case False
    with "2" [OF p [symmetric]] p obtain n where
      "map (\<lambda>(tk, job, out). (job, tk)) (batch_actions c rest je') = take n rest" by auto
    with False p show ?thesis by (auto intro!: exI [of _ "Suc n"])
  qed
qed simp

lemma batch_result:
  assumes "\<forall>x \<in> set js. \<not> tk_stop (snd x)"
  shows "case fst (run_jobs c cfg w js db je) of
      Inr _ \<Rightarrow> map (\<lambda>(tk, job, out). (job, tk)) (batch_actions c js je) = js
    | Inl e \<Rightarrow> e = DatabaseError \<and> (\<exists>xs s ys je'. js = xs @ s # ys \<and>
        map (\<lambda>(tk, job, out). (job, tk)) (batch_actions c js je) = xs \<and>
        exhausted (fst s) (fst (process_queue_job c (tk_now (snd s)) (fst s) je')))"
  using assms
proof (induction c cfg w js db je rule: run_jobs.induct)
  case (2 c cfg w job tk rest db je)
  obtain out je' where p: "process_queue_job c (tk_now tk) job je = (out, je')" by fastforce
  have ns: "\<not> tk_stop tk" using "2.prems" by simp
  show ?case
  proof (cases "exhausted job out")
    case True
    then show ?thesis using ns p
      by (simp add: finish_exhausted) (intro exI [of _ "[]"] exI [of _ "(job, tk)"] exI [of _ rest] exI [of _ je], simp)
  next
    case False
    then obtain db' where f: "finish_job c cfg w tk job out db = (Inr (), db')" using finish_done by blast
    note ih = "2.IH" [OF ns refl p [symmetric] f [symmetric] refl]
    have r: "fst (run_jobs c cfg w ((job, tk) # rest) db je) = fst (run_jobs c cfg w rest db' je')"
      and b: "batch_actions c ((job, tk) # rest) je = (tk, job, out) # batch_actions c rest je'"
      using ns p f False by simp_all
    show ?thesis
    proof (cases "fst (run_jobs c cfg w rest db' je')")
      case (Inl e)
      with ih "2.prems" obtain xs s ys je2 where x: "e = DatabaseError" "rest = xs @ s # ys"
        "map (\<lambda>(tk, job, out). (job, tk)) (batch_actions c rest je') = xs"
        "exhausted (fst s) (fst (process_queue_job c (tk_now (snd s)) (fst s) je2))" by auto
      then show ?thesis unfolding r b Inl sum.case
        by (intro conjI exI [of _ "(job, tk) # xs"] exI [of _ s] exI [of _ ys] exI [of _ je2]) simp_all
    next
      case (Inr u)
      with ih "2.prems" show ?thesis unfolding r b by simp
    qed
  qed
qed simp

lemma batch_targets:
  "\<exists>n. map act_target (batch_actions c js je) = map (qj_id \<circ> fst) (take n js)"
proof -
  obtain n where n: "map (\<lambda>(tk, job, out). (job, tk)) (batch_actions c js je) = take n js" using batch_prefix by blast
  have "map act_target as = map (qj_id \<circ> fst) (map (\<lambda>(tk, job, out). (job, tk)) as)" for as
    by (induction as) (auto simp: act_target_def)
  from this [of "batch_actions c js je"] show ?thesis unfolding n by blast
qed

lemma finish_job_inv: "qinv db \<Longrightarrow> qinv (snd (finish_job c cfg w tk job outcome db))"
  by (auto simp: finish_job_def owner_ops acking.update_owned_inv retrying.update_owned_inv split: sum.split)

lemma run_jobs_inv: "qinv db \<Longrightarrow> qinv (fst (snd (run_jobs c cfg w js db je)))"
proof (induction c cfg w js db je rule: run_jobs.induct)
  case (2 c cfg w job tk rest db je)
  obtain out je' where p: "process_queue_job c (tk_now tk) job je = (out, je')" by fastforce
  obtain res db' where f: "finish_job c cfg w tk job out db = (res, db')" by fastforce
  have "qinv db'" using finish_job_inv [OF "2.prems", of c cfg w tk job out] f by simp
  with "2" p f show ?case by (cases res) auto
qed simp

text \<open>A claimed job of a batch: the row behind it and the number of attempts it carries.\<close>

lemma claimed_job:
  assumes "qinv db" "claim_jobs cfg now skip w limit db = (jobs, db1)" "j \<in> set jobs"
  obtains r where "find_job db (qj_id j) = Some r" "find_job db1 (qj_id j) = Some (claim_row now w r)"
    "held_by w (claim_row now w r)" "qj_attempts j = attempts r + 1" "qj_max_attempts j = max_attempts r"
    "status r = Pending" "row_ok r"
proof -
  from claim_job_state [OF assms] obtain r where r: "find_job db (qj_id j) = Some r"
    "claimed_from cfg now skip w db1 r j" by blast
  have ok: "row_ok r"
    using find_job_Some [OF r(1)] assms(1) by (auto simp: qinv_def list_all_iff)
  obtain r' where r': "r' \<in> set (queue_jobs db)" "j = row_to_job cfg (claim_row now w r')"
    using assms(2,3) claim_rows [of cfg now skip w limit db] by auto
  then have "find_job db (qj_id j) = Some r'"
    using assms(1) by (simp add: find_job_iff qinv_def)
  with r(1) have "r' = r" by simp
  with r'(2) ok have "qj_max_attempts j = max_attempts r"
    by (simp add: row_to_job_def row_ok_def)
  with r ok that show ?thesis by (auto simp: claimed_from_def held_by_def)
qed

lemma retry_delay_pos: "1 \<le> retry_delay_seconds cfg draw att"
  by (simp add: retry_delay_seconds_def Let_def)

text \<open>How a job that was claimed and then worked on ends, unless it failed its last attempt.\<close>

definition settled :: "job_ctx \<Rightarrow> tick \<Rightarrow> queue_job \<Rightarrow> unit result \<Rightarrow> job_row \<Rightarrow> bool" where
  "settled c tk j outcome r' =
     (lock_owner r' = None \<and> attempts r' = qj_attempts j \<and>
      (case outcome of
         Inr _ \<Rightarrow> status r' = Done
       | Inl e \<Rightarrow>
           last_error r' = Some (take 2000 (exc_text (jc_message c) e)) \<and>
           status r' = Pending \<and> tk_now tk + secs 1 \<le> next_attempt_at r'))"

lemma settled_act_row:
  "attempts r = qj_attempts j \<Longrightarrow> \<not> exhausted j outcome \<Longrightarrow> settled c tk j outcome (act_row c cfg (tk, j, outcome) r)"
  using retry_delay_pos [of cfg "tk_draw tk" "qj_attempts j"]
  by (cases outcome) (auto simp: settled_def exhausted_def ack_row_def retry_row_def secs_def)

lemma batch_go: "(tk, j, out) \<in> set (batch_actions c js je) \<Longrightarrow> \<not> tk_stop tk \<and> \<not> exhausted j out"
  by (induction c js je rule: batch_actions.induct) (auto split: if_splits prod.splits)

lemma batch_stop: "tk_stop (snd s) \<Longrightarrow> batch_actions c (xs @ s # ys) je = batch_actions c xs je"
proof (induction xs arbitrary: je)
  case Nil
  then show ?case by (cases s) (simp split: prod.split)
next
  case (Cons x xs)
  then show ?case by (cases x) (simp split: prod.split)
qed

lemma distinct_targets:
  "distinct (map (qj_id \<circ> fst) js) \<Longrightarrow> distinct (map act_target (batch_actions c js je))"
  using batch_targets [of c js je] by (metis distinct_take take_map)

lemma batch_row:
  assumes q: "qinv db" and cl: "claim_jobs cfg now skip w limit db = (jobs, db1)"
    and a: "(tk, j, out) \<in> set (batch_actions c (map (\<lambda>j. (j, tick j)) jobs) je)"
  obtains r where "find_job db (qj_id j) = Some r" "j \<in> set jobs" "tk = tick j"
    "qj_attempts j = attempts r + 1" "qj_max_attempts j = max_attempts r" "status r = Pending"
    "find_job (fst (snd (run_jobs c cfg w (map (\<lambda>j. (j, tick j)) jobs) db1 je))) (qj_id j) =
       Some (act_row c cfg (tk, j, out) (claim_row now w r))"
proof -
  let ?js = "map (\<lambda>j. (j, tick j)) jobs"
  have "distinct (map (qj_id \<circ> fst) ?js)"
    using claim_distinct [OF q cl] by (simp add: comp_def)
  note d = distinct_targets [OF this, of c je]
  have "(j, tk) \<in> set (map (\<lambda>(tk, job, out). (job, tk)) (batch_actions c ?js je))"
    using a by force
  then have "(j, tk) \<in> set ?js" using batch_prefix [of c ?js je] by (metis in_set_takeD)
  then have j: "j \<in> set jobs" "tk = tick j" by auto
  from claimed_job [OF q cl j(1)] obtain r where r: "find_job db (qj_id j) = Some r"
    "find_job db1 (qj_id j) = Some (claim_row now w r)" "held_by w (claim_row now w r)"
    "qj_attempts j = attempts r + 1" "qj_max_attempts j = max_attempts r" "status r = Pending" by metis
  have "find_job (fold (act_job c cfg w) (batch_actions c ?js je) db1) (act_target (tk, j, out)) =
      Some (act_row c cfg (tk, j, out) (claim_row now w r))"
    by (rule board.fold_target [OF d a]) (use r in \<open>simp_all add: act_target_def\<close>)
  with r j that show ?thesis by (simp add: run_jobs_fold act_target_def)
qed

lemma batch_target_ids: "act_target ` set (batch_actions c js je) \<subseteq> qj_id ` fst ` set js"
proof -
  obtain n where "map act_target (batch_actions c js je) = map (qj_id \<circ> fst) (take n js)" using batch_targets by blast
  from arg_cong [OF this, of set] show ?thesis using set_take_subset [of n js] by (auto simp: image_comp)
qed

lemma ticked_ids: "qj_id ` fst ` set (map (\<lambda>j. (j, tick j)) xs) = qj_id ` set xs"
  by (simp add: image_comp comp_def)

lemma batch_others:
  assumes "claim_jobs cfg now skip w limit db = (jobs, db1)" "i \<notin> qj_id ` set jobs"
  shows "find_job (fst (snd (run_jobs c cfg w (map (\<lambda>j. (j, tick j)) jobs) db1 je))) i = find_job db i"
proof -
  have "i \<notin> act_target ` set (batch_actions c (map (\<lambda>j. (j, tick j)) jobs) je)"
    using batch_target_ids [of c "map (\<lambda>j. (j, tick j)) jobs" je] assms(2) unfolding ticked_ids by blast
  then have "find_job (fst (snd (run_jobs c cfg w (map (\<lambda>j. (j, tick j)) jobs) db1 je))) i = find_job db1 i"
    by (simp add: run_jobs_fold board.fold_other)
  also have "\<dots> = find_job db i"
    using find_claim [of cfg now skip w limit db i] claimed_ids [of cfg now skip w limit db] assms find_job_Some [of db i]
    by (cases "find_job db i") auto
  finally show ?thesis .
qed

text \<open>A job the batch did not reach is left exactly as the claim left it.\<close>

lemma unreached_job:
  assumes "qj_id j \<notin> act_target ` set (batch_actions c js je)"
  shows "find_job (fst (snd (run_jobs c cfg w js db je))) (qj_id j) = find_job db (qj_id j)"
  unfolding run_jobs_fold using assms by (rule board.fold_other)

lemma stopped_job:
  assumes "distinct (map qj_id (xs @ s # ys))" "tk_stop (tick s)" "j \<in> set (s # ys)"
  shows "find_job (fst (snd (run_jobs c cfg w (map (\<lambda>j. (j, tick j)) (xs @ s # ys)) db je))) (qj_id j) =
    find_job db (qj_id j)"
proof (rule unreached_job)
  have "qj_id j \<notin> qj_id ` set xs" using assms(1,3) by auto
  moreover have "batch_actions c (map (\<lambda>j. (j, tick j)) (xs @ s # ys)) je = batch_actions c (map (\<lambda>j. (j, tick j)) xs) je"
    using batch_stop [of "(s, tick s)"] assms(2) by simp
  ultimately show "qj_id j \<notin> act_target ` set (batch_actions c (map (\<lambda>j. (j, tick j)) (xs @ s # ys)) je)"
    using batch_target_ids [of c "map (\<lambda>j. (j, tick j)) xs" je] unfolding ticked_ids by auto
qed

text \<open>A job in the hands of a worker is returned by no claim.\<close>

lemma held_unclaimed:
  assumes "qinv db" "find_job db (qj_id j) = Some r" "held_by w r"
  shows "qj_id j \<notin> qj_id ` set (fst (claim_jobs cfg' now' skip' w' limit' db))"
proof
  assume "qj_id j \<in> qj_id ` set (fst (claim_jobs cfg' now' skip' w' limit' db))"
  then obtain j' where j': "j' \<in> set (fst (claim_jobs cfg' now' skip' w' limit' db))" "qj_id j' = qj_id j" by auto
  with claim_pending [OF assms(1) j'(1)] assms(2,3) show False by (simp add: held_by_def)
qed

section \<open>Attempts\<close>

definition att_ok :: "job_row \<Rightarrow> bool" where
  "att_ok r = (if status r = Pending then attempts r < max_attempts r else attempts r \<le> max_attempts r)"

definition att_inv :: "queue_db \<Rightarrow> bool" where
  "att_inv db = (\<forall>i r. find_job db i = Some r \<longrightarrow> att_ok r)"

lemma att_inv_rows: "qinv db \<Longrightarrow> att_inv db = (\<forall>r \<in> set (queue_jobs db). att_ok r)"
  using find_job_iff by (fastforce simp: att_inv_def qinv_def)

lemma att_claim:
  assumes "qinv db" "att_inv db" "claim_jobs cfg now skip w limit db = (jobs, db1)"
  shows "att_inv db1"
  unfolding att_inv_def
proof (intro allI impI)
  fix i r' assume r': "find_job db1 i = Some r'"
  then obtain r where r: "find_job db i = Some r"
    "r' = (if job_id r \<in> set (claim_ids cfg now skip limit db) then claim_row now w r else r)"
    using find_claim [of cfg now skip w limit db i] assms(3) by (cases "find_job db i") auto
  have ok: "att_ok r" using assms(2) r(1) by (auto simp: att_inv_def)
  show "att_ok r'"
  proof (cases "job_id r \<in> set (claim_ids cfg now skip limit db)")
    case True
    then have "claimable cfg now r"
      using selected_row [OF assms(1)] find_job_Some [OF r(1)] by blast
    with ok True r(2) show ?thesis by (auto simp: att_ok_def claimable_def)
  qed (use ok r in simp)
qed

lemma att_act_row:
  "qj_attempts j = attempts r + 1 \<Longrightarrow> qj_max_attempts j = max_attempts r \<Longrightarrow> att_ok r \<Longrightarrow> status r = Pending \<Longrightarrow>
     att_ok (act_row c cfg (tk, j, out) (claim_row now w r))"
  by (cases out) (auto simp: att_ok_def ack_row_def retry_row_def)

lemma att_run_jobs:
  assumes q: "qinv db" "att_inv db" and cl: "claim_jobs cfg now skip w limit db = (jobs, db1)"
  shows "att_inv (fst (snd (run_jobs c cfg w (map (\<lambda>j. (j, tick j)) jobs) db1 je)))" (is "att_inv ?db2")
  unfolding att_inv_def
proof (intro allI impI)
  fix i r' assume r': "find_job ?db2 i = Some r'"
  let ?as = "batch_actions c (map (\<lambda>j. (j, tick j)) jobs) je"
  show "att_ok r'"
  proof (cases "i \<in> act_target ` set ?as")
    case True
    then obtain tk j out where a: "(tk, j, out) \<in> set ?as" "i = qj_id j"
      by (auto simp: act_target_def)
    from batch_row [OF q(1) cl a(1)] obtain r where r: "find_job db (qj_id j) = Some r"
      "qj_attempts j = attempts r + 1" "qj_max_attempts j = max_attempts r" "status r = Pending"
      "find_job ?db2 (qj_id j) = Some (act_row c cfg (tk, j, out) (claim_row now w r))" by metis
    have "att_ok r" using q(2) r(1) by (auto simp: att_inv_def)
    from att_act_row [OF r(2,3) this r(4), of c cfg tk out now w] r(5) r' a(2) show ?thesis by simp
  next
    case False
    then have "find_job ?db2 i = find_job db1 i"
      unfolding run_jobs_fold by (rule board.fold_other)
    with att_claim [OF q cl] r' show ?thesis by (simp add: att_inv_def)
  qed
qed

lemma worker_loop_inv:
  "qinv db \<Longrightarrow> att_inv db \<Longrightarrow> worker_loop c cfg w limit once ps db je = (res, db', je') \<Longrightarrow> qinv db' \<and> att_inv db'"
proof (induction c cfg w limit once ps db je rule: worker_loop.induct)
  case (2 c cfg w limit once p ps db je)
  obtain jobs db1 where cl: "claim_jobs cfg (po_now p) (po_skip p) w limit db = (jobs, db1)"
    by fastforce
  let ?js = "map (\<lambda>j. (j, po_tick p (qj_id j))) jobs"
  obtain r db2 je2 where rj: "run_jobs c cfg w ?js db1 je = (r, db2, je2)" by (cases "run_jobs c cfg w ?js db1 je")
  have q1: "qinv db1" using claim_inv [OF 2(3), of cfg "po_now p" "po_skip p" w limit] cl by simp
  have a1: "att_inv db1" using att_claim [OF 2(3,4) cl] .
  have q2: "qinv db2" using run_jobs_inv [OF q1, of c cfg w ?js je] rj by simp
  have a2: "att_inv db2"
    using att_run_jobs [OF 2(3,4) cl, where tick = "\<lambda>j. po_tick p (qj_id j)" and c = c and je = je] rj by simp
  show ?case
    using 2(1) [OF _ cl [symmetric]] 2(2) [OF _ cl [symmetric] _ rj [symmetric] _ refl] 2(3-) q1 a1 q2 a2 cl rj
    by (cases r) (auto split: if_splits)
qed auto

text \<open>A job whose action completed is settled.\<close>

lemma action_settles:
  assumes "qinv db" "claim_jobs cfg now skip w limit db = (jobs, db1)"
    and "(j, tick j) \<in> set (map (\<lambda>(tk, job, out). (job, tk)) (batch_actions c (map (\<lambda>j. (j, tick j)) jobs) je))"
  shows "\<exists>out r'. (tick j, j, out) \<in> set (batch_actions c (map (\<lambda>j. (j, tick j)) jobs) je) \<and>
    find_job (fst (snd (run_jobs c cfg w (map (\<lambda>j. (j, tick j)) jobs) db1 je))) (qj_id j) = Some r' \<and>
    settled c (tick j) j out r'"
proof -
  from assms(3) obtain out where o: "(tick j, j, out) \<in> set (batch_actions c (map (\<lambda>j. (j, tick j)) jobs) je)" by auto
  from batch_row [OF assms(1,2) o] obtain r where "qj_attempts j = attempts r + 1"
    "find_job (fst (snd (run_jobs c cfg w (map (\<lambda>j. (j, tick j)) jobs) db1 je))) (qj_id j) =
       Some (act_row c cfg (tick j, j, out) (claim_row now w r))" by metis
  with o batch_go [OF o] settled_act_row [of "claim_row now w r" j out c "tick j" cfg] show ?thesis by auto
qed

text \<open>The failure of a last attempt is fatal to the worker: nothing is recorded, and the loop raises.\<close>

lemma worker_dead_letter_raises:
  assumes "process_queue_job c (tk_now tk) job je = (Inl e, je')" "qj_max_attempts job \<le> qj_attempts job" "\<not> tk_stop tk"
  shows "run_jobs c cfg w ((job, tk) # rest) db je = (Inl DatabaseError, db, je')"
  using assms by (simp add: finish_job_def)

section \<open>Properties\<close>

text \<open>Property C11. What a batch that no stop signal interrupts does to the jobs it claimed. If it runs to
  its end, every job is settled according to its own outcome: success acknowledges it, a failure
  records the error and schedules a retry at least a second later; no job stays locked. If it raises, it
  is because a job failed its last allowed attempt and the move to the dead letters raised: the
  jobs before it are settled, that job and all the jobs after it stay locked by the worker, whose loop
  has ended. In both cases no job outside the batch changes.\<close>

theorem worker_batch_settles:
  assumes "qinv db" "claim_jobs cfg now skip w limit db = (jobs, db1)"
    and "\<forall>j \<in> set jobs. \<not> tk_stop (tick j)"
    and "run_jobs c cfg w (map (\<lambda>j. (j, tick j)) jobs) db1 je = (res, db2, je2)"
  shows "(case res of
      Inr _ \<Rightarrow> (\<forall>j \<in> set jobs. \<exists>out r'.
        (tick j, j, out) \<in> set (batch_actions c (map (\<lambda>j. (j, tick j)) jobs) je) \<and>
        find_job db2 (qj_id j) = Some r' \<and> settled c (tick j) j out r')
    | Inl e \<Rightarrow> e = DatabaseError \<and> (\<exists>xs s ys je'. jobs = xs @ s # ys \<and>
        (\<forall>j \<in> set xs. \<exists>out r'.
          (tick j, j, out) \<in> set (batch_actions c (map (\<lambda>j. (j, tick j)) jobs) je) \<and>
          find_job db2 (qj_id j) = Some r' \<and> settled c (tick j) j out r') \<and>
        isl (fst (process_queue_job c (tk_now (tick s)) s je')) \<and> qj_max_attempts s \<le> qj_attempts s \<and>
        (\<forall>j \<in> set (s # ys). \<exists>r'. find_job db2 (qj_id j) = Some r' \<and> held_by w r'))) \<and>
    (\<forall>i. i \<notin> qj_id ` set jobs \<longrightarrow> find_job db2 i = find_job db i)"
proof -
  let ?js = "map (\<lambda>j. (j, tick j)) jobs"
  let ?as = "batch_actions c ?js je"
  let ?ok = "\<lambda>j. \<exists>out r'. (tick j, j, out) \<in> set ?as \<and> find_job db2 (qj_id j) = Some r' \<and> settled c (tick j) j out r'"
  have db2: "db2 = fst (snd (run_jobs c cfg w ?js db1 je))" and res: "res = fst (run_jobs c cfg w ?js db1 je)"
    using assms(4) by simp_all
  have done_ok: "?ok j" if "(j, tick j) \<in> set (map (\<lambda>(tk, job, out). (job, tk)) ?as)" for j
    using action_settles [OF assms(1,2) that] db2 by simp
  have "\<forall>x \<in> set ?js. \<not> tk_stop (snd x)" using assms(3) by simp
  note b = batch_result [OF this, where c = c and cfg = cfg and w = w and db = db1 and je = je, folded res]
  have "case res of Inr _ \<Rightarrow> (\<forall>j \<in> set jobs. ?ok j)
    | Inl e \<Rightarrow> e = DatabaseError \<and> (\<exists>xs s ys je'. jobs = xs @ s # ys \<and> (\<forall>j \<in> set xs. ?ok j) \<and>
        isl (fst (process_queue_job c (tk_now (tick s)) s je')) \<and> qj_max_attempts s \<le> qj_attempts s \<and>
        (\<forall>j \<in> set (s # ys). \<exists>r'. find_job db2 (qj_id j) = Some r' \<and> held_by w r'))"
  proof (cases res)
    case (Inr u)
    with b have "map (\<lambda>(tk, job, out). (job, tk)) ?as = ?js" by simp
    with done_ok Inr show ?thesis by simp
  next
    case (Inl e)
    with b obtain xs' s' ys' je' where x: "e = DatabaseError" "?js = xs' @ s' # ys'"
      "map (\<lambda>(tk, job, out). (job, tk)) ?as = xs'"
      "exhausted (fst s') (fst (process_queue_job c (tk_now (snd s')) (fst s') je'))" by auto
    from x(2) obtain xs s ys where y: "jobs = xs @ s # ys" "xs' = map (\<lambda>j. (j, tick j)) xs" "s' = (s, tick s)"
      by (auto simp: map_eq_append_conv map_eq_Cons_conv)
    have d: "distinct (map qj_id jobs)" by (rule claim_distinct [OF assms(1,2)])
    have held: "\<exists>r'. find_job db2 (qj_id j) = Some r' \<and> held_by w r'" if j: "j \<in> set (s # ys)" for j
    proof -
      have "act_target ` set ?as = qj_id ` fst ` set xs'"
        unfolding x(3) [symmetric] by (force simp: act_target_def)
      then have "qj_id j \<notin> act_target ` set ?as" using d j y(1,2) by (auto simp: image_comp)
      moreover have "j \<in> set jobs" using j y(1) by auto
      ultimately show ?thesis
        using claimed_job [OF assms(1,2)] unreached_job [of j c ?js je cfg w db1] db2 by metis
    qed
    have ok: "?ok j" if "j \<in> set xs" for j
      by (rule done_ok) (use that x(3) y(2) in auto)
    have ex: "isl (fst (process_queue_job c (tk_now (tick s)) s je'))" "qj_max_attempts s \<le> qj_attempts s"
      using x(4) y(3) by (simp_all add: exhausted_def)
    show ?thesis unfolding Inl sum.case x(1) using y(1) ok held ex by blast
  qed
  moreover have "find_job db2 i = find_job db i" if "i \<notin> qj_id ` set jobs" for i
    using batch_others [OF assms(2) that] db2 by simp
  ultimately show ?thesis by simp
qed

text \<open>When the stop signal arrives in the middle of a batch, the jobs not yet started are left
  locked by the stopped worker: they stay in processing, and no later claim, by whatever worker and
  at whatever time, returns them.\<close>

theorem worker_stop_strands:
  assumes "qinv db" "claim_jobs cfg now skip w limit db = (xs @ s # ys, db1)" "tk_stop (tick s)"
    and "run_jobs c cfg w (map (\<lambda>j. (j, tick j)) (xs @ s # ys)) db1 je = (res, db2, je2)" "j \<in> set (s # ys)"
  shows "(\<exists>r. find_job db2 (qj_id j) = Some r \<and> held_by w r) \<and>
    (\<forall>cfg' now' skip' w' limit'. qj_id j \<notin> qj_id ` set (fst (claim_jobs cfg' now' skip' w' limit' db2)))"
proof -
  have db2: "db2 = fst (snd (run_jobs c cfg w (map (\<lambda>j. (j, tick j)) (xs @ s # ys)) db1 je))" using assms(4) by simp
  have q1: "qinv db1" using claim_inv [OF assms(1), of cfg now skip w limit] assms(2) by simp
  have q2: "qinv db2" using run_jobs_inv [OF q1] db2 by simp
  have "j \<in> set (xs @ s # ys)" using assms(5) by auto
  from claimed_job [OF assms(1,2) this] obtain r where
    r: "find_job db1 (qj_id j) = Some (claim_row now w r)" "held_by w (claim_row now w r)" by metis
  have f: "find_job db2 (qj_id j) = Some (claim_row now w r)"
    using stopped_job [where tick = tick, OF claim_distinct [OF assms(1,2)] assms(3,5)] r(1) db2 by metis
  with r(2) held_unclaimed [OF q2 f r(2)] show ?thesis by blast
qed

text \<open>No job is ever attempted more often than its limit: from a queue in which this holds, every
  run of the worker loop, with any outcomes, stops and clocks, ends in a queue in which pending jobs
  have attempts left and the others have not exceeded their limit.\<close>

theorem worker_attempts_bounded:
  assumes "qinv db" "\<forall>r \<in> set (queue_jobs db). att_ok r"
    and "run_queue_worker_loop c (Some cfg) w once ps db je = (res, db', je')"
  shows "qinv db' \<and> (\<forall>r \<in> set (queue_jobs db'). att_ok r)"
proof -
  have "att_inv db" using assms(1,2) by (simp add: att_inv_rows)
  from worker_loop_inv [OF assms(1) this] have "qinv db'" "att_inv db'"
    using assms(3) by (auto simp: run_queue_worker_loop_def)
  then show ?thesis by (simp add: att_inv_rows)
qed






section \<open>Witnesses\<close>

definition demo_ctx :: job_ctx where
  "demo_ctx = \<lparr>jc_settings = settings_defaults (\<lambda>_. None),
     jc_io = \<lparr>io_use_db = False, io_rid = ''r'', io_local_error = None, io_s3_error = None\<rparr>,
     jc_inet_ok = (\<lambda>_. True), jc_up = (\<lambda>_. Reply 200 [] []), jc_db_accepts = (\<lambda>_. True),
     jc_message = (\<lambda>_. ''error'')\<rparr>"

definition demo_effects :: job_effects where
  "demo_effects = \<lparr>je_store = \<lparr>provisioning = [], device_connections = [], local_files = [], s3_objects = []\<rparr>, je_spans = []\<rparr>"

definition demo_qcfg :: queue_cfg where
  "demo_qcfg = init_queue 60 8 2 300 0"

definition demo_queue :: queue_db where
  "demo_queue = \<lparr>queue_jobs = [new_job 0 ''j1'' ''telemetry.forward'' (JObj []) None 8 0,
                               new_job 1 ''j2'' ''other'' (JObj []) None 8 0], dead_letters = []\<rparr>"

definition demo_tick :: "string \<Rightarrow> queue_job \<Rightarrow> tick" where
  "demo_tick stop j = \<lparr>tk_stop = (qj_id j = stop), tk_now = 20, tk_draw = 0\<rparr>"

definition demo_jobs :: "queue_job list" where
  "demo_jobs = fst (claim_jobs demo_qcfg 10 [] ''w'' 5 demo_queue)"

definition demo_claimed :: queue_db where
  "demo_claimed = snd (claim_jobs demo_qcfg 10 [] ''w'' 5 demo_queue)"

lemma demo_qinv: "qinv demo_queue"
  by (simp add: demo_queue_def qinv_def new_job_def row_ok_def dedupe_keys_def)

lemma demo_jobs_ids: "map qj_id demo_jobs = [''j1'', ''j2'']"
  by code_simp

lemma demo_claim: "claim_jobs demo_qcfg 10 [] ''w'' 5 demo_queue = (demo_jobs, demo_claimed)"
  by (simp add: demo_jobs_def demo_claimed_def)

lemma demo_no_stop: "\<forall>j \<in> set demo_jobs. \<not> tk_stop (demo_tick [] j)"
proof
  fix j assume "j \<in> set demo_jobs"
  then have "qj_id j \<in> set (map qj_id demo_jobs)" by simp
  then show "\<not> tk_stop (demo_tick [] j)" unfolding demo_jobs_ids by (auto simp: demo_tick_def)
qed

theorem worker_batch_settles_witness:
  "\<exists>je2 db2. run_jobs demo_ctx demo_qcfg ''w'' (map (\<lambda>j. (j, demo_tick [] j)) demo_jobs) demo_claimed demo_effects = (Inr (), db2, je2) \<and>
     (\<exists>r'. find_job db2 ''j1'' = Some r' \<and> lock_owner r' = None) \<and> (\<exists>r'. find_job db2 ''j2'' = Some r' \<and> lock_owner r' = None)"
proof -
  obtain res db2 je2 where
    r: "run_jobs demo_ctx demo_qcfg ''w'' (map (\<lambda>j. (j, demo_tick [] j)) demo_jobs) demo_claimed demo_effects = (res, db2, je2)"
    by (metis prod.collapse)
  note b = worker_batch_settles [OF demo_qinv demo_claim demo_no_stop r, THEN conjunct1]
  have "\<forall>j \<in> set demo_jobs. \<not> qj_max_attempts j \<le> qj_attempts j" by code_simp
  have res: "res = Inr ()"
  proof (cases res)
    case (Inl e)
    with b obtain xs s ys where x: "demo_jobs = xs @ s # ys" "qj_max_attempts s \<le> qj_attempts s" by auto
    have "s \<in> set demo_jobs" unfolding x(1) by simp
    with x(2) \<open>\<forall>j \<in> set demo_jobs. \<not> qj_max_attempts j \<le> qj_attempts j\<close> show ?thesis by blast
  qed simp
  with b have "\<forall>j \<in> set demo_jobs. \<exists>r'. find_job db2 (qj_id j) = Some r' \<and> lock_owner r' = None"
    by (auto simp: settled_def)
  then have "\<forall>i \<in> set (map qj_id demo_jobs). \<exists>r'. find_job db2 i = Some r' \<and> lock_owner r' = None" by simp
  with r res show ?thesis unfolding demo_jobs_ids by simp
qed

theorem worker_stop_strands_witness:
  "\<exists>r. find_job (fst (snd (run_jobs demo_ctx demo_qcfg ''w'' (map (\<lambda>j. (j, demo_tick ''j2'' j)) demo_jobs)
      demo_claimed demo_effects))) ''j2'' = Some r \<and> held_by ''w'' r"
proof -
  obtain x s where xs: "demo_jobs = [x] @ s # []" "qj_id s = ''j2''"
    using demo_jobs_ids by (cases demo_jobs rule: remdups_adj.cases) auto
  obtain res db2 je2 where r: "run_jobs demo_ctx demo_qcfg ''w'' (map (\<lambda>j. (j, demo_tick ''j2'' j)) demo_jobs)
      demo_claimed demo_effects = (res, db2, je2)"
    by (cases "run_jobs demo_ctx demo_qcfg ''w'' (map (\<lambda>j. (j, demo_tick ''j2'' j)) demo_jobs) demo_claimed demo_effects")
  have "tk_stop (demo_tick ''j2'' s)" using xs by (simp add: demo_tick_def)
  from worker_stop_strands [where tick = "demo_tick ''j2''", OF demo_qinv demo_claim [unfolded xs(1)] this
      r [unfolded xs(1)], of s]
  have "\<exists>r. find_job db2 (qj_id s) = Some r \<and> held_by ''w'' r" by simp
  then show ?thesis unfolding r xs(2) by simp
qed

theorem worker_attempts_bounded_witness:
  "list_all att_ok (queue_jobs (fst (snd (run_queue_worker_loop demo_ctx (Some demo_qcfg) ''w'' True
      [\<lparr>po_stop = False, po_now = 10, po_skip = [], po_tick = (\<lambda>_. demo_tick [] (hd demo_jobs))\<rparr>] demo_queue demo_effects))))"
    (is "list_all att_ok (queue_jobs (fst (snd ?run)))")
proof -
  obtain res db je where r: "?run = (res, db, je)" by (metis prod.collapse)
  have "\<forall>r \<in> set (queue_jobs demo_queue). att_ok r" by (simp add: demo_queue_def new_job_def att_ok_def)
  from worker_attempts_bounded [OF demo_qinv this r] show ?thesis unfolding r by (simp add: list_all_iff)
qed


end
