(* ===== verification/Gateway.thy ===== *)
theory Gateway
  imports ConfigEndpoint Worker
begin

text \<open>
  The edge of the API in \<open>app/main.py\<close>: the middleware every request passes (readiness gate, cache invalidation, security headers, trace
  identifier), the telemetry token and the telemetry relay, the relay authorisation endpoints and the two proxies. The upstream servers are functions from
  the request sent to the answer; \<open>call_next\<close> is the inner application.
\<close>

section \<open>Middleware\<close>

definition CACHE_INVALIDATION_PATH_PREFIXES :: "string list" where
  "CACHE_INVALIDATION_PATH_PREFIXES = [''/admin/catalog'', ''/admin/campaigns'', ''/admin/deploy'', ''/api/catalog'', ''/api/campaigns'',
     ''/api/artifacts'', ''/api/keycloak'', ''/admin/api/config'']"

definition CONFIG_GATE_EXEMPT_PREFIXES :: "string list" where
  "CONFIG_GATE_EXEMPT_PREFIXES = [''/healthz'', ''/livez'', ''/readyz'', ''/internal'', ''/admin/static'', ''/metrics'']"

definition CSP :: string where
  "CSP = ''default-src '' @ [CHR 0x27] @ ''self'' @ [CHR 0x27] @ ''; '' @
     ''script-src '' @ [CHR 0x27] @ ''self'' @ [CHR 0x27] @ '' '' @ [CHR 0x27] @ ''unsafe-inline'' @ [CHR 0x27] @ '' https://unpkg.com https://cdn.jsdelivr.net; '' @
     ''style-src '' @ [CHR 0x27] @ ''self'' @ [CHR 0x27] @ '' '' @ [CHR 0x27] @ ''unsafe-inline'' @ [CHR 0x27] @ '' https://cdn.jsdelivr.net; '' @
     ''img-src '' @ [CHR 0x27] @ ''self'' @ [CHR 0x27] @ '' data:; '' @
     ''font-src '' @ [CHR 0x27] @ ''self'' @ [CHR 0x27] @ '' https://cdn.jsdelivr.net;''"

record edge_world =
  ew_requests :: nat
  ew_config :: config_world

definition has_prefix :: "string list \<Rightarrow> string \<Rightarrow> bool" where
  "has_prefix ps path = list_ex (startswith path) ps"

definition gated_response :: response where
  "gated_response = \<lparr>r_status = 503,
     r_body = JObj [(''status'', JStr ''starting''), (''detail'', JStr ''config not loaded''), (''retry'', JBool True)],
     r_headers = [(''Retry-After'', ''3'')]\<rparr>"

definition with_security_headers :: "string \<Rightarrow> response \<Rightarrow> response" where
  "with_security_headers path r =
     (let h = dset ''Referrer-Policy'' ''strict-origin-when-cross-origin'' (dset ''X-Content-Type-Options'' ''nosniff''
                (dset ''X-Frame-Options'' ''DENY'' (r_headers r)))
      in r\<lparr>r_headers := if startswith path ''/admin'' then dset ''Content-Security-Policy'' CSP h else h\<rparr>)"

definition security_headers ::
  "proc \<Rightarrow> string \<Rightarrow> string \<Rightarrow> (config_world \<Rightarrow> response \<times> config_world) \<Rightarrow> edge_world \<Rightarrow> response \<times> edge_world" where
  "security_headers p verb path call_next w0 =
     (let w = w0\<lparr>ew_requests := ew_requests w0 + 1\<rparr>
      in if should_gate_requests p \<and> \<not> has_prefix CONFIG_GATE_EXEMPT_PREFIXES path then (gated_response, w)
         else
           let (r, cw) = call_next (ew_config w);
               cw' = (if verb \<in> {''POST'', ''PUT'', ''PATCH'', ''DELETE''} \<and> r_status r < 400 \<and> has_prefix CACHE_INVALIDATION_PATH_PREFIXES path
                      then config_cache_clear cw else cw)
           in (with_security_headers path r, w\<lparr>ew_config := cw'\<rparr>))"

definition trace_id_middleware :: "string \<Rightarrow> headers \<Rightarrow> (string \<Rightarrow> response) \<Rightarrow> response" where
  "trace_id_middleware fresh hs call_next =
     (let given = take 64 (strip (str_or (header hs ''x-request-id'') []));
          tid = (if given = [] then fresh else given);
          r = call_next tid
      in if dget (r_headers r) ''X-Request-Id'' = None then r\<lparr>r_headers := dset ''X-Request-Id'' tid (r_headers r)\<rparr> else r)"

section \<open>Telemetry\<close>

definition get_telemetry_token ::
  "settings \<Rightarrow> env \<Rightarrow> timestamp \<Rightarrow> string \<Rightarrow> headers \<Rightarrow> string option \<Rightarrow> string option \<Rightarrow> response result" where
  "get_telemetry_token cfg e now jti hs profile device =
     (let prof = lower (strip (str_or profile (getenv e ''DM_CONFIG_PROFILE'' ''prod'')));
          dev = lower (strip (str_or device []));
          cuuid = strip (case header hs ''X-Client-UUID'' of Some v \<Rightarrow> v | None \<Rightarrow> [])
      in if \<not> telemetry_enabled cfg then
           Inr (json_response 200 (JObj [(''telemetryEnabled'', JBool False),
             (''telemetryAuthorizationType'', JStr (telemetry_authorization_type cfg)), (''telemetryKey'', JStr [])]) [])
         else
           let (token, ex) = main_mint_telemetry_token cfg now jti (opt_str dev) prof cuuid
           in if telemetry_require_token cfg \<and> token = [] then Inl (HTTPException 503 ''Telemetry signing key is not configured.'')
              else Inr (json_response 200 (JObj [(''telemetryEnabled'', JBool True),
                (''telemetryEndpoint'', JStr (resolve_public_telemetry_endpoint cfg e)),
                (''telemetryAuthorizationType'', JStr (telemetry_authorization_type cfg)), (''telemetryKey'', JStr token),
                (''telemetryKeyExpiresAt'', case ex of Some n \<Rightarrow> JInt n | None \<Rightarrow> JNull),
                (''telemetryKeyTtlSeconds'', JInt (telemetry_token_ttl_seconds cfg))]) [(''Cache-Control'', ''no-store'')]))"





record trace_ctx =
  tc_now :: timestamp
  tc_fresh :: int
  tc_jid :: string
  tc_queue :: "queue_cfg option"
  tc_job :: job_ctx

record trace_world =
  tw_queue :: queue_db
  tw_effects :: job_effects

datatype reply = NoContent | JsonReply response | RawReply int bytes string


definition telemetry_dedupe :: "headers \<Rightarrow> string \<Rightarrow> string option" where
  "telemetry_dedupe hs cuuid =
     (let ik = strip (header_or hs ''x-idempotency-key'' ''x-request-id'')
      in if ik = [] then None else Some (''telemetry:'' @ cuuid @ '':'' @ ik))"

definition content_type_of :: "headers \<Rightarrow> string" where
  "content_type_of hs = (case header hs ''content-type'' of Some v \<Rightarrow> v | None \<Rightarrow> ''application/json'')"

definition relay_or_queue :: "trace_ctx \<Rightarrow> enroll_request \<Rightarrow> string \<Rightarrow> trace_world \<Rightarrow> reply result \<times> trace_world" where
  "relay_or_queue c req cuuid w =
     (let hs = er_headers req; ct = content_type_of hs; ua = header hs ''user-agent''; j = tc_job c
      in case enqueue_telemetry_payload (tc_queue c) (tc_now c) (tc_jid c) (er_body req) ct ua cuuid (telemetry_dedupe hs cuuid) (tw_queue w) of
           Inl e \<Rightarrow> (Inl e, w)
         | Inr (Some jid, db) \<Rightarrow>
             (Inr (JsonReply (json_response 202 (JObj [(''ok'', JBool True), (''queued'', JBool True), (''jobId'', JStr jid)]) [])), w\<lparr>tw_queue := db\<rparr>)
         | Inr (None, db) \<Rightarrow>
             (case forward_telemetry_to_upstream (jc_settings j) (jc_up j) (er_body req) ct ua of
                Inl e \<Rightarrow> (Inl e, w)
              | Inr (st, body, rct) \<Rightarrow>
                  (let je = tw_effects w;
                       spans = (case persist_telemetry_spans (io_use_db (jc_io j)) (jc_db_accepts j) (er_body req) cuuid (je_spans je) of
                                  Inr s \<Rightarrow> s | Inl _ \<Rightarrow> je_spans je)
                   in (Inr (RawReply st body rct), w\<lparr>tw_effects := je\<lparr>je_spans := spans\<rparr>\<rparr>))))"


section \<open>Relay authorisation\<close>

definition relay_target :: "string option \<Rightarrow> headers \<Rightarrow> string" where
  "relay_target target hs = lower (strip (str_or target (str_or (header hs ''x-relay-target'') [])))"

definition meta_json :: "relay_meta \<Rightarrow> json" where
  "meta_json m = JObj [(''client_uuid'', JStr (rm_client_uuid m)), (''email'', JStr (rm_email m)),
     (''allowed_targets'', JList (map JStr (rm_allowed_targets m))), (''expires_at'', JInt (rm_expires_at m))]"

definition relay_authorize :: "settings \<Rightarrow> bool \<Rightarrow> timestamp \<Rightarrow> headers \<Rightarrow> string option \<Rightarrow> relay_state \<Rightarrow> response result" where
  "relay_authorize cfg use_db now hs target st =
     (let t = relay_target target hs
      in bind_result (relay_auth_from_request cfg use_db now hs (Some t) True st) (\<lambda>v. case v of
           Inl reason \<Rightarrow> Inr (fail_json 403 reason)
         | Inr m \<Rightarrow> Inr (json_response 200 (JObj [(''ok'', JBool True), (''target'', JStr t), (''client_uuid'', JStr (rm_client_uuid m)),
             (''email'', JStr (rm_email m)), (''expires_at'', JInt (rm_expires_at m))]) [])))"

definition relay_introspect :: "settings \<Rightarrow> bool \<Rightarrow> timestamp \<Rightarrow> headers \<Rightarrow> string option \<Rightarrow> relay_state \<Rightarrow> response result" where
  "relay_introspect cfg use_db now hs target st =
     bind_result (relay_auth_from_request cfg use_db now hs (Some (relay_target target hs)) False st) (\<lambda>v. case v of
       Inl reason \<Rightarrow> Inr (fail_json 401 reason)
     | Inr m \<Rightarrow> Inr (json_response 200 (JObj [(''ok'', JBool True), (''relay'', meta_json m)]) []))"

section \<open>Proxies\<close>

definition RELAY_UPSTREAM_MAP :: "env \<Rightarrow> string dict" where
  "RELAY_UPSTREAM_MAP e =
     concat (map (\<lambda>(t, k). let v = rstrip_char (CHR ''/'') (strip (str_or (e k) [])) in if v = [] then [] else [(t, v)])
       [(''keycloak'', ''RELAY_KEYCLOAK_UPSTREAM''), (''compte-rendu'', ''RELAY_COMPTE_RENDU_UPSTREAM''), (''mcr-api'', ''RELAY_MCR_API_UPSTREAM'')])"

definition RELAY_HOP_HEADERS :: "string list" where
  "RELAY_HOP_HEADERS = [''host'', ''transfer-encoding'', ''connection'', ''keep-alive'', ''proxy-authenticate'', ''proxy-authorization'', ''te'',
     ''trailers'', ''upgrade'']"

record proxy_req =
  px_verb :: string
  px_url :: string
  px_headers :: headers
  px_content :: bytes

record proxy_resp =
  pr_code :: int
  pr_headers :: headers
  pr_content :: bytes

text \<open>\<open>base64.b64decode\<close> without validation: the standard alphabet, other characters are skipped.\<close>

definition std_b64decode :: "string \<Rightarrow> bytes result" where
  "std_b64decode s = bind_result (ascii_encode s) (\<lambda>b. a2b_base64 0 0 0 0 (filter (\<lambda>c. c \<noteq> CHR ''-'' \<and> c \<noteq> CHR ''_'') b))"

definition keycloak_token_proxy ::
  "env \<Rightarrow> (proxy_req \<Rightarrow> proxy_resp option) \<Rightarrow> string \<Rightarrow> json result \<Rightarrow> (int \<times> bytes \<times> string) result \<times> proxy_req list" where
  "keycloak_token_proxy e up verb body =
     (let base = rstrip_char (CHR ''/'') (str_or (e ''RELAY_KEYCLOAK_UPSTREAM'') [])
      in if verb = ''OPTIONS'' then (Inr (204, [], []), [])
         else if base = [] then (Inl (HTTPException 503 ''RELAY_KEYCLOAK_UPSTREAM not configured''), [])
         else case bind_result body (\<lambda>b. py_get b ''p'' JNull) of
           Inl er \<Rightarrow> (Inl er, [])
         | Inr p \<Rightarrow>
             if \<not> truthy p then (Inl (HTTPException 400 (''Missing '' @ repr_str ''p'' @ '' field (base64 form payload)'')), [])
             else case (case p of JStr s \<Rightarrow> std_b64decode s | _ \<Rightarrow> Inl TypeError) of
               Inl _ \<Rightarrow> (Inl (HTTPException 400 (''Invalid base64 in '' @ repr_str ''p'' @ '' field'')), [])
             | Inr form \<Rightarrow>
                 let rq = \<lparr>px_verb = ''POST'', px_url = base @ ''/protocol/openid-connect/token'',
                           px_headers = [(''Content-Type'', ''application/x-www-form-urlencoded'')], px_content = form\<rparr>
                 in case up rq of
                      None \<Rightarrow> (Inl (OSError ''upstream''), [rq])
                    | Some r \<Rightarrow> (Inr (pr_code r, pr_content r, case header (pr_headers r) ''content-type'' of Some v \<Rightarrow> v | None \<Rightarrow> ''application/json''), [rq]))"

definition drop_hop_headers :: "headers \<Rightarrow> headers" where
  "drop_hop_headers hs = filter (\<lambda>(k, v). lower k \<notin> set RELAY_HOP_HEADERS) hs"

definition relay_assistant_proxy ::
  "env \<Rightarrow> (proxy_req \<Rightarrow> proxy_resp option) \<Rightarrow> string \<Rightarrow> string \<Rightarrow> string \<Rightarrow> headers \<Rightarrow> bytes \<Rightarrow> proxy_resp result \<times> proxy_req list" where
  "relay_assistant_proxy e up path verb qs hs body =
     (let (target, rest) = (case split_once (CHR ''/'') path of Some (a, b) \<Rightarrow> (a, b) | None \<Rightarrow> (path, []))
      in case dget (RELAY_UPSTREAM_MAP e) target of
           None \<Rightarrow> (Inl (HTTPException 404 (''Unknown relay target: '' @ target)), [])
         | Some base \<Rightarrow>
             let url = (if rest = [] then base else base @ ''/'' @ rest);
                 rq = \<lparr>px_verb = verb, px_url = (if qs = [] then url else url @ ''?'' @ qs), px_headers = drop_hop_headers hs, px_content = body\<rparr>
             in case up rq of
                  None \<Rightarrow> (Inl (OSError ''upstream''), [rq])
                | Some r \<Rightarrow> (Inr (r\<lparr>pr_headers := drop_hop_headers (pr_headers r)\<rparr>), [rq]))"

section \<open>Lemmas\<close>

lemma gate_blocks:
  assumes "should_gate_requests p" "\<not> has_prefix CONFIG_GATE_EXEMPT_PREFIXES path"
  shows "fst (security_headers p verb path call_next w) = gated_response \<and> ew_config (snd (security_headers p verb path call_next w)) = ew_config w"
  using assms by (simp add: security_headers_def Let_def)

text \<open>After a successful change below one of the listed paths no configuration is answered from the cache.\<close>

lemma mutation_invalidates:
  assumes "\<not> should_gate_requests p" "verb \<in> {''POST'', ''PUT'', ''PATCH'', ''DELETE''}" "has_prefix CACHE_INVALIDATION_PATH_PREFIXES path"
    "r_status (fst (call_next (ew_config w))) < 400"
  shows "config_cache_get now k (ew_config (snd (security_headers p verb path call_next w))) = None"
  using assms by (auto simp: security_headers_def Let_def config_cache_get_def config_cache_clear_def split: prod.split)

lemma security_headers_set:
  assumes "\<not> should_gate_requests p"
  shows "dget (r_headers (fst (security_headers p verb path call_next w))) ''X-Frame-Options'' = Some ''DENY''"
    and "startswith path ''/admin'' \<Longrightarrow> dget (r_headers (fst (security_headers p verb path call_next w))) ''Content-Security-Policy'' = Some CSP"
  using assms by (simp_all add: security_headers_def with_security_headers_def Let_def split: prod.split)

subsection \<open>Proxies\<close>

text \<open>The relay proxy contacts the configured server of the named target and no other, without the hop-by-hop headers.\<close>

lemma relay_proxy_confined:
  assumes "rq \<in> set (snd (relay_assistant_proxy e up path verb qs hs body))"
  shows "\<exists>target base tail. (target, base) \<in> set (RELAY_UPSTREAM_MAP e) \<and> startswith path target \<and> px_url rq = base @ tail \<and>
    (tail = [] \<or> hd tail \<in> {CHR ''/'', CHR ''?''}) \<and> (\<forall>(k, v) \<in> set (px_headers rq). lower k \<notin> set RELAY_HOP_HEADERS)"
proof -
  obtain target rest where t: "(case split_once (CHR ''/'') path of Some (a, b) \<Rightarrow> (a, b) | None \<Rightarrow> (path, [])) = (target, rest)" by fastforce
  obtain base where b: "dget (RELAY_UPSTREAM_MAP e) target = Some base"
      and rq: "px_url rq = (if qs = [] then (if rest = [] then base else base @ ''/'' @ rest) else (if rest = [] then base else base @ ''/'' @ rest) @ ''?'' @ qs)"
        "px_headers rq = drop_hop_headers hs"
    using assms t by (auto simp: relay_assistant_proxy_def Let_def split: option.splits)
  have "startswith path target" using t by (auto simp: startswith_iff split: option.splits dest!: split_once_Some)
  moreover have "(target, base) \<in> set (RELAY_UPSTREAM_MAP e)" using b by (simp add: dget_def map_of_SomeD)
  moreover have "px_url rq = base @ ((if rest = [] then [] else ''/'' @ rest) @ (if qs = [] then [] else ''?'' @ qs))" using rq(1) by simp
  ultimately show ?thesis using rq(2) by (fastforce simp: drop_hop_headers_def)
qed

lemma b64_val_std [simp]:
  "b64_val (if c = CHR ''-'' then CHR ''+'' else if c = CHR ''_'' then CHR ''/'' else c) = b64_val c"
  by (simp add: b64_val_def Let_def)

lemma a2b_std:
  "a2b_base64 q left pads out (map (\<lambda>c. if c = CHR ''-'' then CHR ''+'' else if c = CHR ''_'' then CHR ''/'' else c) s) = a2b_base64 q left pads out s"
  by (induction q left pads out s rule: a2b_base64.induct) (auto split: option.split)

text \<open>The form a plugin encodes reaches the token endpoint byte for byte.\<close>

lemma std_b64_roundtrip:
  "std_b64decode (map (\<lambda>c. if c = CHR ''-'' then CHR ''+'' else if c = CHR ''_'' then CHR ''/'' else c) (b64_encode form)) = Inr form"
proof -
  let ?s = "map (\<lambda>c. if c = CHR ''-'' then CHR ''+'' else if c = CHR ''_'' then CHR ''/'' else c) (b64_encode form)"
  have "list_all is_ascii ?s" using b64_encode_ascii [of form] by (auto simp: list_all_iff is_ascii_def)
  moreover have "filter (\<lambda>c. c \<noteq> CHR ''-'' \<and> c \<noteq> CHR ''_'') ?s = ?s" by (rule filter_True) auto
  ultimately show ?thesis by (simp add: std_b64decode_def ascii_encode_def a2b_std a2b_encode del: filter_map filter.simps)
qed

lemma token_proxy_forwards:
  assumes "rq \<in> set (snd (keycloak_token_proxy e up verb body))"
  shows "px_url rq = rstrip_char (CHR ''/'') (str_or (e ''RELAY_KEYCLOAK_UPSTREAM'') []) @ ''/protocol/openid-connect/token'' \<and>
    (\<exists>b s. body = Inr (JObj b) \<and> jget b ''p'' = JStr s \<and> std_b64decode s = Inr (px_content rq))"
  using assms
  by (auto simp: keycloak_token_proxy_def Let_def bind_result_def py_get_def jget_def split: if_splits sum.splits json.splits option.splits)

subsection \<open>Telemetry\<close>











section \<open>Properties\<close>


text \<open>A queued body reaches the upstream with the same content, type, agent and identity as one relayed at once. Only the direct path forgives a body whose
  spans cannot be read: as a job it fails after it was forwarded, so it is forwarded again.\<close>

lemma telemetry_queue_matches_direct:
  assumes "tc_queue c = None" "relay_or_queue c req u w = (Inr (RawReply st b rct), w')" "200 \<le> st" "st < 300"
    and "content_type_of (er_headers req) \<noteq> []" "strip u = u"
    and "header (er_headers req) ''user-agent'' = opt_str (strip (str_or (header (er_headers req) ''user-agent'') []))"
  shows "process_telemetry_job (tc_job c)
      (obj_of (telemetry_payload now (er_body req) (content_type_of (er_headers req)) (header (er_headers req) ''user-agent'') u)) (tw_effects w) =
    (case persist_telemetry_spans (io_use_db (jc_io (tc_job c))) (jc_db_accepts (tc_job c)) (er_body req) u (je_spans (tw_effects w)) of
       Inr _ \<Rightarrow> (Inr (), tw_effects w') | Inl e \<Rightarrow> (Inl e, tw_effects w))"
proof -
  let ?ct = "content_type_of (er_headers req)" and ?ua = "header (er_headers req) ''user-agent''"
  let ?p = "obj_of (telemetry_payload now (er_body req) ?ct ?ua u)"
  have g: "jget ?p ''body_b64'' = JStr (b64url_encode (er_body req))" "jget ?p ''content_type'' = JStr ?ct"
    "jget ?p ''user_agent'' = JStr (str_or ?ua [])" "jget ?p ''client_uuid'' = JStr u"
    using assms(5) by (simp_all add: telemetry_payload_def jget_def dget_def)
  have j: "jstr ?p k = s" if "jget ?p k = JStr s" for k s
    using that by (auto simp: jstr_def)
  have body: "decode_job_body (b64url_encode (er_body req)) = Inr (er_body req)"
    using b64url_not_Nil [of "er_body req"]
    by (cases "er_body req = []") (simp_all add: decode_job_body_def Let_def strip_b64url b64url_encode_simps(1))
  have ct: "payload_or ?p ''content_type'' ''application/json'' = ?ct" using g(2) assms(5) by (simp add: payload_or_def jget_or_def)
  have fw: "forward_telemetry_to_upstream (jc_settings (tc_job c)) (jc_up (tc_job c)) (er_body req) ?ct ?ua = Inr (st, b, rct)"
    and w': "w' = w\<lparr>tw_effects := (tw_effects w)\<lparr>je_spans := case persist_telemetry_spans (io_use_db (jc_io (tc_job c))) (jc_db_accepts (tc_job c))
        (er_body req) u (je_spans (tw_effects w)) of Inr s \<Rightarrow> s | Inl _ \<Rightarrow> je_spans (tw_effects w)\<rparr>\<rparr>"
    using assms(1,2) by (auto simp: relay_or_queue_def enqueue_telemetry_payload_def Let_def split: sum.splits prod.splits)
  show ?thesis using assms(3,4)
    by (simp add: process_telemetry_job_def j [OF g(1)] j [OF g(3)] j [OF g(4)] body ct assms(7) [symmetric] fw assms(6) w' split: sum.split)
qed





end
