(* ===== verification/Catalog.thy ===== *)
theory Catalog
  imports Campaign
begin

text \<open>
  The catalogue: \<open>app/admin/services/catalog.py\<close> and \<open>app/admin/services/artifacts.py\<close> over the tables \<open>plugins\<close>, \<open>plugin_versions\<close>,
  \<open>artifacts\<close>, \<open>plugin_version_artifacts\<close>, \<open>plugin_installations\<close> and \<open>campaigns\<close> of \<open>db/schema.sql\<close>. Identifiers the sequences draw are
  arguments; a violated constraint is \<open>DatabaseError\<close> or \<open>UniqueViolation\<close>.
\<close>

section \<open>Tables\<close>

text \<open>\<open>cp_info\<close> holds the descriptive columns of a plugin.\<close>

record cat_plugin =
  cp_id :: int
  cp_slug :: string
  cp_name :: string
  cp_device_type :: string
  cp_visibility :: string
  cp_status :: string
  cp_template :: "json option"
  cp_info :: "json dict"
  cp_updated_at :: timestamp

record version_row =
  ve_id :: int
  ve_plugin_id :: int
  ve_artifact_id :: "int option"
  ve_version :: string
  ve_release_notes :: string
  ve_download_url :: "string option"
  ve_min_host_version :: "string option"
  ve_max_host_version :: "string option"
  ve_status :: string
  ve_distribution_mode :: string
  ve_published_at :: "timestamp option"
  ve_created_at :: timestamp

record cat_artifact = artifact_row +
  ar_variant :: "string option"
  ar_is_active :: bool
  ar_released_at :: timestamp

record link_row =
  li_version_id :: int
  li_artifact_id :: int
  li_variant :: string

record cat_db =
  ct_plugins :: "cat_plugin list"
  ct_versions :: "version_row list"
  ct_artifacts :: "cat_artifact list"
  ct_links :: "link_row list"
  ct_installs :: "install_row list"
  ct_campaigns :: "campaign_row list"
  ct_device_status :: "status_row list"
  ct_cohorts :: "int list"
  ct_flags :: flag_db

text \<open>What the campaign engine sees of the same tables.\<close>

definition campaign_db_of :: "cat_db \<Rightarrow> campaign_db" where
  "campaign_db_of db = \<lparr>campaigns = ct_campaigns db, device_status = ct_device_status db,
     artifacts = map artifact_row.truncate (ct_artifacts db),
     plugin_refs = map (\<lambda>p. \<lparr>pl_id = cp_id p, pl_device_type = cp_device_type p, pl_status = cp_status p\<rparr>) (ct_plugins db),
     cohort_ids = ct_cohorts db\<rparr>"

definition varchar_ok :: "nat \<Rightarrow> string \<Rightarrow> bool" where
  "varchar_ok n s = (length s \<le> n)"

definition visibilities :: "string list" where
  "visibilities = [''public'', ''internal'', ''hidden'']"

definition plugin_statuses :: "string list" where
  "plugin_statuses = [''draft'', ''active'', ''deprecated'', ''removed'']"

definition version_statuses :: "string list" where
  "version_statuses = [''draft'', ''published'', ''deprecated'', ''yanked'']"

definition distribution_modes :: "string list" where
  "distribution_modes = [''managed'', ''download_link'', ''store'', ''manual'']"

text \<open>The checks of \<open>plugins\<close>, with the partial unique index on the slugs of the rows that are not removed.\<close>

definition plugin_ok :: "cat_plugin \<Rightarrow> bool" where
  "plugin_ok p = (varchar_ok 100 (cp_slug p) \<and> varchar_ok 200 (cp_name p) \<and> varchar_ok 50 (cp_device_type p) \<and>
     cp_visibility p \<in> set visibilities \<and> cp_status p \<in> set plugin_statuses)"

definition slugs_unique :: "cat_plugin list \<Rightarrow> bool" where
  "slugs_unique ps = distinct (map cp_slug (filter (\<lambda>p. cp_status p \<noteq> ''removed'') ps))"

definition check_plugins :: "cat_db \<Rightarrow> cat_plugin list \<Rightarrow> cat_db result" where
  "check_plugins db ps =
     (if \<not> list_all plugin_ok ps then Inl DatabaseError
      else if \<not> slugs_unique ps then Inl UniqueViolation else Inr (db\<lparr>ct_plugins := ps\<rparr>))"

section \<open>Plugins\<close>

record plugin_view =
  vw_plugin :: cat_plugin
  vw_version_count :: nat
  vw_latest_version :: "string option"
  vw_install_count :: nat

definition max_text :: "string list \<Rightarrow> string option" where
  "max_text xs = (if xs = [] then None else Some (fold max xs (hd xs)))"

definition view_of :: "cat_db \<Rightarrow> cat_plugin \<Rightarrow> plugin_view" where
  "view_of db p =
     (let pub = filter (\<lambda>v. ve_plugin_id v = cp_id p \<and> ve_status v = ''published'') (ct_versions db)
      in \<lparr>vw_plugin = p, vw_version_count = length pub, vw_latest_version = max_text (map ve_version pub),
          vw_install_count = card (set (map pi_client_uuid (filter (\<lambda>i. pi_plugin_id i = cp_id p \<and> pi_status i = ''active'') (ct_installs db))))\<rparr>)"

definition opt_filter :: "('a \<Rightarrow> string) \<Rightarrow> string option \<Rightarrow> 'a \<Rightarrow> bool" where
  "opt_filter f x a = (case x of None \<Rightarrow> True | Some v \<Rightarrow> v = [] \<or> f a = v)"

definition list_plugins :: "cat_db \<Rightarrow> string option \<Rightarrow> string option \<Rightarrow> string option \<Rightarrow> nat \<Rightarrow> nat \<Rightarrow> plugin_view list" where
  "list_plugins db st dt category limit offset =
     take limit (drop offset (map (view_of db) (sort_key cp_name
       (filter (\<lambda>p. opt_filter cp_status st p \<and> opt_filter cp_device_type dt p \<and> opt_filter (\<lambda>q. py_str (jget (cp_info q) ''category'')) category p)
         (ct_plugins db)))))"

definition get_plugin :: "cat_db \<Rightarrow> int \<Rightarrow> cat_plugin option" where
  "get_plugin db i = find (\<lambda>p. cp_id p = i) (ct_plugins db)"

definition get_plugin_by_slug :: "cat_db \<Rightarrow> string \<Rightarrow> cat_plugin option" where
  "get_plugin_by_slug db slug = find (\<lambda>p. cp_slug p = slug) (ct_plugins db)"

text \<open>A removed plugin gives up its slug: the first one found is renamed.\<close>

definition release_slug :: "timestamp \<Rightarrow> string \<Rightarrow> cat_plugin list \<Rightarrow> cat_plugin list" where
  "release_slug now slug ps =
     (case find (\<lambda>p. cp_slug p = slug \<and> cp_status p = ''removed'') ps of
        None \<Rightarrow> ps
      | Some old \<Rightarrow> map (\<lambda>p. if cp_id p = cp_id old then p\<lparr>cp_slug := slug @ ''__removed_'' @ str_of_int (int_time now)\<rparr> else p) ps)"

definition create_plugin ::
  "timestamp \<Rightarrow> int \<Rightarrow> string \<Rightarrow> string \<Rightarrow> string \<Rightarrow> string \<Rightarrow> json dict \<Rightarrow> json option \<Rightarrow> cat_db \<Rightarrow> (int \<times> cat_db) result" where
  "create_plugin now pid slug name dt vis info tmpl db =
     (let row = \<lparr>cp_id = pid, cp_slug = slug, cp_name = name, cp_device_type = dt, cp_visibility = vis, cp_status = ''active'',
                 cp_template = (case tmpl of Some t \<Rightarrow> if truthy t then Some t else None | None \<Rightarrow> None), cp_info = info, cp_updated_at = now\<rparr>
      in bind_result (check_plugins db (release_slug now slug (ct_plugins db) @ [row])) (\<lambda>db'. Inr (pid, db')))"

definition INFO_FIELDS :: "string list" where
  "INFO_FIELDS = [''description'', ''intent'', ''key_features'', ''changelog'', ''category'', ''icon_url'', ''icon_path'', ''homepage_url'',
     ''support_email'', ''doc_url'', ''license'', ''publisher'']"

definition UPDATE_FIELDS :: "string list" where
  "UPDATE_FIELDS = INFO_FIELDS @ [''name'', ''visibility'', ''status'', ''config_template'']"

text \<open>One assignment of the \<open>SET\<close> list; \<open>None\<close> for a field that is not allowed.\<close>

definition set_field :: "string \<times> json \<Rightarrow> cat_plugin \<Rightarrow> cat_plugin option" where
  "set_field kv p =
     (let (k, v) = kv
      in if k = ''name'' then Some (p\<lparr>cp_name := py_str v\<rparr>)
         else if k = ''visibility'' then Some (p\<lparr>cp_visibility := py_str v\<rparr>)
         else if k = ''status'' then Some (p\<lparr>cp_status := py_str v\<rparr>)
         else if k = ''config_template'' then Some (p\<lparr>cp_template := (if v = JNull then None else Some v)\<rparr>)
         else if k \<in> set INFO_FIELDS then Some (p\<lparr>cp_info := dset k v (cp_info p)\<rparr>)
         else None)"

definition set_fields :: "timestamp \<Rightarrow> json dict \<Rightarrow> cat_plugin \<Rightarrow> cat_plugin" where
  "set_fields now fs p = (fold (\<lambda>kv q. case set_field kv q of Some q' \<Rightarrow> q' | None \<Rightarrow> q) fs p)\<lparr>cp_updated_at := now\<rparr>"

definition update_plugin :: "timestamp \<Rightarrow> int \<Rightarrow> json dict \<Rightarrow> cat_db \<Rightarrow> (bool \<times> cat_db) result" where
  "update_plugin now i fs db =
     (if list_all (\<lambda>(k, v). k \<notin> set UPDATE_FIELDS) fs then Inr (False, db)
      else bind_result (check_plugins db (map (\<lambda>p. if cp_id p = i then set_fields now fs p else p) (ct_plugins db))) (\<lambda>db'.
        Inr (list_ex (\<lambda>p. cp_id p = i) (ct_plugins db), db')))"

text \<open>The rows that go with a plugin: the foreign keys of the catalogue cascade. A communication that names the plugin refuses the
  deletion instead; that table is not part of this theory, and the refusal is added where both are present (\<open>Admin\<close>).\<close>

definition purge_removed :: "cat_db \<Rightarrow> nat \<times> cat_db" where
  "purge_removed db =
     (let ids = map cp_id (filter (\<lambda>p. cp_status p = ''removed'') (ct_plugins db));
          vids = map ve_id (filter (\<lambda>v. ve_plugin_id v \<in> set ids) (ct_versions db));
          cids = map ca_id (filter (\<lambda>c. case ca_plugin_id c of Some i \<Rightarrow> i \<in> set ids | None \<Rightarrow> False) (ct_campaigns db))
      in (length ids,
          db\<lparr>ct_plugins := filter (\<lambda>p. cp_id p \<notin> set ids) (ct_plugins db),
             ct_versions := filter (\<lambda>v. ve_plugin_id v \<notin> set ids) (ct_versions db),
             ct_links := filter (\<lambda>l. li_version_id l \<notin> set vids) (ct_links db),
             ct_installs := filter (\<lambda>i. pi_plugin_id i \<notin> set ids) (ct_installs db),
             ct_campaigns := filter (\<lambda>c. ca_id c \<notin> set cids) (ct_campaigns db),
             ct_device_status := filter (\<lambda>s. ds_campaign_id s \<notin> set cids) (ct_device_status db)\<rparr>))"

section \<open>Versions\<close>

definition list_versions :: "cat_db \<Rightarrow> int \<Rightarrow> (version_row \<times> cat_artifact option \<times> nat) list" where
  "list_versions db i =
     map (\<lambda>v. (v, Option.bind (ve_artifact_id v) (\<lambda>a. find (\<lambda>r. ar_id r = a) (ct_artifacts db)),
               length (filter (\<lambda>n. pi_plugin_id n = i \<and> pi_version n = ve_version v) (ct_installs db))))
       (sort_key (\<lambda>v. - ve_created_at v) (filter (\<lambda>v. ve_plugin_id v = i) (ct_versions db)))"

definition get_version :: "cat_db \<Rightarrow> int \<Rightarrow> (version_row \<times> cat_artifact option) option" where
  "get_version db i =
     map_option (\<lambda>v. (v, Option.bind (ve_artifact_id v) (\<lambda>a. find (\<lambda>r. ar_id r = a) (ct_artifacts db)))) (find (\<lambda>v. ve_id v = i) (ct_versions db))"

definition deprecate_others :: "int \<Rightarrow> string \<Rightarrow> version_row list \<Rightarrow> version_row list" where
  "deprecate_others pid ver vs =
     map (\<lambda>v. if ve_plugin_id v = pid \<and> ve_status v = ''published'' \<and> ve_version v \<noteq> ver then v\<lparr>ve_status := ''deprecated''\<rparr> else v) vs"

definition version_key :: "int \<Rightarrow> string \<Rightarrow> version_row \<Rightarrow> bool" where
  "version_key pid ver v = (ve_plugin_id v = pid \<and> ve_version v = ver)"

text \<open>\<open>COALESCE(a, b)\<close>.\<close>

definition coalesce :: "'a option \<Rightarrow> 'a option \<Rightarrow> 'a option" where
  "coalesce a b = (case a of Some x \<Rightarrow> Some x | None \<Rightarrow> b)"

definition version_ok :: "cat_db \<Rightarrow> version_row \<Rightarrow> bool" where
  "version_ok db v = (varchar_ok 50 (ve_version v) \<and> ve_status v \<in> set version_statuses \<and> ve_distribution_mode v \<in> set distribution_modes \<and>
     ve_plugin_id v \<in> set (map cp_id (ct_plugins db)) \<and> fk_ok (ve_artifact_id v) (map ar_id (ct_artifacts db)) \<and>
     (case ve_min_host_version v of Some s \<Rightarrow> varchar_ok 50 s | None \<Rightarrow> True) \<and> (case ve_max_host_version v of Some s \<Rightarrow> varchar_ok 50 s | None \<Rightarrow> True))"

text \<open>\<open>INSERT ... ON CONFLICT (plugin_id, version) DO UPDATE\<close>, the update given by the caller.\<close>

definition upsert_version :: "version_row \<Rightarrow> (version_row \<Rightarrow> version_row) \<Rightarrow> cat_db \<Rightarrow> (int \<times> cat_db) result" where
  "upsert_version row upd db =
     (if \<not> version_ok db row then Inl DatabaseError
      else case find (version_key (ve_plugin_id row) (ve_version row)) (ct_versions db) of
        Some old \<Rightarrow> Inr (ve_id old, db\<lparr>ct_versions := map (\<lambda>v. if version_key (ve_plugin_id row) (ve_version row) v then upd v else v) (ct_versions db)\<rparr>)
      | None \<Rightarrow> Inr (ve_id row, db\<lparr>ct_versions := ct_versions db @ [row]\<rparr>))"

definition create_version :: "timestamp \<Rightarrow> version_row \<Rightarrow> cat_db \<Rightarrow> (int \<times> cat_db) result" where
  "create_version now row db =
     (let pub = (ve_status row = ''published'');
          db1 = (if pub then db\<lparr>ct_versions := deprecate_others (ve_plugin_id row) (ve_version row) (ct_versions db)\<rparr> else db)
      in upsert_version (row\<lparr>ve_published_at := if pub then Some now else None\<rparr>)
           (\<lambda>v. v\<lparr>ve_artifact_id := coalesce (ve_artifact_id row) (ve_artifact_id v),
                  ve_release_notes := nonempty_or (ve_release_notes row) (ve_release_notes v),
                  ve_download_url := coalesce (ve_download_url row) (ve_download_url v),
                  ve_min_host_version := coalesce (ve_min_host_version row) (ve_min_host_version v),
                  ve_max_host_version := coalesce (ve_max_host_version row) (ve_max_host_version v),
                  ve_distribution_mode := ve_distribution_mode row, ve_status := ve_status row,
                  ve_published_at := (if pub then coalesce (ve_published_at v) (Some now) else ve_published_at v)\<rparr>) db1)"

definition link_version_artifact :: "link_row \<Rightarrow> cat_db \<Rightarrow> cat_db result" where
  "link_version_artifact l db =
     (if \<not> varchar_ok 50 (li_variant l) \<or> li_version_id l \<notin> set (map ve_id (ct_versions db)) \<or> li_artifact_id l \<notin> set (map ar_id (ct_artifacts db))
      then Inl DatabaseError
      else Inr (db\<lparr>ct_links :=
        (if list_ex (\<lambda>x. li_version_id x = li_version_id l \<and> li_variant x = li_variant l) (ct_links db)
         then map (\<lambda>x. if li_version_id x = li_version_id l \<and> li_variant x = li_variant l then x\<lparr>li_artifact_id := li_artifact_id l\<rparr> else x) (ct_links db)
         else ct_links db @ [l])\<rparr>))"

definition get_version_artifacts :: "cat_db \<Rightarrow> int \<Rightarrow> (string \<times> cat_artifact) list" where
  "get_version_artifacts db i =
     concat (map (\<lambda>l. case find (\<lambda>a. ar_id a = li_artifact_id l) (ct_artifacts db) of Some a \<Rightarrow> [(li_variant l, a)] | None \<Rightarrow> [])
       (sort_key li_variant (filter (\<lambda>l. li_version_id l = i) (ct_links db))))"

definition update_version_status :: "timestamp \<Rightarrow> int \<Rightarrow> string \<Rightarrow> cat_db \<Rightarrow> (bool \<times> cat_db) result" where
  "update_version_status now i st db =
     (if \<not> list_ex (\<lambda>v. ve_id v = i) (ct_versions db) then Inr (False, db)
      else if st \<notin> set version_statuses then Inl DatabaseError
      else Inr (True, db\<lparr>ct_versions := map (\<lambda>v. if ve_id v = i
        then v\<lparr>ve_status := st, ve_published_at := (if st = ''published'' then Some now else ve_published_at v)\<rparr> else v) (ct_versions db)\<rparr>))"

section \<open>Installations\<close>

definition get_plugin_stats :: "cat_db \<Rightarrow> int \<Rightarrow> (string \<times> nat) list" where
  "get_plugin_stats db i =
     (let rows = filter (\<lambda>n. pi_plugin_id n = i) (ct_installs db); cnt = (\<lambda>s. length (filter (\<lambda>n. pi_status n = s) rows))
      in [(''active'', cnt ''active''), (''inactive'', cnt ''inactive''), (''uninstalled'', cnt ''uninstalled''), (''total'', length rows)])"

definition list_installations :: "cat_db \<Rightarrow> int \<Rightarrow> nat \<Rightarrow> nat \<Rightarrow> install_row list" where
  "list_installations db i limit offset =
     take limit (drop offset (sort_key (\<lambda>n. - pi_last_seen_at n) (filter (\<lambda>n. pi_plugin_id n = i) (ct_installs db))))"

section \<open>Artifacts\<close>

definition ALLOWED_EXTENSIONS :: "string list" where
  "ALLOWED_EXTENSIONS = [''.oxt'', ''.xpi'', ''.crx'']"

definition MAX_UPLOAD_SIZE :: int where
  "MAX_UPLOAD_SIZE = 100 * 1024 * 1024"

text \<open>\<open>os.path.splitext(name)[1]\<close>: from the last dot of the last component, unless only dots precede it there.\<close>

definition splitext :: "string \<Rightarrow> string" where
  "splitext p =
     (let b = last (split_on (CHR ''/'') p); e = last (split_on (CHR ''.'') b); stem = take (length b - Suc (length e)) b
      in if CHR ''.'' \<notin> set b \<or> list_all (\<lambda>c. c = CHR ''.'') stem then [] else CHR ''.'' # e)"

text \<open>The message lists the allowed extensions in the order of a set, which is left open.\<close>

definition validate_upload :: "string \<Rightarrow> string \<Rightarrow> int \<Rightarrow> string option" where
  "validate_upload listed filename len =
     (let ext = lower (splitext filename)
      in if ext \<notin> set ALLOWED_EXTENSIONS then Some (''Extension '' @ ext @ '' non autorisee. Autorisees: '' @ listed)
         else if len > MAX_UPLOAD_SIZE then Some (''Fichier trop volumineux ('' @ str_of_int (len div 1024 div 1024) @ '' Mo > 100 Mo)'')
         else None)"

definition compute_checksum :: "bytes \<Rightarrow> string" where
  "compute_checksum data = ''sha256:'' @ hexdigest (sha256 data)"

definition list_artifacts :: "cat_db \<Rightarrow> (cat_artifact \<times> nat) list" where
  "list_artifacts db = map (\<lambda>a. (a, length (filter (\<lambda>c. ca_artifact_id c = Some (ar_id a)) (ct_campaigns db))))
     (sort_key (\<lambda>a. - ar_released_at a) (ct_artifacts db))"

definition get_artifact :: "cat_db \<Rightarrow> int \<Rightarrow> cat_artifact option" where
  "get_artifact db i = find (\<lambda>a. ar_id a = i) (ct_artifacts db)"

text \<open>The unique key of \<open>artifacts\<close>; a missing variant equals nothing.\<close>

definition artifact_key :: "string \<Rightarrow> string \<Rightarrow> string \<Rightarrow> cat_artifact \<Rightarrow> bool" where
  "artifact_key dt variant ver a = (ar_device_type a = dt \<and> ar_variant a = Some variant \<and> ar_version a = ver)"

definition upsert_artifact ::
  "timestamp \<Rightarrow> int \<Rightarrow> string \<Rightarrow> string \<Rightarrow> string \<Rightarrow> string \<Rightarrow> string \<Rightarrow> string option \<Rightarrow> cat_db \<Rightarrow> (int \<times> cat_db) result" where
  "upsert_artifact now aid dt variant ver path chk url db =
     (if \<not> (varchar_ok 50 dt \<and> varchar_ok 50 variant \<and> varchar_ok 50 ver \<and> varchar_ok 128 chk) then Inl DatabaseError
      else case find (artifact_key dt variant ver) (ct_artifacts db) of
        Some old \<Rightarrow> Inr (ar_id old, db\<lparr>ct_artifacts := map (\<lambda>a. if artifact_key dt variant ver a
            then a\<lparr>ar_s3_path := Some path, ar_checksum := Some chk, ar_changelog_url := coalesce url (ar_changelog_url a), ar_released_at := now\<rparr> else a)
          (ct_artifacts db)\<rparr>)
      | None \<Rightarrow> Inr (aid, db\<lparr>ct_artifacts := ct_artifacts db @
          [\<lparr>ar_id = aid, ar_device_type = dt, ar_version = ver, ar_s3_path = Some path, ar_checksum = Some chk, ar_min_host_version = None,
            ar_max_host_version = None, ar_changelog_url = url, ar_variant = Some variant, ar_is_active = True, ar_released_at = now\<rparr>]\<rparr>))"

definition create_artifact ::
  "timestamp \<Rightarrow> int \<Rightarrow> string \<Rightarrow> string option \<Rightarrow> string \<Rightarrow> string \<Rightarrow> string \<Rightarrow> string option \<Rightarrow> cat_db \<Rightarrow> (int \<times> cat_db) result" where
  "create_artifact now aid dt variant ver path chk url db =
     upsert_artifact now aid dt (str_or variant []) ver path chk (case url of Some u \<Rightarrow> if u = [] then None else Some u | None \<Rightarrow> None) db"

definition toggle_artifact :: "int \<Rightarrow> bool \<Rightarrow> cat_db \<Rightarrow> bool \<times> cat_db" where
  "toggle_artifact i b db =
     (list_ex (\<lambda>a. ar_id a = i) (ct_artifacts db),
      db\<lparr>ct_artifacts := map (\<lambda>a. if ar_id a = i then a\<lparr>ar_is_active := b\<rparr> else a) (ct_artifacts db)\<rparr>)"

section \<open>Well-formedness\<close>

definition versions_ok :: "cat_db \<Rightarrow> bool" where
  "versions_ok db = (distinct (map ve_id (ct_versions db)) \<and> distinct (map (\<lambda>v. (ve_plugin_id v, ve_version v)) (ct_versions db)) \<and>
     list_all (version_ok db) (ct_versions db))"

definition artifacts_ok :: "cat_db \<Rightarrow> bool" where
  "artifacts_ok db = (distinct (map ar_id (ct_artifacts db)) \<and>
     distinct (map (\<lambda>a. (ar_device_type a, ar_variant a, ar_version a)) (filter (\<lambda>a. ar_variant a \<noteq> None) (ct_artifacts db))))"

definition links_ok :: "cat_db \<Rightarrow> bool" where
  "links_ok db = (distinct (map (\<lambda>l. (li_version_id l, li_variant l)) (ct_links db)) \<and>
     list_all (\<lambda>l. li_version_id l \<in> set (map ve_id (ct_versions db)) \<and> li_artifact_id l \<in> set (map ar_id (ct_artifacts db))) (ct_links db))"

definition cat_wf :: "cat_db \<Rightarrow> bool" where
  "cat_wf db = (distinct (map cp_id (ct_plugins db)) \<and> list_all plugin_ok (ct_plugins db) \<and> slugs_unique (ct_plugins db) \<and>
     versions_ok db \<and> artifacts_ok db \<and> links_ok db)"

text \<open>One call of the service that changes the tables.\<close>

inductive cat_step :: "cat_db \<Rightarrow> cat_db \<Rightarrow> bool" where
  CreatePlugin: "pid \<notin> set (map cp_id (ct_plugins db)) \<Longrightarrow> create_plugin now pid slug name dt vis info tmpl db = Inr (i, db') \<Longrightarrow> cat_step db db'"
| UpdatePlugin: "update_plugin now i fs db = Inr (b, db') \<Longrightarrow> cat_step db db'"
| Purge: "purge_removed db = (n, db') \<Longrightarrow> cat_step db db'"
| CreateVersion: "ve_id row \<notin> set (map ve_id (ct_versions db)) \<Longrightarrow> create_version now row db = Inr (i, db') \<Longrightarrow> cat_step db db'"
| Link: "link_version_artifact l db = Inr db' \<Longrightarrow> cat_step db db'"
| VersionStatus: "update_version_status now i st db = Inr (b, db') \<Longrightarrow> cat_step db db'"
| CreateArtifact: "aid \<notin> set (map ar_id (ct_artifacts db)) \<Longrightarrow> create_artifact now aid dt variant ver path chk url db = Inr (i, db') \<Longrightarrow> cat_step db db'"
| ToggleArtifact: "toggle_artifact i b db = (r, db') \<Longrightarrow> cat_step db db'"

inductive_cases cat_stepE: "cat_step db db'"

lemma check_plugins_ok: "check_plugins db ps = Inr db' \<Longrightarrow> db' = db\<lparr>ct_plugins := ps\<rparr> \<and> list_all plugin_ok ps \<and> slugs_unique ps"
  by (auto simp: check_plugins_def split: if_splits)

lemma release_slug_ids [simp]: "map cp_id (release_slug now slug ps) = map cp_id ps"
  by (simp add: release_slug_def split: option.split)

lemma version_ok_cong:
  "map cp_id (ct_plugins db') = map cp_id (ct_plugins db) \<Longrightarrow> map ar_id (ct_artifacts db') = map ar_id (ct_artifacts db) \<Longrightarrow>
     version_ok db' v = version_ok db v"
  by (simp add: version_ok_def)

lemma version_ok_mono:
  "set (map cp_id (ct_plugins db)) \<subseteq> set (map cp_id (ct_plugins db')) \<Longrightarrow> set (map ar_id (ct_artifacts db)) \<subseteq> set (map ar_id (ct_artifacts db')) \<Longrightarrow>
     version_ok db v \<Longrightarrow> version_ok db' v"
  by (auto simp: version_ok_def fk_ok_def split: option.splits)

text \<open>Changing only the plugins, with the same or more identifiers.\<close>

lemma wf_plugins:
  assumes "cat_wf db" "list_all plugin_ok ps" "slugs_unique ps" "distinct (map cp_id ps)" "set (map cp_id (ct_plugins db)) \<subseteq> set (map cp_id ps)"
  shows "cat_wf (db\<lparr>ct_plugins := ps\<rparr>)"
proof -
  have "version_ok (db\<lparr>ct_plugins := ps\<rparr>) v" if "version_ok db v" for v
    using version_ok_mono [of db "db\<lparr>ct_plugins := ps\<rparr>" v] that assms(5) by simp
  then show ?thesis using assms by (auto simp: cat_wf_def versions_ok_def artifacts_ok_def links_ok_def list_all_iff)
qed

lemma wf_create_plugin:
  assumes "cat_wf db" "pid \<notin> set (map cp_id (ct_plugins db))" "create_plugin now pid slug name dt vis info tmpl db = Inr (i, db')"
  shows "cat_wf db'"
proof -
  let ?row = "\<lparr>cp_id = pid, cp_slug = slug, cp_name = name, cp_device_type = dt, cp_visibility = vis, cp_status = ''active'',
     cp_template = (case tmpl of Some t \<Rightarrow> if truthy t then Some t else None | None \<Rightarrow> None), cp_info = info, cp_updated_at = now\<rparr>"
  let ?ps = "release_slug now slug (ct_plugins db) @ [?row]"
  have "check_plugins db ?ps = Inr db'"
    using assms(3) by (simp add: create_plugin_def Let_def bind_result_def split: sum.splits)
  then have p: "db' = db\<lparr>ct_plugins := ?ps\<rparr>" "list_all plugin_ok ?ps" "slugs_unique ?ps" by (simp_all only: check_plugins_ok)
  have ids: "map cp_id ?ps = map cp_id (ct_plugins db) @ [pid]" by simp
  have "distinct (map cp_id ?ps)" "set (map cp_id (ct_plugins db)) \<subseteq> set (map cp_id ?ps)"
    using assms(1,2) unfolding ids by (auto simp: cat_wf_def)
  then show ?thesis unfolding p(1) by (rule wf_plugins [OF assms(1) p(2,3)])
qed

lemma set_field_id: "set_field kv p = Some q \<Longrightarrow> cp_id q = cp_id p"
  by (auto simp: set_field_def Let_def split: prod.splits if_splits)

lemma set_fields_id [simp]: "cp_id (set_fields now fs p) = cp_id p"
proof -
  have "cp_id (fold (\<lambda>kv q. case set_field kv q of Some q' \<Rightarrow> q' | None \<Rightarrow> q) fs p) = cp_id p"
    by (induction fs arbitrary: p) (auto dest: set_field_id split: option.split)
  then show ?thesis by (simp add: set_fields_def)
qed

lemma wf_update_plugin:
  assumes "cat_wf db" "update_plugin now i fs db = Inr (b, db')"
  shows "cat_wf db'"
proof (cases "db' = db")
  case False
  let ?ps = "map (\<lambda>p. if cp_id p = i then set_fields now fs p else p) (ct_plugins db)"
  have ids: "map cp_id ?ps = map cp_id (ct_plugins db)" by simp
  have "check_plugins db ?ps = Inr db'"
    using assms(2) False by (auto simp: update_plugin_def bind_result_def split: if_splits sum.splits)
  then have p: "db' = db\<lparr>ct_plugins := ?ps\<rparr>" "list_all plugin_ok ?ps" "slugs_unique ?ps" by (simp_all only: check_plugins_ok)
  have "distinct (map cp_id ?ps)" "set (map cp_id (ct_plugins db)) \<subseteq> set (map cp_id ?ps)"
    using assms(1) unfolding ids by (simp_all add: cat_wf_def)
  then show ?thesis unfolding p(1) by (rule wf_plugins [OF assms(1) p(2,3)])
qed (use assms in simp)

lemma distinct_map_filterI: "distinct (map f xs) \<Longrightarrow> distinct (map f (filter p xs))"
  by (rule distinct_map_filter)

lemma wf_purge:
  assumes "cat_wf db" "purge_removed db = (n, db')"
  shows "cat_wf db'"
proof -
  define ids where "ids = map cp_id (filter (\<lambda>p. cp_status p = ''removed'') (ct_plugins db))"
  define vids where "vids = map ve_id (filter (\<lambda>v. ve_plugin_id v \<in> set ids) (ct_versions db))"
  have db': "ct_plugins db' = filter (\<lambda>p. cp_id p \<notin> set ids) (ct_plugins db)" "ct_versions db' = filter (\<lambda>v. ve_plugin_id v \<notin> set ids) (ct_versions db)"
    "ct_links db' = filter (\<lambda>l. li_version_id l \<notin> set vids) (ct_links db)" "ct_artifacts db' = ct_artifacts db"
    using assms(2) by (auto simp: purge_removed_def Let_def ids_def vids_def)
  have v: "version_ok db' v" if "version_ok db v" "ve_plugin_id v \<notin> set ids" for v
    using that by (auto simp: version_ok_def db')
  have l: "i \<in> ve_id ` set (ct_versions db')" if "i \<in> ve_id ` set (ct_versions db)" "i \<notin> set vids" for i
    using that by (auto simp: db' vids_def)
  have "filter (\<lambda>p. cp_status p \<noteq> ''removed'') (ct_plugins db') = filter (\<lambda>p. cp_id p \<notin> set ids) (filter (\<lambda>p. cp_status p \<noteq> ''removed'') (ct_plugins db))"
    by (simp add: db' conj_commute)
  then have "slugs_unique (ct_plugins db')"
    using assms(1) by (simp add: cat_wf_def slugs_unique_def distinct_map_filterI del: filter_filter)
  moreover have "links_ok db'" using assms(1) l by (auto simp: cat_wf_def links_ok_def list_all_iff db'(3,4) intro: distinct_map_filterI)
  ultimately show ?thesis using assms(1) v
    by (auto simp: cat_wf_def versions_ok_def artifacts_ok_def list_all_iff db' intro: distinct_map_filterI)
qed

text \<open>Changing only the versions, with the same identifiers and keys.\<close>

lemma wf_versions:
  assumes "cat_wf db" "map ve_id vs = map ve_id (ct_versions db)" "map (\<lambda>v. (ve_plugin_id v, ve_version v)) vs = map (\<lambda>v. (ve_plugin_id v, ve_version v)) (ct_versions db)"
    "list_all (version_ok db) vs"
  shows "cat_wf (db\<lparr>ct_versions := vs\<rparr>)"
proof -
  have "version_ok (db\<lparr>ct_versions := vs\<rparr>) = version_ok db" by (rule ext) (simp add: version_ok_def)
  moreover have "ve_id ` set vs = ve_id ` set (ct_versions db)" using assms(2) by (metis set_map)
  ultimately show ?thesis using assms by (simp add: cat_wf_def versions_ok_def artifacts_ok_def links_ok_def list_all_iff)
qed

lemma wf_map_versions:
  assumes "cat_wf db" "\<And>v. ve_id (f v) = ve_id v \<and> ve_plugin_id (f v) = ve_plugin_id v \<and> ve_version (f v) = ve_version v"
    "\<And>v. version_ok db v \<Longrightarrow> version_ok db (f v)"
  shows "cat_wf (db\<lparr>ct_versions := map f (ct_versions db)\<rparr>)"
  using assms by (intro wf_versions) (simp_all add: cat_wf_def versions_ok_def list_all_iff)

lemma wf_deprecate: "cat_wf db \<Longrightarrow> cat_wf (db\<lparr>ct_versions := deprecate_others pid ver (ct_versions db)\<rparr>)"
  unfolding deprecate_others_def by (rule wf_map_versions) (auto simp: version_ok_def version_statuses_def)

lemma wf_upsert_version:
  assumes "cat_wf db" "ve_id row \<notin> set (map ve_id (ct_versions db))" "upsert_version row upd db = Inr (i, db')"
    "\<And>v. ve_id (upd v) = ve_id v \<and> ve_plugin_id (upd v) = ve_plugin_id v \<and> ve_version (upd v) = ve_version v"
    "\<And>v. version_ok db row \<Longrightarrow> version_ok db v \<Longrightarrow> version_ok db (upd v)"
  shows "cat_wf db'"
proof (cases "find (version_key (ve_plugin_id row) (ve_version row)) (ct_versions db)")
  case (Some old)
  have row: "version_ok db row" using assms(3) by (simp add: upsert_version_def split: if_splits)
  have "db' = db\<lparr>ct_versions := map (\<lambda>v. if version_key (ve_plugin_id row) (ve_version row) v then upd v else v) (ct_versions db)\<rparr>"
    using assms(3) Some by (simp add: upsert_version_def split: if_splits)
  then show ?thesis using wf_map_versions [OF assms(1), of "\<lambda>v. if version_key (ve_plugin_id row) (ve_version row) v then upd v else v"] assms(4,5) row
    by simp
next
  case None
  have db': "db' = db\<lparr>ct_versions := ct_versions db @ [row]\<rparr>" and row: "version_ok db row"
    using assms(3) None by (simp_all add: upsert_version_def split: if_splits)
  have new: "(ve_plugin_id row, ve_version row) \<notin> set (map (\<lambda>v. (ve_plugin_id v, ve_version v)) (ct_versions db))"
    using None by (auto simp: find_None_iff version_key_def)
  have "version_ok db' = version_ok db" by (rule ext) (simp add: version_ok_def db')
  then show ?thesis using assms(1,2) row new
    by (auto simp: cat_wf_def versions_ok_def artifacts_ok_def links_ok_def db' list_all_iff)
qed

lemma version_ok_published [simp]: "version_ok db (v\<lparr>ve_published_at := t\<rparr>) = version_ok db v"
  by (simp add: version_ok_def)

lemma fk_ok_coalesce: "fk_ok a xs \<Longrightarrow> fk_ok b xs \<Longrightarrow> fk_ok (coalesce a b) xs"
  by (auto simp: fk_ok_def coalesce_def split: option.splits)

lemma coalesce_case:
  "(case a of Some s \<Rightarrow> P s | None \<Rightarrow> True) \<Longrightarrow> (case b of Some s \<Rightarrow> P s | None \<Rightarrow> True) \<Longrightarrow> case coalesce a b of Some s \<Rightarrow> P s | None \<Rightarrow> True"
  by (cases a) (simp_all add: coalesce_def)

lemma wf_create_version:
  assumes "cat_wf db" "ve_id row \<notin> set (map ve_id (ct_versions db))" "create_version now row db = Inr (i, db')"
  shows "cat_wf db'"
proof -
  define db1 where "db1 = (if ve_status row = ''published'' then db\<lparr>ct_versions := deprecate_others (ve_plugin_id row) (ve_version row) (ct_versions db)\<rparr> else db)"
  have wf1: "cat_wf db1" unfolding db1_def using assms(1) wf_deprecate by simp
  have "map ve_id (ct_versions db1) = map ve_id (ct_versions db)" by (simp add: db1_def deprecate_others_def)
  then have fresh: "ve_id row \<notin> set (map ve_id (ct_versions db1))" using assms(2) by simp
  show ?thesis
    by (rule wf_upsert_version [OF wf1 _ assms(3) [unfolded create_version_def Let_def, folded db1_def]])
       (use fresh in \<open>simp_all add: version_ok_def fk_ok_coalesce coalesce_case\<close>)
qed

lemma wf_version_status: "cat_wf db \<Longrightarrow> update_version_status now i st db = Inr (b, db') \<Longrightarrow> cat_wf db'"
proof -
  assume wf: "cat_wf db" and u: "update_version_status now i st db = Inr (b, db')"
  show ?thesis
  proof (cases "db' = db")
    case False
    then have "st \<in> set version_statuses"
      "db' = db\<lparr>ct_versions := map (\<lambda>v. if ve_id v = i then v\<lparr>ve_status := st, ve_published_at := (if st = ''published'' then Some now else ve_published_at v)\<rparr> else v) (ct_versions db)\<rparr>"
      using u by (auto simp: update_version_status_def split: if_splits)
    then show ?thesis by (auto intro!: wf_map_versions [OF wf] simp: version_ok_def)
  qed (use wf in simp)
qed

text \<open>Artifacts and links.\<close>

lemma wf_artifacts:
  assumes "cat_wf db" "artifacts_ok (db\<lparr>ct_artifacts := as\<rparr>)" "set (map ar_id (ct_artifacts db)) \<subseteq> set (map ar_id as)"
  shows "cat_wf (db\<lparr>ct_artifacts := as\<rparr>)"
proof -
  have "version_ok (db\<lparr>ct_artifacts := as\<rparr>) v" if "version_ok db v" for v
    using version_ok_mono [of db "db\<lparr>ct_artifacts := as\<rparr>" v] that assms(3) by simp
  then show ?thesis using assms by (fastforce simp: cat_wf_def versions_ok_def links_ok_def list_all_iff)
qed

lemma wf_map_artifacts:
  assumes "cat_wf db" "\<And>a. ar_id (f a) = ar_id a \<and> ar_device_type (f a) = ar_device_type a \<and> ar_variant (f a) = ar_variant a \<and> ar_version (f a) = ar_version a"
  shows "cat_wf (db\<lparr>ct_artifacts := map f (ct_artifacts db)\<rparr>)"
proof (rule wf_artifacts [OF assms(1)])
  have new_rows: "ct_artifacts (db\<lparr>ct_artifacts := xs\<rparr>) = xs" for xs by simp
  let ?as = "ct_artifacts db" and ?k = "\<lambda>a :: cat_artifact. (ar_device_type a, ar_variant a, ar_version a)"
  have "map ?k (filter (\<lambda>a. ar_variant a \<noteq> None) (map f as)) = map ?k (filter (\<lambda>a. ar_variant a \<noteq> None) as)" for as
    using assms(2) by (induction as) simp_all
  moreover have ids: "map ar_id (map f ?as) = map ar_id ?as" using assms(2) by simp
  moreover have "artifacts_ok db" using assms(1) by (simp add: cat_wf_def)
  ultimately show "artifacts_ok (db\<lparr>ct_artifacts := map f ?as\<rparr>)" 
    by (simp only: artifacts_ok_def new_rows)
  show "set (map ar_id ?as) \<subseteq> set (map ar_id (map f ?as))" unfolding ids by simp
qed

lemma wf_upsert_artifact:
  assumes "cat_wf db" "aid \<notin> set (map ar_id (ct_artifacts db))" "upsert_artifact now aid dt variant ver path chk url db = Inr (i, db')"
  shows "cat_wf db'"
proof (cases "find (artifact_key dt variant ver) (ct_artifacts db)")
  case (Some old)
  have db': "db' = db\<lparr>ct_artifacts := map (\<lambda>a. if artifact_key dt variant ver a
    then a\<lparr>ar_s3_path := Some path, ar_checksum := Some chk, ar_changelog_url := coalesce url (ar_changelog_url a), ar_released_at := now\<rparr> else a) (ct_artifacts db)\<rparr>"
    using assms(3) Some by (simp add: upsert_artifact_def split: if_splits)
  show ?thesis unfolding db' by (rule wf_map_artifacts [OF assms(1)]) simp
next
  case None
  let ?a = "\<lparr>ar_id = aid, ar_device_type = dt, ar_version = ver, ar_s3_path = Some path, ar_checksum = Some chk, ar_min_host_version = None,
            ar_max_host_version = None, ar_changelog_url = url, ar_variant = Some variant, ar_is_active = True, ar_released_at = now\<rparr>"
  have db': "db' = db\<lparr>ct_artifacts := ct_artifacts db @ [?a]\<rparr>"
    using assms(3) None by (auto simp: upsert_artifact_def split: if_splits)
  have "(dt, Some variant, ver) \<notin> (\<lambda>a. (ar_device_type a, ar_variant a, ar_version a)) ` set (ct_artifacts db)"
    using None by (auto simp: find_None_iff artifact_key_def)
  then show ?thesis unfolding db' using assms(1,2)
    by (intro wf_artifacts) (auto simp: cat_wf_def artifacts_ok_def)
qed

lemma links_ok_update:
  assumes "links_ok db" "a \<in> set (map ar_id (ct_artifacts db))"
  shows "links_ok (db\<lparr>ct_links := map (\<lambda>x. if p x then x\<lparr>li_artifact_id := a\<rparr> else x) (ct_links db)\<rparr>)"
proof -
  have "map (\<lambda>x. (li_version_id x, li_variant x)) (map (\<lambda>x. if p x then x\<lparr>li_artifact_id := a\<rparr> else x) ls) =
      map (\<lambda>x. (li_version_id x, li_variant x)) ls" for ls by simp
  then have "distinct (map (\<lambda>x. (li_version_id x, li_variant x)) (map (\<lambda>x. if p x then x\<lparr>li_artifact_id := a\<rparr> else x) (ct_links db)))"
    using assms(1) by (simp only: links_ok_def)
  then show ?thesis using assms unfolding links_ok_def cat_db.simps by (auto simp: list_all_iff simp del: map_map)
qed

lemma wf_links: "cat_wf db \<Longrightarrow> links_ok (db\<lparr>ct_links := ls\<rparr>) \<Longrightarrow> cat_wf (db\<lparr>ct_links := ls\<rparr>)"
proof -
  have "version_ok (db\<lparr>ct_links := ls\<rparr>) = version_ok db" by (rule ext) (simp add: version_ok_def)
  then show "cat_wf db \<Longrightarrow> links_ok (db\<lparr>ct_links := ls\<rparr>) \<Longrightarrow> cat_wf (db\<lparr>ct_links := ls\<rparr>)"
    by (simp add: cat_wf_def versions_ok_def artifacts_ok_def)
qed

lemma wf_link: "cat_wf db \<Longrightarrow> link_version_artifact l db = Inr db' \<Longrightarrow> cat_wf db'"
proof -
  assume wf: "cat_wf db" and l: "link_version_artifact l db = Inr db'"
  let ?k = "\<lambda>x. li_version_id x = li_version_id l \<and> li_variant x = li_variant l"
  have fk: "li_version_id l \<in> set (map ve_id (ct_versions db))" "li_artifact_id l \<in> set (map ar_id (ct_artifacts db))"
    using l by (auto simp: link_version_artifact_def split: if_splits)
  have lk: "links_ok db" using wf by (simp add: cat_wf_def)
  show ?thesis
  proof (cases "list_ex ?k (ct_links db)")
    case True
    then have "db' = db\<lparr>ct_links := map (\<lambda>x. if ?k x then x\<lparr>li_artifact_id := li_artifact_id l\<rparr> else x) (ct_links db)\<rparr>"
      using l by (simp add: link_version_artifact_def split: if_splits)
    then show ?thesis using wf_links [OF wf links_ok_update [OF lk fk(2)]] by simp
  next
    case False
    then have db': "db' = db\<lparr>ct_links := ct_links db @ [l]\<rparr>" using l by (simp add: link_version_artifact_def split: if_splits)
    have "links_ok (db\<lparr>ct_links := ct_links db @ [l]\<rparr>)"
      using lk fk False by (auto simp: links_ok_def list_ex_iff)
    then show ?thesis unfolding db' by (rule wf_links [OF wf])
  qed
qed

lemma wf_toggle: "cat_wf db \<Longrightarrow> toggle_artifact i b db = (r, db') \<Longrightarrow> cat_wf db'"
  using wf_map_artifacts [of db "\<lambda>a. if ar_id a = i then a\<lparr>ar_is_active := b\<rparr> else a"] by (simp add: toggle_artifact_def)

section \<open>Properties\<close>

text \<open>Every call of the catalogue service keeps the tables well formed: keys and slugs of live plugins stay unique, every status, visibility and
  distribution mode is one of the allowed values, and every version and variant link refers to a plugin, a version and an artifact that exist, also after removed plugins
  were purged.\<close>

lemma catalog_wellformed:
  assumes "cat_step\<^sup>*\<^sup>* db db'" "cat_wf db"
  shows "cat_wf db'"
  using assms
proof (induction rule: rtranclp_induct)
  case (step db1 db2)
  then have "cat_wf db1" by simp
  with step.hyps(2) show ?case
    by (cases rule: cat_step.cases)
       (auto intro: wf_create_plugin wf_update_plugin wf_purge wf_create_version wf_link wf_version_status wf_upsert_artifact wf_toggle
         simp: create_artifact_def simp del: set_map)
qed

definition empty_cat :: cat_db where
  "empty_cat = \<lparr>ct_plugins = [], ct_versions = [], ct_artifacts = [], ct_links = [], ct_installs = [], ct_campaigns = [], ct_device_status = [],
     ct_cohorts = [], ct_flags = demo_flags\<rparr>"

definition demo_cat_plugin :: "string \<Rightarrow> cat_plugin" where
  "demo_cat_plugin st = \<lparr>cp_id = 1, cp_slug = ''p'', cp_name = ''P'', cp_device_type = ''libreoffice'', cp_visibility = ''public'', cp_status = st,
     cp_template = None, cp_info = [], cp_updated_at = 0\<rparr>"

lemma catalog_wellformed_witness:
  "cat_wf (empty_cat\<lparr>ct_plugins := [demo_cat_plugin ''removed'']\<rparr>) \<and>
   purge_removed (empty_cat\<lparr>ct_plugins := [demo_cat_plugin ''removed'']\<rparr>) = (1, empty_cat)"
proof -
  have w: "cat_wf empty_cat" by (simp add: cat_wf_def slugs_unique_def versions_ok_def artifacts_ok_def links_ok_def empty_cat_def)
  have c: "create_plugin 0 1 ''p'' ''P'' ''libreoffice'' ''public'' [] None empty_cat = Inr (1, empty_cat\<lparr>ct_plugins := [demo_cat_plugin ''active'']\<rparr>)"
    by (simp add: create_plugin_def Let_def check_plugins_def release_slug_def empty_cat_def demo_cat_plugin_def plugin_ok_def slugs_unique_def varchar_ok_def
      visibilities_def plugin_statuses_def)
  have u: "update_plugin 0 1 [(''status'', JStr ''removed'')] (empty_cat\<lparr>ct_plugins := [demo_cat_plugin ''active'']\<rparr>) =
      Inr (True, empty_cat\<lparr>ct_plugins := [demo_cat_plugin ''removed'']\<rparr>)"
    by (simp add: update_plugin_def UPDATE_FIELDS_def set_fields_def set_field_def check_plugins_def demo_cat_plugin_def plugin_ok_def slugs_unique_def
      varchar_ok_def visibilities_def plugin_statuses_def)
  have "cat_step empty_cat (empty_cat\<lparr>ct_plugins := [demo_cat_plugin ''active'']\<rparr>)"
    by (rule CreatePlugin [OF _ c]) (simp add: empty_cat_def)
  moreover have "cat_step (empty_cat\<lparr>ct_plugins := [demo_cat_plugin ''active'']\<rparr>) (empty_cat\<lparr>ct_plugins := [demo_cat_plugin ''removed'']\<rparr>)"
    by (rule UpdatePlugin [OF u])
  ultimately have "cat_step\<^sup>*\<^sup>* empty_cat (empty_cat\<lparr>ct_plugins := [demo_cat_plugin ''removed'']\<rparr>)" by simp
  from catalog_wellformed [OF this w] show ?thesis by (simp add: purge_removed_def demo_cat_plugin_def empty_cat_def)
qed

text \<open>Publishing through \<open>create_version\<close> leaves one published version of the plugin; changing the status afterwards can publish a second one.\<close>

lemma create_version_single:
  assumes "create_version now row db = Inr (i, db')" "ve_status row = ''published''" "v \<in> set (ct_versions db')" "ve_plugin_id v = ve_plugin_id row" "ve_status v = ''published''"
  shows "ve_version v = ve_version row"
proof -
  let ?vs = "deprecate_others (ve_plugin_id row) (ve_version row) (ct_versions db)"
  have old: "ve_version u = ve_version row" if "u \<in> set ?vs" "ve_plugin_id u = ve_plugin_id row" "ve_status u = ''published''" for u
    using that by (auto simp: deprecate_others_def split: if_splits)
  show ?thesis using assms old
    by (fastforce simp: create_version_def upsert_version_def Let_def version_key_def split: if_splits option.splits)
qed

end
