(* ===== verification/PathSafe.thy ===== *)
theory PathSafe
  imports Prelude
begin

text \<open>
  \<open>app/pathsafe.py\<close>: joining a path under a directory without leaving it. An absolute path is the list of its components;
  symbolic links are a function from locations to targets, so the file system is arbitrary. \<open>os.path.realpath\<close> resolves
  the links one inside the other, as CPython's \<open>_joinrealpath\<close> does: at a link that is being resolved already (a cycle) it
  gives up and takes the rest of the path as it stands, \<open>..\<close> removed textually. The number \<open>n\<close> bounds the nesting of links; the
  number of links of the file system is enough (\<open>resolve_enough\<close>), and no theorem depends on it. Not modelled: an empty
  component right after a cyclic link, where CPython starts over at the root.
\<close>

section \<open>Paths\<close>

definition slash :: char where "slash = CHR ''/''"

definition components :: "string \<Rightarrow> string list" where
  "components p = filter (\<lambda>c. c \<noteq> [] \<and> c \<noteq> ''.'') (split_on slash p)"

definition path_str :: "string list \<Rightarrow> string" where
  "path_str cs = slash # join_with [slash] cs"

type_synonym links = "string list \<Rightarrow> string option"

text \<open>The components of a path, \<open>..\<close> removed textually (\<open>os.path.normpath\<close>).\<close>

fun lexical :: "string list \<Rightarrow> string list \<Rightarrow> string list" where
  "lexical acc [] = acc"
| "lexical acc (c # cs) = lexical (if c = ''..'' then butlast acc else acc @ [c]) cs"

text \<open>The flag says whether every link was followed; \<open>seen\<close> holds the links being resolved.\<close>

function resolve :: "links \<Rightarrow> nat \<Rightarrow> string list list \<Rightarrow> string list \<Rightarrow> string list \<Rightarrow> bool \<times> string list" where
  "resolve ln n seen acc [] = (True, acc)"
| "resolve ln n seen acc (c # cs) =
     (if c = ''..'' then resolve ln n seen (butlast acc) cs
      else case ln (acc @ [c]) of
        None \<Rightarrow> resolve ln n seen (acc @ [c]) cs
      | Some t \<Rightarrow>
          (if acc @ [c] \<in> set seen \<or> n = 0 then (False, lexical (acc @ [c]) cs)
           else case resolve ln (n - 1) ((acc @ [c]) # seen) (if startswith t [slash] then [] else acc) (components t) of
             (ok, q) \<Rightarrow> if ok then resolve ln n seen q cs else (False, lexical q cs)))"
  by pat_completeness auto

termination
  by (relation "inv_image (less_than <*lex*> less_than) (\<lambda>(ln, n, seen, acc, cs). (n, length cs))") auto

definition realpath :: "links \<Rightarrow> nat \<Rightarrow> string list \<Rightarrow> string \<Rightarrow> bool \<times> string list" where
  "realpath ln n cwd p =
     (if startswith p [slash] then resolve ln n [] [] (components p) else resolve ln n [] cwd (components p))"

section \<open>Operations\<close>

definition safe_path_join :: "links \<Rightarrow> nat \<Rightarrow> string list \<Rightarrow> string \<Rightarrow> string \<Rightarrow> string result" where
  "safe_path_join ln n cwd base_dir relative_path =
     (let base_abs = path_str (snd (realpath ln n cwd base_dir));
          joined = base_abs @ (if base_abs = [slash] then [] else [slash]) @ lstrip_char slash relative_path;
          candidate = path_str (snd (realpath ln n cwd joined))
      in if candidate = base_abs \<or> startswith candidate (base_abs @ [slash]) then Inr candidate
         else Inl (HTTPException 400 ''Invalid path''))"

definition alnum :: "char \<Rightarrow> bool" where
  "alnum c = (let k = (of_char c :: nat) in 48 \<le> k \<and> k \<le> 57 \<or> 65 \<le> k \<and> k \<le> 90 \<or> 97 \<le> k \<and> k \<le> 122)"

definition segment_char :: "char \<Rightarrow> bool" where
  "segment_char c = (alnum c \<or> c \<in> {CHR ''.'', CHR ''_'', CHR ''+'', CHR ''-''})"

definition basename :: "string \<Rightarrow> string" where
  "basename p = last (split_on slash p)"

definition safe_segment :: "string \<Rightarrow> string \<Rightarrow> string result" where
  "safe_segment v field =
     (let b = basename v
      in if b \<noteq> [] \<and> alnum (hd b) \<and> list_all segment_char b then Inr b
         else Inl (HTTPException 400 (''invalid '' @ field)))"

section \<open>Lemmas\<close>

definition proper :: "string \<Rightarrow> bool" where
  "proper c = (c \<noteq> [] \<and> c \<noteq> ''.'' \<and> slash \<notin> set c)"

definition plain :: "string \<Rightarrow> bool" where
  "plain c = (proper c \<and> c \<noteq> ''..'')"

lemma components_proper: "list_all proper (components p)"
  by (auto simp: components_def proper_def list_all_iff dest: split_on_sep)

lemma components_Nil [simp]: "components [] = []"
  by (simp add: components_def)

lemma components_append: "components (a @ slash # b) = components a @ components b"
  by (simp add: components_def split_on_append)

lemma components_path_str [simp]: "list_all proper cs \<Longrightarrow> components (path_str cs) = cs"
proof -
  assume p: "list_all proper cs"
  have "components (slash # s) = components s" for s using components_append [of "[]" s] by simp
  moreover have "filter (\<lambda>c. c \<noteq> [] \<and> c \<noteq> ''.'') cs = cs" using p by (simp add: proper_def list_all_iff)
  moreover have "cs \<noteq> [] \<Longrightarrow> split_on slash (join_with [slash] cs) = cs"
    using p by (intro split_on_join) (auto simp: proper_def list_all_iff)
  ultimately show ?thesis by (cases "cs = []") (auto simp: path_str_def components_def)
qed

lemma plain_proper: "list_all plain cs \<Longrightarrow> list_all proper cs"
  by (simp add: plain_def list_all_iff)

lemma plain_butlast: "list_all plain acc \<Longrightarrow> list_all plain (butlast acc)"
  by (auto simp: list_all_iff dest: in_set_butlastD)

lemma plain_snoc: "list_all plain acc \<Longrightarrow> proper c \<Longrightarrow> c \<noteq> ''..'' \<Longrightarrow> list_all plain (acc @ [c])"
  by (simp add: plain_def)

lemma lexical_plain: "list_all plain acc \<Longrightarrow> list_all proper cs \<Longrightarrow> list_all plain (lexical acc cs)"
  by (induction acc cs rule: lexical.induct) (auto simp: plain_butlast plain_def)

lemma resolve_plain:
  "list_all plain acc \<Longrightarrow> list_all proper cs \<Longrightarrow> list_all plain (snd (resolve ln n seen acc cs))"
proof (induction ln n seen acc cs rule: resolve.induct)
  case (2 ln n seen acc c cs)
  have c: "proper c" "list_all proper cs" using "2.prems" by simp_all
  show ?case
  proof (cases "c = ''..''")
    case True
    then show ?thesis using "2.IH"(1) plain_butlast [OF "2.prems"(1)] c by simp
  next
    case False
    have snoc: "list_all plain (acc @ [c])" by (rule plain_snoc [OF "2.prems"(1) c(1) False])
    show ?thesis
    proof (cases "ln (acc @ [c])")
      case None
      then show ?thesis using "2.IH"(2) [OF False None snoc c(2)] False by simp
    next
      case (Some t)
      show ?thesis
      proof (cases "acc @ [c] \<in> set seen \<or> n = 0")
        case True
        then show ?thesis using False Some lexical_plain [OF snoc c(2)] by simp
      next
        case go: False
        obtain ok q where r: "resolve ln (n - 1) ((acc @ [c]) # seen) (if startswith t [slash] then [] else acc) (components t) = (ok, q)"
          by fastforce
        have "list_all plain (if startswith t [slash] then [] else acc)" using "2.prems"(1) by simp
        then have q: "list_all plain q" using "2.IH"(3) [OF False Some go _ components_proper] r by simp
        then show ?thesis
          using "2.IH"(4) [OF False Some go r [symmetric] _ q c(2)] lexical_plain [OF q c(2)] False Some go r by auto
      qed
    qed
  qed
qed simp

text \<open>No prefix of the path is a link.\<close>

definition linkfree :: "links \<Rightarrow> string list \<Rightarrow> bool" where
  "linkfree ln cs = (\<forall>k. 0 < k \<longrightarrow> k \<le> length cs \<longrightarrow> ln (take k cs) = None)"

lemma linkfree_snoc: "linkfree ln (cs @ [c]) = (linkfree ln cs \<and> ln (cs @ [c]) = None)"
  by (auto simp: linkfree_def le_Suc_eq)

lemma linkfree_butlast: "linkfree ln cs \<Longrightarrow> linkfree ln (butlast cs)"
  by (cases cs rule: rev_cases) (simp_all add: linkfree_snoc)

lemma linkfree_Nil [simp]: "linkfree ln []"
  by (simp add: linkfree_def)

lemma resolve_linkfree:
  "linkfree ln acc \<Longrightarrow> fst (resolve ln n seen acc cs) \<Longrightarrow> linkfree ln (snd (resolve ln n seen acc cs))"
proof (induction ln n seen acc cs rule: resolve.induct)
  case (2 ln n seen acc c cs)
  show ?case
  proof (cases "c = ''..''")
    case True
    then show ?thesis using "2.IH"(1) linkfree_butlast [OF "2.prems"(1)] "2.prems"(2) by simp
  next
    case False
    show ?thesis
    proof (cases "ln (acc @ [c])")
      case None
      then have "linkfree ln (acc @ [c])" using "2.prems"(1) by (simp add: linkfree_snoc)
      then show ?thesis using "2.IH"(2) [OF False None] "2.prems"(2) False None by simp
    next
      case (Some t)
      with "2.prems"(2) False have go: "\<not> (acc @ [c] \<in> set seen \<or> n = 0)" by (auto split: if_splits)
      obtain ok q where r: "resolve ln (n - 1) ((acc @ [c]) # seen) (if startswith t [slash] then [] else acc) (components t) = (ok, q)"
        by fastforce
      have ok: "ok" using "2.prems"(2) False Some go r by (auto split: if_splits)
      have "linkfree ln (if startswith t [slash] then [] else acc)" using "2.prems"(1) by simp
      then have "linkfree ln q" using "2.IH"(3) [OF False Some go] r ok by simp
      then show ?thesis using "2.IH"(4) [OF False Some go r [symmetric] ok] "2.prems"(2) False Some go r ok by simp
    qed
  qed
qed simp

lemma resolve_id: "linkfree ln (acc @ cs) \<Longrightarrow> list_all plain cs \<Longrightarrow> resolve ln n seen acc cs = (True, acc @ cs)"
proof (induction cs arbitrary: acc)
  case (Cons c cs)
  have "ln (acc @ [c]) = None" using Cons.prems(1) by (auto simp: linkfree_def dest: spec [of _ "Suc (length acc)"])
  moreover have "resolve ln n seen (acc @ [c]) cs = (True, acc @ c # cs)" using Cons.IH [of "acc @ [c]"] Cons.prems by simp
  ultimately show ?case using Cons.prems(2) by (simp add: plain_def)
qed simp

text \<open>The nesting never exceeds the number of links, so a larger bound changes nothing.\<close>

lemma resolve_enough:
  "finite (dom ln) \<Longrightarrow> card (dom ln - set seen) \<le> n \<Longrightarrow> resolve ln (Suc n) seen acc cs = resolve ln n seen acc cs"
proof (induction ln n seen acc cs rule: resolve.induct)
  case (2 ln n seen acc c cs)
  show ?case
  proof (cases "c = ''..''")
    case True
    then show ?thesis using "2.IH"(1) "2.prems" by simp
  next
    case False
    show ?thesis
    proof (cases "ln (acc @ [c])")
      case None
      then show ?thesis using "2.IH"(2) [OF False None "2.prems"] False by simp
    next
      case (Some t)
      show ?thesis
      proof (cases "acc @ [c] \<in> set seen")
        case True
        then show ?thesis using False Some by simp
      next
        case new: False
        let ?p = "acc @ [c]"
        have m: "?p \<in> dom ln - set seen" using Some new by auto
        have "card (dom ln - set (?p # seen)) = card (dom ln - set seen) - 1" "0 < card (dom ln - set seen)"
          using m "2.prems"(1) card_gt_0_iff by (auto simp: Diff_insert [of "dom ln" ?p])
        then have n: "0 < n" "card (dom ln - set (?p # seen)) \<le> n - 1" using "2.prems"(2) by simp_all
        then have go: "\<not> (?p \<in> set seen \<or> n = 0)" using new by simp
        obtain ok q where r: "resolve ln (n - 1) (?p # seen) (if startswith t [slash] then [] else acc) (components t) = (ok, q)"
          by fastforce
        have "resolve ln n (?p # seen) (if startswith t [slash] then [] else acc) (components t) = (ok, q)"
          using "2.IH"(3) [OF False Some go "2.prems"(1) n(2)] n(1) r by simp
        then show ?thesis
          using "2.IH"(4) [OF False Some go r [symmetric] _ "2.prems"] False Some go r by simp
      qed
    qed
  qed
qed simp

lemma realpath_plain: "list_all plain cwd \<Longrightarrow> list_all plain (snd (realpath ln n cwd p))"
  by (simp add: realpath_def resolve_plain components_proper)

lemma startswith_path: "startswith (path_str cs) [slash]"
  by (simp add: path_str_def startswith_def)

lemma path_str_root: "list_all plain cs \<Longrightarrow> (path_str cs = [slash]) = (cs = [])"
  by (cases cs; cases "tl cs") (auto simp: path_str_def plain_def proper_def)

lemma path_str_inj: "list_all plain a \<Longrightarrow> list_all plain b \<Longrightarrow> path_str a = path_str b \<Longrightarrow> a = b"
  by (metis components_path_str plain_proper)

lemma path_str_prefix:
  assumes "list_all plain a" "list_all plain b" "startswith (path_str b) (path_str a @ [slash])"
  obtains r where "b = a @ r"
proof -
  obtain r where "path_str b = path_str a @ slash # r" using assms(3) by (auto simp: startswith_iff)
  then have "components (path_str b) = components (path_str a) @ components r" by (simp add: components_append)
  then have "b = a @ components r" using assms(1,2) by (simp add: plain_proper)
  then show ?thesis by (rule that)
qed

lemma path_str_append: "a \<noteq> [] \<Longrightarrow> r \<noteq> [] \<Longrightarrow> path_str (a @ r) = path_str a @ [slash] @ join_with [slash] r"
proof (induction a rule: list_nonempty_induct)
  case (single c)
  then show ?case by (cases r) (simp_all add: path_str_def)
next
  case (cons c cs)
  then show ?case by (cases cs) (simp_all add: path_str_def)
qed

text \<open>The path \<open>os.path.join\<close> builds from the resolved base.\<close>

definition joined :: "string list \<Rightarrow> string \<Rightarrow> string" where
  "joined base rel = path_str base @ (if base = [] then [] else [slash]) @ lstrip_char slash rel"

lemma safe_path_join_eq:
  assumes "list_all plain cwd" "base = snd (realpath ln n cwd base_dir)" "cand = snd (realpath ln n cwd (joined base rel))"
  shows "safe_path_join ln n cwd base_dir rel =
    (if path_str cand = path_str base \<or> startswith (path_str cand) (path_str base @ [slash]) then Inr (path_str cand)
     else Inl (HTTPException 400 ''Invalid path''))"
  using realpath_plain [OF assms(1), of ln n base_dir]
  by (simp add: safe_path_join_def Let_def joined_def assms(2,3) path_str_root)

lemma inside_iff:
  assumes "list_all plain base" "list_all plain cand"
    "path_str cand = path_str base \<or> startswith (path_str cand) (path_str base @ [slash])"
  obtains r where "cand = base @ r"
  using assms(3)
proof
  assume "path_str cand = path_str base"
  then show ?thesis using path_str_inj [OF assms(2,1)] that [of "[]"] by simp
next
  assume "startswith (path_str cand) (path_str base @ [slash])"
  then show ?thesis by (rule path_str_prefix [OF assms(1,2)]) (rule that)
qed

lemma realpath_joined_linkfree:
  assumes "realpath ln n cwd (joined base rel) = (True, cand)"
  shows "linkfree ln cand"
proof -
  have "startswith (joined base rel) [slash]" by (simp add: joined_def path_str_def startswith_def)
  then show ?thesis using resolve_linkfree [of ln "[]" n "[]" "components (joined base rel)"] assms by (simp add: realpath_def)
qed

section \<open>Properties\<close>

text \<open>Property C25. A path that \<open>safe_path_join\<close> returns is textually inside the resolved base directory: it is the base
  followed by plain components, none of them \<open>..\<close>; any other path is refused with status 400. When \<open>realpath\<close> could follow
  every link on the way, no part of the returned path is a symbolic link either, so opening it cannot leave the directory. Where it
  gives up at a link cycle the returned path may still hold links (\<open>safe_path_join_cycle\<close>).\<close>

theorem safe_path_join_inside:
  fixes ln :: links and n :: nat and cwd :: "string list" and base_dir rel :: string
  assumes "list_all plain cwd"
  defines "base \<equiv> snd (realpath ln n cwd base_dir)"
  shows "case safe_path_join ln n cwd base_dir rel of
      Inl e \<Rightarrow> e = HTTPException 400 ''Invalid path''
    | Inr p \<Rightarrow> \<exists>rest. p = path_str (base @ rest) \<and> list_all plain (base @ rest) \<and>
        (fst (realpath ln n cwd (joined base rel)) \<longrightarrow> linkfree ln (base @ rest))"
proof -
  define cand where "cand = snd (realpath ln n cwd (joined base rel))"
  have pl: "list_all plain base" "list_all plain cand"
    unfolding base_def cand_def by (simp_all add: realpath_plain [OF assms(1)])
  have free: "linkfree ln cand" if "fst (realpath ln n cwd (joined base rel))"
    using that realpath_joined_linkfree [of ln n cwd base rel cand] by (simp add: cand_def prod_eq_iff)
  show ?thesis
  proof (cases "path_str cand = path_str base \<or> startswith (path_str cand) (path_str base @ [slash])")
    case True
    obtain r where r: "cand = base @ r" by (rule inside_iff [OF pl True])
    have "safe_path_join ln n cwd base_dir rel = Inr (path_str cand)"
      using True by (simp add: safe_path_join_eq [OF assms(1) base_def [THEN meta_eq_to_obj_eq] cand_def])
    then show ?thesis using pl(2) free by (auto simp: r)
  next
    case False
    then show ?thesis by (simp add: safe_path_join_eq [OF assms(1) base_def [THEN meta_eq_to_obj_eq] cand_def])
  qed
qed

text \<open>The link \<open>/data/out\<close> leads out of the directory; the file \<open>/data/a\<close> does not.\<close>

definition demo_links :: links where
  "demo_links p = (if p = [''data'', ''out''] then Some ''/etc'' else None)"

theorem safe_path_join_inside_witness:
  "safe_path_join demo_links 40 [''srv''] ''/data'' ''x/../a'' = Inr ''/data/a'' \<and>
   safe_path_join demo_links 40 [''srv''] ''/data'' ''out/passwd'' = Inl (HTTPException 400 ''Invalid path'') \<and>
   (\<exists>rest. ''/data/a'' = path_str ([''data''] @ rest) \<and> list_all plain ([''data''] @ rest) \<and> linkfree demo_links ([''data''] @ rest))"
proof -
  have b: "realpath demo_links 40 [''srv''] ''/data'' = (True, [''data''])" by code_simp
  have j: "fst (realpath demo_links 40 [''srv''] (joined [''data''] ''x/../a''))" by code_simp
  have p: "safe_path_join demo_links 40 [''srv''] ''/data'' ''x/../a'' = Inr ''/data/a''" by code_simp
  have q: "safe_path_join demo_links 40 [''srv''] ''/data'' ''out/passwd'' = Inl (HTTPException 400 ''Invalid path'')" by code_simp
  have c: "list_all plain [''srv'']" by code_simp
  show ?thesis using safe_path_join_inside [where ln = demo_links and n = 40 and base_dir = "''/data''" and rel = "''x/../a''", OF c] b j p q
    by simp
qed

text \<open>Where a cyclic link exists, a path through it hides the links after it from the check: the returned path is a link
  out of the directory, which the direct path to it is refused for.\<close>

definition cycle_links :: links where
  "cycle_links p = (if p = [''data'', ''loop''] then Some ''loop'' else if p = [''data'', ''out''] then Some ''/etc'' else None)"

lemma safe_path_join_cycle:
  "safe_path_join cycle_links 40 [''srv''] ''/data'' ''loop/../out/passwd'' = Inr ''/data/out/passwd'' \<and>
   safe_path_join cycle_links 40 [''srv''] ''/data'' ''out/passwd'' = Inl (HTTPException 400 ''Invalid path'') \<and>
   \<not> linkfree cycle_links [''data'', ''out'', ''passwd'']"
proof (intro conjI)
  show "safe_path_join cycle_links 40 [''srv''] ''/data'' ''loop/../out/passwd'' = Inr ''/data/out/passwd''" by code_simp
  show "safe_path_join cycle_links 40 [''srv''] ''/data'' ''out/passwd'' = Inl (HTTPException 400 ''Invalid path'')" by code_simp
  show "\<not> linkfree cycle_links [''data'', ''out'', ''passwd'']"
    by (auto simp: linkfree_def cycle_links_def intro!: exI [of _ 2])
qed

text \<open>A relative path of plain components under a directory with no links is accepted and joined as it stands.\<close>

lemma safe_path_join_complete:
  assumes "list_all plain cwd" "base \<noteq> []" "list_all plain (base @ rest)" "linkfree ln (base @ rest)" "linkfree ln base"
  shows "safe_path_join ln n cwd (path_str base) (join_with [slash] rest) = Inr (path_str (base @ rest))"
proof -
  have b: "realpath ln n cwd (path_str base) = (True, base)"
    using resolve_id [of ln "[]" base n "[]"] assms(3,5) by (simp add: realpath_def startswith_path plain_proper)
  have l: "lstrip_char slash (join_with [slash] rest) = join_with [slash] rest"
    using assms(3) by (cases rest; cases "tl rest"; cases "hd rest") (auto simp: plain_def proper_def lstrip_char_def lstrip_by_def)
  have j: "joined base (join_with [slash] rest) = path_str base @ slash # join_with [slash] rest"
    using assms(2) by (simp add: joined_def l)
  have "components (path_str rest) = rest" using assms(3) by (simp add: plain_proper)
  then have "components (join_with [slash] rest) = rest"
    using components_append [of "[]" "join_with [slash] rest"] by (simp add: path_str_def)
  then have "components (joined base (join_with [slash] rest)) = base @ rest"
    using assms(3) by (simp add: j components_append plain_proper)
  then have "realpath ln n cwd (joined base (join_with [slash] rest)) = (True, base @ rest)"
    using resolve_id [of ln "[]" "base @ rest" n "[]"] assms(3,4) by (simp add: realpath_def j path_str_def startswith_def)
  then show ?thesis using assms(2)
    by (simp add: safe_path_join_eq [OF assms(1) refl refl] b startswith_iff path_str_append) 
       (cases "rest = []"; simp add: path_str_append)
qed

lemma basename_no_slash: "slash \<notin> set (basename p)"
  using split_on_sep [of "basename p" slash p] by (simp add: basename_def)

lemma safe_segment_plain:
  assumes "safe_segment v field = Inr s"
  shows "plain s \<and> list_all segment_char s \<and> s = basename v"
proof -
  have s: "s = basename v" "s \<noteq> []" "alnum (hd s)" "list_all segment_char s"
    using assms by (auto simp: safe_segment_def Let_def split: if_splits)
  have "\<not> alnum (CHR ''.'')" by code_simp
  then have "s \<noteq> ''.''" "s \<noteq> ''..''" using s(3) by auto
  then show ?thesis using s basename_no_slash [of v] by (simp add: plain_def proper_def)
qed

end
