(* ===== verification/Upload.thy ===== *)
theory Upload
  imports PathSafe Json
begin

text \<open>
  The chunked upload of \<open>app/admin/router.py\<close> (\<open>api_upload_chunk\<close>, \<open>_reassemble_upload\<close>): a file too large for the application
  firewall arrives in pieces, in any order, and is put together again. Directories are flat maps from file names to contents, found under their
  resolved paths.
\<close>

section \<open>Operations\<close>

type_synonym chunk_store = "string list \<Rightarrow> bytes dict option"

record disk =
  disk_links :: links
  disk_limit :: nat
  disk_cwd :: "string list"
  chunk_dir :: string

definition CHUNK_MAX_SIZE :: int where "CHUNK_MAX_SIZE = 768 * 1024"

definition meta_name :: string where "meta_name = ''_meta.json''"

text \<open>\<open>f"{i:06d}"\<close>\<close>

definition pad6 :: "int \<Rightarrow> string" where
  "pad6 i = (if i < 0 then CHR ''-'' # replicate (5 - length (str_of_nat (nat (- i)))) (CHR ''0'') @ str_of_nat (nat (- i))
     else replicate (6 - length (str_of_nat (nat i))) (CHR ''0'') @ str_of_nat (nat i))"

record chunk_form =
  cf_upload_id :: string
  cf_chunk_index :: int
  cf_total_chunks :: int
  cf_filename :: string
  cf_chunk :: bytes

definition chunk_names :: "bytes dict \<Rightarrow> string list" where
  "chunk_names d = filter (\<lambda>n. n \<noteq> meta_name) (map fst d)"

definition chunk_meta :: "string \<Rightarrow> int \<Rightarrow> string \<Rightarrow> bytes" where
  "chunk_meta fname n uid = dumps (JObj [(''filename'', JStr fname), (''total_chunks'', JInt n), (''upload_id'', JStr uid)])"

definition api_upload_chunk :: "disk \<Rightarrow> string \<Rightarrow> chunk_form \<Rightarrow> chunk_store \<Rightarrow> json result \<times> chunk_store" where
  "api_upload_chunk dk fresh f st =
     (let uid0 = (if cf_upload_id f = [] then take 16 fresh else cf_upload_id f)
      in case bind_result (safe_segment uid0 ''upload_id'') (\<lambda>uid.
           bind_result (safe_path_join (disk_links dk) (disk_limit dk) (disk_cwd dk) (chunk_dir dk) uid) (\<lambda>dir. Inr (uid, components dir))) of
        Inl e \<Rightarrow> (Inl e, st)
      | Inr (uid, dir) \<Rightarrow>
          let old = (case st dir of Some d \<Rightarrow> d | None \<Rightarrow> []); size = int (length (cf_chunk f))
          in if size > CHUNK_MAX_SIZE
             then (Inl (HTTPException 413 (''Chunk too large ('' @ str_of_int size @ '' > '' @ str_of_int CHUNK_MAX_SIZE @ '')'')), st(dir \<mapsto> old))
             else
               let d = dset meta_name (chunk_meta (cf_filename f) (cf_total_chunks f) uid) (dset (pad6 (cf_chunk_index f)) (cf_chunk f) old);
                   received = int (length (chunk_names d))
               in (Inr (JObj [(''upload_id'', JStr uid), (''chunk_index'', JInt (cf_chunk_index f)), (''received'', JInt received),
                     (''total_chunks'', JInt (cf_total_chunks f)), (''complete'', JBool (received \<ge> cf_total_chunks f))]), st(dir \<mapsto> d)))"

text \<open>\<open>os.path.join(_CHUNK_DIR, upload_id)\<close>: an absolute second argument replaces the first.\<close>

definition os_join :: "string \<Rightarrow> string \<Rightarrow> string" where
  "os_join a b = (if startswith b [slash] then b else if a = [] \<or> last a = slash then a @ b else a @ slash # b)"

definition reassemble_upload :: "disk \<Rightarrow> string \<Rightarrow> chunk_store \<Rightarrow> (bytes \<times> json) option result \<times> chunk_store" where
  "reassemble_upload dk uid st =
     (let dir = snd (realpath (disk_links dk) (disk_limit dk) (disk_cwd dk) (os_join (chunk_dir dk) uid))
      in case st dir of
           None \<Rightarrow> (Inr None, st)
         | Some d \<Rightarrow>
             (case dget d meta_name of
                None \<Rightarrow> (Inr None, st)
              | Some m \<Rightarrow>
                  (case loads m of
                     None \<Rightarrow> (Inl (ValueError ''Expecting value''), st)
                   | Some meta \<Rightarrow>
                       let names = sort (chunk_names d)
                       in case bind_result (py_get meta ''total_chunks'' (JInt 1)) (\<lambda>n. case num_of n of
                              None \<Rightarrow> Inl TypeError
                            | Some x \<Rightarrow> Inr (num_less (Fin (of_int (int (length names)))) x)) of
                            Inl e \<Rightarrow> (Inl e, st)
                          | Inr True \<Rightarrow> (Inr None, st)
                          | Inr False \<Rightarrow>
                              (bind_result (py_get meta ''filename'' (JStr ''upload.bin'')) (\<lambda>fname.
                                 Inr (Some (concat (map (\<lambda>n. case dget d n of Some b \<Rightarrow> b | None \<Rightarrow> []) names), fname))), st(dir := None)))))"

section \<open>Names of the chunks\<close>

lemma read_digits_replicate [simp]: "read_digits 0 (replicate k (CHR ''0'')) = 0"
  by (induction k) (simp_all add: digit_val_def)

lemma pad6_read: "read_digits 0 (pad6 (int i)) = i"
  by (simp add: pad6_def str_of_nat_def)

lemma length_nat_digits: "n < 10 ^ Suc k \<Longrightarrow> length (nat_digits n) \<le> Suc k"
proof (induction k arbitrary: n)
  case 0
  then show ?case by (simp add: nat_digits.simps)
next
  case (Suc k)
  have "n div 10 < 10 ^ Suc k" using Suc.prems by (simp add: div_less_iff_less_mult)
  then show ?case using Suc.IH by (subst nat_digits.simps) simp
qed

lemma length_pad6: "i < 1000000 \<Longrightarrow> length (pad6 (int i)) = 6"
  using length_nat_digits [of i 5] by (simp add: pad6_def str_of_nat_def)

lemma pad6_digits: "list_all is_digit (pad6 (int i))"
  using nat_digits_digits [of i] is_digit_digit_char [of 0] by (auto simp: pad6_def str_of_nat_def list_all_iff is_digit_def)

lemma pad6_inj: "pad6 (int i) = pad6 (int j) \<Longrightarrow> i = j"
  by (metis pad6_read)

lemma pad6_not_meta: "pad6 (int i) \<noteq> meta_name"
proof
  assume "pad6 (int i) = meta_name"
  then have "list_all is_digit meta_name" using pad6_digits [of i] by simp
  then show False by (simp add: meta_name_def is_digit_def)
qed

text \<open>For digit strings of one length the order of strings is the order of numbers.\<close>

lemma read_digits_acc: "read_digits acc s = acc * 10 ^ length s + read_digits 0 s"
proof (induction s arbitrary: acc)
  case (Cons c s)
  show ?case using Cons [of "10 * acc + digit_val c"] Cons [of "digit_val c"] by (simp add: algebra_simps)
qed simp

lemma read_digits_bound: "list_all is_digit s \<Longrightarrow> read_digits 0 s < 10 ^ length s"
proof (induction s)
  case (Cons c s)
  have "digit_val c \<le> 9" using Cons.prems by (auto simp: is_digit_def digit_val_def Let_def)
  then have "digit_val c * 10 ^ length s \<le> 9 * 10 ^ length s" by (rule mult_right_mono) simp
  moreover have "read_digits 0 s < 10 ^ length s" using Cons by simp
  moreover have "read_digits 0 (c # s) = digit_val c * 10 ^ length s + read_digits 0 s" using read_digits_acc [of "digit_val c" s] by simp
  moreover have "(10 :: nat) ^ length (c # s) = 9 * 10 ^ length s + 10 ^ length s" by simp
  ultimately show ?case by linarith
qed simp

lemma digits_order:
  "length a = length b \<Longrightarrow> list_all is_digit a \<Longrightarrow> list_all is_digit b \<Longrightarrow> a < b \<Longrightarrow> read_digits 0 a < read_digits 0 b"
proof (induction a b rule: list_induct2)
  case (Cons c a d b)
  have r: "read_digits 0 (c # a) = digit_val c * 10 ^ length a + read_digits 0 a"
    "read_digits 0 (d # b) = digit_val d * 10 ^ length a + read_digits 0 b"
    using read_digits_acc [of "digit_val c" a] read_digits_acc [of "digit_val d" b] Cons.hyps by simp_all
  show ?case
  proof (cases "c = d")
    case True
    then show ?thesis using Cons unfolding r by simp
  next
    case False
    then have "c < d" using Cons.prems(3) by simp
    then have "digit_val c < digit_val d" using Cons.prems(1,2) by (auto simp: less_char_def digit_val_def is_digit_def Let_def)
    then have "Suc (digit_val c) * 10 ^ length a \<le> digit_val d * 10 ^ length a" by (intro mult_right_mono) simp_all
    then show ?thesis using read_digits_bound [of a] Cons.prems(1) unfolding r by simp
  qed
qed simp

lemma pad6_mono: "i < j \<Longrightarrow> j < 1000000 \<Longrightarrow> pad6 (int i) < pad6 (int j)"
proof (rule ccontr)
  assume ij: "i < j" "j < 1000000" and "\<not> pad6 (int i) < pad6 (int j)"
  moreover have "pad6 (int i) \<noteq> pad6 (int j)" using ij pad6_inj [of i j] by auto
  ultimately have "pad6 (int j) < pad6 (int i)" by simp
  then have "j < i" using digits_order [OF _ pad6_digits pad6_digits] length_pad6 [of i] length_pad6 [of j] ij by (simp add: pad6_read)
  then show False using ij by simp
qed

lemma sort_chunk_names:
  assumes "distinct xs" "set xs = (\<lambda>i. pad6 (int i)) ` {..<n}" "n \<le> 1000000"
  shows "sort xs = map (\<lambda>i. pad6 (int i)) [0..<n]"
proof (rule sorted_distinct_set_unique)
  show "sorted (map (\<lambda>i. pad6 (int i)) [0..<n])"
    using assms(3) by (auto simp: sorted_wrt_iff_nth_less sorted_iff_nth_mono_less intro!: less_imp_le pad6_mono)
  show "distinct (map (\<lambda>i. pad6 (int i)) [0..<n])" by (auto simp: distinct_map inj_on_def dest: pad6_inj)
qed (use assms in \<open>auto simp: atLeast0LessThan\<close>)

section \<open>Uploads\<close>

text \<open>The pieces \<open>is\<close> of a file, in the order they arrive.\<close>

definition piece :: "string \<Rightarrow> string \<Rightarrow> bytes list \<Rightarrow> nat \<Rightarrow> chunk_form" where
  "piece uid fname parts i = \<lparr>cf_upload_id = uid, cf_chunk_index = int i, cf_total_chunks = int (length parts), cf_filename = fname,
     cf_chunk = parts ! i\<rparr>"

definition upload_pieces :: "disk \<Rightarrow> string \<Rightarrow> string \<Rightarrow> bytes list \<Rightarrow> nat list \<Rightarrow> chunk_store \<Rightarrow> chunk_store" where
  "upload_pieces dk uid fname parts js st = fold (\<lambda>i st. snd (api_upload_chunk dk [] (piece uid fname parts i) st)) js st"

text \<open>A chunk directory without links and an identifier that names a place in it.\<close>

definition good_dir :: "disk \<Rightarrow> string list \<Rightarrow> string \<Rightarrow> bool" where
  "good_dir dk base uid =
     (list_all plain (disk_cwd dk) \<and> base \<noteq> [] \<and> chunk_dir dk = path_str base \<and> list_all plain (base @ [uid]) \<and>
      linkfree (disk_links dk) (base @ [uid]) \<and> safe_segment uid ''upload_id'' = Inr uid)"

definition small_parts :: "bytes list \<Rightarrow> bool" where
  "small_parts parts = (0 < length parts \<and> length parts \<le> 1000000 \<and> (\<forall>b \<in> set parts. int (length b) \<le> CHUNK_MAX_SIZE))"

lemma good_dir_join:
  assumes "good_dir dk base uid"
  shows "safe_path_join (disk_links dk) (disk_limit dk) (disk_cwd dk) (chunk_dir dk) uid = Inr (path_str (base @ [uid]))"
  using safe_path_join_complete [of "disk_cwd dk" base "[uid]" "disk_links dk" "disk_limit dk"] assms
  by (simp add: good_dir_def linkfree_snoc)

lemma components_chunk: "good_dir dk base uid \<Longrightarrow> components (path_str (base @ [uid])) = base @ [uid]"
  by (rule components_path_str [OF plain_proper]) (simp add: good_dir_def)

lemma last_path_str: "base \<noteq> [] \<Longrightarrow> list_all plain base \<Longrightarrow> last (path_str base) \<noteq> slash"
proof -
  assume b: "base \<noteq> []" "list_all plain base"
  then obtain xs x where x: "base = xs @ [x]" by (meson rev_exhaust)
  have p: "x \<noteq> []" "slash \<notin> set x" using b(2) x by (auto simp: plain_def proper_def)
  have "last (path_str base) = last x" using p(1) by (cases "xs = []") (simp_all add: x path_str_append, simp add: path_str_def)
  then show ?thesis using p by (metis last_in_set)
qed

lemma good_dir_realpath:
  assumes "good_dir dk base uid"
  shows "realpath (disk_links dk) (disk_limit dk) (disk_cwd dk) (os_join (chunk_dir dk) uid) = (True, base @ [uid])"
proof -
  have g: "base \<noteq> []" "chunk_dir dk = path_str base" "list_all plain (base @ [uid])" "linkfree (disk_links dk) (base @ [uid])"
    using assms by (simp_all add: good_dir_def)
  have "plain uid" "plain (last base)" using g by (auto simp: list_all_iff)
  then have "\<not> startswith uid [slash]" by (cases uid) (auto simp: plain_def proper_def startswith_def)
  moreover have "last (path_str base) \<noteq> slash" using last_path_str [OF g(1)] g(3) by simp
  ultimately have "os_join (chunk_dir dk) uid = path_str (base @ [uid])"
    using g(1,2) path_str_append [OF g(1), of "[uid]"] by (simp add: os_join_def) (simp add: path_str_def)
  then show ?thesis using resolve_id [OF _ g(3), of "disk_links dk" "[]"] g(4) components_chunk [OF assms]
    by (simp add: realpath_def startswith_path)
qed

lemma upload_piece:
  assumes "good_dir dk base uid" "small_parts parts" "i < length parts"
  shows "snd (api_upload_chunk dk [] (piece uid fname parts i) st) =
    st(base @ [uid] \<mapsto> dset meta_name (chunk_meta fname (int (length parts)) uid)
      (dset (pad6 (int i)) (parts ! i) (case st (base @ [uid]) of Some d \<Rightarrow> d | None \<Rightarrow> [])))"
proof -
  have "uid \<noteq> []" "safe_segment uid ''upload_id'' = Inr uid" using assms(1) by (auto simp: good_dir_def plain_def proper_def)
  moreover have "int (length (parts ! i)) \<le> CHUNK_MAX_SIZE" using assms(2,3) by (simp add: small_parts_def)
  ultimately show ?thesis
    by (simp add: api_upload_chunk_def piece_def Let_def good_dir_join [OF assms(1)] components_chunk [OF assms(1)])
qed

text \<open>What the directory holds after the pieces \<open>js\<close>.\<close>

definition holds_pieces :: "string \<Rightarrow> string \<Rightarrow> bytes list \<Rightarrow> nat set \<Rightarrow> bytes dict \<Rightarrow> bool" where
  "holds_pieces uid fname parts J d =
     (distinct (map fst d) \<and> dget d meta_name = Some (chunk_meta fname (int (length parts)) uid) \<and>
      set (chunk_names d) = (\<lambda>i. pad6 (int i)) ` J \<and> (\<forall>i \<in> J. dget d (pad6 (int i)) = Some (parts ! i)))"

lemma chunk_names_dset_meta: "set (chunk_names (dset meta_name v d)) = set (chunk_names d)"
  by (auto simp: chunk_names_def fst_dset)

lemma chunk_names_dset: "n \<noteq> meta_name \<Longrightarrow> set (chunk_names (dset n v d)) = insert n (set (chunk_names d))"
  by (auto simp: chunk_names_def fst_dset)

lemma upload_pieces_state:
  assumes "good_dir dk base uid" "small_parts parts" "set js \<subseteq> {..<length parts}" "st (base @ [uid]) = None" "js \<noteq> []"
  shows "\<exists>d. upload_pieces dk uid fname parts js st = st(base @ [uid] \<mapsto> d) \<and> holds_pieces uid fname parts (set js) d"
  using assms(3,5)
proof (induction js rule: rev_induct)
  case (snoc i js)
  have i: "i < length parts" using snoc.prems by simp
  let ?d = "\<lambda>d. dset meta_name (chunk_meta fname (int (length parts)) uid) (dset (pad6 (int i)) (parts ! i) d)"
  have step: "upload_pieces dk uid fname parts (js @ [i]) st =
      (upload_pieces dk uid fname parts js st)(base @ [uid] \<mapsto> ?d (case upload_pieces dk uid fname parts js st (base @ [uid]) of Some d \<Rightarrow> d | None \<Rightarrow> []))"
    by (simp add: upload_pieces_def upload_piece [OF assms(1,2) i])
  show ?case
  proof (cases "js = []")
    case True
    have "holds_pieces uid fname parts {i} (?d [])"
      by (auto simp: holds_pieces_def chunk_names_dset_meta chunk_names_dset pad6_not_meta pad6_not_meta [symmetric]) (simp_all add: chunk_names_def)
    moreover have "upload_pieces dk uid fname parts [i] st = st(base @ [uid] \<mapsto> ?d [])"
      using step assms(4) by (simp add: True upload_pieces_def)
    ultimately show ?thesis unfolding True by auto
  next
    case False
    then obtain d where d: "upload_pieces dk uid fname parts js st = st(base @ [uid] \<mapsto> d)" "holds_pieces uid fname parts (set js) d"
      using snoc.IH snoc.prems(1) by (metis le_sup_iff set_append)
    have "holds_pieces uid fname parts (insert i (set js)) (?d d)"
      using d(2) by (auto simp: holds_pieces_def chunk_names_dset_meta chunk_names_dset pad6_not_meta pad6_not_meta [symmetric] dest: pad6_inj)
    moreover have "upload_pieces dk uid fname parts (js @ [i]) st = st(base @ [uid] \<mapsto> ?d d)" using step d(1) by simp
    ultimately show ?thesis by auto
  qed
qed simp

lemma chunk_meta_loads: "loads (chunk_meta fname n uid) = Some (JObj [(''filename'', JStr fname), (''total_chunks'', JInt n), (''upload_id'', JStr uid)])"
  unfolding chunk_meta_def by (rule loads_dumps) simp

lemma pieces_complete:
  assumes "holds_pieces uid fname parts J d" "J \<subseteq> {..<length parts}"
  shows "length (chunk_names d) = card J"
proof -
  have "distinct (chunk_names d)" using assms(1) by (auto simp: holds_pieces_def chunk_names_def)
  then have "length (chunk_names d) = card ((\<lambda>i. pad6 (int i)) ` J)" using assms(1) by (simp add: holds_pieces_def distinct_card [symmetric])
  also have "\<dots> = card J" by (rule card_image) (auto simp: inj_on_def dest: pad6_inj)
  finally show ?thesis .
qed

lemma pieces_content:
  assumes "holds_pieces uid fname parts {..<length parts} d" "length parts \<le> 1000000"
  shows "concat (map (\<lambda>n. case dget d n of Some b \<Rightarrow> b | None \<Rightarrow> []) (sort (chunk_names d))) = concat parts"
proof -
  have "distinct (chunk_names d)" using assms(1) by (auto simp: holds_pieces_def chunk_names_def)
  then have "sort (chunk_names d) = map (\<lambda>i. pad6 (int i)) [0..<length parts]"
    using assms by (intro sort_chunk_names) (simp_all add: holds_pieces_def)
  moreover have "map (\<lambda>i. case dget d (pad6 (int i)) of Some b \<Rightarrow> b | None \<Rightarrow> []) [0..<length parts] = parts"
    using assms(1) by (intro nth_equalityI) (auto simp: holds_pieces_def)
  ultimately show ?thesis by (simp add: comp_def)
qed

section \<open>Properties\<close>

text \<open>Property C28. A file sent in pieces comes back whole: whatever the order in which the pieces arrive and however often one is sent
  again, once all of them have arrived putting them together gives the original bytes and file name and removes the directory; as long as
  one is missing the answer is that the upload is incomplete, and nothing is removed.\<close>

theorem upload_roundtrip:
  assumes "good_dir dk base uid" "small_parts parts" "set js \<subseteq> {..<length parts}" "js \<noteq> []" "st (base @ [uid]) = None"
  shows "reassemble_upload dk uid (upload_pieces dk uid fname parts js st) =
    (if set js = {..<length parts} then (Inr (Some (concat parts, JStr fname)), st)
     else (Inr None, upload_pieces dk uid fname parts js st))"
proof -
  obtain d where d: "upload_pieces dk uid fname parts js st = st(base @ [uid] \<mapsto> d)" "holds_pieces uid fname parts (set js) d"
    using upload_pieces_state [OF assms(1-3), of st] assms(4,5) by blast
  have len: "length (sort (chunk_names d)) = card (set js)" using pieces_complete [OF d(2) assms(3)] by simp
  have full: "(set js = {..<length parts}) = (card (set js) = length parts)"
    using card_subset_eq [OF finite_lessThan assms(3)] by (metis card_lessThan)
  have le: "card (set js) \<le> length parts" using card_mono [OF _ assms(3)] by simp
  have m: "dget d meta_name = Some (chunk_meta fname (int (length parts)) uid)" using d(2) by (simp add: holds_pieces_def)
  let ?m = "JObj [(''filename'', JStr fname), (''total_chunks'', JInt (int (length parts))), (''upload_id'', JStr uid)]"
  have g: "py_get ?m ''total_chunks'' (JInt 1) = Inr (JInt (int (length parts)))" "py_get ?m ''filename'' (JStr ''upload.bin'') = Inr (JStr fname)"
    by (simp_all add: py_get_def dget_def)
  have gone: "st(base @ [uid] := None) = st" using assms(5) by (metis fun_upd_triv)
  let ?c = "concat (map (\<lambda>n. case dget d n of Some b \<Rightarrow> b | None \<Rightarrow> []) (sort (chunk_names d)))"
  have run: "reassemble_upload dk uid (st(base @ [uid] \<mapsto> d)) =
      (if card (set js) < length parts then (Inr None, st(base @ [uid] \<mapsto> d)) else (Inr (Some (?c, JStr fname)), st(base @ [uid] := None)))"
    unfolding reassemble_upload_def good_dir_realpath [OF assms(1)] snd_conv Let_def fun_upd_same option.case m chunk_meta_loads len
    by (cases "card (set js) < length parts") (simp_all add: g)
  show ?thesis
  proof (cases "set js = {..<length parts}")
    case True
    have "concat (map (\<lambda>n. case dget d n of Some b \<Rightarrow> b | None \<Rightarrow> []) (sort (chunk_names d))) = concat parts"
      using pieces_content d(2) assms(2) by (simp add: True small_parts_def)
    then show ?thesis using True full gone by (simp add: run d(1))
  next
    case False
    then have "card (set js) < length parts" using full le by simp
    then show ?thesis using False by (simp add: run d(1))
  qed
qed

definition demo_disk :: disk where
  "demo_disk = \<lparr>disk_links = (\<lambda>_. None), disk_limit = 40, disk_cwd = [''srv''], chunk_dir = ''/tmp/dm-upload-chunks''\<rparr>"

theorem upload_roundtrip_witness:
  "reassemble_upload demo_disk ''ab12'' (upload_pieces demo_disk ''ab12'' ''p.oxt'' [''one'', ''two'', ''three''] [2, 0, 2, 1] (\<lambda>_. None)) =
    (Inr (Some (''onetwothree'', JStr ''p.oxt'')), \<lambda>_. None)"
proof -
  have g: "good_dir demo_disk [''tmp'', ''dm-upload-chunks''] ''ab12''"
    unfolding good_dir_def linkfree_def by (simp add: demo_disk_def) code_simp
  have p: "small_parts [''one'', ''two'', ''three'']" by (simp add: small_parts_def CHUNK_MAX_SIZE_def)
  have s: "set [2, 0, 2, 1 :: nat] = {..<length [''one'', ''two'', ''three'']}" by (auto simp: lessThan_Suc numeral_3_eq_3)
  show ?thesis using upload_roundtrip [OF g p, of "[2, 0, 2, 1]" "\<lambda>_. None" "''p.oxt''"] s by simp
qed

text \<open>The identifier is not checked when the pieces are put together: a path out of the chunk directory reads, and removes, another one.\<close>

lemma reassemble_traversal:
  assumes "st [''data''] = Some [(meta_name, dumps (JObj [])), (''secret'', b)]"
  shows "reassemble_upload demo_disk ''../../data'' st = (Inr (Some (b, JStr ''upload.bin'')), st([''data''] := None))"
proof -
  have r: "realpath (disk_links demo_disk) (disk_limit demo_disk) (disk_cwd demo_disk) (os_join (chunk_dir demo_disk) ''../../data'') = (True, [''data''])"
    by code_simp
  have l: "loads (dumps (JObj [])) = Some (JObj [])" by (rule loads_dumps) simp
  have n: "sort (chunk_names [(meta_name, dumps (JObj [])), (''secret'', b)]) = [''secret'']" by (simp add: chunk_names_def meta_name_def)
  show ?thesis unfolding reassemble_upload_def r snd_conv Let_def assms option.case
    by (simp add: dget_def l py_get_def n) (simp add: meta_name_def)
qed

end
