(* ===== verification/Suggest.thy ===== *)
theory Suggest
  imports Settings Codec
begin

text \<open>
  \<open>app/admin/suggest_utils.py\<close> and the handler \<open>POST /admin/api/catalog/suggest\<close> of \<open>app/admin/router.py\<close>: the check of a
  user-supplied address against server-side request forgery, the bounded reading of a plugin archive, the extraction of a JSON object from
  a model's answer, the white list of what a suggestion may contain, and the sliding-window rate limit. The resolver, the
  archive reader, the XML reader, the lenient UTF-8 decoder and the two HTTP calls are parameters.
\<close>

section \<open>Addresses\<close>

text \<open>\<open>ipaddress\<close> of Python 3.12, the version of the image: an address is the number \<open>_ip\<close>.\<close>

datatype ip = V4 int | V6 int

definition quad :: "int \<Rightarrow> int \<Rightarrow> int \<Rightarrow> int \<Rightarrow> int" where
  "quad a b c d = ((a * 256 + b) * 256 + c) * 256 + d"

definition hextets :: "int list \<Rightarrow> int" where
  "hextets hs = foldl (\<lambda>a h. a * 65536 + h) 0 (take 8 (hs @ replicate 8 0))"

definition net4 :: "int \<Rightarrow> int \<times> nat \<Rightarrow> bool" where
  "net4 a n = (a div 2 ^ (32 - snd n) = fst n div 2 ^ (32 - snd n))"

definition net6 :: "int \<Rightarrow> int list \<times> nat \<Rightarrow> bool" where
  "net6 a n = (a div 2 ^ (128 - snd n) = hextets (fst n) div 2 ^ (128 - snd n))"

definition private4 :: "int \<Rightarrow> bool" where
  "private4 a =
     (list_ex (net4 a) [(quad 0 0 0 0, 8), (quad 10 0 0 0, 8), (quad 127 0 0 0, 8), (quad 169 254 0 0, 16), (quad 172 16 0 0, 12),
        (quad 192 0 0 0, 24), (quad 192 0 0 170, 31), (quad 192 0 2 0, 24), (quad 192 168 0 0, 16), (quad 198 18 0 0, 15),
        (quad 198 51 100 0, 24), (quad 203 0 113 0, 24), (quad 240 0 0 0, 4), (quad 255 255 255 255, 32)] \<and>
      \<not> list_ex (net4 a) [(quad 192 0 0 9, 32), (quad 192 0 0 10, 32)])"

definition ipv4_mapped :: "int \<Rightarrow> int option" where
  "ipv4_mapped a = (if a div 2 ^ 32 = 65535 then Some (a mod 2 ^ 32) else None)"

definition private6 :: "int \<Rightarrow> bool" where
  "private6 a =
     (case ipv4_mapped a of
        Some b \<Rightarrow> private4 b
      | None \<Rightarrow>
          list_ex (net6 a) [([0, 0, 0, 0, 0, 0, 0, 1], 128), ([], 128), ([0, 0, 0, 0, 0, 65535], 96), ([100, 65435, 1], 48), ([256], 64),
            ([8193], 23), ([8193, 3512], 32), ([8194], 16), ([64512], 7), ([65152], 10)] \<and>
          \<not> list_ex (net6 a) [([8193, 1, 0, 0, 0, 0, 0, 1], 128), ([8193, 1, 0, 0, 0, 0, 0, 2], 128), ([8193, 3], 32),
            ([8193, 4, 274], 48), ([8193, 32], 28), ([8193, 48], 28)])"

definition reserved6 :: "int \<Rightarrow> bool" where
  "reserved6 a = list_ex (net6 a) [([0], 8), ([256], 8), ([512], 7), ([1024], 6), ([2048], 5), ([4096], 4), ([16384], 3), ([24576], 3),
     ([32768], 3), ([40960], 3), ([49152], 3), ([57344], 4), ([61440], 5), ([63488], 6), ([65024], 9)]"

fun is_private :: "ip \<Rightarrow> bool" where
  "is_private (V4 a) = private4 a"
| "is_private (V6 a) = private6 a"

fun is_loopback :: "ip \<Rightarrow> bool" where
  "is_loopback (V4 a) = net4 a (quad 127 0 0 0, 8)"
| "is_loopback (V6 a) = (a = 1)"

fun is_link_local :: "ip \<Rightarrow> bool" where
  "is_link_local (V4 a) = net4 a (quad 169 254 0 0, 16)"
| "is_link_local (V6 a) = net6 a ([65152], 10)"

fun is_multicast :: "ip \<Rightarrow> bool" where
  "is_multicast (V4 a) = net4 a (quad 224 0 0 0, 4)"
| "is_multicast (V6 a) = net6 a ([65280], 8)"

fun is_reserved :: "ip \<Rightarrow> bool" where
  "is_reserved (V4 a) = net4 a (quad 240 0 0 0, 4)"
| "is_reserved (V6 a) = reserved6 a"

fun is_unspecified :: "ip \<Rightarrow> bool" where
  "is_unspecified (V4 a) = (a = 0)"
| "is_unspecified (V6 a) = (a = 0)"

definition internal :: "ip \<Rightarrow> bool" where
  "internal p = (is_private p \<or> is_loopback p \<or> is_link_local p \<or> is_multicast p \<or> is_reserved p \<or> is_unspecified p)"

section \<open>Uniform resource locators\<close>

text \<open>\<open>str.partition\<close> and \<open>str.rpartition\<close> on one character.\<close>

definition partition_char :: "char \<Rightarrow> string \<Rightarrow> string \<times> bool \<times> string" where
  "partition_char c s = (case split_once c s of None \<Rightarrow> (s, False, []) | Some (a, b) \<Rightarrow> (a, True, b))"

definition after_last :: "char \<Rightarrow> string \<Rightarrow> string" where
  "after_last c s = last (split_on c s)"

definition ascii_alpha :: "char \<Rightarrow> bool" where
  "ascii_alpha c = (let n = (of_char c :: nat) in 65 \<le> n \<and> n \<le> 90 \<or> 97 \<le> n \<and> n \<le> 122)"

definition url_scheme_char :: "char \<Rightarrow> bool" where
  "url_scheme_char c = (ascii_alpha c \<or> is_digit c \<or> c \<in> {CHR ''+'', CHR ''-'', CHR ''.''})"

record url_parts =
  u_scheme :: string
  u_netloc :: string

text \<open>\<open>urlsplit\<close>: the two components the code reads. Whether a bracketed host is an address literal is a parameter.\<close>

definition urlsplit :: "(string \<Rightarrow> bool) \<Rightarrow> string \<Rightarrow> url_parts result" where
  "urlsplit literal url0 =
     (let url = filter (\<lambda>c. (of_char c :: nat) \<notin> {9, 10, 13}) (lstrip_by (\<lambda>c. (of_char c :: nat) \<le> 32) url0);
          (scheme, rest) = (case split_once (CHR '':'') url of
            Some (a, b) \<Rightarrow> if a \<noteq> [] \<and> ascii_alpha (hd a) \<and> list_all url_scheme_char a then (lower a, b) else ([], url)
          | None \<Rightarrow> ([], url));
          netloc = (if startswith rest ''//'' then takeWhile (\<lambda>c. c \<notin> {CHR ''/'', CHR ''?'', CHR ''#''}) (drop 2 rest) else []);
          opens = CHR ''['' \<in> set netloc; closes = CHR '']'' \<in> set netloc;
          hostinfo = after_last (CHR ''@'') netloc;
          (before, br, bracketed) = partition_char (CHR ''['') hostinfo;
          (host, _, port) = (if br then partition_char (CHR '']'') bracketed else partition_char (CHR '':'') hostinfo)
      in if opens \<noteq> closes then Inl (ValueError ''Invalid IPv6 URL'')
         else if opens \<and> (br \<and> (before \<noteq> [] \<or> port \<noteq> [] \<and> hd port \<noteq> CHR '':'') \<or> \<not> literal host)
         then Inl (ValueError ''Invalid IPv6 URL'')
         else Inr \<lparr>u_scheme = scheme, u_netloc = netloc\<rparr>)"

definition hostinfo :: "string \<Rightarrow> string \<times> string" where
  "hostinfo netloc =
     (let hi = after_last (CHR ''@'') netloc; (_, br, bracketed) = partition_char (CHR ''['') hi
      in if br then let (host, _, p) = partition_char (CHR '']'') bracketed; (_, _, port) = partition_char (CHR '':'') p in (host, port)
         else let (host, _, port) = partition_char (CHR '':'') hi in (host, port))"

definition url_hostname :: "url_parts \<Rightarrow> string" where
  "url_hostname u =
     (let (h, pc, zone) = partition_char (CHR ''%'') (fst (hostinfo (u_netloc u))) in lower h @ (if pc then ''%'' else []) @ zone)"

definition url_port :: "url_parts \<Rightarrow> int option result" where
  "url_port u =
     (let p = snd (hostinfo (u_netloc u))
      in if p = [] then Inr None
         else if list_all is_digit p then
           (if int (read_digits 0 p) \<le> 65535 then Inr (Some (int (read_digits 0 p))) else Inl (ValueError ''Port out of range 0-65535''))
         else Inl (ValueError (''Port could not be cast to integer value as '' @ repr_str p)))"

definition e_acute :: string where "e_acute = [CHR 0xE9]"
definition o_circ :: string where "o_circ = [CHR 0xF4]"

record netenv =
  getaddrinfo :: "string \<Rightarrow> int \<Rightarrow> ip list result"
  ip_literal :: "string \<Rightarrow> bool"

definition validate_public_url :: "netenv \<Rightarrow> string \<Rightarrow> string result" where
  "validate_public_url net url =
     (let raw = strip url
      in bind_result (urlsplit (ip_literal net) raw) (\<lambda>parsed.
         if u_scheme parsed \<noteq> ''http'' \<and> u_scheme parsed \<noteq> ''https''
         then Inl (HTTPException 400 (''URL invalide : seules les URL http(s) sont autoris'' @ e_acute @ ''es''))
         else if url_hostname parsed = [] then Inl (HTTPException 400 (''URL invalide : h'' @ o_circ @ ''te manquant''))
         else bind_result (url_port parsed) (\<lambda>p.
           let port = (case p of Some n \<Rightarrow> if n \<noteq> 0 then n else if u_scheme parsed = ''https'' then 443 else 80
                       | None \<Rightarrow> if u_scheme parsed = ''https'' then 443 else 80)
           in case getaddrinfo net (url_hostname parsed) port of
                Inl (OSError m) \<Rightarrow> Inl (HTTPException 400 (''URL invalide : h'' @ o_circ @ ''te non r'' @ e_acute @ ''solvable''))
              | Inl e \<Rightarrow> Inl e
              | Inr infos \<Rightarrow>
                  if list_ex internal infos then Inl (HTTPException 400 (''URL non autoris'' @ e_acute @ ''e (cible interne/priv'' @ e_acute @ ''e)''))
                  else Inr raw)))"

section \<open>Archives\<close>

definition MAX_UPLOAD_BYTES :: nat where "MAX_UPLOAD_BYTES = 25 * 1024 * 1024"
definition MAX_DECOMPRESSED_BYTES :: nat where "MAX_DECOMPRESSED_BYTES = 50 * 1024 * 1024"
definition MAX_FILE_BYTES :: nat where "MAX_FILE_BYTES = 5 * 1024 * 1024"

definition INTERESTING_FILES :: "string list" where
  "INTERESTING_FILES = [''manifest.json'', ''description.xml'', ''package.json'', ''readme.md'', ''readme.txt'', ''readme'', ''readme.rst'',
     ''notice-utilisateur.md'', ''notice-utilisateur.txt'', ''notice_utilisateur.md'', ''notice_utilisateur.txt'',
     ''changelog.md'', ''changelog.txt'', ''changes.md'', ''history.md'', ''dm-config.json'', ''dm_config.json'',
     ''dm-manifest.json'', ''dm_manifest.json'']"

definition ICON_BASENAMES :: "string list" where
  "ICON_BASENAMES = [''logo.png'', ''icon128.png'', ''icon48.png'']"

text \<open>An entry of the archive: its name, the size its header declares and what reading it gives; \<open>BadZip\<close> is the one
  exception the parser catches.\<close>

datatype zip_error = BadZip | OtherZip py_error

record zip_entry =
  z_name :: string
  z_size :: nat
  z_data :: "zip_error + bytes"

record zipenv =
  unzip :: "bytes \<Rightarrow> zip_error + zip_entry list"
  decode_replace :: "bytes \<Rightarrow> string"
  oxt_attrs :: "string \<Rightarrow> (string option \<times> string option) option"

record plugin_info =
  extracted :: "string list"
  dm_manifest :: "json option"
  has_readme :: bool
  has_manifest :: bool
  has_config_template :: bool
  config_template :: "json option"
  oxt_version :: string
  oxt_identifier :: string
  icon_data :: "bytes option"
  icon_filename :: "string option"

definition no_plugin :: plugin_info where
  "no_plugin = \<lparr>extracted = [], dm_manifest = None, has_readme = False, has_manifest = False, has_config_template = False,
     config_template = None, oxt_version = [], oxt_identifier = [], icon_data = None, icon_filename = None\<rparr>"

text \<open>\<open>getinfo\<close> finds the last entry with the name.\<close>

definition getinfo :: "zip_entry list \<Rightarrow> string \<Rightarrow> zip_entry option" where
  "getinfo zs n = find (\<lambda>z. z_name z = n) (rev zs)"

definition read_zip_member :: "zip_entry list \<Rightarrow> string \<Rightarrow> zip_error + bytes" where
  "read_zip_member zs n =
     (case getinfo zs n of
        None \<Rightarrow> Inl (OtherZip (KeyError n))
      | Some z \<Rightarrow>
          if z_size z > MAX_FILE_BYTES then Inl (OtherZip (HTTPException 413 ''Fichier du plugin trop volumineux''))
          else map_sum id (take MAX_FILE_BYTES) (z_data z))"

definition base_of :: "string \<Rightarrow> string" where
  "base_of n = lower (after_last (CHR ''/'') n)"

definition extract_line :: "string \<Rightarrow> string \<Rightarrow> string" where
  "extract_line n raw = ''--- '' @ n @ '' ---'' @ [CHR 0x0A] @ take 8000 raw"

definition text_member :: "zipenv \<Rightarrow> string \<Rightarrow> string \<Rightarrow> plugin_info \<Rightarrow> plugin_info" where
  "text_member ze n raw out =
     (let b = base_of n
      in if b = ''dm-config.json'' \<or> b = ''dm_config.json'' then
           (case loads raw of Some j \<Rightarrow> out\<lparr>config_template := Some j, has_config_template := True\<rparr> | None \<Rightarrow> out)
         else if b = ''dm-manifest.json'' \<or> b = ''dm_manifest.json'' then
           (case loads raw of Some j \<Rightarrow> out\<lparr>dm_manifest := Some j, has_manifest := True\<rparr> | None \<Rightarrow> out)
         else if b = ''description.xml'' then
           (let out1 = (case oxt_attrs ze raw of
                None \<Rightarrow> out
              | Some (v, i) \<Rightarrow> out\<lparr>oxt_version := (case v of Some x \<Rightarrow> x | None \<Rightarrow> oxt_version out),
                               oxt_identifier := (case i of Some x \<Rightarrow> x | None \<Rightarrow> oxt_identifier out)\<rparr>)
            in out1\<lparr>extracted := extracted out1 @ [extract_line n raw]\<rparr>)
         else out\<lparr>extracted := extracted out @ [extract_line n raw],
                  has_readme := has_readme out \<or> startswith b ''readme'' \<or> startswith b ''notice''\<rparr>)"

text \<open>The loop over the names; \<open>Inl\<close> carries the partial result beside the exception, which \<open>BadZipFile\<close> keeps.\<close>

fun scan_members :: "zipenv \<Rightarrow> zip_entry list \<Rightarrow> string list \<Rightarrow> nat \<Rightarrow> plugin_info \<Rightarrow> (zip_error \<times> plugin_info) + plugin_info" where
  "scan_members ze zs [] seen out = Inr out"
| "scan_members ze zs (n # ns) seen out =
     (if base_of n \<in> set ICON_BASENAMES \<and> contains_sub ''assets/'' (lower n) then
        (case read_zip_member zs n of
           Inl e \<Rightarrow> Inl (e, out)
         | Inr d \<Rightarrow> scan_members ze zs ns seen (out\<lparr>icon_data := Some d, icon_filename := Some (base_of n)\<rparr>))
      else if base_of n \<in> set INTERESTING_FILES then
        (case read_zip_member zs n of
           Inl e \<Rightarrow> Inl (e, out)
         | Inr d \<Rightarrow>
             let raw = decode_replace ze d; seen1 = seen + length raw
             in if seen1 > MAX_DECOMPRESSED_BYTES then Inr out
                else scan_members ze zs ns seen1 (text_member ze n raw out))
      else scan_members ze zs ns seen out)"

definition parse_plugin_zip :: "zipenv \<Rightarrow> bytes \<Rightarrow> plugin_info result" where
  "parse_plugin_zip ze pdata =
     (if length pdata > MAX_UPLOAD_BYTES then Inl (HTTPException 413 ''Fichier trop volumineux'')
      else case unzip ze pdata of
        Inl BadZip \<Rightarrow> Inr no_plugin
      | Inl (OtherZip e) \<Rightarrow> Inl e
      | Inr zs \<Rightarrow>
          if sum_list (map z_size zs) > MAX_DECOMPRESSED_BYTES
          then Inl (HTTPException 413 (''Archive trop volumineuse une fois d'' @ e_acute @ ''compress'' @ e_acute @ ''e''))
          else case scan_members ze zs (map z_name zs) 0 no_plugin of
            Inr out \<Rightarrow> Inr out
          | Inl (BadZip, out) \<Rightarrow> Inr out
          | Inl (OtherZip e, out) \<Rightarrow> Inl e)"

section \<open>The answer of the model\<close>

text \<open>\<open>s.split(sep)\<close> for a separator of several characters.\<close>

function split_sub :: "string \<Rightarrow> string \<Rightarrow> string \<Rightarrow> string list" where
  "split_sub sep acc [] = [rev acc]"
| "split_sub sep acc (c # s) =
     (if sep \<noteq> [] \<and> startswith (c # s) sep then rev acc # split_sub sep [] (drop (length sep) (c # s))
      else split_sub sep (c # acc) s)"
  by pat_completeness auto

termination
  by (relation "measure (\<lambda>(sep, acc, s). length s)") auto

definition fence :: string where "fence = replicate 3 (CHR 0x60)"

definition unfence :: "string \<Rightarrow> string" where
  "unfence text =
     (if contains_sub fence text then
        let parts = split_sub fence [] text;
            cand = (if 3 \<le> length parts then parts ! 1 else last parts);
            l = lstrip_by py_space cand
        in strip (if startswith (lower l) ''json'' then drop 4 l else cand)
      else text)"

text \<open>\<open>re.search("{.*}", text, DOTALL)\<close>: from the first opening brace to the last closing one.\<close>

definition braced_span :: "string \<Rightarrow> string option" where
  "braced_span s =
     (let t = dropWhile (\<lambda>c. c \<noteq> CHR ''{'') s; r = dropWhile (\<lambda>c. c \<noteq> CHR ''}'') (rev t)
      in if t = [] \<or> r = [] then None else Some (rev r))"

definition extract_suggestion_json :: "string \<Rightarrow> json dict result" where
  "extract_suggestion_json content =
     (if strip content = [] then Inl (ValueError (''r'' @ e_acute @ ''ponse LLM vide''))
      else
        let text = unfence (strip content);
            obj = (case loads text of
                     Some j \<Rightarrow> Inr j
                   | None \<Rightarrow>
                       (case braced_span text of
                          None \<Rightarrow> Inl (ValueError (''aucun JSON exploitable dans la r'' @ e_acute @ ''ponse LLM''))
                        | Some t \<Rightarrow> (case loads t of Some j \<Rightarrow> Inr j | None \<Rightarrow> Inl (ValueError ''Expecting value''))))
        in bind_result obj (\<lambda>j. case j of JObj d \<Rightarrow> Inr d
             | _ \<Rightarrow> Inl (ValueError (''r'' @ e_acute @ ''ponse LLM non conforme (objet attendu)''))))"

definition ALLOWED_SUGGESTION_KEYS :: "string list" where
  "ALLOWED_SUGGESTION_KEYS = [''slug'', ''name'', ''description'', ''intent'', ''device_type'', ''category'', ''publisher'', ''visibility'',
     ''homepage_url'', ''support_email'', ''icon_url'', ''doc_url'', ''license'', ''key_features'', ''changelog'', ''oxt_version'',
     ''oxt_identifier'', ''config_template'', ''_has_readme'', ''_has_manifest'', ''_has_config_template'', ''_source'', ''icon_data_url'']"

definition URL_FIELDS :: "string list" where
  "URL_FIELDS = [''homepage_url'', ''icon_url'', ''doc_url'', ''icon_data_url'']"

definition safe_url :: "string \<Rightarrow> bool" where
  "safe_url v = (startswith (lower v) ''data:image/'' \<or> startswith (lower v) ''http://'' \<or> startswith (lower v) ''https://'')"

definition safe_url_value :: "json \<Rightarrow> string" where
  "safe_url_value j = (case j of JStr s \<Rightarrow> if safe_url (strip s) then strip s else [] | _ \<Rightarrow> [])"

definition sanitize_suggestion :: "json dict \<Rightarrow> json dict" where
  "sanitize_suggestion d =
     fold (\<lambda>(k, v) c. if k \<notin> set ALLOWED_SUGGESTION_KEYS then c
                     else dset k (if k \<in> set URL_FIELDS then JStr (safe_url_value v) else v) c) d []"

section \<open>The rate limit\<close>

type_synonym rl_hits = "timestamp list dict"

definition rate_limit_ok :: "string \<Rightarrow> int \<Rightarrow> int \<Rightarrow> timestamp \<Rightarrow> rl_hits \<Rightarrow> bool \<times> rl_hits" where
  "rate_limit_ok key limit window_seconds ts st =
     (if limit \<le> 0 then (True, st)
      else
        let cutoff = ts - secs window_seconds;
            hits = filter (\<lambda>t. t > cutoff) (case dget st key of None \<Rightarrow> [] | Some h \<Rightarrow> h)
        in if int (length hits) \<ge> limit then (False, dset key hits st) else (True, dset key (hits @ [ts]) st))"

section \<open>The handler\<close>

definition newline :: string where "newline = [CHR 0x0A]"

definition LLM_SUGGEST_PROMPT :: string where
  \<open>LLM_SUGGEST_PROMPT = join_with newline [
     ''Tu es un assistant qui analyse un README ou le contenu d'' @ [CHR 0x27] @ ''un plugin pour pre-remplir une fiche de catalogue.'',
     [],
     ''A partir du texte fourni, extrais les informations suivantes au format JSON strict (pas de markdown, pas de commentaires) :'',
     ''{'',
     ''  "name": "Nom du plugin (court, lisible)",'',
     ''  "slug": "nom-en-kebab-case",'',
     ''  "intent": "Proposition de valeur en 1-2 phrases",'',
     ''  "description": "Description detaillee (2-5 phrases)",'',
     ''  "key_features": ["Tag court 1", "Tag court 2", ...],  // tags metier courts (2-3 mots max) ex: "Redaction IA", "Mode hors-ligne", "SSO Keycloak"'',
     ''  "category": "productivity|security|communication|tools|other",'',
     ''  "device_type": "libreoffice|firefox|chrome|edge|matisse",'',
     ''  "changelog": "Changelog extrait si present (format markdown), sinon vide"'',
     ''}'',
     [],
     ''Si tu ne trouves pas une info, mets une chaine vide ou une liste vide. Reponds uniquement avec le JSON.'']\<close>

record suggest_form =
  readme_file :: "(string \<times> bytes) option"
  readme_url :: string
  plugin_file :: "(string \<times> bytes) option"

record suggest_request =
  sr_headers :: headers
  sr_peer :: "string option"
  sr_form :: suggest_form

record suggest_io =
  sio_net :: netenv
  sio_zip :: zipenv
  http_get :: "string \<Rightarrow> string option"
  llm_post :: "string \<Rightarrow> string \<Rightarrow> json \<Rightarrow> json option"

datatype suggest_effect = Fetch string | CallLlm string string json | AuditSuggest string string

definition client_ip :: "suggest_request \<Rightarrow> string" where
  "client_ip rq =
     (let x = strip (hd (split_on (CHR '','') (case header (sr_headers rq) ''x-forwarded-for'' of None \<Rightarrow> [] | Some v \<Rightarrow> v)))
      in if x \<noteq> [] then x else (case sr_peer rq of Some h \<Rightarrow> h | None \<Rightarrow> ''unknown''))"

definition std_b64encode :: "bytes \<Rightarrow> string" where
  "std_b64encode b = map (\<lambda>c. if c = CHR ''-'' then CHR ''+'' else if c = CHR ''_'' then CHR ''/'' else c) (b64_encode b)"

definition icon_data_url :: "bytes \<Rightarrow> string \<Rightarrow> string" where
  "icon_data_url d fname =
     (let ext = lower (after_last (CHR ''.'') fname);
          mime = (case dget [(''png'', ''image/png''), (''jpg'', ''image/jpeg''), (''jpeg'', ''image/jpeg''), (''svg'', ''image/svg+xml''),
                    (''webp'', ''image/webp'')] ext of Some m \<Rightarrow> m | None \<Rightarrow> ''image/png'')
      in ''data:'' @ mime @ '';base64,'' @ std_b64encode d)"

definition named_upload :: "(string \<times> bytes) option \<Rightarrow> (string \<times> bytes) option" where
  "named_upload u = (case u of Some (n, d) \<Rightarrow> if n = [] then None else Some (n, d) | None \<Rightarrow> None)"

definition readme_texts :: "suggest_io \<Rightarrow> suggest_form \<Rightarrow> string list" where
  "readme_texts io f =
     (case named_upload (readme_file f) of
        None \<Rightarrow> []
      | Some (n, d) \<Rightarrow> [''=== README ('' @ n @ '') ==='' @ newline @ take 15000 (decode_replace (sio_zip io) d)])"

definition url_texts :: "suggest_io \<Rightarrow> suggest_form \<Rightarrow> (string list \<times> suggest_effect list) result" where
  "url_texts io f =
     (if strip (readme_url f) = [] then Inr ([], [])
      else bind_result (validate_public_url (sio_net io) (strip (readme_url f))) (\<lambda>safe.
        Inr ([case http_get io safe of
                Some t \<Rightarrow> ''=== README (URL) ==='' @ newline @ take 15000 t
              | None \<Rightarrow> ''=== README URL error ===''], [Fetch safe])))"

definition plugin_part :: "suggest_io \<Rightarrow> suggest_form \<Rightarrow> (string list \<times> plugin_info) result" where
  "plugin_part io f =
     (case named_upload (plugin_file f) of
        None \<Rightarrow> Inr ([], no_plugin)
      | Some (n, d) \<Rightarrow>
          bind_result (parse_plugin_zip (sio_zip io) d) (\<lambda>p.
            Inr (if extracted p = [] then [] else [''=== Plugin ('' @ n @ '') ==='' @ newline @ join_with (newline @ newline) (extracted p)], p)))"

text \<open>What both branches add from the archive to a suggestion.\<close>

definition add_plugin_fields :: "plugin_info \<Rightarrow> json dict \<Rightarrow> json dict" where
  "add_plugin_fields p s0 =
     (let s1 = (if oxt_version p \<noteq> [] then dset ''oxt_version'' (JStr (oxt_version p)) s0 else s0);
          s2 = (if oxt_identifier p \<noteq> [] then dset ''oxt_identifier'' (JStr (oxt_identifier p)) s1 else s1);
          s3 = (case config_template p of Some j \<Rightarrow> if truthy j then dset ''config_template'' j s2 else s2 | None \<Rightarrow> s2)
      in case (icon_data p, icon_filename p) of
           (Some d, Some n) \<Rightarrow>
             if d \<noteq> [] \<and> n \<noteq> [] then dset ''icon_data_url'' (JStr (icon_data_url d n)) (dset ''icon_url'' (JStr (icon_data_url d n)) s3) else s3
         | _ \<Rightarrow> s3)"

definition manifest_fields :: "(string \<times> json) list" where
  "manifest_fields = [(''slug'', JStr []), (''name'', JStr []), (''description'', JStr []), (''intent'', JStr []),
     (''device_type'', JStr ''libreoffice''), (''category'', JStr ''productivity''), (''publisher'', JStr []), (''visibility'', JStr ''public''),
     (''homepage_url'', JStr []), (''support_email'', JStr []), (''icon_url'', JStr []), (''doc_url'', JStr []), (''license'', JStr []),
     (''key_features'', JList []), (''changelog'', JList [])]"

definition manifest_suggestion :: "plugin_info \<Rightarrow> json \<Rightarrow> json dict result" where
  "manifest_suggestion p m =
     (case m of
        JObj d \<Rightarrow> Inr (add_plugin_fields p (map (\<lambda>(k, v). (k, case dget d k of Some x \<Rightarrow> x | None \<Rightarrow> v)) manifest_fields @
          [(''_has_readme'', JBool (has_readme p)), (''_has_manifest'', JBool True), (''_has_config_template'', JBool (has_config_template p)),
           (''_source'', JStr ''dm-manifest.json'')]))
      | _ \<Rightarrow> Inl AttributeError)"

definition suggest_payload :: "string \<Rightarrow> string \<Rightarrow> json" where
  "suggest_payload model combined =
     JObj [(''model'', JStr model),
       (''messages'', JList [JObj [(''role'', JStr ''system''), (''content'', JStr LLM_SUGGEST_PROMPT)],
                           JObj [(''role'', JStr ''user''), (''content'', JStr combined)]]),
       (''temperature'', JFloat ''0.2''), (''max_tokens'', JInt 2000)]"

text \<open>\<open>result["choices"][0]["message"]["content"]\<close>; every failure ends in the same handler.\<close>

definition llm_content :: "json \<Rightarrow> string option" where
  "llm_content r =
     (case r of JObj d \<Rightarrow> (case dget d ''choices'' of Some (JList (JObj c # _)) \<Rightarrow> (case dget c ''message'' of
        Some (JObj m) \<Rightarrow> (case dget m ''content'' of Some (JStr t) \<Rightarrow> Some t | _ \<Rightarrow> None) | _ \<Rightarrow> None) | _ \<Rightarrow> None) | _ \<Rightarrow> None)"

definition err_body :: "string \<Rightarrow> json" where
  "err_body m = JObj [(''error'', JStr m)]"

definition llm_suggestion :: "suggest_io \<Rightarrow> env \<Rightarrow> string \<Rightarrow> plugin_info \<Rightarrow> string list \<Rightarrow> (int \<times> json) \<times> suggest_effect list" where
  "llm_suggestion io e ip p texts =
     (if texts = [] then ((400, err_body ''Aucune source fournie''), [])
      else
        let combined = take 20000 (join_with (newline @ newline) texts);
            url = rstrip_char (CHR ''/'') (getenv e ''LLM_BASE_URL'' []); tok = getenv e ''LLM_API_TOKEN'' [];
            body = suggest_payload (getenv e ''DEFAULT_MODEL_NAME'' ''gpt-oss-120b'') combined
        in if url = [] \<or> tok = [] then ((503, err_body ''LLM non configure (LLM_BASE_URL / LLM_API_TOKEN)''), [])
           else case Option.bind (Option.bind (llm_post io url tok body) llm_content) (\<lambda>t. result_option (extract_suggestion_json t)) of
                  None \<Rightarrow> ((502, err_body (''R'' @ e_acute @ ''ponse du mod'' @ [CHR 0xE8] @ ''le invalide ou indisponible'')), [CallLlm url tok body])
                | Some d \<Rightarrow>
                    ((200, JObj (sanitize_suggestion (add_plugin_fields p (dset ''_has_config_template'' (JBool (has_config_template p))
                       (dset ''_has_readme'' (JBool (has_readme p)) d))))), [CallLlm url tok body, AuditSuggest ''llm'' ip]))"

definition api_catalog_suggest ::
  "suggest_io \<Rightarrow> settings \<Rightarrow> env \<Rightarrow> timestamp \<Rightarrow> suggest_request \<Rightarrow> rl_hits \<Rightarrow> (int \<times> json) result \<times> suggest_effect list \<times> rl_hits" where
  "api_catalog_suggest io cfg e now rq st0 =
     (let ip = client_ip rq; f = sr_form rq;
          (ok, st) = (if ratelimit_enabled cfg then rate_limit_ok (''suggest:'' @ ip) (ratelimit_suggest_per_min cfg) 60 now st0 else (True, st0))
      in if \<not> ok then (Inr (429, err_body (''Trop de requ'' @ [CHR 0xEA] @ ''tes, r'' @ e_acute @ ''essayez plus tard'')), [], st)
         else case url_texts io f of
           Inl er \<Rightarrow> (Inl er, [], st)
         | Inr (ut, fetches) \<Rightarrow>
             (case plugin_part io f of
                Inl er \<Rightarrow> (Inl er, fetches, st)
              | Inr (pt, p) \<Rightarrow>
                  (case dm_manifest p of
                     Some m \<Rightarrow>
                       if has_manifest p \<and> truthy m then
                         (case manifest_suggestion p m of
                            Inl er \<Rightarrow> (Inl er, fetches, st)
                          | Inr s \<Rightarrow> (Inr (200, JObj (sanitize_suggestion s)), fetches @ [AuditSuggest ''dm-manifest.json'' ip], st))
                       else (let (r, fx) = llm_suggestion io e ip p (readme_texts io f @ ut @ pt) in (Inr r, fetches @ fx, st))
                   | None \<Rightarrow> (let (r, fx) = llm_suggestion io e ip p (readme_texts io f @ ut @ pt) in (Inr r, fetches @ fx, st)))))"

section \<open>Lemmas\<close>

text \<open>A run of the limiter from the empty table: the table and the accepted times of one key.\<close>

definition rl_step :: "int \<Rightarrow> int \<Rightarrow> string \<Rightarrow> string \<times> timestamp \<Rightarrow> rl_hits \<times> timestamp list \<Rightarrow> rl_hits \<times> timestamp list" where
  "rl_step limit w key c s =
     (let (ok, st) = rate_limit_ok (fst c) limit w (snd c) (fst s)
      in (st, if ok \<and> fst c = key then snd s @ [snd c] else snd s))"

definition rl_run :: "int \<Rightarrow> int \<Rightarrow> string \<Rightarrow> (string \<times> timestamp) list \<Rightarrow> rl_hits \<times> timestamp list" where
  "rl_run limit w key cs = fold (rl_step limit w key) cs ([], [])"

definition hits_of :: "rl_hits \<Rightarrow> string \<Rightarrow> timestamp list" where
  "hits_of st key = (case dget st key of None \<Rightarrow> [] | Some h \<Rightarrow> h)"

definition in_window :: "int \<Rightarrow> timestamp \<Rightarrow> timestamp list \<Rightarrow> timestamp list" where
  "in_window w t xs = filter (\<lambda>a. t - secs w < a \<and> a \<le> t) xs"

text \<open>What the table says of a key agrees with the accepted times as far back as any later call looks.\<close>

definition rl_inv :: "int \<Rightarrow> string \<Rightarrow> timestamp \<Rightarrow> rl_hits \<times> timestamp list \<Rightarrow> bool" where
  "rl_inv w key now s =
     ((\<forall>a \<in> set (snd s). a \<le> now) \<and>
      (\<forall>c \<ge> now - secs w. filter (\<lambda>a. c < a) (hits_of (fst s) key) = filter (\<lambda>a. c < a) (snd s)))"

lemma rate_limit_ok_eq:
  "0 < limit \<Longrightarrow> rate_limit_ok key limit w t st =
     (let hits = filter (\<lambda>a. t - secs w < a) (hits_of st key)
      in if int (length hits) < limit then (True, dset key (hits @ [t]) st) else (False, dset key hits st))"
  by (simp add: rate_limit_ok_def hits_of_def Let_def)

lemma hits_of_dset [simp]: "hits_of (dset k h st) key = (if key = k then h else hits_of st key)"
  by (simp add: hits_of_def)

lemma rl_inv_hits:
  assumes "rl_inv w key now s" "now \<le> t"
  shows "filter (\<lambda>a. t - secs w < a) (hits_of (fst s) key) = in_window w t (snd s)"
proof -
  have "filter (\<lambda>a. t - secs w < a) (hits_of (fst s) key) = filter (\<lambda>a. t - secs w < a) (snd s)"
    using assms by (simp add: rl_inv_def)
  also have "\<dots> = in_window w t (snd s)"
    unfolding in_window_def using assms by (intro filter_cong) (auto simp: rl_inv_def)
  finally show ?thesis .
qed

lemma rl_decision:
  assumes "rl_inv w key now s" "now \<le> t" "0 < limit"
  shows "fst (rate_limit_ok key limit w t (fst s)) = (int (length (in_window w t (snd s))) < limit)"
  by (simp add: rate_limit_ok_eq [OF assms(3)] rl_inv_hits [OF assms(1,2)] Let_def)

lemma rl_inv_step:
  assumes inv: "rl_inv w key now s" and t: "now \<le> snd c" and l: "0 < limit"
  shows "rl_inv w key (snd c) (rl_step limit w key c s)"
proof (cases "fst c = key")
  case False
  then show ?thesis using inv t by (auto simp: rl_step_def rl_inv_def rate_limit_ok_eq [OF l] Let_def)
next
  case True
  let ?t = "snd c"
  let ?hits = "filter (\<lambda>a. ?t - secs w < a) (hits_of (fst s) key)"
  have old: "filter (\<lambda>a. d < a) ?hits = filter (\<lambda>a. d < a) (snd s)" if "?t - secs w \<le> d" for d
  proof -
    have "filter (\<lambda>a. d < a) ?hits = filter (\<lambda>a. d < a) (hits_of (fst s) key)"
      using that by (auto intro: filter_cong)
    also have "\<dots> = filter (\<lambda>a. d < a) (snd s)" using inv t that by (simp add: rl_inv_def)
    finally show ?thesis .
  qed
  have le: "\<forall>a \<in> set (snd s). a \<le> ?t" using inv t by (auto simp: rl_inv_def)
  show ?thesis using True le old
    by (auto simp: rl_step_def rl_inv_def rate_limit_ok_eq [OF l] Let_def simp del: filter_filter)
qed

lemma in_window_snoc:
  assumes "\<forall>a \<in> set xs. a \<le> t" "\<And>u. int (length (in_window w u xs)) \<le> limit" "int (length (in_window w t xs)) < limit"
  shows "int (length (in_window w u (xs @ [t]))) \<le> limit"
proof (cases "u - secs w < t \<and> t \<le> u")
  case True
  have "length (in_window w u xs) \<le> length (in_window w t xs)"
    unfolding in_window_def length_filter_conv_card
    by (rule card_mono) (use True assms(1) in \<open>auto simp: nth_mem\<close>)
  then show ?thesis using True assms(3) by (simp add: in_window_def)
next
  case False
  then show ?thesis using assms(2) [of u] by (auto simp: in_window_def)
qed

lemma rl_run_inv:
  "sorted (map snd cs) \<Longrightarrow> 0 < limit \<Longrightarrow> \<forall>c \<in> set cs. snd c \<le> t \<Longrightarrow>
     rl_inv w key t (rl_run limit w key cs) \<and> (\<forall>u. int (length (in_window w u (snd (rl_run limit w key cs)))) \<le> limit)"
proof (induction cs arbitrary: t rule: rev_induct)
  case Nil
  then show ?case by (simp add: rl_run_def rl_inv_def in_window_def hits_of_def)
next
  case (snoc c cs)
  let ?s = "rl_run limit w key cs" and ?t = "snd c"
  have s: "sorted (map snd cs)" "\<forall>d \<in> set cs. snd d \<le> ?t" using snoc.prems(1) by (auto simp: sorted_append)
  note IH = snoc.IH [OF s(1) snoc.prems(2) s(2)]
  have run: "rl_run limit w key (cs @ [c]) = rl_step limit w key c ?s" by (simp add: rl_run_def)
  have inv: "rl_inv w key ?t (rl_step limit w key c ?s)"
    using rl_inv_step IH snoc.prems(2) by blast
  have "int (length (in_window w u (snd (rl_step limit w key c ?s)))) \<le> limit" for u
  proof (cases "fst (rate_limit_ok key limit w ?t (fst ?s)) \<and> fst c = key")
    case True
    then have "int (length (in_window w ?t (snd ?s))) < limit"
      using rl_decision [OF IH [THEN conjunct1] order_refl snoc.prems(2)] by simp
    moreover have "\<forall>a \<in> set (snd ?s). a \<le> ?t" using IH by (simp add: rl_inv_def)
    ultimately show ?thesis using True IH in_window_snoc [of "snd ?s" ?t w limit u]
      by (auto simp: rl_step_def split: prod.splits)
  next
    case False
    then show ?thesis using IH by (auto simp: rl_step_def split: prod.splits)
  qed
  moreover have "rl_inv w key t (rl_step limit w key c ?s)"
    using inv snoc.prems(3) by (force simp: rl_inv_def)
  ultimately show ?case by (simp add: run)
qed

subsection \<open>Suggestions\<close>

definition clean_value :: "string \<Rightarrow> json \<Rightarrow> bool" where
  "clean_value k v = (k \<in> set URL_FIELDS \<longrightarrow> (\<exists>s. v = JStr s \<and> (s = [] \<or> safe_url s)))"

definition clean_suggestion :: "json dict \<Rightarrow> bool" where
  "clean_suggestion d = (\<forall>(k, v) \<in> set d. k \<in> set ALLOWED_SUGGESTION_KEYS \<and> clean_value k v)"

lemma safe_url_value_clean: "safe_url_value v = [] \<or> safe_url (safe_url_value v)"
  by (simp add: safe_url_value_def split: json.split)

lemma sanitize_fold_clean:
  "clean_suggestion c \<Longrightarrow>
   clean_suggestion (fold (\<lambda>(k, v) c. if k \<notin> set ALLOWED_SUGGESTION_KEYS then c
     else dset k (if k \<in> set URL_FIELDS then JStr (safe_url_value v) else v) c) d c)"
proof (induction d arbitrary: c)
  case (Cons x d)
  obtain k v where x: "x = (k, v)" by fastforce
  have "clean_suggestion (dset k (if k \<in> set URL_FIELDS then JStr (safe_url_value v) else v) c)" if "k \<in> set ALLOWED_SUGGESTION_KEYS"
    using Cons.prems that safe_url_value_clean [of v]
    by (fastforce simp: clean_suggestion_def clean_value_def dest!: dset_memD split: if_splits)
  then show ?case using Cons by (simp add: x)
qed simp

lemma sanitize_clean: "clean_suggestion (sanitize_suggestion d)"
  unfolding sanitize_suggestion_def by (rule sanitize_fold_clean) (simp add: clean_suggestion_def)

lemma sanitize_fold_get:
  "distinct (map fst d) \<Longrightarrow>
   dget (fold (\<lambda>(k, v) c. if k \<notin> set ALLOWED_SUGGESTION_KEYS then c
     else dset k (if k \<in> set URL_FIELDS then JStr (safe_url_value v) else v) c) d c) k =
   (case dget d k of
      Some v \<Rightarrow> if k \<in> set ALLOWED_SUGGESTION_KEYS then Some (if k \<in> set URL_FIELDS then JStr (safe_url_value v) else v) else dget c k
    | None \<Rightarrow> dget c k)"
proof (induction d arbitrary: c)
  case (Cons x d)
  obtain j v where x: "x = (j, v)" by fastforce
  have "dget d j = None" using Cons.prems x by (auto simp: dget_def map_of_eq_None_iff)
  then show ?case using Cons by (auto simp: x dget_def [of "x # d"] dget_def [of "(j, v) # d"] dget_def [of d, symmetric] split: option.splits)
qed simp

text \<open>Every other field of the answer is passed on as it is.\<close>

lemma sanitize_get:
  assumes "distinct (map fst d)"
  shows "dget (sanitize_suggestion d) k =
    (if k \<in> set ALLOWED_SUGGESTION_KEYS
     then map_option (\<lambda>v. if k \<in> set URL_FIELDS then JStr (safe_url_value v) else v) (dget d k) else None)"
  by (simp add: sanitize_suggestion_def sanitize_fold_get [OF assms] split: option.split)

subsection \<open>Addresses\<close>

lemma mapped_reserved: "ipv4_mapped a = Some b \<Longrightarrow> reserved6 a"
proof -
  assume "ipv4_mapped a = Some b"
  then have m: "a div 2 ^ 32 = 65535" by (simp add: ipv4_mapped_def split: if_splits)
  have "a div 2 ^ 120 = a div 2 ^ 32 div 2 ^ 88" by (simp add: zdiv_zmult2_eq [symmetric])
  also have "\<dots> = 0" unfolding m by simp
  also have "0 = hextets [0] div 2 ^ 120" by code_simp
  finally have "net6 a ([0], 8)" by (simp add: net6_def)
  then show ?thesis by (simp add: reserved6_def)
qed

text \<open>What a server in the same network could be reached by.\<close>

fun inside_network :: "ip \<Rightarrow> bool" where
  "inside_network (V4 a) = list_ex (net4 a) [(quad 10 0 0 0, 8), (quad 172 16 0 0, 12), (quad 192 168 0 0, 16), (quad 127 0 0 0, 8),
     (quad 169 254 0 0, 16), (quad 0 0 0 0, 8)]"
| "inside_network (V6 a) = (a = 0 \<or> a = 1 \<or> net6 a ([64512], 7) \<or> net6 a ([65152], 10) \<or> ipv4_mapped a \<noteq> None)"

lemma exceptions_disjoint:
  "net4 a (quad 192 0 0 9, 32) \<or> net4 a (quad 192 0 0 10, 32) \<Longrightarrow> \<not> inside_network (V4 a)"
proof -
  assume "net4 a (quad 192 0 0 9, 32) \<or> net4 a (quad 192 0 0 10, 32)"
  then have "a = quad 192 0 0 9 \<or> a = quad 192 0 0 10" by (auto simp: net4_def)
  moreover have "\<not> inside_network (V4 (quad 192 0 0 9))" "\<not> inside_network (V4 (quad 192 0 0 10))" by code_simp+
  ultimately show ?thesis by blast
qed

text \<open>Two networks of which neither contains the other share no address.\<close>

lemma net6_coarser: "net6 a (h, n) \<Longrightarrow> m \<le> n \<Longrightarrow> n \<le> 128 \<Longrightarrow> net6 a (h, m)"
proof -
  assume n: "net6 a (h, n)" "m \<le> n" "n \<le> 128"
  have "128 - m = (128 - n) + (n - m)" using n(2,3) by simp
  then have "x div 2 ^ (128 - m) = x div 2 ^ (128 - n) div 2 ^ (n - m)" for x :: int by (simp only: power_add zdiv_zmult2_eq zero_le_power zero_le_numeral)
  then show ?thesis using n(1) by (simp add: net6_def)
qed

lemma net6_disjoint:
  assumes "net6 a (h, m)" "net6 a (g, n)" "m \<le> n" "n \<le> 128"
  shows "net6 (hextets g) (h, m)"
  using assms(1) net6_coarser [OF assms(2-4)] by (simp add: net6_def)

lemma unique_local_private: "ipv4_mapped a = None \<Longrightarrow> net6 a ([64512], 7) \<Longrightarrow> private6 a"
proof -
  assume m: "ipv4_mapped a = None" and u: "net6 a ([64512], 7)"
  have d: "\<not> net6 (hextets [8193, 1, 0, 0, 0, 0, 0, 1]) ([64512], 7)" "\<not> net6 (hextets [8193, 1, 0, 0, 0, 0, 0, 2]) ([64512], 7)"
    "\<not> net6 (hextets [8193, 3]) ([64512], 7)" "\<not> net6 (hextets [8193, 4, 274]) ([64512], 7)"
    "\<not> net6 (hextets [8193, 32]) ([64512], 7)" "\<not> net6 (hextets [8193, 48]) ([64512], 7)" by code_simp+
  have "\<not> list_ex (net6 a) [([8193, 1, 0, 0, 0, 0, 0, 1], 128), ([8193, 1, 0, 0, 0, 0, 0, 2], 128), ([8193, 3], 32),
            ([8193, 4, 274], 48), ([8193, 32], 28), ([8193, 48], 28)]"
    using d net6_disjoint [OF u] by fastforce
  then show ?thesis using m u by (simp add: private6_def)
qed

lemma inside_private4: "inside_network (V4 a) \<Longrightarrow> private4 a"
proof -
  assume i: "inside_network (V4 a)"
  have "\<not> list_ex (net4 a) [(quad 192 0 0 9, 32), (quad 192 0 0 10, 32)]"
    using i exceptions_disjoint [of a] unfolding list_ex_iff by auto
  then show ?thesis using i unfolding private4_def inside_network.simps list_ex_iff by auto
qed

lemma inside_internal: "inside_network p \<Longrightarrow> internal p"
proof (cases p)
  case (V4 a)
  assume "inside_network p"
  then show ?thesis unfolding V4 internal_def using inside_private4 by simp
next
  case (V6 a)
  assume p: "inside_network p"
  show ?thesis
  proof (cases "ipv4_mapped a")
    case (Some b)
    then show ?thesis using mapped_reserved [OF Some] by (simp add: V6 internal_def)
  next
    case None
    then show ?thesis using p unique_local_private [OF None] unfolding V6 by (auto simp: internal_def)
  qed
qed

text \<open>The shared address space of carriers, 100.64.0.0/10, passes the check.\<close>

lemma shared_space_passes: "\<not> internal (V4 (quad 100 64 0 1))"
  by code_simp

text \<open>The check passes a stripped address whose host was resolved, at that moment, to addresses outside the network.\<close>

definition resolved_outside :: "netenv \<Rightarrow> string \<Rightarrow> bool" where
  "resolved_outside net u =
     (\<exists>parts port addrs. urlsplit (ip_literal net) u = Inr parts \<and> u_scheme parts \<in> {''http'', ''https''} \<and>
        url_hostname parts \<noteq> [] \<and> getaddrinfo net (url_hostname parts) port = Inr addrs \<and> (\<forall>a \<in> set addrs. \<not> inside_network a))"

lemma validate_outside: "validate_public_url net url = Inr u \<Longrightarrow> u = strip url \<and> resolved_outside net u"
proof -
  assume v: "validate_public_url net url = Inr u"
  then obtain parts p where p: "urlsplit (ip_literal net) (strip url) = Inr parts" "u_scheme parts \<in> {''http'', ''https''}"
      "url_hostname parts \<noteq> []" "url_port parts = Inr p"
    by (auto simp: validate_public_url_def Let_def bind_result_def split: sum.splits if_splits)
  obtain port addrs where "getaddrinfo net (url_hostname parts) port = Inr addrs" "\<not> list_ex internal addrs" "u = strip url"
    using v p by (auto simp: validate_public_url_def Let_def split: sum.splits if_splits py_error.splits option.splits)
  then show ?thesis using p inside_internal by (auto simp: resolved_outside_def list_ex_iff)
qed

text \<open>No member larger than the bound is kept, and no text longer than 8000 characters is extracted.\<close>

definition plugin_bounded :: "plugin_info \<Rightarrow> bool" where
  "plugin_bounded p = (\<forall>d. icon_data p = Some d \<longrightarrow> length d \<le> MAX_FILE_BYTES)"

lemma read_zip_member_bound: "read_zip_member zs n = Inr d \<Longrightarrow> length d \<le> MAX_FILE_BYTES"
  by (auto simp: read_zip_member_def map_sum_def split: option.splits if_splits sum.splits)

lemma text_member_icon [simp]: "icon_data (text_member ze n raw out) = icon_data out"
  by (simp add: text_member_def Let_def split: option.split prod.split)

lemma scan_members_bounded:
  "plugin_bounded out \<Longrightarrow> (case scan_members ze zs ns seen out of Inr p \<Rightarrow> plugin_bounded p | Inl (e, p) \<Rightarrow> plugin_bounded p)"
  by (induction ze zs ns seen out rule: scan_members.induct)
     (auto simp: plugin_bounded_def Let_def read_zip_member_bound split: sum.split)

lemma parse_plugin_bounded: "parse_plugin_zip ze pdata = Inr p \<Longrightarrow> plugin_bounded p \<and> length pdata \<le> MAX_UPLOAD_BYTES"
proof -
  assume p: "parse_plugin_zip ze pdata = Inr p"
  have n: "plugin_bounded no_plugin" by (simp add: plugin_bounded_def no_plugin_def)
  have "length pdata \<le> MAX_UPLOAD_BYTES" using p by (auto simp: parse_plugin_zip_def split: if_splits)
  moreover have "plugin_bounded p"
    using p n scan_members_bounded [OF n, of ze]
    by (auto simp: parse_plugin_zip_def split: if_splits sum.splits zip_error.splits prod.splits)
       (metis (no_types, lifting) case_prod_conv sum.case)+
  ultimately show ?thesis by simp
qed

subsection \<open>Answers of the model\<close>

lemma dumps_obj_ends: "\<exists>t. dumps (JObj d) = CHR ''{'' # t @ ''}''"
  by (simp add: dumps_def)

lemma strip_braces: "strip (CHR ''{'' # t @ ''}'') = CHR ''{'' # t @ ''}''"
  by (rule strip_ends_id) (simp add: py_space_def)

text \<open>A model that answers with a JSON object is understood as that object.\<close>

lemma extract_plain:
  assumes "json_ok (JObj d)" "\<not> contains_sub fence (dumps (JObj d))"
  shows "extract_suggestion_json (dumps (JObj d)) = Inr d"
proof -
  obtain t where t: "dumps (JObj d) = CHR ''{'' # t @ ''}''" using dumps_obj_ends by blast
  have s: "strip (dumps (JObj d)) = dumps (JObj d)" by (simp add: t strip_braces del: strip_def)
  have n: "dumps (JObj d) \<noteq> []" by (simp add: t)
  show ?thesis using n assms by (simp add: extract_suggestion_json_def s unfence_def)
qed

section \<open>Properties\<close>

text \<open>Property C27. The rate limit is exact over a sliding window: for calls in the order of their times, a call is accepted
  exactly when fewer than \<open>limit\<close> calls of its key were accepted in the window that ends with it, so no window of that length,
  wherever it lies, holds more than \<open>limit\<close> accepted calls of a key; other keys do not matter.\<close>

theorem rate_limit_window:
  fixes limit w :: int and key :: string and cs :: "(string \<times> timestamp) list" and t u :: timestamp
  assumes "0 < limit" "sorted (map snd cs)" "\<forall>c \<in> set cs. snd c \<le> t"
  defines "accepted \<equiv> snd (rl_run limit w key cs)"
  shows "fst (rate_limit_ok key limit w t (fst (rl_run limit w key cs))) = (int (length (in_window w t accepted)) < limit) \<and>
    int (length (in_window w u accepted)) \<le> limit"
  using rl_run_inv [OF assms(2,1,3), of w key] rl_decision [OF _ order_refl assms(1), of w key t] unfolding accepted_def by blast

theorem rate_limit_window_witness:
  "(let cs = [(''a'', secs 0), (''a'', secs 1), (''b'', secs 2), (''a'', secs 3)]; s = rl_run 2 60 ''a'' cs
    in snd s = [secs 0, secs 1] \<and>
       fst (rate_limit_ok ''a'' 2 60 (secs 61) (fst s)) = (int (length (in_window 60 (secs 61) (snd s))) < 2) \<and>
       int (length (in_window 60 (secs 30) (snd s))) \<le> 2)"
proof -
  have h: "sorted (map snd [(''a'', secs 0), (''a'', secs 1), (''b'', secs 2), (''a'', secs 3)])"
      "\<forall>c \<in> set [(''a'', secs 0), (''a'', secs 1), (''b'', secs 2), (''a'', secs 3)]. snd c \<le> secs 61"
    by (simp_all add: secs_def)
  have "snd (rl_run 2 60 ''a'' [(''a'', secs 0), (''a'', secs 1), (''b'', secs 2), (''a'', secs 3)]) = [secs 0, secs 1]" by code_simp
  then show ?thesis using rate_limit_window [OF _ h, where limit = 2 and w = 60 and key = "''a''" and u = "secs 30"] unfolding Let_def by simp
qed

lemma url_texts_outside: "url_texts io f = Inr (ts, fs) \<Longrightarrow> Fetch u \<in> set fs \<Longrightarrow> resolved_outside (sio_net io) u"
  by (auto simp: url_texts_def bind_result_def dest: validate_outside split: if_splits sum.splits)

text \<open>The answers of the endpoint that may leave it.\<close>

definition answer_ok :: "int \<times> json \<Rightarrow> bool" where
  "answer_ok a = (fst a \<in> {200, 400, 502, 503} \<and> (fst a = 200 \<longrightarrow> (\<exists>d. snd a = JObj d \<and> clean_suggestion d)))"

lemma llm_suggestion_ok: "answer_ok (fst (llm_suggestion io e ip p ts)) \<and> Fetch u \<notin> set (snd (llm_suggestion io e ip p ts))"
  by (auto simp: llm_suggestion_def Let_def sanitize_clean answer_ok_def split: option.split)

definition suggest_post :: "suggest_io \<Rightarrow> (int \<times> json) result \<Rightarrow> suggest_effect list \<Rightarrow> bool" where
  "suggest_post io r fx = ((\<forall>u. Fetch u \<in> set fx \<longrightarrow> resolved_outside (sio_net io) u) \<and> (\<forall>a. r = Inr a \<longrightarrow> answer_ok a))"

lemma suggest_tail_post:
  assumes "url_texts io (sr_form rq) = Inr (ut, fs)" "llm_suggestion io e ip p ts = (a, lx)"
  shows "suggest_post io (Inr a) (fs @ lx)"
  using assms url_texts_outside [OF assms(1)] llm_suggestion_ok [of io e ip p ts] by (auto simp: suggest_post_def)

lemma suggest_outcome:
  assumes "api_catalog_suggest io cfg e now rq st0 = (r, fx, st)"
  shows "(\<exists>m. r = Inr (429, m)) \<and> fx = [] \<or> suggest_post io r fx"
proof (cases "url_texts io (sr_form rq)")
  case (Inl er)
  then show ?thesis using assms by (auto simp: api_catalog_suggest_def Let_def suggest_post_def split: prod.splits if_splits)
next
  case (Inr x)
  obtain ut fs where u: "url_texts io (sr_form rq) = Inr (ut, fs)" using Inr by (cases x) simp
  show ?thesis
  proof (cases "plugin_part io (sr_form rq)")
    case (Inl er)
    then show ?thesis using assms url_texts_outside [OF u]
      by (auto simp: api_catalog_suggest_def Let_def suggest_post_def u split: prod.splits if_splits)
  next
    case (Inr y)
    obtain pt p where p: "plugin_part io (sr_form rq) = Inr (pt, p)" using Inr by (cases y) simp
    obtain a lx where l: "llm_suggestion io e (client_ip rq) p (readme_texts io (sr_form rq) @ ut @ pt) = (a, lx)" by fastforce
    note tail = suggest_tail_post [OF u l]
    show ?thesis
    proof (cases "\<exists>m. dm_manifest p = Some m \<and> has_manifest p \<and> truthy m")
      case True
      then show ?thesis using assms url_texts_outside [OF u] sanitize_clean
        by (auto simp: api_catalog_suggest_def Let_def suggest_post_def answer_ok_def u p split: prod.splits if_splits sum.splits)
    next
      case False
      then show ?thesis using assms tail
        by (auto simp: api_catalog_suggest_def Let_def u p l split: prod.splits if_splits option.splits)
    qed
  qed
qed

text \<open>Property C26. The suggestion endpoint fetches an address only after it resolved to hosts outside the network, and answers
  with nothing but known fields, whose addresses are empty, web addresses or inline images, whatever the model, the archive or the fetched page
  contain; a request over the rate limit has no effect at all, and every answer has one of five status codes.\<close>

theorem suggest_safe:
  assumes "api_catalog_suggest io cfg e now rq st0 = (r, fx, st)"
  shows "(\<forall>u. Fetch u \<in> set fx \<longrightarrow> resolved_outside (sio_net io) u) \<and>
    (\<forall>status body. r = Inr (status, body) \<longrightarrow>
       status \<in> {200, 400, 429, 502, 503} \<and>
       (status = 200 \<longrightarrow> (\<exists>d. body = JObj d \<and> clean_suggestion d)) \<and> (status = 429 \<longrightarrow> fx = []))"
  using suggest_outcome [OF assms] by (auto simp: suggest_post_def answer_ok_def)

text \<open>A hostile page made the model put a script where an address belongs, beside an unknown field.\<close>

definition demo_net :: netenv where
  "demo_net = \<lparr>getaddrinfo = (\<lambda>h p. if h = ''example.org'' then Inr [V4 (quad 93 184 216 34)] else Inr [V4 (quad 169 254 169 254)]),
     ip_literal = (\<lambda>_. False)\<rparr>"

definition demo_zip :: zipenv where
  "demo_zip = \<lparr>unzip = (\<lambda>b. Inl BadZip), decode_replace = (\<lambda>b. b), oxt_attrs = (\<lambda>_. None)\<rparr>"

definition demo_answer :: string where
  "demo_answer = fence @ ''json'' @ newline @
     dumps (JObj [(''slug'', JStr ''x''), (''homepage_url'', JStr ''javascript:alert(1)''), (''evil'', JInt 1)]) @ newline @ fence"

definition demo_io :: suggest_io where
  "demo_io = \<lparr>sio_net = demo_net, sio_zip = demo_zip, http_get = (\<lambda>_. Some ''hello''),
     llm_post = (\<lambda>_ _ _. Some (JObj [(''choices'', JList [JObj [(''message'', JObj [(''content'', JStr demo_answer)])]])]))\<rparr>"

definition demo_env :: env where
  "demo_env k = (if k = ''LLM_BASE_URL'' then Some ''https://llm'' else if k = ''LLM_API_TOKEN'' then Some ''key'' else None)"

definition demo_request :: suggest_request where
  "demo_request = \<lparr>sr_headers = [], sr_peer = Some ''1.2.3.4'',
     sr_form = \<lparr>readme_file = None, readme_url = ''http://example.org/r'', plugin_file = None\<rparr>\<rparr>"

definition demo_suggestion :: "json dict" where
  "demo_suggestion = [(''slug'', JStr ''x''), (''homepage_url'', JStr []), (''_has_readme'', JBool False), (''_has_config_template'', JBool False)]"

lemma dm_manifest_no_plugin: "dm_manifest no_plugin = None"
  by (simp add: no_plugin_def)

theorem suggest_safe_witness:
  "validate_public_url demo_net ''http://169.254.169.254/latest'' = Inl (HTTPException 400 (''URL non autoris'' @ e_acute @ ''e (cible interne/priv'' @ e_acute @ ''e)'')) \<and>
   (\<exists>fx st. api_catalog_suggest demo_io (settings_defaults (\<lambda>_. None)) demo_env 0 demo_request [] = (Inr (200, JObj demo_suggestion), fx, st) \<and>
     Fetch ''http://example.org/r'' \<in> set fx \<and> resolved_outside demo_net ''http://example.org/r'' \<and> clean_suggestion demo_suggestion)"
proof -
  have v: "validate_public_url demo_net ''http://example.org/r'' = Inr ''http://example.org/r''" by code_simp
  have n: "validate_public_url demo_net ''http://169.254.169.254/latest'' = Inl (HTTPException 400 (''URL non autoris'' @ e_acute @ ''e (cible interne/priv'' @ e_acute @ ''e)''))"
    by code_simp
  have st: "strip ''http://example.org/r'' = ''http://example.org/r''" by code_simp
  have r: "rstrip_char (CHR ''/'') ''https://llm'' = ''https://llm''" by code_simp
  have u: "url_texts demo_io (sr_form demo_request) = Inr ([''=== README (URL) ==='' @ newline @ ''hello''], [Fetch ''http://example.org/r''])"
    by (simp add: url_texts_def demo_request_def demo_io_def v st)
  have x: "extract_suggestion_json demo_answer = Inr [(''slug'', JStr ''x''), (''homepage_url'', JStr ''javascript:alert(1)''), (''evil'', JInt 1)]"
    by code_simp
  have c: "sanitize_suggestion (add_plugin_fields no_plugin (dset ''_has_config_template'' (JBool (has_config_template no_plugin))
       (dset ''_has_readme'' (JBool (has_readme no_plugin)) [(''slug'', JStr ''x''), (''homepage_url'', JStr ''javascript:alert(1)''), (''evil'', JInt 1)])))
     = demo_suggestion" by code_simp
  have l: "fst (llm_suggestion demo_io demo_env ip no_plugin [''=== README (URL) ==='' @ newline @ ''hello'']) = (200, JObj demo_suggestion)" for ip
    by (simp add: llm_suggestion_def Let_def demo_env_def getenv_def demo_io_def llm_content_def dget_def r x c)
  obtain lx where lx: "llm_suggestion demo_io demo_env (client_ip demo_request) no_plugin [''=== README (URL) ==='' @ newline @ ''hello''] = ((200, JObj demo_suggestion), lx)"
    using l [of "client_ip demo_request"] by (metis prod.collapse)
  have p: "plugin_part demo_io (sr_form demo_request) = Inr ([], no_plugin)" "readme_texts demo_io (sr_form demo_request) = []"
    by (simp_all add: plugin_part_def readme_texts_def named_upload_def demo_request_def)
  have a: "api_catalog_suggest demo_io (settings_defaults (\<lambda>_. None)) demo_env 0 demo_request [] =
      (Inr (200, JObj demo_suggestion), Fetch ''http://example.org/r'' # lx, [])"
    unfolding api_catalog_suggest_def Let_def u p using lx by (simp add: settings_defaults_def dm_manifest_no_plugin)
  then show ?thesis using suggest_safe [OF a] n by (fastforce simp: demo_io_def)
qed

end
