(* ===== verification/Deploy.thy ===== *)
theory Deploy
  imports Catalog Upload Suggest
begin

text \<open>
  \<open>POST /api/plugins/{slug}/deploy\<close> of \<open>app/main.py\<close>: version detection in the package, extraction and removal of the server's own metadata, storage of the
  binary, and the statements that publish the version and start a campaign. The connection is in autocommit mode, so every statement is its own transaction and
  an exception keeps what was written before it. The archive reader and writer and the storage back ends are parameters.
\<close>

section \<open>The package\<close>

record deploy_env = zipenv +
  rezip :: "zip_entry list \<Rightarrow> bytes"

definition entries :: "deploy_env \<Rightarrow> bytes \<Rightarrow> zip_entry list option" where
  "entries ze data = (case unzip ze data of Inr zs \<Rightarrow> Some zs | Inl _ \<Rightarrow> None)"

text \<open>\<open>zf.read(name)\<close>; every exception ends the enclosing \<open>try\<close>.\<close>

definition zread :: "zip_entry list \<Rightarrow> string \<Rightarrow> bytes option" where
  "zread zs n = (case getinfo zs n of Some z \<Rightarrow> (case z_data z of Inr b \<Rightarrow> Some b | Inl _ \<Rightarrow> None) | None \<Rightarrow> None)"

definition is_manifest :: "string \<Rightarrow> bool" where
  "is_manifest n = (base_of n \<in> {''dm-manifest.json'', ''dm_manifest.json''})"

definition is_config :: "string \<Rightarrow> bool" where
  "is_config n = (base_of n \<in> {''dm-config.json'', ''dm_config.json''})"

text \<open>\<open>re.search\<close> of \<open>value="(\d+\.\d+(?:\.\d+)*)"\<close>.\<close>

definition dotted :: "string \<Rightarrow> bool" where
  "dotted s = (let ps = split_on (CHR ''.'') s in 2 \<le> length ps \<and> list_all (\<lambda>p. p \<noteq> [] \<and> list_all is_digit p) ps)"

definition value_open :: string where "value_open = ''value='' @ [CHR 0x22]"

definition value_at :: "string \<Rightarrow> string option" where
  "value_at s =
     (if startswith s value_open then
        let v = takeWhile (\<lambda>c. is_digit c \<or> c = CHR ''.'') (drop 7 s); r = drop (7 + length v) s
        in if dotted v \<and> startswith r [CHR 0x22] then Some v else None
      else None)"

fun find_value :: "string \<Rightarrow> string option" where
  "find_value [] = None"
| "find_value (c # s) = (case value_at (c # s) of Some v \<Rightarrow> Some v | None \<Rightarrow> find_value s)"

text \<open>The three sources in order. Each step gives the version found so far, or \<open>None\<close> for an exception, which ends the search with what it had.\<close>

definition from_manifest_json :: "zip_entry list \<Rightarrow> json option" where
  "from_manifest_json zs =
     (if ''manifest.json'' \<in> z_name ` set zs
      then Option.bind (Option.bind (zread zs ''manifest.json'') loads_bytes) (\<lambda>mf. result_option (py_get mf ''version'' (JStr [])))
      else Some (JStr []))"

definition from_description :: "deploy_env \<Rightarrow> zip_entry list \<Rightarrow> json option" where
  "from_description ze zs =
     (if ''description.xml'' \<in> z_name ` set zs
      then map_option (\<lambda>b. case find_value (decode_replace ze b) of Some v \<Rightarrow> JStr v | None \<Rightarrow> JStr []) (zread zs ''description.xml'')
      else Some (JStr []))"

definition from_changelog :: "deploy_env \<Rightarrow> zip_entry list \<Rightarrow> json option" where
  "from_changelog ze zs =
     (case find is_manifest (map z_name zs) of
        None \<Rightarrow> Some (JStr [])
      | Some n \<Rightarrow>
          Option.bind (Option.bind (zread zs n) (\<lambda>b. loads (decode_replace ze b))) (\<lambda>dm.
          Option.bind (result_option (py_get dm ''changelog'' (JList []))) (\<lambda>cl. case cl of
            JList (e # _) \<Rightarrow> result_option (py_get e ''version'' (JStr [])) | _ \<Rightarrow> Some (JStr []))))"

fun first_found :: "json option list \<Rightarrow> json" where
  "first_found [] = JStr []"
| "first_found (None # _) = JStr []"
| "first_found (Some j # rest) = (if truthy j then j else first_found rest)"

definition detect_version :: "deploy_env \<Rightarrow> bytes \<Rightarrow> json" where
  "detect_version ze data =
     (case entries ze data of None \<Rightarrow> JStr [] | Some zs \<Rightarrow> first_found [from_manifest_json zs, from_description ze zs, from_changelog ze zs])"

text \<open>The first usable configuration and manifest; an exception keeps what was found before it.\<close>

fun scan_meta :: "deploy_env \<Rightarrow> zip_entry list \<Rightarrow> string list \<Rightarrow> json \<Rightarrow> json \<Rightarrow> json \<times> json" where
  "scan_meta ze zs [] tmpl mani = (tmpl, mani)"
| "scan_meta ze zs (n # ns) tmpl mani =
     (if is_config n \<and> \<not> truthy tmpl then
        (case Option.bind (zread zs n) (\<lambda>b. loads (decode_replace ze b)) of Some j \<Rightarrow> scan_meta ze zs ns j mani | None \<Rightarrow> (tmpl, mani))
      else if is_manifest n \<and> \<not> truthy mani then
        (case Option.bind (zread zs n) (\<lambda>b. loads (decode_replace ze b)) of Some j \<Rightarrow> scan_meta ze zs ns tmpl j | None \<Rightarrow> (tmpl, mani))
      else scan_meta ze zs ns tmpl mani)"

definition package_meta :: "deploy_env \<Rightarrow> bytes \<Rightarrow> json \<times> json" where
  "package_meta ze data = (case entries ze data of None \<Rightarrow> (JNull, JNull) | Some zs \<Rightarrow> scan_meta ze zs (map z_name zs) JNull JNull)"

definition strip_names :: "string list" where
  "strip_names = [''dm-config.json'', ''dm_config.json'', ''dm-manifest.json'', ''dm_manifest.json'']"

definition keep_entry :: "zip_entry \<Rightarrow> bool" where
  "keep_entry z = (lower (z_name z) \<notin> set strip_names)"

text \<open>The package without the server's metadata; unchanged when an entry cannot be read.\<close>

definition strip_package :: "deploy_env \<Rightarrow> bytes \<Rightarrow> bytes" where
  "strip_package ze data =
     (case entries ze data of
        None \<Rightarrow> data
      | Some zs \<Rightarrow>
          if list_all (\<lambda>z. keep_entry z \<longrightarrow> zread zs (z_name z) \<noteq> None) zs
          then rezip ze (map (\<lambda>z. z\<lparr>z_data := (case zread zs (z_name z) of Some b \<Rightarrow> Inr b | None \<Rightarrow> z_data z)\<rparr>) (filter keep_entry zs))
          else data)"

section \<open>Storage\<close>

record binary_store =
  bs_s3 :: "bytes dict"
  bs_files :: "bytes dict"
  bs_admin :: "bytes dict"

record store_io =
  so_disk :: disk
  so_s3_error :: "py_error option"
  so_write_error :: "py_error option"
  so_forward_ok :: bool

definition persist_plugin_binary ::
  "settings \<Rightarrow> store_io \<Rightarrow> bytes \<Rightarrow> string \<Rightarrow> string \<Rightarrow> binary_store \<Rightarrow> string result \<times> binary_store" where
  "persist_plugin_binary cfg io data rel dt st =
     (if binaries_mode cfg \<noteq> ''local'' then
        (let key = rstrip_char (CHR ''/'') (s3_prefix_binaries cfg) @ ''/'' @ rel
         in if str_or (s3_bucket cfg) [] = []
            then (Inl (RuntimeError (''S3 bucket not configured (DM_S3_BUCKET) for DM_BINARIES_MODE='' @ binaries_mode cfg)), st)
            else case so_s3_error io of Some e \<Rightarrow> (Inl e, st) | None \<Rightarrow> (Inr key, st\<lparr>bs_s3 := dset key data (bs_s3 st)\<rparr>))
      else
        let dk = so_disk io; join = safe_path_join (disk_links dk) (disk_limit dk) (disk_cwd dk) (local_binaries_dir cfg)
        in case bind_result (join dt) (\<lambda>_. join rel) of
             Inl e \<Rightarrow> (Inl e, st)
           | Inr full \<Rightarrow>
               (case so_write_error io of
                  Some e \<Rightarrow> (Inl e, st)
                | None \<Rightarrow>
                    (Inr (''/data/content/binaries/'' @ rel),
                     st\<lparr>bs_files := dset full data (bs_files st),
                        bs_admin := (if strip (queue_admin_token cfg) \<noteq> [] \<and> so_forward_ok io then dset rel data (bs_admin st) else bs_admin st)\<rparr>)))"

section \<open>The deployment\<close>

record deploy_args =
  da_slug :: string
  da_data :: bytes
  da_filename :: string
  da_version :: string
  da_strategy :: string
  da_urgency :: string
  da_cohort_id :: "string option"

record deploy_ids =
  dp_artifact :: int
  dp_version :: int
  dp_campaign :: int
  dp_flags :: "string \<Rightarrow> int"

record deploy_world =
  dw_cat :: cat_db
  dw_store :: binary_store

definition canary_stages :: json where
  "canary_stages = JObj [(''stages'', JList [
     JObj [(''percent'', JInt 5), (''duration_hours'', JInt 24), (''label'', JStr ''Canary (5%)'')],
     JObj [(''percent'', JInt 25), (''duration_hours'', JInt 48), (''label'', JStr ''Early adopters (25%)'')],
     JObj [(''percent'', JInt 100), (''duration_hours'', JInt 0), (''label'', JStr ''General availability'')]])]"

text \<open>The release notes of the version in the manifest's changelog.\<close>

fun notes_of :: "string \<Rightarrow> json list \<Rightarrow> string result" where
  "notes_of ver [] = Inr []"
| "notes_of ver (e # es) =
     bind_result (py_get e ''version'' JNull) (\<lambda>v.
       if v = JStr ver then
         bind_result (bind_result (py_get e ''changes'' (JList [])) py_iter) (\<lambda>cs. Inr (join_with newline (map (\<lambda>c. ''- '' @ py_str c) cs)))
       else notes_of ver es)"

definition release_notes :: "string \<Rightarrow> json \<Rightarrow> string result" where
  "release_notes ver mani =
     (if truthy mani then bind_result (bind_result (py_get mani ''changelog'' (JList [])) py_iter) (notes_of ver) else Inr [])"

text \<open>A plugin's version: the row written for it and the row it becomes when it exists already.\<close>

definition deployed_row :: "timestamp \<Rightarrow> int \<Rightarrow> int \<Rightarrow> string \<Rightarrow> int \<Rightarrow> string \<Rightarrow> version_row" where
  "deployed_row now vid pid ver aid notes =
     \<lparr>ve_id = vid, ve_plugin_id = pid, ve_artifact_id = Some aid, ve_version = ver, ve_release_notes = notes, ve_download_url = None,
      ve_min_host_version = None, ve_max_host_version = None, ve_status = ''published'', ve_distribution_mode = ''managed'',
      ve_published_at = Some now, ve_created_at = now\<rparr>"

definition publish_version :: "timestamp \<Rightarrow> int \<Rightarrow> int \<Rightarrow> string \<Rightarrow> int \<Rightarrow> string \<Rightarrow> cat_db \<Rightarrow> (int \<times> cat_db) result" where
  "publish_version now vid pid ver aid notes db =
     upsert_version (deployed_row now vid pid ver aid notes)
       (\<lambda>v. v\<lparr>ve_artifact_id := Some aid, ve_release_notes := nonempty_or notes (ve_release_notes v), ve_status := ''published'',
              ve_published_at := coalesce (ve_published_at v) (Some now)\<rparr>) db"

definition store_template :: "timestamp \<Rightarrow> (string \<Rightarrow> int) \<Rightarrow> int \<Rightarrow> string \<Rightarrow> json \<Rightarrow> cat_db \<Rightarrow> json \<times> cat_db" where
  "store_template now ids pid slug tmpl db =
     (if \<not> truthy tmpl then (JNull, db)
      else
        let db1 = db\<lparr>ct_plugins := map (\<lambda>p. if cp_id p = pid then p\<lparr>cp_template := Some tmpl\<rparr> else p) (ct_plugins db)\<rparr>;
            (d, fl) = reconcile_catalog_from_template now ids slug tmpl (ct_flags db1)
        in (JObj [(''added'', JList (map JStr (df_added d))), (''kept'', JList (map JStr (df_kept d))), (''reactivated'', JList (map JStr (df_reactivated d))),
                  (''orphaned'', JList (map JStr (df_orphaned d))), (''already_deprecated'', JList (map JStr (df_already_deprecated d)))],
            db1\<lparr>ct_flags := fl\<rparr>))"

definition store_changelog :: "int \<Rightarrow> json \<Rightarrow> cat_db \<Rightarrow> cat_db result" where
  "store_changelog pid mani db =
     (if \<not> truthy mani then Inr db
      else bind_result (py_get mani ''changelog'' JNull) (\<lambda>cl.
        Inr (if truthy cl then db\<lparr>ct_plugins := map (\<lambda>p. if cp_id p = pid then p\<lparr>cp_info := dset ''changelog'' cl (cp_info p)\<rparr> else p) (ct_plugins db)\<rparr> else db)))"

definition finished_by :: "int \<Rightarrow> campaign_row \<Rightarrow> bool" where
  "finished_by pid c = (ca_status c \<in> {Some ''active'', Some ''paused''} \<and> ca_type c = Some ''plugin_update'' \<and> ca_plugin_id c \<in> {Some pid, None})"

definition complete_campaigns :: "timestamp \<Rightarrow> int \<Rightarrow> cat_db \<Rightarrow> cat_db" where
  "complete_campaigns now pid db =
     db\<lparr>ct_campaigns := map (\<lambda>c. if finished_by pid c then c\<lparr>ca_status := Some ''completed'', ca_updated_at := now\<rparr> else c) (ct_campaigns db)\<rparr>"

definition deploy_campaign_args :: "deploy_args \<Rightarrow> string \<Rightarrow> string \<Rightarrow> int \<Rightarrow> int \<Rightarrow> int option \<Rightarrow> campaign_args" where
  "deploy_campaign_args a pname ver pid aid cohort =
     \<lparr>ca_name = ''Release '' @ pname @ '' v'' @ ver, ca_description = None, ca_type = Some ''plugin_update'', ca_artifact_id = Some aid,
      ca_rollback_artifact_id = None, ca_target_cohort_id = cohort, ca_urgency = Some (da_urgency a), ca_deadline_at = None, ca_status = Some ''active'',
      ca_rollout_config = (if da_strategy a = ''canary'' then canary_stages else JNull), ca_created_by = Some ''api'', ca_plugin_id = Some pid\<rparr>"

definition start_campaign :: "timestamp \<Rightarrow> int \<Rightarrow> deploy_args \<Rightarrow> string \<Rightarrow> string \<Rightarrow> int \<Rightarrow> int \<Rightarrow> cat_db \<Rightarrow> cat_db result" where
  "start_campaign now cid a pname ver pid aid db =
     bind_result (case da_cohort_id a of
         None \<Rightarrow> Inr None
       | Some s \<Rightarrow> if s = [] then Inr None else (case py_int s of Some n \<Rightarrow> Inr (Some n) | None \<Rightarrow> Inl (int_error s))) (\<lambda>cohort.
       bind_result (insert_campaign now cid (deploy_campaign_args a pname ver pid aid cohort) (campaign_db_of db)) (\<lambda>(_, cdb).
         Inr (db\<lparr>ct_campaigns := campaigns cdb\<rparr>)))"

text \<open>The statements after the binary is stored; the state beside the result is what stays when the next one fails.\<close>

definition deploy_statements ::
  "timestamp \<Rightarrow> deploy_ids \<Rightarrow> deploy_args \<Rightarrow> cat_plugin \<Rightarrow> string \<Rightarrow> string \<Rightarrow> string \<Rightarrow> string \<Rightarrow> json \<Rightarrow> json \<Rightarrow> cat_db \<Rightarrow> (int \<times> int \<times> json) result \<times> cat_db" where
  "deploy_statements now ids a p dt ver ref chk tmpl mani db =
     (case upsert_artifact now (dp_artifact ids) dt [] ver ref chk None db of
        Inl e \<Rightarrow> (Inl e, db)
      | Inr (aid, db1) \<Rightarrow>
          (let db2 = db1\<lparr>ct_versions := deprecate_others (cp_id p) ver (ct_versions db1)\<rparr>
           in case bind_result (release_notes ver mani) (\<lambda>notes. publish_version now (dp_version ids) (cp_id p) ver aid notes db2) of
                Inl e \<Rightarrow> (Inl e, db2)
              | Inr (vid, db3) \<Rightarrow>
                  (let (diff, db4) = store_template now (dp_flags ids) (cp_id p) (da_slug a) tmpl db3
                   in case store_changelog (cp_id p) mani db4 of
                        Inl e \<Rightarrow> (Inl e, db4)
                      | Inr db5 \<Rightarrow>
                          (let db6 = complete_campaigns now (cp_id p) db5
                           in case start_campaign now (dp_campaign ids) a (cp_name p) ver (cp_id p) aid db6 of
                                Inl e \<Rightarrow> (Inl e, db6)
                              | Inr db7 \<Rightarrow> (Inr (aid, vid, diff), db7)))))"

definition deploy_error :: "(py_error \<Rightarrow> string) \<Rightarrow> py_error \<Rightarrow> response" where
  "deploy_error txt e = fail_json 500 (txt e)"

definition safe_version :: "json \<Rightarrow> string result" where
  "safe_version v = (case v of JStr s \<Rightarrow> safe_segment s ''version'' | _ \<Rightarrow> Inl TypeError)"

definition deploy_plugin_db_work ::
  "settings \<Rightarrow> deploy_env \<Rightarrow> store_io \<Rightarrow> (py_error \<Rightarrow> string) \<Rightarrow> timestamp \<Rightarrow> deploy_ids \<Rightarrow> deploy_args \<Rightarrow> deploy_world \<Rightarrow> response \<times> deploy_world" where
  "deploy_plugin_db_work cfg ze io txt now ids a w =
     (case find (\<lambda>p. cp_slug p = da_slug a \<and> cp_status p = ''active'') (ct_plugins (dw_cat w)) of
        None \<Rightarrow> (fail_json 404 (''Plugin '' @ repr_str (da_slug a) @ '' not found''), w)
      | Some p \<Rightarrow>
          let ver0 = (if da_version a \<noteq> [] then JStr (da_version a) else detect_version ze (da_data a))
          in if \<not> truthy ver0 then (fail_json 400 ''version required (not detected in package)'', w)
             else
               let (tmpl, mani) = package_meta ze (da_data a); data = strip_package ze (da_data a); chk = compute_checksum data
               in case bind_result (safe_segment (cp_device_type p) ''device_type'') (\<lambda>dt. bind_result (safe_version ver0) (\<lambda>ver.
                       bind_result (safe_segment (if da_filename a \<noteq> [] then da_filename a else da_slug a @ ''-'' @ ver @ ''.oxt'') ''filename'') (\<lambda>fname.
                         Inr (dt, ver, dt @ ''/'' @ ver @ ''_'' @ fname)))) of
                    Inl e \<Rightarrow> (deploy_error txt e, w)
                  | Inr (dt, ver, rel) \<Rightarrow>
                      (case persist_plugin_binary cfg io data rel dt (dw_store w) of
                         (Inl e, st) \<Rightarrow> (deploy_error txt e, w\<lparr>dw_store := st\<rparr>)
                       | (Inr ref, st) \<Rightarrow>
                           (case deploy_statements now ids a p dt ver ref chk tmpl mani (dw_cat w) of
                              (Inl e, db) \<Rightarrow> (deploy_error txt e, \<lparr>dw_cat = db, dw_store = st\<rparr>)
                            | (Inr (aid, vid, diff), db) \<Rightarrow>
                                (ok_json 201 [(''plugin_id'', JInt (cp_id p)), (''version'', JStr ver),
                                   (''version_id'', JInt vid), (''artifact_id'', JInt aid), (''campaign_id'', JInt (dp_campaign ids)),
                                   (''checksum'', JStr chk), (''strategy'', JStr (da_strategy a)), (''feature_flags'', diff)],
                                 \<lparr>dw_cat = db, dw_store = st\<rparr>))))"

record deploy_form =
  fo_binary :: "(string \<times> bytes) option"
  fo_version :: "string option"
  fo_strategy :: "string option"
  fo_urgency :: "string option"
  fo_cohort_id :: "string option"

definition api_plugin_deploy ::
  "env \<Rightarrow> settings \<Rightarrow> deploy_env \<Rightarrow> store_io \<Rightarrow> (py_error \<Rightarrow> string) \<Rightarrow> bool \<Rightarrow> timestamp \<Rightarrow> deploy_ids \<Rightarrow> headers \<Rightarrow> string \<Rightarrow> deploy_form \<Rightarrow> deploy_world
     \<Rightarrow> response result \<times> deploy_world" where
  "api_plugin_deploy e cfg ze io txt use_db now ids hs slug f w =
     (case verify_admin_token e hs of
        Inl er \<Rightarrow> (Inl er, w)
      | Inr False \<Rightarrow> (Inr (fail_json 401 ''Unauthorized''), w)
      | Inr True \<Rightarrow>
          (case fo_binary f of
             None \<Rightarrow> (Inr (fail_json 400 ''binary file required''), w)
           | Some (fname, data) \<Rightarrow>
               if data = [] then (Inr (fail_json 400 ''empty file''), w)
               else if \<not> use_db then (Inr (fail_json 500 ''Database not configured''), w)
               else
                 let opt = (\<lambda>x d. strip (case x of Some v \<Rightarrow> v | None \<Rightarrow> d));
                     (r, w') = deploy_plugin_db_work cfg ze io txt now ids \<lparr>da_slug = slug, da_data = data, da_filename = fname,
                       da_version = opt (fo_version f) [], da_strategy = opt (fo_strategy f) ''canary'', da_urgency = opt (fo_urgency f) ''normal'',
                       da_cohort_id = fo_cohort_id f\<rparr> w
                 in (Inr r, w')))"

section \<open>Lemmas\<close>

lemma upsert_artifact_only: "upsert_artifact now aid dt variant ver path chk url db = Inr (i, db') \<Longrightarrow> \<exists>as. db' = db\<lparr>ct_artifacts := as\<rparr>"
  by (auto simp: upsert_artifact_def split: if_splits option.splits)

lemma find_unique: "distinct (map ar_id as) \<Longrightarrow> x \<in> set as \<Longrightarrow> find (\<lambda>a. ar_id a = ar_id x) as = Some x"
  by (induction as) auto

lemma upsert_artifact_get:
  assumes "upsert_artifact now aid dt variant ver path chk url db = Inr (i, db')" "artifacts_ok db" "aid \<notin> set (map ar_id (ct_artifacts db))"
  shows "\<exists>ar. get_artifact db' i = Some ar \<and> ar_version ar = ver \<and> ar_device_type ar = dt \<and> ar_s3_path ar = Some path \<and> ar_checksum ar = Some chk"
proof (cases "find (artifact_key dt variant ver) (ct_artifacts db)")
  case None
  have "get_artifact (db\<lparr>ct_artifacts := ct_artifacts db @ [a]\<rparr>) (ar_id a) = Some a" if "ar_id a = aid" for a
  proof -
    have "find (\<lambda>x. ar_id x = aid) (ct_artifacts db) = None" using assms(3) by (auto simp: find_None_iff)
    then show ?thesis using that by (simp add: get_artifact_def find_snoc)
  qed
  then show ?thesis using assms(1) None by (auto simp: upsert_artifact_def split: if_splits)
next
  case (Some old)
  let ?f = "\<lambda>a. if artifact_key dt variant ver a
    then a\<lparr>ar_s3_path := Some path, ar_checksum := Some chk, ar_changelog_url := coalesce url (ar_changelog_url a), ar_released_at := now\<rparr> else a"
  have i: "i = ar_id old" "db' = db\<lparr>ct_artifacts := map ?f (ct_artifacts db)\<rparr>"
    using assms(1) Some by (auto simp: upsert_artifact_def split: if_splits)
  have old: "old \<in> set (ct_artifacts db)" "artifact_key dt variant ver old" using Some by (auto simp: find_Some_iff)
  have "find (\<lambda>a. ar_id a = ar_id old) (ct_artifacts db) = Some old"
    using old(1) assms(2) by (simp add: artifacts_ok_def find_unique)
  moreover have "get_artifact db' i = map_option ?f (find (\<lambda>a. ar_id a = ar_id old) (ct_artifacts db))"
    unfolding i get_artifact_def by (simp add: find_map_key)
  ultimately show ?thesis using old(2) by (simp add: artifact_key_def)
qed

text \<open>The published versions of a plugin.\<close>

definition published :: "cat_db \<Rightarrow> int \<Rightarrow> version_row set" where
  "published db pid = {v \<in> set (ct_versions db). ve_plugin_id v = pid \<and> ve_status v = ''published''}"

definition others :: "cat_db \<Rightarrow> int \<Rightarrow> version_row list" where
  "others db pid = filter (\<lambda>v. ve_plugin_id v \<noteq> pid) (ct_versions db)"

lemma others_map: "(\<And>v. ve_plugin_id (f v) = ve_plugin_id v \<and> (ve_plugin_id v \<noteq> pid \<longrightarrow> f v = v)) \<Longrightarrow>
  filter (\<lambda>v. ve_plugin_id v \<noteq> pid) (map f vs) = filter (\<lambda>v. ve_plugin_id v \<noteq> pid) vs"
  by (induction vs) auto

lemma deprecate_others_keep [simp]: "filter (\<lambda>v. ve_plugin_id v \<noteq> pid) (deprecate_others pid ver vs) = filter (\<lambda>v. ve_plugin_id v \<noteq> pid) vs"
  unfolding deprecate_others_def by (rule others_map) auto

definition publish_row :: "timestamp \<Rightarrow> int \<Rightarrow> string \<Rightarrow> version_row \<Rightarrow> version_row" where
  "publish_row now aid rn v = v\<lparr>ve_artifact_id := Some aid, ve_release_notes := nonempty_or rn (ve_release_notes v), ve_status := ''published'',
     ve_published_at := coalesce (ve_published_at v) (Some now)\<rparr>"

lemma publish_row_simps [simp]:
  "ve_plugin_id (publish_row now aid rn v) = ve_plugin_id v" "ve_version (publish_row now aid rn v) = ve_version v" "ve_id (publish_row now aid rn v) = ve_id v"
  "ve_status (publish_row now aid rn v) = ''published''" "ve_artifact_id (publish_row now aid rn v) = Some aid"
  by (simp_all add: publish_row_def)

lemma deprecated_stale:
  assumes "v \<in> set (deprecate_others pid ver vs)" "ve_plugin_id v = pid" "ve_status v = ''published''"
  shows "ve_version v = ver"
proof -
  obtain u where u: "v = (if ve_plugin_id u = pid \<and> ve_status u = ''published'' \<and> ve_version u \<noteq> ver then u\<lparr>ve_status := ''deprecated''\<rparr> else u)"
    using assms(1) unfolding deprecate_others_def set_map by blast
  show ?thesis
  proof (cases "ve_plugin_id u = pid \<and> ve_status u = ''published'' \<and> ve_version u \<noteq> ver")
    case True
    then have "ve_status v = ''deprecated''" using u by simp
    then show ?thesis using assms(3) by simp
  next
    case False
    then have "v = u" using u by simp
    then show ?thesis using False assms(2,3) by simp
  qed
qed

lemma deprecated_unique:
  assumes "versions_ok db" "v \<in> set (deprecate_others pid ver (ct_versions db))" "u \<in> set (deprecate_others pid ver (ct_versions db))"
    "version_key pid ver v" "version_key pid ver u"
  shows "v = u"
proof -
  let ?vs = "deprecate_others pid ver (ct_versions db)" and ?k = "\<lambda>v. (ve_plugin_id v, ve_version v)"
  have "map ?k ?vs = map ?k (ct_versions db)" unfolding deprecate_others_def by simp
  moreover have "distinct (map ?k (ct_versions db))" using assms(1) unfolding versions_ok_def by (elim conjE)
  ultimately have "distinct (map ?k ?vs)" by (simp only:)
  then have "inj_on ?k (set ?vs)" unfolding distinct_map by (rule conjunct2)
  moreover have "?k v = ?k u" using assms(4,5) unfolding version_key_def by simp
  ultimately show ?thesis using assms(2,3) by (rule inj_onD)
qed

lemma publish_cases:
  assumes "publish_version now vid pid ver aid rn (db\<lparr>ct_versions := vs\<rparr>) = Inr (i, db')"
  shows "(\<forall>v \<in> set vs. \<not> version_key pid ver v) \<and> i = vid \<and> db' = db\<lparr>ct_versions := vs @ [deployed_row now vid pid ver aid rn]\<rparr> \<or>
    (\<exists>old \<in> set vs. version_key pid ver old \<and> i = ve_id old \<and>
      db' = db\<lparr>ct_versions := map (\<lambda>v. if version_key pid ver v then publish_row now aid rn v else v) vs\<rparr>)"
proof (cases "find (version_key pid ver) vs")
  case None
  have "\<forall>v \<in> set vs. \<not> version_key pid ver v" using None by (auto simp: find_None_iff)
  then show ?thesis using assms None
    by (auto simp: publish_version_def upsert_version_def deployed_row_def split: if_splits)
next
  case (Some old)
  have "old \<in> set vs" "version_key pid ver old" using Some by (auto simp: find_Some_iff)
  then show ?thesis using assms Some
    by (auto simp: publish_version_def upsert_version_def deployed_row_def publish_row_def split: if_splits)
qed

lemma publish_single:
  assumes "publish_version now vid pid ver aid rn (db\<lparr>ct_versions := deprecate_others pid ver (ct_versions db)\<rparr>) = Inr (i, db')" "versions_ok db"
  shows "\<exists>v vs. db' = db\<lparr>ct_versions := vs\<rparr> \<and> published db' pid = {v} \<and> ve_version v = ver \<and> ve_artifact_id v = Some aid \<and> ve_id v = i \<and> others db' pid = others db pid"
proof -
  let ?vs = "deprecate_others pid ver (ct_versions db)" and ?row = "deployed_row now vid pid ver aid rn"
  have row: "ve_plugin_id ?row = pid" "ve_status ?row = ''published''" "ve_version ?row = ver" "ve_artifact_id ?row = Some aid" "ve_id ?row = vid"
    by (simp_all add: deployed_row_def)
  consider (new) "\<forall>v \<in> set ?vs. \<not> version_key pid ver v" "i = vid" "db' = db\<lparr>ct_versions := ?vs @ [?row]\<rparr>"
    | (again) old where "old \<in> set ?vs" "version_key pid ver old" "i = ve_id old"
        "db' = db\<lparr>ct_versions := map (\<lambda>v. if version_key pid ver v then publish_row now aid rn v else v) ?vs\<rparr>"
    using publish_cases [OF assms(1)] by blast
  then show ?thesis
  proof cases
    case new
    have "published db' pid = {?row}"
      using new(1) row deprecated_stale unfolding published_def new(3) version_key_def by auto
    moreover have "others db' pid = others db pid" using row(1) by (simp add: others_def new(3))
    ultimately show ?thesis using new row by blast
  next
    case again
    let ?f = "\<lambda>v. if version_key pid ver v then publish_row now aid rn v else v"
    have "v \<in> ?f ` set ?vs \<and> ve_plugin_id v = pid \<and> ve_status v = ''published'' \<longleftrightarrow> v = publish_row now aid rn old" for v
    proof
      assume v: "v \<in> ?f ` set ?vs \<and> ve_plugin_id v = pid \<and> ve_status v = ''published''"
      then obtain u where u: "u \<in> set ?vs" "v = ?f u" by blast
      have "version_key pid ver u"
        using v u deprecated_stale [OF u(1)] by (auto simp: version_key_def split: if_splits)
      then show "v = publish_row now aid rn old" using u deprecated_unique [OF assms(2) u(1) again(1)] again(2) by simp
    next
      assume "v = publish_row now aid rn old"
      moreover have "publish_row now aid rn old = ?f old" using again(2) by simp
      ultimately show "v \<in> ?f ` set ?vs \<and> ve_plugin_id v = pid \<and> ve_status v = ''published''"
        using again(1,2) by (auto simp: version_key_def)
    qed
    then have "published db' pid = {publish_row now aid rn old}" unfolding published_def again(4) by auto
    moreover have "others db' pid = others db pid"
      unfolding others_def again(4) by (simp, subst others_map) (auto simp: version_key_def)
    ultimately show ?thesis using again by (auto simp: version_key_def)
  qed
qed

lemma publish_ids:
  assumes "publish_version now vid pid ver aid rn (db\<lparr>ct_versions := deprecate_others pid ver (ct_versions db)\<rparr>) = Inr (i, db')" "u \<in> set (ct_versions db')"
  shows "(ve_id u, ve_plugin_id u) = (vid, pid) \<or> (\<exists>o' \<in> set (ct_versions db). ve_id u = ve_id o' \<and> ve_plugin_id u = ve_plugin_id o')"
proof -
  have d: "\<exists>o' \<in> set (ct_versions db). ve_id v = ve_id o' \<and> ve_plugin_id v = ve_plugin_id o'" if "v \<in> set (deprecate_others pid ver (ct_versions db))" for v
    using that unfolding deprecate_others_def by (auto split: if_splits)
  from publish_cases [OF assms(1)] show ?thesis
  proof (elim disjE bexE conjE)
    assume "db' = db\<lparr>ct_versions := deprecate_others pid ver (ct_versions db) @ [deployed_row now vid pid ver aid rn]\<rparr>"
    then show ?thesis using assms(2) d by (auto simp: deployed_row_def)
  next
    fix old
    assume "db' = db\<lparr>ct_versions := map (\<lambda>v. if version_key pid ver v then publish_row now aid rn v else v) (deprecate_others pid ver (ct_versions db))\<rparr>"
    then show ?thesis using assms(2) d by (auto split: if_splits)
  qed
qed

lemma publish_managed:
  assumes "publish_version now vid pid ver aid rn (db\<lparr>ct_versions := deprecate_others pid ver (ct_versions db)\<rparr>) = Inr (i, db')" "u \<in> set (ct_versions db')"
    "ve_plugin_id u = pid" "\<forall>o' \<in> set (ct_versions db). ve_plugin_id o' = pid \<longrightarrow> ve_distribution_mode o' = ''managed''"
  shows "ve_distribution_mode u = ''managed''"
proof -
  have d: "ve_distribution_mode v = ''managed''" if vm: "v \<in> set (deprecate_others pid ver (ct_versions db))" and vp: "ve_plugin_id v = pid" for v
  proof -
    obtain o' where o: "o' \<in> set (ct_versions db)" "ve_plugin_id v = ve_plugin_id o'" "ve_distribution_mode v = ve_distribution_mode o'"
      using vm unfolding deprecate_others_def set_map by (elim imageE) (simp split: if_splits)
    then show ?thesis using vp assms(4) by simp
  qed
  from publish_cases [OF assms(1)] show ?thesis
  proof (elim disjE bexE conjE)
    assume "db' = db\<lparr>ct_versions := deprecate_others pid ver (ct_versions db) @ [deployed_row now vid pid ver aid rn]\<rparr>"
    then consider "u \<in> set (deprecate_others pid ver (ct_versions db))" | "u = deployed_row now vid pid ver aid rn" using assms(2) by auto
    then show ?thesis by cases (simp_all add: d assms(3) deployed_row_def)
  next
    fix old
    assume "db' = db\<lparr>ct_versions := map (\<lambda>v. if version_key pid ver v then publish_row now aid rn v else v) (deprecate_others pid ver (ct_versions db))\<rparr>"
    then obtain v where "v \<in> set (deprecate_others pid ver (ct_versions db))" "u = (if version_key pid ver v then publish_row now aid rn v else v)"
      using assms(2) by auto
    then show ?thesis using assms(3) d [of v] by (simp add: publish_row_def split: if_splits)
  qed
qed

text \<open>What the clients of the catalogue look a plugin up by.\<close>

definition plugin_key :: "cat_plugin \<Rightarrow> int \<times> string \<times> string \<times> string" where
  "plugin_key p = (cp_id p, cp_slug p, cp_status p, cp_device_type p)"

definition same_but_plugins :: "cat_db \<Rightarrow> cat_db \<Rightarrow> bool" where
  "same_but_plugins db db' = (ct_versions db' = ct_versions db \<and> ct_artifacts db' = ct_artifacts db \<and> ct_campaigns db' = ct_campaigns db \<and>
     ct_links db' = ct_links db \<and> ct_cohorts db' = ct_cohorts db \<and> map plugin_key (ct_plugins db') = map plugin_key (ct_plugins db))"

lemma store_template_only: "store_template now ids pid slug tmpl db = (d, db') \<Longrightarrow> same_but_plugins db db'"
  by (auto simp: same_but_plugins_def plugin_key_def store_template_def Let_def split: if_splits prod.splits)

lemma store_changelog_only: "store_changelog pid mani db = Inr db' \<Longrightarrow> same_but_plugins db db'"
  by (auto simp: same_but_plugins_def plugin_key_def store_changelog_def bind_result_def split: if_splits sum.splits)

lemma same_trans: "same_but_plugins a b \<Longrightarrow> same_but_plugins b c \<Longrightarrow> same_but_plugins a c"
  by (simp add: same_but_plugins_def)

lemma start_campaign_adds:
  assumes "start_campaign now cid a pname ver pid aid db = Inr db'"
  shows "\<exists>cohort. db' = db\<lparr>ct_campaigns := ct_campaigns db @ [new_row now cid (deploy_campaign_args a pname ver pid aid cohort)]\<rparr>"
  using assms by (auto simp: start_campaign_def bind_result_def insert_campaign_def campaign_db_of_def split: sum.splits if_splits option.splits)

text \<open>The statements in order.\<close>

lemma deploy_statements_success:
  assumes "deploy_statements now ids a p dt ver ref chk tmpl mani db = (Inr (aid, vid, diff), db')"
  obtains db1 db3 db5 rn cohort where
    "upsert_artifact now (dp_artifact ids) dt [] ver ref chk None db = Inr (aid, db1)"
    "publish_version now (dp_version ids) (cp_id p) ver aid rn (db1\<lparr>ct_versions := deprecate_others (cp_id p) ver (ct_versions db1)\<rparr>) = Inr (vid, db3)"
    "same_but_plugins db3 db5"
    "db' = (complete_campaigns now (cp_id p) db5)\<lparr>ct_campaigns := ct_campaigns (complete_campaigns now (cp_id p) db5) @
       [new_row now (dp_campaign ids) (deploy_campaign_args a (cp_name p) ver (cp_id p) aid cohort)]\<rparr>"
proof -
  obtain db1 where d1: "upsert_artifact now (dp_artifact ids) dt [] ver ref chk None db = Inr (aid, db1)"
    using assms by (auto simp: deploy_statements_def Let_def split: sum.splits prod.splits)
  let ?db2 = "db1\<lparr>ct_versions := deprecate_others (cp_id p) ver (ct_versions db1)\<rparr>"
  obtain rn db3 where d3: "publish_version now (dp_version ids) (cp_id p) ver aid rn ?db2 = Inr (vid, db3)"
      and r: "bind_result (release_notes ver mani) (\<lambda>notes. publish_version now (dp_version ids) (cp_id p) ver aid notes ?db2) = Inr (vid, db3)"
    using assms d1 by (auto simp: deploy_statements_def Let_def bind_result_def split: sum.splits prod.splits)
  obtain db4 where d4: "store_template now (dp_flags ids) (cp_id p) (da_slug a) tmpl db3 = (diff, db4)"
    using assms d1 r by (auto simp: deploy_statements_def Let_def split: sum.splits prod.splits)
  obtain db5 where d5: "store_changelog (cp_id p) mani db4 = Inr db5"
    using assms d1 r d4 by (auto simp: deploy_statements_def Let_def split: sum.splits prod.splits)
  have "start_campaign now (dp_campaign ids) a (cp_name p) ver (cp_id p) aid (complete_campaigns now (cp_id p) db5) = Inr db'"
    using assms d1 r d4 d5 by (auto simp: deploy_statements_def Let_def split: sum.splits prod.splits)
  from start_campaign_adds [OF this] show ?thesis
    using that [OF d1 d3 same_trans [OF store_template_only [OF d4] store_changelog_only [OF d5]]] by auto
qed

definition open_campaigns :: "cat_db \<Rightarrow> int \<Rightarrow> campaign_row set" where
  "open_campaigns db pid = {c \<in> set (ct_campaigns db). finished_by pid c}"

lemma completed_none: "c \<in> set (ct_campaigns (complete_campaigns now pid db)) \<Longrightarrow> \<not> finished_by pid c"
  by (auto simp: complete_campaigns_def finished_by_def split: if_splits)

lemma complete_campaigns_simps [simp]:
  "ct_versions (complete_campaigns now pid db) = ct_versions db" "ct_artifacts (complete_campaigns now pid db) = ct_artifacts db"
  by (simp_all add: complete_campaigns_def)

text \<open>Where the bytes of a stored reference are.\<close>

definition stored_at :: "settings \<Rightarrow> store_io \<Rightarrow> string \<Rightarrow> binary_store \<Rightarrow> bytes option" where
  "stored_at cfg io ref st =
     (if binaries_mode cfg \<noteq> ''local'' then dget (bs_s3 st) ref
      else case safe_path_join (disk_links (so_disk io)) (disk_limit (so_disk io)) (disk_cwd (so_disk io)) (local_binaries_dir cfg) (drop (length ''/data/content/binaries/'') ref) of
        Inr full \<Rightarrow> dget (bs_files st) full | Inl _ \<Rightarrow> None)"

lemma persist_stores:
  "persist_plugin_binary cfg io data rel dt st = (Inr ref, st') \<Longrightarrow> stored_at cfg io ref st' = Some data"
  by (auto simp: persist_plugin_binary_def stored_at_def Let_def bind_result_def split: if_splits option.splits sum.splits)

definition find_active :: "cat_db \<Rightarrow> string \<Rightarrow> cat_plugin option" where
  "find_active db slug = find (\<lambda>p. cp_slug p = slug \<and> cp_status p = ''active'') (ct_plugins db)"

definition deploy_path :: "string \<Rightarrow> string \<Rightarrow> string \<Rightarrow> string" where
  "deploy_path dt ver fname = dt @ ''/'' @ ver @ ''_'' @ fname"

lemma deploy_success:
  assumes "deploy_plugin_db_work cfg ze io txt now ids a w = (r, w')" "r_status r = 201"
  obtains p dt ver fname ref aid vid diff tmpl mani v0 f0 where
    "find_active (dw_cat w) (da_slug a) = Some p" "safe_segment (cp_device_type p) ''device_type'' = Inr dt" "safe_segment v0 ''version'' = Inr ver"
    "safe_segment f0 ''filename'' = Inr fname"
    "persist_plugin_binary cfg io (strip_package ze (da_data a)) (deploy_path dt ver fname) dt (dw_store w) = (Inr ref, dw_store w')"
    "deploy_statements now ids a p dt ver ref (compute_checksum (strip_package ze (da_data a))) tmpl mani (dw_cat w) = (Inr (aid, vid, diff), dw_cat w')"
proof -
  obtain p where p: "find_active (dw_cat w) (da_slug a) = Some p"
    using assms by (auto simp: find_active_def deploy_plugin_db_work_def fail_json_def split: option.splits)
  then show ?thesis using assms that unfolding find_active_def deploy_path_def
    by (auto simp: deploy_plugin_db_work_def fail_json_def deploy_error_def safe_version_def Let_def bind_result_def
        split: if_splits prod.splits sum.splits json.splits)
qed

text \<open>The effect of a successful deployment.\<close>

definition deployed :: "settings \<Rightarrow> store_io \<Rightarrow> timestamp \<Rightarrow> deploy_ids \<Rightarrow> bytes \<Rightarrow> deploy_world \<Rightarrow> deploy_world \<Rightarrow> cat_plugin \<Rightarrow> string \<Rightarrow> int \<Rightarrow> string \<Rightarrow> bool" where
  "deployed cfg io now ids data w w' p ver aid ref \<longleftrightarrow>
     stored_at cfg io ref (dw_store w') = Some data \<and>
     (\<exists>ar. get_artifact (dw_cat w') aid = Some ar \<and> ar_version ar = ver \<and> ar_s3_path ar = Some ref \<and> ar_checksum ar = Some (compute_checksum data)) \<and>
     (\<exists>v. published (dw_cat w') (cp_id p) = {v} \<and> ve_version v = ver \<and> ve_artifact_id v = Some aid) \<and>
     (\<exists>c. open_campaigns (dw_cat w') (cp_id p) = {c} \<and> ca_id c = dp_campaign ids \<and> ca_artifact_id c = Some aid \<and> ca_status c = Some ''active'') \<and>
     others (dw_cat w') (cp_id p) = others (dw_cat w) (cp_id p)"

lemma deploy_effect:
  assumes "deploy_statements now ids a p dt ver ref (compute_checksum data) tmpl mani (dw_cat w) = (Inr (aid, vid, diff), dw_cat w')"
    "stored_at cfg io ref (dw_store w') = Some data" "cat_wf (dw_cat w)" "dp_artifact ids \<notin> set (map ar_id (ct_artifacts (dw_cat w)))"
  shows "deployed cfg io now ids data w w' p ver aid ref"
proof -
  obtain db1 db3 db5 rn cohort where
    up: "upsert_artifact now (dp_artifact ids) dt [] ver ref (compute_checksum data) None (dw_cat w) = Inr (aid, db1)"
    and pub: "publish_version now (dp_version ids) (cp_id p) ver aid rn (db1\<lparr>ct_versions := deprecate_others (cp_id p) ver (ct_versions db1)\<rparr>) = Inr (vid, db3)"
    and db5: "same_but_plugins db3 db5"
    and w': "dw_cat w' = (complete_campaigns now (cp_id p) db5)\<lparr>ct_campaigns := ct_campaigns (complete_campaigns now (cp_id p) db5) @
       [new_row now (dp_campaign ids) (deploy_campaign_args a (cp_name p) ver (cp_id p) aid cohort)]\<rparr>"
    using deploy_statements_success [OF assms(1)] by metis
  let ?c = "new_row now (dp_campaign ids) (deploy_campaign_args a (cp_name p) ver (cp_id p) aid cohort)"
  note same = db5 [unfolded same_but_plugins_def]
  have ok: "artifacts_ok (dw_cat w)" using assms(3) by (simp add: cat_wf_def)
  obtain as where db1: "db1 = (dw_cat w)\<lparr>ct_artifacts := as\<rparr>" using upsert_artifact_only [OF up] by blast
  have "versions_ok db1" using wf_upsert_artifact [OF assms(3,4) up] by (simp add: cat_wf_def)
  from publish_single [OF pub this] obtain v vs where v: "db3 = db1\<lparr>ct_versions := vs\<rparr>" "published db3 (cp_id p) = {v}" "ve_version v = ver" "ve_artifact_id v = Some aid"
    "others db3 (cp_id p) = others db1 (cp_id p)" by blast
  obtain ar where ar: "get_artifact db1 aid = Some ar" "ar_version ar = ver" "ar_s3_path ar = Some ref" "ar_checksum ar = Some (compute_checksum data)"
    using upsert_artifact_get [OF up ok assms(4)] by blast
  have "get_artifact (dw_cat w') aid = Some ar" using ar(1) same by (simp add: get_artifact_def w' v(1))
  moreover have "published (dw_cat w') (cp_id p) = {v}" using v(2) same by (simp add: published_def w')
  moreover have "others (dw_cat w') (cp_id p) = others (dw_cat w) (cp_id p)" using v(5) same by (simp add: others_def w' db1)
  moreover have "open_campaigns (dw_cat w') (cp_id p) = {?c}"
  proof -
    have "finished_by (cp_id p) ?c" by (simp add: finished_by_def deploy_campaign_args_def)
    then show ?thesis using completed_none [of _ now "cp_id p" db5] unfolding open_campaigns_def w' by auto
  qed
  moreover have "ca_id ?c = dp_campaign ids" "ca_artifact_id ?c = Some aid" "ca_status ?c = Some ''active''" by (simp_all add: deploy_campaign_args_def)
  ultimately show ?thesis using assms(2) ar(2-4) v(3,4) unfolding deployed_def by blast
qed

lemma deploy_keeps:
  assumes "deploy_statements now ids a p dt ver ref chk tmpl mani db = (Inr (aid, vid, diff), db')"
  shows "map plugin_key (ct_plugins db') = map plugin_key (ct_plugins db) \<and> ct_links db' = ct_links db \<and>
    (aid = dp_artifact ids \<or> aid \<in> set (map ar_id (ct_artifacts db))) \<and>
    (\<forall>u \<in> set (ct_versions db'). (ve_id u, ve_plugin_id u) = (dp_version ids, cp_id p) \<or>
       (\<exists>o' \<in> set (ct_versions db). ve_id u = ve_id o' \<and> ve_plugin_id u = ve_plugin_id o')) \<and>
    ((\<forall>o' \<in> set (ct_versions db). ve_plugin_id o' = cp_id p \<longrightarrow> ve_distribution_mode o' = ''managed'') \<longrightarrow>
       (\<forall>u \<in> set (ct_versions db'). ve_plugin_id u = cp_id p \<longrightarrow> ve_distribution_mode u = ''managed''))"
proof -
  obtain db1 db3 db5 rn cohort where
    up: "upsert_artifact now (dp_artifact ids) dt [] ver ref chk None db = Inr (aid, db1)"
    and pub: "publish_version now (dp_version ids) (cp_id p) ver aid rn (db1\<lparr>ct_versions := deprecate_others (cp_id p) ver (ct_versions db1)\<rparr>) = Inr (vid, db3)"
    and db5: "same_but_plugins db3 db5"
    and w': "db' = (complete_campaigns now (cp_id p) db5)\<lparr>ct_campaigns := ct_campaigns (complete_campaigns now (cp_id p) db5) @
       [new_row now (dp_campaign ids) (deploy_campaign_args a (cp_name p) ver (cp_id p) aid cohort)]\<rparr>"
    using deploy_statements_success [OF assms] by metis
  obtain as where db1: "db1 = db\<lparr>ct_artifacts := as\<rparr>" using upsert_artifact_only [OF up] by blast
  have db3: "ct_plugins db3 = ct_plugins db1" "ct_links db3 = ct_links db1" using publish_cases [OF pub] by auto
  have "ct_versions db' = ct_versions db3" "ct_links db' = ct_links db" "map plugin_key (ct_plugins db') = map plugin_key (ct_plugins db)"
    using db5 db3 unfolding same_but_plugins_def by (simp_all add: w' complete_campaigns_def db1)
  moreover have "aid = dp_artifact ids \<or> aid \<in> set (map ar_id (ct_artifacts db))"
    using up by (auto simp: upsert_artifact_def find_Some_iff split: if_splits option.splits)
  ultimately show ?thesis using publish_ids [OF pub] publish_managed [OF pub] unfolding db1 by simp
qed

section \<open>Properties\<close>

text \<open>Property C30. A deployment that answers 201 published the package and nothing else: the stored bytes are the package without the server's metadata, the
  artifact row points to them with their checksum, the plugin has exactly one published version, the deployed one with that artifact, exactly one open update campaign
  competes for the plugin, the new one for that artifact, and the versions of all other plugins are as they were.\<close>

theorem deploy_publishes:
  assumes "deploy_plugin_db_work cfg ze io txt now ids a w = (r, w')" "r_status r = 201" "cat_wf (dw_cat w)"
    "dp_artifact ids \<notin> set (map ar_id (ct_artifacts (dw_cat w)))"
  shows "\<exists>p ver aid ref ar v c.
    p \<in> set (ct_plugins (dw_cat w)) \<and> cp_slug p = da_slug a \<and> cp_status p = ''active'' \<and>
    stored_at cfg io ref (dw_store w') = Some (strip_package ze (da_data a)) \<and>
    get_artifact (dw_cat w') aid = Some ar \<and> ar_version ar = ver \<and> ar_s3_path ar = Some ref \<and>
    ar_checksum ar = Some (compute_checksum (strip_package ze (da_data a))) \<and>
    published (dw_cat w') (cp_id p) = {v} \<and> ve_version v = ver \<and> ve_artifact_id v = Some aid \<and>
    open_campaigns (dw_cat w') (cp_id p) = {c} \<and> ca_id c = dp_campaign ids \<and> ca_artifact_id c = Some aid \<and> ca_status c = Some ''active'' \<and>
    others (dw_cat w') (cp_id p) = others (dw_cat w) (cp_id p)"
proof -
  obtain p ver ref aid where p: "find_active (dw_cat w) (da_slug a) = Some p" and d: "deployed cfg io now ids (strip_package ze (da_data a)) w w' p ver aid ref"
    using deploy_success [OF assms(1,2)] persist_stores deploy_effect [OF _ _ assms(3,4)] by metis
  have "p \<in> set (ct_plugins (dw_cat w))" "cp_slug p = da_slug a" "cp_status p = ''active''" using p by (auto simp: find_active_def find_Some_iff)
  then show ?thesis using d unfolding deployed_def by blast
qed

definition demo_env :: deploy_env where
  "demo_env = \<lparr>unzip = (\<lambda>_. Inr [\<lparr>z_name = ''main.py'', z_size = 1, z_data = Inr ''m''\<rparr>, \<lparr>z_name = ''dm-config.json'', z_size = 2, z_data = Inl BadZip\<rparr>]),
     decode_replace = id, oxt_attrs = (\<lambda>_. None), rezip = (\<lambda>zs. concat (map z_name zs))\<rparr>"

definition demo_ids :: deploy_ids where
  "demo_ids = \<lparr>dp_artifact = 1, dp_version = 1, dp_campaign = 1, dp_flags = (\<lambda>_. 1)\<rparr>"

definition demo_settings :: settings where
  "demo_settings = (settings_defaults (\<lambda>_. None))\<lparr>s3_bucket := Some ''b''\<rparr>"

definition demo_store :: store_io where
  "demo_store = \<lparr>so_disk = demo_disk, so_s3_error = None, so_write_error = None, so_forward_ok = True\<rparr>"

definition demo_deploy :: deploy_args where
  "demo_deploy = \<lparr>da_slug = ''p'', da_data = ''zip'', da_filename = ''p.oxt'', da_version = ''1.0'', da_strategy = ''canary'', da_urgency = ''normal'', da_cohort_id = None\<rparr>"

definition demo_deployment :: deploy_world where
  "demo_deployment = \<lparr>dw_cat = empty_cat\<lparr>ct_plugins := [demo_cat_plugin ''active'']\<rparr>, dw_store = \<lparr>bs_s3 = [], bs_files = [], bs_admin = []\<rparr>\<rparr>"

lemmas demo_deploy_defs = demo_ids_def demo_env_def demo_store_def demo_deploy_def demo_deployment_def demo_cat_plugin_def empty_cat_def

lemma checksum_fits: "varchar_ok 128 (compute_checksum d)"
  by (simp add: varchar_ok_def compute_checksum_def hexdigest_sha256_length)

lemma demo_package: "strip_package demo_env ''zip'' = ''main.py''" "package_meta demo_env ''zip'' = (JNull, JNull)"
  by code_simp+

lemma demo_persist:
  "persist_plugin_binary demo_settings demo_store d ''libreoffice/1.0_p.oxt'' ''libreoffice'' st =
     (Inr ''binaries/libreoffice/1.0_p.oxt'', st\<lparr>bs_s3 := dset ''binaries/libreoffice/1.0_p.oxt'' d (bs_s3 st)\<rparr>)"
proof -
  have "rstrip_char (CHR ''/'') ''binaries/'' = ''binaries''" by code_simp
  then show ?thesis by (simp add: persist_plugin_binary_def demo_settings_def settings_defaults_def Let_def demo_store_def str_or_def)
qed

lemma demo_statements:
  "\<exists>db. deploy_statements 9 demo_ids demo_deploy (demo_cat_plugin ''active'') ''libreoffice'' ''1.0'' ref
     (compute_checksum d) JNull JNull (dw_cat demo_deployment) = (Inr (1, 1, JNull), db)"
  by (simp add: deploy_statements_def upsert_artifact_def checksum_fits [unfolded varchar_ok_def] varchar_ok_def demo_deploy_defs release_notes_def bind_result_def publish_version_def
    upsert_version_def version_ok_def deployed_row_def deprecate_others_def version_statuses_def distribution_modes_def fk_ok_def store_template_def store_changelog_def
    complete_campaigns_def start_campaign_def insert_campaign_def args_ok_def campaign_db_of_def in_check_def campaign_types_def campaign_statuses_def urgencies_def
    deploy_campaign_args_def artifact_row.defs)

definition demo_deployed :: deploy_world where
  "demo_deployed = snd (deploy_plugin_db_work demo_settings demo_env demo_store (\<lambda>_. []) 9 demo_ids demo_deploy demo_deployment)"

lemma demo_deploys: "\<exists>r. deploy_plugin_db_work demo_settings demo_env demo_store (\<lambda>_. []) 9 demo_ids demo_deploy demo_deployment = (r, demo_deployed) \<and> r_status r = 201"
proof -
  have f: "find (\<lambda>p. cp_slug p = da_slug demo_deploy \<and> cp_status p = ''active'') (ct_plugins (dw_cat demo_deployment)) = Some (demo_cat_plugin ''active'')"
    by (simp add: demo_deploy_defs)
  have s: "safe_segment ''libreoffice'' x = Inr ''libreoffice''" "safe_segment ''1.0'' x = Inr ''1.0''" "safe_segment ''p.oxt'' x = Inr ''p.oxt''" for x
    unfolding safe_segment_def Let_def basename_def by code_simp+
  have a: "da_version demo_deploy = ''1.0''" "da_data demo_deploy = ''zip''" "da_filename demo_deploy = ''p.oxt''" "cp_device_type (demo_cat_plugin ''active'') = ''libreoffice''"
    by (simp_all add: demo_deploy_defs)
  obtain db where db: "deploy_statements 9 demo_ids demo_deploy (demo_cat_plugin ''active'') ''libreoffice'' ''1.0'' ''binaries/libreoffice/1.0_p.oxt''
     (compute_checksum ''main.py'') JNull JNull (dw_cat demo_deployment) = (Inr (1, 1, JNull), db)" using demo_statements by blast
  have d: "deploy_plugin_db_work demo_settings demo_env demo_store (\<lambda>_. []) 9 demo_ids demo_deploy demo_deployment = (r, w') \<Longrightarrow> r_status r = 201" for r w'
    by (auto simp: deploy_plugin_db_work_def Let_def f a demo_package safe_version_def s bind_result_def demo_persist db ok_json_def)
  obtain r where r: "deploy_plugin_db_work demo_settings demo_env demo_store (\<lambda>_. []) 9 demo_ids demo_deploy demo_deployment = (r, demo_deployed)"
    unfolding demo_deployed_def by (metis prod.collapse)
  show ?thesis using r d [OF r] by blast
qed

lemma demo_deployment_wf: "cat_wf (dw_cat demo_deployment)"
  by (simp add: cat_wf_def slugs_unique_def versions_ok_def artifacts_ok_def links_ok_def demo_deploy_defs plugin_ok_def varchar_ok_def visibilities_def plugin_statuses_def)

theorem deploy_publishes_witness:
  "\<exists>p ver aid ref ar v c.
    p \<in> set (ct_plugins (dw_cat demo_deployment)) \<and> cp_slug p = ''p'' \<and> cp_status p = ''active'' \<and>
    stored_at demo_settings demo_store ref (dw_store demo_deployed) = Some ''main.py'' \<and>
    get_artifact (dw_cat demo_deployed) aid = Some ar \<and> ar_version ar = ver \<and> ar_s3_path ar = Some ref \<and>
    ar_checksum ar = Some (compute_checksum ''main.py'') \<and>
    published (dw_cat demo_deployed) (cp_id p) = {v} \<and> ve_version v = ver \<and> ve_artifact_id v = Some aid \<and>
    open_campaigns (dw_cat demo_deployed) (cp_id p) = {c} \<and> ca_id c = 1 \<and> ca_artifact_id c = Some aid \<and> ca_status c = Some ''active'' \<and>
    others (dw_cat demo_deployed) (cp_id p) = others (dw_cat demo_deployment) (cp_id p)"
proof -
  obtain r where r: "deploy_plugin_db_work demo_settings demo_env demo_store (\<lambda>_. []) 9 demo_ids demo_deploy demo_deployment = (r, demo_deployed)" "r_status r = 201"
    using demo_deploys by blast
  have i: "dp_artifact demo_ids \<notin> set (map ar_id (ct_artifacts (dw_cat demo_deployment)))" by (simp add: demo_deploy_defs)
  have e: "da_slug demo_deploy = ''p''" "da_data demo_deploy = ''zip''" "dp_campaign demo_ids = 1" by (simp_all add: demo_deploy_def demo_ids_def)
  show ?thesis using deploy_publishes [OF r demo_deployment_wf i] unfolding e demo_package e by blast
qed

section \<open>Limits of the deployment\<close>

text \<open>The key of an artifact is its device type, variant and version: the second of two plugins of one device type that deploy the same version takes over the
  artifact of the first, whose published version then delivers the second's package.\<close>

lemma upsert_artifact_key:
  assumes "upsert_artifact now aid dt variant ver path chk url db = Inr (i, db')"
  shows "map_option ar_id (find (artifact_key dt variant ver) (ct_artifacts db')) = Some i"
proof (cases "find (artifact_key dt variant ver) (ct_artifacts db)")
  case None
  then show ?thesis using assms by (auto simp: upsert_artifact_def find_snoc artifact_key_def split: if_splits)
next
  case (Some old)
  let ?f = "\<lambda>a. if artifact_key dt variant ver a
    then a\<lparr>ar_s3_path := Some path, ar_checksum := Some chk, ar_changelog_url := coalesce url (ar_changelog_url a), ar_released_at := now\<rparr> else a"
  have "find (artifact_key dt variant ver) (map ?f as) = map_option ?f (find (artifact_key dt variant ver) as)" for as
    by (induction as) (auto simp: artifact_key_def)
  moreover have "i = ar_id old" "db' = db\<lparr>ct_artifacts := map ?f (ct_artifacts db)\<rparr>"
    using assms Some by (auto simp: upsert_artifact_def split: if_splits)
  ultimately show ?thesis using Some by simp
qed

lemma artifact_taken_over:
  assumes "upsert_artifact t1 a1 dt variant ver ref1 chk1 u1 db = Inr (i, db1)" "upsert_artifact t2 a2 dt variant ver ref2 chk2 u2 db1 = Inr (j, db2)"
    "artifacts_ok db1" "a2 \<notin> set (map ar_id (ct_artifacts db1))"
  shows "j = i \<and> (\<exists>ar. get_artifact db2 i = Some ar \<and> ar_s3_path ar = Some ref2 \<and> ar_checksum ar = Some chk2)"
proof -
  obtain x where "find (artifact_key dt variant ver) (ct_artifacts db1) = Some x" "ar_id x = i"
    using upsert_artifact_key [OF assms(1)] by auto
  then have "j = i" using assms(2) by (auto simp: upsert_artifact_def split: if_splits)
  then show ?thesis using upsert_artifact_get [OF assms(2-4)] by blast
qed

text \<open>The statements are not one transaction: a manifest that is a list fails after the published versions were deprecated, and the plugin is left with at most
  the version it was deploying published.\<close>

lemma deploy_partial:
  assumes "upsert_artifact now (dp_artifact ids) dt [] ver ref chk None db = Inr (aid, db1)"
  shows "deploy_statements now ids a p dt ver ref chk tmpl (JList (x # xs)) db =
    (Inl AttributeError, db1\<lparr>ct_versions := deprecate_others (cp_id p) ver (ct_versions db1)\<rparr>)"
  using assms by (simp add: deploy_statements_def release_notes_def py_get_def bind_result_def)

end
