(* ===== verification/Download.thy ===== *)
theory Download
  imports Deploy ConfigEndpoint
begin

text \<open>
  Serving what was deployed: the download routes and the update manifests of \<open>app/main.py\<close>, the pull of a missing binary from the admin pod, the internal
  file interface of both pods and the upload of a bare artifact. The object store, the admin pod's answer to the network and the disk are parameters or state;
  a presigned address is kept as the key it stands for.
\<close>

section \<open>Answers\<close>

datatype target = Presigned string int | Address string

datatype reply =
    FileReply bytes string
  | StreamReply bytes string string
  | RedirectReply target
  | XmlReply string
  | JsonReply json

text \<open>What a client that follows an answer receives.\<close>

fun delivered :: "binary_store \<Rightarrow> reply \<Rightarrow> bytes option" where
  "delivered st (FileReply b _) = Some b"
| "delivered st (StreamReply b _ _) = Some b"
| "delivered st (RedirectReply (Presigned k _)) = dget (bs_s3 st) k"
| "delivered st _ = None"

record download_io = store_io +
  di_pull_ok :: bool
  di_s3_client_ok :: bool
  di_s3_read_ok :: bool
  di_content_type :: "string \<Rightarrow> string option"

section \<open>Binaries\<close>

definition resolve_file :: "disk \<Rightarrow> string \<Rightarrow> string" where
  "resolve_file dk p = path_str (snd (realpath (disk_links dk) (disk_limit dk) (disk_cwd dk) p))"

definition read_file :: "download_io \<Rightarrow> string \<Rightarrow> binary_store \<Rightarrow> bytes option" where
  "read_file io p st = dget (bs_files st) (resolve_file (so_disk io) p)"

definition admin_rel :: "string \<Rightarrow> string" where
  "admin_rel p =
     (if startswith p ''/data/content/binaries/'' then drop 23 p
      else if startswith p ''/data/binaries/'' then drop 15 p
      else lstrip_char slash p)"

text \<open>The pulled file is written where the reference says; a reference without a directory makes \<open>os.makedirs\<close> fail.\<close>

definition pull_binary_from_admin :: "settings \<Rightarrow> download_io \<Rightarrow> string \<Rightarrow> binary_store \<Rightarrow> bool \<times> binary_store" where
  "pull_binary_from_admin cfg io p st =
     (if binaries_mode cfg \<noteq> ''local'' \<or> strip (queue_admin_token cfg) = [] then (False, st)
      else case (if di_pull_ok io then dget (bs_admin st) (admin_rel p) else None) of
        None \<Rightarrow> (False, st)
      | Some b \<Rightarrow>
          if b = [] \<or> slash \<notin> set p \<or> so_write_error io \<noteq> None then (False, st)
          else (True, st\<lparr>bs_files := dset (resolve_file (so_disk io) p) b (bs_files st)\<rparr>))"

definition serve_binary_path :: "settings \<Rightarrow> download_io \<Rightarrow> string \<Rightarrow> string \<Rightarrow> binary_store \<Rightarrow> reply option \<times> binary_store" where
  "serve_binary_path cfg io p fname st =
     (if p = [] then (None, st)
      else if binaries_mode cfg = ''local'' then
        (let st1 = (if read_file io p st = None then snd (pull_binary_from_admin cfg io p st) else st)
         in (map_option (\<lambda>b. FileReply b fname) (read_file io p st1), st1))
      else if str_or (s3_bucket cfg) [] = [] \<or> \<not> di_s3_client_ok io then (None, st)
      else if binaries_mode cfg = ''presign'' then (Some (RedirectReply (Presigned p (presign_ttl_seconds cfg))), st)
      else if binaries_mode cfg = ''proxy'' \<and> di_s3_read_ok io then
        (map_option (\<lambda>b. StreamReply b (str_or (di_content_type io p) ''application/octet-stream'') fname) (dget (bs_s3 st) p), st)
      else (None, st))"

section \<open>Downloads\<close>

definition DEVICE_TYPE_EXT :: "string dict" where
  "DEVICE_TYPE_EXT = [(''libreoffice'', ''oxt''), (''firefox'', ''xpi''), (''chrome'', ''zip''), (''edge'', ''zip''), (''matisse'', ''xpi'')]"

definition device_ext :: "string \<Rightarrow> string" where
  "device_ext dt = str_or (dget DEVICE_TYPE_EXT dt) ''bin''"

text \<open>\<open>ORDER BY published_at DESC NULLS LAST LIMIT 1\<close>\<close>

definition newer :: "version_row \<Rightarrow> version_row \<Rightarrow> bool" where
  "newer u v = (case (ve_published_at u, ve_published_at v) of (Some a, Some b) \<Rightarrow> b < a | (Some _, None) \<Rightarrow> True | _ \<Rightarrow> False)"

fun latest :: "version_row list \<Rightarrow> version_row option" where
  "latest [] = None"
| "latest (v # vs) = (case latest vs of None \<Rightarrow> Some v | Some u \<Rightarrow> Some (if newer u v then u else v))"

definition published_rows :: "cat_db \<Rightarrow> int \<Rightarrow> version_row list" where
  "published_rows db pid = filter (\<lambda>v. ve_plugin_id v = pid \<and> ve_status v = ''published'') (ct_versions db)"

definition serve_plugin_download ::
  "settings \<Rightarrow> download_io \<Rightarrow> bool \<Rightarrow> string \<Rightarrow> string option \<Rightarrow> cat_db \<Rightarrow> binary_store \<Rightarrow> reply result \<times> binary_store" where
  "serve_plugin_download cfg io use_db slug vf db st =
     (if \<not> use_db then (Inl (HTTPException 404 ''Aucune version disponible''), st)
      else case find_active db slug of
        None \<Rightarrow> (Inl (HTTPException 404 ''Plugin introuvable''), st)
      | Some p \<Rightarrow>
          (case (if str_or vf [] \<noteq> [] then find (\<lambda>v. ve_version v = str_or vf []) (published_rows db (cp_id p)) else latest (published_rows db (cp_id p))) of
             None \<Rightarrow> (Inl (HTTPException 404 ''Aucune version disponible''), st)
           | Some v \<Rightarrow>
               let fname = slug @ ''-'' @ ve_version v @ ''.'' @ device_ext (cp_device_type p); aid = (case ve_artifact_id v of Some i \<Rightarrow> i | None \<Rightarrow> 0)
               in if ve_distribution_mode v = ''managed'' \<and> aid \<noteq> 0 then
                    (case Option.bind (get_artifact db aid) ar_s3_path of
                       None \<Rightarrow> (Inl (HTTPException 404 ''Fichier binaire introuvable''), st)
                     | Some path \<Rightarrow>
                         (case serve_binary_path cfg io path fname st of
                            (Some r, st1) \<Rightarrow> (Inr r, st1)
                          | (None, st1) \<Rightarrow> (Inl (HTTPException 404 ''Fichier binaire introuvable''), st1)))
                  else if ve_distribution_mode v \<in> {''download_link'', ''store''} \<and> str_or (ve_download_url v) [] \<noteq> []
                  then (Inr (RedirectReply (Address (str_or (ve_download_url v) []))), st)
                  else (Inl (HTTPException 404 ''Aucune version disponible''), st)))"

text \<open>The catalogue as the configuration endpoint sees it, for \<open>_resolve_device\<close>.\<close>

definition plugin_row_of :: "cat_plugin \<Rightarrow> plugin_row" where
  "plugin_row_of p = \<lparr>pn_id = cp_id p, pn_slug = cp_slug p, pn_device_type = cp_device_type p, pn_status = cp_status p,
     pn_access_mode = None, pn_required_group = None, pn_template = cp_template p\<rparr>"

definition device_of_slug :: "(string \<times> int) list \<Rightarrow> cat_db \<Rightarrow> string \<Rightarrow> device_ref option" where
  "device_of_slug aliases db slug =
     resolve_device slug \<lparr>cd_plugins = map plugin_row_of (ct_plugins db), cd_aliases = aliases, cd_env_overrides = [], cd_keycloak = [], cd_waitlist = [],
       cd_alias_log = [], cd_flags = ct_flags db, cd_cohorts = \<lparr>cohorts = [], cohort_members = []\<rparr>, cd_campaigns = campaign_db_of db, cd_installs = []\<rparr>"

text \<open>\<open>plugin_version_artifacts\<close> joined with the versions of a plugin and the artifacts.\<close>

definition linked :: "cat_db \<Rightarrow> int \<Rightarrow> (version_row \<times> link_row \<times> cat_artifact) list" where
  "linked db pid =
     concat (map (\<lambda>l. concat (map (\<lambda>v. map (\<lambda>a. (v, l, a)) (filter (\<lambda>a. ar_id a = li_artifact_id l) (ct_artifacts db)))
       (filter (\<lambda>v. ve_id v = li_version_id l \<and> ve_plugin_id v = pid) (ct_versions db)))) (ct_links db))"

definition plugin_of_device :: "device_ref option \<Rightarrow> int" where
  "plugin_of_device d = (case Option.bind d dv_plugin_id of Some i \<Rightarrow> i | None \<Rightarrow> 0)"

definition serve_variant_by_filename ::
  "settings \<Rightarrow> download_io \<Rightarrow> bool \<Rightarrow> (string \<times> int) list \<Rightarrow> string \<Rightarrow> string \<Rightarrow> cat_db \<Rightarrow> binary_store \<Rightarrow> reply option \<times> binary_store" where
  "serve_variant_by_filename cfg io use_db aliases slug fname db st =
     (let pid = plugin_of_device (device_of_slug aliases db slug)
      in if \<not> use_db \<or> pid = 0 then (None, st)
         else case find (\<lambda>path. path \<noteq> [] \<and> basename path = fname) (map (\<lambda>(_, _, a). str_or (ar_s3_path a) []) (linked db pid)) of
           Some path \<Rightarrow> serve_binary_path cfg io path fname st
         | None \<Rightarrow> (None, st))"

definition KNOWN_EXT :: "string list" where
  "KNOWN_EXT = [''.oxt'', ''.xpi'', ''.crx'', ''.zip'', ''.bin'']"

definition strip_ext :: "string \<Rightarrow> string" where
  "strip_ext fname = (case find (\<lambda>e. suffix e fname) KNOWN_EXT of Some e \<Rightarrow> take (length fname - length e) fname | None \<Rightarrow> fname)"

definition version_of_filename :: "string \<Rightarrow> string \<Rightarrow> string option" where
  "version_of_filename slug fname =
     (let base = strip_ext fname; ver = (if startswith base (slug @ ''-'') then drop (length slug + 1) base else base)
      in if ver \<noteq> fname then Some ver else None)"

definition catalog_download_file ::
  "settings \<Rightarrow> download_io \<Rightarrow> bool \<Rightarrow> (string \<times> int) list \<Rightarrow> string \<Rightarrow> string \<Rightarrow> cat_db \<Rightarrow> binary_store \<Rightarrow> reply result \<times> binary_store" where
  "catalog_download_file cfg io use_db aliases slug fname db st =
     (case serve_variant_by_filename cfg io use_db aliases slug fname db st of
        (Some r, st1) \<Rightarrow> (Inr r, st1)
      | (None, st1) \<Rightarrow> serve_plugin_download cfg io use_db slug (version_of_filename slug fname) db st1)"

definition catalog_download :: "bool \<Rightarrow> string \<Rightarrow> cat_db \<Rightarrow> reply result" where
  "catalog_download use_db slug db =
     (if \<not> use_db then Inl (HTTPException 404 ''Aucune version disponible'')
      else case find_active db slug of
        None \<Rightarrow> Inl (HTTPException 404 ''Plugin introuvable'')
      | Some p \<Rightarrow>
          (case latest (published_rows db (cp_id p)) of
             None \<Rightarrow> Inl (HTTPException 404 ''Aucune version disponible'')
           | Some v \<Rightarrow> Inr (RedirectReply (Address (''/catalog/'' @ slug @ ''/download/'' @ slug @ ''-'' @ ve_version v @ ''.'' @ device_ext (cp_device_type p))))))"

section \<open>Update manifests\<close>

definition quoted :: "string \<Rightarrow> string" where "quoted s = [CHR 0x27] @ s @ [CHR 0x27]"

definition gupdate :: "string \<Rightarrow> string \<Rightarrow> string \<Rightarrow> string" where
  "gupdate appid codebase ver =
     join_with newline [
       ''<?xml version='' @ quoted ''1.0'' @ '' encoding='' @ quoted ''UTF-8'' @ ''?>'',
       ''<gupdate xmlns='' @ quoted ''http://www.google.com/update2/response'' @ '' protocol='' @ quoted ''2.0'' @ ''>'',
       ''  <app appid='' @ quoted appid @ ''>'',
       ''    <updatecheck codebase='' @ quoted codebase @ '' version='' @ quoted ver @ '' />'',
       ''  </app>'',
       ''</gupdate>'']"

definition catalog_updates_xml :: "bool \<Rightarrow> string \<Rightarrow> string \<Rightarrow> cat_db \<Rightarrow> reply result" where
  "catalog_updates_xml use_db base_url slug db =
     (if \<not> use_db then Inl (HTTPException 404 ''Plugin not found'')
      else case find_active db slug of
        None \<Rightarrow> Inl (HTTPException 404 ''Plugin introuvable'')
      | Some p \<Rightarrow>
          (case latest (published_rows db (cp_id p)) of
             None \<Rightarrow> Inl (HTTPException 404 ''Aucune version publiee'')
           | Some v \<Rightarrow>
               let b = rstrip_char slash base_url; base = (if startswith b ''http://'' \<and> \<not> contains_sub ''localhost'' b then ''https://'' @ drop 7 b else b)
               in Inr (XmlReply (gupdate slug (base @ ''/catalog/'' @ slug @ ''/download/'' @ slug @ ''-'' @ ve_version v @ ''.crx'') (ve_version v)))))"

definition UPDATE_ENGINE_BY_EXT :: "string dict" where
  "UPDATE_ENGINE_BY_EXT = [(''xml'', ''chromium''), (''json'', ''gecko'')]"

record release =
  rl_version :: string
  rl_filename :: string
  rl_extension_id :: json
  rl_gecko_id :: json

fun latest_link :: "(version_row \<times> cat_artifact) list \<Rightarrow> (version_row \<times> cat_artifact) option" where
  "latest_link [] = None"
| "latest_link (x # xs) = (case latest_link xs of None \<Rightarrow> Some x | Some y \<Rightarrow> Some (if newer (fst y) (fst x) then y else x))"

definition latest_variant_release :: "cat_db \<Rightarrow> int \<Rightarrow> string \<Rightarrow> release option" where
  "latest_variant_release db pid variant =
     (let info = (case get_plugin db pid of Some p \<Rightarrow> cp_info p | None \<Rightarrow> [])
      in map_option (\<lambda>(v, a). \<lparr>rl_version = ve_version v, rl_filename = (case str_or (ar_s3_path a) [] of [] \<Rightarrow> [] | path \<Rightarrow> basename path),
             rl_extension_id = jget info ''extension_id'', rl_gecko_id = jget info ''gecko_id''\<rparr>)
           (latest_link (map (\<lambda>(v, _, a). (v, a)) (filter (\<lambda>(v, l, _). ve_status v = ''published'' \<and> li_variant l = variant) (linked db pid)))))"

definition resolve_update_context ::
  "bool \<Rightarrow> (string \<times> int) list \<Rightarrow> string \<Rightarrow> string \<Rightarrow> string \<Rightarrow> cat_db \<Rightarrow> (string \<times> release) result" where
  "resolve_update_context use_db aliases slug tgt ext db =
     (case dget UPDATE_ENGINE_BY_EXT ext of
        None \<Rightarrow> Inl (HTTPException 404 ''Format inconnu'')
      | Some engine \<Rightarrow>
          if \<not> use_db then Inl (HTTPException 404 ''Indisponible'')
          else let d = device_of_slug aliases db slug; pid = plugin_of_device d
               in if pid = 0 then Inl (HTTPException 404 ''Plugin introuvable'')
                  else (case latest_variant_release db pid (engine @ ''-'' @ tgt) of
                          None \<Rightarrow> Inl (HTTPException 404 ''Aucune release pour cette variante/cible'')
                        | Some rel \<Rightarrow> Inr (dv_name (the d), rel)))"

definition public_base :: "env \<Rightarrow> string" where
  "public_base e = rstrip_char slash (getenv e ''PUBLIC_BASE_URL'' [])"

definition release_link :: "env \<Rightarrow> string \<Rightarrow> release \<Rightarrow> string" where
  "release_link e canonical rel = public_base e @ ''/catalog/'' @ canonical @ ''/download/'' @ rl_filename rel"

definition updates_manifest_xml :: "env \<Rightarrow> bool \<Rightarrow> (string \<times> int) list \<Rightarrow> string \<Rightarrow> string \<Rightarrow> cat_db \<Rightarrow> reply result" where
  "updates_manifest_xml e use_db aliases slug tgt db =
     bind_result (resolve_update_context use_db aliases slug tgt ''xml'' db) (\<lambda>(canonical, rel).
       Inr (XmlReply (gupdate (if truthy (rl_extension_id rel) then py_str (rl_extension_id rel) else canonical) (release_link e canonical rel) (rl_version rel))))"

definition updates_manifest_json :: "env \<Rightarrow> bool \<Rightarrow> (string \<times> int) list \<Rightarrow> string \<Rightarrow> string \<Rightarrow> cat_db \<Rightarrow> reply result" where
  "updates_manifest_json e use_db aliases slug tgt db =
     bind_result (resolve_update_context use_db aliases slug tgt ''json'' db) (\<lambda>(canonical, rel).
       Inr (JsonReply (JObj [(''addons'', JObj [((if truthy (rl_gecko_id rel) then py_str (rl_gecko_id rel) else canonical),
         JObj [(''updates'', JList [JObj [(''version'', JStr (rl_version rel)), (''update_link'', JStr (release_link e canonical rel))]])])])])))"

section \<open>File interfaces\<close>

definition zero_client :: string where "zero_client = ''00000000-0000-0000-0000-000000000000''"

text \<open>\<open>os.path.relpath\<close>: both paths are made absolute and freed of dots without looking at links.\<close>

definition abs_components :: "disk \<Rightarrow> string \<Rightarrow> string list" where
  "abs_components dk p = snd (realpath (\<lambda>_. None) 0 (disk_cwd dk) p)"

fun after_common :: "string list \<Rightarrow> string list \<Rightarrow> string list \<times> string list" where
  "after_common (a # as) (b # bs) = (if a = b then after_common as bs else (a # as, b # bs))"
| "after_common as bs = (as, bs)"

definition relpath :: "disk \<Rightarrow> string \<Rightarrow> string \<Rightarrow> string" where
  "relpath dk p start =
     (let (a, b) = after_common (abs_components dk p) (abs_components dk start); r = map (\<lambda>_. ''..'') b @ a
      in if r = [] then ''.'' else join_with [slash] r)"

definition files_admin_guard :: "settings \<Rightarrow> headers \<Rightarrow> unit result" where
  "files_admin_guard cfg hs =
     (let expected = strip (queue_admin_token cfg); provided = strip (str_or (header hs ''x-admin-token'') [])
      in if expected = [] then Inl (HTTPException 403 ''Files API token not configured'')
         else bind_result (compare_digest provided expected) (\<lambda>ok. if ok then Inr () else Inl (HTTPException 403 ''Invalid token'')))"

text \<open>\<open>os.walk\<close> under a directory: the files whose resolved place lies below it, named from the directory as it was given.\<close>

definition walk :: "disk \<Rightarrow> string \<Rightarrow> bytes dict \<Rightarrow> (string \<times> bytes) list" where
  "walk dk dir fs =
     (let root = resolve_file dk dir
      in map (\<lambda>(k, b). (dir @ drop (length root) k, b)) (filter (\<lambda>(k, b). startswith k (root @ [slash])) fs))"

definition listing :: "disk \<Rightarrow> string \<Rightarrow> string \<Rightarrow> bytes dict \<Rightarrow> json" where
  "listing dk base dir fs =
     (let rows = sort_key fst (map (\<lambda>(k, b). (relpath dk k base, length b)) (walk dk dir fs))
      in JObj [(''files'', JList (map (\<lambda>(r, n). JObj [(''path'', JStr r), (''size'', JInt (int n))]) rows)), (''total'', JInt (int (length rows)))])"

definition no_files :: json where "no_files = JObj [(''files'', JList [])]"

definition files_list :: "settings \<Rightarrow> (string \<Rightarrow> bool) \<Rightarrow> disk \<Rightarrow> headers \<Rightarrow> string \<Rightarrow> bytes dict \<Rightarrow> json result" where
  "files_list cfg isdir dk hs pre fs =
     bind_result (files_admin_guard cfg hs) (\<lambda>_.
       let base = local_binaries_dir cfg
       in if \<not> isdir base then Inr no_files
          else bind_result (if pre \<noteq> [] then safe_path_join (disk_links dk) (disk_limit dk) (disk_cwd dk) base pre else Inr base) (\<lambda>tgt.
            Inr (if \<not> isdir tgt then no_files else listing dk base tgt fs)))"

definition S3_BINARIES_PREFIX :: "settings \<Rightarrow> string" where
  "S3_BINARIES_PREFIX cfg = s3_prefix_binaries cfg"

text \<open>\<open>get_binary\<close>; the log of the call is not allowed to fail it.\<close>

definition get_binary ::
  "settings \<Rightarrow> download_io \<Rightarrow> bool \<Rightarrow> timestamp \<Rightarrow> string \<Rightarrow> binary_store \<Rightarrow> enroll_store \<Rightarrow> reply result \<times> enroll_store" where
  "get_binary cfg io use_db now path st es =
     (let es1 = (case log_device_connection use_db (\<lambda>_. True) now ''BINARY_GET'' ''system@local'' zero_client ''none'' None None es of Inr x \<Rightarrow> x | Inl _ \<Rightarrow> es);
          key = rstrip_char slash (S3_BINARIES_PREFIX cfg) @ [slash] @ lstrip_char slash path; dk = so_disk io
      in (if binaries_mode cfg = ''local'' then
            bind_result (safe_path_join (disk_links dk) (disk_limit dk) (disk_cwd dk) (local_binaries_dir cfg) path) (\<lambda>full.
              case dget (bs_files st) (resolve_file dk full) of
                Some b \<Rightarrow> Inr (FileReply b [])
              | None \<Rightarrow> Inl (HTTPException 404 ''Local binary not found.''))
          else if str_or (s3_bucket cfg) [] = [] then Inl (HTTPException 500 ''S3 bucket not configured (DM_S3_BUCKET).'')
          else if \<not> di_s3_client_ok io then Inl (RuntimeError ''s3'')
          else if binaries_mode cfg = ''presign'' then Inr (RedirectReply (Presigned key (presign_ttl_seconds cfg)))
          else if binaries_mode cfg = ''proxy'' then
            (case (if di_s3_read_ok io then dget (bs_s3 st) key else None) of
               Some b \<Rightarrow> Inr (StreamReply b (str_or (di_content_type io key) ''application/octet-stream'') [])
             | None \<Rightarrow> Inl (HTTPException 404 ''Binary not found''))
          else Inl (HTTPException 500 ''Invalid DM_BINARIES_MODE (must be presign or proxy or local).''), es1))"

text \<open>The admin pod's side: the volume it keeps, under resolved paths.\<close>

definition files_token_check :: "env \<Rightarrow> headers \<Rightarrow> bool result" where
  "files_token_check e hs =
     (let expected = strip (getenv e ''DM_QUEUE_ADMIN_TOKEN'' [])
      in if expected = [] then Inr False else compare_digest (strip (str_or (header hs ''x-admin-token'') [])) expected)"

definition binaries_base :: "env \<Rightarrow> string" where
  "binaries_base e = (case e ''DM_LOCAL_BINARIES_DIR'' of Some d \<Rightarrow> d | None \<Rightarrow> ''/data/content/binaries'')"

definition guarded_path :: "env \<Rightarrow> disk \<Rightarrow> headers \<Rightarrow> string \<Rightarrow> string result" where
  "guarded_path e dk hs path =
     bind_result (files_token_check e hs) (\<lambda>ok.
       if \<not> ok then Inl (HTTPException 403 ''Invalid token'')
       else safe_path_join (disk_links dk) (disk_limit dk) (disk_cwd dk) (binaries_base e) path)"

definition admin_files_upload :: "env \<Rightarrow> disk \<Rightarrow> headers \<Rightarrow> string \<Rightarrow> bytes \<Rightarrow> bytes dict \<Rightarrow> json result \<times> bytes dict" where
  "admin_files_upload e dk hs path data fs =
     (case guarded_path e dk hs path of
        Inl er \<Rightarrow> (Inl er, fs)
      | Inr full \<Rightarrow> (Inr (JObj [(''ok'', JBool True), (''path'', JStr path), (''size'', JInt (int (length data)))]), dset (resolve_file dk full) data fs))"

definition admin_files_get :: "env \<Rightarrow> disk \<Rightarrow> headers \<Rightarrow> string \<Rightarrow> bytes dict \<Rightarrow> reply result" where
  "admin_files_get e dk hs path fs =
     bind_result (guarded_path e dk hs path) (\<lambda>full.
       case dget fs (resolve_file dk full) of Some b \<Rightarrow> Inr (FileReply b []) | None \<Rightarrow> Inl (HTTPException 404 ''File not found''))"

definition admin_files_list :: "env \<Rightarrow> (string \<Rightarrow> bool) \<Rightarrow> disk \<Rightarrow> headers \<Rightarrow> string \<Rightarrow> bytes dict \<Rightarrow> json result" where
  "admin_files_list e isdir dk hs pre fs =
     bind_result (files_token_check e hs) (\<lambda>ok.
       if \<not> ok then Inl (HTTPException 403 ''Invalid token'')
       else bind_result (if pre \<noteq> [] then safe_path_join (disk_links dk) (disk_limit dk) (disk_cwd dk) (binaries_base e) pre else Inr (binaries_base e)) (\<lambda>tgt.
         Inr (if \<not> isdir tgt then no_files else listing dk (binaries_base e) tgt fs)))"

section \<open>A bare artifact\<close>

record artifact_form =
  af_device_type :: string
  af_version :: string
  af_changelog_url :: string
  af_binary :: "(string \<times> bytes) option"

definition segment_ok :: "string \<Rightarrow> bool" where
  "segment_ok s = (s \<noteq> [] \<and> alnum (hd s) \<and> list_all segment_char s)"

definition device_type_ok :: "string \<Rightarrow> bool" where
  "device_type_ok s = (s \<noteq> [] \<and> list_all (\<lambda>c. alnum c \<or> c = CHR ''_'' \<or> c = CHR ''-'') s)"

definition api_upload_artifact ::
  "env \<Rightarrow> (py_error \<Rightarrow> string) \<Rightarrow> bool \<Rightarrow> disk \<Rightarrow> timestamp \<Rightarrow> int \<Rightarrow> headers \<Rightarrow> artifact_form \<Rightarrow> cat_db \<Rightarrow> bytes dict \<Rightarrow> response result \<times> cat_db \<times> bytes dict" where
  "api_upload_artifact e txt use_db dk now aid hs f db fs =
     (case verify_admin_token e hs of
        Inl er \<Rightarrow> (Inl er, db, fs)
      | Inr False \<Rightarrow> (Inr (fail_json 401 ''Unauthorized''), db, fs)
      | Inr True \<Rightarrow>
          (case af_binary f of
             None \<Rightarrow> (Inr (fail_json 400 ''version and binary required''), db, fs)
           | Some (orig, data) \<Rightarrow>
               let fname = basename (if orig \<noteq> [] then orig else ''mirai-'' @ af_version f @ ''.oxt'');
                   chk = compute_checksum data; rel = af_device_type f @ [slash] @ af_version f @ ''_'' @ fname
               in if af_version f = [] then (Inr (fail_json 400 ''version and binary required''), db, fs)
                  else if \<not> device_type_ok (af_device_type f) then (Inr (fail_json 400 ''invalid device_type''), db, fs)
                  else if \<not> segment_ok (af_version f) then (Inr (fail_json 400 ''invalid version''), db, fs)
                  else if \<not> segment_ok fname then (Inr (fail_json 400 ''invalid filename''), db, fs)
                  else case bind_result (safe_path_join (disk_links dk) (disk_limit dk) (disk_cwd dk) (binaries_base e) (af_device_type f))
                         (\<lambda>_. safe_path_join (disk_links dk) (disk_limit dk) (disk_cwd dk) (binaries_base e) rel) of
                      Inl er \<Rightarrow> (Inl er, db, fs)
                    | Inr full \<Rightarrow>
                        let fs1 = dset (resolve_file dk full) data fs
                        in if \<not> use_db then (Inr (fail_json 500 ''Database not configured''), db, fs1)
                           else if \<not> (varchar_ok 50 (af_device_type f) \<and> varchar_ok 50 (af_version f) \<and> varchar_ok 128 chk)
                           then (Inr (fail_json 500 (txt DatabaseError)), db, fs1)
                           else (Inr (ok_json 201 [(''artifact_id'', JInt aid), (''checksum'', JStr chk)]),
                                 db\<lparr>ct_artifacts := ct_artifacts db @
                                   [\<lparr>ar_id = aid, ar_device_type = af_device_type f, ar_version = af_version f, ar_s3_path = Some rel, ar_checksum = Some chk,
                                     ar_min_host_version = None, ar_max_host_version = None, ar_changelog_url = Some (af_changelog_url f), ar_variant = None,
                                     ar_is_active = True, ar_released_at = now\<rparr>]\<rparr>, fs1)))"

section \<open>Lemmas\<close>

lemma latest_None [simp]: "latest vs = None \<longleftrightarrow> vs = []"
  by (cases vs) (simp_all split: option.splits)

lemma latest_in: "latest vs = Some v \<Longrightarrow> v \<in> set vs"
  by (induction vs arbitrary: v) (auto split: option.splits if_splits)

lemma latest_single:
  assumes "set vs = {v}"
  shows "latest vs = Some v"
  using assms latest_in [of vs] by (cases "latest vs") auto

lemma set_published_rows: "set (published_rows db pid) = published db pid"
  by (auto simp: published_rows_def published_def)

lemma find_by_key:
  assumes "map k xs = map k ys"
  shows "map_option k (find (\<lambda>x. P (k x)) xs) = map_option k (find (\<lambda>x. P (k x)) ys)"
  using assms
proof (induction xs arbitrary: ys)
  case (Cons x xs)
  then show ?case by (cases ys) auto
qed simp

lemma find_active_key: "find_active db slug = find (\<lambda>p. (\<lambda>(i, s, st, dt). s = slug \<and> st = ''active'') (plugin_key p)) (ct_plugins db)"
  by (simp add: find_active_def plugin_key_def)

lemma find_active_same:
  assumes "map plugin_key (ct_plugins db') = map plugin_key (ct_plugins db)" "find_active db slug = Some p"
  obtains p' where "find_active db' slug = Some p'" "cp_id p' = cp_id p" "cp_device_type p' = cp_device_type p"
proof -
  have "map_option plugin_key (find_active db' slug) = Some (plugin_key p)"
    using find_by_key [OF assms(1)] assms(2) unfolding find_active_key by (metis option.map(2))
  then show ?thesis using that by (auto simp: plugin_key_def)
qed

lemma device_of_active:
  assumes "find_active db slug = Some p"
  shows "plugin_of_device (device_of_slug aliases db slug) = cp_id p"
proof -
  have "find (\<lambda>q. pn_slug q = slug \<and> pn_status q = ''active'') (map plugin_row_of ps) =
      map_option plugin_row_of (find (\<lambda>p. cp_slug p = slug \<and> cp_status p = ''active'') ps)" for ps
    by (induction ps) (auto simp: plugin_row_of_def)
  then show ?thesis using assms
    by (simp add: find_active_def plugin_of_device_def device_of_slug_def resolve_device_def active_plugin_def device_of_def plugin_row_of_def)
qed

text \<open>No variant is linked to a plugin before a deployment, none is afterwards.\<close>

lemma linked_Nil: "linked db pid = [] \<longleftrightarrow> (\<forall>l \<in> set (ct_links db). \<forall>v \<in> set (ct_versions db). ve_id v = li_version_id l \<and> ve_plugin_id v = pid \<longrightarrow>
    (\<forall>a \<in> set (ct_artifacts db). ar_id a \<noteq> li_artifact_id l))"
  by (auto simp: linked_def filter_empty_conv)

lemma linked_kept:
  assumes "linked db pid = []" "links_ok db" "vid \<notin> set (map ve_id (ct_versions db))" "ct_links db' = ct_links db"
    "\<forall>u \<in> set (ct_versions db'). (ve_id u, ve_plugin_id u) = (vid, q) \<or> (\<exists>o' \<in> set (ct_versions db). ve_id u = ve_id o' \<and> ve_plugin_id u = ve_plugin_id o')"
  shows "linked db' pid = []"
proof -
  have False if l: "l \<in> set (ct_links db)" and u: "u \<in> set (ct_versions db')" "ve_id u = li_version_id l" "ve_plugin_id u = pid" for l u
  proof -
    have fk: "li_version_id l \<in> set (map ve_id (ct_versions db))" "li_artifact_id l \<in> set (map ar_id (ct_artifacts db))"
      using l assms(2) unfolding links_ok_def list_all_iff by blast+
    then have "ve_id u \<noteq> vid" using u(2) assms(3) by metis
    then obtain o' where "o' \<in> set (ct_versions db)" "ve_id o' = li_version_id l" "ve_plugin_id o' = pid" using assms(5) u by force
    moreover obtain a where "a \<in> set (ct_artifacts db)" "ar_id a = li_artifact_id l" using fk(2) by auto
    ultimately show False using assms(1) l unfolding linked_Nil by blast
  qed
  then show ?thesis unfolding linked_Nil assms(4) by blast
qed

text \<open>File names.\<close>

lemma suffix_same_length: "length e = length f \<Longrightarrow> suffix e (b @ f) \<longleftrightarrow> e = f"
  by (auto simp: suffix_def)

lemma device_ext_cases: "device_ext dt \<in> {''oxt'', ''xpi'', ''zip'', ''bin''}"
  by (simp add: device_ext_def DEVICE_TYPE_EXT_def dget_def str_or_def)

lemma strip_ext_ext:
  assumes "e \<in> {''oxt'', ''xpi'', ''zip'', ''bin''}"
  shows "strip_ext (b @ ''.'' @ e) = b"
  using assms by (auto simp: strip_ext_def KNOWN_EXT_def suffix_same_length)

lemma version_of_name:
  assumes "ver \<noteq> []"
  shows "version_of_filename slug (slug @ ''-'' @ ver @ ''.'' @ device_ext dt) = Some ver"
proof -
  have "strip_ext (slug @ ''-'' @ ver @ ''.'' @ device_ext dt) = slug @ ''-'' @ ver"
    using strip_ext_ext [OF device_ext_cases, of "slug @ ''-'' @ ver"] by simp
  moreover have "ver \<noteq> slug @ ''-'' @ ver @ ''.'' @ device_ext dt"
  proof
    assume "ver = slug @ ''-'' @ ver @ ''.'' @ device_ext dt"
    then have "length ver = length (slug @ ''-'' @ ver @ ''.'' @ device_ext dt)" by (rule arg_cong)
    then show False by simp
  qed
  ultimately show ?thesis by (simp add: version_of_filename_def startswith_def)
qed

text \<open>When the routes find what the deployment stored.\<close>

definition serves :: "settings \<Rightarrow> download_io \<Rightarrow> bool" where
  "serves cfg io =
     (binaries_mode cfg \<in> {''presign'', ''proxy''} \<and> di_s3_client_ok io \<and> di_s3_read_ok io \<or>
      binaries_mode cfg = ''local'' \<and> local_binaries_dir cfg = ''/data/content/binaries'' \<and>
        resolve_file (so_disk io) ''/data/content/binaries'' = ''/data/content/binaries'')"

lemma persist_serves:
  assumes "persist_plugin_binary cfg (store_io.truncate io) data rel dt st = (Inr ref, st')" "serves cfg io" "rel \<noteq> []" "hd rel \<noteq> slash"
  shows "\<exists>rep. serve_binary_path cfg io ref fname st' = (Some rep, st') \<and> delivered st' rep = Some data"
proof (cases "binaries_mode cfg = ''local''")
  case True
  have lstrip: "lstrip_char slash rel = rel" using assms(3,4) by (cases rel) (simp_all add: lstrip_char_def lstrip_by_def)
  have "safe_path_join (disk_links (so_disk io)) (disk_limit (so_disk io)) (disk_cwd (so_disk io)) ''/data/content/binaries'' rel =
      Inr (resolve_file (so_disk io) (''/data/content/binaries/'' @ rel)) \<or>
    (\<exists>e. safe_path_join (disk_links (so_disk io)) (disk_limit (so_disk io)) (disk_cwd (so_disk io)) ''/data/content/binaries'' rel = Inl e)"
    using assms(2) True unfolding serves_def resolve_file_def by (simp add: safe_path_join_def lstrip [unfolded slash_def] slash_def Let_def)
  moreover have "ref = ''/data/content/binaries/'' @ rel"
    using assms(1) True by (auto simp: persist_plugin_binary_def Let_def split: sum.splits option.splits)
  ultimately have "dget (bs_files st') (resolve_file (so_disk io) ref) = Some data"
    using assms(1,2) True by (auto simp: serves_def persist_plugin_binary_def Let_def bind_result_def store_io.defs split: sum.splits option.splits)
  then show ?thesis using True \<open>ref = _\<close> by (simp add: serve_binary_path_def read_file_def Let_def)
next
  case False
  then have "dget (bs_s3 st') ref = Some data" "ref \<noteq> []" "str_or (s3_bucket cfg) [] \<noteq> []"
    using assms(1) by (auto simp: persist_plugin_binary_def Let_def split: if_splits option.splits)
  then show ?thesis using assms(2) False by (auto simp: serves_def serve_binary_path_def)
qed

lemma serve_published:
  assumes "find_active db slug = Some p" "published db (cp_id p) = {v}" "ve_distribution_mode v = ''managed''" "ve_artifact_id v = Some aid" "aid \<noteq> 0"
    "get_artifact db aid = Some ar" "ar_s3_path ar = Some ref" "ve_version v \<noteq> []" "vf \<in> {None, Some (ve_version v)}"
    "serve_binary_path cfg io ref (slug @ ''-'' @ ve_version v @ ''.'' @ device_ext (cp_device_type p)) st = (Some rep, st')"
  shows "serve_plugin_download cfg io True slug vf db st = (Inr rep, st')"
proof -
  have rows: "set (published_rows db (cp_id p)) = {v}" by (simp add: set_published_rows assms(2))
  have "find (\<lambda>u. ve_version u = ve_version v) vs = Some v" if "set vs = {v}" for vs
    using that by (induction vs) (auto split: if_splits)
  then have "(if str_or vf [] \<noteq> [] then find (\<lambda>u. ve_version u = str_or vf []) (published_rows db (cp_id p)) else latest (published_rows db (cp_id p))) = Some v"
    using assms(8,9) rows by (auto simp: str_or_def latest_single)
  then show ?thesis using assms by (simp add: serve_plugin_download_def)
qed

section \<open>Properties\<close>

text \<open>Property C31. What was deployed is what clients download. After a deployment that answers 201 for an active plugin that has no linked variants and none but managed versions (a
  version created as a download link keeps its link), with the storage reachable and, for local storage, the default directory, the public download address redirects to a file name, and that file name delivers exactly the deployed package without the server's metadata, whether it is read from the
  disk, streamed from the object store or fetched through a presigned address.\<close>

theorem deploy_download:
  assumes "deploy_plugin_db_work cfg ze (store_io.truncate io) txt now ids a w = (r, w')" "r_status r = 201" "cat_wf (dw_cat w)"
    "find_active (dw_cat w) (da_slug a) = Some p" "linked (dw_cat w) (cp_id p) = []"
    "\<forall>v \<in> set (ct_versions (dw_cat w)). ve_plugin_id v = cp_id p \<longrightarrow> ve_distribution_mode v = ''managed''"
    "0 \<notin> insert (dp_artifact ids) (set (map ar_id (ct_artifacts (dw_cat w))))" "dp_artifact ids \<notin> set (map ar_id (ct_artifacts (dw_cat w)))"
    "dp_version ids \<notin> set (map ve_id (ct_versions (dw_cat w)))" "serves cfg io"
  shows "\<exists>fname rep. catalog_download True (da_slug a) (dw_cat w') = Inr (RedirectReply (Address (''/catalog/'' @ da_slug a @ ''/download/'' @ fname))) \<and>
    catalog_download_file cfg io True aliases (da_slug a) fname (dw_cat w') (dw_store w') = (Inr rep, dw_store w') \<and>
    delivered (dw_store w') rep = Some (strip_package ze (da_data a))"
proof -
  let ?data = "strip_package ze (da_data a)"
  obtain dt ver fn ref aid vid diff tmpl mani v0 where seg: "safe_segment (cp_device_type p) ''device_type'' = Inr dt" "safe_segment v0 ''version'' = Inr ver"
    and st: "persist_plugin_binary cfg (store_io.truncate io) ?data (deploy_path dt ver fn) dt (dw_store w) = (Inr ref, dw_store w')"
    and d: "deploy_statements now ids a p dt ver ref (compute_checksum ?data) tmpl mani (dw_cat w) = (Inr (aid, vid, diff), dw_cat w')"
    using deploy_success [OF assms(1,2)] assms(4) by (metis option.inject)
  note keep = deploy_keeps [OF d]
  obtain p' where p': "find_active (dw_cat w') (da_slug a) = Some p'" "cp_id p' = cp_id p" "cp_device_type p' = cp_device_type p"
    using find_active_same [OF _ assms(4)] keep by blast
  obtain ar v where ar: "get_artifact (dw_cat w') aid = Some ar" "ar_s3_path ar = Some ref"
    and v: "published (dw_cat w') (cp_id p) = {v}" "ve_version v = ver" "ve_artifact_id v = Some aid"
    using deploy_effect [OF d persist_stores [OF st] assms(3,8)] unfolding deployed_def by blast
  have m: "ve_distribution_mode v = ''managed''" using keep assms(6) v(1) unfolding published_def by blast
  have z: "aid \<noteq> 0" using keep assms(7) by auto
  have l: "linked (dw_cat w') (cp_id p) = []"
    using linked_kept [OF assms(5) _ assms(9), of "dw_cat w'" "cp_id p"] keep assms(3) unfolding cat_wf_def by blast
  have ne: "ver \<noteq> []" "dt \<noteq> []" "slash \<notin> set dt"
    using safe_segment_plain [OF seg(1)] safe_segment_plain [OF seg(2)] by (auto simp: plain_def proper_def)
  then have "hd dt \<noteq> slash" using hd_in_set [of dt] by metis
  let ?f = "da_slug a @ ''-'' @ ver @ ''.'' @ device_ext (cp_device_type p)"
  obtain rep where rep: "serve_binary_path cfg io ref ?f (dw_store w') = (Some rep, dw_store w')" "delivered (dw_store w') rep = Some ?data"
    using persist_serves [OF st assms(10)] ne(2) \<open>hd dt \<noteq> slash\<close> by (auto simp: deploy_path_def)
  have "latest (published_rows (dw_cat w') (cp_id p)) = Some v" by (rule latest_single) (simp add: set_published_rows v(1))
  then have "catalog_download True (da_slug a) (dw_cat w') = Inr (RedirectReply (Address (''/catalog/'' @ da_slug a @ ''/download/'' @ ?f)))"
    by (simp add: catalog_download_def p' v(2))
  moreover have "serve_plugin_download cfg io True (da_slug a) (Some ver) (dw_cat w') (dw_store w') = (Inr rep, dw_store w')"
    by (rule serve_published [OF p'(1) _ m v(3) z ar]) (use p' v ne rep in auto)
  moreover have "serve_variant_by_filename cfg io True aliases (da_slug a) ?f (dw_cat w') (dw_store w') = (None, dw_store w')"
    by (simp add: serve_variant_by_filename_def Let_def device_of_active [OF p'(1)] p'(2) l)
  ultimately show ?thesis using rep(2) version_of_name [OF ne(1), of "da_slug a" "cp_device_type p"]
    by (intro exI [of _ ?f] exI [of _ rep]) (simp add: catalog_download_file_def)
qed

definition demo_download_io :: download_io where
  "demo_download_io = store_io.extend demo_store \<lparr>di_pull_ok = False, di_s3_client_ok = True, di_s3_read_ok = True, di_content_type = (\<lambda>_. None)\<rparr>"

theorem deploy_download_witness:
  "\<exists>fname rep. catalog_download True ''p'' (dw_cat demo_deployed) = Inr (RedirectReply (Address (''/catalog/p/download/'' @ fname))) \<and>
    catalog_download_file demo_settings demo_download_io True [] ''p'' fname (dw_cat demo_deployed) (dw_store demo_deployed) = (Inr rep, dw_store demo_deployed) \<and>
    delivered (dw_store demo_deployed) rep = Some ''main.py''"
proof -
  have t: "store_io.truncate demo_download_io = demo_store" by (simp add: demo_download_io_def store_io.defs demo_store_def)
  obtain r where r: "deploy_plugin_db_work demo_settings demo_env (store_io.truncate demo_download_io) (\<lambda>_. []) 9 demo_ids demo_deploy demo_deployment = (r, demo_deployed)"
      "r_status r = 201"
    using demo_deploys unfolding t by blast
  have p: "find_active (dw_cat demo_deployment) (da_slug demo_deploy) = Some (demo_cat_plugin ''active'')" by (simp add: find_active_def demo_deploy_defs)
  have l: "linked (dw_cat demo_deployment) (cp_id (demo_cat_plugin ''active'')) = []" by (simp add: linked_def demo_deploy_defs)
  have s: "serves demo_settings demo_download_io" by (simp add: serves_def demo_settings_def settings_defaults_def demo_download_io_def store_io.defs)
  have a: "da_slug demo_deploy = ''p''" "da_data demo_deploy = ''zip''" by (simp_all add: demo_deploy_def)
  show ?thesis using deploy_download [OF r demo_deployment_wf p l _ _ _ _ s, of "[]"] unfolding a demo_package by (simp add: demo_deploy_defs)
qed

section \<open>Pull and confinement\<close>

text \<open>A pod that does not hold the file yet gets it from the admin pod and serves the same bytes.\<close>

lemma pull_delivers:
  assumes "binaries_mode cfg = ''local''" "strip (queue_admin_token cfg) \<noteq> []" "di_pull_ok io" "so_write_error io = None"
    "read_file io (''/data/content/binaries/'' @ rel) st = None" "dget (bs_admin st) rel = Some b" "b \<noteq> []"
  shows "\<exists>st'. serve_binary_path cfg io (''/data/content/binaries/'' @ rel) fname st = (Some (FileReply b fname), st')"
proof -
  have "admin_rel (''/data/content/binaries/'' @ rel) = rel" by (simp add: admin_rel_def startswith_def)
  then have "pull_binary_from_admin cfg io (''/data/content/binaries/'' @ rel) st =
      (True, st\<lparr>bs_files := dset (resolve_file (so_disk io) (''/data/content/binaries/'' @ rel)) b (bs_files st)\<rparr>)"
    using assms by (simp add: pull_binary_from_admin_def slash_def)
  then show ?thesis using assms(1,5) by (simp add: serve_binary_path_def read_file_def)
qed

text \<open>The admin pod gives back what was put under the same name, and nothing without the token.\<close>

lemma admin_files_roundtrip:
  assumes "admin_files_upload e dk hs path data fs = (Inr j, fs')"
  shows "admin_files_get e dk hs path fs' = Inr (FileReply data [])"
  using assms by (auto simp: admin_files_upload_def admin_files_get_def bind_result_def split: sum.splits)

lemma admin_files_token:
  assumes "strip (getenv e ''DM_QUEUE_ADMIN_TOKEN'' []) = [] \<or> strip (str_or (header hs ''x-admin-token'') []) \<noteq> strip (getenv e ''DM_QUEUE_ADMIN_TOKEN'' [])"
  shows "snd (admin_files_upload e dk hs path data fs) = fs \<and> (\<forall>r. admin_files_get e dk hs path fs \<noteq> Inr r) \<and> (\<forall>r. admin_files_list e isdir dk hs pre fs \<noteq> Inr r)"
proof -
  have "files_token_check e hs \<noteq> Inr True" using assms by (auto simp: files_token_check_def Let_def compare_digest_def split: if_splits)
  then show ?thesis
    by (cases "files_token_check e hs") (auto simp: admin_files_upload_def admin_files_get_def admin_files_list_def guarded_path_def bind_result_def)
qed

text \<open>An artifact uploaded on its own keeps a reference relative to the directory of binaries, which the download routes read as a path from the working directory (or as a
  key of the object store): with the files only where the upload put them, a download does not find it.\<close>

lemma bare_artifact_lost:
  "\<exists>r db' fs'. api_upload_artifact (\<lambda>k. if k = ''DM_QUEUE_ADMIN_TOKEN'' then Some ''t'' else None) (\<lambda>_. []) True demo_disk 9 1 [(''x-admin-token'', ''t'')]
      \<lparr>af_device_type = ''libreoffice'', af_version = ''1.0'', af_changelog_url = [], af_binary = Some (''p.oxt'', b)\<rparr> empty_cat [] = (Inr r, db', fs') \<and>
    r_status r = 201 \<and> map ar_s3_path (ct_artifacts db') = [Some ''libreoffice/1.0_p.oxt''] \<and>
    dget fs' ''/data/content/binaries/libreoffice/1.0_p.oxt'' = Some b \<and> dget fs' (resolve_file demo_disk ''libreoffice/1.0_p.oxt'') = None"
proof -
  let ?e = "\<lambda>k. if k = ''DM_QUEUE_ADMIN_TOKEN'' then Some ''t'' else None"
  have t: "verify_admin_token ?e [(''x-admin-token'', ''t'')] = Inr True" by code_simp
  have b: "binaries_base ?e = ''/data/content/binaries''" by code_simp
  have n: "basename ''p.oxt'' = ''p.oxt''" "device_type_ok ''libreoffice''" "segment_ok ''1.0''" "segment_ok ''p.oxt''" by code_simp+
  have j: "safe_path_join (disk_links demo_disk) (disk_limit demo_disk) (disk_cwd demo_disk) ''/data/content/binaries'' ''libreoffice'' = Inr ''/data/content/binaries/libreoffice''"
    "safe_path_join (disk_links demo_disk) (disk_limit demo_disk) (disk_cwd demo_disk) ''/data/content/binaries'' ''libreoffice/1.0_p.oxt'' =
      Inr ''/data/content/binaries/libreoffice/1.0_p.oxt''"
    "resolve_file demo_disk ''/data/content/binaries/libreoffice/1.0_p.oxt'' = ''/data/content/binaries/libreoffice/1.0_p.oxt''"
    "resolve_file demo_disk ''libreoffice/1.0_p.oxt'' = ''/srv/libreoffice/1.0_p.oxt''" by code_simp+
  show ?thesis by (simp add: api_upload_artifact_def t b n j bind_result_def slash_def Let_def checksum_fits varchar_ok_def
      checksum_fits [unfolded varchar_ok_def] ok_json_def empty_cat_def)
qed

end
