(* ===== verification/Db.thy ===== *)
theory Db
  imports Suggest "HOL-Library.Monad_Syntax"
begin

text \<open>
  \<open>app/services/db.py\<close> and the start-up of \<open>app/main.py\<close>: addresses of the database, the shared connection pool under concurrent first use, the repairs made to an
  existing schema before \<open>schema.sql\<close> is applied, the wait for the database and the order of the start-up calls. The driver and the script are parameters.
\<close>

section \<open>Addresses\<close>

record url =
  ur_scheme :: string
  ur_netloc :: string
  ur_path :: string
  ur_params :: string
  ur_query :: string
  ur_fragment :: string

definition uses_params :: "string list" where
  "uses_params = [[], ''ftp'', ''hdl'', ''prospero'', ''http'', ''https'', ''shttp'', ''rtsp'', ''rtspu'', ''sip'', ''sips'', ''mms'', ''sftp'', ''tel'']"

definition uses_netloc :: "string list" where
  "uses_netloc = [[], ''ftp'', ''http'', ''gopher'', ''nntp'', ''telnet'', ''imap'', ''wais'', ''file'', ''mms'', ''https'', ''shttp'', ''snews'', ''prospero'', ''rtsp'', ''rtspu'',
     ''rsync'', ''svn'', ''svn+ssh'', ''sftp'', ''nfs'', ''git'', ''git+ssh'', ''ws'', ''wss'']"

text \<open>\<open>;\<close> in the last component of the path.\<close>

definition splitparams :: "string \<Rightarrow> string \<times> string" where
  "splitparams p =
     (let cs = split_on (CHR ''/'') p; pre = butlast cs; (a, _, b) = partition_char (CHR '';'') (last cs) in (join_with ''/'' (pre @ [a]), b))"

text \<open>\<open>urlparse\<close>: scheme and authority as \<open>urlsplit\<close> reads them, then fragment, query and parameters.\<close>

definition url_body :: "string \<Rightarrow> string" where
  "url_body url0 =
     (let u = filter (\<lambda>c. (of_char c :: nat) \<notin> {9, 10, 13}) (lstrip_by (\<lambda>c. (of_char c :: nat) \<le> 32) url0);
          rest = (case split_once (CHR '':'') u of Some (a, b) \<Rightarrow> if a \<noteq> [] \<and> ascii_alpha (hd a) \<and> list_all url_scheme_char a then b else u | None \<Rightarrow> u)
      in if startswith rest ''//'' then dropWhile (\<lambda>c. c \<notin> {CHR ''/'', CHR ''?'', CHR ''#''}) (drop 2 rest) else rest)"

definition urlparse :: "(string \<Rightarrow> bool) \<Rightarrow> string \<Rightarrow> url result" where
  "urlparse literal url0 =
     bind_result (urlsplit literal url0) (\<lambda>u.
       let (b, _, frag) = partition_char (CHR ''#'') (url_body url0); (p, _, q) = partition_char (CHR ''?'') b;
           (path, params) = (if u_scheme u \<in> set uses_params \<and> CHR '';'' \<in> set p then splitparams p else (p, []))
       in Inr \<lparr>ur_scheme = u_scheme u, ur_netloc = u_netloc u, ur_path = path, ur_params = params, ur_query = q, ur_fragment = frag\<rparr>)"

definition urlunparse :: "url \<Rightarrow> string" where
  "urlunparse u =
     (let p = ur_path u @ (if ur_params u \<noteq> [] then CHR '';'' # ur_params u else []);
          a = (if ur_netloc u \<noteq> [] \<or> ur_scheme u \<in> set uses_netloc \<and> ur_scheme u \<noteq> [] \<and> \<not> startswith p ''//''
               then ''//'' @ ur_netloc u @ (if p \<noteq> [] \<and> \<not> startswith p ''/'' then CHR ''/'' # p else p) else p);
          b = (if ur_scheme u \<noteq> [] then ur_scheme u @ '':'' @ a else a);
          c = (if ur_query u \<noteq> [] then b @ ''?'' @ ur_query u else b)
      in if ur_fragment u \<noteq> [] then c @ ''#'' @ ur_fragment u else c)"

definition with_db :: "(string \<Rightarrow> bool) \<Rightarrow> string \<Rightarrow> string \<Rightarrow> string result" where
  "with_db literal u name = bind_result (urlparse literal u) (\<lambda>p. Inr (urlunparse (p\<lparr>ur_path := CHR ''/'' # name\<rparr>)))"

definition db_url :: "env \<Rightarrow> settings \<Rightarrow> string option" where
  "db_url e cfg =
     (let u = (if getenv e ''DATABASE_URL'' [] \<noteq> [] then getenv e ''DATABASE_URL'' [] else database_url cfg) in if u = [] then None else Some u)"

definition db_url_bootstrap :: "(string \<Rightarrow> bool) \<Rightarrow> env \<Rightarrow> settings \<Rightarrow> string option result" where
  "db_url_bootstrap literal e cfg = (case db_url e cfg of None \<Rightarrow> Inr None | Some b \<Rightarrow> bind_result (with_db literal b ''bootstrap'') (\<lambda>u. Inr (Some u)))"

definition admin_db_url :: "(string \<Rightarrow> bool) \<Rightarrow> env \<Rightarrow> string \<Rightarrow> string option result" where
  "admin_db_url literal e base =
     (let explicit = env_default e [''DATABASE_ADMIN_URL'', ''DM_DATABASE_ADMIN_URL''] [];
          user = env_default e [''DB_ADMIN_USER'', ''POSTGRES_ADMIN_USER'', ''POSTGRES_USER''] ''postgres'';
          password = env_default e [''DB_ADMIN_PASSWORD'', ''POSTGRES_ADMIN_PASSWORD'', ''POSTGRES_PASSWORD''] []
      in if explicit \<noteq> [] then Inr (Some explicit)
         else bind_result (urlparse literal base) (\<lambda>p.
           if password = [] then Inr None
           else let up = \<lparr>u_scheme = ur_scheme p, u_netloc = ur_netloc p\<rparr>; host = (if url_hostname up = [] then ''None'' else url_hostname up)
                in bind_result (url_port up) (\<lambda>port.
                  Inr (Some (urlunparse (p\<lparr>ur_netloc := user @ '':'' @ password @ ''@'' @ host @
                    (case port of Some n \<Rightarrow> if n = 0 then [] else '':'' @ str_of_int n | None \<Rightarrow> [])\<rparr>))))))"

section \<open>The connection pool\<close>

text \<open>One call of \<open>get_pool\<close> by one thread, step by step: the check without the lock, the lock, the second check and the creation under it, the last read of the
  variable. \<open>created\<close> tells whether the driver builds the pool.\<close>

datatype phase = Idle | WantLock | Locked | Returning | Got "nat option"

record pool_state =
  ps_pool :: "nat option"
  ps_made :: nat
  ps_holder :: "nat option"
  ps_phase :: "nat \<Rightarrow> phase"

definition go :: "nat \<Rightarrow> phase \<Rightarrow> pool_state \<Rightarrow> pool_state" where
  "go i ph s = s\<lparr>ps_phase := (ps_phase s)(i := ph)\<rparr>"

definition get_pool_step :: "bool \<Rightarrow> nat \<Rightarrow> bool \<Rightarrow> pool_state \<Rightarrow> pool_state option" where
  "get_pool_step configured i created s =
     (case ps_phase s i of
        Idle \<Rightarrow> Some (case ps_pool s of Some k \<Rightarrow> go i (Got (Some k)) s | None \<Rightarrow> go i (if configured then WantLock else Got None) s)
      | WantLock \<Rightarrow> (if ps_holder s = None then Some (go i Locked (s\<lparr>ps_holder := Some i\<rparr>)) else None)
      | Locked \<Rightarrow>
          Some (case ps_pool s of
              Some k \<Rightarrow> go i (Got (Some k)) (s\<lparr>ps_holder := None\<rparr>)
            | None \<Rightarrow> if created then go i Returning (s\<lparr>ps_holder := None, ps_pool := Some (ps_made s), ps_made := Suc (ps_made s)\<rparr>)
                      else go i (Got None) (s\<lparr>ps_holder := None\<rparr>))
      | Returning \<Rightarrow> Some (go i (Got (ps_pool s)) s)
      | Got _ \<Rightarrow> Some (go i Idle s))"

definition pool_start :: pool_state where
  "pool_start = \<lparr>ps_pool = None, ps_made = 0, ps_holder = None, ps_phase = (\<lambda>_. Idle)\<rparr>"

inductive pool_reach :: "bool \<Rightarrow> pool_state \<Rightarrow> bool" for configured where
  Start: "pool_reach configured pool_start"
| Step: "pool_reach configured s \<Longrightarrow> get_pool_step configured i created s = Some s' \<Longrightarrow> pool_reach configured s'"

definition POOL_MAX :: nat where "POOL_MAX = 10"

text \<open>A borrowed connection is given back whatever the body does.\<close>

definition with_pool_conn :: "(nat \<Rightarrow> 'a result) \<Rightarrow> nat \<Rightarrow> 'a result \<times> nat" where
  "with_pool_conn body used = (if used \<ge> POOL_MAX then (Inl (RuntimeError ''connection pool exhausted''), used) else (body (Suc used), used))"

section \<open>The schema\<close>

record table_info =
  ti_columns :: "string list"
  ti_constraints :: "(string \<times> bool) list"
  ti_defaults :: "string list"

record audit_hist =
  ah_type :: string
  ah_id :: "string option"
  ah_payload :: json
  ah_slug :: "string option"

record schema_db =
  sd_tables :: "table_info dict"
  sd_audit :: "audit_hist list"
  sd_plugins :: "(int \<times> string) list"
  sd_flags :: "(int \<times> string) list"

text \<open>The repairs, in the order of the block: a column with its default and the table it refers to, a constraint to drop, a default to drop, a foreign key to make
  cascading, the slug of the audit log.\<close>

datatype fixup = AddColumn string string bool "string option" | DropConstraint string string | DropDefault string string | CascadeFk string string | AuditSlug

definition FIXUPS :: "fixup list" where
  "FIXUPS = [
     AddColumn ''campaigns'' ''environment'' False None,
     AddColumn ''campaigns'' ''plugin_id'' False (Some ''plugins''),
     AddColumn ''campaigns'' ''version_id'' False (Some ''plugin_versions''),
     DropConstraint ''plugins'' ''plugins_slug_key'',
     AddColumn ''plugins'' ''extension_id'' False None,
     AddColumn ''plugins'' ''gecko_id'' False None,
     AddColumn ''feature_flags'' ''plugin_slug'' True None,
     AddColumn ''feature_flags'' ''deprecated'' True None,
     AddColumn ''feature_flags'' ''min_plugin_version'' False None,
     DropConstraint ''feature_flags'' ''feature_flags_name_key'',
     AddColumn ''feature_flag_overrides'' ''updated_at'' True None,
     DropDefault ''feature_flags'' ''default_value'',
     CascadeFk ''plugin_installations'' ''plugin_installations_plugin_id_fkey'',
     AuditSlug]"

definition has_table :: "schema_db \<Rightarrow> string \<Rightarrow> bool" where
  "has_table db t = (dget (sd_tables db) t \<noteq> None)"

definition set_table :: "string \<Rightarrow> table_info \<Rightarrow> schema_db \<Rightarrow> schema_db" where
  "set_table t ti db = db\<lparr>sd_tables := dset t ti (sd_tables db)\<rparr>"

definition all_digits :: "string \<Rightarrow> bool" where
  "all_digits s = (s \<noteq> [] \<and> list_all is_digit s)"

text \<open>\<open>::int\<close> and \<open>->>\<close>\<close>

definition pg_int :: "string \<Rightarrow> int result" where
  "pg_int s = (if int (read_digits 0 s) \<le> 2147483647 then Inr (int (read_digits 0 s)) else Inl DatabaseError)"

definition json_text :: "json \<Rightarrow> string \<Rightarrow> string option" where
  "json_text j k = (case j of JObj d \<Rightarrow> (case dget d k of None \<Rightarrow> None | Some JNull \<Rightarrow> None | Some (JStr s) \<Rightarrow> Some s | Some v \<Rightarrow> Some (dumps v)) | _ \<Rightarrow> None)"

fun coalesce_results :: "string option result list \<Rightarrow> string option result" where
  "coalesce_results [] = Inr None"
| "coalesce_results (Inl e # _) = Inl e"
| "coalesce_results (Inr (Some s) # _) = Inr (Some s)"
| "coalesce_results (Inr None # rs) = coalesce_results rs"

definition lookup_int :: "(int \<times> string) list \<Rightarrow> string \<Rightarrow> string option result" where
  "lookup_int tab s = (if all_digits s then bind_result (pg_int s) (\<lambda>n. Inr (map_of tab n)) else Inr None)"

definition derived_slug :: "schema_db \<Rightarrow> audit_hist \<Rightarrow> string option result" where
  "derived_slug db a =
     (let rid = (case ah_id a of Some r \<Rightarrow> r | None \<Rightarrow> [])
      in coalesce_results [
        Inr (if ah_type a = ''plugin'' \<and> ah_id a \<noteq> None \<and> \<not> all_digits rid \<and> rid \<noteq> ''*'' then Some rid else None),
        (if ah_type a = ''plugin'' then lookup_int (sd_plugins db) rid else Inr None),
        Inr (json_text (ah_payload a) ''plugin_slug''),
        (case json_text (ah_payload a) ''plugin_id'' of Some s \<Rightarrow> lookup_int (sd_plugins db) s | None \<Rightarrow> Inr None),
        (if ah_type a = ''flag'' then bind_result (lookup_int (sd_flags db) rid) (\<lambda>s. Inr (if s = Some [] then None else s)) else Inr None)])"

definition backfill :: "schema_db \<Rightarrow> audit_hist list result" where
  "backfill db = map_result (\<lambda>a. bind_result (derived_slug db a) (\<lambda>s.
     if (case s of Some x \<Rightarrow> length x \<le> 100 | None \<Rightarrow> True) then Inr (a\<lparr>ah_slug := s\<rparr>) else Inl DatabaseError)) (sd_audit db)"

fun exec_fixup :: "fixup \<Rightarrow> schema_db \<Rightarrow> schema_db result" where
  "exec_fixup (AddColumn t c d r) db =
     (case dget (sd_tables db) t of
        None \<Rightarrow> Inr db
      | Some ti \<Rightarrow>
          if c \<in> set (ti_columns ti) then Inr db
          else if (case r of Some q \<Rightarrow> \<not> has_table db q | None \<Rightarrow> False) then Inl DatabaseError
          else Inr (set_table t (ti\<lparr>ti_columns := ti_columns ti @ [c], ti_defaults := (if d then [c] else []) @ ti_defaults ti\<rparr>) db))"
| "exec_fixup (DropConstraint t k) db =
     (case dget (sd_tables db) t of
        None \<Rightarrow> Inr db
      | Some ti \<Rightarrow> if k \<in> fst ` set (ti_constraints ti) then Inr (set_table t (ti\<lparr>ti_constraints := filter (\<lambda>(n, _). n \<noteq> k) (ti_constraints ti)\<rparr>) db) else Inr db)"
| "exec_fixup (DropDefault t c) db =
     (case dget (sd_tables db) t of
        None \<Rightarrow> Inr db
      | Some ti \<Rightarrow>
          if c \<notin> set (ti_columns ti) then Inl DatabaseError
          else if c \<in> set (ti_defaults ti) then Inr (set_table t (ti\<lparr>ti_defaults := filter (\<lambda>x. x \<noteq> c) (ti_defaults ti)\<rparr>) db) else Inr db)"
| "exec_fixup (CascadeFk t k) db =
     (case dget (sd_tables db) t of
        None \<Rightarrow> Inr db
      | Some ti \<Rightarrow>
          if (k, False) \<notin> set (ti_constraints ti) then Inr db
          else if \<not> has_table db ''plugins'' then Inl DatabaseError
          else Inr (set_table t (ti\<lparr>ti_constraints := filter (\<lambda>(n, _). n \<noteq> k) (ti_constraints ti) @ [(k, True)]\<rparr>) db))"
| "exec_fixup AuditSlug db =
     (case dget (sd_tables db) ''admin_audit_log'' of
        None \<Rightarrow> Inr db
      | Some ti \<Rightarrow>
          if ''plugin_slug'' \<in> set (ti_columns ti) then Inr db
          else if \<not> has_table db ''plugins'' \<or> \<not> has_table db ''feature_flags'' then Inl DatabaseError
          else bind_result (backfill db) (\<lambda>as.
            Inr (set_table ''admin_audit_log'' (ti\<lparr>ti_columns := ti_columns ti @ [''plugin_slug'']\<rparr>) (db\<lparr>sd_audit := as\<rparr>))))"

text \<open>The block is one statement: an error undoes all of it. The script and the index follow, each on its own.\<close>

fun exec_fixups :: "fixup list \<Rightarrow> schema_db \<Rightarrow> schema_db result" where
  "exec_fixups [] db = Inr db"
| "exec_fixups (f # fs) db = bind_result (exec_fixup f db) (exec_fixups fs)"

definition apply_schema :: "bool \<Rightarrow> (schema_db \<Rightarrow> schema_db result) option \<Rightarrow> (schema_db \<Rightarrow> schema_db result) \<Rightarrow> schema_db \<Rightarrow> unit result \<times> schema_db" where
  "apply_schema driver script mkindex db =
     (if \<not> driver then (Inl (RuntimeError ''psycopg2 is not installed.''), db)
      else case script of
        None \<Rightarrow> (Inl (OSError ''Schema SQL not found''), db)
      | Some sql \<Rightarrow>
          (case exec_fixups FIXUPS db of
             Inl e \<Rightarrow> (Inl e, db)
           | Inr db1 \<Rightarrow>
               (case sql db1 of
                  Inl e \<Rightarrow> (Inl e, db1)
                | Inr db2 \<Rightarrow> (case mkindex db2 of Inl e \<Rightarrow> (Inl e, db2) | Inr db3 \<Rightarrow> (Inr (), db3)))))"

section \<open>Waiting for the database\<close>

text \<open>The outcome of the connection attempts and how long they take.\<close>

datatype attempt = Connected | Refused string | Broken py_error

record wait_io =
  wi_outcome :: "nat \<Rightarrow> attempt"
  wi_took :: "nat \<Rightarrow> int"

partial_function (option) wait_loop :: "wait_io \<Rightarrow> int \<Rightarrow> int \<Rightarrow> nat \<Rightarrow> int \<Rightarrow> string option \<Rightarrow> (unit result \<times> nat) option" where
  "wait_loop io deadline iv n t last_exc =
     (if t < deadline then
        (case wi_outcome io n of
           Connected \<Rightarrow> Some (Inr (), Suc n)
         | Broken e \<Rightarrow> Some (Inl e, Suc n)
         | Refused m \<Rightarrow>
             if iv < 0 then Some (Inl (ValueError ''sleep length must be non-negative''), Suc n)
             else wait_loop io deadline iv (Suc n) (t + wi_took io n + iv) (Some m))
      else Some (case last_exc of Some m \<Rightarrow> Inl (OSError m) | None \<Rightarrow> Inr (), n))"

definition wait_for_db :: "bool \<Rightarrow> wait_io \<Rightarrow> int \<Rightarrow> int \<Rightarrow> int \<Rightarrow> (unit result \<times> nat) option" where
  "wait_for_db driver io now timeout interval =
     (if \<not> driver then Some (Inl (RuntimeError ''psycopg2 is not installed.''), 0) else wait_loop io (now + timeout) interval 0 now None)"

section \<open>Start-up\<close>

record cluster =
  cl_databases :: "string list"
  cl_roles :: "string list"
  cl_statements :: "string list"

definition ensure_database_exists :: "string \<Rightarrow> cluster \<Rightarrow> cluster" where
  "ensure_database_exists name cl = (if name \<in> set (cl_databases cl) then cl else cl\<lparr>cl_databases := cl_databases cl @ [name]\<rparr>)"

text \<open>\<open>may_alter\<close>: whether the role used may alter others; without the right the statement is skipped.\<close>

definition ensure_dev_role :: "bool \<Rightarrow> cluster \<Rightarrow> cluster" where
  "ensure_dev_role may_alter cl =
     (let c1 = (if ''dev'' \<in> set (cl_roles cl) then cl else cl\<lparr>cl_roles := cl_roles cl @ [''dev'']\<rparr>)
      in if may_alter then c1\<lparr>cl_statements := cl_statements c1 @ [''ALTER ROLE dev NOSUPERUSER NOCREATEDB NOCREATEROLE NOREPLICATION'']\<rparr> else c1)"

definition DEV_GRANTS :: "string list" where
  "DEV_GRANTS = [
     ''GRANT CONNECT ON DATABASE bootstrap TO dev'',
     ''GRANT USAGE ON SCHEMA public TO dev'',
     ''GRANT SELECT, INSERT, UPDATE, DELETE ON ALL TABLES IN SCHEMA public TO dev'',
     ''GRANT USAGE, SELECT, UPDATE ON ALL SEQUENCES IN SCHEMA public TO dev'',
     ''ALTER DEFAULT PRIVILEGES IN SCHEMA public GRANT SELECT, INSERT, UPDATE, DELETE ON TABLES TO dev'',
     ''ALTER DEFAULT PRIVILEGES IN SCHEMA public GRANT USAGE, SELECT, UPDATE ON SEQUENCES TO dev'']"

definition ensure_dev_privileges :: "cluster \<Rightarrow> cluster" where
  "ensure_dev_privileges cl = cl\<lparr>cl_statements := cl_statements cl @ DEV_GRANTS\<rparr>"

datatype db_call = WaitDb string | EnsureRole string | EnsureDatabase string | ApplySchema string | GrantPrivileges string

text \<open>The calls up to the first that raises; a driver error while creating the role is only a warning.\<close>

fun passes :: "(db_call \<Rightarrow> py_error option) \<Rightarrow> db_call \<Rightarrow> bool" where
  "passes raises (EnsureRole u) = (raises (EnsureRole u) \<in> {None, Some DatabaseError})"
| "passes raises c = (raises c = None)"

fun run_calls :: "(db_call \<Rightarrow> py_error option) \<Rightarrow> db_call list \<Rightarrow> db_call list" where
  "run_calls raises [] = []"
| "run_calls raises (c # cs) = c # (if passes raises c then run_calls raises cs else [])"

text \<open>The first part makes sure that the database exists and leaves the administrator's address, the second applies the schema.\<close>

definition admin_phase :: "(string \<Rightarrow> bool) \<Rightarrow> env \<Rightarrow> (db_call \<Rightarrow> py_error option) \<Rightarrow> string \<Rightarrow> db_call list \<times> string option" where
  "admin_phase literal e raises base =
     (case admin_db_url literal e base of
        Inr (Some a) \<Rightarrow>
          (case with_db literal a ''postgres'' of
             Inr pg \<Rightarrow> (run_calls raises [WaitDb pg, EnsureRole pg, EnsureDatabase pg], Some pg)
           | Inl _ \<Rightarrow> ([], Some a))
      | _ \<Rightarrow> ([], None))"

definition bootstrap_calls :: "(db_call \<Rightarrow> py_error option) \<Rightarrow> string \<Rightarrow> db_call list" where
  "bootstrap_calls raises u = run_calls raises [WaitDb u, ApplySchema u, GrantPrivileges u]"

definition schema_phase :: "(string \<Rightarrow> bool) \<Rightarrow> env \<Rightarrow> settings \<Rightarrow> (db_call \<Rightarrow> py_error option) \<Rightarrow> string option \<Rightarrow> db_call list" where
  "schema_phase literal e cfg raises admin =
     (case db_url_bootstrap literal e cfg of
        Inl _ \<Rightarrow> []
      | Inr boot \<Rightarrow>
          (case admin of
             Some a \<Rightarrow> (case with_db literal a ''bootstrap'' of Inr u \<Rightarrow> bootstrap_calls raises u | Inl _ \<Rightarrow> [])
           | None \<Rightarrow> (case boot of Some u \<Rightarrow> run_calls raises [WaitDb u, ApplySchema u] | None \<Rightarrow> [])))"

definition startup_db_init :: "(string \<Rightarrow> bool) \<Rightarrow> env \<Rightarrow> settings \<Rightarrow> bool \<Rightarrow> (db_call \<Rightarrow> py_error option) \<Rightarrow> db_call list" where
  "startup_db_init literal e cfg driver raises =
     (case db_url e cfg of
        None \<Rightarrow> []
      | Some base \<Rightarrow>
          if \<not> driver then []
          else fst (admin_phase literal e raises base) @ schema_phase literal e cfg raises (snd (admin_phase literal e raises base)))"

section \<open>Lemmas\<close>

text \<open>The pool.\<close>

definition pool_inv :: "pool_state \<Rightarrow> bool" where
  "pool_inv s =
     (ps_made s = (if ps_pool s = None then 0 else 1) \<and> (\<forall>k. ps_pool s = Some k \<longrightarrow> k = 0) \<and>
      (\<forall>i. ps_phase s i = Locked \<longrightarrow> ps_holder s = Some i) \<and> (\<forall>i. ps_phase s i = Returning \<longrightarrow> ps_pool s \<noteq> None) \<and>
      (\<forall>i k. ps_phase s i = Got (Some k) \<longrightarrow> ps_pool s = Some k))"

lemma go_simps [simp]:
  "ps_pool (go i ph s) = ps_pool s" "ps_made (go i ph s) = ps_made s" "ps_holder (go i ph s) = ps_holder s" "ps_phase (go i ph s) = (ps_phase s)(i := ph)"
  by (simp_all add: go_def)

lemma pool_inv_step:
  assumes "pool_inv s" "get_pool_step configured i created s = Some s'"
  shows "pool_inv s'"
proof (cases "ps_phase s i")
  case Locked
  then have h: "ps_phase s j = Locked \<Longrightarrow> j = i" for j using assms(1) unfolding pool_inv_def by (metis option.inject)
  show ?thesis using Locked assms by (auto simp: pool_inv_def get_pool_step_def dest: h split: option.splits if_splits)
qed (use assms in \<open>auto simp: pool_inv_def get_pool_step_def split: option.splits if_splits\<close>)

lemma pool_reach_inv: "pool_reach configured s \<Longrightarrow> pool_inv s"
proof (induction rule: pool_reach.induct)
  case Start
  show ?case by (simp add: pool_inv_def pool_start_def)
qed (rule pool_inv_step)

text \<open>The repairs.\<close>

fun settled :: "fixup \<Rightarrow> schema_db \<Rightarrow> bool" where
  "settled (AddColumn t c d r) db = (\<forall>ti. dget (sd_tables db) t = Some ti \<longrightarrow> c \<in> set (ti_columns ti))"
| "settled (DropConstraint t k) db = (\<forall>ti. dget (sd_tables db) t = Some ti \<longrightarrow> k \<notin> fst ` set (ti_constraints ti))"
| "settled (DropDefault t c) db = (\<forall>ti. dget (sd_tables db) t = Some ti \<longrightarrow> c \<in> set (ti_columns ti) \<and> c \<notin> set (ti_defaults ti))"
| "settled (CascadeFk t k) db = (\<forall>ti. dget (sd_tables db) t = Some ti \<longrightarrow> (k, False) \<notin> set (ti_constraints ti))"
| "settled AuditSlug db = (\<forall>ti. dget (sd_tables db) ''admin_audit_log'' = Some ti \<longrightarrow> ''plugin_slug'' \<in> set (ti_columns ti))"

lemma settled_noop: "settled f db \<Longrightarrow> exec_fixup f db = Inr db"
  by (cases f) (auto split: option.splits)

lemma exec_settled: "exec_fixup f db = Inr db' \<Longrightarrow> settled f db'"
  by (cases f) (auto simp: set_table_def bind_result_def split: option.splits if_splits sum.splits)

text \<open>What a repair does to a table: no column is lost, no constraint or default of a column appears, and none stops cascading.\<close>

definition tgrows :: "table_info \<Rightarrow> table_info \<Rightarrow> bool" where
  "tgrows ti ti' \<longleftrightarrow> set (ti_columns ti) \<subseteq> set (ti_columns ti') \<and> fst ` set (ti_constraints ti') \<subseteq> fst ` set (ti_constraints ti) \<and>
     (\<forall>k. (k, False) \<in> set (ti_constraints ti') \<longrightarrow> (k, False) \<in> set (ti_constraints ti)) \<and>
     (\<forall>c \<in> set (ti_columns ti). c \<in> set (ti_defaults ti') \<longrightarrow> c \<in> set (ti_defaults ti))"

definition grows :: "schema_db \<Rightarrow> schema_db \<Rightarrow> bool" where
  "grows db db' \<longleftrightarrow> (\<forall>t. rel_option tgrows (dget (sd_tables db) t) (dget (sd_tables db') t))"

lemma tgrows_refl [simp]: "tgrows ti ti"
  by (simp add: tgrows_def)

lemma tgrows_trans: "tgrows a b \<Longrightarrow> tgrows b c \<Longrightarrow> tgrows a c"
  unfolding tgrows_def by (blast intro: subset_trans)

lemma grows_refl: "grows db db"
  by (simp add: grows_def option.rel_refl)

lemma grows_trans:
  assumes "grows a b" "grows b c"
  shows "grows a c"
  unfolding grows_def
proof
  fix t
  show "rel_option tgrows (dget (sd_tables a) t) (dget (sd_tables c) t)"
    using assms [unfolded grows_def, THEN spec, of t] tgrows_trans by (auto simp: option_rel_Some1 elim!: option.rel_cases)
qed

lemma grows_set_table:
  assumes "dget (sd_tables db) t = Some ti" "tgrows ti ti'" "sd_tables db1 = sd_tables db"
  shows "grows db (set_table t ti' db1)"
  using assms by (simp add: grows_def set_table_def option.rel_refl)

lemma tgrows_cascade:
  assumes "(k, False) \<in> set (ti_constraints ti)"
  shows "tgrows ti (ti\<lparr>ti_constraints := filter (\<lambda>(n, _). n \<noteq> k) (ti_constraints ti) @ [(k, True)]\<rparr>)"
proof -
  have "fst ` set (filter (\<lambda>(n, _). n \<noteq> k) (ti_constraints ti) @ [(k, True)]) \<subseteq> fst ` set (ti_constraints ti)" using assms by force
  then show ?thesis unfolding tgrows_def by auto
qed

lemma exec_grows: "exec_fixup f db = Inr db' \<Longrightarrow> grows db db'"
proof (induction f db rule: exec_fixup.induct)
  case (4 t k db)
  then show ?case by (auto split: option.splits if_splits intro!: grows_refl grows_set_table tgrows_cascade)
qed (auto simp: tgrows_def bind_result_def split: option.splits if_splits sum.splits intro!: grows_refl grows_set_table)

lemma settled_grows:
  assumes "settled f db" "grows db db'"
  shows "settled f db'"
proof -
  have g: "\<exists>ti. dget (sd_tables db) t = Some ti \<and> tgrows ti ti'" if "dget (sd_tables db') t = Some ti'" for t ti'
    using that assms(2) [unfolded grows_def, THEN spec, of t] by (auto simp: option_rel_Some2)
  show ?thesis using assms(1) g unfolding tgrows_def by (cases f) (simp; blast)+
qed

lemma exec_fixups_settled:
  "exec_fixups fs db = Inr db' \<Longrightarrow> grows db db' \<and> list_all (\<lambda>f. settled f db') fs"
proof (induction fs arbitrary: db)
  case (Cons f fs)
  then obtain db1 where f: "exec_fixup f db = Inr db1" "exec_fixups fs db1 = Inr db'" by (auto simp: bind_result_def split: sum.splits)
  have "grows db db1" "settled f db1" using exec_grows [OF f(1)] exec_settled [OF f(1)] by blast+
  moreover have "grows db1 db'" "list_all (\<lambda>f. settled f db') fs" using Cons.IH [OF f(2)] by blast+
  ultimately show ?case using settled_grows grows_trans by (auto simp: list_all_iff)
qed (simp add: grows_refl)

lemma settled_fixups: "list_all (\<lambda>f. settled f db) fs \<Longrightarrow> exec_fixups fs db = Inr db"
  by (induction fs) (simp_all add: settled_noop bind_result_def)

text \<open>The wait: the time left decreases with every refused attempt.\<close>

lemma wait_loop_returns:
  assumes "0 < iv" "\<forall>i. 0 \<le> wi_took io i"
  shows "\<exists>r k. wait_loop io dl iv n t le = Some (r, k) \<and> n \<le> k \<and> (k = n \<longleftrightarrow> dl \<le> t) \<and> (n < k \<longrightarrow> int (k - Suc n) * iv < dl - t) \<and>
    (\<forall>i. n \<le> i \<and> Suc i < k \<longrightarrow> (\<exists>m. wi_outcome io i = Refused m)) \<and>
    (r = Inr () \<longleftrightarrow> (if k = n then le = None else wi_outcome io (k - 1) = Connected))"
proof (induction "nat (dl - t)" arbitrary: n t le rule: less_induct)
  case less
  show ?case
  proof (cases "t < dl")
    case False
    then show ?thesis by (subst wait_loop.simps) (auto split: option.splits)
  next
    case True
    show ?thesis
    proof (cases "wi_outcome io n")
      case (Refused m)
      let ?t = "t + wi_took io n + iv"
      have tt: "t + iv \<le> ?t" using assms(2) by simp
      have "nat (dl - ?t) < nat (dl - t)" using tt assms(1) True by linarith
      from less [OF this, of "Suc n" "Some m"] obtain r k where k: "wait_loop io dl iv (Suc n) ?t (Some m) = Some (r, k)" "Suc n \<le> k" "k = Suc n \<longleftrightarrow> dl \<le> ?t"
        "Suc n < k \<longrightarrow> int (k - Suc (Suc n)) * iv < dl - ?t" "\<forall>i. Suc n \<le> i \<and> Suc i < k \<longrightarrow> (\<exists>m. wi_outcome io i = Refused m)"
        "r = Inr () \<longleftrightarrow> (if k = Suc n then False else wi_outcome io (k - 1) = Connected)" by auto
      have w: "wait_loop io dl iv n t le = Some (r, k)" using k(1) True Refused assms(1) by (subst wait_loop.simps) simp
      have "int (k - Suc n) * iv < dl - t"
      proof (cases "k = Suc n")
        case False
        then have "int (k - Suc n) * iv = int (k - Suc (Suc n)) * iv + iv" using k(2) by (simp add: algebra_simps of_nat_diff)
        moreover have "int (k - Suc (Suc n)) * iv < dl - ?t" using k(2,4) False by simp
        ultimately show ?thesis using tt by linarith
      qed (use True in simp)
      moreover have "\<forall>i. n \<le> i \<and> Suc i < k \<longrightarrow> (\<exists>m. wi_outcome io i = Refused m)" using k(5) Refused by (metis le_antisym not_less_eq_eq)
      moreover have "r = Inr () \<longleftrightarrow> wi_outcome io (k - 1) = Connected" using k(6) Refused by auto
      ultimately show ?thesis using w k(2) True by (intro exI [of _ r] exI [of _ k]) auto
    next
      case Connected
      then have "wait_loop io dl iv n t le = Some (Inr (), Suc n)" using True by (subst wait_loop.simps) simp
      then show ?thesis using True Connected by (intro exI [of _ "Inr ()"] exI [of _ "Suc n"]) auto
    next
      case (Broken e)
      then have "wait_loop io dl iv n t le = Some (Inl e, Suc n)" using True by (subst wait_loop.simps) simp
      then show ?thesis using True Broken by (intro exI [of _ "Inl e"] exI [of _ "Suc n"]) auto
    qed
  qed
qed

section \<open>Properties\<close>

text \<open>Property C32. With a positive interval the wait for the database ends: it makes at most as many attempts as intervals fit into the timeout (and one more), all but the
  last refused, and it succeeds exactly when the last attempt connected, or when the timeout leaves no time for any attempt.\<close>

theorem wait_for_db_returns:
  assumes "0 < interval" "\<forall>i. 0 \<le> wi_took io i"
  shows "\<exists>r n. wait_for_db True io now timeout interval = Some (r, n) \<and> (n = 0 \<longleftrightarrow> timeout \<le> 0) \<and> (0 < n \<longrightarrow> int (n - 1) * interval < timeout) \<and>
    (\<forall>i. Suc i < n \<longrightarrow> (\<exists>m. wi_outcome io i = Refused m)) \<and> (r = Inr () \<longleftrightarrow> n = 0 \<or> wi_outcome io (n - 1) = Connected)"
  using wait_loop_returns [OF assms, of "now + timeout" 0 now None] unfolding wait_for_db_def by auto

definition slow_db :: wait_io where
  "slow_db = \<lparr>wi_outcome = (\<lambda>i. if i < 2 then Refused ''starting up'' else Connected), wi_took = (\<lambda>_. 0)\<rparr>"

theorem wait_for_db_returns_witness:
  "wait_for_db True slow_db 0 (secs 30) (secs 1) = Some (Inr (), 3)"
proof -
  obtain r n where n: "wait_for_db True slow_db 0 (secs 30) (secs 1) = Some (r, n)" "n = 0 \<longleftrightarrow> secs 30 \<le> 0" "\<forall>i. Suc i < n \<longrightarrow> (\<exists>m. wi_outcome slow_db i = Refused m)"
      "r = Inr () \<longleftrightarrow> n = 0 \<or> wi_outcome slow_db (n - 1) = Connected"
    using wait_for_db_returns [of "secs 1" slow_db 0 "secs 30"] by (auto simp: secs_def slow_db_def)
  have "n \<le> 3" using n(3) [THEN spec, of 2] by (auto simp: slow_db_def)
  then have "n \<in> {1, 2, 3}" using n(2) by (auto simp: secs_def)
  moreover have "wait_for_db True slow_db 0 (secs 30) (secs 1) = Some (Inr (), 3)"
    by (simp add: wait_for_db_def wait_loop.simps slow_db_def secs_def numeral_2_eq_2 numeral_3_eq_3)
  ultimately show ?thesis by blast
qed

text \<open>With no time between the attempts and a server that refuses at once the loop does not end before the clock moves.\<close>

lemma wait_without_interval:
  assumes "wait_loop \<lparr>wi_outcome = (\<lambda>_. Refused m), wi_took = (\<lambda>_. 0)\<rparr> dl 0 n t le = Some y"
  shows "dl \<le> t"
proof -
  have "io = \<lparr>wi_outcome = (\<lambda>_. Refused m), wi_took = (\<lambda>_. 0)\<rparr> \<longrightarrow> iv = 0 \<longrightarrow> dl \<le> t" if "wait_loop io dl iv n t le = Some y" for io dl iv n t le y
    by (rule wait_loop.raw_induct [OF _ that]) (fastforce split: if_splits attempt.splits)
  then show ?thesis using assms by blast
qed

text \<open>The repairs of the schema can be repeated: once the block ran, running it again changes nothing, and it never removes a table or a column, adds a
  constraint, or gives a default to a column that was there.\<close>

theorem schema_repairs_idempotent:
  assumes "exec_fixups FIXUPS db = Inr db'"
  shows "exec_fixups FIXUPS db' = Inr db' \<and> (\<forall>t ti. dget (sd_tables db) t = Some ti \<longrightarrow> (\<exists>ti'. dget (sd_tables db') t = Some ti' \<and>
    set (ti_columns ti) \<subseteq> set (ti_columns ti') \<and> fst ` set (ti_constraints ti') \<subseteq> fst ` set (ti_constraints ti) \<and>
    set (ti_defaults ti') \<inter> set (ti_columns ti) \<subseteq> set (ti_defaults ti)))"
proof -
  have g: "grows db db'" "list_all (\<lambda>f. settled f db') FIXUPS" using exec_fixups_settled [OF assms] by blast+
  show ?thesis
  proof (intro conjI allI impI)
    show "exec_fixups FIXUPS db' = Inr db'" by (rule settled_fixups [OF g(2)])
    fix t ti
    assume "dget (sd_tables db) t = Some ti"
    then obtain ti' where "dget (sd_tables db') t = Some ti'" "tgrows ti ti'" using g(1) [unfolded grows_def, THEN spec, of t] by (auto simp: option_rel_Some1)
    then show "\<exists>ti'. dget (sd_tables db') t = Some ti' \<and> set (ti_columns ti) \<subseteq> set (ti_columns ti') \<and>
        fst ` set (ti_constraints ti') \<subseteq> fst ` set (ti_constraints ti) \<and> set (ti_defaults ti') \<inter> set (ti_columns ti) \<subseteq> set (ti_defaults ti)"
      unfolding tgrows_def by (intro exI [of _ ti']) blast
  qed
qed

definition old_schema :: schema_db where
  "old_schema = \<lparr>sd_tables = [
       (''plugins'', \<lparr>ti_columns = [''id'', ''slug''], ti_constraints = [(''plugins_slug_key'', False)], ti_defaults = []\<rparr>),
       (''feature_flags'', \<lparr>ti_columns = [''id'', ''default_value''], ti_constraints = [], ti_defaults = [''default_value'']\<rparr>),
       (''admin_audit_log'', \<lparr>ti_columns = [''id'', ''payload''], ti_constraints = [], ti_defaults = []\<rparr>)],
     sd_audit = [\<lparr>ah_type = ''plugin'', ah_id = Some ''7'', ah_payload = JObj [], ah_slug = None\<rparr>], sd_plugins = [(7, ''mirai'')], sd_flags = []\<rparr>"

definition repaired :: schema_db where
  "repaired = (case exec_fixups FIXUPS old_schema of Inr db \<Rightarrow> db | Inl _ \<Rightarrow> old_schema)"

theorem schema_repairs_idempotent_witness:
  "exec_fixups FIXUPS repaired = Inr repaired \<and> map ah_slug (sd_audit repaired) = [Some ''mirai'']"
proof -
  have e: "exec_fixups FIXUPS old_schema = Inr repaired" unfolding repaired_def by code_simp
  have "map ah_slug (sd_audit repaired) = [Some ''mirai'']" unfolding repaired_def by code_simp
  then show ?thesis using schema_repairs_idempotent [OF e] by blast
qed

text \<open>However many threads ask for the pool at the same time, at most one is ever made and all of them get that one.\<close>

theorem pool_shared:
  assumes "pool_reach configured s" "ps_phase s i = Got (Some k)" "ps_phase s j = Got (Some l)"
  shows "k = l \<and> ps_pool s = Some k \<and> ps_made s = 1"
proof -
  have "ps_pool s = Some k" "ps_pool s = Some l" "ps_made s = (if ps_pool s = None then 0 else 1)"
    using pool_reach_inv [OF assms(1)] assms(2,3) unfolding pool_inv_def by blast+
  then show ?thesis by simp
qed

text \<open>Two threads that both find no pool and race for the lock.\<close>

fun pool_run :: "nat list \<Rightarrow> pool_state \<Rightarrow> pool_state" where
  "pool_run [] s = s"
| "pool_run (i # is) s = (case get_pool_step True i True s of Some s' \<Rightarrow> pool_run is s' | None \<Rightarrow> s)"

lemma pool_run_reach: "pool_reach True s \<Longrightarrow> pool_reach True (pool_run is s)"
  by (induction "is" s rule: pool_run.induct) (auto intro: pool_reach.Step split: option.splits)

theorem pool_shared_witness:
  "\<exists>s. pool_reach True s \<and> ps_phase s 0 = Got (Some 0) \<and> ps_phase s 1 = Got (Some 0) \<and> ps_pool s = Some 0 \<and> ps_made s = 1"
proof -
  let ?g = "pool_run [0, 1, 1, 1, 1, 0, 0] pool_start"
  have r: "pool_reach True ?g" by (rule pool_run_reach [OF Start])
  have p: "ps_phase ?g 0 = Got (Some 0)" "ps_phase ?g 1 = Got (Some 0)" by code_simp+
  show ?thesis using r p pool_shared [OF r p] by blast
qed

text \<open>Privileges are granted only on a database whose schema was applied.\<close>

lemma bootstrap_grants:
  "GrantPrivileges u \<in> set (bootstrap_calls raises v) \<Longrightarrow> ApplySchema u \<in> set (bootstrap_calls raises v) \<and> raises (ApplySchema u) = None"
  by (auto simp: bootstrap_calls_def split: if_splits)

lemma admin_phase_grants: "GrantPrivileges u \<notin> set (fst (admin_phase literal e raises base))"
  by (auto simp: admin_phase_def split: sum.splits option.splits)

lemma schema_phase_grants:
  assumes "GrantPrivileges u \<in> set (schema_phase literal e cfg raises admin)"
  shows "ApplySchema u \<in> set (schema_phase literal e cfg raises admin) \<and> raises (ApplySchema u) = None"
proof (cases "db_url_bootstrap literal e cfg")
  case (Inr boot)
  show ?thesis
  proof (cases admin)
    case None
    then show ?thesis using assms Inr by (cases boot) (simp_all add: schema_phase_def split: if_splits)
  next
    case (Some a)
    then show ?thesis using assms Inr bootstrap_grants by (cases "with_db literal a ''bootstrap''") (auto simp: schema_phase_def)
  qed
qed (use assms in \<open>simp add: schema_phase_def\<close>)

lemma grants_after_schema:
  assumes "GrantPrivileges u \<in> set (startup_db_init literal e cfg driver raises)"
  shows "ApplySchema u \<in> set (startup_db_init literal e cfg driver raises) \<and> raises (ApplySchema u) = None"
proof -
  obtain base where d: "db_url e cfg = Some base" "driver" using assms by (cases "db_url e cfg") (simp_all add: startup_db_init_def split: if_splits)
  let ?x = "schema_phase literal e cfg raises (snd (admin_phase literal e raises base))"
  have "GrantPrivileges u \<in> set ?x" using assms d admin_phase_grants by (simp add: startup_db_init_def)
  then have "ApplySchema u \<in> set ?x \<and> raises (ApplySchema u) = None" by (rule schema_phase_grants)
  then show ?thesis using d by (simp add: startup_db_init_def)
qed

text \<open>A password with reserved characters is put into the address as it is, and the address then names another host.\<close>

lemma admin_password_unquoted:
  "admin_db_url (\<lambda>_. True) (\<lambda>k. if k = ''DB_ADMIN_PASSWORD'' then Some ''a/b'' else None) ''postgresql://u:p@db/x'' = Inr (Some ''postgresql://postgres:a/b@db/x'') \<and>
   map_option url_hostname (result_option (urlsplit (\<lambda>_. True) ''postgresql://postgres:a/b@db/x'')) = Some ''postgres''"
  by code_simp

text \<open>Replacing the database of an ordinary address leaves the rest of it alone.\<close>

lemma with_db_examples:
  "with_db (\<lambda>_. True) ''postgresql://u:p@db:5432/app?sslmode=require'' ''bootstrap'' = Inr ''postgresql://u:p@db:5432/bootstrap?sslmode=require'' \<and>
   with_db (\<lambda>_. True) ''postgresql://u:p@db'' ''bootstrap'' = Inr ''postgresql://u:p@db/bootstrap''"
  by code_simp

end
