(* ===== verification/Communications.thy ===== *)
theory Communications
  imports Flags
begin

text \<open>
  Communications (\<open>app/admin/services/communications.py\<close>) and the registry of Keycloak clients
  (\<open>app/admin/services/keycloak.py\<close>). A row of a table is a record, a table a list of rows; the
  clock and the identifiers the sequences draw are arguments. The columns are those of
  \<open>db/schema.sql\<close>; \<open>COMMUNICATION_COLUMNS\<close> lists them because one statement names a column that is
  not among them.
\<close>

section \<open>Tables\<close>

record comm_row =
  mm_id :: int
  mm_type :: string
  mm_title :: string
  mm_body :: string
  mm_priority :: string
  mm_plugin_id :: "int option"
  mm_cohort_id :: "int option"
  mm_starts_at :: "timestamp option"
  mm_expires_at :: "timestamp option"
  mm_question :: "string option"
  mm_choices :: json
  mm_multiple :: bool
  mm_comment :: bool
  mm_status :: string
  mm_created_by :: "string option"
  mm_updated_at :: timestamp

record comm_ack_row =
  ak_comm_id :: int
  ak_client_uuid :: string

record survey_row =
  sv_comm_id :: int
  sv_client_uuid :: string
  sv_email :: "string option"
  sv_choices :: json
  sv_comment :: "string option"
  sv_responded_at :: timestamp

record comm_db =
  communications :: "comm_row list"
  comm_acks :: "comm_ack_row list"
  survey_responses :: "survey_row list"

definition COMMUNICATION_COLUMNS :: "string list" where
  "COMMUNICATION_COLUMNS = [''id'', ''type'', ''title'', ''body'', ''priority'', ''target_plugin_id'', ''target_cohort_id'',
     ''min_plugin_version'', ''max_plugin_version'', ''starts_at'', ''expires_at'', ''survey_question'', ''survey_choices'',
     ''survey_allow_multiple'', ''survey_allow_comment'', ''status'', ''created_by'', ''created_at'', ''updated_at'']"

definition comm_types :: "string list" where
  "comm_types = [''announcement'', ''alert'', ''survey'', ''changelog'']"

definition comm_priorities :: "string list" where
  "comm_priorities = [''low'', ''normal'', ''high'', ''critical'']"

definition comm_statuses :: "string list" where
  "comm_statuses = [''draft'', ''active'', ''paused'', ''completed'', ''expired'']"

definition comm_ok :: "int list \<Rightarrow> int list \<Rightarrow> comm_row \<Rightarrow> bool" where
  "comm_ok plugins cohort_ids c = (mm_type c \<in> set comm_types \<and> length (mm_title c) \<le> 300 \<and> mm_priority c \<in> set comm_priorities \<and>
     mm_status c \<in> set comm_statuses \<and> (case mm_plugin_id c of None \<Rightarrow> True | Some i \<Rightarrow> i \<in> set plugins) \<and>
     (case mm_cohort_id c of None \<Rightarrow> True | Some i \<Rightarrow> i \<in> set cohort_ids))"

section \<open>Writing\<close>

text \<open>The columns the \<open>INSERT\<close> names. PostgreSQL refuses a statement that names an unknown column before it
  looks at the values; with the column present the row is checked and appended.\<close>

definition INSERT_COLUMNS :: "string list" where
  "INSERT_COLUMNS = [''type'', ''title'', ''body'', ''priority'', ''target_plugin_id'', ''target_cohort_id'',
     ''target_bundle_id'', ''min_plugin_version'', ''max_plugin_version'', ''starts_at'', ''expires_at'', ''survey_question'',
     ''survey_choices'', ''survey_allow_multiple'', ''survey_allow_comment'', ''status'', ''created_by'']"

definition create_communication :: "string list \<Rightarrow> int list \<Rightarrow> int list \<Rightarrow> comm_row \<Rightarrow> comm_db \<Rightarrow> (int \<times> comm_db) result" where
  "create_communication columns plugins cohort_ids row db =
     (if \<not> list_all (\<lambda>c. c \<in> set columns) INSERT_COLUMNS then Inl DatabaseError
      else if \<not> comm_ok plugins cohort_ids row then Inl DatabaseError
      else Inr (mm_id row, db\<lparr>communications := communications db @ [row]\<rparr>))"

definition update_communication_status :: "timestamp \<Rightarrow> int \<Rightarrow> string \<Rightarrow> comm_db \<Rightarrow> (bool \<times> comm_db) result" where
  "update_communication_status now i st db =
     (if \<not> list_ex (\<lambda>c. mm_id c = i) (communications db) then Inr (False, db)
      else if st \<notin> set comm_statuses then Inl DatabaseError
      else Inr (True, db\<lparr>communications := map (\<lambda>c. if mm_id c = i then c\<lparr>mm_status := st, mm_updated_at := now\<rparr> else c) (communications db)\<rparr>))"

definition ack_communication :: "int \<Rightarrow> string \<Rightarrow> comm_db \<Rightarrow> comm_db result" where
  "ack_communication i cu db =
     (if length cu > 255 then Inl DatabaseError
      else if list_ex (\<lambda>a. ak_comm_id a = i \<and> ak_client_uuid a = cu) (comm_acks db) then Inr db
      else if i \<notin> mm_id ` set (communications db) then Inl DatabaseError
      else Inr (db\<lparr>comm_acks := comm_acks db @ [\<lparr>ak_comm_id = i, ak_client_uuid = cu\<rparr>]\<rparr>))"

text \<open>\<open>INSERT ... ON CONFLICT (communication_id, client_uuid) DO UPDATE\<close>: the address of the first answer stays.\<close>

definition is_response :: "int \<Rightarrow> string \<Rightarrow> survey_row \<Rightarrow> bool" where
  "is_response i cu r = (sv_comm_id r = i \<and> sv_client_uuid r = cu)"

definition submit_survey_response :: "timestamp \<Rightarrow> int \<Rightarrow> string \<Rightarrow> string \<Rightarrow> json \<Rightarrow> string \<Rightarrow> comm_db \<Rightarrow> comm_db result" where
  "submit_survey_response now i cu email choices comment db =
     (let ch = (if truthy choices then choices else JList [])
      in if length cu > 255 \<or> length email > 255 then Inl DatabaseError
         else if list_ex (is_response i cu) (survey_responses db)
         then Inr (db\<lparr>survey_responses := map (\<lambda>r. if is_response i cu r
                then r\<lparr>sv_choices := ch, sv_comment := Some comment, sv_responded_at := now\<rparr> else r) (survey_responses db)\<rparr>)
         else if i \<notin> mm_id ` set (communications db) then Inl DatabaseError
         else Inr (db\<lparr>survey_responses := survey_responses db @
                [\<lparr>sv_comm_id = i, sv_client_uuid = cu, sv_email = Some email, sv_choices = ch, sv_comment = Some comment, sv_responded_at = now\<rparr>]\<rparr>))"

section \<open>Reading\<close>

text \<open>\<open>names\<close> and \<open>cohort_names\<close> are the two joined tables.\<close>

definition joined_name :: "(int \<times> string) list \<Rightarrow> int option \<Rightarrow> string option" where
  "joined_name tbl i = Option.bind i (map_of tbl)"

definition ack_count :: "comm_db \<Rightarrow> int \<Rightarrow> nat" where
  "ack_count db i = card (set (map ak_client_uuid (filter (\<lambda>a. ak_comm_id a = i) (comm_acks db))))"

definition response_count :: "comm_db \<Rightarrow> int \<Rightarrow> nat" where
  "response_count db i = length (filter (\<lambda>r. sv_comm_id r = i) (survey_responses db))"

record comm_view =
  mv_row :: comm_row
  mv_plugin_name :: "string option"
  mv_cohort_name :: "string option"
  mv_acks :: nat
  mv_responses :: nat

definition comm_matches :: "string option \<Rightarrow> string option \<Rightarrow> int option \<Rightarrow> comm_row \<Rightarrow> bool" where
  "comm_matches ty st pid c =
     ((case ty of Some t \<Rightarrow> t = [] \<or> mm_type c = t | None \<Rightarrow> True) \<and> (case st of Some s \<Rightarrow> s = [] \<or> mm_status c = s | None \<Rightarrow> True) \<and>
      (case pid of Some i \<Rightarrow> i = 0 \<or> mm_plugin_id c = Some i | None \<Rightarrow> True))"

definition list_communications ::
  "(int \<times> string) list \<Rightarrow> (int \<times> string) list \<Rightarrow> string option \<Rightarrow> string option \<Rightarrow> int option \<Rightarrow> nat \<Rightarrow> nat \<Rightarrow> comm_db \<Rightarrow> comm_view list" where
  "list_communications names cohort_names ty st pid limit offset db =
     take limit (drop offset (map (\<lambda>c. \<lparr>mv_row = c, mv_plugin_name = joined_name names (mm_plugin_id c),
         mv_cohort_name = joined_name cohort_names (mm_cohort_id c), mv_acks = ack_count db (mm_id c), mv_responses = response_count db (mm_id c)\<rparr>)
       (sort_key (\<lambda>c. - mm_updated_at c) (filter (comm_matches ty st pid) (communications db)))))"

definition get_communication ::
  "(int \<times> string) list \<Rightarrow> (int \<times> string) list \<Rightarrow> comm_db \<Rightarrow> int \<Rightarrow> (comm_row \<times> string option \<times> string option) option" where
  "get_communication names cohort_names db i =
     map_option (\<lambda>c. (c, joined_name names (mm_plugin_id c), joined_name cohort_names (mm_cohort_id c)))
       (find (\<lambda>c. mm_id c = i) (communications db))"

definition get_communication_stats :: "comm_db \<Rightarrow> int \<Rightarrow> nat \<times> nat" where
  "get_communication_stats db i = (length (filter (\<lambda>a. ak_comm_id a = i) (comm_acks db)), response_count db i)"

text \<open>\<open>str(c)\<close> of each choice counted; a choice list that is neither a list nor a string is iterated as Python does.\<close>

definition bump :: "string \<Rightarrow> nat dict \<Rightarrow> nat dict" where
  "bump k d = dset k ((case dget d k of Some n \<Rightarrow> n | None \<Rightarrow> 0) + 1) d"

definition chosen :: "json \<Rightarrow> json list result" where
  "chosen raw = bind_result (case raw of JStr s \<Rightarrow> (case loads s of Some j \<Rightarrow> Inr j | None \<Rightarrow> Inl (ValueError s)) | _ \<Rightarrow> Inr raw) (\<lambda>j.
     py_iter (if truthy j then j else JList []))"

fun tally :: "survey_row list \<Rightarrow> nat dict \<Rightarrow> nat dict result" where
  "tally [] d = Inr d"
| "tally (r # rs) d = bind_result (chosen (sv_choices r)) (\<lambda>cs. tally rs (fold (\<lambda>c. bump (py_str c)) cs d))"

record survey_results =
  sr_total :: nat
  sr_counts :: "nat dict"
  sr_comments :: "(string option \<times> string \<times> timestamp) list"

definition get_survey_results :: "comm_db \<Rightarrow> int \<Rightarrow> survey_results result" where
  "get_survey_results db i =
     (let rs = sort_key (\<lambda>r. - sv_responded_at r) (filter (\<lambda>r. sv_comm_id r = i) (survey_responses db))
      in bind_result (tally rs []) (\<lambda>d. Inr \<lparr>sr_total = length rs, sr_counts = d,
           sr_comments = concat (map (\<lambda>r. case sv_comment r of Some (x # xs) \<Rightarrow> [(sv_email r, x # xs, sv_responded_at r)] | _ \<Rightarrow> []) rs)\<rparr>))"

section \<open>Delivery to a device\<close>

definition priority_rank :: "string \<Rightarrow> nat" where
  "priority_rank p = (if p = ''critical'' then 0 else if p = ''high'' then 1 else if p = ''normal'' then 2 else 3)"

text \<open>\<open>starts_at DESC\<close> puts \<open>NULL\<close> first.\<close>

definition starts_key :: "timestamp option \<Rightarrow> nat \<times> timestamp" where
  "starts_key t = (case t of None \<Rightarrow> (0, 0) | Some s \<Rightarrow> (1, - s))"

definition comm_visible :: "(int \<times> string) list \<Rightarrow> timestamp \<Rightarrow> string \<Rightarrow> string \<Rightarrow> comm_db \<Rightarrow> comm_row \<Rightarrow> bool" where
  "comm_visible slugs now slug cu db c =
     (mm_status c = ''active'' \<and>
      (case mm_starts_at c of None \<Rightarrow> True | Some s \<Rightarrow> s \<le> now) \<and>
      (case mm_expires_at c of None \<Rightarrow> True | Some x \<Rightarrow> now < x) \<and>
      (joined_name slugs (mm_plugin_id c) \<in> {None, Some slug} \<or> mm_plugin_id c = None) \<and>
      \<not> list_ex (\<lambda>a. ak_comm_id a = mm_id c \<and> ak_client_uuid a = cu) (comm_acks db))"

definition get_active_communications :: "(int \<times> string) list \<Rightarrow> timestamp \<Rightarrow> string option \<Rightarrow> string option \<Rightarrow> comm_db \<Rightarrow> comm_row list" where
  "get_active_communications slugs now slug cu db =
     take 10 (sort_key (\<lambda>c. (priority_rank (mm_priority c), starts_key (mm_starts_at c)))
       (filter (comm_visible slugs now (str_or slug []) (str_or cu []) db) (communications db)))"

section \<open>Keycloak clients\<close>

record kc_row =
  kc_id :: int
  kc_client_id :: string
  kc_realm :: string
  kc_description :: "string option"
  kc_client_type :: string
  kc_redirect_uris :: json
  kc_web_origins :: json
  kc_pkce :: bool
  kc_direct :: bool

record kc_link =
  kl_plugin_id :: int
  kl_client :: int
  kl_environment :: string

record kc_db =
  keycloak_clients :: "kc_row list"
  kc_links :: "kc_link list"

definition get_defaults :: "env \<Rightarrow> string dict" where
  "get_defaults e = [(''realm'', getenv e ''KEYCLOAK_REALM'' []), (''issuer_url'', getenv e ''KEYCLOAK_ISSUER_URL'' []),
     (''default_client_id'', getenv e ''KEYCLOAK_CLIENT_ID'' []),
     (''default_redirect_uri'', getenv e ''KEYCLOAK_REDIRECT_URI'' ''http://localhost:28443/callback'')]"

definition list_clients :: "string option \<Rightarrow> kc_db \<Rightarrow> kc_row list" where
  "list_clients realm db = sort_key kc_client_id (filter (\<lambda>k. case realm of Some r \<Rightarrow> r = [] \<or> kc_realm k = r | None \<Rightarrow> True) (keycloak_clients db))"

definition get_client :: "kc_db \<Rightarrow> int \<Rightarrow> kc_row option" where
  "get_client db i = find (\<lambda>k. kc_id k = i) (keycloak_clients db)"

definition create_client :: "int \<Rightarrow> string \<Rightarrow> string \<Rightarrow> string \<Rightarrow> string \<Rightarrow> json list \<Rightarrow> json list \<Rightarrow> bool \<Rightarrow> bool \<Rightarrow> kc_db \<Rightarrow> (int \<times> kc_db) result" where
  "create_client kid cid realm desc ctype uris origins pkce direct db =
     (if length cid > 200 \<or> length realm > 100 \<or> ctype \<notin> {''public'', ''confidential''} then Inl DatabaseError
      else if cid \<in> kc_client_id ` set (keycloak_clients db) then Inl UniqueViolation
      else Inr (kid, db\<lparr>keycloak_clients := keycloak_clients db @
        [\<lparr>kc_id = kid, kc_client_id = cid, kc_realm = realm, kc_description = Some desc, kc_client_type = ctype, kc_redirect_uris = JList uris,
          kc_web_origins = JList (if origins = [] then [JStr ''*''] else origins), kc_pkce = pkce, kc_direct = direct\<rparr>]\<rparr>))"

definition link_plugin_client :: "int list \<Rightarrow> int \<Rightarrow> int \<Rightarrow> string \<Rightarrow> kc_db \<Rightarrow> kc_db result" where
  "link_plugin_client plugins pid kid en db =
     (if length en > 50 then Inl DatabaseError
      else if \<lparr>kl_plugin_id = pid, kl_client = kid, kl_environment = en\<rparr> \<in> set (kc_links db) then Inr db
      else if pid \<notin> set plugins \<or> kid \<notin> kc_id ` set (keycloak_clients db) then Inl DatabaseError
      else Inr (db\<lparr>kc_links := kc_links db @ [\<lparr>kl_plugin_id = pid, kl_client = kid, kl_environment = en\<rparr>]\<rparr>))"

definition unlink_plugin_client :: "int \<Rightarrow> string \<Rightarrow> kc_db \<Rightarrow> kc_db" where
  "unlink_plugin_client pid en db = db\<lparr>kc_links := filter (\<lambda>l. \<not> (kl_plugin_id l = pid \<and> kl_environment l = en)) (kc_links db)\<rparr>"

definition get_plugin_clients :: "kc_db \<Rightarrow> int \<Rightarrow> (string \<times> kc_row) list" where
  "get_plugin_clients db pid = sort_key fst (concat (map (\<lambda>l. map (\<lambda>k. (kl_environment l, k)) (filter (\<lambda>k. kc_id k = kl_client l) (keycloak_clients db)))
     (filter (\<lambda>l. kl_plugin_id l = pid) (kc_links db))))"

definition uri_list :: "json \<Rightarrow> json \<Rightarrow> json result" where
  "uri_list v d = (let j = (if truthy v then v else d)
     in case j of JStr s \<Rightarrow> (case loads s of Some x \<Rightarrow> Inr x | None \<Rightarrow> Inl (ValueError s)) | _ \<Rightarrow> Inr j)"

definition export_keycloak_json :: "kc_row \<Rightarrow> string \<Rightarrow> json result" where
  "export_keycloak_json k plugin_name =
     bind_result (uri_list (kc_redirect_uris k) (JList [])) (\<lambda>uris. bind_result (uri_list (kc_web_origins k) (JList [JStr ''*''])) (\<lambda>origins.
       Inr (JObj [(''clientId'', JStr (kc_client_id k)),
         (''name'', JStr (str_or (Some plugin_name) (str_or (kc_description k) (kc_client_id k)))),
         (''description'', JStr ''Client genere par Device Management''), (''enabled'', JBool True), (''protocol'', JStr ''openid-connect''),
         (''publicClient'', JBool (kc_client_type k = ''public'')), (''standardFlowEnabled'', JBool True),
         (''directAccessGrantsEnabled'', JBool (kc_direct k)), (''serviceAccountsEnabled'', JBool False),
         (''redirectUris'', uris), (''webOrigins'', origins),
         (''attributes'', JObj [(''pkce.code.challenge.method'', JStr (if kc_pkce k then ''S256'' else [])), (''post.logout.redirect.uris'', JStr ''+'')]),
         (''defaultClientScopes'', JList (map JStr [''web-origins'', ''profile'', ''roles'', ''email''])),
         (''optionalClientScopes'', JList (map JStr [''offline_access'', ''groups'']))])))"

section \<open>Lemmas\<close>

lemma create_communication_refused: "create_communication COMMUNICATION_COLUMNS plugins cohort_ids row db = Inl DatabaseError"
proof -
  have "''target_bundle_id'' \<in> set INSERT_COLUMNS" "''target_bundle_id'' \<notin> set COMMUNICATION_COLUMNS"
    by (simp_all add: INSERT_COLUMNS_def COMMUNICATION_COLUMNS_def)
  then have "\<not> list_all (\<lambda>c. c \<in> set COMMUNICATION_COLUMNS) INSERT_COLUMNS" by (auto simp: list_all_iff)
  then show ?thesis by (simp add: create_communication_def)
qed

lemma active_visible: "c \<in> set (get_active_communications slugs now slug cu db) \<Longrightarrow> comm_visible slugs now (str_or slug []) (str_or cu []) db c"
  by (auto simp: get_active_communications_def dest: in_set_takeD)

lemma active_bounded: "length (get_active_communications slugs now slug cu db) \<le> 10"
  by (simp add: get_active_communications_def)

text \<open>An urgent message is never crowded out by a less urgent one.\<close>

lemma sorted_take_drop: "sorted_wrt R xs \<Longrightarrow> x \<in> set (take n xs) \<Longrightarrow> y \<in> set (drop n xs) \<Longrightarrow> R x y"
  by (metis append_take_drop_id sorted_wrt_append)

lemma active_by_priority:
  assumes "c \<in> set (communications db)" "comm_visible slugs now (str_or slug []) (str_or cu []) db c"
    "c \<notin> set (get_active_communications slugs now slug cu db)" "d \<in> set (get_active_communications slugs now slug cu db)"
  shows "priority_rank (mm_priority d) \<le> priority_rank (mm_priority c)"
proof -
  let ?key = "\<lambda>c. (priority_rank (mm_priority c), starts_key (mm_starts_at c))"
  let ?xs = "sort_key ?key (filter (comm_visible slugs now (str_or slug []) (str_or cu []) db) (communications db))"
  have "c \<in> set ?xs" using assms(1,2) by simp
  then have "c \<in> set (take 10 ?xs) \<or> c \<in> set (drop 10 ?xs)" by (metis append_take_drop_id set_append UnE)
  then have "c \<in> set (drop 10 ?xs)" using assms(3) by (simp add: get_active_communications_def)
  moreover have "d \<in> set (take 10 ?xs)" using assms(4) by (simp add: get_active_communications_def)
  moreover have "sorted_wrt (\<lambda>a b. ?key a \<le> ?key b) ?xs" using sorted_sort_key [of ?key] by (simp add: sorted_map)
  ultimately have "?key d \<le> ?key c" using sorted_take_drop [of "\<lambda>a b. ?key a \<le> ?key b" ?xs d 10 c] by blast
  then show ?thesis by auto
qed

lemma acked_stays_hidden:
  assumes "ack_communication i cu db = Inr db'" "cu \<noteq> []" "c \<in> set (get_active_communications slugs now slug (Some cu) db')"
  shows "mm_id c \<noteq> i"
proof -
  have "list_ex (\<lambda>a. ak_comm_id a = i \<and> ak_client_uuid a = cu) (comm_acks db')"
    using assms(1) by (auto simp: ack_communication_def split: if_splits)
  moreover have "comm_visible slugs now (str_or slug []) cu db' c" using active_visible [OF assms(3)] assms(2) by simp
  ultimately show ?thesis by (auto simp: comm_visible_def)
qed

lemma ack_idempotent: "ack_communication i cu db = Inr db' \<Longrightarrow> ack_communication i cu db' = Inr db'"
  by (auto simp: ack_communication_def split: if_splits)

text \<open>The cohort a message is addressed to is not part of the test: every device gets it.\<close>

lemma cohort_not_consulted: "comm_visible slugs now slug cu db (c\<lparr>mm_cohort_id := x\<rparr>) = comm_visible slugs now slug cu db c"
  by (simp add: comm_visible_def)

definition response_key :: "survey_row \<Rightarrow> int \<times> string" where
  "response_key r = (sv_comm_id r, sv_client_uuid r)"

text \<open>A device has one answer per survey, the last it sent.\<close>

lemma survey_one_answer:
  assumes "submit_survey_response now i cu email choices comment db = Inr db'" "distinct (map response_key (survey_responses db))"
  shows "distinct (map response_key (survey_responses db'))"
    "\<exists>r \<in> set (survey_responses db'). is_response i cu r \<and> sv_choices r = (if truthy choices then choices else JList []) \<and> sv_responded_at r = now"
proof -
  define ch where "ch = (if truthy choices then choices else JList [])"
  let ?upd = "\<lambda>r. if is_response i cu r then r\<lparr>sv_choices := ch, sv_comment := Some comment, sv_responded_at := now\<rparr> else r"
  let ?new = "\<lparr>sv_comm_id = i, sv_client_uuid = cu, sv_email = Some email, sv_choices = ch, sv_comment = Some comment, sv_responded_at = now\<rparr>"
  have key: "map response_key (map ?upd rs) = map response_key rs" for rs
    by (induction rs) (simp_all add: response_key_def)
  consider (old) "list_ex (is_response i cu) (survey_responses db)" "db' = db\<lparr>survey_responses := map ?upd (survey_responses db)\<rparr>"
    | (new) "\<not> list_ex (is_response i cu) (survey_responses db)" "db' = db\<lparr>survey_responses := survey_responses db @ [?new]\<rparr>"
    using assms(1) by (auto simp: submit_survey_response_def Let_def ch_def split: if_splits)
  then have "distinct (map response_key (survey_responses db')) \<and>
    (\<exists>r \<in> set (survey_responses db'). is_response i cu r \<and> sv_choices r = ch \<and> sv_responded_at r = now)"
  proof cases
    case old
    from old(1) obtain r where "r \<in> set (survey_responses db)" "is_response i cu r" by (auto simp: list_ex_iff)
    then have "?upd r \<in> set (survey_responses db')" "is_response i cu (?upd r)" "sv_choices (?upd r) = ch" "sv_responded_at (?upd r) = now"
      using old(2) by (auto simp: is_response_def)
    moreover have "map response_key (survey_responses db') = map response_key (survey_responses db)"
      using key [of "survey_responses db"] unfolding old(2) by (simp del: map_map)
    ultimately show ?thesis using assms(2) by metis
  next
    case new
    have "response_key ?new \<notin> set (map response_key (survey_responses db))"
      using new(1) by (auto simp: response_key_def list_ex_iff is_response_def)
    moreover have "is_response i cu ?new" by (simp add: is_response_def)
    ultimately show ?thesis using new(2) assms(2) by auto
  qed
  then show "distinct (map response_key (survey_responses db'))"
    "\<exists>r \<in> set (survey_responses db'). is_response i cu r \<and> sv_choices r = (if truthy choices then choices else JList []) \<and> sv_responded_at r = now"
    by (auto simp: ch_def)
qed

text \<open>Every choice of every answer is counted once.\<close>

definition weight :: "nat dict \<Rightarrow> nat" where
  "weight d = sum_list (map snd d)"

lemma weight_dset: "distinct (map fst d) \<Longrightarrow> weight (dset k n d) + (case dget d k of Some m \<Rightarrow> m | None \<Rightarrow> 0) = weight d + n"
  by (induction d) (auto simp: weight_def dset_def dget_def AList.update_conv split: option.splits if_splits)

lemma weight_bump: "distinct (map fst d) \<Longrightarrow> weight (bump k d) = weight d + 1 \<and> distinct (map fst (bump k d))"
  using weight_dset [of d k "(case dget d k of Some n \<Rightarrow> n | None \<Rightarrow> 0) + 1"] distinct_dset [of d k]
  by (auto simp: bump_def split: option.splits)

lemma weight_bumps: "distinct (map fst d) \<Longrightarrow> weight (fold (\<lambda>c. bump (py_str c)) cs d) = weight d + length cs \<and> distinct (map fst (fold (\<lambda>c. bump (py_str c)) cs d))"
  by (induction cs arbitrary: d) (use weight_bump in auto)

lemma tally_counts:
  assumes "tally rs d = Inr d'" "distinct (map fst d)"
  shows "weight d' = weight d + (\<Sum>r\<leftarrow>rs. length (the (result_option (chosen (sv_choices r)))))"
  using assms
proof (induction rs arbitrary: d)
  case (Cons r rs)
  from Cons.prems obtain cs where cs: "chosen (sv_choices r) = Inr cs" "tally rs (fold (\<lambda>c. bump (py_str c)) cs d) = Inr d'"
    by (cases "chosen (sv_choices r)") auto
  from Cons.IH [OF cs(2)] weight_bumps [OF Cons.prems(2), of cs] cs(1) show ?case by simp
qed simp

text \<open>A client registered through the service is exported with the addresses it was registered with.\<close>

lemma export_registered:
  assumes "create_client kid cid realm desc ctype uris origins pkce direct db = Inr (i, db')" "kid \<notin> kc_id ` set (keycloak_clients db)" "uris \<noteq> []"
  shows "\<exists>k kvs. get_client db' i = Some k \<and> export_keycloak_json k name = Inr (JObj kvs) \<and> dget kvs ''clientId'' = Some (JStr cid) \<and>
    dget kvs ''redirectUris'' = Some (JList uris) \<and> dget kvs ''publicClient'' = Some (JBool (ctype = ''public''))"
proof -
  have "find (\<lambda>k. kc_id k = kid) (keycloak_clients db) = None" using assms(2) by (auto simp: find_None_iff)
  then obtain k where k: "get_client db' i = Some k" "kc_client_id k = cid" "kc_redirect_uris k = JList uris" "kc_client_type k = ctype"
      "kc_web_origins k = JList (if origins = [] then [JStr ''*''] else origins)"
    using assms(1) by (auto simp: create_client_def get_client_def find_snoc split: if_splits)
  have "\<exists>kvs. export_keycloak_json k name = Inr (JObj kvs) \<and> dget kvs ''clientId'' = Some (JStr cid) \<and>
    dget kvs ''redirectUris'' = Some (JList uris) \<and> dget kvs ''publicClient'' = Some (JBool (ctype = ''public''))"
    using k(2-5) assms(3) by (cases uris; cases origins) (simp_all add: export_keycloak_json_def uri_list_def dget_def)
  with k(1) show ?thesis by blast
qed

end
