(* ===== verification/Admin.thy ===== *)
theory Admin
  imports Catalog AdminAuth Communications
begin

text \<open>
  The routes of the administration pages that change the database (\<open>app/admin/router.py\<close>) and the
  audit log (\<open>app/admin/helpers.py\<close>). Each of these routes opens a connection, calls a service,
  writes an audit entry on the same cursor and commits; any exception rolls the transaction back.
  The tables of the services come from their theories; \<open>ad_cat\<close> holds the catalogue, the flags and
  the campaigns. What the server alone knows (whether a string is an \<open>inet\<close> or a \<open>timestamptz\<close>, how
  a Python value is adapted, the text of an exception, a refused connection) is in the record
  \<open>admin_env\<close>. The target of a redirection is given before Starlette percent-encodes it.
\<close>

section \<open>State\<close>

record env_row =
  ev_id :: int
  ev_plugin_id :: int
  ev_environment :: string
  ev_key :: string
  ev_value :: string
  ev_secret :: bool
  ev_updated_at :: timestamp

record alias_row =
  aa_alias :: string
  aa_plugin_id :: int

record waitlist_row =
  wl_id :: int
  wl_plugin_id :: int
  wl_email :: string
  wl_status :: string
  wl_reviewed_by :: "string option"
  wl_reviewed_at :: "timestamp option"

record audit_row =
  au_created_at :: timestamp
  au_actor_email :: "string option"
  au_actor_sub :: "string option"
  au_action :: string
  au_resource_type :: string
  au_resource_id :: "string option"
  au_payload :: "json option"
  au_ip :: "string option"
  au_plugin_slug :: "string option"

record admin_db =
  ad_cat :: cat_db
  ad_cohorts :: cohort_db
  ad_relays :: relay_state
  ad_comms :: comm_db
  ad_kc :: kc_db
  ad_env :: "env_row list"
  ad_aliases :: "alias_row list"
  ad_waitlist :: "waitlist_row list"
  ad_audit :: "audit_row list"

record admin_env =
  ae_connect :: "py_error option"
  ae_pg :: pg_adapter
  ae_inet :: "string \<Rightarrow> bool"
  ae_timestamptz :: "string \<Rightarrow> timestamp option"
  ae_text :: "py_error \<Rightarrow> string"

text \<open>\<open>request.state.admin_session\<close>, \<open>request.client.host\<close>, the clock and the next values of the sequences.\<close>

record admin_request =
  aq_actor :: "json dict"
  aq_ip :: "string option"
  aq_now :: timestamp
  aq_id :: int
  aq_flag_ids :: "string \<Rightarrow> int"

text \<open>The table of cohorts is shared: campaigns refer to its keys.\<close>

definition put_cohorts :: "cohort_db \<Rightarrow> admin_db \<Rightarrow> admin_db" where
  "put_cohorts cdb db = db\<lparr>ad_cohorts := cdb, ad_cat := (ad_cat db)\<lparr>ct_cohorts := map co_id (cohorts cdb)\<rparr>\<rparr>"

definition put_flags :: "flag_db \<Rightarrow> admin_db \<Rightarrow> admin_db" where
  "put_flags fdb db = db\<lparr>ad_cat := (ad_cat db)\<lparr>ct_flags := fdb\<rparr>\<rparr>"

definition put_campaigns :: "campaign_db \<Rightarrow> admin_db \<Rightarrow> admin_db" where
  "put_campaigns cdb db = db\<lparr>ad_cat := (ad_cat db)\<lparr>ct_campaigns := campaigns cdb\<rparr>\<rparr>"

section \<open>The audit log\<close>

definition plugin_slug_of :: "string \<Rightarrow> admin_db \<Rightarrow> string option result" where
  "plugin_slug_of rid db = (case py_int rid of
       None \<Rightarrow> Inl (int_error rid)
     | Some i \<Rightarrow> Inr (case get_plugin (ad_cat db) i of Some p \<Rightarrow> if cp_slug p = [] then None else Some (cp_slug p) | None \<Rightarrow> None))"

definition flag_slug_of :: "string \<Rightarrow> admin_db \<Rightarrow> string option result" where
  "flag_slug_of rid db = (case py_int rid of
       None \<Rightarrow> Inl (int_error rid)
     | Some i \<Rightarrow> Inr (case find (\<lambda>f. ff_id f = i) (feature_flags (ct_flags (ad_cat db))) of
         Some f \<Rightarrow> if ff_plugin_slug f = [] then None else Some (ff_plugin_slug f) | None \<Rightarrow> None))"

definition or_else :: "string option result \<Rightarrow> string option result \<Rightarrow> string option result" where
  "or_else a b = bind_result a (\<lambda>x. case x of Some s \<Rightarrow> Inr (Some s) | None \<Rightarrow> b)"

definition derive_audit_plugin :: "string \<Rightarrow> string option \<Rightarrow> json dict \<Rightarrow> admin_db \<Rightarrow> string option result" where
  "derive_audit_plugin rtype rid pl db =
     (let r = str_or rid []; slug = strip (py_str (jget_or pl ''plugin_slug'' (JStr []))); pid = jget pl ''plugin_id''
      in or_else (if rtype \<noteq> ''plugin'' \<or> r = [] then Inr None
                  else if isdigit r then plugin_slug_of r db
                  else Inr (if r = ''*'' then None else Some r))
        (or_else (Inr (if slug = [] then None else Some slug))
        (or_else (if pid \<noteq> JNull \<and> isdigit (py_str pid) then plugin_slug_of (py_str pid) db else Inr None)
          (if rtype = ''flag'' \<and> r \<noteq> [] \<and> isdigit r then flag_slug_of r db else Inr None))))"

definition actor_field :: "admin_env \<Rightarrow> json dict \<Rightarrow> string \<Rightarrow> string option result" where
  "actor_field en actor k = sql_param (as_text (ae_pg en)) (case dget actor k of Some v \<Rightarrow> v | None \<Rightarrow> JStr ''unknown'')"

text \<open>What a call of \<open>audit_log\<close> names besides the actor; a missing payload is the empty one.\<close>

record audit_item =
  ent_action :: string
  ent_type :: string
  ent_id :: "string option"
  ent_payload :: "json dict"

definition entry :: "string \<Rightarrow> string \<Rightarrow> string \<Rightarrow> json dict \<Rightarrow> audit_item" where
  "entry act ty rid pl = \<lparr>ent_action = act, ent_type = ty, ent_id = Some rid, ent_payload = pl\<rparr>"

definition audit_log :: "admin_env \<Rightarrow> timestamp \<Rightarrow> json dict \<Rightarrow> string option \<Rightarrow> audit_item \<Rightarrow> admin_db \<Rightarrow> admin_db result" where
  "audit_log en now actor ip e db =
     (let plugin = (case derive_audit_plugin (ent_type e) (ent_id e) (ent_payload e) db of Inr p \<Rightarrow> p | Inl _ \<Rightarrow> None);
          pl = (if ent_payload e = [] then None else Some (JObj (ent_payload e)))
      in bind_result (actor_field en actor ''email'') (\<lambda>email. bind_result (actor_field en actor ''sub'') (\<lambda>sb.
           if \<not> pred_option (ae_inet en) ip \<or> \<not> pred_option (varchar_ok 100) plugin \<or> \<not> pred_option (jsonb_ok (ae_pg en)) pl
           then Inl DatabaseError
           else Inr (db\<lparr>ad_audit := ad_audit db @
             [\<lparr>au_created_at = now, au_actor_email = email, au_actor_sub = sb, au_action = ent_action e, au_resource_type = ent_type e,
               au_resource_id = ent_id e, au_payload = pl, au_ip = ip, au_plugin_slug = plugin\<rparr>]\<rparr>))))"

section \<open>Transactions\<close>

text \<open>\<open>get_db_connection\<close> is outside the \<open>try\<close>; \<open>conn.commit()\<close> ends the work, an exception gives
  \<open>conn.rollback()\<close> and the answer \<open>on_error\<close>.\<close>

definition transaction ::
  "admin_env \<Rightarrow> (py_error \<Rightarrow> response result) \<Rightarrow> (admin_db \<Rightarrow> (response \<times> admin_db) result) \<Rightarrow> admin_db \<Rightarrow> response result \<times> admin_db" where
  "transaction en on_error work db = (case ae_connect en of
       Some e \<Rightarrow> (Inl e, db)
     | None \<Rightarrow> (case work db of Inl e \<Rightarrow> (on_error e, db) | Inr (r, db') \<Rightarrow> (Inr r, db')))"

definition bad_request :: "admin_env \<Rightarrow> py_error \<Rightarrow> response result" where
  "bad_request en e = Inl (HTTPException 400 (ae_text en e))"

definition redirect_to :: "string \<Rightarrow> response" where
  "redirect_to url = \<lparr>r_status = 303, r_body = JNull, r_headers = [(''location'', url)]\<rparr>"

text \<open>The two orders in which the routes call the service and \<open>audit_log\<close>: the deletions write the entry
  first, while the row it is about can still be read.\<close>

definition then_audit :: "admin_env \<Rightarrow> admin_request \<Rightarrow> (audit_item \<times> response \<times> admin_db) result \<Rightarrow> (response \<times> admin_db) result" where
  "then_audit en rq out = bind_result out (\<lambda>(e, r, db). bind_result (audit_log en (aq_now rq) (aq_actor rq) (aq_ip rq) e db) (\<lambda>db'. Inr (r, db')))"

definition audit_then :: "admin_env \<Rightarrow> admin_request \<Rightarrow> audit_item \<Rightarrow> (admin_db \<Rightarrow> (response \<times> admin_db) result) \<Rightarrow> admin_db \<Rightarrow> (response \<times> admin_db) result" where
  "audit_then en rq e work db = bind_result (audit_log en (aq_now rq) (aq_actor rq) (aq_ip rq) e db) work"

section \<open>Form fields\<close>

text \<open>\<open>str.splitlines\<close>, on the characters below U+0100.\<close>

definition line_break :: "char \<Rightarrow> bool" where
  "line_break c = ((of_char c :: nat) \<in> {10, 11, 12, 13, 28, 29, 30, 133})"

fun drop_break :: "string \<Rightarrow> string" where
  "drop_break [] = []"
| "drop_break [c] = []"
| "drop_break (c # d # s) = (if c = CHR 13 \<and> d = CHR 10 then s else d # s)"

lemma drop_break_length: "length (drop_break s) \<le> length s - 1"
  by (induction s rule: drop_break.induct) auto

function splitlines :: "string \<Rightarrow> string list" where
  "splitlines s = (if s = [] then [] else takeWhile (\<lambda>c. \<not> line_break c) s # splitlines (drop_break (dropWhile (\<lambda>c. \<not> line_break c) s)))"
  by pat_completeness auto

termination
proof (relation "measure length")
  fix s :: string assume "s \<noteq> []"
  moreover have "length (dropWhile (\<lambda>c. \<not> line_break c) s) \<le> length s" by (rule length_dropWhile_le)
  ultimately show "(drop_break (dropWhile (\<lambda>c. \<not> line_break c) s), s) \<in> measure length"
    using drop_break_length [of "dropWhile (\<lambda>c. \<not> line_break c) s"] by (cases s) auto
qed simp

declare splitlines.simps [simp del]

definition nonblank :: "string list \<Rightarrow> string list" where
  "nonblank ls = filter (\<lambda>s. s \<noteq> []) (map strip ls)"

definition member_lines :: "string \<Rightarrow> (string \<times> string) list" where
  "member_lines members =
     map (\<lambda>v. (if CHR ''-'' \<in> set v \<and> 30 < length v then ''client_uuid'' else ''email'', v)) (nonblank (splitlines (strip members)))"

text \<open>\<open>int(x) if x else None\<close>.\<close>

definition form_int :: "string \<Rightarrow> int option result" where
  "form_int s = (if s = [] then Inr None else case py_int s of Some i \<Rightarrow> Inr (Some i) | None \<Rightarrow> Inl (int_error s))"

definition form_text :: "string \<Rightarrow> string option" where
  "form_text s = (if s = [] then None else Some s)"

definition form_time :: "admin_env \<Rightarrow> string \<Rightarrow> timestamp option result" where
  "form_time en s = (if s = [] then Inr None else case ae_timestamptz en s of Some t \<Rightarrow> Inr (Some t) | None \<Rightarrow> Inl DatabaseError)"

definition form_flag :: "string \<Rightarrow> bool option" where
  "form_flag v = (if v = ''true'' then Some True else if v = ''false'' then Some False else None)"

section \<open>Devices, cohorts and flags\<close>

definition revoke_rows :: "timestamp \<Rightarrow> string \<Rightarrow> relay_row list \<Rightarrow> relay_row list" where
  "revoke_rows now u rows = map (\<lambda>r. if rr_client_uuid r = u \<and> active r then r\<lparr>rr_revoked_at := Some now, rr_comments := ''revoked-by-admin''\<rparr> else r) rows"

definition device_revoke_relay :: "admin_env \<Rightarrow> admin_request \<Rightarrow> string \<Rightarrow> admin_db \<Rightarrow> response result \<times> admin_db" where
  "device_revoke_relay en rq cu = transaction en (bad_request en) (\<lambda>db. then_audit en rq (case pg_uuid cu of
       None \<Rightarrow> Inl DatabaseError
     | Some u \<Rightarrow>
         (let n = length (filter (\<lambda>r. rr_client_uuid r = u \<and> active r) (relay_clients (ad_relays db)))
          in Inr (entry ''relay.revoke'' ''relay_client'' cu [(''revoked_rows'', JInt (int n))], redirect_to (''/admin/devices/'' @ cu),
               db\<lparr>ad_relays := (ad_relays db)\<lparr>relay_clients := revoke_rows (aq_now rq) u (relay_clients (ad_relays db))\<rparr>\<rparr>))))"

definition cohorts_create :: "admin_env \<Rightarrow> admin_request \<Rightarrow> string \<Rightarrow> string \<Rightarrow> string \<Rightarrow> string \<Rightarrow> admin_db \<Rightarrow> response result \<times> admin_db" where
  "cohorts_create en rq name ty desc members = transaction en (bad_request en) (\<lambda>db. then_audit en rq (
     bind_result (create_cohort (aq_id rq) name desc ty JNull (ad_cohorts db)) (\<lambda>(cid, cdb).
     bind_result (if ty = ''manual'' \<and> strip members \<noteq> [] then add_members (aq_now rq) cid (member_lines members) cdb else Inr (0, cdb)) (\<lambda>(n, cdb').
       Inr (entry ''cohort.create'' ''cohort'' (str_of_int cid) [(''name'', JStr name), (''type'', JStr ty)],
            redirect_to ''/admin/cohorts'', put_cohorts cdb' db)))))"

definition cohort_add_members :: "admin_env \<Rightarrow> admin_request \<Rightarrow> int \<Rightarrow> string \<Rightarrow> admin_db \<Rightarrow> response result \<times> admin_db" where
  "cohort_add_members en rq cid members = transaction en (bad_request en) (\<lambda>db. then_audit en rq (
     bind_result (add_members (aq_now rq) cid (member_lines members) (ad_cohorts db)) (\<lambda>(n, cdb).
       Inr (entry ''cohort.add_members'' ''cohort'' (str_of_int cid) [(''added'', JInt (int n))],
            redirect_to (''/admin/cohorts/'' @ str_of_int cid), put_cohorts cdb db))))"

text \<open>Campaigns and communications refer to a cohort without cascade.\<close>

definition cohort_referenced :: "int \<Rightarrow> admin_db \<Rightarrow> bool" where
  "cohort_referenced cid db = (list_ex (\<lambda>c. ca_target_cohort_id c = Some cid) (ct_campaigns (ad_cat db)) \<or>
     list_ex (\<lambda>c. mm_cohort_id c = Some cid) (communications (ad_comms db)))"

definition cohort_delete :: "admin_env \<Rightarrow> admin_request \<Rightarrow> int \<Rightarrow> admin_db \<Rightarrow> response result \<times> admin_db" where
  "cohort_delete en rq cid = transaction en (bad_request en) (audit_then en rq (entry ''cohort.delete'' ''cohort'' (str_of_int cid) []) (\<lambda>db.
     bind_result (delete_cohort (cohort_referenced cid db) cid (ad_cohorts db) (ct_flags (ad_cat db))) (\<lambda>(b, cdb, fdb).
       Inr (redirect_to ''/admin/cohorts'', put_flags fdb (put_cohorts cdb db)))))"

definition flags_create :: "admin_env \<Rightarrow> admin_request \<Rightarrow> string \<Rightarrow> string \<Rightarrow> string \<Rightarrow> string \<Rightarrow> string \<Rightarrow> admin_db \<Rightarrow> response result \<times> admin_db" where
  "flags_create en rq name desc v slug minv = transaction en (bad_request en) (\<lambda>db. then_audit en rq (
     bind_result (create_flag (aq_now rq) (aq_id rq) name desc (form_flag v) (strip slug) (form_text (strip minv)) (ct_flags (ad_cat db))) (\<lambda>(fid, fdb).
       Inr (entry ''flag.create'' ''flag'' (str_of_int fid) [(''name'', JStr name), (''default_value'', JStr v), (''plugin_slug'', JStr (strip slug)),
              (''min_plugin_version'', case form_text (strip minv) of None \<Rightarrow> JNull | Some m \<Rightarrow> JStr m)],
            redirect_to ''/admin/flags'', put_flags fdb db))))"

definition json_flag :: "bool option \<Rightarrow> json" where
  "json_flag b = (case b of None \<Rightarrow> JNull | Some v \<Rightarrow> JBool v)"

text \<open>\<open>old_flag.get\<close> fails on \<open>None\<close>: an unknown flag rolls back.\<close>

definition flag_update_default :: "admin_env \<Rightarrow> admin_request \<Rightarrow> int \<Rightarrow> string \<Rightarrow> admin_db \<Rightarrow> response result \<times> admin_db" where
  "flag_update_default en rq fid v = transaction en (bad_request en) (\<lambda>db. then_audit en rq (
     (let (b, fdb) = update_flag_default (aq_now rq) fid (form_flag v) (ct_flags (ad_cat db))
      in case get_flag (ct_flags (ad_cat db)) fid of
           None \<Rightarrow> Inl AttributeError
         | Some (old, st) \<Rightarrow> Inr (entry ''flag.update'' ''flag'' (str_of_int fid)
               [(''before'', json_flag (ff_default_value old)), (''after'', json_flag (form_flag v))],
             redirect_to (''/admin/flags/'' @ str_of_int fid), put_flags fdb db))))"

definition flag_add_override :: "admin_env \<Rightarrow> admin_request \<Rightarrow> int \<Rightarrow> int \<Rightarrow> string \<Rightarrow> string \<Rightarrow> admin_db \<Rightarrow> response result \<times> admin_db" where
  "flag_add_override en rq fid cid v minv = transaction en (bad_request en) (\<lambda>db. then_audit en rq (
     bind_result (create_override (aq_now rq) (ad_cohorts db) fid cid (v = ''true'') (form_text minv) (ct_flags (ad_cat db))) (\<lambda>fdb.
       Inr (entry ''flag.override.create'' ''flag'' (str_of_int fid) [(''cohort_id'', JInt cid), (''value'', JBool (v = ''true''))],
            redirect_to (''/admin/flags/'' @ str_of_int fid), put_flags fdb db))))"

definition flag_delete_override :: "admin_env \<Rightarrow> admin_request \<Rightarrow> int \<Rightarrow> int \<Rightarrow> admin_db \<Rightarrow> response result \<times> admin_db" where
  "flag_delete_override en rq fid cid = transaction en (bad_request en) (\<lambda>db. then_audit en rq (
     Inr (entry ''flag.override.delete'' ''flag'' (str_of_int fid) [(''cohort_id'', JInt cid)],
          redirect_to (''/admin/flags/'' @ str_of_int fid), put_flags (snd (delete_override fid cid (ct_flags (ad_cat db)))) db)))"

definition flag_delete :: "admin_env \<Rightarrow> admin_request \<Rightarrow> int \<Rightarrow> admin_db \<Rightarrow> response result \<times> admin_db" where
  "flag_delete en rq fid = transaction en (bad_request en) (audit_then en rq (entry ''flag.delete'' ''flag'' (str_of_int fid) []) (\<lambda>db.
     Inr (redirect_to ''/admin/flags'', put_flags (snd (delete_flag fid (ct_flags (ad_cat db)))) db)))"

section \<open>Artifacts and campaigns\<close>

definition artifact_toggle :: "admin_env \<Rightarrow> admin_request \<Rightarrow> int \<Rightarrow> string \<Rightarrow> admin_db \<Rightarrow> response result \<times> admin_db" where
  "artifact_toggle en rq aid act = transaction en (bad_request en) (\<lambda>db. then_audit en rq (
     Inr (entry ''artifact.toggle'' ''artifact'' (str_of_int aid) [(''is_active'', JBool (act = ''true''))],
          redirect_to ''/admin/artifacts'', db\<lparr>ad_cat := snd (toggle_artifact aid (act = ''true'') (ad_cat db))\<rparr>)))"

record campaign_form =
  cf_name :: string
  cf_description :: string
  cf_artifact_id :: string
  cf_rollback_artifact_id :: string
  cf_target_cohort_id :: string
  cf_urgency :: string
  cf_deadline_at :: string
  cf_start_status :: string

definition campaign_create :: "admin_env \<Rightarrow> admin_request \<Rightarrow> campaign_form \<Rightarrow> admin_db \<Rightarrow> response result \<times> admin_db" where
  "campaign_create en rq f = transaction en (bad_request en) (\<lambda>db. then_audit en rq (
     bind_result (form_int (cf_artifact_id f)) (\<lambda>art. bind_result (form_int (cf_rollback_artifact_id f)) (\<lambda>rb. bind_result (form_int (cf_target_cohort_id f)) (\<lambda>coh.
     bind_result (form_time en (cf_deadline_at f)) (\<lambda>dl. bind_result (sql_param (as_text (ae_pg en)) (jget (aq_actor rq) ''email'')) (\<lambda>by_whom.
     bind_result (create_campaign (aq_now rq) (aq_id rq) \<lparr>ca_name = cf_name f, ca_description = Some (cf_description f), ca_type = Some ''plugin_update'',
         ca_artifact_id = art, ca_rollback_artifact_id = rb, ca_target_cohort_id = coh, ca_urgency = Some (cf_urgency f), ca_deadline_at = dl,
         ca_status = Some (cf_start_status f), ca_rollout_config = JNull, ca_created_by = by_whom, ca_plugin_id = None\<rparr> (campaign_db_of (ad_cat db))) (\<lambda>(cid, cdb).
       Inr (entry ''campaign.create'' ''campaign'' (str_of_int cid) [(''name'', JStr (cf_name f)), (''status'', JStr (cf_start_status f))],
            redirect_to (''/admin/campaigns/'' @ str_of_int cid), put_campaigns cdb db)))))))))"

definition admin_campaign_action :: "admin_env \<Rightarrow> admin_request \<Rightarrow> int \<Rightarrow> string \<Rightarrow> string \<Rightarrow> string \<Rightarrow> admin_db \<Rightarrow> response result \<times> admin_db" where
  "admin_campaign_action en rq cid st act pre = transaction en (bad_request en) (\<lambda>db. then_audit en rq (
     bind_result (update_campaign_status (aq_now rq) cid st (campaign_db_of (ad_cat db))) (\<lambda>(b, cdb).
       Inr (entry (''campaign.'' @ act) ''campaign'' (str_of_int cid) [(''new_status'', JStr st)],
            redirect_to (''/admin/'' @ pre @ ''/'' @ str_of_int cid), put_campaigns cdb db))))"

text \<open>The routes below \<open>/campaigns/{id}\<close> and the status and name each passes.\<close>

datatype campaign_verb = Activate | Pause | Resume | Complete | Rollback

fun verb_status :: "campaign_verb \<Rightarrow> string" where
  "verb_status Activate = ''active''" | "verb_status Pause = ''paused''" | "verb_status Resume = ''active''"
| "verb_status Complete = ''completed''" | "verb_status Rollback = ''rolled_back''"

fun verb_name :: "campaign_verb \<Rightarrow> string" where
  "verb_name Activate = ''activate''" | "verb_name Pause = ''pause''" | "verb_name Resume = ''resume''"
| "verb_name Complete = ''complete''" | "verb_name Rollback = ''rollback''"

definition campaign_route :: "admin_env \<Rightarrow> admin_request \<Rightarrow> int \<Rightarrow> campaign_verb \<Rightarrow> admin_db \<Rightarrow> response result \<times> admin_db" where
  "campaign_route en rq cid v = admin_campaign_action en rq cid (verb_status v) (verb_name v) ''campaigns''"

definition plugin_page :: "int \<Rightarrow> string \<Rightarrow> response" where
  "plugin_page pid tab = redirect_to (''/admin/catalog/'' @ str_of_int pid @ (if tab = [] then [] else ''?tab='' @ tab))"

definition catalog_deploy_action :: "admin_env \<Rightarrow> admin_request \<Rightarrow> int \<Rightarrow> int \<Rightarrow> string \<Rightarrow> string \<Rightarrow> admin_db \<Rightarrow> response result \<times> admin_db" where
  "catalog_deploy_action en rq pid cid st act = transaction en (bad_request en) (\<lambda>db. then_audit en rq (
     bind_result (update_campaign_status (aq_now rq) cid st (campaign_db_of (ad_cat db))) (\<lambda>(b, cdb).
       Inr (entry (''campaign.'' @ act) ''campaign'' (str_of_int cid) [(''new_status'', JStr st), (''plugin_id'', JInt pid)],
            plugin_page pid ''deployments'', put_campaigns cdb db))))"

datatype deploy_verb = DeployPause | DeployResume | DeployAbort

fun deploy_verb_args :: "deploy_verb \<Rightarrow> string \<times> string" where
  "deploy_verb_args DeployPause = (''paused'', ''pause'')" | "deploy_verb_args DeployResume = (''active'', ''resume'')"
| "deploy_verb_args DeployAbort = (''rolled_back'', ''rollback'')"

definition catalog_deploy_route :: "admin_env \<Rightarrow> admin_request \<Rightarrow> int \<Rightarrow> int \<Rightarrow> deploy_verb \<Rightarrow> admin_db \<Rightarrow> response result \<times> admin_db" where
  "catalog_deploy_route en rq pid cid v = catalog_deploy_action en rq pid cid (fst (deploy_verb_args v)) (snd (deploy_verb_args v))"

section \<open>The catalogue pages\<close>

text \<open>\<open>DELETE FROM plugins\<close>: aliases, environment values, waiting lists and Keycloak links cascade; a
  communication addressed to one of the plugins blocks it.\<close>

definition keep_plugin_rows :: "int list \<Rightarrow> admin_db \<Rightarrow> admin_db" where
  "keep_plugin_rows ids db = db\<lparr>ad_env := filter (\<lambda>r. ev_plugin_id r \<in> set ids) (ad_env db), ad_aliases := filter (\<lambda>r. aa_plugin_id r \<in> set ids) (ad_aliases db),
     ad_waitlist := filter (\<lambda>r. wl_plugin_id r \<in> set ids) (ad_waitlist db),
     ad_kc := (ad_kc db)\<lparr>kc_links := filter (\<lambda>l. kl_plugin_id l \<in> set ids) (kc_links (ad_kc db))\<rparr>\<rparr>"

definition comm_blocks :: "int list \<Rightarrow> admin_db \<Rightarrow> bool" where
  "comm_blocks ids db = list_ex (\<lambda>c. case mm_plugin_id c of Some i \<Rightarrow> i \<in> set ids | None \<Rightarrow> False) (communications (ad_comms db))"

definition catalog_purge_removed :: "admin_env \<Rightarrow> admin_request \<Rightarrow> admin_db \<Rightarrow> response result \<times> admin_db" where
  "catalog_purge_removed en rq = transaction en (bad_request en) (\<lambda>db. then_audit en rq (
     (let gone = map cp_id (filter (\<lambda>p. cp_status p = ''removed'') (ct_plugins (ad_cat db))); (n, cat) = purge_removed (ad_cat db)
      in if comm_blocks gone db then Inl DatabaseError
         else Inr (entry ''plugin.purge_removed'' ''plugin'' ''*'' [(''deleted_count'', JInt (int n))],
                redirect_to (''/admin/catalog?purged='' @ str_of_nat n),
                keep_plugin_rows (map cp_id (ct_plugins cat)) (db\<lparr>ad_cat := cat\<rparr>)))))"

record plugin_form =
  pf_name :: string
  pf_description :: string
  pf_intent :: string
  pf_key_features :: string
  pf_changelog :: string
  pf_category :: string
  pf_homepage_url :: string
  pf_support_email :: string
  pf_publisher :: string
  pf_visibility :: string

definition edit_fields :: "plugin_form \<Rightarrow> json dict" where
  "edit_fields f = [(''name'', JStr (pf_name f)), (''description'', JStr (pf_description f)), (''intent'', JStr (pf_intent f)),
     (''key_features'', JList (map JStr (nonblank (split_on (CHR '','') (pf_key_features f))))), (''changelog'', JStr (pf_changelog f)),
     (''category'', JStr (pf_category f)), (''homepage_url'', JStr (pf_homepage_url f)), (''support_email'', JStr (pf_support_email f)),
     (''publisher'', JStr (pf_publisher f)), (''visibility'', JStr (pf_visibility f))]"

text \<open>\<open>catalog_svc.update_plugin\<close> followed by the audit entry; whether a row was found is not looked at.\<close>

definition update_and_audit :: "admin_env \<Rightarrow> admin_request \<Rightarrow> int \<Rightarrow> json dict \<Rightarrow> string \<Rightarrow> json dict \<Rightarrow> string \<Rightarrow> admin_db \<Rightarrow> response result \<times> admin_db" where
  "update_and_audit en rq pid fs act pl tab = transaction en (bad_request en) (\<lambda>db. then_audit en rq (
     bind_result (update_plugin (aq_now rq) pid fs (ad_cat db)) (\<lambda>(b, cat).
       Inr (entry act ''plugin'' (str_of_int pid) pl, plugin_page pid tab, db\<lparr>ad_cat := cat\<rparr>))))"

definition catalog_plugin_edit :: "admin_env \<Rightarrow> admin_request \<Rightarrow> int \<Rightarrow> plugin_form \<Rightarrow> admin_db \<Rightarrow> response result \<times> admin_db" where
  "catalog_plugin_edit en rq pid f = update_and_audit en rq pid (edit_fields f) ''plugin.update'' [(''name'', JStr (pf_name f))] []"

definition catalog_plugin_status :: "admin_env \<Rightarrow> admin_request \<Rightarrow> int \<Rightarrow> string \<Rightarrow> admin_db \<Rightarrow> response result \<times> admin_db" where
  "catalog_plugin_status en rq pid st = update_and_audit en rq pid [(''status'', JStr st)] (''plugin.'' @ st) [(''status'', JStr st)] []"

definition catalog_access_update :: "admin_env \<Rightarrow> admin_request \<Rightarrow> int \<Rightarrow> string \<Rightarrow> string \<Rightarrow> string \<Rightarrow> admin_db \<Rightarrow> response result \<times> admin_db" where
  "catalog_access_update en rq pid maturity mode grp = update_and_audit en rq pid
     [(''maturity'', JStr maturity), (''access_mode'', JStr mode), (''required_group'', if grp = [] then JNull else JStr grp)]
     ''plugin.access.update'' [(''maturity'', JStr maturity), (''access_mode'', JStr mode)] ''access''"

text \<open>The search for a free slug; \<open>n\<close> is the suffix tried last. The fuel bounds the number of attempts.\<close>

fun copy_slug :: "nat \<Rightarrow> string \<Rightarrow> nat \<Rightarrow> string \<Rightarrow> cat_db \<Rightarrow> string option" where
  "copy_slug 0 base n slug db = None"
| "copy_slug (Suc k) base n slug db =
     (if get_plugin_by_slug db slug = None then Some slug else copy_slug k base (n + 1) (base @ ''-'' @ str_of_nat (n + 1)) db)"

definition reparse :: "json \<Rightarrow> json result" where
  "reparse j = (case j of JStr s \<Rightarrow> (case loads s of Some x \<Rightarrow> Inr x | None \<Rightarrow> Inl (ValueError s)) | _ \<Rightarrow> Inr j)"

definition copied_info :: "cat_plugin \<Rightarrow> json \<Rightarrow> json dict" where
  "copied_info p features = [(''description'', jget (cp_info p) ''description''), (''intent'', jget (cp_info p) ''intent''),
     (''key_features'', if truthy features then features else JList []), (''changelog'', jget (cp_info p) ''changelog''),
     (''category'', jget (cp_info p) ''category''), (''icon_url'', JStr []), (''homepage_url'', jget (cp_info p) ''homepage_url''),
     (''doc_url'', JStr []), (''support_email'', jget (cp_info p) ''support_email''), (''license'', JStr []), (''publisher'', jget (cp_info p) ''publisher'')]"

text \<open>An \<open>HTTPException\<close> passes through; every other one becomes a 400.\<close>

definition pass_http :: "admin_env \<Rightarrow> py_error \<Rightarrow> response result" where
  "pass_http en e = (case e of HTTPException n m \<Rightarrow> Inl e | _ \<Rightarrow> bad_request en e)"

definition catalog_plugin_duplicate :: "admin_env \<Rightarrow> admin_request \<Rightarrow> int \<Rightarrow> admin_db \<Rightarrow> response result \<times> admin_db" where
  "catalog_plugin_duplicate en rq pid = transaction en (pass_http en) (\<lambda>db. then_audit en rq (case get_plugin (ad_cat db) pid of
       None \<Rightarrow> Inl (HTTPException 404 ''Plugin introuvable'')
     | Some p \<Rightarrow>
         (case copy_slug (Suc (length (ct_plugins (ad_cat db)))) (cp_slug p @ ''-copy'') 1 (cp_slug p @ ''-copy'') (ad_cat db) of
            None \<Rightarrow> Inl (RuntimeError ''no slug'')
          | Some slug \<Rightarrow>
              bind_result (reparse (case cp_template p of Some t \<Rightarrow> t | None \<Rightarrow> JNull)) (\<lambda>tmpl.
              bind_result (reparse (jget_or (cp_info p) ''key_features'' (JList []))) (\<lambda>features.
              bind_result (create_plugin (aq_now rq) (aq_id rq) slug (cp_name p @ '' (copie)'') (cp_device_type p) (cp_visibility p)
                  (copied_info p features) (if tmpl = JNull then None else Some tmpl) (ad_cat db)) (\<lambda>(i, cat).
                Inr (entry ''plugin.duplicate'' ''plugin'' (str_of_int i) [(''source_plugin_id'', JInt pid), (''slug'', JStr slug)],
                     plugin_page i ''edit'', db\<lparr>ad_cat := cat\<rparr>)))))))"

section \<open>Versions and deployments\<close>

record version_form =
  vf_version :: string
  vf_release_notes :: string
  vf_artifact_id :: string
  vf_download_url :: string
  vf_distribution_mode :: string
  vf_min_host :: string
  vf_max_host :: string
  vf_status :: string

definition form_version :: "admin_request \<Rightarrow> int \<Rightarrow> version_form \<Rightarrow> int option \<Rightarrow> version_row" where
  "form_version rq pid f art = \<lparr>ve_id = aq_id rq, ve_plugin_id = pid, ve_artifact_id = (if art = Some 0 then None else art), ve_version = vf_version f,
     ve_release_notes = vf_release_notes f, ve_download_url = form_text (vf_download_url f), ve_min_host_version = form_text (vf_min_host f),
     ve_max_host_version = form_text (vf_max_host f), ve_status = vf_status f, ve_distribution_mode = vf_distribution_mode f,
     ve_published_at = None, ve_created_at = aq_now rq\<rparr>"

definition artifact_or_url_required :: string where
  "artifact_or_url_required = ''Un artifact ou une URL de t'' @ [CHR 0xE9] @ ''l'' @ [CHR 0xE9] @ ''chargement est requis.''"

definition catalog_version_create :: "admin_env \<Rightarrow> admin_request \<Rightarrow> int \<Rightarrow> version_form \<Rightarrow> admin_db \<Rightarrow> response result \<times> admin_db" where
  "catalog_version_create en rq pid f db =
     (if vf_artifact_id f = [] \<and> strip (vf_download_url f) = [] then (Inl (HTTPException 400 artifact_or_url_required), db)
      else transaction en (bad_request en) (\<lambda>db. then_audit en rq (
        bind_result (form_int (vf_artifact_id f)) (\<lambda>art.
        bind_result (create_version (aq_now rq) (form_version rq pid f art) (ad_cat db)) (\<lambda>(vid, cat).
          Inr (entry ''version.create'' ''plugin_version'' (str_of_int vid) [(''plugin_id'', JInt pid), (''version'', JStr (vf_version f)), (''status'', JStr (vf_status f))],
               plugin_page pid ''versions'', db\<lparr>ad_cat := cat\<rparr>))))) db)"

definition catalog_version_status :: "admin_env \<Rightarrow> admin_request \<Rightarrow> int \<Rightarrow> int \<Rightarrow> string \<Rightarrow> admin_db \<Rightarrow> response result \<times> admin_db" where
  "catalog_version_status en rq pid vid st = transaction en (bad_request en) (\<lambda>db. then_audit en rq (
     bind_result (update_version_status (aq_now rq) vid st (ad_cat db)) (\<lambda>(b, cat).
       Inr (entry (''version.'' @ st) ''plugin_version'' (str_of_int vid) [(''plugin_id'', JInt pid), (''status'', JStr st)],
            plugin_page pid ''versions'', db\<lparr>ad_cat := cat\<rparr>))))"

text \<open>The clean-up of artifacts looks at \<open>plugin_versions\<close> and \<open>campaigns\<close> only; the rows of
  \<open>plugin_version_artifacts\<close> that point to a deleted artifact follow by cascade.\<close>

definition artifact_refs :: "cat_db \<Rightarrow> int option list" where
  "artifact_refs db = map ve_artifact_id (ct_versions db) @ map ca_artifact_id (ct_campaigns db) @ map ca_rollback_artifact_id (ct_campaigns db)"

definition drop_orphan_artifacts :: "cat_db \<Rightarrow> cat_db" where
  "drop_orphan_artifacts db =
     db\<lparr>ct_artifacts := filter (\<lambda>a. Some (ar_id a) \<in> set (artifact_refs db)) (ct_artifacts db),
        ct_links := filter (\<lambda>l. Some (li_artifact_id l) \<in> set (artifact_refs db)) (ct_links db)\<rparr>"

definition old_version :: "int \<Rightarrow> version_row \<Rightarrow> bool" where
  "old_version pid v = (ve_plugin_id v = pid \<and> ve_status v \<in> {''deprecated'', ''yanked''})"

definition drop_old_versions :: "int \<Rightarrow> cat_db \<Rightarrow> cat_db" where
  "drop_old_versions pid db =
     db\<lparr>ct_versions := filter (\<lambda>v. \<not> old_version pid v) (ct_versions db),
        ct_links := filter (\<lambda>l. li_version_id l \<notin> ve_id ` set (filter (old_version pid) (ct_versions db))) (ct_links db)\<rparr>"

text \<open>The column \<open>campaigns.version_id\<close>, set to \<open>NULL\<close> first, is not part of the model: no reader uses it.\<close>

definition catalog_versions_purge :: "admin_env \<Rightarrow> admin_request \<Rightarrow> int \<Rightarrow> admin_db \<Rightarrow> response result \<times> admin_db" where
  "catalog_versions_purge en rq pid = transaction en (bad_request en) (\<lambda>db. then_audit en rq (
     Inr (entry ''versions.purge'' ''plugin'' (str_of_int pid)
            [(''deleted_versions'', JInt (int (length (filter (old_version pid) (ct_versions (ad_cat db))))))],
          plugin_page pid ''versions'', db\<lparr>ad_cat := drop_orphan_artifacts (drop_old_versions pid (ad_cat db))\<rparr>)))"

definition old_campaign :: "int \<Rightarrow> campaign_row \<Rightarrow> bool" where
  "old_campaign pid c = (ca_plugin_id c = Some pid \<and> ca_status c \<in> Some ` {''completed'', ''rolled_back'', ''draft''} \<or>
     ca_plugin_id c = None \<and> ca_status c \<in> Some ` {''completed'', ''rolled_back''})"

definition drop_old_campaigns :: "int \<Rightarrow> cat_db \<Rightarrow> cat_db" where
  "drop_old_campaigns pid db =
     db\<lparr>ct_campaigns := filter (\<lambda>c. \<not> old_campaign pid c) (ct_campaigns db),
        ct_device_status := filter (\<lambda>s. ds_campaign_id s \<notin> ca_id ` set (filter (old_campaign pid) (ct_campaigns db))) (ct_device_status db)\<rparr>"

definition catalog_deployments_purge :: "admin_env \<Rightarrow> admin_request \<Rightarrow> int \<Rightarrow> admin_db \<Rightarrow> response result \<times> admin_db" where
  "catalog_deployments_purge en rq pid = transaction en (bad_request en) (\<lambda>db. then_audit en rq (
     Inr (entry ''deployments.purge'' ''plugin'' (str_of_int pid)
            [(''deleted_campaigns'', JInt (int (length (filter (old_campaign pid) (ct_campaigns (ad_cat db))))))],
          plugin_page pid ''deployments'', db\<lparr>ad_cat := drop_orphan_artifacts (drop_old_campaigns pid (ad_cat db))\<rparr>)))"

section \<open>Environment values, Keycloak, access and aliases\<close>

definition env_key :: "int \<Rightarrow> string \<Rightarrow> string \<Rightarrow> env_row \<Rightarrow> bool" where
  "env_key pid environment k r = (ev_plugin_id r = pid \<and> ev_environment r = environment \<and> ev_key r = k)"

definition upsert_env :: "timestamp \<Rightarrow> int \<Rightarrow> int list \<Rightarrow> int \<Rightarrow> string \<Rightarrow> string \<Rightarrow> string \<Rightarrow> bool \<Rightarrow> env_row list \<Rightarrow> env_row list result" where
  "upsert_env now eid plugins pid environment k v secret rows =
     (if \<not> varchar_ok 50 environment \<or> \<not> varchar_ok 200 k then Inl DatabaseError
      else if list_ex (env_key pid environment k) rows
      then Inr (map (\<lambda>r. if env_key pid environment k r then r\<lparr>ev_value := v, ev_secret := secret, ev_updated_at := now\<rparr> else r) rows)
      else if pid \<notin> set plugins then Inl DatabaseError
      else Inr (rows @ [\<lparr>ev_id = eid, ev_plugin_id = pid, ev_environment = environment, ev_key = k, ev_value = v, ev_secret = secret, ev_updated_at = now\<rparr>]))"

definition plugin_ids :: "admin_db \<Rightarrow> int list" where
  "plugin_ids db = map cp_id (ct_plugins (ad_cat db))"

definition catalog_env_upsert :: "admin_env \<Rightarrow> admin_request \<Rightarrow> int \<Rightarrow> string \<Rightarrow> string \<Rightarrow> string \<Rightarrow> string \<Rightarrow> admin_db \<Rightarrow> response result \<times> admin_db" where
  "catalog_env_upsert en rq pid environment k v secret = transaction en (bad_request en) (\<lambda>db. then_audit en rq (
     bind_result (upsert_env (aq_now rq) (aq_id rq) (plugin_ids db) pid environment k v (secret = ''on'') (ad_env db)) (\<lambda>rows.
       Inr (entry ''env.override.upsert'' ''plugin'' (str_of_int pid) [(''env'', JStr environment), (''key'', JStr k)],
            plugin_page pid ''env'', db\<lparr>ad_env := rows\<rparr>))))"

definition catalog_env_delete :: "admin_env \<Rightarrow> admin_request \<Rightarrow> int \<Rightarrow> int \<Rightarrow> admin_db \<Rightarrow> response result \<times> admin_db" where
  "catalog_env_delete en rq pid oid = transaction en (bad_request en) (\<lambda>db. then_audit en rq (
     Inr (entry ''env.override.delete'' ''plugin'' (str_of_int pid) [(''override_id'', JInt oid)],
          plugin_page pid ''env'', db\<lparr>ad_env := filter (\<lambda>r. \<not> (ev_id r = oid \<and> ev_plugin_id r = pid)) (ad_env db)\<rparr>)))"

definition json_error :: "admin_env \<Rightarrow> int \<Rightarrow> py_error \<Rightarrow> response result" where
  "json_error en st e = Inr \<lparr>r_status = st, r_body = JObj [(''error'', JStr (ae_text en e))], r_headers = []\<rparr>"

definition api_keycloak_create_client ::
  "admin_env \<Rightarrow> admin_request \<Rightarrow> string \<Rightarrow> string \<Rightarrow> string \<Rightarrow> string \<Rightarrow> string \<Rightarrow> string \<Rightarrow> admin_db \<Rightarrow> response result \<times> admin_db" where
  "api_keycloak_create_client en rq cid realm desc ctype uris pkce = transaction en (json_error en 400) (\<lambda>db. then_audit en rq (
     bind_result (create_client (aq_id rq) cid realm desc ctype (map JStr (nonblank (splitlines (strip uris)))) [] (pkce = ''on'') False (ad_kc db)) (\<lambda>(i, kc).
       Inr (entry ''keycloak.client.create'' ''keycloak_client'' (str_of_int i) [(''client_id'', JStr cid), (''realm'', JStr realm)],
            \<lparr>r_status = 200, r_body = JObj [(''ok'', JBool True), (''id'', JInt i), (''client_id'', JStr cid)], r_headers = []\<rparr>, db\<lparr>ad_kc := kc\<rparr>))))"

definition catalog_keycloak_link :: "admin_env \<Rightarrow> admin_request \<Rightarrow> int \<Rightarrow> int \<Rightarrow> string \<Rightarrow> admin_db \<Rightarrow> response result \<times> admin_db" where
  "catalog_keycloak_link en rq pid kid environment = transaction en (bad_request en) (\<lambda>db. then_audit en rq (
     bind_result (link_plugin_client (plugin_ids db) pid kid environment (ad_kc db)) (\<lambda>kc.
       Inr (entry ''keycloak.link'' ''plugin'' (str_of_int pid) [(''kc_client_id'', JInt kid), (''env'', JStr environment)],
            plugin_page pid ''keycloak'', db\<lparr>ad_kc := kc\<rparr>))))"

definition review :: "admin_env \<Rightarrow> admin_request \<Rightarrow> int \<Rightarrow> int \<Rightarrow> string \<Rightarrow> admin_db \<Rightarrow> admin_db result" where
  "review en rq pid wid verdict db =
     bind_result (sql_param (as_text (ae_pg en)) (jget (aq_actor rq) ''email'')) (\<lambda>who.
       if \<not> pred_option (varchar_ok 255) who \<and> list_ex (\<lambda>w. wl_id w = wid \<and> wl_plugin_id w = pid) (ad_waitlist db) then Inl DatabaseError
       else Inr (db\<lparr>ad_waitlist := map (\<lambda>w. if wl_id w = wid \<and> wl_plugin_id w = pid
              then w\<lparr>wl_status := verdict, wl_reviewed_by := who, wl_reviewed_at := Some (aq_now rq)\<rparr> else w) (ad_waitlist db)\<rparr>))"

definition catalog_waitlist_approve :: "admin_env \<Rightarrow> admin_request \<Rightarrow> int \<Rightarrow> int \<Rightarrow> admin_db \<Rightarrow> response result \<times> admin_db" where
  "catalog_waitlist_approve en rq pid wid = transaction en (bad_request en) (\<lambda>db. then_audit en rq (
     bind_result (review en rq pid wid ''approved'' db) (\<lambda>db'.
       Inr (entry ''waitlist.approve'' ''plugin'' (str_of_int pid) [(''waitlist_id'', JInt wid)], plugin_page pid ''access'', db'))))"

text \<open>The rejection writes no audit entry.\<close>

definition catalog_waitlist_reject :: "admin_env \<Rightarrow> admin_request \<Rightarrow> int \<Rightarrow> int \<Rightarrow> admin_db \<Rightarrow> response result \<times> admin_db" where
  "catalog_waitlist_reject en rq pid wid = transaction en (bad_request en) (\<lambda>db.
     bind_result (review en rq pid wid ''rejected'' db) (\<lambda>db'. Inr (plugin_page pid ''access'', db')))"

definition catalog_alias_add :: "admin_env \<Rightarrow> admin_request \<Rightarrow> int \<Rightarrow> string \<Rightarrow> admin_db \<Rightarrow> response result \<times> admin_db" where
  "catalog_alias_add en rq pid raw = (let alias = lower (strip raw) in transaction en (bad_request en) (\<lambda>db. then_audit en rq (
     if \<not> varchar_ok 100 alias then Inl DatabaseError
     else if list_ex (\<lambda>r. aa_alias r = alias) (ad_aliases db) then Inl UniqueViolation
     else if pid \<notin> set (plugin_ids db) then Inl DatabaseError
     else Inr (entry ''alias.add'' ''plugin'' (str_of_int pid) [(''alias'', JStr alias)], plugin_page pid ''alias'',
               db\<lparr>ad_aliases := ad_aliases db @ [\<lparr>aa_alias = alias, aa_plugin_id = pid\<rparr>]\<rparr>))))"

definition catalog_alias_delete :: "admin_env \<Rightarrow> admin_request \<Rightarrow> int \<Rightarrow> string \<Rightarrow> admin_db \<Rightarrow> response result \<times> admin_db" where
  "catalog_alias_delete en rq pid alias = transaction en (bad_request en) (\<lambda>db. then_audit en rq (
     Inr (entry ''alias.delete'' ''plugin'' (str_of_int pid) [(''alias'', JStr alias)], plugin_page pid ''alias'',
          db\<lparr>ad_aliases := filter (\<lambda>r. \<not> (aa_alias r = alias \<and> aa_plugin_id r = pid)) (ad_aliases db)\<rparr>)))"

section \<open>Communications\<close>

record comm_form =
  mf_type :: string
  mf_title :: string
  mf_body :: string
  mf_priority :: string
  mf_plugin_id :: string
  mf_cohort_id :: string
  mf_starts_at :: string
  mf_expires_at :: string
  mf_question :: string
  mf_choices :: string
  mf_multiple :: string
  mf_comment :: string
  mf_start_status :: string

definition form_comm :: "admin_request \<Rightarrow> comm_form \<Rightarrow> int option \<Rightarrow> int option \<Rightarrow> timestamp option \<Rightarrow> timestamp option \<Rightarrow> string option \<Rightarrow> comm_row" where
  "form_comm rq f pid cid st ex by_whom =
     (let choices = nonblank (splitlines (strip (mf_choices f))); nz = (\<lambda>x. if x = Some 0 then None else x)
      in \<lparr>mm_id = aq_id rq, mm_type = mf_type f, mm_title = mf_title f, mm_body = mf_body f, mm_priority = mf_priority f, mm_plugin_id = nz pid,
          mm_cohort_id = nz cid, mm_starts_at = st, mm_expires_at = ex, mm_question = form_text (mf_question f),
          mm_choices = (if choices = [] then JNull else JList (map JStr choices)), mm_multiple = (mf_multiple f = ''on''), mm_comment = (mf_comment f = ''on''),
          mm_status = mf_start_status f, mm_created_by = by_whom, mm_updated_at = aq_now rq\<rparr>)"

definition communication_create :: "admin_env \<Rightarrow> admin_request \<Rightarrow> string list \<Rightarrow> comm_form \<Rightarrow> admin_db \<Rightarrow> response result \<times> admin_db" where
  "communication_create en rq columns f = transaction en (bad_request en) (\<lambda>db. then_audit en rq (
     bind_result (form_int (mf_plugin_id f)) (\<lambda>pid. bind_result (form_int (mf_cohort_id f)) (\<lambda>cid.
     bind_result (form_time en (mf_starts_at f)) (\<lambda>st. bind_result (form_time en (mf_expires_at f)) (\<lambda>ex.
     bind_result (sql_param (as_text (ae_pg en)) (jget (aq_actor rq) ''email'')) (\<lambda>by_whom.
     bind_result (create_communication columns (plugin_ids db) (map co_id (cohorts (ad_cohorts db))) (form_comm rq f pid cid st ex by_whom) (ad_comms db)) (\<lambda>(i, comms).
       Inr (entry ''communication.create'' ''communication'' (str_of_int i) [(''type'', JStr (mf_type f)), (''title'', JStr (mf_title f))],
            redirect_to (''/admin/communications/'' @ str_of_int i), db\<lparr>ad_comms := comms\<rparr>)))))))))"

definition communication_status :: "admin_env \<Rightarrow> admin_request \<Rightarrow> int \<Rightarrow> string \<Rightarrow> admin_db \<Rightarrow> response result \<times> admin_db" where
  "communication_status en rq i st = transaction en (bad_request en) (\<lambda>db. then_audit en rq (
     bind_result (update_communication_status (aq_now rq) i st (ad_comms db)) (\<lambda>(b, comms).
       Inr (entry (''communication.'' @ st) ''communication'' (str_of_int i) [(''status'', JStr st)],
            redirect_to (''/admin/communications/'' @ str_of_int i), db\<lparr>ad_comms := comms\<rparr>))))"

section \<open>Calls\<close>

text \<open>The routes above as data: what a form sends.\<close>

datatype admin_call =
    RevokeRelay string
  | CohortCreate string string string string
  | CohortMembers int string
  | CohortDelete int
  | FlagCreate string string string string string
  | FlagDefault int string
  | OverrideAdd int int string string
  | OverrideDelete int int
  | FlagDelete int
  | ArtifactToggle int string
  | CampaignCreate campaign_form
  | CampaignVerb int campaign_verb
  | DeployVerb int int deploy_verb
  | PurgeRemoved
  | PluginEdit int plugin_form
  | PluginStatus int string
  | PluginAccess int string string string
  | PluginDuplicate int
  | VersionCreate int version_form
  | VersionStatus int int string
  | VersionsPurge int
  | DeploymentsPurge int
  | EnvUpsert int string string string string
  | EnvDelete int int
  | KeycloakCreate string string string string string string
  | KeycloakLink int int string
  | WaitlistApprove int int
  | WaitlistReject int int
  | AliasAdd int string
  | AliasDelete int string
  | CommCreate comm_form
  | CommStatus int string

primrec run_call :: "admin_env \<Rightarrow> admin_request \<Rightarrow> admin_call \<Rightarrow> admin_db \<Rightarrow> response result \<times> admin_db" where
  "run_call en rq (RevokeRelay cu) = device_revoke_relay en rq cu"
| "run_call en rq (CohortCreate n t d m) = cohorts_create en rq n t d m"
| "run_call en rq (CohortMembers c m) = cohort_add_members en rq c m"
| "run_call en rq (CohortDelete c) = cohort_delete en rq c"
| "run_call en rq (FlagCreate n d v s m) = flags_create en rq n d v s m"
| "run_call en rq (FlagDefault f v) = flag_update_default en rq f v"
| "run_call en rq (OverrideAdd f c v m) = flag_add_override en rq f c v m"
| "run_call en rq (OverrideDelete f c) = flag_delete_override en rq f c"
| "run_call en rq (FlagDelete f) = flag_delete en rq f"
| "run_call en rq (ArtifactToggle a v) = artifact_toggle en rq a v"
| "run_call en rq (CampaignCreate f) = campaign_create en rq f"
| "run_call en rq (CampaignVerb c v) = campaign_route en rq c v"
| "run_call en rq (DeployVerb p c v) = catalog_deploy_route en rq p c v"
| "run_call en rq PurgeRemoved = catalog_purge_removed en rq"
| "run_call en rq (PluginEdit p f) = catalog_plugin_edit en rq p f"
| "run_call en rq (PluginStatus p s) = catalog_plugin_status en rq p s"
| "run_call en rq (PluginAccess p m a g) = catalog_access_update en rq p m a g"
| "run_call en rq (PluginDuplicate p) = catalog_plugin_duplicate en rq p"
| "run_call en rq (VersionCreate p f) = catalog_version_create en rq p f"
| "run_call en rq (VersionStatus p v s) = catalog_version_status en rq p v s"
| "run_call en rq (VersionsPurge p) = catalog_versions_purge en rq p"
| "run_call en rq (DeploymentsPurge p) = catalog_deployments_purge en rq p"
| "run_call en rq (EnvUpsert p e k v s) = catalog_env_upsert en rq p e k v s"
| "run_call en rq (EnvDelete p i) = catalog_env_delete en rq p i"
| "run_call en rq (KeycloakCreate c r d t u k) = api_keycloak_create_client en rq c r d t u k"
| "run_call en rq (KeycloakLink p k e) = catalog_keycloak_link en rq p k e"
| "run_call en rq (WaitlistApprove p w) = catalog_waitlist_approve en rq p w"
| "run_call en rq (WaitlistReject p w) = catalog_waitlist_reject en rq p w"
| "run_call en rq (AliasAdd p a) = catalog_alias_add en rq p a"
| "run_call en rq (AliasDelete p a) = catalog_alias_delete en rq p a"
| "run_call en rq (CommCreate f) = communication_create en rq COMMUNICATION_COLUMNS f"
| "run_call en rq (CommStatus i s) = communication_status en rq i s"

text \<open>\<open>require_admin\<close> around a route: the handler sees the session the guard found.\<close>

definition guarded_call ::
  "auth_cfg \<Rightarrow> json dict \<Rightarrow> string \<Rightarrow> string \<Rightarrow> string \<Rightarrow> string dict \<Rightarrow> admin_env \<Rightarrow> admin_request \<Rightarrow> admin_call \<Rightarrow> admin_db \<Rightarrow> guarded + response result \<times> admin_db" where
  "guarded_call cfg oidc st v csrf cookies en rq call db =
     (case require_admin cfg (aq_now rq) oidc st v csrf cookies of
        RunHandler sess out \<Rightarrow> Inr (run_call en (rq\<lparr>aq_actor := sess\<rparr>) call db)
      | g \<Rightarrow> Inl g)"

section \<open>The audit trail\<close>

definition succeeded :: "response result \<Rightarrow> bool" where
  "succeeded r = (case r of Inr resp \<Rightarrow> r_status resp < 400 | Inl _ \<Rightarrow> False)"

text \<open>Exactly one entry is appended, with this action and the session of the request.\<close>

definition logs :: "admin_env \<Rightarrow> admin_request \<Rightarrow> string \<Rightarrow> admin_db \<Rightarrow> admin_db \<Rightarrow> bool" where
  "logs en rq act db db' = (\<exists>row. ad_audit db' = ad_audit db @ [row] \<and> au_action row = act \<and> au_created_at row = aq_now rq \<and> au_ip row = aq_ip rq \<and>
     actor_field en (aq_actor rq) ''email'' = Inr (au_actor_email row) \<and> actor_field en (aq_actor rq) ''sub'' = Inr (au_actor_sub row))"

definition audited :: "admin_env \<Rightarrow> admin_request \<Rightarrow> string \<Rightarrow> admin_db \<Rightarrow> response result \<times> admin_db \<Rightarrow> bool" where
  "audited en rq act db out = (case out of (r, db') \<Rightarrow> if succeeded r then logs en rq act db db' else db' = db)"

lemma bind_result_eq_Inr: "bind_result r f = Inr x \<longleftrightarrow> (\<exists>a. r = Inr a \<and> f a = Inr x)"
  by (cases r) auto

lemma audit_log_Inr:
  assumes "audit_log en now actor ip e db = Inr db'"
  shows "\<exists>row. db' = db\<lparr>ad_audit := ad_audit db @ [row]\<rparr> \<and> au_action row = ent_action e \<and> au_created_at row = now \<and> au_ip row = ip \<and>
    actor_field en actor ''email'' = Inr (au_actor_email row) \<and> actor_field en actor ''sub'' = Inr (au_actor_sub row) \<and>
    au_plugin_slug row = (case derive_audit_plugin (ent_type e) (ent_id e) (ent_payload e) db of Inr p \<Rightarrow> p | Inl _ \<Rightarrow> None)"
  using assms by (auto simp: audit_log_def bind_result_eq_Inr Let_def split: if_splits)

lemma transaction_cases:
  assumes "\<And>e resp. on_error e = Inr resp \<Longrightarrow> 400 \<le> r_status resp"
    and "\<And>resp d. work db = Inr (resp, d) \<Longrightarrow> r_status resp < 400 \<and> logs en rq act db d"
  shows "audited en rq act db (transaction en on_error work db)"
proof (cases "ae_connect en")
  case None
  show ?thesis
  proof (cases "work db")
    case (Inl e)
    then have "\<not> succeeded (on_error e)" using assms(1) [of e] by (cases "on_error e") (auto simp: succeeded_def)
    then show ?thesis using None Inl by (simp add: transaction_def audited_def)
  next
    case (Inr out)
    then show ?thesis using None assms(2) [of "fst out" "snd out"] by (simp add: transaction_def audited_def succeeded_def case_prod_beta)
  qed
qed (simp add: transaction_def audited_def succeeded_def)

lemma audited_then:
  assumes "\<And>e resp. on_error e = Inr resp \<Longrightarrow> 400 \<le> r_status resp"
    and "\<And>e resp d. work db = Inr (e, resp, d) \<Longrightarrow> ent_action e = act \<and> r_status resp < 400 \<and> ad_audit d = ad_audit db"
  shows "audited en rq act db (transaction en on_error (\<lambda>db. then_audit en rq (work db)) db)"
proof (rule transaction_cases [OF assms(1)])
  fix resp d assume "then_audit en rq (work db) = Inr (resp, d)"
  then obtain e d0 where w: "work db = Inr (e, resp, d0)" and a: "audit_log en (aq_now rq) (aq_actor rq) (aq_ip rq) e d0 = Inr d"
    by (auto simp: then_audit_def bind_result_eq_Inr)
  from assms(2) [OF w] audit_log_Inr [OF a] show "r_status resp < 400 \<and> logs en rq act db d" by (auto simp: logs_def)
qed

lemma audited_first:
  assumes "\<And>e resp. on_error e = Inr resp \<Longrightarrow> 400 \<le> r_status resp"
    and "\<And>d resp d'. work d = Inr (resp, d') \<Longrightarrow> r_status resp < 400 \<and> ad_audit d' = ad_audit d"
    and "ent_action e = act"
  shows "audited en rq act db (transaction en on_error (audit_then en rq e work) db)"
proof (rule transaction_cases [OF assms(1)])
  fix resp d assume "audit_then en rq e work db = Inr (resp, d)"
  then obtain d0 where a: "audit_log en (aq_now rq) (aq_actor rq) (aq_ip rq) e db = Inr d0" and w: "work d0 = Inr (resp, d)"
    by (auto simp: audit_then_def bind_result_eq_Inr)
  from assms(2) [OF w] audit_log_Inr [OF a] assms(3) show "r_status resp < 400 \<and> logs en rq act db d" by (auto simp: logs_def)
qed

lemma bad_request_no_answer: "bad_request en e = Inr resp \<Longrightarrow> 400 \<le> r_status resp"
  by (simp add: bad_request_def)

lemma pass_http_no_answer: "pass_http en e = Inr resp \<Longrightarrow> 400 \<le> r_status resp"
  by (simp add: pass_http_def bad_request_def split: py_error.splits)

lemma json_error_status: "json_error en 400 e = Inr resp \<Longrightarrow> 400 \<le> r_status resp"
  by (auto simp: json_error_def)

lemmas audit_rules = audited_then [OF bad_request_no_answer] audited_then [OF pass_http_no_answer] audited_then [OF json_error_status]
  audited_first [OF bad_request_no_answer]

lemmas answer_simps = bind_result_eq_Inr entry_def redirect_to_def plugin_page_def put_cohorts_def put_flags_def put_campaigns_def keep_plugin_rows_def

primrec call_action :: "admin_call \<Rightarrow> string option" where
  "call_action (RevokeRelay cu) = Some ''relay.revoke''"
| "call_action (CohortCreate n t d m) = Some ''cohort.create''"
| "call_action (CohortMembers c m) = Some ''cohort.add_members''"
| "call_action (CohortDelete c) = Some ''cohort.delete''"
| "call_action (FlagCreate n d v s m) = Some ''flag.create''"
| "call_action (FlagDefault f v) = Some ''flag.update''"
| "call_action (OverrideAdd f c v m) = Some ''flag.override.create''"
| "call_action (OverrideDelete f c) = Some ''flag.override.delete''"
| "call_action (FlagDelete f) = Some ''flag.delete''"
| "call_action (ArtifactToggle a v) = Some ''artifact.toggle''"
| "call_action (CampaignCreate f) = Some ''campaign.create''"
| "call_action (CampaignVerb c v) = Some (''campaign.'' @ verb_name v)"
| "call_action (DeployVerb p c v) = Some (''campaign.'' @ snd (deploy_verb_args v))"
| "call_action PurgeRemoved = Some ''plugin.purge_removed''"
| "call_action (PluginEdit p f) = Some ''plugin.update''"
| "call_action (PluginStatus p s) = Some (''plugin.'' @ s)"
| "call_action (PluginAccess p m a g) = Some ''plugin.access.update''"
| "call_action (PluginDuplicate p) = Some ''plugin.duplicate''"
| "call_action (VersionCreate p f) = Some ''version.create''"
| "call_action (VersionStatus p v s) = Some (''version.'' @ s)"
| "call_action (VersionsPurge p) = Some ''versions.purge''"
| "call_action (DeploymentsPurge p) = Some ''deployments.purge''"
| "call_action (EnvUpsert p e k v s) = Some ''env.override.upsert''"
| "call_action (EnvDelete p i) = Some ''env.override.delete''"
| "call_action (KeycloakCreate c r d t u k) = Some ''keycloak.client.create''"
| "call_action (KeycloakLink p k e) = Some ''keycloak.link''"
| "call_action (WaitlistApprove p w) = Some ''waitlist.approve''"
| "call_action (WaitlistReject p w) = None"
| "call_action (AliasAdd p a) = Some ''alias.add''"
| "call_action (AliasDelete p a) = Some ''alias.delete''"
| "call_action (CommCreate f) = Some ''communication.create''"
| "call_action (CommStatus i s) = Some (''communication.'' @ s)"

lemma audited_devices:
  "audited en rq ''relay.revoke'' db (device_revoke_relay en rq cu db)"
  "audited en rq ''cohort.create'' db (cohorts_create en rq n t d m db)"
  "audited en rq ''cohort.add_members'' db (cohort_add_members en rq c m db)"
  unfolding device_revoke_relay_def cohorts_create_def cohort_add_members_def
  by (rule audit_rules; auto simp: answer_simps Let_def case_prod_beta split: option.splits if_splits)+

lemma audited_flags:
  "audited en rq ''flag.create'' db (flags_create en rq n d v s m db)"
  "audited en rq ''flag.update'' db (flag_update_default en rq f v db)"
  "audited en rq ''flag.override.create'' db (flag_add_override en rq f c v m db)"
  "audited en rq ''flag.override.delete'' db (flag_delete_override en rq f c db)"
  "audited en rq ''artifact.toggle'' db (artifact_toggle en rq a v db)"
  unfolding flags_create_def flag_update_default_def flag_add_override_def flag_delete_override_def artifact_toggle_def
  by (rule audit_rules; auto simp: answer_simps Let_def case_prod_beta split: option.splits if_splits)+

lemma audited_deletions:
  "audited en rq ''cohort.delete'' db (cohort_delete en rq c db)"
  "audited en rq ''flag.delete'' db (flag_delete en rq f db)"
  unfolding cohort_delete_def flag_delete_def
  by (rule audit_rules; auto simp: answer_simps Let_def case_prod_beta split: option.splits if_splits)+

lemma audited_campaigns:
  "audited en rq ''campaign.create'' db (campaign_create en rq form db)"
  "audited en rq (''campaign.'' @ act) db (admin_campaign_action en rq c st act pre db)"
  "audited en rq (''campaign.'' @ act) db (catalog_deploy_action en rq p c st act db)"
  unfolding campaign_create_def admin_campaign_action_def catalog_deploy_action_def
  by (rule audit_rules; auto simp: answer_simps Let_def case_prod_beta split: option.splits if_splits)+

lemma audited_catalog:
  "audited en rq ''plugin.purge_removed'' db (catalog_purge_removed en rq db)"
  "audited en rq act db (update_and_audit en rq p fs act pl tab db)"
  "audited en rq ''plugin.duplicate'' db (catalog_plugin_duplicate en rq p db)"
  "audited en rq (''version.'' @ st) db (catalog_version_status en rq p v st db)"
  "audited en rq ''versions.purge'' db (catalog_versions_purge en rq p db)"
  "audited en rq ''deployments.purge'' db (catalog_deployments_purge en rq p db)"
  unfolding catalog_purge_removed_def update_and_audit_def catalog_plugin_duplicate_def catalog_version_status_def catalog_versions_purge_def
    catalog_deployments_purge_def
  by (rule audit_rules; auto simp: answer_simps Let_def case_prod_beta split: option.splits if_splits)+

lemma audited_version_create: "audited en rq ''version.create'' db (catalog_version_create en rq p f db)"
proof (cases "vf_artifact_id f = [] \<and> strip (vf_download_url f) = []")
  case True
  then show ?thesis by (simp add: catalog_version_create_def audited_def succeeded_def)
next
  case False
  show ?thesis unfolding catalog_version_create_def if_not_P [OF False] by (rule audit_rules; auto simp: answer_simps)
qed

lemma audited_registry:
  "audited en rq ''env.override.upsert'' db (catalog_env_upsert en rq p e k v s db)"
  "audited en rq ''env.override.delete'' db (catalog_env_delete en rq p i db)"
  "audited en rq ''keycloak.client.create'' db (api_keycloak_create_client en rq c r d t u pk db)"
  "audited en rq ''keycloak.link'' db (catalog_keycloak_link en rq p ki e db)"
  "audited en rq ''alias.delete'' db (catalog_alias_delete en rq p a db)"
  "audited en rq ''communication.create'' db (communication_create en rq columns f db)"
  "audited en rq (''communication.'' @ st) db (communication_status en rq i st db)"
  unfolding catalog_env_upsert_def catalog_env_delete_def api_keycloak_create_client_def catalog_keycloak_link_def catalog_alias_delete_def
    communication_create_def communication_status_def
  by (rule audit_rules; auto simp: answer_simps Let_def case_prod_beta split: option.splits if_splits)+

lemma audited_alias_add: "audited en rq ''alias.add'' db (catalog_alias_add en rq p a db)"
  unfolding catalog_alias_add_def Let_def by (rule audit_rules; auto simp: answer_simps split: if_splits)

lemma review_keeps: "review en rq pid wid verdict db = Inr db' \<Longrightarrow> \<exists>ws. db' = db\<lparr>ad_waitlist := ws\<rparr>"
  by (auto simp: review_def bind_result_eq_Inr split: if_splits)

lemma audited_approve: "audited en rq ''waitlist.approve'' db (catalog_waitlist_approve en rq p w db)"
  unfolding catalog_waitlist_approve_def by (rule audit_rules; auto simp: answer_simps dest!: review_keeps)

lemmas audited_routes = audited_devices audited_flags audited_deletions audited_campaigns audited_catalog audited_version_create audited_registry
  audited_alias_add audited_approve

lemma run_call_audited: "call_action call = Some act \<Longrightarrow> audited en rq act db (run_call en rq call db)"
  by (cases call) (auto simp: campaign_route_def catalog_deploy_route_def catalog_plugin_edit_def catalog_plugin_status_def
    catalog_access_update_def simp del: append_Cons intro: audited_routes)

lemma reject_unlogged:
  assumes "run_call en rq (WaitlistReject p w) db = (r, db')"
  shows "if succeeded r then \<exists>ws. db' = db\<lparr>ad_waitlist := ws\<rparr> else db' = db"
proof (cases "ae_connect en")
  case None
  then show ?thesis using assms
    by (cases "review en rq p w ''rejected'' db")
       (auto simp: catalog_waitlist_reject_def transaction_def succeeded_def bad_request_def redirect_to_def plugin_page_def dest: review_keeps)
qed (use assms in \<open>auto simp: catalog_waitlist_reject_def transaction_def succeeded_def\<close>)

text \<open>A sequence of visits, whoever makes them; the first component is what the answers promise: the action of
  every call answered with success and the address of the session it ran under.\<close>

record admin_visit =
  vi_cookies :: "string dict"
  vi_draws :: "string \<times> string \<times> string"
  vi_request :: admin_request
  vi_call :: admin_call

definition visit :: "auth_cfg \<Rightarrow> json dict \<Rightarrow> admin_env \<Rightarrow> admin_visit \<Rightarrow> admin_db \<Rightarrow> guarded + response result \<times> admin_db" where
  "visit cfg oidc en v db = (case vi_draws v of (st, ver, csrf) \<Rightarrow>
     guarded_call cfg oidc st ver csrf (vi_cookies v) en (vi_request v) (vi_call v) db)"

definition visit_session :: "auth_cfg \<Rightarrow> json dict \<Rightarrow> admin_visit \<Rightarrow> json dict option" where
  "visit_session cfg oidc v = (case vi_draws v of (st, ver, csrf) \<Rightarrow>
     (case require_admin cfg (aq_now (vi_request v)) oidc st ver csrf (vi_cookies v) of RunHandler sess out \<Rightarrow> Some sess | _ \<Rightarrow> None))"

definition promised :: "auth_cfg \<Rightarrow> json dict \<Rightarrow> admin_env \<Rightarrow> admin_visit \<Rightarrow> (string \<times> string option) list" where
  "promised cfg oidc en v = (case (visit_session cfg oidc v, call_action (vi_call v)) of
       (Some sess, Some act) \<Rightarrow> (case actor_field en sess ''email'' of Inr email \<Rightarrow> [(act, email)] | Inl _ \<Rightarrow> [])
     | _ \<Rightarrow> [])"

fun admin_history :: "auth_cfg \<Rightarrow> json dict \<Rightarrow> admin_env \<Rightarrow> admin_visit list \<Rightarrow> admin_db \<Rightarrow> (string \<times> string option) list \<times> admin_db" where
  "admin_history cfg oidc en [] db = ([], db)"
| "admin_history cfg oidc en (v # vs) db = (case visit cfg oidc en v db of
       Inl g \<Rightarrow> admin_history cfg oidc en vs db
     | Inr (r, db') \<Rightarrow> (let (h, db'') = admin_history cfg oidc en vs db' in ((if succeeded r then promised cfg oidc en v else []) @ h, db'')))"

definition trail :: "admin_db \<Rightarrow> (string \<times> string option) list" where
  "trail db = map (\<lambda>r. (au_action r, au_actor_email r)) (ad_audit db)"

lemma trail_visit:
  assumes "visit cfg oidc en v db = Inr (r, db')"
  shows "trail db' = trail db @ (if succeeded r then promised cfg oidc en v else [])" "\<not> succeeded r \<Longrightarrow> db' = db"
proof -
  obtain st ver csrf where d: "vi_draws v = (st, ver, csrf)" by (cases "vi_draws v") auto
  obtain sess out where s: "require_admin cfg (aq_now (vi_request v)) oidc st ver csrf (vi_cookies v) = RunHandler sess out"
    and run: "run_call en ((vi_request v)\<lparr>aq_actor := sess\<rparr>) (vi_call v) db = (r, db')"
    using assms d by (auto simp: visit_def guarded_call_def split: guarded.splits)
  have sess: "visit_session cfg oidc v = Some sess" using s d by (simp add: visit_session_def)
  have "trail db' = trail db @ (if succeeded r then promised cfg oidc en v else []) \<and> (\<not> succeeded r \<longrightarrow> db' = db)"
  proof (cases "call_action (vi_call v)")
    case None
    then obtain p w where "vi_call v = WaitlistReject p w" by (cases "vi_call v") auto
    with run reject_unlogged [of en "(vi_request v)\<lparr>aq_actor := sess\<rparr>" p w db r db']
    show ?thesis using None sess by (auto simp: promised_def trail_def split: if_splits)
  next
    case (Some act)
    from run_call_audited [OF Some, of en "(vi_request v)\<lparr>aq_actor := sess\<rparr>" db]
    show ?thesis using run Some sess by (auto simp: audited_def logs_def promised_def trail_def split: if_splits)
  qed
  then show "trail db' = trail db @ (if succeeded r then promised cfg oidc en v else [])" "\<not> succeeded r \<Longrightarrow> db' = db" by auto
qed

text \<open>Property C33. Over any sequence of visits to the modelled routes, by any visitors, the audit log grows by the actions of the
  calls that were answered with success, in that order, each with the address of the session the guard verified, and by nothing else; a
  call that is answered with an error leaves every table as it was. Exactly one kind of successful call is not recorded: the
  rejection of a request on a waiting list.\<close>

theorem audit_trail:
  assumes "admin_history cfg oidc en vs db = (h, db')"
  shows "trail db' = trail db @ h \<and>
    (\<forall>v r d. visit cfg oidc en v db = Inr (r, d) \<longrightarrow> \<not> succeeded r \<longrightarrow> d = db) \<and>
    (\<forall>call. call_action call = None \<longleftrightarrow> (\<exists>pid wid. call = WaitlistReject pid wid))"
proof (intro conjI)
  show "trail db' = trail db @ h" using assms
  proof (induction vs arbitrary: db h)
    case (Cons v vs)
    show ?case
    proof (cases "visit cfg oidc en v db")
      case (Inl g)
      then show ?thesis using Cons by simp
    next
      case (Inr out)
      obtain r d where out: "out = (r, d)" by (cases out)
      obtain h' where h': "admin_history cfg oidc en vs d = (h', db')" "h = (if succeeded r then promised cfg oidc en v else []) @ h'"
        using Cons.prems Inr out by (auto split: prod.splits)
      from Cons.IH [OF h'(1)] trail_visit(1) [OF Inr [unfolded out]] h'(2) show ?thesis by simp
    qed
  qed simp
  show "\<forall>v r d. visit cfg oidc en v db = Inr (r, d) \<longrightarrow> \<not> succeeded r \<longrightarrow> d = db"
    using trail_visit(2) by blast
  show "\<forall>call. call_action call = None \<longleftrightarrow> (\<exists>pid wid. call = WaitlistReject pid wid)"
  proof
    fix call show "call_action call = None \<longleftrightarrow> (\<exists>pid wid. call = WaitlistReject pid wid)" by (cases call) simp_all
  qed
qed

definition demo_admin_env :: admin_env where
  "demo_admin_env = \<lparr>ae_connect = None, ae_pg = demo_pg, ae_inet = (\<lambda>_. True), ae_timestamptz = (\<lambda>_. None), ae_text = (\<lambda>_. [])\<rparr>"

definition demo_admin_db :: admin_db where
  "demo_admin_db = \<lparr>ad_cat = empty_cat\<lparr>ct_plugins := [demo_cat_plugin ''active''], ct_flags := \<lparr>feature_flags = [], flag_overrides = []\<rparr>\<rparr>,
     ad_cohorts = \<lparr>cohorts = [], cohort_members = []\<rparr>, ad_relays = \<lparr>relay_clients = [], relay_memory = []\<rparr>,
     ad_comms = \<lparr>communications = [], comm_acks = [], survey_responses = []\<rparr>, ad_kc = \<lparr>keycloak_clients = [], kc_links = []\<rparr>,
     ad_env = [], ad_aliases = [], ad_waitlist = [], ad_audit = []\<rparr>"

definition demo_request :: admin_request where
  "demo_request = \<lparr>aq_actor = [], aq_ip = None, aq_now = 0, aq_id = 5, aq_flag_ids = (\<lambda>_. 5)\<rparr>"

definition demo_visit :: "admin_call \<Rightarrow> admin_visit" where
  "demo_visit c = \<lparr>vi_cookies = [], vi_draws = ([], [], []), vi_request = demo_request, vi_call = c\<rparr>"

definition demo_guard :: auth_cfg where
  "demo_guard = demo_cfg\<lparr>dev_autologin := True, oidc_issuer := []\<rparr>"

lemma demo_visit_runs: "visit demo_guard [] demo_admin_env (demo_visit c) db = Inr (run_call demo_admin_env (demo_request\<lparr>aq_actor := dev_session 0\<rparr>) c db)"
  by (simp add: visit_def demo_visit_def guarded_call_def require_admin_def demo_guard_def demo_request_def dget_def)

lemma demo_promised: "promised demo_guard [] demo_admin_env (demo_visit c) = (case call_action c of Some act \<Rightarrow> [(act, Some ''admin@dev.local'')] | None \<Rightarrow> [])"
  by (simp add: promised_def visit_session_def demo_visit_def require_admin_def demo_guard_def demo_request_def dget_def actor_field_def
      sql_param_def dev_session_def demo_admin_env_def demo_pg_def split: option.splits)

lemmas admin_eval = transaction_def then_audit_def audit_then_def audit_log_def derive_audit_plugin_def or_else_def flag_slug_of_def plugin_slug_of_def
  actor_field_def sql_param_def entry_def demo_request_def demo_admin_env_def demo_admin_db_def demo_pg_def dev_session_def dget_def jget_def jget_or_def
  succeeded_def bad_request_def redirect_to_def plugin_page_def put_flags_def plugin_ids_def Let_def

theorem audit_trail_witness:
  "\<exists>db'. admin_history demo_guard [] demo_admin_env [demo_visit (FlagCreate ''f'' [] ''true'' ''p'' []), demo_visit (FlagDelete 5), demo_visit (AliasAdd 2 ''a'')]
     demo_admin_db = ([(''flag.create'', Some ''admin@dev.local''), (''flag.delete'', Some ''admin@dev.local'')], db') \<and>
   trail db' = [(''flag.create'', Some ''admin@dev.local''), (''flag.delete'', Some ''admin@dev.local'')]"
proof -
  let ?run = "run_call demo_admin_env (demo_request\<lparr>aq_actor := dev_session 0\<rparr>)"
  define d1 where "d1 = snd (?run (FlagCreate ''f'' [] ''true'' ''p'' []) demo_admin_db)"
  define d2 where "d2 = snd (?run (FlagDelete 5) d1)"
  have s: "str_of_int 5 = ''5''" "isdigit ''5''" "py_int ''5'' = Some 5" by code_simp+
  have lw: "strip ''p'' = ''p''" "strip [] = []" "lower (strip ''a'') = ''a''" by code_simp+
  have 1: "succeeded (fst (?run (FlagCreate ''f'' [] ''true'' ''p'' []) demo_admin_db))"
    by (simp add: flags_create_def create_flag_def form_text_def form_flag_def admin_eval s lw varchar_ok_def py_str_def empty_cat_def)
  have d1: "ct_flags (ad_cat d1) = \<lparr>feature_flags = [\<lparr>ff_id = 5, ff_name = ''f'', ff_plugin_slug = ''p'', ff_description = [], ff_default_value = Some True,
      ff_deprecated = False, ff_min_plugin_version = None, ff_updated_at = 0\<rparr>], flag_overrides = []\<rparr>" "ad_aliases d1 = []"
      "map cp_id (ct_plugins (ad_cat d1)) = [1]"
    unfolding d1_def
    by (simp_all add: flags_create_def create_flag_def form_text_def form_flag_def admin_eval s lw varchar_ok_def py_str_def empty_cat_def demo_cat_plugin_def)
  have 2: "succeeded (fst (?run (FlagDelete 5) d1))"
    by (simp add: flag_delete_def delete_flag_def d1 admin_eval s lw varchar_ok_def py_str_def)
  have d2: "ad_aliases d2 = []" "map cp_id (ct_plugins (ad_cat d2)) = [1]"
    unfolding d2_def by (simp_all add: flag_delete_def delete_flag_def d1 admin_eval s lw varchar_ok_def py_str_def)
  have 3: "\<not> succeeded (fst (?run (AliasAdd 2 ''a'') d2))"
    using d2 by (simp add: catalog_alias_add_def admin_eval lw varchar_ok_def)
  have h: "admin_history demo_guard [] demo_admin_env [demo_visit (FlagCreate ''f'' [] ''true'' ''p'' []), demo_visit (FlagDelete 5), demo_visit (AliasAdd 2 ''a'')]
     demo_admin_db = ([(''flag.create'', Some ''admin@dev.local''), (''flag.delete'', Some ''admin@dev.local'')], snd (?run (AliasAdd 2 ''a'') d2))"
    using 1 2 3 by (simp add: demo_visit_runs demo_promised case_prod_beta del: run_call.simps flip: d1_def d2_def)
  from audit_trail [OF h] h show ?thesis by (simp add: trail_def demo_admin_db_def)
qed

section \<open>Revocation\<close>

lemma revoke_success:
  assumes "device_revoke_relay en rq cu db = (r, db')" "succeeded r"
  obtains u where "pg_uuid cu = Some u" "relay_clients (ad_relays db') = revoke_rows (aq_now rq) u (relay_clients (ad_relays db))"
proof (cases "ae_connect en")
  case None
  obtain resp where w: "then_audit en rq (case pg_uuid cu of None \<Rightarrow> Inl DatabaseError
     | Some u \<Rightarrow> (let n = length (filter (\<lambda>r. rr_client_uuid r = u \<and> active r) (relay_clients (ad_relays db)))
          in Inr (entry ''relay.revoke'' ''relay_client'' cu [(''revoked_rows'', JInt (int n))], redirect_to (''/admin/devices/'' @ cu),
               db\<lparr>ad_relays := (ad_relays db)\<lparr>relay_clients := revoke_rows (aq_now rq) u (relay_clients (ad_relays db))\<rparr>\<rparr>))) = Inr (resp, db')"
    using assms None by (auto simp: device_revoke_relay_def transaction_def succeeded_def bad_request_def split: sum.splits)
  then obtain e d where c: "pg_uuid cu \<noteq> None" and a: "audit_log en (aq_now rq) (aq_actor rq) (aq_ip rq) e d = Inr db'"
     and d: "d = db\<lparr>ad_relays := (ad_relays db)\<lparr>relay_clients := revoke_rows (aq_now rq) (the (pg_uuid cu)) (relay_clients (ad_relays db))\<rparr>\<rparr>"
    by (auto simp: then_audit_def bind_result_eq_Inr Let_def split: option.splits)
  from audit_log_Inr [OF a] d have "ad_relays db' = (ad_relays db)\<lparr>relay_clients := revoke_rows (aq_now rq) (the (pg_uuid cu)) (relay_clients (ad_relays db))\<rparr>"
    by auto
  with c show thesis using that by auto
qed (use assms in \<open>auto simp: device_revoke_relay_def transaction_def succeeded_def\<close>)

lemma revoke_rows_active: "row \<in> set (revoke_rows now u rows) \<Longrightarrow> active row \<Longrightarrow> row \<in> set rows \<and> rr_client_uuid row \<noteq> u"
  by (auto simp: revoke_rows_def active_def split: if_splits)

lemma revoke_rows_others: "row \<in> set rows \<Longrightarrow> rr_client_uuid row \<noteq> u \<Longrightarrow> row \<in> set (revoke_rows now u rows)"
  by (force simp: revoke_rows_def image_iff)

lemma accepted_relay_row:
  assumes "verify_relay_credentials cfg True now cid key tgt st = Inr meta"
  shows "\<exists>row \<in> set (relay_clients st). active row \<and> rm_client_uuid meta = rr_client_uuid row"
  using assms
  by (auto simp: verify_relay_credentials_def lookup_relay_def row_mem_def active_def Let_def split: if_splits option.splits dest!: find_relay_Some)

text \<open>Property C34. The revocation of a device on its page takes effect at once: whatever relay headers or LLM token
  a later request carries, it is no longer accepted as coming from that device, by the relay check and by the
  LLM proxy; and the standing of every other device is untouched.\<close>

theorem revocation_effective:
  assumes "device_revoke_relay en rq cu db = (r, db')" "succeeded r"
    and uuids: "\<forall>row \<in> set (relay_clients (ad_relays db)). pg_uuid (rr_client_uuid row) = Some (rr_client_uuid row)"
  shows "(\<forall>hs tgt p meta. relay_auth_from_request cfg True now hs tgt p (ad_relays db') = Inr (Inr meta) \<longrightarrow> pg_uuid (rm_client_uuid meta) \<noteq> pg_uuid cu) \<and>
    (\<forall>hs who. resolve_llm_identity cfg e True now hs (ad_relays db') = Inr who \<longrightarrow> pg_uuid (li_client_uuid who) \<noteq> pg_uuid cu) \<and>
    (\<forall>c. pg_uuid c \<noteq> pg_uuid cu \<longrightarrow> client_uuid_is_active True now c (ad_relays db') = client_uuid_is_active True now c (ad_relays db))"
proof -
  from revoke_success [OF assms(1,2)] obtain u where u: "pg_uuid cu = Some u"
    and rows: "relay_clients (ad_relays db') = revoke_rows (aq_now rq) u (relay_clients (ad_relays db))" .
  have relay: "pg_uuid (rm_client_uuid meta) \<noteq> pg_uuid cu"
    if acc: "relay_auth_from_request cfg True now hs tgt p (ad_relays db') = Inr (Inr meta)" for hs tgt p meta
  proof -
    from acc obtain cid key where "verify_relay_credentials cfg True now cid key tgt (ad_relays db') = Inr meta"
      by (auto simp: relay_auth_from_request_def Let_def bind_result_eq_Inr split: if_splits)
    from accepted_relay_row [OF this] rows revoke_rows_active uuids u show ?thesis by force
  qed
  have idle: "client_uuid_is_active True now c (ad_relays db') = Inr True \<Longrightarrow> pg_uuid c \<noteq> pg_uuid cu" for c
    using u rows revoke_rows_active
    by (fastforce simp: client_uuid_is_active_def list_ex_iff split: if_splits option.splits)
  have llm: "pg_uuid (li_client_uuid who) \<noteq> pg_uuid cu" if acc: "resolve_llm_identity cfg e True now hs (ad_relays db') = Inr who" for hs who
  proof (cases "strip (header_or hs ''x-relay-client'' ''x-client-id'') = []")
    case False
    then obtain a where a: "relay_auth_from_request cfg True now hs (Some ''llm'') False (ad_relays db') = Inr a" using acc
      by (auto simp: resolve_llm_identity_def Let_def bind_result_eq_Inr)
    with acc False obtain meta where "a = Inr meta" "li_client_uuid who = rm_client_uuid meta"
      by (cases a) (auto simp: resolve_llm_identity_def Let_def)
    with a relay show ?thesis by simp
  next
    case True
    then show ?thesis using acc idle by (auto simp: resolve_llm_identity_def Let_def bind_result_eq_Inr split: if_splits)
  qed
  have others: "client_uuid_is_active True now c (ad_relays db') = client_uuid_is_active True now c (ad_relays db)"
    if "pg_uuid c \<noteq> pg_uuid cu" for c
  proof -
    have swap: "(\<exists>row \<in> set (revoke_rows (aq_now rq) u rows'). rr_client_uuid row = v \<and> active row \<and> P row) =
        (\<exists>row \<in> set rows'. rr_client_uuid row = v \<and> active row \<and> P row)" if "v \<noteq> u" for v P rows'
      using revoke_rows_active [of _ "aq_now rq" u rows'] revoke_rows_others [of _ rows' u "aq_now rq"] that by blast
    show ?thesis
    proof (cases "pg_uuid c")
      case (Some v)
      then have "v \<noteq> u" using that u by simp
      then show ?thesis using Some rows by (simp add: client_uuid_is_active_def list_ex_iff swap)
    qed (simp add: client_uuid_is_active_def)
  qed
  from relay llm others show ?thesis by blast
qed

definition demo_relay_db :: admin_db where
  "demo_relay_db = demo_admin_db\<lparr>ad_relays := \<lparr>relay_clients = [\<lparr>rr_created_at = 0, rr_client_uuid = uuid_str 1, rr_email = ''m'', rr_client_id = ''rc'',
     rr_key_hash = ''h'', rr_allowed_targets = [''llm''], rr_expires_at = None, rr_revoked_at = None, rr_comments = []\<rparr>], relay_memory = []\<rparr>\<rparr>"

theorem revocation_effective_witness:
  "client_uuid_is_active True 0 (uuid_str 1) (ad_relays demo_relay_db) = Inr True \<and>
   (\<nexists>cfg e hs who. resolve_llm_identity cfg e True 0 hs
      (ad_relays (snd (device_revoke_relay demo_admin_env (demo_request\<lparr>aq_actor := dev_session 0\<rparr>) (uuid_str 1) demo_relay_db))) = Inr who \<and>
        pg_uuid (li_client_uuid who) = Some (uuid_str 1))"
proof -
  let ?out = "device_revoke_relay demo_admin_env (demo_request\<lparr>aq_actor := dev_session 0\<rparr>) (uuid_str 1) demo_relay_db"
  have "strip [] = []" by code_simp
  then have "succeeded (fst ?out)"
    by (simp add: device_revoke_relay_def demo_relay_db_def admin_eval py_str_def)
  moreover have "\<forall>row \<in> set (relay_clients (ad_relays demo_relay_db)). pg_uuid (rr_client_uuid row) = Some (rr_client_uuid row)"
    by (simp add: demo_relay_db_def)
  ultimately have "pg_uuid (li_client_uuid who) \<noteq> Some (uuid_str 1)" if "resolve_llm_identity cfg e True 0 hs (ad_relays (snd ?out)) = Inr who" for cfg e hs who
    using that revocation_effective [of demo_admin_env "demo_request\<lparr>aq_actor := dev_session 0\<rparr>" "uuid_str 1" demo_relay_db "fst ?out" "snd ?out"] by simp
  moreover have "uuid_str 1 \<noteq> []"
  proof
    assume "uuid_str 1 = []"
    with pg_uuid_str [of 1] have "pg_uuid [] \<noteq> None" by simp
    moreover have "pg_uuid [] = None" by code_simp
    ultimately show False by simp
  qed
  then have "client_uuid_is_active True 0 (uuid_str 1) (ad_relays demo_relay_db) = Inr True" by (simp add: client_uuid_is_active_def demo_relay_db_def active_def)
  ultimately show ?thesis by blast
qed

section \<open>What the routes do not do\<close>

lemma isdigit_str_of_int: "0 \<le> i \<Longrightarrow> isdigit (str_of_int i)"
  using nat_digits_digits [of "nat i"] by (auto simp: isdigit_def str_of_int_def list_all_iff)

text \<open>The entry of a deleted flag still names its plugin: it is written before the row goes.\<close>

lemma flag_delete_attributed:
  assumes "flag_delete en rq fid db = (r, db')" "succeeded r" "0 \<le> fid"
    and "find (\<lambda>f. ff_id f = fid) (feature_flags (ct_flags (ad_cat db))) = Some f" "ff_plugin_slug f \<noteq> []"
  shows "\<exists>row. ad_audit db' = ad_audit db @ [row] \<and> au_plugin_slug row = Some (ff_plugin_slug f)"
proof (cases "ae_connect en")
  case None
  let ?e = "entry ''flag.delete'' ''flag'' (str_of_int fid) []"
  obtain d where a: "audit_log en (aq_now rq) (aq_actor rq) (aq_ip rq) ?e db = Inr d" and db': "ad_audit db' = ad_audit d"
    using assms(1,2) None
    by (auto simp: flag_delete_def transaction_def audit_then_def succeeded_def bad_request_def put_flags_def bind_result_eq_Inr split: sum.splits)
  have "derive_audit_plugin (ent_type ?e) (ent_id ?e) (ent_payload ?e) db = Inr (Some (ff_plugin_slug f))"
    using assms(4,5) isdigit_str_of_int [OF assms(3)]
    by (auto simp: entry_def derive_audit_plugin_def or_else_def flag_slug_of_def jget_def jget_or_def dget_def py_str_def isdigit_def str_or_def)
  with audit_log_Inr [OF a] db' show ?thesis by auto
qed (use assms in \<open>auto simp: flag_delete_def transaction_def succeeded_def\<close>)

text \<open>The access page: none of its three fields is one \<open>update_plugin\<close> accepts, so the catalogue stays as it is,
  while the log says the access was updated.\<close>

lemma access_update_stores_nothing:
  "ad_cat (snd (catalog_access_update en rq pid maturity mode grp db)) = ad_cat db"
proof -
  let ?fs = "[(''maturity'', JStr maturity), (''access_mode'', JStr mode), (''required_group'', if grp = [] then JNull else JStr grp)]"
  have "update_plugin (aq_now rq) pid ?fs (ad_cat db) = Inr (False, ad_cat db)"
    by (simp add: update_plugin_def UPDATE_FIELDS_def INFO_FIELDS_def)
  then show ?thesis
    by (auto simp: catalog_access_update_def update_and_audit_def transaction_def then_audit_def bind_result_eq_Inr split: option.splits sum.splits dest!: audit_log_Inr)
qed

text \<open>No communication can be created with the schema as it is.\<close>

lemma communication_create_fails: "\<exists>e. run_call en rq (CommCreate f) db = (Inl e, db)"
proof -
  have "\<exists>e. bind_result x (\<lambda>a. g a) = Inl e" if "\<And>a. \<exists>e. g a = Inl e" for x :: "'a result" and g :: "'a \<Rightarrow> 'b result"
    using that by (cases x) auto
  then show ?thesis
    by (cases "ae_connect en") (auto simp: communication_create_def transaction_def then_audit_def create_communication_refused bad_request_def bind_result_def split: sum.splits)
qed

text \<open>Cleaning up one plugin deletes the additional binaries of every other: an artifact that is only linked as
  a variant of a version counts as an orphan.\<close>

lemma purge_drops_variants:
  assumes "l \<in> set (ct_links db)" "Some (li_artifact_id l) \<notin> set (artifact_refs (drop_old_versions pid db))"
  shows "l \<notin> set (ct_links (drop_orphan_artifacts (drop_old_versions pid db)))"
    "li_artifact_id l \<notin> ar_id ` set (ct_artifacts (drop_orphan_artifacts (drop_old_versions pid db)))"
  using assms by (auto simp: drop_orphan_artifacts_def)

definition demo_variants :: cat_db where
  "demo_variants = empty_cat\<lparr>ct_plugins := [demo_cat_plugin ''active''],
     ct_versions := [\<lparr>ve_id = 1, ve_plugin_id = 1, ve_artifact_id = Some 2, ve_version = ''1.0'', ve_release_notes = [], ve_download_url = None,
       ve_min_host_version = None, ve_max_host_version = None, ve_status = ''published'', ve_distribution_mode = ''managed'', ve_published_at = Some 0, ve_created_at = 0\<rparr>],
     ct_links := [\<lparr>li_version_id = 1, li_artifact_id = 1, li_variant = ''gecko''\<rparr>, \<lparr>li_version_id = 1, li_artifact_id = 2, li_variant = ''chromium''\<rparr>]\<rparr>"

lemma purge_of_another_plugin:
  "map li_variant (ct_links (drop_orphan_artifacts (drop_old_versions 99 demo_variants))) = [''chromium'']"
  by (simp add: drop_orphan_artifacts_def drop_old_versions_def old_version_def artifact_refs_def demo_variants_def empty_cat_def)

section \<open>The slug of a copy\<close>

text \<open>One attempt more than there are plugins is enough, whatever their slugs: the loop of
  \<open>catalog_plugin_duplicate\<close> ends.\<close>

definition tried :: "nat \<Rightarrow> string \<Rightarrow> nat \<Rightarrow> string \<Rightarrow> string list" where
  "tried k base n slug = take k (slug # map (\<lambda>i. base @ ''-'' @ str_of_nat i) [n + 1..<n + k])"

lemma tried_Suc: "tried (Suc (Suc k)) base n slug = slug # tried (Suc k) base (n + 1) (base @ ''-'' @ str_of_nat (n + 1))"
  by (simp add: tried_def upt_conv_Cons del: upt_Suc)

lemma copy_slug_None: "copy_slug k base n slug db = None \<Longrightarrow> set (tried k base n slug) \<subseteq> cp_slug ` set (ct_plugins db)"
proof (induction k arbitrary: n slug)
  case (Suc k)
  then have used: "slug \<in> cp_slug ` set (ct_plugins db)"
    by (auto simp: get_plugin_by_slug_def find_None_iff image_iff split: if_splits)
  show ?case
  proof (cases k)
    case 0
    then show ?thesis using used by (simp add: tried_def)
  next
    case (Suc k')
    have "copy_slug k base (n + 1) (base @ ''-'' @ str_of_nat (n + 1)) db = None" using Suc.prems by (auto split: if_splits)
    from Suc.IH [OF this] used Suc show ?thesis by (simp add: tried_Suc del: copy_slug.simps)
  qed
qed (simp add: tried_def)

lemma str_of_nat_inj: "str_of_nat i = str_of_nat j \<Longrightarrow> i = j"
  unfolding str_of_nat_def by (metis read_nat_digits)

lemma tried_distinct: "distinct (tried (Suc k) base n base)" "length (tried (Suc k) base n base) = Suc k"
proof -
  have "distinct (map (\<lambda>i. base @ ''-'' @ str_of_nat i) [n + 1..<n + Suc k])"
    unfolding distinct_map by (intro conjI distinct_upt inj_onI str_of_nat_inj) (simp del: upt_Suc)
  moreover have "base \<notin> set (map (\<lambda>i. base @ ''-'' @ str_of_nat i) [n + 1..<n + Suc k])" by (simp add: image_iff del: upt_Suc)
  ultimately have "distinct (base # map (\<lambda>i. base @ ''-'' @ str_of_nat i) [n + 1..<n + Suc k])" by simp
  then show "distinct (tried (Suc k) base n base)" unfolding tried_def by (rule distinct_take)
  show "length (tried (Suc k) base n base) = Suc k" by (simp add: tried_def del: upt_Suc)
qed

lemma copy_slug_found: "\<exists>slug. copy_slug (Suc (length (ct_plugins db))) base n base db = Some slug"
proof (rule ccontr)
  assume "\<not> ?thesis"
  then have "set (tried (Suc (length (ct_plugins db))) base n base) \<subseteq> cp_slug ` set (ct_plugins db)"
    using copy_slug_None by (cases "copy_slug (Suc (length (ct_plugins db))) base n base db") blast+
  then have "card (set (tried (Suc (length (ct_plugins db))) base n base)) \<le> length (ct_plugins db)"
    by (meson List.finite_set card_image_le card_length card_mono finite_imageI le_trans)
  then show False using distinct_card [OF tried_distinct(1) [of "length (ct_plugins db)" base n]] by (simp add: tried_distinct(2))
qed

lemma copy_slug_free: "copy_slug k base n slug db = Some s \<Longrightarrow> get_plugin_by_slug db s = None"
  by (induction k arbitrary: n slug) (auto split: if_splits)

end
