(* ===== verification/AdminInv.thy ===== *)
theory AdminInv
  imports Admin
begin

text \<open>
  Referential integrity of the administration tables: every route of \<open>app/admin/router.py\<close> modelled in
  \<open>Admin\<close>, the two clean-up routes included, leaves the tables well formed. The statements of the
  routes rely on the foreign keys of \<open>db/schema.sql\<close>; the invariant says that the cascades and the guards
  modelled with them are enough.
\<close>

section \<open>References\<close>

definition refers :: "('a \<Rightarrow> 'b option) \<Rightarrow> 'a list \<Rightarrow> 'b set \<Rightarrow> bool" where
  "refers f xs keys = (\<forall>x \<in> set xs. case f x of Some k \<Rightarrow> k \<in> keys | None \<Rightarrow> True)"

named_theorems ref_rules

lemma refers_mono: "refers f xs A \<Longrightarrow> A \<subseteq> B \<Longrightarrow> refers f xs B"
  by (fastforce simp: refers_def split: option.splits)

lemma refers_Nil [ref_rules]: "refers f [] A"
  by (simp add: refers_def)

lemma refers_filter [ref_rules]: "refers f xs A \<Longrightarrow> refers f (filter p xs) A"
  by (simp add: refers_def)

lemma refers_map [ref_rules]: "(\<And>x. f (g x) = f x) \<Longrightarrow> refers f xs A \<Longrightarrow> refers f (map g xs) A"
  by (simp add: refers_def)

lemma refers_snoc [ref_rules]: "refers f xs A \<Longrightarrow> (case f x of Some k \<Rightarrow> k \<in> A | None \<Rightarrow> True) \<Longrightarrow> refers f (xs @ [x]) A"
  by (auto simp: refers_def)

text \<open>Rows that go when the key they refer to goes.\<close>

lemma refers_cascade: "refers f xs A \<Longrightarrow> (\<And>x k. x \<in> set xs \<Longrightarrow> p x \<Longrightarrow> f x = Some k \<Longrightarrow> k \<in> A \<Longrightarrow> k \<in> B) \<Longrightarrow> refers f (filter p xs) B"
  by (fastforce simp: refers_def split: option.splits)

lemma refers_kept: "refers (\<lambda>x. Some (f x)) (filter (\<lambda>x. f x \<in> S) xs) S"
  by (simp add: refers_def)

definition cat_refs :: "cat_db \<Rightarrow> bool" where
  "cat_refs db =
     (refers ca_plugin_id (ct_campaigns db) (cp_id ` set (ct_plugins db)) \<and>
      refers ca_target_cohort_id (ct_campaigns db) (set (ct_cohorts db)) \<and>
      refers ca_artifact_id (ct_campaigns db) (ar_id ` set (ct_artifacts db)) \<and>
      refers ca_rollback_artifact_id (ct_campaigns db) (ar_id ` set (ct_artifacts db)) \<and>
      refers (\<lambda>s. Some (ds_campaign_id s)) (ct_device_status db) (ca_id ` set (ct_campaigns db)) \<and>
      refers (\<lambda>v. Some (fo_feature_id v)) (flag_overrides (ct_flags db)) (ff_id ` set (feature_flags (ct_flags db))) \<and>
      refers (\<lambda>v. Some (fo_cohort_id v)) (flag_overrides (ct_flags db)) (set (ct_cohorts db)))"

definition side_refs :: "int set \<Rightarrow> int set \<Rightarrow> admin_db \<Rightarrow> bool" where
  "side_refs plugins cohort_keys db =
     (refers (\<lambda>m. Some (cm_cohort_id m)) (cohort_members (ad_cohorts db)) cohort_keys \<and>
      refers (\<lambda>r. Some (ev_plugin_id r)) (ad_env db) plugins \<and>
      refers (\<lambda>r. Some (aa_plugin_id r)) (ad_aliases db) plugins \<and> distinct (map aa_alias (ad_aliases db)) \<and>
      refers (\<lambda>w. Some (wl_plugin_id w)) (ad_waitlist db) plugins \<and>
      refers (\<lambda>l. Some (kl_plugin_id l)) (kc_links (ad_kc db)) plugins \<and>
      refers (\<lambda>l. Some (kl_client l)) (kc_links (ad_kc db)) (kc_id ` set (keycloak_clients (ad_kc db))) \<and>
      refers mm_plugin_id (communications (ad_comms db)) plugins \<and>
      refers mm_cohort_id (communications (ad_comms db)) cohort_keys)"

definition admin_wf :: "admin_db \<Rightarrow> bool" where
  "admin_wf db =
     (cat_wf (ad_cat db) \<and> cat_refs (ad_cat db) \<and> ct_cohorts (ad_cat db) = map co_id (cohorts (ad_cohorts db)) \<and>
      distinct (map co_id (cohorts (ad_cohorts db))) \<and>
      side_refs (cp_id ` set (ct_plugins (ad_cat db))) (set (ct_cohorts (ad_cat db))) db)"

text \<open>The sequences draw keys that are not in use.\<close>

definition fresh_ids :: "admin_request \<Rightarrow> admin_db \<Rightarrow> bool" where
  "fresh_ids rq db = (aq_id rq \<notin> cp_id ` set (ct_plugins (ad_cat db)) \<and> aq_id rq \<notin> ve_id ` set (ct_versions (ad_cat db)) \<and>
     aq_id rq \<notin> co_id ` set (cohorts (ad_cohorts db)))"

lemma admin_wfD:
  assumes "admin_wf db"
  shows "cat_wf (ad_cat db)" "cat_refs (ad_cat db)" "ct_cohorts (ad_cat db) = map co_id (cohorts (ad_cohorts db))"
    "distinct (map co_id (cohorts (ad_cohorts db)))" "side_refs (cp_id ` set (ct_plugins (ad_cat db))) (set (ct_cohorts (ad_cat db))) db"
  using assms unfolding admin_wf_def by blast+

lemma cat_refsD:
  assumes "cat_refs db"
  shows "refers ca_plugin_id (ct_campaigns db) (cp_id ` set (ct_plugins db))" "refers ca_target_cohort_id (ct_campaigns db) (set (ct_cohorts db))"
    "refers ca_artifact_id (ct_campaigns db) (ar_id ` set (ct_artifacts db))" "refers ca_rollback_artifact_id (ct_campaigns db) (ar_id ` set (ct_artifacts db))"
    "refers (\<lambda>s. Some (ds_campaign_id s)) (ct_device_status db) (ca_id ` set (ct_campaigns db))"
    "refers (\<lambda>v. Some (fo_feature_id v)) (flag_overrides (ct_flags db)) (ff_id ` set (feature_flags (ct_flags db)))"
    "refers (\<lambda>v. Some (fo_cohort_id v)) (flag_overrides (ct_flags db)) (set (ct_cohorts db))"
  using assms by (simp_all add: cat_refs_def)

lemma side_refs_mono: "side_refs P C db \<Longrightarrow> P \<subseteq> P' \<Longrightarrow> C \<subseteq> C' \<Longrightarrow> side_refs P' C' db"
  by (auto simp: side_refs_def intro: refers_mono)

lemma side_refs_cat [simp]: "side_refs P C (db\<lparr>ad_cat := cat\<rparr>) = side_refs P C db"
  by (simp add: side_refs_def)

text \<open>The log is not referred to.\<close>

lemma admin_wf_audit [simp]: "admin_wf (db\<lparr>ad_audit := rows\<rparr>) = admin_wf db"
  by (simp add: admin_wf_def side_refs_def)

lemma fresh_audit [simp]: "fresh_ids rq (db\<lparr>ad_audit := rows\<rparr>) = fresh_ids rq db"
  by (simp add: fresh_ids_def)

lemma wf_transaction:
  assumes "admin_wf db" "\<And>resp d. work db = Inr (resp, d) \<Longrightarrow> admin_wf d"
  shows "admin_wf (snd (transaction en on_error work db))"
  using assms by (auto simp: transaction_def split: option.splits sum.splits)

lemma wf_then_audit:
  assumes "admin_wf db" "\<And>e resp d. work db = Inr (e, resp, d) \<Longrightarrow> admin_wf d"
  shows "admin_wf (snd (transaction en on_error (\<lambda>db. then_audit en rq (work db)) db))"
proof (rule wf_transaction [OF assms(1)])
  fix resp d assume "then_audit en rq (work db) = Inr (resp, d)"
  then obtain e d0 where w: "work db = Inr (e, resp, d0)" and a: "audit_log en (aq_now rq) (aq_actor rq) (aq_ip rq) e d0 = Inr d"
    by (auto simp: then_audit_def bind_result_eq_Inr)
  from audit_log_Inr [OF a] assms(2) [OF w] show "admin_wf d" by auto
qed

lemma wf_audit_then:
  assumes "admin_wf db" "\<And>d resp d'. admin_wf d \<Longrightarrow> work d = Inr (resp, d') \<Longrightarrow> admin_wf d'"
  shows "admin_wf (snd (transaction en on_error (audit_then en rq e work) db))"
proof (rule wf_transaction [OF assms(1)])
  fix resp d assume "audit_then en rq e work db = Inr (resp, d)"
  then obtain d0 where a: "audit_log en (aq_now rq) (aq_actor rq) (aq_ip rq) e db = Inr d0" and w: "work d0 = Inr (resp, d)"
    by (auto simp: audit_then_def bind_result_eq_Inr)
  from audit_log_Inr [OF a] assms(1) have "admin_wf d0" by auto
  from assms(2) [OF this w] show "admin_wf d" .
qed

text \<open>A step on the catalogue alone that keeps the plugins and the cohorts.\<close>

lemma wf_put_cat:
  assumes "admin_wf db" "cat_wf cat" "cat_refs cat" "ct_cohorts cat = ct_cohorts (ad_cat db)"
    "cp_id ` set (ct_plugins (ad_cat db)) \<subseteq> cp_id ` set (ct_plugins cat)"
  shows "admin_wf (db\<lparr>ad_cat := cat\<rparr>)"
  using assms admin_wfD [OF assms(1)] side_refs_mono [of "cp_id ` set (ct_plugins (ad_cat db))" "set (ct_cohorts cat)" db "cp_id ` set (ct_plugins cat)"]
  by (simp add: admin_wf_def)

section \<open>The services\<close>

text \<open>Parts of the catalogue that \<open>cat_wf\<close> does not read.\<close>

lemma cat_wf_other:
  "cat_wf (db\<lparr>ct_campaigns := cs\<rparr>) = cat_wf db" "cat_wf (db\<lparr>ct_flags := fl\<rparr>) = cat_wf db" "cat_wf (db\<lparr>ct_cohorts := co\<rparr>) = cat_wf db"
  "cat_wf (db\<lparr>ct_device_status := ds\<rparr>) = cat_wf db"
  by (simp_all add: cat_wf_def versions_ok_def artifacts_ok_def links_ok_def version_ok_def [abs_def])

lemma update_plugin_only: "update_plugin now i fs db = Inr (b, db') \<Longrightarrow> \<exists>ps. db' = db\<lparr>ct_plugins := ps\<rparr> \<and> map cp_id ps = map cp_id (ct_plugins db)"
proof -
  assume u: "update_plugin now i fs db = Inr (b, db')"
  let ?ps = "map (\<lambda>p. if cp_id p = i then set_fields now fs p else p) (ct_plugins db)"
  have "map cp_id ?ps = map cp_id (ct_plugins db)" by (induction "ct_plugins db") auto
  moreover have "db' = db \<or> db' = db\<lparr>ct_plugins := ?ps\<rparr>"
    using u by (auto simp: update_plugin_def bind_result_eq_Inr split: if_splits dest: check_plugins_ok)
  ultimately show ?thesis by (metis cat_db.surjective cat_db.update_convs(1))
qed

lemma ids_image: "map f xs = map f ys \<Longrightarrow> f ` set xs = f ` set ys"
  by (metis image_set)

lemma refs_update_plugin: "cat_refs db \<Longrightarrow> update_plugin now i fs db = Inr (b, db') \<Longrightarrow> cat_refs db' \<and> ct_cohorts db' = ct_cohorts db \<and> cp_id ` set (ct_plugins db') = cp_id ` set (ct_plugins db)"
  by (auto simp: cat_refs_def dest!: update_plugin_only ids_image)

lemma refs_create_plugin:
  assumes "cat_refs db" "create_plugin now pid slug name dt vis info tmpl db = Inr (i, db')"
  shows "cat_refs db' \<and> ct_cohorts db' = ct_cohorts db \<and> cp_id ` set (ct_plugins db) \<subseteq> cp_id ` set (ct_plugins db')"
proof -
  obtain row where db': "db' = db\<lparr>ct_plugins := release_slug now slug (ct_plugins db) @ [row]\<rparr>"
    using assms(2) by (auto simp: create_plugin_def Let_def bind_result_eq_Inr dest!: check_plugins_ok)
  have "cp_id ` set (ct_plugins db) \<subseteq> cp_id ` set (ct_plugins db')"
    using ids_image [OF release_slug_ids [of now slug "ct_plugins db"]] db' by auto
  with assms(1) db' show ?thesis by (auto simp: cat_refs_def intro: refers_mono)
qed

lemma version_steps_only:
  "create_version now row db = Inr (i, db') \<Longrightarrow> \<exists>vs. db' = db\<lparr>ct_versions := vs\<rparr>"
  "update_version_status now j st db = Inr (b, db') \<Longrightarrow> \<exists>vs. db' = db\<lparr>ct_versions := vs\<rparr>"
proof -
  show "create_version now row db = Inr (i, db') \<Longrightarrow> \<exists>vs. db' = db\<lparr>ct_versions := vs\<rparr>"
    by (auto simp: create_version_def upsert_version_def Let_def split: if_splits option.splits)
  show "update_version_status now j st db = Inr (b, db') \<Longrightarrow> \<exists>vs. db' = db\<lparr>ct_versions := vs\<rparr>"
    by (auto simp: update_version_status_def intro: exI [of _ "ct_versions db"] split: if_splits)
qed

lemma refs_versions [simp]: "cat_refs (db\<lparr>ct_versions := vs\<rparr>) = cat_refs db"
  by (simp add: cat_refs_def)

lemma refs_toggle: "cat_refs db \<Longrightarrow> cat_refs (snd (toggle_artifact i b db))"
proof -
  have "ar_id ` set (map (\<lambda>a. if ar_id a = i then a\<lparr>ar_is_active := b\<rparr> else a) (ct_artifacts db)) = ar_id ` set (ct_artifacts db)"
    by (rule ids_image) (simp add: if_distrib cong: if_cong)
  then show "cat_refs db \<Longrightarrow> cat_refs (snd (toggle_artifact i b db))" by (simp add: cat_refs_def toggle_artifact_def)
qed

text \<open>Campaigns: rows keep their keys and references, and a new row passed the foreign keys.\<close>

definition same_refs :: "(campaign_row \<Rightarrow> campaign_row) \<Rightarrow> bool" where
  "same_refs g = (\<forall>c. ca_id (g c) = ca_id c \<and> ca_plugin_id (g c) = ca_plugin_id c \<and> ca_target_cohort_id (g c) = ca_target_cohort_id c \<and>
     ca_artifact_id (g c) = ca_artifact_id c \<and> ca_rollback_artifact_id (g c) = ca_rollback_artifact_id c)"

lemma refs_map_campaigns:
  assumes "cat_refs db" "same_refs g"
  shows "cat_refs (db\<lparr>ct_campaigns := map g (ct_campaigns db)\<rparr>)"
proof -
  have "ca_id ` set (map g (ct_campaigns db)) = ca_id ` set (ct_campaigns db)"
    using assms(2) by (simp add: image_image same_refs_def)
  with assms show ?thesis by (auto simp: cat_refs_def same_refs_def intro: refers_map)
qed

lemma refs_new_campaign:
  assumes "cat_refs db" "args_ok (campaign_db_of db) a"
  shows "cat_refs (db\<lparr>ct_campaigns := ct_campaigns db @ [new_row now cid a]\<rparr>)"
proof -
  let ?c = "new_row now cid a"
  have f: "ca_plugin_id ?c = ca_plugin_id a" "ca_target_cohort_id ?c = ca_target_cohort_id a" "ca_artifact_id ?c = ca_artifact_id a"
    "ca_rollback_artifact_id ?c = ca_rollback_artifact_id a"
    by (simp_all add: new_row_def campaign_args.extend_def)
  have ids: "fk_ok (ca_plugin_id a) (map cp_id (ct_plugins db))" "fk_ok (ca_target_cohort_id a) (ct_cohorts db)"
    "fk_ok (ca_artifact_id a) (map ar_id (ct_artifacts db))" "fk_ok (ca_rollback_artifact_id a) (map ar_id (ct_artifacts db))"
    using assms(2) by (simp_all add: args_ok_def campaign_db_of_def comp_def artifact_row.truncate_def)
  have "refers (\<lambda>s. Some (ds_campaign_id s)) (ct_device_status db) (ca_id ` set (ct_campaigns db @ [?c]))"
    using cat_refsD(5) [OF assms(1)] by (rule refers_mono) auto
  with ids cat_refsD [OF assms(1)] show ?thesis
    unfolding cat_refs_def by (auto simp: f fk_ok_def image_iff intro!: refers_snoc split: option.splits)
qed

lemma campaign_db_of_campaigns: "campaign_db_of (db\<lparr>ct_campaigns := cs\<rparr>) = (campaign_db_of db)\<lparr>campaigns := cs\<rparr>"
  by (simp add: campaign_db_of_def)

lemma refs_create_campaign:
  assumes "cat_refs db" "create_campaign now cid a (campaign_db_of db) = Inr (i, cdb)"
  shows "cat_refs (db\<lparr>ct_campaigns := campaigns cdb\<rparr>)"
proof -
  define g where "g = (\<lambda>c. if ca_status a = Some ''active'' \<and> superseded (ca_type a) (ca_plugin_id a) c then c\<lparr>ca_status := Some ''completed'', ca_updated_at := now\<rparr> else c)"
  define a' where "a' = (if truthy (ca_rollout_config a) then a else a\<lparr>ca_rollout_config := JNull\<rparr>)"
  define db1 where "db1 = db\<lparr>ct_campaigns := map g (ct_campaigns db)\<rparr>"
  have "same_refs g" by (simp add: same_refs_def g_def)
  then have refs: "cat_refs db1" unfolding db1_def by (rule refs_map_campaigns [OF assms(1)])
  have eng: "(if ca_status a = Some ''active'' then complete_older now (ca_type a) (ca_plugin_id a) (campaign_db_of db) else campaign_db_of db) = campaign_db_of db1"
    by (simp add: db1_def campaign_db_of_campaigns g_def complete_older_def campaign_db_of_def)
  from assms(2) have ok: "args_ok (campaign_db_of db1) a'" and "campaigns cdb = ct_campaigns db1 @ [new_row now cid a']"
    unfolding create_campaign_def eng a'_def [symmetric] by (auto simp: insert_campaign_def campaign_db_of_def split: if_splits)
  with refs_new_campaign [OF refs ok, of now cid] show ?thesis by (simp add: db1_def)
qed

lemma refs_campaign_status:
  assumes "cat_refs db" "update_campaign_status now cid st (campaign_db_of db) = Inr (b, cdb)"
  shows "cat_refs (db\<lparr>ct_campaigns := campaigns cdb\<rparr>)"
proof -
  let ?g = "\<lambda>c. if ca_id c = cid then c\<lparr>ca_status := Some st, ca_updated_at := now\<rparr> else c"
  have "campaigns cdb = ct_campaigns db \<or> campaigns cdb = map ?g (ct_campaigns db)"
    using assms(2) by (auto simp: update_campaign_status_def campaign_db_of_def split: if_splits)
  moreover have "cat_refs (db\<lparr>ct_campaigns := map ?g (ct_campaigns db)\<rparr>)"
    by (rule refs_map_campaigns [OF assms(1)]) (simp add: same_refs_def)
  ultimately show ?thesis using assms(1) by (auto simp: cat_refs_def)
qed

lemma wf_put_campaigns: "admin_wf db \<Longrightarrow> cat_refs ((ad_cat db)\<lparr>ct_campaigns := campaigns cdb\<rparr>) \<Longrightarrow> admin_wf (put_campaigns cdb db)"
  unfolding put_campaigns_def by (rule wf_put_cat) (simp_all add: cat_wf_other admin_wfD)

text \<open>Flags.\<close>

definition flag_refs :: "int set \<Rightarrow> flag_db \<Rightarrow> bool" where
  "flag_refs cids fdb = (refers (\<lambda>v. Some (fo_feature_id v)) (flag_overrides fdb) (ff_id ` set (feature_flags fdb)) \<and>
     refers (\<lambda>v. Some (fo_cohort_id v)) (flag_overrides fdb) cids)"

lemma wf_put_flags: "admin_wf db \<Longrightarrow> flag_refs (set (ct_cohorts (ad_cat db))) fdb \<Longrightarrow> admin_wf (put_flags fdb db)"
proof -
  assume wf: "admin_wf db" and f: "flag_refs (set (ct_cohorts (ad_cat db))) fdb"
  have "cat_refs ((ad_cat db)\<lparr>ct_flags := fdb\<rparr>)" using cat_refsD [OF admin_wfD(2) [OF wf]] f by (simp add: cat_refs_def flag_refs_def)
  then show ?thesis unfolding put_flags_def by (intro wf_put_cat [OF wf]) (simp_all add: cat_wf_other admin_wfD(1) [OF wf])
qed

lemma flag_refs_of: "admin_wf db \<Longrightarrow> flag_refs (set (ct_cohorts (ad_cat db))) (ct_flags (ad_cat db))"
  using cat_refsD(6,7) [OF admin_wfD(2)] by (simp add: flag_refs_def)

lemma flag_refs_create: "flag_refs C fdb \<Longrightarrow> create_flag now fid n d v sl m fdb = Inr (i, fdb') \<Longrightarrow> flag_refs C fdb'"
  by (auto simp: flag_refs_def create_flag_def intro: refers_mono split: if_splits)

lemma flag_refs_default: "flag_refs C fdb \<Longrightarrow> update_flag_default now fid v fdb = (b, fdb') \<Longrightarrow> flag_refs C fdb'"
proof -
  have "ff_id ` set (map (\<lambda>f. if ff_id f = fid then f\<lparr>ff_default_value := v, ff_updated_at := now\<rparr> else f) (feature_flags fdb)) = ff_id ` set (feature_flags fdb)"
    by (rule ids_image) (simp add: if_distrib cong: if_cong)
  then show "flag_refs C fdb \<Longrightarrow> update_flag_default now fid v fdb = (b, fdb') \<Longrightarrow> flag_refs C fdb'"
    by (auto simp: flag_refs_def update_flag_default_def)
qed

lemma flag_refs_override:
  assumes "flag_refs (co_id ` set (cohorts cdb)) fdb" "create_override now cdb fid cid v m fdb = Inr fdb'"
  shows "flag_refs (co_id ` set (cohorts cdb)) fdb'"
  using assms by (auto simp: flag_refs_def create_override_def list_ex_iff intro!: refers_map refers_snoc split: if_splits)

lemma flag_refs_delete: "flag_refs C fdb \<Longrightarrow> flag_refs C (snd (delete_override fid cid fdb))" "flag_refs C fdb \<Longrightarrow> flag_refs C (snd (delete_flag fid fdb))"
  by (auto simp: flag_refs_def delete_override_def delete_flag_def intro: refers_filter refers_cascade)

text \<open>Cohorts.\<close>

lemma add_members_only:
  "add_members now cid ms cdb = Inr (n, cdb') \<Longrightarrow> cohorts cdb' = cohorts cdb \<and>
     (refers (\<lambda>m. Some (cm_cohort_id m)) (cohort_members cdb) (co_id ` set (cohorts cdb)) \<longrightarrow>
      refers (\<lambda>m. Some (cm_cohort_id m)) (cohort_members cdb') (co_id ` set (cohorts cdb')))"
proof (induction now cid ms cdb arbitrary: n rule: add_members.induct)
  case (2 now cid ty v ms cdb)
  show ?case
  proof (cases "list_ex (\<lambda>m. cm_cohort_id m = cid \<and> cm_type m = ty \<and> cm_value m = strip v) (cohort_members cdb)")
    case True
    with 2 show ?thesis by (auto split: if_splits)
  next
    case False
    let ?cdb = "cdb\<lparr>cohort_members := cohort_members cdb @ [\<lparr>cm_cohort_id = cid, cm_type = ty, cm_value = strip v, cm_added_at = now\<rparr>]\<rparr>"
    from 2(3) False obtain k where g: "list_ex (\<lambda>c. co_id c = cid) (cohorts cdb)" "ty \<in> {''email'', ''client_uuid''}" "add_members now cid ms ?cdb = Inr (k, cdb')"
      by (auto simp: bind_result_eq_Inr split: if_splits)
    have "refers (\<lambda>m. Some (cm_cohort_id m)) (cohort_members cdb) (co_id ` set (cohorts cdb)) \<Longrightarrow>
        refers (\<lambda>m. Some (cm_cohort_id m)) (cohort_members ?cdb) (co_id ` set (cohorts cdb))"
      using g(1) by (auto simp: list_ex_iff intro!: refers_snoc)
    with 2(2) [OF _ _ g(3)] g(1,2) False show ?thesis by auto
  qed
qed simp

lemma wf_put_cohorts:
  assumes "admin_wf db" "set (ct_cohorts (ad_cat db)) \<subseteq> co_id ` set (cohorts cdb)" "distinct (map co_id (cohorts cdb))"
    "refers (\<lambda>m. Some (cm_cohort_id m)) (cohort_members cdb) (co_id ` set (cohorts cdb))"
  shows "admin_wf (put_cohorts cdb db)"
proof -
  note w = admin_wfD [OF assms(1)]
  have "side_refs (cp_id ` set (ct_plugins (ad_cat db))) (co_id ` set (cohorts cdb)) db"
    by (rule side_refs_mono [OF w(5)]) (use assms(2) in auto)
  then have "side_refs (cp_id ` set (ct_plugins (ad_cat db))) (co_id ` set (cohorts cdb)) (put_cohorts cdb db)"
    using assms(4) by (simp add: side_refs_def put_cohorts_def)
  moreover have "cat_refs ((ad_cat db)\<lparr>ct_cohorts := map co_id (cohorts cdb)\<rparr>)"
    using cat_refsD [OF w(2)] assms(2) by (auto simp: cat_refs_def intro: refers_mono)
  ultimately show ?thesis using w(1) assms(3) by (simp add: admin_wf_def put_cohorts_def cat_wf_other)
qed

lemma member_refs: "admin_wf db \<Longrightarrow> refers (\<lambda>m. Some (cm_cohort_id m)) (cohort_members (ad_cohorts db)) (co_id ` set (cohorts (ad_cohorts db)))"
  using admin_wfD(3,5) [of db] by (auto simp: side_refs_def)

lemma wf_new_members:
  assumes "admin_wf db" "add_members now cid ms (ad_cohorts db) = Inr (n, cdb)"
  shows "admin_wf (put_cohorts cdb db)"
  using add_members_only [OF assms(2)] member_refs [OF assms(1)] admin_wfD(3,4) [OF assms(1)] by (intro wf_put_cohorts [OF assms(1)]) auto

lemma wf_new_cohort:
  assumes "admin_wf db" "create_cohort i name d ty cfg (ad_cohorts db) = Inr (cid, cdb)" "i \<notin> co_id ` set (cohorts (ad_cohorts db))"
    "cdb' = cdb \<or> (\<exists>n. add_members now cid ms cdb = Inr (n, cdb'))"
  shows "admin_wf (put_cohorts cdb' db)"
proof -
  obtain row where cdb: "cdb = (ad_cohorts db)\<lparr>cohorts := cohorts (ad_cohorts db) @ [row]\<rparr>" "co_id row = i"
    using assms(2) by (auto simp: create_cohort_def split: if_splits)
  have "refers (\<lambda>m. Some (cm_cohort_id m)) (cohort_members cdb) (co_id ` set (cohorts cdb))"
    using member_refs [OF assms(1)] cdb(1) by (auto intro: refers_mono)
  then have m: "refers (\<lambda>m. Some (cm_cohort_id m)) (cohort_members cdb') (co_id ` set (cohorts cdb')) \<and> cohorts cdb' = cohorts cdb"
    using assms(4) add_members_only by blast
  show ?thesis by (rule wf_put_cohorts [OF assms(1)]) (use m cdb assms(3) admin_wfD(3,4) [OF assms(1)] in auto)
qed

lemma wf_delete_cohort:
  assumes wf: "admin_wf db" and del: "delete_cohort (cohort_referenced cid db) cid (ad_cohorts db) (ct_flags (ad_cat db)) = Inr (b, cdb, fdb)"
  shows "admin_wf (put_flags fdb (put_cohorts cdb db))"
proof (cases "list_ex (\<lambda>c. co_id c = cid) (cohorts (ad_cohorts db))")
  case False
  then have "cdb = ad_cohorts db" "fdb = ct_flags (ad_cat db)" using del by (auto simp: delete_cohort_def)
  moreover have "put_cohorts (ad_cohorts db) db = db" using admin_wfD(3) [OF wf] by (simp add: put_cohorts_def)
  ultimately show ?thesis using wf by (simp add: put_flags_def)
next
  case True
  note w = admin_wfD [OF wf] and r = cat_refsD [OF admin_wfD(2) [OF wf]]
  let ?keep = "\<lambda>k. k \<noteq> cid"
  have nref: "\<not> cohort_referenced cid db" and cdb: "cohorts cdb = filter (\<lambda>c. ?keep (co_id c)) (cohorts (ad_cohorts db))"
      "cohort_members cdb = filter (\<lambda>m. ?keep (cm_cohort_id m)) (cohort_members (ad_cohorts db))"
      "fdb = (ct_flags (ad_cat db))\<lparr>flag_overrides := filter (\<lambda>ov. ?keep (fo_cohort_id ov)) (flag_overrides (ct_flags (ad_cat db)))\<rparr>"
    using True del by (auto simp: delete_cohort_def split: if_splits)
  have ids: "co_id ` set (cohorts cdb) = co_id ` set (cohorts (ad_cohorts db)) - {cid}" using cdb(1) by auto
  have keeps: "refers f xs (co_id ` set (cohorts (ad_cohorts db))) \<Longrightarrow> Some cid \<notin> f ` set xs \<Longrightarrow> refers f xs (co_id ` set (cohorts cdb))"
    for f :: "'x \<Rightarrow> int option" and xs
    unfolding ids by (auto simp: refers_def image_iff split: option.splits) 
  have coh: "set (ct_cohorts (ad_cat db)) = co_id ` set (cohorts (ad_cohorts db))" using w(3) by simp
  have cat: "cat_refs ((ad_cat db)\<lparr>ct_cohorts := map co_id (cohorts cdb), ct_flags := fdb\<rparr>)"
  proof -
    have "refers ca_target_cohort_id (ct_campaigns (ad_cat db)) (co_id ` set (cohorts cdb))"
      by (rule keeps) (use r(2) coh nref in \<open>auto simp: cohort_referenced_def list_ex_iff\<close>)
    moreover have "refers (\<lambda>v. Some (fo_cohort_id v)) (flag_overrides fdb) (co_id ` set (cohorts cdb))"
      unfolding cdb(3) ids using r(7) coh by (auto intro!: refers_cascade [where A = "co_id ` set (cohorts (ad_cohorts db))"])
    ultimately show ?thesis using r cdb(3) by (auto simp: cat_refs_def intro: refers_filter)
  qed
  have "side_refs (cp_id ` set (ct_plugins (ad_cat db))) (co_id ` set (cohorts cdb)) (db\<lparr>ad_cohorts := cdb\<rparr>)"
  proof -
    have "refers mm_cohort_id (communications (ad_comms db)) (co_id ` set (cohorts cdb))"
      by (rule keeps) (use w(5) coh nref in \<open>auto simp: cohort_referenced_def list_ex_iff side_refs_def\<close>)
    moreover have "refers (\<lambda>m. Some (cm_cohort_id m)) (cohort_members cdb) (co_id ` set (cohorts cdb))"
      unfolding cdb(2) ids using member_refs [OF wf] by (auto intro!: refers_cascade [where A = "co_id ` set (cohorts (ad_cohorts db))"])
    ultimately show ?thesis using w(5) by (simp add: side_refs_def)
  qed
  moreover have "distinct (map co_id (cohorts cdb))" using w(4) unfolding cdb(1) by (rule distinct_map_filter)
  ultimately show ?thesis using w(1) cat by (simp add: admin_wf_def put_flags_def put_cohorts_def cat_wf_other side_refs_def)
qed

section \<open>Clean-up\<close>

text \<open>Device states go with their campaign: those left refer to a campaign that is left.\<close>

lemma status_cascade:
  assumes "refers (\<lambda>s. Some (ds_campaign_id s)) ss (ca_id ` set cs)"
  shows "refers (\<lambda>s. Some (ds_campaign_id s)) (filter (\<lambda>s. ds_campaign_id s \<notin> ca_id ` set (filter p cs)) ss) (ca_id ` set (filter (\<lambda>c. \<not> p c) cs))"
  by (rule refers_cascade [OF assms]) auto

lemma kept_key: "k \<in> f ` set xs \<Longrightarrow> k \<notin> f ` set (filter p xs) \<Longrightarrow> k \<in> f ` set (filter (\<lambda>x. \<not> p x) xs)"
  by auto

lemma filter_swap: "filter p (filter q xs) = filter q (filter p xs)"
  by (simp add: conj_commute)

lemma refs_drop_campaigns: "cat_refs db \<Longrightarrow> cat_refs (drop_old_campaigns pid db)"
  using status_cascade [of "ct_device_status db" "ct_campaigns db" "old_campaign pid"]
  by (auto simp: cat_refs_def drop_old_campaigns_def intro: refers_filter)

lemma wf_drop_campaigns: "cat_wf db \<Longrightarrow> cat_wf (drop_old_campaigns pid db)"
  by (simp add: drop_old_campaigns_def cat_wf_def versions_ok_def artifacts_ok_def links_ok_def version_ok_def [abs_def])

lemma wf_drop_versions:
  assumes "cat_wf db"
  shows "cat_wf (drop_old_versions pid db)"
proof -
  let ?db = "drop_old_versions pid db"
  have v: "version_ok ?db = version_ok db" by (rule ext) (simp add: version_ok_def drop_old_versions_def)
  have "versions_ok ?db" using assms unfolding versions_ok_def v
    by (auto simp: drop_old_versions_def cat_wf_def versions_ok_def list_all_iff intro: distinct_map_filter)
  moreover have "links_ok ?db" using assms kept_key [of _ ve_id "ct_versions db" "old_version pid"]
    by (simp add: drop_old_versions_def cat_wf_def links_ok_def list_all_iff distinct_map_filter)
  ultimately show ?thesis using assms by (simp add: cat_wf_def drop_old_versions_def artifacts_ok_def)
qed

lemma kept_artifact: "Some a \<in> set (artifact_refs db) \<Longrightarrow> a \<in> ar_id ` set (ct_artifacts db) \<Longrightarrow> a \<in> ar_id ` set (ct_artifacts (drop_orphan_artifacts db))"
  by (auto simp: drop_orphan_artifacts_def)

lemma refs_drop_orphans:
  assumes "cat_refs db"
  shows "cat_refs (drop_orphan_artifacts db)"
proof -
  let ?A = "ar_id ` set (ct_artifacts (drop_orphan_artifacts db))"
  have "refers ca_artifact_id (ct_campaigns db) ?A" "refers ca_rollback_artifact_id (ct_campaigns db) ?A"
    using cat_refsD(3,4) [OF assms] kept_artifact [of _ db]
    by (auto simp: refers_def artifact_refs_def image_iff split: option.splits) (metis+)
  with cat_refsD [OF assms] show ?thesis by (simp add: cat_refs_def drop_orphan_artifacts_def)
qed

lemma wf_drop_orphans:
  assumes "cat_wf db"
  shows "cat_wf (drop_orphan_artifacts db)"
proof -
  let ?db = "drop_orphan_artifacts db"
  have "version_ok ?db v" if "v \<in> set (ct_versions db)" "version_ok db v" for v
  proof -
    have "ve_artifact_id v = Some a \<Longrightarrow> a \<in> ar_id ` set (ct_artifacts ?db)" for a
      using that kept_artifact [of a db] by (force simp: version_ok_def fk_ok_def artifact_refs_def)
    then show ?thesis using that(2) by (auto simp: version_ok_def fk_ok_def drop_orphan_artifacts_def split: option.splits)
  qed
  then have "versions_ok ?db" using assms by (auto simp: cat_wf_def versions_ok_def list_all_iff drop_orphan_artifacts_def)
  moreover have "artifacts_ok ?db" using assms
    by (simp add: cat_wf_def artifacts_ok_def drop_orphan_artifacts_def distinct_map_filter filter_swap [of _ "\<lambda>a. Some (ar_id a) \<in> set (artifact_refs db)"] del: filter_filter)
  moreover have "links_ok ?db" using assms
    by (auto simp: cat_wf_def links_ok_def list_all_iff drop_orphan_artifacts_def intro: distinct_map_filter)
  ultimately show ?thesis using assms by (simp add: cat_wf_def drop_orphan_artifacts_def)
qed

lemma refs_drop_versions [simp]: "cat_refs (drop_old_versions pid db) = cat_refs db"
  by (simp add: cat_refs_def drop_old_versions_def)

lemma wf_purge_routes:
  assumes "admin_wf db"
  shows "admin_wf (db\<lparr>ad_cat := drop_orphan_artifacts (drop_old_versions pid (ad_cat db))\<rparr>)"
    "admin_wf (db\<lparr>ad_cat := drop_orphan_artifacts (drop_old_campaigns pid (ad_cat db))\<rparr>)"
proof -
  note w = admin_wfD(1,2) [OF assms]
  show "admin_wf (db\<lparr>ad_cat := drop_orphan_artifacts (drop_old_versions pid (ad_cat db))\<rparr>)"
    by (rule wf_put_cat [OF assms wf_drop_orphans [OF wf_drop_versions [OF w(1)]] refs_drop_orphans [OF iffD2 [OF refs_drop_versions w(2)]]])
       (use w in \<open>auto simp: drop_orphan_artifacts_def drop_old_versions_def\<close>)
  show "admin_wf (db\<lparr>ad_cat := drop_orphan_artifacts (drop_old_campaigns pid (ad_cat db))\<rparr>)"
    by (rule wf_put_cat [OF assms wf_drop_orphans [OF wf_drop_campaigns [OF w(1)]] refs_drop_orphans [OF refs_drop_campaigns [OF w(2)]]])
       (auto simp: drop_orphan_artifacts_def drop_old_campaigns_def)
qed

lemma wf_purge_removed:
  assumes wf: "admin_wf db" and cat: "purge_removed (ad_cat db) = (n, cat)"
    and free: "\<not> comm_blocks (map cp_id (filter (\<lambda>p. cp_status p = ''removed'') (ct_plugins (ad_cat db)))) db"
  shows "admin_wf (keep_plugin_rows (map cp_id (ct_plugins cat)) (db\<lparr>ad_cat := cat\<rparr>))"
proof -
  note w = admin_wfD [OF wf] and r = cat_refsD [OF admin_wfD(2) [OF wf]]
  define ids where "ids = map cp_id (filter (\<lambda>p. cp_status p = ''removed'') (ct_plugins (ad_cat db)))"
  define gone where "gone = (\<lambda>c :: campaign_row. case ca_plugin_id c of Some i \<Rightarrow> i \<in> set ids | None \<Rightarrow> False)"
  have c: "ct_plugins cat = filter (\<lambda>p. cp_id p \<notin> set ids) (ct_plugins (ad_cat db))" "ct_artifacts cat = ct_artifacts (ad_cat db)"
    "ct_campaigns cat = filter (\<lambda>c. ca_id c \<notin> ca_id ` set (filter gone (ct_campaigns (ad_cat db)))) (ct_campaigns (ad_cat db))"
    "ct_device_status cat = filter (\<lambda>s. ds_campaign_id s \<notin> ca_id ` set (filter gone (ct_campaigns (ad_cat db)))) (ct_device_status (ad_cat db))"
    "ct_cohorts cat = ct_cohorts (ad_cat db)" "ct_flags cat = ct_flags (ad_cat db)"
    using cat unfolding purge_removed_def Let_def ids_def [symmetric] gone_def [symmetric] by (auto simp del: set_filter)
  have P: "cp_id ` set (ct_plugins cat) = cp_id ` set (ct_plugins (ad_cat db)) - set ids" using c(1) by auto
  have "refers ca_plugin_id (ct_campaigns cat) (cp_id ` set (ct_plugins cat))"
    unfolding c(3) P by (rule refers_cascade [OF r(1)]) (auto simp: gone_def)
  moreover have "refers (\<lambda>s. Some (ds_campaign_id s)) (ct_device_status cat) (ca_id ` set (ct_campaigns cat))"
    unfolding c(3,4) by (rule refers_cascade [OF r(5)]) auto
  ultimately have refs: "cat_refs cat" using r c by (auto simp: cat_refs_def intro: refers_filter)
  have "refers mm_plugin_id (communications (ad_comms db)) (cp_id ` set (ct_plugins cat))"
    using w(5) free unfolding P by (fastforce simp: side_refs_def refers_def comm_blocks_def list_ex_iff ids_def split: option.splits)
  then have "side_refs (cp_id ` set (ct_plugins cat)) (set (ct_cohorts cat)) (keep_plugin_rows (map cp_id (ct_plugins cat)) (db\<lparr>ad_cat := cat\<rparr>))"
    using w(5) unfolding c(5)
    by (simp add: side_refs_def keep_plugin_rows_def refers_kept refers_filter distinct_map_filter)
  then show ?thesis using refs w wf_purge [OF w(1) cat] c(5) by (simp add: admin_wf_def keep_plugin_rows_def)
qed

section \<open>The other tables\<close>

lemma wf_side:
  assumes "admin_wf db" "ad_cat db' = ad_cat db" "ad_cohorts db' = ad_cohorts db"
    "side_refs (cp_id ` set (ct_plugins (ad_cat db))) (set (ct_cohorts (ad_cat db))) db'"
  shows "admin_wf db'"
  using assms by (simp add: admin_wf_def)

lemma wf_relays: "admin_wf db \<Longrightarrow> admin_wf (db\<lparr>ad_relays := rs\<rparr>)"
  by (rule wf_side) (use admin_wfD(5) [of db] in \<open>auto simp: side_refs_def\<close>)

lemma wf_env:
  assumes "admin_wf db" "upsert_env now eid (plugin_ids db) pid environment k v secret (ad_env db) = Inr rows"
  shows "admin_wf (db\<lparr>ad_env := rows\<rparr>)"
proof -
  have "refers (\<lambda>r. Some (ev_plugin_id r)) rows (cp_id ` set (ct_plugins (ad_cat db)))"
    using admin_wfD(5) [OF assms(1)] assms(2)
    by (auto simp: side_refs_def upsert_env_def plugin_ids_def intro!: refers_map refers_snoc split: if_splits)
  then show ?thesis using admin_wfD(5) [OF assms(1)] by (intro wf_side [OF assms(1)]) (simp_all add: side_refs_def)
qed

lemma wf_env_filter: "admin_wf db \<Longrightarrow> admin_wf (db\<lparr>ad_env := filter p (ad_env db)\<rparr>)"
  by (rule wf_side) (use admin_wfD(5) [of db] in \<open>auto simp: side_refs_def intro: refers_filter\<close>)

lemma wf_alias_filter: "admin_wf db \<Longrightarrow> admin_wf (db\<lparr>ad_aliases := filter p (ad_aliases db)\<rparr>)"
  by (rule wf_side) (use admin_wfD(5) [of db] in \<open>auto simp: side_refs_def intro: refers_filter distinct_map_filter\<close>)

lemma wf_alias_add:
  assumes "admin_wf db" "\<not> list_ex (\<lambda>r. aa_alias r = a) (ad_aliases db)" "pid \<in> set (plugin_ids db)"
  shows "admin_wf (db\<lparr>ad_aliases := ad_aliases db @ [\<lparr>aa_alias = a, aa_plugin_id = pid\<rparr>]\<rparr>)"
  by (rule wf_side [OF assms(1)])
     (use admin_wfD(5) [OF assms(1)] assms(2,3) in \<open>auto simp: side_refs_def list_ex_iff plugin_ids_def intro!: refers_snoc\<close>)

lemma wf_review: "admin_wf db \<Longrightarrow> review en rq pid wid verdict db = Inr db' \<Longrightarrow> admin_wf db'"
proof -
  assume wf: "admin_wf db" and "review en rq pid wid verdict db = Inr db'"
  then obtain who where db': "db' = db\<lparr>ad_waitlist := map (\<lambda>w. if wl_id w = wid \<and> wl_plugin_id w = pid
      then w\<lparr>wl_status := verdict, wl_reviewed_by := who, wl_reviewed_at := Some (aq_now rq)\<rparr> else w) (ad_waitlist db)\<rparr>"
    by (auto simp: review_def bind_result_eq_Inr split: if_splits)
  show ?thesis unfolding db'
    by (rule wf_side [OF wf]) (use admin_wfD(5) [OF wf] in \<open>auto simp: side_refs_def intro!: refers_map\<close>)
qed

lemma wf_create_client: "admin_wf db \<Longrightarrow> create_client i c r d t u ws pk g (ad_kc db) = Inr (j, kc) \<Longrightarrow> admin_wf (db\<lparr>ad_kc := kc\<rparr>)"
  by (rule wf_side) (use admin_wfD(5) [of db] in \<open>auto simp: side_refs_def create_client_def intro: refers_mono split: if_splits\<close>)

lemma wf_link_client: "admin_wf db \<Longrightarrow> link_plugin_client (plugin_ids db) pid kid e (ad_kc db) = Inr kc \<Longrightarrow> admin_wf (db\<lparr>ad_kc := kc\<rparr>)"
  by (rule wf_side) (use admin_wfD(5) [of db] in \<open>auto simp: side_refs_def link_plugin_client_def plugin_ids_def intro!: refers_snoc split: if_splits\<close>)

lemma wf_comm_status: "admin_wf db \<Longrightarrow> update_communication_status now i st (ad_comms db) = Inr (b, comms) \<Longrightarrow> admin_wf (db\<lparr>ad_comms := comms\<rparr>)"
  by (rule wf_side) (use admin_wfD(5) [of db] in \<open>auto simp: side_refs_def update_communication_status_def intro!: refers_map split: if_splits\<close>)

section \<open>The routes\<close>

lemma wf_cat_steps:
  assumes "admin_wf db"
  shows "update_plugin now i fs (ad_cat db) = Inr (b, cat) \<Longrightarrow> admin_wf (db\<lparr>ad_cat := cat\<rparr>)"
    "create_plugin now pid slug name dt vis info tmpl (ad_cat db) = Inr (k, cat) \<Longrightarrow> pid \<notin> cp_id ` set (ct_plugins (ad_cat db)) \<Longrightarrow> admin_wf (db\<lparr>ad_cat := cat\<rparr>)"
    "create_version now row (ad_cat db) = Inr (k, cat) \<Longrightarrow> ve_id row \<notin> ve_id ` set (ct_versions (ad_cat db)) \<Longrightarrow> admin_wf (db\<lparr>ad_cat := cat\<rparr>)"
    "update_version_status now j st (ad_cat db) = Inr (b, cat) \<Longrightarrow> admin_wf (db\<lparr>ad_cat := cat\<rparr>)"
    "admin_wf (db\<lparr>ad_cat := snd (toggle_artifact j act (ad_cat db))\<rparr>)"
proof -
  note w = admin_wfD(1,2) [OF assms]
  show "admin_wf (db\<lparr>ad_cat := cat\<rparr>)" if u: "update_plugin now i fs (ad_cat db) = Inr (b, cat)"
    by (rule wf_put_cat [OF assms wf_update_plugin [OF w(1) u]]) (use refs_update_plugin [OF w(2) u] in auto)
  show "admin_wf (db\<lparr>ad_cat := cat\<rparr>)" if u: "create_plugin now pid slug name dt vis info tmpl (ad_cat db) = Inr (k, cat)" and f: "pid \<notin> cp_id ` set (ct_plugins (ad_cat db))"
  proof (rule wf_put_cat [OF assms])
    show "cat_wf cat" using wf_create_plugin [OF w(1) _ u] f by simp
  qed (use refs_create_plugin [OF w(2) u] in auto)
  show "admin_wf (db\<lparr>ad_cat := cat\<rparr>)" if u: "create_version now row (ad_cat db) = Inr (k, cat)" and f: "ve_id row \<notin> ve_id ` set (ct_versions (ad_cat db))"
  proof (rule wf_put_cat [OF assms])
    show "cat_wf cat" using wf_create_version [OF w(1) _ u] f by simp
  qed (use version_steps_only(1) [OF u] w(2) in auto)
  show "admin_wf (db\<lparr>ad_cat := cat\<rparr>)" if u: "update_version_status now j st (ad_cat db) = Inr (b, cat)"
    by (rule wf_put_cat [OF assms wf_version_status [OF w(1) u]]) (use version_steps_only(2) [OF u] w(2) in auto)
  show "admin_wf (db\<lparr>ad_cat := snd (toggle_artifact j act (ad_cat db))\<rparr>)"
    by (rule wf_put_cat [OF assms wf_toggle [OF w(1) prod.collapse [symmetric]] refs_toggle [OF w(2)]]) (auto simp: toggle_artifact_def)
qed

lemma wf_devices:
  assumes "admin_wf db" "fresh_ids rq db"
  shows "admin_wf (snd (device_revoke_relay en rq cu db))" "admin_wf (snd (cohorts_create en rq n t d m db))"
    "admin_wf (snd (cohort_add_members en rq c m db))" "admin_wf (snd (cohort_delete en rq c db))"
proof -
  show "admin_wf (snd (device_revoke_relay en rq cu db))"
    unfolding device_revoke_relay_def by (rule wf_then_audit [OF assms(1)]) (auto simp: Let_def split: option.splits intro: wf_relays assms(1))
  show "admin_wf (snd (cohort_add_members en rq c m db))"
    unfolding cohort_add_members_def by (rule wf_then_audit [OF assms(1)]) (auto simp: bind_result_eq_Inr intro: wf_new_members assms(1))
  show "admin_wf (snd (cohort_delete en rq c db))"
    unfolding cohort_delete_def by (rule wf_audit_then [OF assms(1)]) (auto simp: bind_result_eq_Inr intro: wf_delete_cohort)
  show "admin_wf (snd (cohorts_create en rq n t d m db))" unfolding cohorts_create_def
  proof (rule wf_then_audit [OF assms(1)], clarsimp simp: bind_result_eq_Inr)
    fix cid cdb k cdb'
    assume c: "create_cohort (aq_id rq) n d t JNull (ad_cohorts db) = Inr (cid, cdb)"
      and a: "(if t = ''manual'' \<and> strip m \<noteq> [] then add_members (aq_now rq) cid (member_lines m) cdb else Inr (0, cdb)) = Inr (k, cdb')"
    from a have "cdb' = cdb \<or> (\<exists>k. add_members (aq_now rq) cid (member_lines m) cdb = Inr (k, cdb'))" by (auto split: if_splits)
    from wf_new_cohort [OF assms(1) c _ this] assms(2) show "admin_wf (put_cohorts cdb' db)" by (simp add: fresh_ids_def)
  qed
qed

lemma wf_flags:
  assumes "admin_wf db"
  shows "admin_wf (snd (flags_create en rq n d v s m db))" "admin_wf (snd (flag_update_default en rq f v db))" "admin_wf (snd (flag_add_override en rq f c v m db))"
    "admin_wf (snd (flag_delete_override en rq f c db))" "admin_wf (snd (flag_delete en rq f db))"
proof -
  note r = flag_refs_of [OF assms]
  show "admin_wf (snd (flags_create en rq n d v s m db))" unfolding flags_create_def
    by (rule wf_then_audit [OF assms]) (auto simp: bind_result_eq_Inr intro!: wf_put_flags [OF assms] intro: flag_refs_create [OF r])
  show "admin_wf (snd (flag_update_default en rq f v db))" unfolding flag_update_default_def
    by (rule wf_then_audit [OF assms]) (auto intro!: wf_put_flags [OF assms] intro: flag_refs_default [OF r] split: prod.splits option.splits)
  show "admin_wf (snd (flag_add_override en rq f c v m db))" unfolding flag_add_override_def
  proof (rule wf_then_audit [OF assms], clarsimp simp: bind_result_eq_Inr)
    fix fdb assume "create_override (aq_now rq) (ad_cohorts db) f c (v = ''true'') (form_text m) (ct_flags (ad_cat db)) = Inr fdb"
    from flag_refs_override [OF _ this] r show "admin_wf (put_flags fdb db)" using admin_wfD(3) [OF assms] by (intro wf_put_flags [OF assms]) simp
  qed
  show "admin_wf (snd (flag_delete_override en rq f c db))" unfolding flag_delete_override_def
    by (rule wf_then_audit [OF assms]) (auto intro!: wf_put_flags [OF assms] flag_refs_delete r)
  show "admin_wf (snd (flag_delete en rq f db))" unfolding flag_delete_def
    by (rule wf_audit_then [OF assms]) (auto intro!: wf_put_flags flag_refs_delete flag_refs_of)
qed

lemma wf_campaigns:
  assumes "admin_wf db"
  shows "admin_wf (snd (campaign_create en rq form db))" "admin_wf (snd (admin_campaign_action en rq c st act pre db))" "admin_wf (snd (catalog_deploy_action en rq p c st act db))"
  unfolding campaign_create_def admin_campaign_action_def catalog_deploy_action_def
  by (rule wf_then_audit [OF assms]; auto simp: bind_result_eq_Inr intro!: wf_put_campaigns [OF assms]
        intro: refs_create_campaign [OF admin_wfD(2) [OF assms]] refs_campaign_status [OF admin_wfD(2) [OF assms]])+

lemma wf_catalog:
  assumes "admin_wf db"
  shows "admin_wf (snd (catalog_purge_removed en rq db))" "admin_wf (snd (update_and_audit en rq p fs act pl tab db))" "admin_wf (snd (artifact_toggle en rq a v db))"
    "admin_wf (snd (catalog_version_status en rq p k st db))" "admin_wf (snd (catalog_versions_purge en rq p db))" "admin_wf (snd (catalog_deployments_purge en rq p db))"
  unfolding catalog_purge_removed_def update_and_audit_def artifact_toggle_def catalog_version_status_def catalog_versions_purge_def catalog_deployments_purge_def
  by (rule wf_then_audit [OF assms]; auto simp: bind_result_eq_Inr Let_def simp del: set_map set_filter split: prod.splits if_splits
        intro: wf_purge_removed [OF assms] wf_cat_steps [OF assms] wf_purge_routes [OF assms])+

lemma wf_creations:
  assumes "admin_wf db" "fresh_ids rq db"
  shows "admin_wf (snd (catalog_plugin_duplicate en rq p db))" "admin_wf (snd (catalog_version_create en rq p f db))"
proof -
  show "admin_wf (snd (catalog_plugin_duplicate en rq p db))" unfolding catalog_plugin_duplicate_def
    by (rule wf_then_audit [OF assms(1)])
       (use assms(2) in \<open>auto simp: bind_result_eq_Inr fresh_ids_def split: option.splits intro: wf_cat_steps(2) [OF assms(1)]\<close>)
  have "admin_wf (snd (transaction en (bad_request en) (\<lambda>db. then_audit en rq (
        bind_result (form_int (vf_artifact_id f)) (\<lambda>art. bind_result (create_version (aq_now rq) (form_version rq p f art) (ad_cat db)) (\<lambda>(vid, cat).
          Inr (entry ''version.create'' ''plugin_version'' (str_of_int vid) [(''plugin_id'', JInt p), (''version'', JStr (vf_version f)), (''status'', JStr (vf_status f))],
               plugin_page p ''versions'', db\<lparr>ad_cat := cat\<rparr>))))) db))"
    by (rule wf_then_audit [OF assms(1)])
       (use assms(2) in \<open>auto simp: bind_result_eq_Inr fresh_ids_def form_version_def intro: wf_cat_steps(3) [OF assms(1)]\<close>)
  then show "admin_wf (snd (catalog_version_create en rq p f db))" using assms(1) by (simp add: catalog_version_create_def)
qed

lemma wf_registry:
  assumes "admin_wf db"
  shows "admin_wf (snd (catalog_env_upsert en rq p e k v s db))" "admin_wf (snd (catalog_env_delete en rq p i db))"
    "admin_wf (snd (api_keycloak_create_client en rq c r d t u pk db))" "admin_wf (snd (catalog_keycloak_link en rq p ki e db))"
    "admin_wf (snd (catalog_alias_delete en rq p a db))" "admin_wf (snd (communication_status en rq i st db))" "admin_wf (snd (catalog_waitlist_approve en rq p w db))"
  unfolding catalog_env_upsert_def catalog_env_delete_def api_keycloak_create_client_def catalog_keycloak_link_def catalog_alias_delete_def
    communication_status_def catalog_waitlist_approve_def
  by (rule wf_then_audit [OF assms]; auto simp: bind_result_eq_Inr
        intro: wf_env [OF assms] wf_env_filter [OF assms] wf_create_client [OF assms] wf_link_client [OF assms] wf_alias_filter [OF assms] wf_comm_status [OF assms] wf_review [OF assms])+

lemma wf_alias_waitlist:
  assumes "admin_wf db"
  shows "admin_wf (snd (catalog_alias_add en rq p a db))" "admin_wf (snd (catalog_waitlist_reject en rq p w db))"
proof -
  show "admin_wf (snd (catalog_alias_add en rq p a db))" unfolding catalog_alias_add_def Let_def
    by (rule wf_then_audit [OF assms]) (auto intro: wf_alias_add [OF assms] split: if_splits)
  show "admin_wf (snd (catalog_waitlist_reject en rq p w db))" unfolding catalog_waitlist_reject_def
    by (rule wf_transaction [OF assms]) (auto simp: bind_result_eq_Inr intro: wf_review [OF assms])
qed

text \<open>Referential integrity: whatever route an administrator calls, with whatever form fields, the tables
  stay well formed. Keys are unique, the checked columns hold listed values, no plugin, version, campaign, override,
  member, alias, environment value or link is left pointing to a row that is gone, and the campaigns' view of the cohorts
  agrees with the table, also after the clean-up routes.\<close>

lemma admin_routes_keep_integrity:
  assumes "admin_wf db" "fresh_ids rq db"
  shows "admin_wf (snd (run_call en rq call db))"
proof (cases call)
  case (CommCreate f)
  with communication_create_fails [of en rq f db] assms(1) show ?thesis by auto
qed (use wf_devices [OF assms] wf_flags [OF assms(1)] wf_campaigns [OF assms(1)] wf_catalog [OF assms(1)] wf_creations [OF assms] wf_registry [OF assms(1)]
      wf_alias_waitlist [OF assms(1)]
    in \<open>simp_all add: campaign_route_def catalog_deploy_route_def catalog_plugin_edit_def catalog_plugin_status_def catalog_access_update_def\<close>)

lemma admin_routes_keep_integrity_witness:
  "admin_wf (snd (run_call demo_admin_env demo_request (AliasAdd 1 ''a'') demo_admin_db)) \<and>
   admin_wf (snd (run_call demo_admin_env demo_request (VersionsPurge 1) demo_admin_db))"
proof -
  have c: "cat_wf (ad_cat demo_admin_db)"
    by (simp add: demo_admin_db_def demo_cat_plugin_def empty_cat_def cat_wf_def plugin_ok_def varchar_ok_def visibilities_def plugin_statuses_def
        slugs_unique_def versions_ok_def artifacts_ok_def links_ok_def)
  then have "admin_wf demo_admin_db"
    by (simp add: admin_wf_def cat_refs_def side_refs_def refers_Nil demo_admin_db_def empty_cat_def)
  moreover have "fresh_ids demo_request demo_admin_db"
    by (simp add: fresh_ids_def demo_request_def demo_admin_db_def demo_cat_plugin_def empty_cat_def)
  ultimately show ?thesis using admin_routes_keep_integrity [of demo_admin_db demo_request demo_admin_env] by blast
qed

end
