(* ===== verification/AdminLogin.thy ===== *)
theory AdminLogin
  imports Admin Suggest
begin

text \<open>
  Login and logout of administrators: \<open>oidc_callback\<close> and \<open>logout\<close> of \<open>app/admin/router.py\<close>. The
  identity provider is outside the repository: the discovery document, the exchange of the code and
  the verification of the ID token by PyJWT are the fields of \<open>login_io\<close>. Nothing is assumed of them;
  the theorem says what the answer of the callback implies about theirs.
\<close>

section \<open>The callback\<close>

text \<open>\<open>lo_exchange\<close> sends the form to the address and decodes the answer (\<^const>\<open>None\<close> for any exception);
  \<open>lo_jwt\<close> is \<open>PyJWKClient(uri).get_signing_key_from_jwt\<close> followed by \<open>jwt.decode\<close> with RS256, the audience
  and the issuer (not checked when that is absent or empty).\<close>

record login_io =
  lo_oidc :: "json dict"
  lo_url_ok :: "string \<Rightarrow> bool"
  lo_exchange :: "string \<Rightarrow> string \<Rightarrow> json option"
  lo_jwt :: "string \<Rightarrow> json \<Rightarrow> string \<Rightarrow> json \<Rightarrow> json dict option"
  lo_csrf :: string

record login_answer =
  la_location :: string
  la_set :: "string dict"
  la_delete :: "string list"

text \<open>The address the provider sends the browser back to: the origin of \<open>PUBLIC_BASE_URL\<close>, whatever path follows it.\<close>

definition admin_redirect_uri :: "(string \<Rightarrow> bool) \<Rightarrow> string \<Rightarrow> string result" where
  "admin_redirect_uri literal base =
     bind_result (urlsplit literal (strip base)) (\<lambda>parts.
       Inr (if u_scheme parts = [] \<or> u_netloc parts = [] then [] else u_scheme parts @ ''://'' @ u_netloc parts @ ''/admin/callback''))"

definition exchange_form :: "auth_cfg \<Rightarrow> string \<Rightarrow> string \<Rightarrow> string dict \<Rightarrow> string" where
  "exchange_form cfg secret code cookies = urlencode (
     [(''grant_type'', ''authorization_code''), (''code'', code), (''redirect_uri'', redirect_uri cfg), (''client_id'', client_id cfg)] @
     (if secret = [] then [] else [(''client_secret'', secret)]) @
     (let v = str_or (dget cookies ''dm_pkce_verifier'') [] in if v = [] then [] else [(''code_verifier'', v)]))"

definition login_session :: "timestamp \<Rightarrow> json dict \<Rightarrow> json \<Rightarrow> json dict" where
  "login_session now claims idt = [(''sub'', jget claims ''sub''), (''email'', jget claims ''email''),
     (''name'', case dget claims ''name'' of Some v \<Rightarrow> v | None \<Rightarrow> jget claims ''preferred_username''),
     (''id_token'', idt), (''exp'', JInt (int_time now + SESSION_TTL))]"

definition check_id_token :: "auth_cfg \<Rightarrow> login_io \<Rightarrow> json dict \<Rightarrow> json dict result" where
  "check_id_token cfg io toks =
     (let oidc = lo_oidc io; jwks = jget_or oidc ''_internal_jwks_uri'' (jget oidc ''jwks_uri'')
      in if \<not> truthy jwks then Inl (HTTPException 502 ''OIDC discovery missing jwks_uri'')
         else case lo_jwt io (py_str jwks) (jget_or toks ''id_token'' (JStr [])) (client_id cfg) (jget oidc ''issuer'') of
           None \<Rightarrow> Inl (HTTPException 401 ''ID token verification failed'')
         | Some claims \<Rightarrow> Inr claims)"

definition oidc_callback :: "auth_cfg \<Rightarrow> string \<Rightarrow> login_io \<Rightarrow> timestamp \<Rightarrow> string \<Rightarrow> string \<Rightarrow> string dict \<Rightarrow> login_answer result" where
  "oidc_callback cfg secret io now code st cookies =
     (if dget cookies ''dm_oidc_state'' \<noteq> Some st then Inl (HTTPException 400 ''Invalid state'')
      else if lo_oidc io = [] then Inl (HTTPException 503 ''OIDC provider not configured'')
      else
        let url = py_str (get_token_endpoint (lo_oidc io))
        in if \<not> lo_url_ok io url then Inl (ValueError (''unknown url type: '' @ url))
           else case lo_exchange io url (exchange_form cfg secret code cookies) of
             None \<Rightarrow> Inl (HTTPException 502 ''Token exchange failed'')
           | Some (JObj toks) \<Rightarrow>
               bind_result (check_id_token cfg io toks) (\<lambda>claims.
               bind_result (has_admin_group cfg claims) (\<lambda>member.
                 if \<not> member then Inl (HTTPException 403 ''Acces refuse'')
                 else case dget toks ''id_token'' of
                   None \<Rightarrow> Inl (KeyError ''id_token'')
                 | Some idt \<Rightarrow> Inr \<lparr>la_location = ''/admin/'',
                     la_set = [(''dm_admin_session'', sign_session cfg (JObj (login_session now claims idt))), (''dm_csrf_token'', lo_csrf io)],
                     la_delete = [''dm_oidc_state'', ''dm_pkce_verifier'']\<rparr>))
           | Some _ \<Rightarrow> Inl AttributeError)"

section \<open>Logout\<close>

definition logout_base :: "string \<Rightarrow> string" where
  "logout_base base_url =
     (let base = rstrip_char (CHR ''/'') base_url
      in if startswith base ''http://'' \<and> \<not> contains_sub ''localhost'' base then ''https://'' @ drop 7 base else base)"

definition token_hint :: "auth_cfg \<Rightarrow> timestamp \<Rightarrow> string dict \<Rightarrow> (string \<times> string) list" where
  "token_hint cfg now cookies =
     (let c = str_or (dget cookies ''dm_admin_session'') []
      in case (if c = [] then None else verify_session cfg now c) of
           None \<Rightarrow> []
         | Some s \<Rightarrow> if truthy (jget s ''id_token'') then [(''id_token_hint'', py_str (jget s ''id_token''))] else [])"

definition admin_logout :: "auth_cfg \<Rightarrow> json dict \<Rightarrow> timestamp \<Rightarrow> string \<Rightarrow> string dict \<Rightarrow> login_answer" where
  "admin_logout cfg oidc now base_url cookies =
     (let endpoint = jget_or oidc ''end_session_endpoint'' JNull
      in \<lparr>la_location =
            (if truthy endpoint then py_str endpoint @ ''?'' @ urlencode
               ([(''post_logout_redirect_uri'', logout_base base_url @ ''/admin/''), (''client_id'', client_id cfg)] @ token_hint cfg now cookies)
             else ''/admin/''),
          la_set = [], la_delete = [''dm_admin_session'']\<rparr>)"

section \<open>Lemmas\<close>

lemma callback_cases:
  assumes "oidc_callback cfg secret io now code st cookies = Inr ans"
  obtains toks claims idt where "dget cookies ''dm_oidc_state'' = Some st"
    "lo_exchange io (py_str (get_token_endpoint (lo_oidc io))) (exchange_form cfg secret code cookies) = Some (JObj toks)"
    "check_id_token cfg io toks = Inr claims" "has_admin_group cfg claims = Inr True" "dget toks ''id_token'' = Some idt"
    "ans = \<lparr>la_location = ''/admin/'', la_set = [(''dm_admin_session'', sign_session cfg (JObj (login_session now claims idt))), (''dm_csrf_token'', lo_csrf io)],
       la_delete = [''dm_oidc_state'', ''dm_pkce_verifier'']\<rparr>"
  using assms by (auto simp: oidc_callback_def Let_def bind_result_eq_Inr split: if_splits option.splits json.splits)

lemma check_id_token_Inr:
  "check_id_token cfg io toks = Inr claims \<Longrightarrow>
   lo_jwt io (py_str (jget_or (lo_oidc io) ''_internal_jwks_uri'' (jget (lo_oidc io) ''jwks_uri''))) (jget_or toks ''id_token'' (JStr []))
     (client_id cfg) (jget (lo_oidc io) ''issuer'') = Some claims"
  by (auto simp: check_id_token_def Let_def split: if_splits option.splits)

definition claims_ok :: "json dict \<Rightarrow> bool" where
  "claims_ok claims = list_all (\<lambda>k. json_ok (jget claims k)) [''sub'', ''email'', ''name'', ''preferred_username'']"

lemma login_session_roundtrip:
  assumes "claims_ok claims" "json_ok idt"
  shows "verify_session cfg t (sign_session cfg (JObj (login_session now claims idt))) =
    (if secs (int_time now + SESSION_TTL) < t then None else Some (login_session now claims idt))"
proof (rule verify_sign_session)
  have "json_ok JNull" by simp
  then show "json_ok (JObj (login_session now claims idt))"
    using assms by (auto simp: login_session_def claims_ok_def jget_def split: option.splits)
  show "dget (login_session now claims idt) ''exp'' = Some (JInt (int_time now + SESSION_TTL))"
    by (simp add: login_session_def dget_def)
qed

lemma b64_encode_Nil: "b64_encode b = [] \<Longrightarrow> b = []"
  by (cases b rule: b64_encode.cases) (simp_all add: Let_def)

lemma sign_session_not_Nil: "sign_session cfg d \<noteq> []"
  using b64_encode_Nil by (auto simp: sign_session_def Let_def utf8_encode_def utf8_char_def split: if_splits)

lemma live_cookie_session:
  assumes "dget (vi_cookies v) ''dm_admin_session'' = Some c" "c \<noteq> []" "verify_session cfg (aq_now (vi_request v)) c = Some sess" "sess \<noteq> []"
  shows "visit_session cfg oidc v = Some sess"
  using assms by (cases sess; cases "vi_draws v") (auto simp: visit_session_def require_admin_def Let_def)

lemma cookie_stands_for_claims:
  assumes ok: "claims_ok claims \<and> json_ok idt"
    and v: "dget (vi_cookies v) ''dm_admin_session'' = Some (sign_session cfg (JObj (login_session now claims idt)))" (is "_ = Some ?c")
  shows "if secs (int_time now + SESSION_TTL) < aq_now (vi_request v) then verify_session cfg (aq_now (vi_request v)) ?c = None
    else \<exists>sess. visit_session cfg oidc v = Some sess \<and> jget sess ''sub'' = jget claims ''sub'' \<and> jget sess ''email'' = jget claims ''email''"
proof (cases "secs (int_time now + SESSION_TTL) < aq_now (vi_request v)")
  case True
  then show ?thesis using ok by (simp add: login_session_roundtrip)
next
  case False
  have "visit_session cfg oidc v = Some (login_session now claims idt)"
  proof (rule live_cookie_session [OF v sign_session_not_Nil])
    show "verify_session cfg (aq_now (vi_request v)) ?c = Some (login_session now claims idt)"
      using False ok by (simp add: login_session_roundtrip)
    show "login_session now claims idt \<noteq> []" by (simp add: login_session_def)
  qed
  then show ?thesis using False by (simp add: login_session_def jget_def dget_def)
qed

text \<open>Property C35. Login: the callback issues a session cookie only to a browser that returns the state it was given, with an
  ID token the verification accepted for this client and this issuer, whose claims name the administrators' group. The
  cookie then stands for the subject and address of exactly those claims: until it expires, and no longer, calls made
  with it run (and are recorded) under them.\<close>

theorem admin_login_sound:
  assumes "oidc_callback cfg secret io now code st cookies = Inr ans"
  shows "dget cookies ''dm_oidc_state'' = Some st \<and>
    (\<exists>toks idt claims c.
      lo_exchange io (py_str (get_token_endpoint (lo_oidc io))) (exchange_form cfg secret code cookies) = Some (JObj toks) \<and>
      dget toks ''id_token'' = Some idt \<and>
      lo_jwt io (py_str (jget_or (lo_oidc io) ''_internal_jwks_uri'' (jget (lo_oidc io) ''jwks_uri'')))
        (jget_or toks ''id_token'' (JStr [])) (client_id cfg) (jget (lo_oidc io) ''issuer'') = Some claims \<and>
      has_admin_group cfg claims = Inr True \<and> dget (la_set ans) ''dm_admin_session'' = Some c \<and>
      (claims_ok claims \<and> json_ok idt \<longrightarrow>
        (\<forall>v. dget (vi_cookies v) ''dm_admin_session'' = Some c \<longrightarrow>
          (if secs (int_time now + SESSION_TTL) < aq_now (vi_request v) then verify_session cfg (aq_now (vi_request v)) c = None
           else \<exists>sess. visit_session cfg oidc v = Some sess \<and> jget sess ''sub'' = jget claims ''sub'' \<and> jget sess ''email'' = jget claims ''email''))))"
proof -
  from callback_cases [OF assms] obtain toks claims idt where c: "dget cookies ''dm_oidc_state'' = Some st" "check_id_token cfg io toks = Inr claims"
    "has_admin_group cfg claims = Inr True" "la_set ans = [(''dm_admin_session'', sign_session cfg (JObj (login_session now claims idt))), (''dm_csrf_token'', lo_csrf io)]"
    and e: "lo_exchange io (py_str (get_token_endpoint (lo_oidc io))) (exchange_form cfg secret code cookies) = Some (JObj toks)"
    and i: "dget toks ''id_token'' = Some idt"
    by (metis login_answer.select_convs(2))
  have set: "dget (la_set ans) ''dm_admin_session'' = Some (sign_session cfg (JObj (login_session now claims idt)))"
    unfolding c(4) by (simp add: dget_def)
  show ?thesis
    using c(1,3) e i set check_id_token_Inr [OF c(2)] cookie_stands_for_claims by blast
qed

definition demo_login_io :: login_io where
  "demo_login_io = \<lparr>lo_oidc = [(''token_endpoint'', JStr ''https://kc/token''), (''jwks_uri'', JStr ''https://kc/certs''), (''issuer'', JStr ''https://kc'')],
     lo_url_ok = (\<lambda>_. True), lo_exchange = (\<lambda>url form. Some (JObj [(''id_token'', JStr ''t'')])),
     lo_jwt = (\<lambda>uri tok aud iss. if tok = JStr ''t'' then Some [(''email'', JStr ''a@x''), (''groups'', JList [JStr ''admin-dm''])] else None), lo_csrf = ''c''\<rparr>"

theorem admin_login_sound_witness:
  "(\<exists>ans. oidc_callback demo_cfg [] demo_login_io 0 ''code'' ''s'' [(''dm_oidc_state'', ''s'')] = Inr ans \<and>
    (\<exists>c. dget (la_set ans) ''dm_admin_session'' = Some c)) \<and>
   oidc_callback demo_cfg [] demo_login_io 0 ''code'' ''s'' [] = Inl (HTTPException 400 ''Invalid state'')"
proof -
  have "\<exists>ans. oidc_callback demo_cfg [] demo_login_io 0 ''code'' ''s'' [(''dm_oidc_state'', ''s'')] = Inr ans"
    by (simp add: oidc_callback_def demo_login_io_def check_id_token_def has_admin_group_def dget_def jget_def jget_or_def Let_def demo_cfg_def
        load_auth_cfg_def getenv_def list_ex_iff)
  moreover have "oidc_callback demo_cfg [] demo_login_io 0 ''code'' ''s'' [] = Inl (HTTPException 400 ''Invalid state'')"
    by (simp add: oidc_callback_def dget_def)
  ultimately show ?thesis using admin_login_sound by blast
qed

definition visible_char :: "char \<Rightarrow> bool" where
  "visible_char c = ((of_char c :: nat) > 32 \<and> \<not> py_space c)"

lemma dropWhile_id: "(\<And>x. x \<in> set xs \<Longrightarrow> \<not> P x) \<Longrightarrow> dropWhile P xs = xs"
  by (cases xs) simp_all

lemma strip_visible_chars: "list_all visible_char s \<Longrightarrow> strip s = s"
  using dropWhile_id [of s py_space] dropWhile_id [of "rev s" py_space]
  by (simp add: strip_def lstrip_by_def rstrip_by_def visible_char_def list_all_iff)

text \<open>Of the configured address only the origin matters: a path prefix in it does not reach the callback.\<close>

lemma redirect_ignores_path:
  assumes h: "h \<noteq> []" "list_all (\<lambda>c. c \<notin> set ''/?#[]@:'' \<and> visible_char c) h" and p: "p = [] \<or> hd p = CHR ''/''" "list_all visible_char p"
  shows "admin_redirect_uri literal (''https://'' @ h @ p) = Inr (''https://'' @ h @ ''/admin/callback'')"
proof -
  define u where "u = ''https://'' @ h @ p"
  have v: "list_all visible_char u" using h(2) p(2) by (auto simp: u_def list_all_iff visible_char_def py_space_def)
  have clean: "strip u = u" "lstrip_by (\<lambda>c. (of_char c :: nat) \<le> 32) u = u" "filter (\<lambda>c. (of_char c :: nat) \<notin> {9, 10, 13}) u = u"
    using v by (auto simp: strip_visible_chars lstrip_by_def list_all_iff visible_char_def intro!: dropWhile_id filter_True)
  have split: "split_once (CHR '':'') u = Some (''https'', ''//'' @ h @ p)" by (simp add: u_def)
  have scheme: "ascii_alpha (hd ''https'')" "list_all url_scheme_char ''https''" "lower ''https'' = ''https''"
    by (simp_all add: ascii_alpha_def url_scheme_char_def lower_def lower_char_def)
  have netloc: "startswith (''//'' @ h @ p) ''//''" "takeWhile (\<lambda>c. c \<notin> {CHR ''/'', CHR ''?'', CHR ''#''}) (drop 2 (''//'' @ h @ p)) = h"
    using h(2) p(1) by (cases p; auto simp: startswith_def list_all_iff takeWhile_append2)+
  have "CHR ''['' \<notin> set h" "CHR '']'' \<notin> set h" using h(2) by (auto simp: list_all_iff)
  then have "urlsplit literal u = Inr \<lparr>u_scheme = ''https'', u_netloc = h\<rparr>"
    unfolding urlsplit_def clean split option.case prod.case Let_def using scheme netloc by (simp add: split_beta)
  then show ?thesis using h(1) unfolding u_def [symmetric] admin_redirect_uri_def clean by simp
qed

text \<open>Logging out removes the cookie from the browser; a copy of it stays valid until it expires.\<close>

lemma logout_is_local:
  assumes "claims_ok claims" "json_ok idt" "t \<le> secs (int_time now + SESSION_TTL)"
  shows "verify_session cfg t (sign_session cfg (JObj (login_session now claims idt))) \<noteq> None \<and>
    la_delete (admin_logout cfg oidc t base cookies) = [''dm_admin_session'']"
  using assms by (simp add: login_session_roundtrip admin_logout_def Let_def)

text \<open>The second half of the double-submit check: without the header the cookie alone is enough; the form field is never read.\<close>

lemma csrf_without_header: "verify_csrf cookies hs = Inr True" if "dget cookies ''dm_csrf_token'' = Some (x # xs)" "header hs ''X-CSRF-Token'' = None"
  using that by (simp add: verify_csrf_def Let_def str_or_def)

end
