(* ===== verification/AdminPackages.thy ===== *)
theory AdminPackages
  imports Admin Deploy
begin

text \<open>
  The routes of \<open>app/admin/router.py\<close> that receive a package or a picture through the browser: the
  upload of a version, the deployment wizard, the creation of a plugin, the upload of a bare artifact
  and of a logo, and the editor of the configuration template. A file is written in the middle of the
  request and stays when the transaction is rolled back. Forms are modelled with string fields; a JSON
  body is covered as far as its fields are strings.

  PostgreSQL refuses every statement after a failed one until the transaction ends. Where the code
  swallows the exception of a statement and goes on with \<open>audit_log\<close> on the same cursor, the outcome is
  therefore a failure, which the model gives at the statement itself; an exception that psycopg2 raises
  before it sends anything leaves the transaction alive.
\<close>

section \<open>Packages\<close>

definition env_placeholder :: "string \<Rightarrow> json" where
  "env_placeholder v = JStr (''${{'' @ v @ ''}}'')"

definition PLATFORM_DEFAULTS :: "json dict" where
  "PLATFORM_DEFAULTS = [(''llm_base_urls'', env_placeholder ''LLM_BASE_URL''), (''llm_default_models'', env_placeholder ''DEFAULT_MODEL_NAME''),
     (''llm_api_tokens'', env_placeholder ''LLM_API_TOKEN''), (''keycloakIssuerUrl'', env_placeholder ''KEYCLOAK_ISSUER_URL''),
     (''keycloakRealm'', env_placeholder ''KEYCLOAK_REALM''), (''keycloakClientId'', env_placeholder ''KEYCLOAK_CLIENT_ID''),
     (''keycloak_redirect_uri'', env_placeholder ''KEYCLOAK_REDIRECT_URI''), (''keycloak_allowed_redirect_uri'', env_placeholder ''KEYCLOAK_ALLOWED_REDIRECT_URI'')]"

definition LOCAL_PROFILES :: "string list" where
  "LOCAL_PROFILES = [''local'']"

definition blank_value :: "json \<Rightarrow> bool" where
  "blank_value j = (j = JNull \<or> j = JStr [])"

definition fill_section :: "json dict \<Rightarrow> json dict" where
  "fill_section sec = fold (\<lambda>(k, ph) d. if blank_value (jget d k) then dset k ph d else d) PLATFORM_DEFAULTS sec"

definition server_profile :: "string \<Rightarrow> bool" where
  "server_profile n = (n \<notin> {''configVersion'', ''default''} \<and> n \<notin> set LOCAL_PROFILES)"

definition apply_platform_defaults :: "json \<Rightarrow> json result" where
  "apply_platform_defaults template = (case template of
       JObj t \<Rightarrow> Inr (JObj (map (\<lambda>(n, sec). (n, case sec of JObj d \<Rightarrow> if server_profile n then JObj (fill_section d) else sec | _ \<Rightarrow> sec)) t))
     | _ \<Rightarrow> Inl AttributeError)"

definition zip_exception :: "zip_error \<Rightarrow> py_error" where
  "zip_exception e = (case e of BadZip \<Rightarrow> ValueError ''File is not a zip file'' | OtherZip x \<Rightarrow> x)"

fun read_entries :: "zip_entry list \<Rightarrow> zip_entry list \<Rightarrow> zip_entry list result" where
  "read_entries zs [] = Inr []"
| "read_entries zs (z # rest) =
     (if \<not> keep_entry z then read_entries zs rest
      else case getinfo zs (z_name z) of
        None \<Rightarrow> Inl (KeyError (z_name z))
      | Some i \<Rightarrow> (case z_data i of
          Inl e \<Rightarrow> Inl (zip_exception e)
        | Inr b \<Rightarrow> bind_result (read_entries zs rest) (\<lambda>out. Inr (z\<lparr>z_data := Inr b\<rparr> # out))))"

definition strip_dm_metadata_from_zip :: "deploy_env \<Rightarrow> bytes \<Rightarrow> bytes result" where
  "strip_dm_metadata_from_zip ze data =
     (case unzip ze data of Inl e \<Rightarrow> Inl (zip_exception e) | Inr zs \<Rightarrow> bind_result (read_entries zs zs) (\<lambda>out. Inr (rezip ze out)))"

text \<open>The search for the two metadata files: an exception ends it and keeps what was assigned before. The last of
  several files wins. The first component is the loop variable, which the wizard uses afterwards under the same
  name as a form field.\<close>

fun scan_names :: "deploy_env \<Rightarrow> zip_entry list \<Rightarrow> string list \<Rightarrow> string \<times> json \<times> json \<Rightarrow> string \<times> json \<times> json" where
  "scan_names ze zs [] acc = acc"
| "scan_names ze zs (n # ns) (nm, tmpl, mani) =
     (let j = (if is_config n \<or> is_manifest n then Option.bind (zread zs n) (\<lambda>b. loads (decode_replace ze b)) else None)
      in if is_config n then
           (case j of
              None \<Rightarrow> (n, tmpl, mani)
            | Some t \<Rightarrow> (case apply_platform_defaults t of Inl e \<Rightarrow> (n, t, mani) | Inr t' \<Rightarrow> scan_names ze zs ns (n, t', mani)))
         else if is_manifest n then (case j of None \<Rightarrow> (n, tmpl, mani) | Some m \<Rightarrow> scan_names ze zs ns (n, tmpl, m))
         else scan_names ze zs ns (n, tmpl, mani))"

definition scan_package :: "deploy_env \<Rightarrow> bytes \<Rightarrow> string \<Rightarrow> string \<times> json \<times> json" where
  "scan_package ze data nm = (case entries ze data of None \<Rightarrow> (nm, JNull, JNull) | Some zs \<Rightarrow> scan_names ze zs (map z_name zs) (nm, JNull, JNull))"

section \<open>Files\<close>

text \<open>\<open>pk_write\<close> is the exception of \<open>os.makedirs\<close> and \<open>open\<close> for a path, if any; a file is known by its resolved path.\<close>

record package_io =
  pk_zip :: deploy_env
  pk_disk :: disk
  pk_dir :: string
  pk_write :: "string \<Rightarrow> py_error option"
  pk_listed :: string

record package_ids =
  ki_artifact :: int
  ki_version :: int
  ki_cohort :: int
  ki_campaign :: int
  ki_plugin :: int

record package_world =
  pw_db :: admin_db
  pw_files :: "bytes dict"
  pw_chunks :: chunk_store

record upload_file =
  uf_filename :: string
  uf_size :: "int option"
  uf_data :: bytes

definition join_binaries :: "package_io \<Rightarrow> string \<Rightarrow> string result" where
  "join_binaries io rel = safe_path_join (disk_links (pk_disk io)) (disk_limit (pk_disk io)) (disk_cwd (pk_disk io)) (pk_dir io) rel"

definition resolved :: "package_io \<Rightarrow> string \<Rightarrow> string" where
  "resolved io path = path_str (snd (realpath (disk_links (pk_disk io)) (disk_limit (pk_disk io)) (disk_cwd (pk_disk io)) path))"

definition write_file :: "package_io \<Rightarrow> string \<Rightarrow> bytes \<Rightarrow> bytes dict \<Rightarrow> bytes dict result" where
  "write_file io path data files = (case pk_write io path of Some e \<Rightarrow> Inl e | None \<Rightarrow> Inr (dset (resolved io path) data files))"

definition flash_error :: "string \<Rightarrow> response" where
  "flash_error m = \<lparr>r_status = 200, r_body = JStr (''<div class='' @ [CHR 0x22] @ ''dm-flash dm-flash--error'' @ [CHR 0x22] @ ''>'' @ m @ ''</div>''), r_headers = []\<rparr>"

definition flash_ok :: "string \<Rightarrow> response" where
  "flash_ok m = \<lparr>r_status = 200, r_body = JStr (''<div class='' @ [CHR 0x22] @ ''dm-flash dm-flash--success'' @ [CHR 0x22] @ ''>'' @ m @ ''</div>''), r_headers = []\<rparr>"

definition ext_or_oxt :: "string \<Rightarrow> string" where
  "ext_or_oxt fname = (if splitext fname = [] then ''.oxt'' else splitext fname)"

text \<open>\<open>re.fullmatch(r"\.[A-Za-z0-9._+-]+", ext)\<close>.\<close>

definition ext_ok :: "string \<Rightarrow> bool" where
  "ext_ok e = (case e of c # s \<Rightarrow> c = CHR ''.'' \<and> s \<noteq> [] \<and> list_all segment_char s | [] \<Rightarrow> False)"

section \<open>Flags, cohorts and stages\<close>

definition diff_fields :: "reconcile_diff \<Rightarrow> json dict" where
  "diff_fields d = [(''added'', JList (map JStr (df_added d))), (''kept'', JList (map JStr (df_kept d))), (''reactivated'', JList (map JStr (df_reactivated d))),
     (''orphaned'', JList (map JStr (df_orphaned d))), (''already_deprecated'', JList (map JStr (df_already_deprecated d)))]"

text \<open>An error is a failed statement: the transaction is lost, although the function returns. Names with a NUL
  character, which the driver refuses, are left aside.\<close>

definition safe_reconcile_catalog :: "admin_env \<Rightarrow> admin_request \<Rightarrow> string \<Rightarrow> string \<Rightarrow> json \<Rightarrow> admin_db \<Rightarrow> admin_db result" where
  "safe_reconcile_catalog en rq source slug tmpl db =
     (let (d, fdb) = reconcile_catalog_from_template (aq_now rq) (aq_flag_ids rq) slug tmpl (ct_flags (ad_cat db));
          actor = (if aq_actor rq = [] then [(''email'', JStr ''system''), (''sub'', JStr source)] else aq_actor rq)
      in if \<not> list_all (\<lambda>(n, v). varchar_ok 100 n) (template_names tmpl) \<or> \<not> varchar_ok 100 slug then Inl DatabaseError
         else audit_log en (aq_now rq) actor None (entry ''flag.reconcile'' ''plugin'' slug (diff_fields d)) (put_flags fdb db))"

definition email_lines :: "string \<Rightarrow> (string \<times> string) list" where
  "email_lines emails = map (\<lambda>v. (''email'', v)) (nonblank (splitlines (strip emails)))"

definition clamp_percent :: "int \<Rightarrow> int" where
  "clamp_percent n = max 1 (min 100 n)"

text \<open>The audience of a deployment. \<open>stem\<close>, \<open>pre\<close> and \<open>suf\<close> are the parts of the generated name and description that differ
  between the two routes.\<close>

definition target_cohort ::
  "timestamp \<Rightarrow> int \<Rightarrow> string \<Rightarrow> string \<Rightarrow> string \<Rightarrow> string \<Rightarrow> string \<Rightarrow> string \<Rightarrow> string \<Rightarrow> cohort_db \<Rightarrow> (int option \<times> cohort_db) result" where
  "target_cohort now cid stem pre suf mode existing percent emails cdb =
     (if mode = ''existing'' \<and> existing \<noteq> [] then
        (case py_int existing of None \<Rightarrow> Inl (int_error existing) | Some i \<Rightarrow> Inr (Some i, cdb))
      else if mode = ''percent'' then
        (case py_int percent of
           None \<Rightarrow> Inl (int_error percent)
         | Some n \<Rightarrow>
             bind_result (create_cohort cid (stem @ ''-'' @ str_of_int (clamp_percent n) @ ''pct'')
                 (pre @ str_of_int (clamp_percent n) @ ''% rollout'' @ suf) ''percentage'' JNull cdb) (\<lambda>(i, cdb').
               Inr (Some i, cdb')))
      else if mode = ''emails'' then
        (let ms = email_lines emails
         in if ms = [] then Inr (None, cdb)
            else bind_result (create_cohort cid (stem @ ''-manual'') (pre @ str_of_nat (length ms) @ '' emails'' @ suf) ''manual'' JNull cdb) (\<lambda>(i, cdb1).
                 bind_result (add_members now i ms cdb1) (\<lambda>(n, cdb2). Inr (Some i, cdb2))))
      else Inr (None, cdb))"

definition progressive_stages :: "int \<Rightarrow> json" where
  "progressive_stages h = JObj [(''stages'', JList [
     JObj [(''percent'', JInt 5), (''duration_hours'', JInt h), (''label'', JStr ''Canary (5%)'')],
     JObj [(''percent'', JInt 25), (''duration_hours'', JInt h), (''label'', JStr ''Early adopters (25%)'')],
     JObj [(''percent'', JInt 50), (''duration_hours'', JInt h), (''label'', JStr ''Moitie (50%)'')],
     JObj [(''percent'', JInt 100), (''duration_hours'', JInt 0), (''label'', JStr ''Deploiement complet'')]])]"

definition rollout_of :: "string \<Rightarrow> string \<Rightarrow> json result" where
  "rollout_of strategy stage_hours =
     (if strategy = ''progressive''
      then (case py_int stage_hours of None \<Rightarrow> Inl (int_error stage_hours) | Some n \<Rightarrow> Inr (progressive_stages (max 1 n)))
      else Inr JNull)"

definition wizard_campaign ::
  "admin_env \<Rightarrow> admin_request \<Rightarrow> int \<Rightarrow> string \<Rightarrow> int \<Rightarrow> int option \<Rightarrow> int option \<Rightarrow> json \<Rightarrow> int option \<Rightarrow> admin_db \<Rightarrow> (int \<times> admin_db) result" where
  "wizard_campaign en rq cid name aid rollback coh stages pid db =
     bind_result (sql_param (as_text (ae_pg en)) (jget (aq_actor rq) ''email'')) (\<lambda>by_whom.
     bind_result (create_campaign (aq_now rq) cid \<lparr>ca_name = name, ca_description = Some [], ca_type = Some ''plugin_update'', ca_artifact_id = Some aid,
         ca_rollback_artifact_id = rollback, ca_target_cohort_id = coh, ca_urgency = Some ''normal'', ca_deadline_at = None, ca_status = Some ''active'',
         ca_rollout_config = stages, ca_created_by = by_whom, ca_plugin_id = pid\<rparr> (campaign_db_of (ad_cat db))) (\<lambda>(i, cdb).
       Inr (i, put_campaigns cdb db)))"

section \<open>Upload of a version\<close>

record upload_form =
  up_version :: string
  up_release_notes :: string
  up_distribution_mode :: string
  up_platform_variant :: string
  up_min_host :: string
  up_max_host :: string
  up_environment :: string
  up_deploy_strategy :: string
  up_stage_hours :: string
  up_target_mode :: string
  up_cohort_id :: string
  up_percent :: string
  up_emails :: string
  up_action :: string

definition field :: "(string \<Rightarrow> string option) \<Rightarrow> string \<Rightarrow> string \<Rightarrow> string" where
  "field get k dflt = (case get k of Some v \<Rightarrow> v | None \<Rightarrow> dflt)"

definition upload_form_of :: "(string \<Rightarrow> string option) \<Rightarrow> upload_form" where
  "upload_form_of get = \<lparr>up_version = field get ''version'' [], up_release_notes = field get ''release_notes'' [],
     up_distribution_mode = field get ''distribution_mode'' ''managed'', up_platform_variant = strip (field get ''platform_variant'' []),
     up_min_host = field get ''min_host_version'' [], up_max_host = field get ''max_host_version'' [], up_environment = field get ''environment'' ''dev'',
     up_deploy_strategy = field get ''deploy_strategy'' ''patch_all'', up_stage_hours = field get ''stage_hours'' ''24'',
     up_target_mode = field get ''target_mode'' ''all'', up_cohort_id = field get ''cohort_id'' [], up_percent = field get ''percent'' ''10'',
     up_emails = field get ''emails'' [], up_action = field get ''action'' ''deploy''\<rparr>"

text \<open>The two ways a package arrives: an identifier of pieces uploaded before, whose stored file name is not checked, or a
  file in the form. The extension is looked at in the second case only.\<close>

datatype package_source = Chunks string | Attached "upload_file option"

definition receive_package :: "package_io \<Rightarrow> package_source \<Rightarrow> chunk_store \<Rightarrow> (bytes \<times> json) result \<times> chunk_store" where
  "receive_package io src cst = (case src of
       Chunks uid \<Rightarrow>
         if uid = [] then (Inl (HTTPException 400 ''Missing upload_id in JSON body''), cst)
         else (case reassemble_upload (pk_disk io) uid cst of
             (Inl e, c) \<Rightarrow> (Inl e, c)
           | (Inr None, c) \<Rightarrow> (Inl (HTTPException 400 ''Upload not found or incomplete''), c)
           | (Inr (Some r), c) \<Rightarrow> (Inr r, c))
     | Attached None \<Rightarrow> (Inl (HTTPException 400 ''Missing binary file''), cst)
     | Attached (Some u) \<Rightarrow>
         (case validate_upload (pk_listed io) (uf_filename u) (case uf_size u of Some n \<Rightarrow> n | None \<Rightarrow> 0) of
            Some m \<Rightarrow> (Inl (HTTPException 400 m), cst)
          | None \<Rightarrow> (Inr (uf_data u, JStr (if uf_filename u = [] then ''upload.oxt'' else uf_filename u)), cst)))"

definition too_large :: string where "too_large = ''Fichier trop volumineux (>100 Mo)''"

definition text_or_empty :: "json \<Rightarrow> string result" where
  "text_or_empty j = (if \<not> truthy j then Inr [] else case j of JStr s \<Rightarrow> Inr s | _ \<Rightarrow> Inl TypeError)"

text \<open>Device type, version and place of the file, each component checked.\<close>

definition package_path :: "package_io \<Rightarrow> cat_plugin \<Rightarrow> string \<Rightarrow> string \<Rightarrow> json \<Rightarrow> (string \<times> string \<times> string) result" where
  "package_path io p ver variant fname =
     bind_result (safe_segment (cp_device_type p) ''device_type'') (\<lambda>dt.
     bind_result (safe_segment (cp_slug p) ''slug'') (\<lambda>slug.
     bind_result (safe_segment ver ''version'') (\<lambda>v.
     bind_result (text_or_empty fname) (\<lambda>fn.
       let ext = (if ext_ok (ext_or_oxt fn) then ext_or_oxt fn else ''.oxt'')
       in bind_result (if variant = [] then Inr [] else bind_result (safe_segment variant ''platform_variant'') (\<lambda>s. Inr (''-'' @ s))) (\<lambda>suf.
          bind_result (join_binaries io dt) (\<lambda>_.
          bind_result (join_binaries io (dt @ ''/'' @ slug @ ''-'' @ v @ suf @ ext)) (\<lambda>path. Inr (dt, v, path))))))))"

definition uploaded_row :: "admin_request \<Rightarrow> int \<Rightarrow> int \<Rightarrow> upload_form \<Rightarrow> string \<Rightarrow> int \<Rightarrow> version_row" where
  "uploaded_row rq vid pid f ver aid = \<lparr>ve_id = vid, ve_plugin_id = pid, ve_artifact_id = (if aid = 0 then None else Some aid), ve_version = ver,
     ve_release_notes = up_release_notes f, ve_download_url = None, ve_min_host_version = form_text (up_min_host f),
     ve_max_host_version = form_text (up_max_host f), ve_status = ''published'', ve_distribution_mode = up_distribution_mode f,
     ve_published_at = None, ve_created_at = aq_now rq\<rparr>"

fun has_object :: "json \<Rightarrow> bool" where
  "has_object (JObj d) = True"
| "has_object (JList xs) = (\<exists>x\<in>set xs. has_object x)"
| "has_object _ = False"

text \<open>\<open>update_plugin(cur, plugin_id, config_template=template)\<close>: the value itself is passed to psycopg2, which has no adapter for a
  dictionary; a list or a number is no \<open>jsonb\<close>, a string is read as JSON text.\<close>

definition pass_template :: "admin_env \<Rightarrow> timestamp \<Rightarrow> int \<Rightarrow> json \<Rightarrow> cat_db \<Rightarrow> cat_db result" where
  "pass_template en now pid tmpl cat = (case tmpl of
       JObj _ \<Rightarrow> Inr cat
     | JList xs \<Rightarrow> if has_object tmpl then Inr cat else Inl DatabaseError
     | JStr s \<Rightarrow> (case loads s of
         None \<Rightarrow> Inl DatabaseError
       | Some j \<Rightarrow> if jsonb_ok (ae_pg en) j then bind_result (update_plugin now pid [(''config_template'', j)] cat) (\<lambda>(b, cat'). Inr cat') else Inl DatabaseError)
     | _ \<Rightarrow> Inl DatabaseError)"

definition slug_or_type :: "cat_db \<Rightarrow> int \<Rightarrow> string" where
  "slug_or_type cat pid = (case get_plugin cat pid of None \<Rightarrow> [] | Some p \<Rightarrow> if cp_slug p = [] then cp_device_type p else cp_slug p)"

definition reconcile_plugin :: "admin_env \<Rightarrow> admin_request \<Rightarrow> string \<Rightarrow> int \<Rightarrow> json \<Rightarrow> admin_db \<Rightarrow> admin_db result" where
  "reconcile_plugin en rq source pid tmpl db =
     (let slug = slug_or_type (ad_cat db) pid in if slug = [] then Inr db else safe_reconcile_catalog en rq source slug tmpl db)"

fun notes_for :: "string \<Rightarrow> json list \<Rightarrow> string option result" where
  "notes_for ver [] = Inr None"
| "notes_for ver (e # es) =
     bind_result (py_get e ''version'' JNull) (\<lambda>v.
       if v = JStr ver then
         bind_result (bind_result (py_get e ''changes'' (JList [])) py_iter) (\<lambda>cs. Inr (Some (join_with newline (map (\<lambda>c. ''- '' @ py_str c) cs))))
       else notes_for ver es)"

definition set_notes :: "int \<Rightarrow> string \<Rightarrow> cat_db \<Rightarrow> cat_db" where
  "set_notes vid notes cat = cat\<lparr>ct_versions := map (\<lambda>v. if ve_id v = vid then v\<lparr>ve_release_notes := notes\<rparr> else v) (ct_versions cat)\<rparr>"

definition manifest_changelog :: "json \<Rightarrow> json list result" where
  "manifest_changelog mani =
     (if truthy mani then bind_result (py_get mani ''changelog'' (JList [])) (\<lambda>cl. Inr (case cl of JList es \<Rightarrow> es | _ \<Rightarrow> [])) else Inr [])"

definition apply_manifest :: "admin_env \<Rightarrow> timestamp \<Rightarrow> int \<Rightarrow> int \<Rightarrow> string \<Rightarrow> string \<Rightarrow> json \<Rightarrow> cat_db \<Rightarrow> cat_db result" where
  "apply_manifest en now pid vid ver notes mani cat =
     bind_result (manifest_changelog mani) (\<lambda>es.
       if es = [] then Inr cat
       else bind_result (if notes = [] then notes_for ver es else Inr None) (\<lambda>found.
         let cat1 = (case found of None \<Rightarrow> cat | Some n \<Rightarrow> set_notes vid n cat)
         in if \<not> jsonb_ok (ae_pg en) (JList es) then Inl DatabaseError
            else bind_result (update_plugin now pid [(''changelog'', JList es)] cat1) (\<lambda>(b, cat2). Inr cat2)))"

definition version_statements ::
  "admin_env \<Rightarrow> admin_request \<Rightarrow> package_ids \<Rightarrow> int \<Rightarrow> upload_form \<Rightarrow> string \<Rightarrow> string \<Rightarrow> string \<Rightarrow> string \<Rightarrow> json \<Rightarrow> json \<Rightarrow> admin_db \<Rightarrow> (int \<times> int \<times> admin_db) result" where
  "version_statements en rq ids pid f dt ver path chk tmpl mani db =
     bind_result (create_artifact (aq_now rq) (ki_artifact ids) dt (Some (up_platform_variant f)) ver path chk None (ad_cat db)) (\<lambda>(aid, c1).
     bind_result (create_version (aq_now rq) (uploaded_row rq (ki_version ids) pid f ver aid) c1) (\<lambda>(vid, c2).
     bind_result (if up_platform_variant f = [] then Inr c2
                  else link_version_artifact \<lparr>li_version_id = vid, li_artifact_id = aid, li_variant = up_platform_variant f\<rparr> c2) (\<lambda>c3.
     bind_result (if truthy tmpl then bind_result (pass_template en (aq_now rq) pid tmpl c3) (\<lambda>c. reconcile_plugin en rq ''admin:catalog-version-upload'' pid tmpl (db\<lparr>ad_cat := c\<rparr>))
                  else Inr (db\<lparr>ad_cat := c3\<rparr>)) (\<lambda>db4.
     bind_result (apply_manifest en (aq_now rq) pid vid ver (up_release_notes f) mani (ad_cat db4)) (\<lambda>c5. Inr (aid, vid, db4\<lparr>ad_cat := c5\<rparr>))))))"

definition audit :: "admin_env \<Rightarrow> admin_request \<Rightarrow> audit_item \<Rightarrow> admin_db \<Rightarrow> admin_db result" where
  "audit en rq e db = audit_log en (aq_now rq) (aq_actor rq) (aq_ip rq) e db"

text \<open>The columns \<open>environment\<close> and \<open>version_id\<close> of \<open>campaigns\<close> are written at the end; no reader uses them, so only the length
  of the first matters.\<close>

definition deploy_version ::
  "admin_env \<Rightarrow> admin_request \<Rightarrow> package_ids \<Rightarrow> cat_plugin \<Rightarrow> upload_form \<Rightarrow> string \<Rightarrow> string \<Rightarrow> int \<Rightarrow> admin_db \<Rightarrow> admin_db result" where
  "deploy_version en rq ids p f dt ver aid db =
     (let environment = up_environment f
      in bind_result (target_cohort (aq_now rq) (ki_cohort ids) (''auto-'' @ dt @ ''-'' @ ver @ ''-'' @ environment) ''Auto: '' ('' on '' @ environment)
             (up_target_mode f) (up_cohort_id f) (up_percent f) (up_emails f) (ad_cohorts db)) (\<lambda>(coh, cdb).
         bind_result (rollout_of (up_deploy_strategy f) (up_stage_hours f)) (\<lambda>stages.
         bind_result (wizard_campaign en rq (ki_campaign ids) (''MaJ '' @ cp_name p @ '' '' @ ver @ '' ['' @ environment @ '']'') aid None coh stages
             (Some (cp_id p)) (put_cohorts cdb db)) (\<lambda>(cid, db').
         if \<not> varchar_ok 50 environment then Inl DatabaseError
         else audit en rq (entry ''deploy.create'' ''campaign'' (str_of_int cid)
                [(''plugin_id'', JInt (cp_id p)), (''version'', JStr ver), (''environment'', JStr environment), (''strategy'', JStr (up_deploy_strategy f))]) db'))))"

definition upload_work ::
  "admin_env \<Rightarrow> admin_request \<Rightarrow> package_ids \<Rightarrow> cat_plugin \<Rightarrow> upload_form \<Rightarrow> string \<Rightarrow> string \<Rightarrow> string \<Rightarrow> string \<Rightarrow> json \<Rightarrow> json \<Rightarrow> admin_db \<Rightarrow> (response \<times> admin_db) result" where
  "upload_work en rq ids p f dt ver path chk tmpl mani db =
     bind_result (version_statements en rq ids (cp_id p) f dt ver path chk tmpl mani db) (\<lambda>(aid, vid, db1).
     bind_result (audit en rq (entry ''version.upload'' ''plugin_version'' (str_of_int vid)
         [(''plugin_id'', JInt (cp_id p)), (''version'', JStr ver), (''has_config_template'', JBool (truthy tmpl))]) db1) (\<lambda>db2.
       if up_action f = ''deploy''
       then bind_result (deploy_version en rq ids p f dt ver aid db2) (\<lambda>db3. Inr (plugin_page (cp_id p) (if ki_campaign ids = 0 then ''versions'' else ''deployments''), db3))
       else Inr (plugin_page (cp_id p) ''versions'', db2)))"

text \<open>The part of the route inside its \<open>try\<close>: the file is written between the first and the other statements.\<close>

definition store_version ::
  "admin_env \<Rightarrow> package_io \<Rightarrow> admin_request \<Rightarrow> package_ids \<Rightarrow> int \<Rightarrow> upload_form \<Rightarrow> bytes \<Rightarrow> json \<Rightarrow> json \<Rightarrow> json \<Rightarrow> package_world \<Rightarrow> response result \<times> package_world" where
  "store_version en io rq ids pid f data fname tmpl mani w =
     (case ae_connect en of Some e \<Rightarrow> (Inl e, w) | None \<Rightarrow>
      (case get_plugin (ad_cat (pw_db w)) pid of
         None \<Rightarrow> (Inl (HTTPException 404 ''Plugin introuvable''), w)
       | Some p \<Rightarrow>
           (case package_path io p (up_version f) (up_platform_variant f) fname of
              Inl e \<Rightarrow> (pass_http en e, w)
            | Inr (dt, ver, path) \<Rightarrow>
                (case write_file io path data (pw_files w) of
                   Inl e \<Rightarrow> (pass_http en e, w)
                 | Inr files \<Rightarrow>
                     (case upload_work en rq ids p f dt ver path (compute_checksum data) tmpl mani (pw_db w) of
                        Inl e \<Rightarrow> (pass_http en e, w\<lparr>pw_files := files\<rparr>)
                      | Inr (r, db) \<Rightarrow> (Inr r, w\<lparr>pw_files := files, pw_db := db\<rparr>))))))"

definition catalog_version_upload ::
  "admin_env \<Rightarrow> package_io \<Rightarrow> admin_request \<Rightarrow> package_ids \<Rightarrow> int \<Rightarrow> upload_form \<Rightarrow> package_source \<Rightarrow> package_world \<Rightarrow> response result \<times> package_world" where
  "catalog_version_upload en io rq ids pid f src w =
     (let (got, cst) = receive_package io src (pw_chunks w); w1 = w\<lparr>pw_chunks := cst\<rparr>
      in case got of
           Inl e \<Rightarrow> (Inl e, w1)
         | Inr (data, fname) \<Rightarrow>
             if up_version f = [] then (Inl (HTTPException 400 ''Missing version''), w1)
             else if int (length data) > MAX_UPLOAD_SIZE then (Inl (HTTPException 400 too_large), w1)
             else
               let (_, tmpl, mani) = scan_package (pk_zip io) data []
               in case strip_dm_metadata_from_zip (pk_zip io) data of
                    Inl e \<Rightarrow> (Inl e, w1)
                  | Inr stripped \<Rightarrow> store_version en io rq ids pid f stripped fname tmpl mani w1)"

section \<open>The deployment wizard\<close>

record wizard_form =
  wz_device_type :: string
  wz_version :: string
  wz_target_mode :: string
  wz_cohort_id :: string
  wz_percent :: string
  wz_emails :: string
  wz_deploy_type :: string
  wz_stage_hours :: string
  wz_name :: string
  wz_rollback :: string

definition newest_plugin :: "(cat_plugin \<Rightarrow> bool) \<Rightarrow> cat_db \<Rightarrow> cat_plugin option" where
  "newest_plugin P cat = (case sort_key (\<lambda>p. - cp_id p) (filter P (ct_plugins cat)) of [] \<Rightarrow> None | p # _ \<Rightarrow> Some p)"

text \<open>The template and the changelog go to the plugins of the device type, not to one plugin.\<close>

definition spread_template :: "string \<Rightarrow> json \<Rightarrow> cat_db \<Rightarrow> cat_db" where
  "spread_template dt tmpl cat =
     cat\<lparr>ct_plugins := map (\<lambda>p. if cp_device_type p = dt \<and> cp_status p \<noteq> ''removed'' then p\<lparr>cp_template := Some tmpl\<rparr> else p) (ct_plugins cat)\<rparr>"

definition spread_changelog :: "string \<Rightarrow> json list \<Rightarrow> cat_db \<Rightarrow> cat_db" where
  "spread_changelog dt es cat =
     cat\<lparr>ct_plugins := map (\<lambda>p. if cp_device_type p = dt then p\<lparr>cp_info := dset ''changelog'' (JList es) (cp_info p)\<rparr> else p) (ct_plugins cat)\<rparr>"

definition wizard_template :: "admin_env \<Rightarrow> admin_request \<Rightarrow> string \<Rightarrow> json \<Rightarrow> admin_db \<Rightarrow> admin_db result" where
  "wizard_template en rq dt tmpl db =
     (if \<not> truthy tmpl then Inr db
      else if \<not> jsonb_ok (ae_pg en) tmpl then Inl DatabaseError
      else
        let cat = spread_template dt tmpl (ad_cat db);
            slug = (case newest_plugin (\<lambda>p. cp_device_type p = dt \<and> cp_status p \<noteq> ''removed'') cat of
                Some p \<Rightarrow> if cp_slug p = [] then dt else cp_slug p | None \<Rightarrow> dt)
        in safe_reconcile_catalog en rq ''admin:deploy/create'' slug tmpl (db\<lparr>ad_cat := cat\<rparr>))"

definition wizard_changelog :: "admin_env \<Rightarrow> string \<Rightarrow> json \<Rightarrow> admin_db \<Rightarrow> admin_db result" where
  "wizard_changelog en dt mani db =
     bind_result (manifest_changelog mani) (\<lambda>es.
       if es = [] then Inr db else if \<not> jsonb_ok (ae_pg en) (JList es) then Inl DatabaseError
       else Inr (db\<lparr>ad_cat := spread_changelog dt es (ad_cat db)\<rparr>))"

definition wizard_work ::
  "admin_env \<Rightarrow> admin_request \<Rightarrow> package_ids \<Rightarrow> wizard_form \<Rightarrow> string \<Rightarrow> string \<Rightarrow> string \<Rightarrow> json \<Rightarrow> json \<Rightarrow> admin_db \<Rightarrow> (response \<times> admin_db) result" where
  "wizard_work en rq ids f nm path chk tmpl mani db =
     (let dt = wz_device_type f; ver = wz_version f; title = (if strip nm = [] then ''MaJ '' @ dt @ '' '' @ ver else strip nm)
      in bind_result (create_artifact (aq_now rq) (ki_artifact ids) dt (Some []) ver path chk None (ad_cat db)) (\<lambda>(aid, c1).
         bind_result (target_cohort (aq_now rq) (ki_cohort ids) (''auto-'' @ dt @ ''-'' @ ver) ''Auto-created: '' []
             (wz_target_mode f) (wz_cohort_id f) (wz_percent f) (wz_emails f) (ad_cohorts db)) (\<lambda>(coh, cdb).
         bind_result (rollout_of (wz_deploy_type f) (wz_stage_hours f)) (\<lambda>stages.
         bind_result (form_int (wz_rollback f)) (\<lambda>rollback.
         bind_result (wizard_campaign en rq (ki_campaign ids) title aid rollback coh stages
             (map_option cp_id (newest_plugin (\<lambda>p. cp_device_type p = dt \<and> cp_status p = ''active'') c1)) (put_cohorts cdb (db\<lparr>ad_cat := c1\<rparr>))) (\<lambda>(cid, db2).
         bind_result (wizard_template en rq dt tmpl db2) (\<lambda>db3.
         bind_result (wizard_changelog en dt mani db3) (\<lambda>db4.
         bind_result (audit en rq (entry ''deploy.create'' ''campaign'' (str_of_int cid) [(''name'', JStr title), (''device_type'', JStr dt), (''version'', JStr ver),
             (''deploy_type'', JStr (wz_deploy_type f)), (''has_config_template'', JBool (truthy tmpl))]) db4) (\<lambda>db5.
           Inr (redirect_to (''/admin/deploy/'' @ str_of_int cid), db5))))))))))"

definition dashed :: "string \<Rightarrow> string" where
  "dashed s = map (\<lambda>c. if c = CHR '' '' then CHR ''-'' else c) (lower (strip s))"

text \<open>The place of the file is put together from the fields as they are.\<close>

definition wizard_path :: "package_io \<Rightarrow> wizard_form \<Rightarrow> string \<Rightarrow> string \<Rightarrow> string" where
  "wizard_path io f nm fname =
     pk_dir io @ ''/'' @ wz_device_type f @ ''/'' @ dashed (if nm = [] then wz_device_type f else nm) @ ''-'' @ wz_version f @ ext_or_oxt fname"

definition deploy_create ::
  "admin_env \<Rightarrow> package_io \<Rightarrow> admin_request \<Rightarrow> package_ids \<Rightarrow> wizard_form \<Rightarrow> upload_file \<Rightarrow> package_world \<Rightarrow> response result \<times> package_world" where
  "deploy_create en io rq ids f u w =
     (case validate_upload (pk_listed io) (uf_filename u) (case uf_size u of Some n \<Rightarrow> n | None \<Rightarrow> 0) of
        Some m \<Rightarrow> (Inl (HTTPException 400 m), w)
      | None \<Rightarrow>
          if int (length (uf_data u)) > MAX_UPLOAD_SIZE then (Inl (HTTPException 400 too_large), w)
          else
            let (nm, tmpl, mani) = scan_package (pk_zip io) (uf_data u) (wz_name f)
            in case strip_dm_metadata_from_zip (pk_zip io) (uf_data u) of
                 Inl e \<Rightarrow> (Inl e, w)
               | Inr data \<Rightarrow>
                   let path = wizard_path io f nm (uf_filename u)
                   in case write_file io path data (pw_files w) of
                        Inl e \<Rightarrow> (Inl e, w)
                      | Inr files \<Rightarrow>
                          let (r, db) = transaction en (bad_request en) (wizard_work en rq ids f nm path (compute_checksum data) tmpl mani) (pw_db w)
                          in (r, w\<lparr>pw_files := files, pw_db := db\<rparr>))"

section \<open>Artifacts, templates and logos\<close>

record artifact_upload_form =
  af_device_type :: string
  af_platform_variant :: string
  af_version :: string
  af_changelog_url :: string

definition artifact_path :: "package_io \<Rightarrow> artifact_upload_form \<Rightarrow> string \<Rightarrow> (string \<times> string \<times> string) result" where
  "artifact_path io f fname =
     bind_result (safe_segment (af_device_type f) ''device_type'') (\<lambda>dt.
     bind_result (safe_segment (af_version f) ''version'') (\<lambda>ver.
     bind_result (safe_segment (if fname = [] then ''upload-'' @ ver @ ''.oxt'' else fname) ''filename'') (\<lambda>fn.
     bind_result (join_binaries io dt) (\<lambda>_.
     bind_result (join_binaries io (dt @ ''/'' @ ver @ ''_'' @ fn)) (\<lambda>path. Inr (dt, ver, path))))))"

definition artifact_work :: "admin_env \<Rightarrow> admin_request \<Rightarrow> package_ids \<Rightarrow> artifact_upload_form \<Rightarrow> string \<Rightarrow> string \<Rightarrow> string \<Rightarrow> string \<Rightarrow> admin_db \<Rightarrow> (response \<times> admin_db) result" where
  "artifact_work en rq ids f dt ver path chk db =
     bind_result (create_artifact (aq_now rq) (ki_artifact ids) dt (Some (af_platform_variant f)) ver path chk (form_text (af_changelog_url f)) (ad_cat db)) (\<lambda>(aid, cat).
     bind_result (audit en rq (entry ''artifact.upload'' ''artifact'' (str_of_int aid) [(''device_type'', JStr dt), (''version'', JStr ver), (''checksum'', JStr chk)])
         (db\<lparr>ad_cat := cat\<rparr>)) (\<lambda>db'.
       Inr (flash_ok (''Artifact '' @ dt @ ''/'' @ ver @ '' uploade (ID: '' @ str_of_int aid @ '')''), db')))"

definition flash_exception :: "admin_env \<Rightarrow> py_error \<Rightarrow> response result" where
  "flash_exception en e = Inr (flash_error (''Erreur: '' @ ae_text en e))"

definition artifact_upload ::
  "admin_env \<Rightarrow> package_io \<Rightarrow> admin_request \<Rightarrow> package_ids \<Rightarrow> artifact_upload_form \<Rightarrow> upload_file \<Rightarrow> package_world \<Rightarrow> response result \<times> package_world" where
  "artifact_upload en io rq ids f u w =
     (case validate_upload (pk_listed io) (uf_filename u) (case uf_size u of Some n \<Rightarrow> n | None \<Rightarrow> 0) of
        Some m \<Rightarrow> (Inr (flash_error m), w)
      | None \<Rightarrow>
          if int (length (uf_data u)) > MAX_UPLOAD_SIZE then (Inr (flash_error too_large), w)
          else (case artifact_path io f (uf_filename u) of
             Inl e \<Rightarrow> (Inl e, w)
           | Inr (dt, ver, path) \<Rightarrow>
               (case write_file io path (uf_data u) (pw_files w) of
                  Inl e \<Rightarrow> (Inl e, w)
                | Inr files \<Rightarrow>
                    let (r, db) = transaction en (flash_exception en) (artifact_work en rq ids f dt ver path (compute_checksum (uf_data u))) (pw_db w)
                    in (r, w\<lparr>pw_files := files, pw_db := db\<rparr>))))"

definition json_answer :: "int \<Rightarrow> json dict \<Rightarrow> response" where
  "json_answer st d = \<lparr>r_status = st, r_body = JObj d, r_headers = []\<rparr>"

text \<open>The entry is written before the reconciliation: a statement that fails there makes \<open>conn.commit()\<close> a rollback, and the answer
  is the one of a success.\<close>

definition template_work :: "admin_env \<Rightarrow> admin_request \<Rightarrow> int \<Rightarrow> json \<Rightarrow> admin_db \<Rightarrow> (response \<times> admin_db) result" where
  "template_work en rq pid tmpl db =
     (if \<not> jsonb_ok (ae_pg en) tmpl then Inl DatabaseError
      else bind_result (update_plugin (aq_now rq) pid [(''config_template'', tmpl)] (ad_cat db)) (\<lambda>(found, cat).
        if \<not> found then Inr (json_answer 404 [(''error'', JStr ''Plugin non trouve'')], db)
        else bind_result (audit en rq (entry ''plugin.config_template.update'' ''plugin'' (str_of_int pid) []) (db\<lparr>ad_cat := cat\<rparr>)) (\<lambda>db1.
          Inr (json_answer 200 [(''ok'', JBool True)], case reconcile_plugin en rq ''admin:config-template'' pid tmpl db1 of Inr db2 \<Rightarrow> db2 | Inl e \<Rightarrow> db))))"

definition catalog_save_config_template :: "admin_env \<Rightarrow> admin_request \<Rightarrow> int \<Rightarrow> json \<Rightarrow> admin_db \<Rightarrow> response result \<times> admin_db" where
  "catalog_save_config_template en rq pid body db =
     (case body of
        JObj b \<Rightarrow>
          (case jget b ''config_template'' of
             JObj t \<Rightarrow>
               if t = [] then (Inr (json_answer 400 [(''error'', JStr ''config_template manquant ou invalide'')]), db)
               else (case apply_platform_defaults (JObj t) of
                   Inl e \<Rightarrow> (Inl e, db)
                 | Inr tmpl \<Rightarrow> transaction en (json_error en 500) (template_work en rq pid tmpl) db)
           | _ \<Rightarrow> (Inr (json_answer 400 [(''error'', JStr ''config_template manquant ou invalide'')]), db))
      | _ \<Rightarrow> (Inl AttributeError, db))"

definition LOGO_TYPES :: "string dict" where
  "LOGO_TYPES = [(''.png'', ''image/png''), (''.jpg'', ''image/jpeg''), (''.jpeg'', ''image/jpeg''), (''.svg'', ''image/svg+xml''), (''.webp'', ''image/webp'')]"

definition b64_standard :: "char \<Rightarrow> char" where
  "b64_standard c = (if c = CHR ''-'' then CHR ''+'' else if c = CHR ''_'' then CHR ''/'' else c)"

definition data_url :: "string \<Rightarrow> bytes \<Rightarrow> string" where
  "data_url mime data = ''data:'' @ mime @ '';base64,'' @ map b64_standard (b64_encode data)"

definition logo_work :: "admin_env \<Rightarrow> admin_request \<Rightarrow> int \<Rightarrow> string \<Rightarrow> int \<Rightarrow> string \<Rightarrow> admin_db \<Rightarrow> (response \<times> admin_db) result" where
  "logo_work en rq pid fname n url db = (case get_plugin (ad_cat db) pid of
       None \<Rightarrow> Inl (HTTPException 404 ''Plugin non trouve'')
     | Some p \<Rightarrow>
         bind_result (update_plugin (aq_now rq) pid [(''icon_url'', JStr url)] (ad_cat db)) (\<lambda>(b, cat).
         bind_result (audit en rq (entry ''plugin.logo.upload'' ''plugin'' (str_of_int pid) [(''filename'', JStr fname), (''size'', JInt n)]) (db\<lparr>ad_cat := cat\<rparr>)) (\<lambda>db'.
           Inr (plugin_page pid ''edit'', db'))))"

definition catalog_upload_logo :: "admin_env \<Rightarrow> admin_request \<Rightarrow> int \<Rightarrow> upload_file \<Rightarrow> admin_db \<Rightarrow> response result \<times> admin_db" where
  "catalog_upload_logo en rq pid u db =
     (let ext = lower (splitext (uf_filename u)); n = int (length (uf_data u))
      in case dget LOGO_TYPES ext of
           None \<Rightarrow> (Inr (flash_error (''Format non supporte ('' @ ext @ ''). Utiliser PNG, JPG, SVG ou WebP.'')), db)
         | Some mime \<Rightarrow>
             if n > 2 * 1024 * 1024 then (Inr (flash_error ''Fichier trop volumineux (max 2 Mo).''), db)
             else transaction en (flash_exception en) (logo_work en rq pid (uf_filename u) n (data_url mime (uf_data u))) db)"

section \<open>Creation of a plugin\<close>

record create_form =
  nf_slug :: string
  nf_name :: string
  nf_description :: string
  nf_intent :: string
  nf_key_features :: string
  nf_changelog :: string
  nf_device_type :: string
  nf_category :: string
  nf_icon_url :: string
  nf_icon_upload_id :: string
  nf_homepage_url :: string
  nf_doc_url :: string
  nf_support_email :: string
  nf_publisher :: string
  nf_visibility :: string
  nf_license :: string
  nf_config_template :: string
  nf_alias :: string
  nf_initial_version :: string
  nf_initial_notes :: string
  nf_upload_id :: string

definition create_form_of :: "(string \<Rightarrow> string option) \<Rightarrow> create_form" where
  "create_form_of get = \<lparr>nf_slug = field get ''slug'' [], nf_name = field get ''name'' [], nf_description = field get ''description'' [],
     nf_intent = field get ''intent'' [], nf_key_features = field get ''key_features'' [], nf_changelog = field get ''changelog'' [],
     nf_device_type = field get ''device_type'' ''libreoffice'', nf_category = field get ''category'' ''productivity'', nf_icon_url = field get ''icon_url'' [],
     nf_icon_upload_id = field get ''icon_upload_id'' [], nf_homepage_url = field get ''homepage_url'' [], nf_doc_url = field get ''doc_url'' [],
     nf_support_email = field get ''support_email'' [], nf_publisher = field get ''publisher'' ''DNUM'', nf_visibility = field get ''visibility'' ''public'',
     nf_license = field get ''license'' [], nf_config_template = field get ''config_template'' [], nf_alias = field get ''alias'' [],
     nf_initial_version = field get ''initial_version'' [], nf_initial_notes = field get ''initial_release_notes'' [], nf_upload_id = field get ''upload_id'' []\<rparr>"

definition parse_changelog :: "string \<Rightarrow> json" where
  "parse_changelog s =
     (if strip s = [] then JNull
      else case loads s of
        Some j \<Rightarrow> j
      | None \<Rightarrow> JList [JObj [(''version'', JStr ''0.0.0''), (''changes'', JList [JStr (strip s)])]])"

text \<open>Text that is not JSON is ignored; JSON that is not an object raises outside every handler.\<close>

definition parse_template :: "string \<Rightarrow> json result" where
  "parse_template s = (if strip s = [] then Inr JNull else case loads s of None \<Rightarrow> Inr JNull | Some j \<Rightarrow> apply_platform_defaults j)"

definition icon_mime :: "string \<Rightarrow> string" where
  "icon_mime n = (if suffix ''.svg'' n then ''image/svg+xml'' else if suffix ''.jpg'' n \<or> suffix ''.jpeg'' n then ''image/jpeg'' else ''image/png'')"

definition uploaded_icon :: "package_io \<Rightarrow> create_form \<Rightarrow> chunk_store \<Rightarrow> string result \<times> chunk_store" where
  "uploaded_icon io f cst =
     (if nf_icon_upload_id f = [] then (Inr (nf_icon_url f), cst)
      else case reassemble_upload (pk_disk io) (nf_icon_upload_id f) cst of
        (Inl e, c) \<Rightarrow> (Inl e, c)
      | (Inr None, c) \<Rightarrow> (Inr (nf_icon_url f), c)
      | (Inr (Some (data, JStr n)), c) \<Rightarrow> (Inr (data_url (icon_mime n) data), c)
      | (Inr (Some (data, _)), c) \<Rightarrow> (Inl AttributeError, c))"

definition created_info :: "create_form \<Rightarrow> string \<Rightarrow> json dict" where
  "created_info f icon = [(''description'', JStr (nf_description f)), (''intent'', JStr (nf_intent f)),
     (''key_features'', JList (map JStr (nonblank (split_on (CHR '','') (nf_key_features f))))),
     (''changelog'', let c = parse_changelog (nf_changelog f) in if truthy c then c else JList []),
     (''category'', JStr (nf_category f)), (''icon_url'', JStr icon), (''homepage_url'', JStr (nf_homepage_url f)), (''doc_url'', JStr (nf_doc_url f)),
     (''support_email'', JStr (nf_support_email f)), (''license'', JStr (nf_license f)), (''publisher'', JStr (nf_publisher f))]"

text \<open>\<open>INSERT INTO plugin_aliases ... ON CONFLICT DO NOTHING\<close>.\<close>

definition offer_alias :: "int \<Rightarrow> string \<Rightarrow> admin_db \<Rightarrow> admin_db result" where
  "offer_alias pid raw db =
     (let alias = lower (strip raw)
      in if strip raw = [] then Inr db
         else if \<not> varchar_ok 100 alias then Inl DatabaseError
         else if list_ex (\<lambda>r. aa_alias r = alias) (ad_aliases db) then Inr db
         else Inr (db\<lparr>ad_aliases := ad_aliases db @ [\<lparr>aa_alias = alias, aa_plugin_id = pid\<rparr>]\<rparr>))"

definition new_plugin :: "admin_env \<Rightarrow> admin_request \<Rightarrow> package_ids \<Rightarrow> create_form \<Rightarrow> string \<Rightarrow> json \<Rightarrow> admin_db \<Rightarrow> (int \<times> admin_db) result" where
  "new_plugin en rq ids f icon tmpl db =
     (if \<not> jsonb_ok (ae_pg en) (jget (created_info f icon) ''changelog'') \<or> truthy tmpl \<and> \<not> jsonb_ok (ae_pg en) tmpl then Inl DatabaseError
      else bind_result (create_plugin (aq_now rq) (ki_plugin ids) (nf_slug f) (nf_name f) (nf_device_type f) (nf_visibility f) (created_info f icon)
             (if tmpl = JNull then None else Some tmpl) (ad_cat db)) (\<lambda>(pid, cat).
           bind_result (if truthy tmpl then safe_reconcile_catalog en rq ''admin:catalog-create'' (if nf_slug f = [] then nf_device_type f else nf_slug f) tmpl (db\<lparr>ad_cat := cat\<rparr>)
                        else Inr (db\<lparr>ad_cat := cat\<rparr>)) (\<lambda>db1.
           bind_result (offer_alias pid (nf_alias f) db1) (\<lambda>db2. Inr (pid, db2)))))"

definition initial_binary :: "package_io \<Rightarrow> create_form \<Rightarrow> upload_file option \<Rightarrow> chunk_store \<Rightarrow> (bytes \<times> json) option result \<times> chunk_store" where
  "initial_binary io f binary cst =
     (if nf_upload_id f \<noteq> [] then reassemble_upload (pk_disk io) (nf_upload_id f) cst
      else (Inr (case binary of Some u \<Rightarrow> if uf_filename u = [] then None else Some (uf_data u, JStr (uf_filename u)) | None \<Rightarrow> None), cst))"

definition initial_path :: "package_io \<Rightarrow> create_form \<Rightarrow> string \<Rightarrow> string" where
  "initial_path io f fname = pk_dir io @ ''/'' @ nf_device_type f @ ''/'' @ nf_slug f @ ''-'' @ nf_initial_version f @ ext_or_oxt fname"

definition initial_row :: "admin_request \<Rightarrow> package_ids \<Rightarrow> create_form \<Rightarrow> int \<Rightarrow> int \<Rightarrow> version_row" where
  "initial_row rq ids f pid aid = \<lparr>ve_id = ki_version ids, ve_plugin_id = pid, ve_artifact_id = (if aid = 0 then None else Some aid),
     ve_version = nf_initial_version f, ve_release_notes = nf_initial_notes f, ve_download_url = None, ve_min_host_version = None,
     ve_max_host_version = None, ve_status = ''published'', ve_distribution_mode = ''managed'', ve_published_at = None, ve_created_at = aq_now rq\<rparr>"

text \<open>The first version. A package that cannot be read or written is reported in the log only: the plugin is created without a
  version (\<^const>\<open>None\<close>).\<close>

definition initial_file :: "package_io \<Rightarrow> create_form \<Rightarrow> bytes \<Rightarrow> json \<Rightarrow> bytes dict \<Rightarrow> (string \<times> bytes \<times> bytes dict) option" where
  "initial_file io f data fname files = (case fname of
       JStr n \<Rightarrow> (case strip_dm_metadata_from_zip (pk_zip io) data of
           Inl e \<Rightarrow> None
         | Inr stripped \<Rightarrow> (case write_file io (initial_path io f n) stripped files of
             Inl e \<Rightarrow> None | Inr fs \<Rightarrow> Some (initial_path io f n, stripped, fs)))
     | _ \<Rightarrow> None)"

definition initial_statements :: "admin_request \<Rightarrow> package_ids \<Rightarrow> create_form \<Rightarrow> int \<Rightarrow> string \<Rightarrow> string \<Rightarrow> admin_db \<Rightarrow> admin_db result" where
  "initial_statements rq ids f pid path chk db =
     bind_result (create_artifact (aq_now rq) (ki_artifact ids) (nf_device_type f) (Some []) (nf_initial_version f) path chk None (ad_cat db)) (\<lambda>(aid, c1).
     bind_result (create_version (aq_now rq) (initial_row rq ids f pid aid) c1) (\<lambda>(vid, c2). Inr (db\<lparr>ad_cat := c2\<rparr>)))"

definition finish_create :: "admin_env \<Rightarrow> admin_request \<Rightarrow> create_form \<Rightarrow> int \<Rightarrow> string \<Rightarrow> admin_db \<Rightarrow> (response \<times> admin_db) result" where
  "finish_create en rq f pid made db =
     bind_result (audit en rq (entry ''plugin.create'' ''plugin'' (str_of_int pid) [(''slug'', JStr (nf_slug f)), (''name'', JStr (nf_name f)),
         (''alias'', JStr (nf_alias f)), (''initial_version'', JStr made)]) db) (\<lambda>db'.
       Inr (redirect_to (''/admin/catalog/'' @ str_of_int pid @ ''?created=1''), db'))"

definition create_with_version ::
  "admin_env \<Rightarrow> package_io \<Rightarrow> admin_request \<Rightarrow> package_ids \<Rightarrow> create_form \<Rightarrow> upload_file option \<Rightarrow> int \<Rightarrow> admin_db \<Rightarrow> package_world \<Rightarrow> (response \<times> admin_db) result \<times> package_world" where
  "create_with_version en io rq ids f binary pid db w =
     (case initial_binary io f binary (pw_chunks w) of (got, cst) \<Rightarrow>
       let w1 = w\<lparr>pw_chunks := cst\<rparr>; bare = finish_create en rq f pid [] db
       in case got of
            Inl e \<Rightarrow> (Inl e, w1)
          | Inr None \<Rightarrow> (bare, w1)
          | Inr (Some (data, fname)) \<Rightarrow>
              if nf_initial_version f = [] \<or> data = [] then (bare, w1)
              else (case initial_file io f data fname (pw_files w1) of
                 None \<Rightarrow> (bare, w1)
               | Some (path, stripped, files) \<Rightarrow>
                   (bind_result (initial_statements rq ids f pid path (compute_checksum stripped) db) (finish_create en rq f pid (nf_initial_version f)),
                    w1\<lparr>pw_files := files\<rparr>)))"

definition catalog_create ::
  "admin_env \<Rightarrow> package_io \<Rightarrow> admin_request \<Rightarrow> package_ids \<Rightarrow> create_form \<Rightarrow> upload_file option \<Rightarrow> package_world \<Rightarrow> response result \<times> package_world" where
  "catalog_create en io rq ids f binary w =
     (case parse_template (nf_config_template f) of
        Inl e \<Rightarrow> (Inl e, w)
      | Inr tmpl \<Rightarrow>
          (case uploaded_icon io f (pw_chunks w) of (got, cst) \<Rightarrow>
            let w1 = w\<lparr>pw_chunks := cst\<rparr>
            in case got of
                 Inl e \<Rightarrow> (Inl e, w1)
               | Inr icon \<Rightarrow>
                   (case ae_connect en of Some e \<Rightarrow> (Inl e, w1) | None \<Rightarrow>
                    (case new_plugin en rq ids f icon tmpl (pw_db w1) of
                       Inl e \<Rightarrow> (bad_request en e, w1)
                     | Inr (pid, db) \<Rightarrow>
                         (case create_with_version en io rq ids f binary pid db w1 of
                            (Inl e, w2) \<Rightarrow> (bad_request en e, w2)
                          | (Inr (r, db'), w2) \<Rightarrow> (Inr r, w2\<lparr>pw_db := db'\<rparr>))))))"

section \<open>Platform defaults\<close>

lemma jget_dset_cases: "jget (dset k v d) j = (if j = k then v else jget d j)"
  by (simp add: jget_def)

lemma fill_get:
  assumes "distinct (map fst ps)"
  shows "jget (fold (\<lambda>(k, ph) d. if blank_value (jget d k) then dset k ph d else d) ps d) j =
    (case map_of ps j of Some ph \<Rightarrow> if blank_value (jget d j) then ph else jget d j | None \<Rightarrow> jget d j)"
  using assms
proof (induction ps arbitrary: d)
  case (Cons p ps)
  obtain k ph where p: "p = (k, ph)" by force
  have k: "map_of ps k = None" using Cons.prems by (simp add: p map_of_eq_None_iff)
  show ?case using Cons.IH [of "if blank_value (jget d k) then dset k ph d else d"] Cons.prems k
    by (auto simp: p jget_dset_cases split: option.splits)
qed simp

lemma fill_nothing:
  "(\<And>k. k \<in> fst ` set ps \<Longrightarrow> \<not> blank_value (jget d k)) \<Longrightarrow> fold (\<lambda>(k, ph) d. if blank_value (jget d k) then dset k ph d else d) ps d = d"
  by (induction ps) (auto simp: case_prod_beta)

lemma PLATFORM_DEFAULTS_keys: "distinct (map fst PLATFORM_DEFAULTS)"
  by (simp add: PLATFORM_DEFAULTS_def)

lemma PLATFORM_DEFAULTS_full: "map_of PLATFORM_DEFAULTS k = Some ph \<Longrightarrow> \<not> blank_value ph"
  by (auto simp: PLATFORM_DEFAULTS_def env_placeholder_def blank_value_def split: if_splits)

lemmas fill_section_get = fill_get [OF PLATFORM_DEFAULTS_keys, folded fill_section_def]

lemma fill_section_complete: "k \<in> fst ` set PLATFORM_DEFAULTS \<Longrightarrow> \<not> blank_value (jget (fill_section d) k)"
  using PLATFORM_DEFAULTS_full [of k] by (auto simp: fill_section_get split: option.splits dest: weak_map_of_SomeI)

text \<open>Every server profile ends with a value for each of the eight keys, and keeps the values it had; applying the defaults a
  second time changes nothing.\<close>

lemma platform_defaults_complete:
  assumes "apply_platform_defaults template = Inr (JObj t')" "(n, JObj d') \<in> set t'" "server_profile n"
  shows "\<forall>k \<in> fst ` set PLATFORM_DEFAULTS. \<not> blank_value (jget d' k)"
    "\<exists>t d. template = JObj t \<and> (n, JObj d) \<in> set t \<and> (\<forall>k. \<not> blank_value (jget d k) \<longrightarrow> jget d' k = jget d k)"
proof -
  obtain t where t: "template = JObj t" "t' = map (\<lambda>(n, sec). (n, case sec of JObj d \<Rightarrow> if server_profile n then JObj (fill_section d) else sec | _ \<Rightarrow> sec)) t"
    using assms(1) by (cases template) (simp_all add: apply_platform_defaults_def)
  obtain d where d: "(n, JObj d) \<in> set t" "d' = fill_section d"
    using assms(2,3) unfolding t(2) by (auto split: json.splits if_splits)
  show "\<forall>k \<in> fst ` set PLATFORM_DEFAULTS. \<not> blank_value (jget d' k)" using fill_section_complete by (simp add: d(2))
  have "jget d' k = jget d k" if "\<not> blank_value (jget d k)" for k using that by (simp add: d(2) fill_section_get split: option.splits)
  then show "\<exists>t d. template = JObj t \<and> (n, JObj d) \<in> set t \<and> (\<forall>k. \<not> blank_value (jget d k) \<longrightarrow> jget d' k = jget d k)" using t(1) d(1) by blast
qed

lemma fill_section_idem: "fill_section (fill_section d) = fill_section d"
  using fill_nothing [of PLATFORM_DEFAULTS "fill_section d"] fill_section_complete [of _ d] by (simp add: fill_section_def)

lemma platform_defaults_idem: "apply_platform_defaults template = Inr t \<Longrightarrow> apply_platform_defaults t = Inr t"
  by (cases template) (auto simp: apply_platform_defaults_def fill_section_idem split: json.splits)

section \<open>The name of a wizard deployment\<close>

text \<open>The loop over the archive reuses the variable of the form field: with at least one entry in the package the name the
  administrator gave has no effect at all.\<close>

lemma scan_forgets_name: "ns \<noteq> [] \<Longrightarrow> scan_names ze zs ns (a, t, m) = scan_names ze zs ns (b, t, m)"
  by (cases ns) simp_all

lemma wizard_name_has_no_effect:
  assumes "unzip (pk_zip io) (uf_data u) = Inr (z # zs)"
  shows "deploy_create en io rq ids (f\<lparr>wz_name := a\<rparr>) u w = deploy_create en io rq ids (f\<lparr>wz_name := b\<rparr>) u w"
proof -
  have "scan_package (pk_zip io) (uf_data u) a = scan_package (pk_zip io) (uf_data u) b"
    using assms scan_forgets_name [of "map z_name (z # zs)"] by (simp add: scan_package_def entries_def)
  moreover have "wizard_path io (f\<lparr>wz_name := a\<rparr>) = wizard_path io (f\<lparr>wz_name := b\<rparr>)" by (simp add: wizard_path_def fun_eq_iff)
  moreover have "wizard_work en rq ids (f\<lparr>wz_name := a\<rparr>) = wizard_work en rq ids (f\<lparr>wz_name := b\<rparr>)" by (simp add: wizard_work_def fun_eq_iff)
  moreover have "wz_name (f\<lparr>wz_name := x\<rparr>) = x" for x by simp
  ultimately show ?thesis by (simp only: deploy_create_def)
qed

text \<open>For a package without the server's metadata it is the name of the last entry.\<close>

lemma scan_plain:
  "list_all (\<lambda>n. \<not> is_config n \<and> \<not> is_manifest n) ns \<Longrightarrow> scan_names ze zs ns (a, t, m) = (if ns = [] then a else last ns, t, m)"
  by (induction ns arbitrary: a) auto

section \<open>The audience of a deployment\<close>

text \<open>What the statements after the campaign leave alone.\<close>

definition keeps_campaigns :: "admin_db \<Rightarrow> admin_db \<Rightarrow> bool" where
  "keeps_campaigns db db' = (ad_cohorts db' = ad_cohorts db \<and> ct_campaigns (ad_cat db') = ct_campaigns (ad_cat db))"

lemma keeps_trans: "keeps_campaigns a b \<Longrightarrow> keeps_campaigns b c \<Longrightarrow> keeps_campaigns a c"
  by (simp add: keeps_campaigns_def)

lemma audit_keeps: "audit en rq e db = Inr db' \<Longrightarrow> keeps_campaigns db db'"
  using audit_log_Inr by (fastforce simp: audit_def keeps_campaigns_def)

lemma reconcile_keeps: "safe_reconcile_catalog en rq source slug tmpl db = Inr db' \<Longrightarrow> keeps_campaigns db db'"
  by (auto simp: safe_reconcile_catalog_def keeps_campaigns_def put_flags_def Let_def case_prod_beta split: if_splits dest!: audit_log_Inr)

lemma wizard_template_keeps: "wizard_template en rq dt tmpl db = Inr db' \<Longrightarrow> keeps_campaigns db db'"
  by (auto simp: wizard_template_def spread_template_def keeps_campaigns_def Let_def split: if_splits dest!: reconcile_keeps)

lemma wizard_changelog_keeps: "wizard_changelog en dt mani db = Inr db' \<Longrightarrow> keeps_campaigns db db'"
  by (auto simp: wizard_changelog_def spread_changelog_def keeps_campaigns_def bind_result_eq_Inr split: if_splits)

lemma wizard_campaign_adds:
  assumes "wizard_campaign en rq cid name aid rollback coh stages pid db = Inr (i, db')"
  shows "i = cid \<and> ad_cohorts db' = ad_cohorts db \<and> ca_id ` set (ct_campaigns (ad_cat db')) = insert cid (ca_id ` set (ct_campaigns (ad_cat db))) \<and>
    (\<exists>c. c \<in> set (ct_campaigns (ad_cat db')) \<and> ca_id c = cid \<and> ca_status c = Some ''active'' \<and> ca_type c = Some ''plugin_update'' \<and> ca_name c = name \<and>
       ca_target_cohort_id c = coh \<and> ca_artifact_id c = Some aid) \<and>
    (\<forall>c \<in> set (ct_campaigns (ad_cat db')). ca_id c = cid \<longrightarrow> ca_target_cohort_id c = coh \<or> cid \<in> ca_id ` set (ct_campaigns (ad_cat db)))"
proof -
  obtain a cdb where a: "create_campaign (aq_now rq) cid a (campaign_db_of (ad_cat db)) = Inr (i, cdb)" "db' = put_campaigns cdb db"
    "ca_status a = Some ''active''" "ca_type a = Some ''plugin_update''" "ca_target_cohort_id a = coh" "ca_artifact_id a = Some aid" "ca_name a = name"
    using assms by (auto simp: wizard_campaign_def bind_result_eq_Inr)
  let ?old = "campaigns (complete_older (aq_now rq) (ca_type a) (ca_plugin_id a) (campaign_db_of (ad_cat db)))"
  define b where "b = (if truthy (ca_rollout_config a) then a else a\<lparr>ca_rollout_config := JNull\<rparr>)"
  have "i = cid" "ct_campaigns (ad_cat db') = ?old @ [new_row (aq_now rq) cid b]"
    using a(1-3) by (auto simp: b_def [symmetric] create_campaign_def insert_campaign_def put_campaigns_def split: if_splits)
  then have b: "b = a \<or> b = a\<lparr>ca_rollout_config := JNull\<rparr>" "i = cid" "ct_campaigns (ad_cat db') = ?old @ [new_row (aq_now rq) cid b]"
    by (simp_all add: b_def)
  have row: "ca_id (new_row n cid b) = cid" "ca_status (new_row n cid b) = ca_status b" "ca_type (new_row n cid b) = ca_type b" "ca_name (new_row n cid b) = ca_name b"
    "ca_target_cohort_id (new_row n cid b) = ca_target_cohort_id b" "ca_artifact_id (new_row n cid b) = ca_artifact_id b" for n
    by (simp_all add: new_row_def campaign_args.defs)
  have "map ca_id ?old = map ca_id (ct_campaigns (ad_cat db))" by (auto simp: complete_older_def campaign_db_of_def)
  then have ids: "ca_id ` set ?old = ca_id ` set (ct_campaigns (ad_cat db))" by (metis image_set)
  have fields: "ca_status b = Some ''active''" "ca_type b = Some ''plugin_update''" "ca_target_cohort_id b = coh" "ca_artifact_id b = Some aid" "ca_name b = name"
    using a(3-7) b(1) by auto
  have "ca_target_cohort_id c = coh \<or> cid \<in> ca_id ` set (ct_campaigns (ad_cat db))" if c: "c \<in> set (ct_campaigns (ad_cat db'))" "ca_id c = cid" for c
  proof -
    consider "c \<in> set ?old" | "c = new_row (aq_now rq) cid b" using c(1) unfolding b(3) by auto
    then show ?thesis by cases (use c(2) ids fields(3) row(5) in \<open>metis image_eqI\<close>, simp add: row(5) fields(3))
  qed
  moreover have "ad_cohorts db' = ad_cohorts db" by (simp add: a(2) put_campaigns_def)
  ultimately show ?thesis using ids row fields b(2) unfolding b(3) by auto
qed

lemma percent_cohort:
  assumes "target_cohort now cid stem pre suf ''percent'' existing percent emails cdb = Inr (coh, cdb')"
  shows "coh = Some cid \<and> (\<exists>row. cohorts cdb' = cohorts cdb @ [row] \<and> co_id row = cid \<and> co_type row = ''percentage'' \<and> co_config row = JObj [])"
  using assms by (auto simp: target_cohort_def create_cohort_def bind_result_eq_Inr split: option.splits if_splits)

lemma no_percentage_no_member:
  "co_type row = ''percentage'' \<Longrightarrow> co_config row = JObj [] \<Longrightarrow> cohort_matches re_match now db email cuuid row cache = (Inr False, cache)"
  by (simp add: cohort_matches_def cohort_config_def py_get_def dget_def)

lemma match_cohorts_without:
  assumes "\<And>r cache. r \<in> set rows \<Longrightarrow> co_id r = i \<Longrightarrow> fst (f r cache) \<noteq> Inr True" "match_cohorts f rows cache = (Inr cs, cache')"
  shows "i \<notin> set cs"
  using assms
proof (induction rows arbitrary: cache cs cache')
  case (Cons r rows)
  obtain b c1 where r: "f r cache = (Inr b, c1)" using Cons.prems(2) by (auto split: prod.splits sum.splits)
  obtain rest c2 where m: "match_cohorts f rows c1 = (Inr rest, c2)" using Cons.prems(2) r by (auto split: prod.splits sum.splits)
  have "i \<notin> set rest" using Cons.IH [OF _ m] Cons.prems(1) by simp
  moreover have "cs = (if b then co_id r # rest else rest)" using Cons.prems(2) r m by simp
  moreover have "b \<Longrightarrow> co_id r \<noteq> i" using Cons.prems(1) [of r cache] r by auto
  ultimately show ?case by (auto split: if_splits)
qed simp

lemma wizard_success:
  assumes "deploy_create en io rq ids f u w = (Inr r, w')"
  obtains data nm path tmpl mani aid c1 coh cdb stages rollback pid db2 title where
    "strip_dm_metadata_from_zip (pk_zip io) (uf_data u) = Inr data" "path = wizard_path io f nm (uf_filename u)"
    "write_file io path data (pw_files w) = Inr (pw_files w')"
    "create_artifact (aq_now rq) (ki_artifact ids) (wz_device_type f) (Some []) (wz_version f) path (compute_checksum data) None (ad_cat (pw_db w)) = Inr (aid, c1)"
    "target_cohort (aq_now rq) (ki_cohort ids) (''auto-'' @ wz_device_type f @ ''-'' @ wz_version f) ''Auto-created: '' []
       (wz_target_mode f) (wz_cohort_id f) (wz_percent f) (wz_emails f) (ad_cohorts (pw_db w)) = Inr (coh, cdb)"
    "wizard_campaign en rq (ki_campaign ids) title aid rollback coh stages pid (put_cohorts cdb ((pw_db w)\<lparr>ad_cat := c1\<rparr>)) = Inr (ki_campaign ids, db2)"
    "keeps_campaigns db2 (pw_db w')"
proof -
  obtain nm tmpl mani where sc: "scan_package (pk_zip io) (uf_data u) (wz_name f) = (nm, tmpl, mani)" by (metis prod_cases3)
  obtain data files where d: "strip_dm_metadata_from_zip (pk_zip io) (uf_data u) = Inr data"
      "write_file io (wizard_path io f nm (uf_filename u)) data (pw_files w) = Inr files"
      "transaction en (bad_request en) (wizard_work en rq ids f nm (wizard_path io f nm (uf_filename u)) (compute_checksum data) tmpl mani) (pw_db w) = (Inr r, pw_db w')"
      "pw_files w' = files"
    using assms by (auto simp: deploy_create_def sc Let_def split: option.splits if_splits sum.splits prod.splits)
  have "wizard_work en rq ids f nm (wizard_path io f nm (uf_filename u)) (compute_checksum data) tmpl mani (pw_db w) = Inr (r, pw_db w')"
    using d(3) by (auto simp: transaction_def bad_request_def split: option.splits sum.splits)
  then obtain aid c1 coh cdb stages rollback cid db2 db3 db4 pid title where
    1: "create_artifact (aq_now rq) (ki_artifact ids) (wz_device_type f) (Some []) (wz_version f) (wizard_path io f nm (uf_filename u)) (compute_checksum data) None (ad_cat (pw_db w)) = Inr (aid, c1)"
    and 2: "target_cohort (aq_now rq) (ki_cohort ids) (''auto-'' @ wz_device_type f @ ''-'' @ wz_version f) ''Auto-created: '' []
       (wz_target_mode f) (wz_cohort_id f) (wz_percent f) (wz_emails f) (ad_cohorts (pw_db w)) = Inr (coh, cdb)"
    and 3: "wizard_campaign en rq (ki_campaign ids) title aid rollback coh stages pid (put_cohorts cdb ((pw_db w)\<lparr>ad_cat := c1\<rparr>)) = Inr (cid, db2)"
    and 4: "wizard_template en rq (wz_device_type f) tmpl db2 = Inr db3" "wizard_changelog en (wz_device_type f) mani db3 = Inr db4"
    and 5: "\<exists>e. audit en rq e db4 = Inr (pw_db w')"
    by (auto simp: wizard_work_def Let_def bind_result_eq_Inr; blast)
  have "keeps_campaigns db2 (pw_db w')"
    using keeps_trans [OF keeps_trans [OF wizard_template_keeps [OF 4(1)] wizard_changelog_keeps [OF 4(2)]]] audit_keeps 5 by blast
  then show ?thesis using that d(1,2,4) 1 2 3 wizard_campaign_adds [OF 3] by blast
qed

text \<open>A cohort made for a percentage holds no percentage, so no device belongs to it; a campaign for it is never chosen.\<close>

lemma unreachable_campaign:
  assumes "target_cohort now k stem pre suf ''percent'' existing percent emails (ad_cohorts db0) = Inr (coh, cdb)" "k \<notin> co_id ` set (cohorts (ad_cohorts db0))"
    "wizard_campaign en rq cid title aid rollback coh stages pid (put_cohorts cdb db1) = Inr (i, db2)" "cid \<notin> ca_id ` set (ct_campaigns (ad_cat db1))"
    "keeps_campaigns db2 db3" "resolve_device_cohorts re_match t (ad_cohorts db3) email cuuid cache = (Inr cs, cache')"
    "resolve_active_campaign (campaign_db_of (ad_cat db3)) cs dt pv = Some v"
  shows "cv_campaign_id v \<noteq> cid"
proof
  assume v: "cv_campaign_id v = cid"
  note adds = wizard_campaign_adds [OF assms(3)]
  obtain row where row: "coh = Some k" "cohorts cdb = cohorts (ad_cohorts db0) @ [row]" "co_id row = k" "co_type row = ''percentage''" "co_config row = JObj []"
    using percent_cohort [OF assms(1)] by blast
  have c3: "ad_cohorts db3 = cdb" using assms(5) adds by (simp add: keeps_campaigns_def put_cohorts_def)
  have "r = row" if "r \<in> set (cohorts cdb)" "co_id r = k" for r using that row(2) assms(2) by (auto simp: image_iff)
  then have "k \<notin> set cs"
    using match_cohorts_without [OF _ assms(6) [unfolded resolve_device_cohorts_def c3], of k] no_percentage_no_member [OF row(4,5)] by (metis fst_conv sum.inject(2))
  moreover obtain c where c: "c \<in> set (eligible_campaigns (campaign_db_of (ad_cat db3)) cs)" "ca_id c = cid"
    using assms(7) v by (auto simp: resolve_active_campaign_def campaign_of_row_def Let_def split: option.splits if_splits dest!: newest_campaign_Some)
  moreover have "ca_target_cohort_id c = Some k"
    using c adds assms(4,5) row(1) by (auto simp: eligible_campaigns_def campaign_db_of_def keeps_campaigns_def put_cohorts_def)
  ultimately show False by (simp add: eligible_campaigns_def)
qed

section \<open>Upload of a version\<close>

lemma upload_success:
  assumes "catalog_version_upload en io rq ids pid f src w = (Inr r, w')"
  obtains data fname stripped tmpl mani p dt ver path aid vid db1 db2 where
    "fst (receive_package io src (pw_chunks w)) = Inr (data, fname)" "strip_dm_metadata_from_zip (pk_zip io) data = Inr stripped"
    "get_plugin (ad_cat (pw_db w)) pid = Some p" "package_path io p (up_version f) (up_platform_variant f) fname = Inr (dt, ver, path)"
    "write_file io path stripped (pw_files w) = Inr (pw_files w')"
    "version_statements en rq ids (cp_id p) f dt ver path (compute_checksum stripped) tmpl mani (pw_db w) = Inr (aid, vid, db1)"
    "\<exists>e. audit en rq e db1 = Inr db2"
    "if up_action f = ''deploy'' then deploy_version en rq ids p f dt ver aid db2 = Inr (pw_db w') else pw_db w' = db2"
proof -
  obtain got cst where g: "receive_package io src (pw_chunks w) = (got, cst)" by force
  obtain data fname where d: "got = Inr (data, fname)" using assms g by (auto simp: catalog_version_upload_def Let_def split: sum.splits prod.splits)
  obtain nm tmpl mani where sc: "scan_package (pk_zip io) data [] = (nm, tmpl, mani)" by (metis prod_cases3)
  obtain stripped where st: "strip_dm_metadata_from_zip (pk_zip io) data = Inr stripped"
    "store_version en io rq ids pid f stripped fname tmpl mani (w\<lparr>pw_chunks := cst\<rparr>) = (Inr r, w')"
    using assms by (auto simp: catalog_version_upload_def Let_def g d sc split: sum.splits if_splits)
  obtain p dt ver path files where p: "get_plugin (ad_cat (pw_db w)) pid = Some p" "package_path io p (up_version f) (up_platform_variant f) fname = Inr (dt, ver, path)"
    "write_file io path stripped (pw_files w) = Inr files" "upload_work en rq ids p f dt ver path (compute_checksum stripped) tmpl mani (pw_db w) = Inr (r, pw_db w')" "pw_files w' = files"
    using st(2) by (auto simp: store_version_def pass_http_def bad_request_def split: option.splits sum.splits prod.splits py_error.splits)
  obtain aid vid db1 db2 where "version_statements en rq ids (cp_id p) f dt ver path (compute_checksum stripped) tmpl mani (pw_db w) = Inr (aid, vid, db1)"
    "\<exists>e. audit en rq e db1 = Inr db2" "if up_action f = ''deploy'' then deploy_version en rq ids p f dt ver aid db2 = Inr (pw_db w') else pw_db w' = db2"
    using p(4) by (cases "up_action f = ''deploy''") (auto simp: upload_work_def bind_result_eq_Inr; blast)+
  then show ?thesis using that g d st(1) p by (metis fst_conv)
qed

lemma upload_failure: "catalog_version_upload en io rq ids pid f src w = (Inl e, w') \<Longrightarrow> pw_db w' = pw_db w"
  by (auto simp: catalog_version_upload_def store_version_def pass_http_def bad_request_def Let_def split: option.splits sum.splits prod.splits py_error.splits if_splits)

text \<open>What the later statements keep of versions and artifacts: all but the release notes.\<close>

definition summary :: "version_row \<Rightarrow> int \<times> int \<times> string \<times> string \<times> int option" where
  "summary v = (ve_id v, ve_plugin_id v, ve_version v, ve_status v, ve_artifact_id v)"

definition same_versions :: "cat_db \<Rightarrow> cat_db \<Rightarrow> bool" where
  "same_versions cat cat' = (ct_artifacts cat' = ct_artifacts cat \<and> map summary (ct_versions cat') = map summary (ct_versions cat))"

lemma same_versions_trans: "same_versions a b \<Longrightarrow> same_versions b c \<Longrightarrow> same_versions a c"
  by (simp add: same_versions_def)

lemma published_summary: "same_versions cat cat' \<Longrightarrow> summary ` published cat' pid = summary ` published cat pid"
proof -
  have "summary ` published c pid = {s \<in> set (map summary (ct_versions c)). fst (snd s) = pid \<and> fst (snd (snd (snd s))) = ''published''}" for c
    by (auto simp: published_def summary_def)
  moreover assume "same_versions cat cat'"
  ultimately show ?thesis unfolding same_versions_def by (simp only:)
qed

lemma same_versions_refl [simp]: "same_versions cat cat"
  by (simp add: same_versions_def)

lemma same_update: "update_plugin now i fs cat = Inr (b, cat') \<Longrightarrow> same_versions cat cat'"
  by (auto simp: update_plugin_def check_plugins_def bind_result_eq_Inr same_versions_def split: if_splits)

lemma same_pass_template: "pass_template en now pid tmpl cat = Inr cat' \<Longrightarrow> same_versions cat cat'"
  using same_update by (auto simp: pass_template_def bind_result_eq_Inr same_versions_def split: json.splits if_splits option.splits)

lemma same_notes: "same_versions cat (set_notes vid n cat)"
  by (auto simp: same_versions_def set_notes_def summary_def)

lemma same_manifest: "apply_manifest en now pid vid ver notes mani cat = Inr cat' \<Longrightarrow> same_versions cat cat'"
  by (auto simp: apply_manifest_def bind_result_eq_Inr Let_def split: if_splits option.splits
      dest!: same_update intro: same_versions_trans [OF same_notes])

lemma same_reconcile: "safe_reconcile_catalog en rq source slug tmpl db = Inr db' \<Longrightarrow> same_versions (ad_cat db) (ad_cat db')"
  by (auto simp: safe_reconcile_catalog_def same_versions_def put_flags_def Let_def case_prod_beta split: if_splits dest!: audit_log_Inr)

lemma same_audit: "audit en rq e db = Inr db' \<Longrightarrow> ad_cat db' = ad_cat db"
  using audit_log_Inr by (fastforce simp: audit_def)

lemma same_deploy: "deploy_version en rq ids p f dt ver aid db = Inr db' \<Longrightarrow> same_versions (ad_cat db) (ad_cat db')"
  by (auto simp: deploy_version_def Let_def bind_result_eq_Inr wizard_campaign_def same_versions_def put_campaigns_def put_cohorts_def split: if_splits dest!: same_audit)

lemma upsert_published:
  assumes u: "upsert_version row upd (db\<lparr>ct_versions := deprecate_others pid ver (ct_versions db)\<rparr>) = Inr (i, db')"
    and wf: "versions_ok db0" "ct_versions db0 = ct_versions db"
    and row: "ve_plugin_id row = pid" "ve_version row = ver" "summary row = (ve_id row, pid, ver, ''published'', Some aid)"
    and upd: "\<And>v. summary (upd v) = (ve_id v, ve_plugin_id v, ve_version v, ''published'', Some aid)"
  shows "summary ` published db' pid = {(i, pid, ver, ''published'', Some aid)}" "ct_artifacts db' = ct_artifacts db"
proof -
  let ?vs = "deprecate_others pid ver (ct_versions db)"
  have keys: "ve_plugin_id (upd v) = ve_plugin_id v" "ve_status (upd v) = ''published''" for v using upd [of v] by (simp_all add: summary_def)
  have "summary ` published db' pid = {(i, pid, ver, ''published'', Some aid)} \<and> ct_artifacts db' = ct_artifacts db"
  proof (cases "find (version_key pid ver) ?vs")
    case None
    have new: "i = ve_id row" "db' = db\<lparr>ct_versions := ?vs @ [row]\<rparr>" using u None row(1,2) by (auto simp: upsert_version_def split: if_splits)
    have "published db' pid = {row}"
      using None row(3) deprecated_stale unfolding published_def new(2) by (auto simp: find_None_iff version_key_def summary_def)
    then show ?thesis using new row(3) by simp
  next
    case (Some old)
    have old: "old \<in> set ?vs" "version_key pid ver old" using Some by (auto simp: find_Some_iff)
    have again: "i = ve_id old" "db' = db\<lparr>ct_versions := map (\<lambda>v. if version_key pid ver v then upd v else v) ?vs\<rparr>"
      using u Some row(1,2) by (auto simp: upsert_version_def split: if_splits)
    have only: "v = old" if "v \<in> set ?vs" "version_key pid ver v" for v
      using deprecated_unique [OF wf(1), of v pid ver old] that old by (simp add: wf(2))
    have "x \<in> published db' pid \<longleftrightarrow> x = upd old" for x
    proof
      assume "x \<in> published db' pid"
      then obtain v where v: "v \<in> set ?vs" "x = (if version_key pid ver v then upd v else v)" "ve_plugin_id x = pid" "ve_status x = ''published''"
        unfolding published_def again(2) by auto
      then have "version_key pid ver v" using deprecated_stale [OF v(1)] keys by (auto simp: version_key_def split: if_splits)
      then show "x = upd old" using v only by simp
    next
      assume "x = upd old"
      moreover have "upd old = (if version_key pid ver old then upd old else old)" using old(2) by simp
      ultimately show "x \<in> published db' pid" using old keys unfolding published_def again(2) by (auto simp: version_key_def)
    qed
    then have "published db' pid = {upd old}" by blast
    then show ?thesis using again old(2) upd by (simp add: version_key_def)
  qed
  then show "summary ` published db' pid = {(i, pid, ver, ''published'', Some aid)}" "ct_artifacts db' = ct_artifacts db" by simp_all
qed

lemma version_statements_success:
  assumes "version_statements en rq ids pid f dt ver path chk tmpl mani db = Inr (aid, vid, db')"
  obtains c1 c2 where "create_artifact (aq_now rq) (ki_artifact ids) dt (Some (up_platform_variant f)) ver path chk None (ad_cat db) = Inr (aid, c1)"
    "create_version (aq_now rq) (uploaded_row rq (ki_version ids) pid f ver aid) c1 = Inr (vid, c2)" "same_versions c2 (ad_cat db')"
proof -
  obtain c1 c2 c3 db4 c5 where c: "create_artifact (aq_now rq) (ki_artifact ids) dt (Some (up_platform_variant f)) ver path chk None (ad_cat db) = Inr (aid, c1)"
    "create_version (aq_now rq) (uploaded_row rq (ki_version ids) pid f ver aid) c1 = Inr (vid, c2)"
    "(if up_platform_variant f = [] then Inr c2
      else link_version_artifact \<lparr>li_version_id = vid, li_artifact_id = aid, li_variant = up_platform_variant f\<rparr> c2) = Inr c3"
    "(if truthy tmpl then bind_result (pass_template en (aq_now rq) pid tmpl c3) (\<lambda>c. reconcile_plugin en rq ''admin:catalog-version-upload'' pid tmpl (db\<lparr>ad_cat := c\<rparr>))
      else Inr (db\<lparr>ad_cat := c3\<rparr>)) = Inr db4"
    "apply_manifest en (aq_now rq) pid vid ver (up_release_notes f) mani (ad_cat db4) = Inr c5" "db' = db4\<lparr>ad_cat := c5\<rparr>"
    using assms by (auto simp: version_statements_def bind_result_eq_Inr)
  have "same_versions c2 c3" using c(3) by (auto simp: link_version_artifact_def same_versions_def split: if_splits)
  moreover have "same_versions c3 (ad_cat db4)"
    using c(4) same_reconcile by (fastforce simp: bind_result_eq_Inr reconcile_plugin_def Let_def split: if_splits dest!: same_pass_template intro: same_versions_trans)
  moreover have "same_versions (ad_cat db4) (ad_cat db')" using same_manifest [OF c(5)] by (simp add: c(6))
  ultimately have "same_versions c2 (ad_cat db')" by (blast intro: same_versions_trans)
  then show ?thesis using that c(1,2) by blast
qed

lemma uploaded_published:
  assumes "create_version now (uploaded_row rq vid0 pid f ver aid) c1 = Inr (vid, c2)" "versions_ok db0" "ct_versions c1 = ct_versions db0" "aid \<noteq> 0"
  shows "summary ` published c2 pid = {(vid, pid, ver, ''published'', Some aid)}" "ct_artifacts c2 = ct_artifacts c1"
proof -
  let ?row = "uploaded_row rq vid0 pid f ver aid"
  have r: "ve_plugin_id ?row = pid" "ve_version ?row = ver" "ve_status ?row = ''published''" "ve_artifact_id ?row = Some aid"
    using assms(4) by (simp_all add: uploaded_row_def)
  note u = assms(1) [unfolded create_version_def Let_def r if_True simp_thms]
  show "summary ` published c2 pid = {(vid, pid, ver, ''published'', Some aid)}" "ct_artifacts c2 = ct_artifacts c1"
    by (rule upsert_published [OF u assms(2)]; simp add: summary_def r assms(3) coalesce_def)+
qed

lemma create_artifact_get:
  assumes "create_artifact now a dt variant ver path chk url cat = Inr (i, cat')" "cat_wf cat" "a \<notin> ar_id ` set (ct_artifacts cat)"
  shows "\<exists>ar. get_artifact cat' i = Some ar \<and> ar_version ar = ver \<and> ar_s3_path ar = Some path \<and> ar_checksum ar = Some chk"
    "ct_versions cat' = ct_versions cat" "i \<in> insert a (ar_id ` set (ct_artifacts cat))"
proof -
  note u = assms(1) [unfolded create_artifact_def]
  show "\<exists>ar. get_artifact cat' i = Some ar \<and> ar_version ar = ver \<and> ar_s3_path ar = Some path \<and> ar_checksum ar = Some chk"
    using upsert_artifact_get [OF u] assms(2,3) by (auto simp: cat_wf_def)
  show "ct_versions cat' = ct_versions cat" using upsert_artifact_only [OF u] by auto
  show "i \<in> insert a (ar_id ` set (ct_artifacts cat))" using u by (auto simp: upsert_artifact_def find_Some_iff split: if_splits option.splits)
qed

lemma join_inside:
  "join_binaries io rel = Inr path \<Longrightarrow> path = resolved io (pk_dir io) \<or> startswith path (resolved io (pk_dir io) @ ''/'')"
  by (auto simp: join_binaries_def safe_path_join_def resolved_def Let_def slash_def split: if_splits)

text \<open>Property C36. Upload of a version through the administration pages: when the answer is a success, the package without the server's
  metadata is in the store, at a place below the directory of the binaries; one artifact points to it with its checksum, and of the
  plugin exactly the uploaded version is published, with that artifact. Every other answer leaves the database as it was.\<close>

theorem version_upload_publishes:
  assumes "catalog_version_upload en io rq ids pid f src w = (out, w')" "cat_wf (ad_cat (pw_db w))"
    "ki_artifact ids \<notin> ar_id ` set (ct_artifacts (ad_cat (pw_db w)))" "0 \<notin> insert (ki_artifact ids) (ar_id ` set (ct_artifacts (ad_cat (pw_db w))))"
  shows "case out of
      Inl e \<Rightarrow> pw_db w' = pw_db w
    | Inr r \<Rightarrow> \<exists>data fname stripped path ver aid vid ar.
        fst (receive_package io src (pw_chunks w)) = Inr (data, fname) \<and> strip_dm_metadata_from_zip (pk_zip io) data = Inr stripped \<and>
        (path = resolved io (pk_dir io) \<or> startswith path (resolved io (pk_dir io) @ ''/'')) \<and> dget (pw_files w') (resolved io path) = Some stripped \<and>
        safe_segment (up_version f) ''version'' = Inr ver \<and>
        get_artifact (ad_cat (pw_db w')) aid = Some ar \<and> ar_version ar = ver \<and> ar_s3_path ar = Some path \<and> ar_checksum ar = Some (compute_checksum stripped) \<and>
        summary ` published (ad_cat (pw_db w')) pid = {(vid, pid, ver, ''published'', Some aid)}"
proof (cases out)
  case (Inl e)
  then show ?thesis using upload_failure assms(1) by simp
next
  case (Inr r)
  from upload_success [OF assms(1) [unfolded Inr]] obtain data fname stripped tmpl mani p dt ver path aid vid db1 db2 where
    got: "fst (receive_package io src (pw_chunks w)) = Inr (data, fname)" "strip_dm_metadata_from_zip (pk_zip io) data = Inr stripped"
    and p: "get_plugin (ad_cat (pw_db w)) pid = Some p" "package_path io p (up_version f) (up_platform_variant f) fname = Inr (dt, ver, path)"
    and stored: "write_file io path stripped (pw_files w) = Inr (pw_files w')"
    and st: "version_statements en rq ids (cp_id p) f dt ver path (compute_checksum stripped) tmpl mani (pw_db w) = Inr (aid, vid, db1)"
    and rest: "\<exists>e. audit en rq e db1 = Inr db2" "if up_action f = ''deploy'' then deploy_version en rq ids p f dt ver aid db2 = Inr (pw_db w') else pw_db w' = db2" .
  have pid: "cp_id p = pid" using p(1) by (auto simp: get_plugin_def find_Some_iff)
  obtain c1 c2 where c: "create_artifact (aq_now rq) (ki_artifact ids) dt (Some (up_platform_variant f)) ver path (compute_checksum stripped) None (ad_cat (pw_db w)) = Inr (aid, c1)"
    "create_version (aq_now rq) (uploaded_row rq (ki_version ids) pid f ver aid) c1 = Inr (vid, c2)" "same_versions c2 (ad_cat db1)"
    by (rule version_statements_success [OF st [unfolded pid]])
  note art = create_artifact_get [OF c(1) assms(2,3)]
  have "versions_ok (ad_cat (pw_db w))" using assms(2) by (simp add: cat_wf_def)
  note pub = uploaded_published [OF c(2) this art(2)]
  have "aid \<noteq> 0" using art(3) assms(4) by metis
  note pub = pub [OF this]
  have "ad_cat db2 = ad_cat db1" using rest(1) same_audit by blast
  moreover have "same_versions (ad_cat db2) (ad_cat (pw_db w'))" using rest(2) same_deploy by (auto split: if_splits)
  ultimately have same: "same_versions c2 (ad_cat (pw_db w'))" using c(3) same_versions_trans by metis
  have versions: "summary ` published (ad_cat (pw_db w')) pid = {(vid, pid, ver, ''published'', Some aid)}"
    using published_summary [OF same] pub(1) by simp
  have "ct_artifacts (ad_cat (pw_db w')) = ct_artifacts c1" using same pub(2) by (simp add: same_versions_def)
  then obtain ar where ar: "get_artifact (ad_cat (pw_db w')) aid = Some ar" "ar_version ar = ver" "ar_s3_path ar = Some path" "ar_checksum ar = Some (compute_checksum stripped)"
    using art(1) by (auto simp: get_artifact_def)
  have seg: "safe_segment (up_version f) ''version'' = Inr ver" and rel: "\<exists>rel. join_binaries io rel = Inr path"
    using p(2) by (auto simp: package_path_def bind_result_eq_Inr Let_def)
  have inside: "path = resolved io (pk_dir io) \<or> startswith path (resolved io (pk_dir io) @ ''/'')" using rel join_inside by blast
  have "pw_files w' = dset (resolved io path) stripped (pw_files w)" using stored by (auto simp: write_file_def split: option.splits)
  then have content: "dget (pw_files w') (resolved io path) = Some stripped" by simp
  show ?thesis unfolding Inr sum.case by (intro exI conjI; fact)
qed

lemma version_statements_keep:
  assumes "version_statements en rq ids pid f dt ver path chk tmpl mani db = Inr (aid, vid, db')"
  shows "keeps_campaigns db db'"
proof -
  have artifact: "create_artifact now a dt' variant ver' path' chk' url c = Inr (i, c') \<Longrightarrow> ct_campaigns c' = ct_campaigns c" for now a dt' variant ver' path' chk' url c i c'
    using upsert_artifact_only by (fastforce simp: create_artifact_def)
  have version: "create_version now row c = Inr (i, c') \<Longrightarrow> ct_campaigns c' = ct_campaigns c" for now row c i c'
    by (auto simp: create_version_def upsert_version_def Let_def split: if_splits option.splits)
  have link: "link_version_artifact l c = Inr c' \<Longrightarrow> ct_campaigns c' = ct_campaigns c" for l c c'
    by (auto simp: link_version_artifact_def split: if_splits)
  have update: "update_plugin now i fs c = Inr (b, c') \<Longrightarrow> ct_campaigns c' = ct_campaigns c" for now i fs c b c'
    by (auto simp: update_plugin_def check_plugins_def bind_result_eq_Inr split: if_splits)
  have pass: "pass_template en now i tmpl c = Inr c' \<Longrightarrow> ct_campaigns c' = ct_campaigns c" for now i c c'
    by (auto simp: pass_template_def bind_result_eq_Inr split: json.splits if_splits option.splits dest!: update)
  have manifest: "apply_manifest en now i v ver' rn mani c = Inr c' \<Longrightarrow> ct_campaigns c' = ct_campaigns c" for now i v ver' rn c c'
    by (auto simp: apply_manifest_def bind_result_eq_Inr Let_def set_notes_def split: if_splits option.splits dest!: update)
  show ?thesis using assms
    by (auto simp: version_statements_def bind_result_eq_Inr reconcile_plugin_def Let_def keeps_campaigns_def split: if_splits
        dest!: artifact version link pass manifest reconcile_keeps)
qed

text \<open>Either route, reduced to the two statements that matter.\<close>

definition percent_campaign :: "admin_env \<Rightarrow> admin_request \<Rightarrow> package_ids \<Rightarrow> admin_db \<Rightarrow> admin_db \<Rightarrow> bool" where
  "percent_campaign en rq ids db db' = (\<exists>stem pre suf existing percent emails coh cdb title aid rollback stages pid db1 db2.
     target_cohort (aq_now rq) (ki_cohort ids) stem pre suf ''percent'' existing percent emails (ad_cohorts db) = Inr (coh, cdb) \<and>
     wizard_campaign en rq (ki_campaign ids) title aid rollback coh stages pid (put_cohorts cdb db1) = Inr (ki_campaign ids, db2) \<and>
     ct_campaigns (ad_cat db1) = ct_campaigns (ad_cat db) \<and> keeps_campaigns db2 db')"

lemma wizard_percent:
  assumes "deploy_create en io rq ids f u w = (Inr r, w')" "wz_target_mode f = ''percent''"
  shows "percent_campaign en rq ids (pw_db w) (pw_db w')"
proof (rule wizard_success [OF assms(1)])
  fix data nm path tmpl mani aid c1 coh cdb stages rollback pid db2 title
  assume w: "create_artifact (aq_now rq) (ki_artifact ids) (wz_device_type f) (Some []) (wz_version f) path (compute_checksum data) None (ad_cat (pw_db w)) = Inr (aid, c1)"
    "target_cohort (aq_now rq) (ki_cohort ids) (''auto-'' @ wz_device_type f @ ''-'' @ wz_version f) ''Auto-created: '' []
       (wz_target_mode f) (wz_cohort_id f) (wz_percent f) (wz_emails f) (ad_cohorts (pw_db w)) = Inr (coh, cdb)"
    "wizard_campaign en rq (ki_campaign ids) title aid rollback coh stages pid (put_cohorts cdb ((pw_db w)\<lparr>ad_cat := c1\<rparr>)) = Inr (ki_campaign ids, db2)"
    "keeps_campaigns db2 (pw_db w')"
  have "ct_campaigns (ad_cat ((pw_db w)\<lparr>ad_cat := c1\<rparr>)) = ct_campaigns (ad_cat (pw_db w))"
    using w(1) upsert_artifact_only by (fastforce simp: create_artifact_def)
  then show ?thesis unfolding percent_campaign_def using w(2-4) assms(2) by metis
qed

lemma upload_percent:
  assumes "catalog_version_upload en io rq ids pid f src w = (Inr r, w')" "up_action f = ''deploy''" "up_target_mode f = ''percent''"
  shows "percent_campaign en rq ids (pw_db w) (pw_db w')"
proof -
  from upload_success [OF assms(1)] obtain p dt ver aid db1 db2 where
    "keeps_campaigns (pw_db w) db1" "\<exists>e. audit en rq e db1 = Inr db2" "deploy_version en rq ids p f dt ver aid db2 = Inr (pw_db w')"
    using assms(2) version_statements_keep by metis
  then have keep: "keeps_campaigns (pw_db w) db2" and d: "deploy_version en rq ids p f dt ver aid db2 = Inr (pw_db w')"
    using audit_keeps keeps_trans by blast+
  obtain coh cdb stages cid db3 e title where t: "target_cohort (aq_now rq) (ki_cohort ids) (''auto-'' @ dt @ ''-'' @ ver @ ''-'' @ up_environment f) ''Auto: '' ('' on '' @ up_environment f)
        ''percent'' (up_cohort_id f) (up_percent f) (up_emails f) (ad_cohorts db2) = Inr (coh, cdb)"
      "wizard_campaign en rq (ki_campaign ids) title aid None coh stages (Some (cp_id p)) (put_cohorts cdb db2) = Inr (cid, db3)" "audit en rq e db3 = Inr (pw_db w')"
    using d assms(3) by (auto simp: deploy_version_def Let_def bind_result_eq_Inr split: if_splits)
  have "cid = ki_campaign ids" using wizard_campaign_adds [OF t(2)] by simp
  moreover have "ad_cohorts db2 = ad_cohorts (pw_db w)" "ct_campaigns (ad_cat db2) = ct_campaigns (ad_cat (pw_db w))" using keep by (simp_all add: keeps_campaigns_def)
  ultimately show ?thesis unfolding percent_campaign_def using t audit_keeps [OF t(3)] by metis
qed

text \<open>A deployment to a percentage of the devices reaches none of them: the cohort the wizard and the upload form create for
  it is stored without its percentage, so no device belongs to it, and the new campaign is chosen for no device, whatever its
  cohorts, type and version.\<close>

theorem percent_deployment_reaches_nobody:
  assumes "deploy_create en io rq ids fw u w = (Inr r, w') \<and> wz_target_mode fw = ''percent'' \<or>
      catalog_version_upload en io rq ids pid fu src w = (Inr r, w') \<and> up_action fu = ''deploy'' \<and> up_target_mode fu = ''percent''"
    "ki_cohort ids \<notin> co_id ` set (cohorts (ad_cohorts (pw_db w)))" "ki_campaign ids \<notin> ca_id ` set (ct_campaigns (ad_cat (pw_db w)))"
  shows "(\<exists>c \<in> set (ct_campaigns (ad_cat (pw_db w'))). ca_id c = ki_campaign ids \<and> ca_status c = Some ''active'') \<and>
    (\<forall>re_match t email cuuid cache cs cache' dt pv v.
      resolve_device_cohorts re_match t (ad_cohorts (pw_db w')) email cuuid cache = (Inr cs, cache') \<longrightarrow>
      resolve_active_campaign (campaign_db_of (ad_cat (pw_db w'))) cs dt pv = Some v \<longrightarrow> cv_campaign_id v \<noteq> ki_campaign ids)"
proof -
  have "percent_campaign en rq ids (pw_db w) (pw_db w')" using assms(1) wizard_percent upload_percent by metis
  then obtain stem pre suf existing percent emails coh cdb title aid rollback stages plugin db1 db2 where
    t: "target_cohort (aq_now rq) (ki_cohort ids) stem pre suf ''percent'' existing percent emails (ad_cohorts (pw_db w)) = Inr (coh, cdb)"
    and c: "wizard_campaign en rq (ki_campaign ids) title aid rollback coh stages plugin (put_cohorts cdb db1) = Inr (ki_campaign ids, db2)"
    and k: "ct_campaigns (ad_cat db1) = ct_campaigns (ad_cat (pw_db w))" "keeps_campaigns db2 (pw_db w')"
    unfolding percent_campaign_def by blast
  have "\<exists>c \<in> set (ct_campaigns (ad_cat (pw_db w'))). ca_id c = ki_campaign ids \<and> ca_status c = Some ''active''"
    using wizard_campaign_adds [OF c] k(2) by (auto simp: keeps_campaigns_def)
  moreover have "ki_campaign ids \<notin> ca_id ` set (ct_campaigns (ad_cat db1))" using assms(3) k(1) by simp
  ultimately show ?thesis using unreachable_campaign [OF t assms(2) c _ k(2)] by blast
qed

definition demo_pk :: package_io where
  "demo_pk = \<lparr>pk_zip = demo_env, pk_disk = demo_disk, pk_dir = ''/data'', pk_write = (\<lambda>_. None), pk_listed = []\<rparr>"

definition demo_pk_ids :: package_ids where
  "demo_pk_ids = \<lparr>ki_artifact = 1, ki_version = 1, ki_cohort = 7, ki_campaign = 3, ki_plugin = 2\<rparr>"

definition demo_upload :: upload_form where
  "demo_upload = upload_form_of (map_of [(''version'', ''1.0''), (''target_mode'', ''percent'')])"

definition demo_source :: package_source where
  "demo_source = Attached (Some \<lparr>uf_filename = ''p.oxt'', uf_size = Some 3, uf_data = ''zip''\<rparr>)"

definition demo_pk_world :: package_world where
  "demo_pk_world = \<lparr>pw_db = demo_admin_db, pw_files = [], pw_chunks = (\<lambda>_. None)\<rparr>"

lemma demo_upload_fields:
  "up_version demo_upload = ''1.0''" "up_platform_variant demo_upload = []" "up_action demo_upload = ''deploy''" "up_target_mode demo_upload = ''percent''"
  "up_percent demo_upload = ''10''" "up_environment demo_upload = ''dev''" "up_deploy_strategy demo_upload = ''patch_all''" "up_release_notes demo_upload = []"
  "up_distribution_mode demo_upload = ''managed''" "up_min_host demo_upload = []" "up_max_host demo_upload = []"
  by code_simp+

lemma demo_received: "receive_package demo_pk demo_source c = (Inr (''zip'', JStr ''p.oxt''), c)"
proof -
  have "validate_upload (pk_listed demo_pk) ''p.oxt'' 3 = None" by code_simp
  then show ?thesis by (simp add: receive_package_def demo_source_def)
qed

lemma demo_contents: "strip_dm_metadata_from_zip (pk_zip demo_pk) ''zip'' = Inr ''main.py''" "scan_package (pk_zip demo_pk) ''zip'' [] = (''dm-config.json'', JNull, JNull)"
  "package_path demo_pk (demo_cat_plugin ''active'') ''1.0'' [] (JStr ''p.oxt'') = Inr (''libreoffice'', ''1.0'', ''/data/libreoffice/p-1.0.oxt'')"
  by code_simp+

lemma demo_version_statements:
  "\<exists>db1. version_statements demo_admin_env Admin.demo_request demo_pk_ids 1 demo_upload ''libreoffice'' ''1.0'' path (compute_checksum d) JNull JNull demo_admin_db = Inr (1, 1, db1) \<and>
     ad_cohorts db1 = ad_cohorts demo_admin_db \<and> map ar_id (ct_artifacts (ad_cat db1)) = [1] \<and> ct_plugins (ad_cat db1) = [demo_cat_plugin ''active''] \<and> ct_campaigns (ad_cat db1) = []"
  by (simp add: version_statements_def demo_upload_fields create_artifact_def upsert_artifact_def checksum_fits [unfolded varchar_ok_def] varchar_ok_def demo_pk_ids_def
    demo_admin_db_def empty_cat_def demo_cat_plugin_def str_or_def create_version_def upsert_version_def version_ok_def uploaded_row_def form_text_def deprecate_others_def version_statuses_def
    distribution_modes_def fk_ok_def apply_manifest_def manifest_changelog_def)

lemma demo_audit:
  assumes "ct_plugins (ad_cat db) = [demo_cat_plugin ''active'']" "dget pl ''plugin_slug'' = None" "dget pl ''plugin_id'' = Some (JInt 1)" "ty \<notin> {''plugin'', ''flag''}"
  shows "\<exists>row. audit demo_admin_env Admin.demo_request (entry act ty rid pl) db = Inr (db\<lparr>ad_audit := ad_audit db @ [row]\<rparr>)"
proof -
  have s: "str_of_int 1 = ''1''" "isdigit ''1''" "py_int ''1'' = Some 1" "strip (py_str (JStr [])) = []" by code_simp+
  have "get_plugin (ad_cat db) 1 = Some (demo_cat_plugin ''active'')" using assms(1) by (simp add: get_plugin_def demo_cat_plugin_def)
  then have "derive_audit_plugin ty (Some rid) pl db = Inr (Some ''p'')"
    using assms(2-4) by (simp add: derive_audit_plugin_def jget_or_def jget_def s or_else_def plugin_slug_of_def Let_def demo_cat_plugin_def)
  then show ?thesis
    by (simp add: audit_def audit_log_def entry_def actor_field_def Admin.demo_request_def sql_param_def demo_admin_env_def demo_pg_def dget_def varchar_ok_def Let_def) blast
qed

lemma demo_deploys_percent:
  assumes "ct_plugins (ad_cat db) = [demo_cat_plugin ''active'']" "ad_cohorts db = ad_cohorts demo_admin_db" "map ar_id (ct_artifacts (ad_cat db)) = [1]"
  shows "\<exists>db'. deploy_version demo_admin_env Admin.demo_request demo_pk_ids (demo_cat_plugin ''active'') demo_upload ''libreoffice'' ''1.0'' 1 db = Inr db'"
proof -
  let ?p = "demo_cat_plugin ''active''" and ?name = "''auto-libreoffice-1.0-dev-10pct''"
  have n: "py_int ''10'' = Some 10" "clamp_percent 10 = 10" "str_of_int 10 = ''10''" by code_simp+
  define cdb where "cdb = (ad_cohorts db)\<lparr>cohorts := [\<lparr>co_id = 7, co_name = ?name, co_description = ''Auto: 10% rollout on dev'', co_type = ''percentage'', co_config = JObj []\<rparr>]\<rparr>"
  have t: "target_cohort 0 7 ''auto-libreoffice-1.0-dev'' ''Auto: '' '' on dev'' ''percent'' ex ''10'' em (ad_cohorts db) = Inr (Some 7, cdb)" for ex em
    using assms(2) by (simp add: target_cohort_def n create_cohort_def cdb_def demo_admin_db_def)
  have arts: "ar_id ` set (ct_artifacts (ad_cat db)) = {1}" using assms(3) by (metis image_set list.set(1,2))
  obtain db2 where c: "wizard_campaign demo_admin_env Admin.demo_request 3 ''MaJ P 1.0 [dev]'' 1 None (Some 7) JNull (Some 1) (put_cohorts cdb db) = Inr (3, db2)"
    "ct_plugins (ad_cat db2) = [?p]"
    using assms(1) arts by (simp add: wizard_campaign_def sql_param_def Admin.demo_request_def jget_def dget_def create_campaign_def insert_campaign_def args_ok_def in_check_def
        campaign_types_def campaign_statuses_def urgencies_def fk_ok_def complete_older_def campaign_db_of_def put_cohorts_def put_campaigns_def cdb_def demo_cat_plugin_def artifact_row.defs image_iff)
  have a: "\<exists>row. audit demo_admin_env Admin.demo_request (entry ''deploy.create'' ''campaign'' (str_of_int 3)
      [(''plugin_id'', JInt 1), (''version'', JStr ''1.0''), (''environment'', JStr ''dev''), (''strategy'', JStr ''patch_all'')]) db2 = Inr (db2\<lparr>ad_audit := ad_audit db2 @ [row]\<rparr>)"
    by (rule demo_audit [OF c(2)]) (simp_all add: dget_def)
  have ids: "ki_cohort demo_pk_ids = 7" "ki_campaign demo_pk_ids = 3" "aq_now Admin.demo_request = 0" "cp_id ?p = 1" "cp_name ?p = ''P''"
    by (simp_all add: demo_pk_ids_def Admin.demo_request_def demo_cat_plugin_def)
  show ?thesis unfolding deploy_version_def Let_def demo_upload_fields ids using t c(1) a by (auto simp: rollout_of_def varchar_ok_def)
qed

lemma demo_uploads: "\<exists>r w'. catalog_version_upload demo_admin_env demo_pk Admin.demo_request demo_pk_ids 1 demo_upload demo_source demo_pk_world = (Inr r, w')"
proof -
  let ?p = "demo_cat_plugin ''active''" and ?path = "''/data/libreoffice/p-1.0.oxt''" and ?chk = "compute_checksum ''main.py''"
  obtain db1 where v: "version_statements demo_admin_env Admin.demo_request demo_pk_ids 1 demo_upload ''libreoffice'' ''1.0'' ?path ?chk JNull JNull demo_admin_db = Inr (1, 1, db1)"
    and d1: "ad_cohorts db1 = ad_cohorts demo_admin_db" "map ar_id (ct_artifacts (ad_cat db1)) = [1]" "ct_plugins (ad_cat db1) = [?p]"
    using demo_version_statements [of ?path "''main.py''"] by (elim exE conjE)
  let ?e = "entry ''version.upload'' ''plugin_version'' (str_of_int 1) [(''plugin_id'', JInt 1), (''version'', JStr ''1.0''), (''has_config_template'', JBool (truthy JNull))]"
  have "\<exists>row. audit demo_admin_env Admin.demo_request ?e db1 = Inr (db1\<lparr>ad_audit := ad_audit db1 @ [row]\<rparr>)"
    by (rule demo_audit [OF d1(3)]) (simp_all add: dget_def)
  then obtain row where a: "audit demo_admin_env Admin.demo_request ?e db1 = Inr (db1\<lparr>ad_audit := ad_audit db1 @ [row]\<rparr>)" ..
  obtain db' where "deploy_version demo_admin_env Admin.demo_request demo_pk_ids ?p demo_upload ''libreoffice'' ''1.0'' 1 (db1\<lparr>ad_audit := ad_audit db1 @ [row]\<rparr>) = Inr db'"
    using demo_deploys_percent [of "db1\<lparr>ad_audit := ad_audit db1 @ [row]\<rparr>"] d1 by auto
  moreover have one: "cp_id ?p = 1" by (simp add: demo_cat_plugin_def)
  ultimately obtain r where work: "upload_work demo_admin_env Admin.demo_request demo_pk_ids ?p demo_upload ''libreoffice'' ''1.0'' ?path ?chk JNull JNull demo_admin_db = Inr (r, db')"
    unfolding upload_work_def demo_upload_fields one v bind_result_def sum.case prod.case a by (simp del: truthy.simps)
  have p: "get_plugin (ad_cat demo_admin_db) 1 = Some ?p" by (simp add: get_plugin_def demo_admin_db_def demo_cat_plugin_def)
  have w: "write_file demo_pk ?path d fs = Inr (dset (resolved demo_pk ?path) d fs)" for d fs by (simp add: write_file_def demo_pk_def)
  have io: "ae_connect demo_admin_env = None" "pw_db demo_pk_world = demo_admin_db" by (simp_all add: demo_admin_env_def demo_pk_world_def)
  have "\<exists>w'. store_version demo_admin_env demo_pk Admin.demo_request demo_pk_ids 1 demo_upload ''main.py'' (JStr ''p.oxt'') JNull JNull demo_pk_world = (Inr r, w')"
    unfolding store_version_def io option.case p demo_upload_fields demo_contents sum.case prod.case w work by blast
  moreover have "\<not> int (length ''zip'') > MAX_UPLOAD_SIZE" by code_simp
  ultimately show ?thesis
    unfolding catalog_version_upload_def demo_received demo_upload_fields by (auto simp: Let_def demo_contents)
qed

lemma demo_admin_wf: "cat_wf (ad_cat demo_admin_db)"
  by (simp add: demo_admin_db_def demo_cat_plugin_def empty_cat_def cat_wf_def plugin_ok_def varchar_ok_def visibilities_def plugin_statuses_def
      slugs_unique_def versions_ok_def artifacts_ok_def links_ok_def)

theorem version_upload_publishes_witness:
  "\<exists>r w'. catalog_version_upload demo_admin_env demo_pk Admin.demo_request demo_pk_ids 1 demo_upload demo_source demo_pk_world = (Inr r, w') \<and>
     (\<exists>path vid aid. (path = ''/data'' \<or> startswith path ''/data/'') \<and> dget (pw_files w') (resolved demo_pk path) = Some ''main.py'' \<and>
        summary ` published (ad_cat (pw_db w')) 1 = {(vid, 1, ''1.0'', ''published'', Some aid)})"
proof -
  obtain r w' where out: "catalog_version_upload demo_admin_env demo_pk Admin.demo_request demo_pk_ids 1 demo_upload demo_source demo_pk_world = (Inr r, w')"
    using demo_uploads by blast
  have h: "cat_wf (ad_cat (pw_db demo_pk_world))" "ki_artifact demo_pk_ids \<notin> ar_id ` set (ct_artifacts (ad_cat (pw_db demo_pk_world)))"
    "0 \<notin> insert (ki_artifact demo_pk_ids) (ar_id ` set (ct_artifacts (ad_cat (pw_db demo_pk_world))))"
    using demo_admin_wf by (simp_all add: demo_pk_world_def demo_pk_ids_def demo_admin_db_def empty_cat_def)
  have e: "resolved demo_pk (pk_dir demo_pk) = ''/data''" "safe_segment ''1.0'' ''version'' = Inr ''1.0''" by code_simp+
  have "\<exists>path vid aid. (path = ''/data'' \<or> startswith path ''/data/'') \<and> dget (pw_files w') (resolved demo_pk path) = Some ''main.py'' \<and>
        summary ` published (ad_cat (pw_db w')) 1 = {(vid, 1, ''1.0'', ''published'', Some aid)}"
    using version_upload_publishes [OF out h] by (auto simp: e demo_received demo_contents(1) demo_upload_fields)
  then show ?thesis using out by blast
qed

theorem percent_deployment_reaches_nobody_witness:
  "\<exists>r w'. catalog_version_upload demo_admin_env demo_pk Admin.demo_request demo_pk_ids 1 demo_upload demo_source demo_pk_world = (Inr r, w') \<and>
     (\<exists>c \<in> set (ct_campaigns (ad_cat (pw_db w'))). ca_id c = 3 \<and> ca_status c = Some ''active'') \<and>
     (\<forall>re_match t email cuuid cache cs cache' dt pv v.
       resolve_device_cohorts re_match t (ad_cohorts (pw_db w')) email cuuid cache = (Inr cs, cache') \<longrightarrow>
       resolve_active_campaign (campaign_db_of (ad_cat (pw_db w'))) cs dt pv = Some v \<longrightarrow> cv_campaign_id v \<noteq> 3)"
proof -
  obtain r w' where out: "catalog_version_upload demo_admin_env demo_pk Admin.demo_request demo_pk_ids 1 demo_upload demo_source demo_pk_world = (Inr r, w')"
    using demo_uploads by blast
  have h: "ki_cohort demo_pk_ids \<notin> co_id ` set (cohorts (ad_cohorts (pw_db demo_pk_world)))"
    "ki_campaign demo_pk_ids \<notin> ca_id ` set (ct_campaigns (ad_cat (pw_db demo_pk_world)))" "ki_campaign demo_pk_ids = 3"
    by (simp_all add: demo_pk_world_def demo_pk_ids_def demo_admin_db_def empty_cat_def)
  show ?thesis using out percent_deployment_reaches_nobody [OF disjI2 h(1,2), of demo_admin_env demo_pk Admin.demo_request 1 demo_upload demo_source r w']
    unfolding h(3) by (simp add: demo_upload_fields)
qed

section \<open>Limits of the package routes\<close>

text \<open>A template whose flag names do not fit the column: the answer says that it was stored, and nothing was.\<close>

lemma template_silently_lost:
  assumes "ae_connect en = None" "apply_platform_defaults (JObj t) = Inr tmpl" "t \<noteq> []" "jsonb_ok (ae_pg en) tmpl"
    "update_plugin (aq_now rq) pid [(''config_template'', tmpl)] (ad_cat db) = Inr (True, cat)"
    "audit en rq (entry ''plugin.config_template.update'' ''plugin'' (str_of_int pid) []) (db\<lparr>ad_cat := cat\<rparr>) = Inr db1"
    "slug_or_type (ad_cat db1) pid \<noteq> []" "(n, b) \<in> set (template_names tmpl)" "length n > 100"
  shows "catalog_save_config_template en rq pid (JObj [(''config_template'', JObj t)]) db = (Inr (json_answer 200 [(''ok'', JBool True)]), db)"
proof -
  have "reconcile_plugin en rq src pid tmpl db1 = Inl DatabaseError" for src
    using assms(7-9) by (auto simp: reconcile_plugin_def safe_reconcile_catalog_def Let_def case_prod_beta list_all_iff varchar_ok_def)
  then show ?thesis using assms(1-6)
    by (simp add: catalog_save_config_template_def jget_def dget_def transaction_def template_work_def)
qed

text \<open>The wizard builds the path from the fields as they come: it leaves the directory.\<close>

lemma wizard_path_escapes:
  "resolved demo_pk (wizard_path demo_pk \<lparr>wz_device_type = ''../etc'', wz_version = ''1'', wz_target_mode = ''all'', wz_cohort_id = [], wz_percent = [], wz_emails = [],
     wz_deploy_type = [], wz_stage_hours = [], wz_name = [], wz_rollback = []\<rparr> ''passwd'' ''p.oxt'') = ''/etc/passwd-1.oxt''"
  by code_simp

text \<open>The page for an unknown plugin: the 404 of the handler is caught with every other exception and becomes a message in a page.\<close>

lemma logo_of_unknown_plugin:
  assumes "ae_connect en = None" "get_plugin (ad_cat db) pid = None" "dget LOGO_TYPES (lower (splitext (uf_filename u))) = Some mime" "int (length (uf_data u)) \<le> 2 * 1024 * 1024"
  shows "catalog_upload_logo en rq pid u db = (Inr (flash_error (''Erreur: '' @ ae_text en (HTTPException 404 ''Plugin non trouve''))), db)"
  using assms by (simp add: catalog_upload_logo_def Let_def transaction_def logo_work_def flash_exception_def)

text \<open>The wizard stores the template in every plugin of the device type.\<close>

lemma reconcile_plugins: "safe_reconcile_catalog en rq source slug tmpl db = Inr db' \<Longrightarrow> ct_plugins (ad_cat db') = ct_plugins (ad_cat db)"
  by (auto simp: safe_reconcile_catalog_def put_flags_def Let_def case_prod_beta split: if_splits dest!: audit_log_Inr)

lemma wizard_template_spreads:
  assumes "wizard_template en rq dt tmpl db = Inr db'" "truthy tmpl" "p \<in> set (ct_plugins (ad_cat db'))" "cp_device_type p = dt" "cp_status p \<noteq> ''removed''"
  shows "cp_template p = Some tmpl"
proof -
  have "ct_plugins (ad_cat db') = ct_plugins (spread_template dt tmpl (ad_cat db))"
    using assms(1,2) by (auto simp: wizard_template_def Let_def split: if_splits dest!: reconcile_plugins)
  moreover define g where "g = (\<lambda>q :: cat_plugin. if cp_device_type q = dt \<and> cp_status q \<noteq> ''removed'' then q\<lparr>cp_template := Some tmpl\<rparr> else q)"
  ultimately have "ct_plugins (ad_cat db') = map g (ct_plugins (ad_cat db))" by (simp add: spread_template_def)
  then have "p \<in> g ` set (ct_plugins (ad_cat db))" using assms(3) by simp
  then obtain q where q: "p = (if cp_device_type q = dt \<and> cp_status q \<noteq> ''removed'' then q\<lparr>cp_template := Some tmpl\<rparr> else q)"
    unfolding g_def by (rule imageE)
  show ?thesis
  proof (cases "cp_device_type q = dt \<and> cp_status q \<noteq> ''removed''")
    case True
    then show ?thesis using q by simp
  next
    case False
    then have "p = q" using q by (simp only: if_False)
    then show ?thesis using False assms(4,5) by blast
  qed
qed

end
