(* ===== verification/PublicCatalog.thy ===== *)
theory PublicCatalog
  imports AdminPackages Download
begin

text \<open>
  The public catalogue of \<open>app/main.py\<close>: the two JSON listings, the two pages, the icons and the status banner. They read the tables of
  \<open>Catalog\<close> without authentication. The columns \<open>maturity\<close>, \<open>access_mode\<close>, \<open>source_url\<close> and \<open>icon_path\<close> are looked up among the
  descriptive columns. A page is given as the values passed to its template; the order of the
  keys of an object is not kept. Texts compare by code points, as in the \<open>C\<close> collation.
\<close>

section \<open>Icons\<close>

definition MIME_TO_EXT :: "string dict" where
  "MIME_TO_EXT = [(''image/png'', ''png''), (''image/jpeg'', ''jpg''), (''image/svg+xml'', ''svg''), (''image/webp'', ''webp'')]"

definition EXT_TO_MIME :: "string dict" where
  "EXT_TO_MIME = map (\<lambda>(k, v). (v, k)) MIME_TO_EXT"

text \<open>\<open>x.split(":")[1].split(";")[0]\<close> of an address that begins with \<open>data:\<close>.\<close>

definition header_mime :: "string \<Rightarrow> string" where
  "header_mime h = hd (split_on (CHR '';'') (split_on (CHR '':'') h ! 1))"

definition info_text :: "cat_plugin \<Rightarrow> string \<Rightarrow> string" where
  "info_text p k = (case jget (cp_info p) k of JStr s \<Rightarrow> s | _ \<Rightarrow> [])"

definition icon_link :: "string \<Rightarrow> cat_plugin \<Rightarrow> json" where
  "icon_link base p =
     (let raw = info_text p ''icon_url''; addr = base @ ''/catalog/api/plugins/'' @ cp_slug p @ ''/icon''
      in if startswith raw ''data:'' then JStr (addr @ ''.'' @ str_or (dget MIME_TO_EXT (header_mime raw)) ''png'')
         else if raw \<noteq> [] \<or> truthy (jget (cp_info p) ''icon_path'') then JStr addr
         else JNull)"

text \<open>\<open>base64.b64decode\<close>: characters outside the standard alphabet are skipped.\<close>

definition b64decode :: "string \<Rightarrow> bytes result" where
  "b64decode s = bind_result (ascii_encode s) (\<lambda>b. a2b_base64 0 0 0 0 (filter (\<lambda>c. c \<noteq> CHR ''-'' \<and> c \<noteq> CHR ''_'') b))"

definition public_plugin :: "string \<Rightarrow> cat_db \<Rightarrow> cat_plugin option" where
  "public_plugin slug db = find (\<lambda>p. cp_slug p = slug \<and> cp_status p = ''active'') (ct_plugins db)"

text \<open>\<open>queried\<close>: there is a database and the query ran; every exception counts as no icon.\<close>

definition resolve_plugin_icon :: "bool \<Rightarrow> string \<Rightarrow> cat_db \<Rightarrow> (bytes \<times> string) option" where
  "resolve_plugin_icon queried slug db =
     (case (if queried then public_plugin slug db else None) of
        None \<Rightarrow> None
      | Some p \<Rightarrow>
          let url = info_text p ''icon_url''
          in if \<not> startswith url ''data:'' then None
             else case split_once (CHR '','') url of
               None \<Rightarrow> None
             | Some (head, b64) \<Rightarrow> (case b64decode b64 of Inl e \<Rightarrow> None | Inr raw \<Rightarrow> Some (raw, header_mime head)))"

record icon_answer =
  ic_content :: bytes
  ic_type :: string
  ic_headers :: "string dict"

definition icon_not_found :: py_error where
  "icon_not_found = HTTPException 404 ''Icon not found''"

definition api_public_plugin_icon_ext :: "bool \<Rightarrow> string \<Rightarrow> string \<Rightarrow> cat_db \<Rightarrow> icon_answer result" where
  "api_public_plugin_icon_ext queried slug ext db = (case resolve_plugin_icon queried slug db of
       None \<Rightarrow> Inl icon_not_found
     | Some (raw, mime) \<Rightarrow> Inr \<lparr>ic_content = raw, ic_type = str_or (dget EXT_TO_MIME ext) mime,
         ic_headers = [(''Cache-Control'', ''public, max-age=86400''), (''Access-Control-Allow-Origin'', ''*'')]\<rparr>)"

definition api_public_plugin_icon :: "bool \<Rightarrow> string \<Rightarrow> cat_db \<Rightarrow> response result" where
  "api_public_plugin_icon queried slug db = (case resolve_plugin_icon queried slug db of
       None \<Rightarrow> Inl icon_not_found
     | Some (raw, mime) \<Rightarrow> Inr \<lparr>r_status = 301, r_body = JNull,
         r_headers = [(''location'', ''/catalog/api/plugins/'' @ slug @ ''/icon.'' @ str_or (dget MIME_TO_EXT mime) ''png''), (''Cache-Control'', ''public, max-age=86400'')]\<rparr>)"

text \<open>\<open>GET /catalog/icons/{filename}\<close>: a file of one directory, by its base name.\<close>

definition catalog_icon :: "(string \<Rightarrow> bool) \<Rightarrow> string \<Rightarrow> string \<Rightarrow> string result" where
  "catalog_icon is_file icons_dir filename =
     (let path = os_join icons_dir (basename filename) in if is_file path then Inr path else Inl icon_not_found)"

section \<open>Listings\<close>

definition MATURITY_LABELS :: "string dict" where
  "MATURITY_LABELS = [(''dev'', ''Dev''), (''alpha'', ''Alpha''), (''beta'', ''Beta''), (''pre-release'', ''Pre-release''), (''release'', ''Stable'')]"

definition listed :: "cat_plugin \<Rightarrow> bool" where
  "listed p = (cp_status p = ''active'' \<and> cp_visibility p \<in> {''public'', ''internal''})"

definition install_count :: "cat_db \<Rightarrow> int \<Rightarrow> nat" where
  "install_count db pid = length (remdups (map pi_client_uuid (filter (\<lambda>i. pi_plugin_id i = pid \<and> pi_status i = ''active'') (ct_installs db))))"

definition published_of :: "cat_db \<Rightarrow> int \<Rightarrow> version_row list" where
  "published_of db pid = filter (\<lambda>v. ve_plugin_id v = pid \<and> ve_status v = ''published'') (ct_versions db)"

text \<open>\<open>MAX(pv.version)\<close> compares texts.\<close>

definition max_version :: "cat_db \<Rightarrow> int \<Rightarrow> json" where
  "max_version db pid = (let vs = map ve_version (published_of db pid) in if vs = [] then JNull else JStr (Max (set vs)))"

text \<open>\<open>ORDER BY published_at DESC LIMIT 1\<close>: a missing time comes first.\<close>

definition latest_row :: "cat_db \<Rightarrow> int \<Rightarrow> version_row option" where
  "latest_row db pid =
     (case sort_key (\<lambda>v. case ve_published_at v of None \<Rightarrow> (0 :: int, 0) | Some t \<Rightarrow> (1, - t)) (published_of db pid) of [] \<Rightarrow> None | v # _ \<Rightarrow> Some v)"

definition key_features :: "cat_plugin \<Rightarrow> json result" where
  "key_features p = reparse (jget_or (cp_info p) ''key_features'' (JList []))"

definition text_col :: "cat_plugin \<Rightarrow> string \<Rightarrow> string \<Rightarrow> json" where
  "text_col p k dflt = jget_or (cp_info p) k (JStr dflt)"

definition maturity_label :: "cat_plugin \<Rightarrow> string" where
  "maturity_label p = str_or (dget MATURITY_LABELS (info_text p ''maturity'')) ''Stable''"

definition common_fields :: "cat_plugin \<Rightarrow> json dict" where
  "common_fields p = [(''slug'', JStr (cp_slug p)), (''name'', JStr (cp_name p)), (''intent'', text_col p ''intent'' []), (''device_type'', JStr (cp_device_type p)),
     (''category'', text_col p ''category'' []), (''publisher'', text_col p ''publisher'' ''DNUM''), (''maturity'', text_col p ''maturity'' ''release''),
     (''maturity_label'', JStr (maturity_label p))]"

definition links_of :: "string \<Rightarrow> cat_plugin \<Rightarrow> json dict" where
  "links_of base p = [(''detail_url'', JStr (base @ ''/catalog/'' @ cp_slug p)), (''download_url'', JStr (base @ ''/catalog/'' @ cp_slug p @ ''/download''))]"

definition list_entry :: "string \<Rightarrow> cat_db \<Rightarrow> cat_plugin \<Rightarrow> json result" where
  "list_entry base db p = bind_result (key_features p) (\<lambda>kf.
     Inr (JObj ([(''id'', JInt (cp_id p))] @ common_fields p @ [(''access_mode'', text_col p ''access_mode'' ''open''), (''icon_url'', icon_link base p),
       (''latest_version'', max_version db (cp_id p)), (''install_count'', JInt (int (install_count db (cp_id p)))), (''key_features'', kf),
       (''source_url'', jget (cp_info p) ''source_url'')] @ links_of base p)))"

definition listed_plugins :: "cat_db \<Rightarrow> cat_plugin list" where
  "listed_plugins db = sort_key cp_name (filter listed (ct_plugins db))"

definition cors :: "string dict" where
  "cors = [(''Access-Control-Allow-Origin'', ''*'')]"

definition cached_for :: "string \<Rightarrow> string dict" where
  "cached_for age = cors @ [(''Cache-Control'', ''public, max-age='' @ age)]"

text \<open>\<open>conn\<close>: \<^const>\<open>None\<close> without a database, otherwise the outcome of connecting.\<close>

definition api_public_plugins :: "string \<Rightarrow> string \<Rightarrow> py_error option option \<Rightarrow> cat_db \<Rightarrow> response result" where
  "api_public_plugins public_url stamp conn db =
     (let base = rstrip_char (CHR ''/'') public_url
      in case conn of
           None \<Rightarrow> Inr \<lparr>r_status = 200, r_body = JObj [(''plugins'', JList []), (''total'', JInt 0)], r_headers = cors\<rparr>
         | Some (Some e) \<Rightarrow> Inl e
         | Some None \<Rightarrow> bind_result (map_result (list_entry base db) (listed_plugins db)) (\<lambda>ps.
             Inr \<lparr>r_status = 200, r_body = JObj [(''plugins'', JList ps), (''total'', JInt (int (length ps))), (''generated_at'', JStr stamp)], r_headers = cached_for ''300''\<rparr>))"

definition latest_fields :: "(string \<Rightarrow> string) \<Rightarrow> version_row option \<Rightarrow> json dict" where
  "latest_fields shorten v = [(''latest_version'', case v of Some r \<Rightarrow> JStr (ve_version r) | None \<Rightarrow> JNull),
     (''changelog_summary'', JStr (case v of Some r \<Rightarrow> shorten (ve_release_notes r) | None \<Rightarrow> []))]"

definition addresses :: "cat_plugin \<Rightarrow> json dict" where
  "addresses p = map (\<lambda>k. (k, jget (cp_info p) k)) [''source_url'', ''homepage_url'', ''support_email'', ''doc_url'', ''license'']"

definition api_public_plugin_detail :: "string \<Rightarrow> py_error option option \<Rightarrow> string \<Rightarrow> cat_db \<Rightarrow> response result" where
  "api_public_plugin_detail public_url conn slug db =
     (let base = rstrip_char (CHR ''/'') public_url
      in case conn of
           None \<Rightarrow> Inl (HTTPException 404 ''Not Found'')
         | Some (Some e) \<Rightarrow> Inl e
         | Some None \<Rightarrow> (case public_plugin slug db of
             None \<Rightarrow> Inl (HTTPException 404 ''Not Found'')
           | Some p \<Rightarrow> bind_result (key_features p) (\<lambda>kf.
               Inr \<lparr>r_status = 200,
                 r_body = JObj ([(''id'', JInt (cp_id p))] @ common_fields p @ [(''description'', text_col p ''description'' []), (''access_mode'', text_col p ''access_mode'' ''open''),
                   (''icon_url'', icon_link base p)] @ latest_fields (take 200) (latest_row db (cp_id p)) @
                   [(''install_count'', JInt (int (install_count db (cp_id p)))), (''key_features'', kf)] @ addresses p @ links_of base p),
                 r_headers = cached_for ''300''\<rparr>)))"

section \<open>Pages and status\<close>

definition category_of :: "cat_plugin \<Rightarrow> string" where
  "category_of p = info_text p ''category''"

definition page_entry :: "cat_db \<Rightarrow> cat_plugin \<Rightarrow> json result" where
  "page_entry db p = bind_result (key_features p) (\<lambda>kf.
     Inr (JObj (common_fields p @ [(''icon_url'', icon_link [] p), (''latest_version'', max_version db (cp_id p)),
       (''install_count'', JInt (int (install_count db (cp_id p)))), (''key_features'', kf)])))"

record index_page =
  ix_plugins :: "json list"
  ix_categories :: "string list"
  ix_current :: "string option"
  ix_total_installs :: nat

definition catalog_index :: "py_error option option \<Rightarrow> string option \<Rightarrow> cat_db \<Rightarrow> index_page result" where
  "catalog_index conn category db = (case conn of
       None \<Rightarrow> Inr \<lparr>ix_plugins = [], ix_categories = [], ix_current = None, ix_total_installs = 0\<rparr>
     | Some (Some e) \<Rightarrow> Inl e
     | Some None \<Rightarrow>
         (let rows = listed_plugins db; wanted = str_or category [];
              shown = (if wanted = [] then rows else filter (\<lambda>p. lower (category_of p) = lower wanted) rows)
          in bind_result (map_result (page_entry db) shown) (\<lambda>ps.
               Inr \<lparr>ix_plugins = ps, ix_categories = sort (remdups (filter (\<lambda>c. c \<noteq> []) (map category_of rows))), ix_current = category,
                 ix_total_installs = sum_list (map (\<lambda>p. install_count db (cp_id p)) shown)\<rparr>)))"

record detail_page =
  dt_plugin :: "json dict"
  dt_file_ext :: "string option"

text \<open>\<open>fmt\<close> writes a date, \<open>strftime("%d %B %Y")\<close>.\<close>

definition catalog_detail :: "(timestamp \<Rightarrow> string) \<Rightarrow> py_error option option \<Rightarrow> string \<Rightarrow> cat_db \<Rightarrow> detail_page result" where
  "catalog_detail fmt conn slug db = (case conn of
       None \<Rightarrow> Inl (HTTPException 404 ''Not Found'')
     | Some (Some e) \<Rightarrow> Inl e
     | Some None \<Rightarrow> (case public_plugin slug db of
         None \<Rightarrow> Inl (HTTPException 404 ''Plugin introuvable'')
       | Some p \<Rightarrow> bind_result (key_features p) (\<lambda>kf.
           Inr \<lparr>dt_plugin = common_fields p @ [(''description'', text_col p ''description'' []), (''icon_url'', icon_link [] p)] @
                 latest_fields id (latest_row db (cp_id p)) @ [(''install_count'', JInt (int (install_count db (cp_id p)))), (''key_features'', kf)] @ addresses p @
                 [(''updated_at'', JStr (fmt (cp_updated_at p)))],
               dt_file_ext = dget DEVICE_TYPE_EXT (cp_device_type p)\<rparr>)))"

text \<open>\<open>driver\<close>: psycopg2 is installed; \<open>answers\<close>: connecting succeeded. Without the driver the check is skipped and counts as ok.\<close>

definition api_catalog_status :: "bool \<Rightarrow> bool \<Rightarrow> response" where
  "api_catalog_status driver answers =
     (let database = (if \<not> driver \<or> answers then ''ok'' else ''error''); all_ok = (database = ''ok'')
      in \<lparr>r_status = 200, r_body = JObj [(''status'', JStr (if all_ok then ''ok'' else ''degraded'')),
            (''status_label'', JStr (if all_ok then ''Tous les services sont operationnels'' else ''Service degrade'')),
            (''services'', JObj [(''api'', JStr ''ok''), (''database'', JStr database)])], r_headers = cached_for ''30''\<rparr>)"

definition catalog_api_cors :: response where
  "catalog_api_cors = \<lparr>r_status = 204, r_body = JNull, r_headers = cors @ [(''Access-Control-Allow-Methods'', ''GET, OPTIONS''),
     (''Access-Control-Allow-Headers'', ''Content-Type''), (''Access-Control-Max-Age'', ''86400'')]\<rparr>"

section \<open>Round trip of a logo\<close>

lemma b64_val_standard [simp]: "b64_val (b64_standard c) = b64_val c"
  by (auto simp: b64_standard_def b64_val_def)

lemma b64_standard_pad [simp]: "(b64_standard c = CHR ''='') = (c = CHR ''='')"
  by (auto simp: b64_standard_def)

lemma b64_standard_alphabet [simp]: "b64_standard c \<noteq> CHR ''-''" "b64_standard c \<noteq> CHR ''_''"
  by (auto simp: b64_standard_def)

lemma b64_standard_ascii: "is_ascii c \<Longrightarrow> is_ascii (b64_standard c)"
  by (auto simp: b64_standard_def is_ascii_def)

lemma a2b_standard: "a2b_base64 q l p out (map b64_standard s) = a2b_base64 q l p out s"
  by (induction q l p out s rule: a2b_base64.induct) (auto split: option.splits)

lemma b64decode_encode: "b64decode (map b64_standard (b64_encode data)) = Inr data"
proof -
  let ?s = "map b64_standard (b64_encode data)"
  have "list_all is_ascii ?s" using b64_encode_ascii [of data] b64_standard_ascii by (auto simp: list_all_iff)
  then have "ascii_encode ?s = Inr ?s" by (simp add: ascii_encode_def)
  moreover have "filter (\<lambda>c. c \<noteq> CHR ''-'' \<and> c \<noteq> CHR ''_'') ?s = ?s" by (auto simp: filter_id_conv)
  ultimately show ?thesis by (simp add: b64decode_def a2b_standard a2b_encode)
qed

lemma LOGO_TYPES_plain: "dget LOGO_TYPES ext = Some mime \<Longrightarrow> CHR '','' \<notin> set mime \<and> CHR '':'' \<notin> set mime \<and> CHR '';'' \<notin> set mime"
  by (auto simp: LOGO_TYPES_def dget_def split: if_splits)

lemma header_mime_data:
  assumes "CHR '':'' \<notin> set mime" "CHR '';'' \<notin> set mime" "CHR '':'' \<notin> set rest"
  shows "header_mime (''data:'' @ mime @ CHR '';'' # rest) = mime"
proof -
  have "split_on (CHR '':'') (''data'' @ CHR '':'' # mime @ CHR '';'' # rest) = [''data'', mime @ CHR '';'' # rest]"
    using assms by (simp only: split_on_append) (simp add: split_on_no_sep)
  moreover have "split_on (CHR '';'') (mime @ CHR '';'' # rest) = mime # split_on (CHR '';'') rest" using assms by (simp add: split_on_app)
  ultimately show ?thesis by (simp add: header_mime_def)
qed

lemma b64_char_neq_colon: "CHR '':'' \<noteq> b64_char v"
proof (cases "v < 64")
  case True
  have "b64_val (CHR '':'') = None" by (simp add: b64_val_def)
  with b64_val_char [OF True] show ?thesis by (metis option.distinct(1))
qed (simp add: b64_char_def)

lemma b64_encode_plain: "CHR '':'' \<notin> set (b64_encode data)"
  by (induction data rule: b64_encode.induct) (simp_all add: Let_def b64_char_neq_colon)

lemma data_url_mime: "dget LOGO_TYPES ext = Some mime \<Longrightarrow> header_mime (data_url mime data) = mime"
  using LOGO_TYPES_plain [of ext mime] b64_encode_plain [of data] header_mime_data [of mime "''base64,'' @ map b64_standard (b64_encode data)"]
  by (auto simp: data_url_def b64_standard_def split: if_splits)

lemma data_url_read:
  assumes "dget LOGO_TYPES ext = Some mime"
  shows "startswith (data_url mime data) ''data:''" "split_once (CHR '','') (data_url mime data) = Some (''data:'' @ mime @ '';base64'', map b64_standard (b64_encode data))"
    "header_mime (''data:'' @ mime @ '';base64'') = mime"
proof -
  note plain = LOGO_TYPES_plain [OF assms]
  show "startswith (data_url mime data) ''data:''" by (simp add: data_url_def startswith_def)
  have "data_url mime data = (''data:'' @ mime @ '';base64'') @ CHR '','' # map b64_standard (b64_encode data)" by (simp add: data_url_def)
  moreover have "CHR '','' \<notin> set (''data:'' @ mime @ '';base64'')" using plain by simp
  ultimately show "split_once (CHR '','') (data_url mime data) = Some (''data:'' @ mime @ '';base64'', map b64_standard (b64_encode data))"
    using split_once_app by metis
  show "header_mime (''data:'' @ mime @ '';base64'') = mime" using header_mime_data [of mime "''base64''"] plain by simp
qed

definition with_icon :: "timestamp \<Rightarrow> int \<Rightarrow> string \<Rightarrow> cat_plugin \<Rightarrow> cat_plugin" where
  "with_icon now pid url p = (if cp_id p = pid then p\<lparr>cp_info := dset ''icon_url'' (JStr url) (cp_info p), cp_updated_at := now\<rparr> else p)"

lemma with_icon_same [simp]:
  "cp_slug (with_icon now pid url p) = cp_slug p" "cp_status (with_icon now pid url p) = cp_status p" "cp_id (with_icon now pid url p) = cp_id p"
  by (simp_all add: with_icon_def)

lemma info_text_with_icon: "info_text (with_icon now pid url p) ''icon_url'' = (if cp_id p = pid then url else info_text p ''icon_url'')"
  by (simp add: with_icon_def info_text_def jget_def)

lemma update_icon:
  assumes "update_plugin now pid [(''icon_url'', JStr url)] cat = Inr (b, cat')"
  shows "ct_plugins cat' = map (with_icon now pid url) (ct_plugins cat)"
proof -
  have g: "(\<lambda>p. if cp_id p = pid then set_fields now [(''icon_url'', JStr url)] p else p) = with_icon now pid url"
    by (rule ext) (simp add: with_icon_def set_fields_def set_field_def INFO_FIELDS_def)
  have "check_plugins cat (map (with_icon now pid url) (ct_plugins cat)) = Inr cat'"
    using assms unfolding update_plugin_def g by (auto simp: UPDATE_FIELDS_def INFO_FIELDS_def bind_result_eq_Inr split: if_splits)
  then show ?thesis by (auto simp: check_plugins_def split: if_splits)
qed

lemma find_map_same: "(\<And>x. P (g x) = P x) \<Longrightarrow> find P (map g xs) = map_option g (find P xs)"
  by (induction xs) auto

lemma public_plugin_with_icon:
  "ct_plugins cat' = map (with_icon now pid url) (ct_plugins cat) \<Longrightarrow> public_plugin slug cat' = map_option (with_icon now pid url) (public_plugin slug cat)"
  by (simp add: public_plugin_def find_map_same)

lemma upload_logo_stores:
  assumes "catalog_upload_logo en rq pid u db = (Inr r, db')" "r_status r = 303"
  shows "\<exists>mime. dget LOGO_TYPES (lower (splitext (uf_filename u))) = Some mime \<and>
    ct_plugins (ad_cat db') = map (with_icon (aq_now rq) pid (data_url mime (uf_data u))) (ct_plugins (ad_cat db))"
proof -
  obtain mime where m: "dget LOGO_TYPES (lower (splitext (uf_filename u))) = Some mime"
    using assms by (cases "dget LOGO_TYPES (lower (splitext (uf_filename u)))") (auto simp: catalog_upload_logo_def Let_def flash_error_def)
  let ?w = "logo_work en rq pid (uf_filename u) (int (length (uf_data u))) (data_url mime (uf_data u))"
  have "transaction en (flash_exception en) ?w db = (Inr r, db')"
    using assms m by (auto simp: catalog_upload_logo_def Let_def flash_error_def split: if_splits)
  then have "?w db = Inr (r, db')"
    using assms(2) by (auto simp: transaction_def flash_exception_def flash_error_def split: option.splits sum.splits)
  then obtain b cat where u: "update_plugin (aq_now rq) pid [(''icon_url'', JStr (data_url mime (uf_data u)))] (ad_cat db) = Inr (b, cat)" and c: "ad_cat db' = cat"
    by (auto simp: logo_work_def bind_result_eq_Inr audit_def split: option.splits dest!: audit_log_Inr)
  from m update_icon [OF u] c show ?thesis by blast
qed

lemma logo_extension:
  "dget LOGO_TYPES ext = Some mime \<Longrightarrow> \<exists>e. dget MIME_TO_EXT mime = Some e \<and> e \<noteq> [] \<and> str_or (dget EXT_TO_MIME e) m = mime"
  by (auto simp: LOGO_TYPES_def MIME_TO_EXT_def EXT_TO_MIME_def dget_def str_or_def split: if_splits)

text \<open>Property C37. After a logo is accepted for an active plugin, the icon address published by the listings is that of the uploaded
  type and serves exactly the uploaded bytes under that type; the icon of every other plugin is unchanged.\<close>

theorem icon_roundtrip:
  assumes "catalog_upload_logo en rq pid u db = (Inr r, db')" "r_status r = 303" "public_plugin slug (ad_cat db) = Some p"
  shows "if cp_id p = pid
    then \<exists>mime e q. dget LOGO_TYPES (lower (splitext (uf_filename u))) = Some mime \<and> public_plugin slug (ad_cat db') = Some q \<and>
      icon_link base q = JStr (base @ ''/catalog/api/plugins/'' @ slug @ ''/icon.'' @ e) \<and>
      api_public_plugin_icon_ext True slug e (ad_cat db') = Inr \<lparr>ic_content = uf_data u, ic_type = mime,
        ic_headers = [(''Cache-Control'', ''public, max-age=86400''), (''Access-Control-Allow-Origin'', ''*'')]\<rparr>
    else resolve_plugin_icon True slug (ad_cat db') = resolve_plugin_icon True slug (ad_cat db)"
proof -
  obtain mime where m: "dget LOGO_TYPES (lower (splitext (uf_filename u))) = Some mime"
    and ps: "ct_plugins (ad_cat db') = map (with_icon (aq_now rq) pid (data_url mime (uf_data u))) (ct_plugins (ad_cat db))"
    using upload_logo_stores [OF assms(1,2)] by blast
  define q where "q = with_icon (aq_now rq) pid (data_url mime (uf_data u)) p"
  have q: "public_plugin slug (ad_cat db') = Some q" using public_plugin_with_icon [OF ps, of slug] assms(3) by (simp add: q_def)
  have slug: "cp_slug q = slug" using assms(3) by (auto simp: public_plugin_def find_Some_iff q_def)
  obtain e where e: "dget MIME_TO_EXT mime = Some e" "e \<noteq> []" "\<And>m. str_or (dget EXT_TO_MIME e) m = mime"
    using logo_extension [OF m] by (metis (no_types) option.inject)
  show ?thesis
  proof (cases "cp_id p = pid")
    case True
    then have url: "info_text q ''icon_url'' = data_url mime (uf_data u)" by (simp add: q_def info_text_with_icon)
    have "header_mime (data_url mime (uf_data u)) = mime" using data_url_mime [OF m] .
    then have "icon_link base q = JStr (base @ ''/catalog/api/plugins/'' @ slug @ ''/icon.'' @ e)"
      using e(1,2) slug by (simp add: icon_link_def url Let_def data_url_read(1) [OF m])
    moreover have "resolve_plugin_icon True slug (ad_cat db') = Some (uf_data u, mime)"
      by (simp add: resolve_plugin_icon_def q url data_url_read(1,2) [OF m] data_url_read(3) [OF m, simplified] b64decode_encode)
    ultimately show ?thesis using True m q e(3) by (auto simp: api_public_plugin_icon_ext_def)
  next
    case False
    then have "info_text q ''icon_url'' = info_text p ''icon_url''" by (simp add: q_def info_text_with_icon)
    then show ?thesis using False q assms(3) by (simp add: resolve_plugin_icon_def)
  qed
qed

definition demo_logo :: upload_file where
  "demo_logo = \<lparr>uf_filename = ''a.PNG'', uf_size = None, uf_data = ''abc''\<rparr>"

theorem icon_roundtrip_witness:
  "\<exists>r db'. catalog_upload_logo demo_admin_env Admin.demo_request 1 demo_logo demo_admin_db = (Inr r, db') \<and>
     (\<exists>mime e q. dget LOGO_TYPES (lower (splitext (uf_filename demo_logo))) = Some mime \<and> public_plugin ''p'' (ad_cat db') = Some q \<and>
        icon_link [] q = JStr ([] @ ''/catalog/api/plugins/'' @ ''p'' @ ''/icon.'' @ e) \<and>
        api_public_plugin_icon_ext True ''p'' e (ad_cat db') = Inr \<lparr>ic_content = uf_data demo_logo, ic_type = mime,
          ic_headers = [(''Cache-Control'', ''public, max-age=86400''), (''Access-Control-Allow-Origin'', ''*'')]\<rparr>)"
proof -
  let ?out = "catalog_upload_logo demo_admin_env Admin.demo_request 1 demo_logo demo_admin_db"
  have "case fst ?out of Inr r \<Rightarrow> r_status r = 303 | Inl e \<Rightarrow> False" by (code_simp, simp add: varchar_ok_def)
  then obtain r db' where out: "?out = (Inr r, db')" "r_status r = 303" by (cases ?out) (auto split: sum.splits)
  have p: "public_plugin ''p'' (ad_cat demo_admin_db) = Some (demo_cat_plugin ''active'')" "cp_id (demo_cat_plugin ''active'') = 1"
    by (simp_all add: public_plugin_def demo_admin_db_def demo_cat_plugin_def)
  note served = icon_roundtrip [OF out p(1), of "[]", unfolded p(2) if_P [OF refl]]
  show ?thesis by (rule exI [of _ r], rule exI [of _ db'], rule conjI [OF out(1) served])
qed

section \<open>What is listed\<close>

definition entry_slug :: "json \<Rightarrow> string" where
  "entry_slug j = (case j of JObj d \<Rightarrow> py_str (jget d ''slug'') | _ \<Rightarrow> [])"

lemma list_entry_slug: "list_entry base db p = Inr j \<Longrightarrow> entry_slug j = cp_slug p"
  by (auto simp: list_entry_def bind_result_eq_Inr entry_slug_def common_fields_def jget_def dget_def py_str_def)

text \<open>The public listing names every active plugin that is not hidden, once, and no other; \<open>total\<close> is their number.\<close>

lemma public_listing_exact:
  assumes "api_public_plugins url stamp (Some None) db = Inr r"
  shows "\<exists>es. r_body r = JObj [(''plugins'', JList es), (''total'', JInt (int (length es))), (''generated_at'', JStr stamp)] \<and>
    mset (map entry_slug es) = mset (map cp_slug (filter listed (ct_plugins db)))"
proof -
  obtain es where es: "map_result (list_entry (rstrip_char (CHR ''/'') url) db) (listed_plugins db) = Inr es"
    and body: "r_body r = JObj [(''plugins'', JList es), (''total'', JInt (int (length es))), (''generated_at'', JStr stamp)]"
    using assms by (auto simp: api_public_plugins_def Let_def bind_result_eq_Inr)
  have "list_all2 (\<lambda>p j. entry_slug j = cp_slug p) (listed_plugins db) es"
    using map_result_all2 [OF es] list_entry_slug by (auto elim: list_all2_mono)
  then have "map entry_slug es = map cp_slug (listed_plugins db)"
    by (induction rule: list_all2_induct) auto
  then have "mset (map entry_slug es) = image_mset cp_slug (mset (listed_plugins db))" by (simp only: mset_map)
  with body show ?thesis by (auto simp: listed_plugins_def)
qed

text \<open>A hidden plugin is not listed, and still answers under its slug.\<close>

lemma hidden_plugin_answers:
  assumes "public_plugin slug db = Some p" "key_features p = Inr kf"
  shows "\<exists>r. api_public_plugin_detail url (Some None) slug db = Inr r \<and> r_status r = 200"
  using assms by (simp add: api_public_plugin_detail_def Let_def)

text \<open>The listing takes the greatest version as a text, the detail page the last published one.\<close>

definition two_versions :: cat_db where
  "two_versions = empty_cat\<lparr>ct_plugins := [demo_cat_plugin ''active''], ct_versions :=
     map (\<lambda>(i, v, t). \<lparr>ve_id = i, ve_plugin_id = 1, ve_artifact_id = None, ve_version = v, ve_release_notes = [], ve_download_url = None, ve_min_host_version = None,
       ve_max_host_version = None, ve_status = ''published'', ve_distribution_mode = ''managed'', ve_published_at = Some t, ve_created_at = t\<rparr>)
     [(1, ''1.9.0'', 0), (2, ''1.10.0'', 5)]\<rparr>"

lemma versions_disagree:
  "max_version two_versions 1 = JStr ''1.9.0''" "map_option ve_version (latest_row two_versions 1) = Some ''1.10.0''"
  by code_simp+

end
