(* ===== verification/FileBrowser.thy ===== *)
theory FileBrowser
  imports Upload "HOL-Library.Multiset"
begin

text \<open>
  The file browser of the administration pages (\<open>app/admin/router.py\<close>): three directories of the server can be listed,
  inspected and downloaded. Symbolic links and the working directory are those of \<open>PathSafe\<close>; \<open>fs_node\<close> is what the system calls
  find behind a path after following links. Sizes are below \<open>2 ^ 53\<close> bytes, where the divisions of \<open>_human_size\<close> are exact.
\<close>

section \<open>Paths and sizes\<close>

datatype node =
    DirNode "string list"
  | FileNode bytes
  | OtherNode nat

record file_system =
  fs_links :: links
  fs_limit :: nat
  fs_cwd :: "string list"
  fs_node :: "string \<Rightarrow> node option"
  fs_mtime :: "string \<Rightarrow> int"

text \<open>\<open>PurePosixPath(p).parts\<close>: two leading slashes are a root of their own.\<close>

definition pure_root :: "string \<Rightarrow> string list" where
  "pure_root p = (if \<not> startswith p ''/'' then [] else if startswith p ''//'' \<and> \<not> startswith p ''///'' then [''//''] else [''/''])"

definition pure_parts :: "string \<Rightarrow> string list" where
  "pure_parts p = pure_root p @ components p"

definition file_roots :: "env \<Rightarrow> (string \<times> string) list" where
  "file_roots e = [(''enroll'', getenv e ''DM_ENROLL_DIR'' ''/data/enroll''), (''binaries'', getenv e ''DM_LOCAL_BINARIES_DIR'' ''/data/content/binaries''),
     (''config'', getenv e ''DM_CONFIG_DIR'' ''/data/content/config'')]"

text \<open>\<open>f"{x:.1f}"\<close> of the fraction \<open>n / d\<close>: the nearest tenth, the even one of two.\<close>

definition tenths :: "nat \<Rightarrow> nat \<Rightarrow> nat" where
  "tenths n d = (let q = 10 * n div d; r = 10 * n mod d in if 2 * r > d \<or> (2 * r = d \<and> odd q) then q + 1 else q)"

definition one_decimal :: "nat \<Rightarrow> nat \<Rightarrow> string" where
  "one_decimal n d = (let t = tenths n d in str_of_nat (t div 10) @ ''.'' @ str_of_nat (t mod 10))"

fun size_in :: "nat \<Rightarrow> nat \<Rightarrow> string list \<Rightarrow> string" where
  "size_in n d [] = one_decimal n d @ '' To''"
| "size_in n d (u # us) = (if n < 1024 * d then one_decimal n d @ '' '' @ u else size_in n (1024 * d) us)"

definition human_size :: "nat \<Rightarrow> string" where
  "human_size n = (if n < 1024 then str_of_nat n @ '' o'' else size_in n 1024 [''Ko'', ''Mo'', ''Go''])"

definition safe_resolve :: "file_system \<Rightarrow> string \<Rightarrow> string \<Rightarrow> string result" where
  "safe_resolve fs rdir subpath = safe_path_join (fs_links fs) (fs_limit fs) (fs_cwd fs) rdir subpath"

definition st_size :: "file_system \<Rightarrow> string \<Rightarrow> nat" where
  "st_size fs p = (case fs_node fs p of Some (FileNode b) \<Rightarrow> length b | Some (OtherNode n) \<Rightarrow> n | _ \<Rightarrow> 0)"

section \<open>Pages\<close>

record dir_entry =
  de_name :: string
  de_is_dir :: bool
  de_size :: nat
  de_size_human :: string
  de_mtime :: int

definition is_dir :: "file_system \<Rightarrow> string \<Rightarrow> bool" where
  "is_dir fs p = (case fs_node fs p of Some (DirNode _) \<Rightarrow> True | _ \<Rightarrow> False)"

definition is_file :: "file_system \<Rightarrow> string \<Rightarrow> bool" where
  "is_file fs p = (case fs_node fs p of Some (FileNode _) \<Rightarrow> True | _ \<Rightarrow> False)"

definition child :: "string \<Rightarrow> string \<Rightarrow> string" where
  "child d n = d @ (if d = ''/'' then [] else ''/'') @ n"

definition list_item :: "file_system \<Rightarrow> string \<Rightarrow> string \<Rightarrow> dir_entry result" where
  "list_item fs d n =
     (let p = child d n
      in if fs_node fs p = None then Inl (OSError ''No such file or directory'')
         else Inr \<lparr>de_name = n, de_is_dir = is_dir fs p, de_size = (if is_file fs p then st_size fs p else 0),
                de_size_human = (if is_file fs p then human_size (st_size fs p) else ''-''), de_mtime = fs_mtime fs p\<rparr>)"

definition list_dir :: "file_system \<Rightarrow> string \<Rightarrow> dir_entry list result" where
  "list_dir fs d = (case fs_node fs d of
       Some (DirNode names) \<Rightarrow> map_result (list_item fs d) (sort_key (\<lambda>n. (if is_dir fs (child d n) then 0 else 1 :: nat, lower n)) names)
     | _ \<Rightarrow> Inr [])"

record root_line =
  rl_name :: string
  rl_exists :: bool
  rl_count :: nat

definition files_index :: "env \<Rightarrow> file_system \<Rightarrow> root_line list" where
  "files_index e fs = map (\<lambda>(n, p). \<lparr>rl_name = n, rl_exists = is_dir fs p,
     rl_count = (case fs_node fs p of Some (DirNode names) \<Rightarrow> length names | _ \<Rightarrow> 0)\<rparr>) (file_roots e)"

text \<open>\<open>Path.suffix\<close>: from the last dot of the name, unless it begins or ends the name.\<close>

definition path_suffix :: "string \<Rightarrow> string" where
  "path_suffix p =
     (let b = basename p; e = last (split_on (CHR ''.'') b)
      in if CHR ''.'' \<notin> set b \<or> e = [] \<or> length b = Suc (length e) then [] else CHR ''.'' # e)"

definition TEXT_SUFFIXES :: "string list" where
  "TEXT_SUFFIXES = [''.json'', ''.txt'', ''.log'', ''.yaml'', ''.yml'', ''.conf'', ''.md'', ''.csv'']"

record file_info =
  fi_name :: string
  fi_size :: nat
  fi_size_human :: string
  fi_mtime :: int
  fi_suffix :: string
  fi_preview :: "string option"

datatype files_page =
    ToIndex
  | Listing "dir_entry list" "(string \<times> string) list"
  | Detail file_info "(string \<times> string) list" string

fun crumbs :: "string \<Rightarrow> string list \<Rightarrow> (string \<times> string) list" where
  "crumbs acc [] = []"
| "crumbs acc (p # ps) = (p, acc @ ''/'' @ p) # crumbs (acc @ ''/'' @ p) ps"

definition breadcrumbs :: "string list \<Rightarrow> (string \<times> string) list" where
  "breadcrumbs parts = (hd parts, hd parts) # crumbs (hd parts) (tl parts)"

text \<open>\<open>decode\<close> is the lenient UTF-8 decoder of \<open>read_text(errors="replace")\<close>.\<close>

definition file_detail :: "(bytes \<Rightarrow> string) \<Rightarrow> file_system \<Rightarrow> string \<Rightarrow> file_info" where
  "file_detail decode fs p =
     \<lparr>fi_name = basename p, fi_size = st_size fs p, fi_size_human = human_size (st_size fs p), fi_mtime = fs_mtime fs p, fi_suffix = path_suffix p,
      fi_preview = (if path_suffix p \<in> set TEXT_SUFFIXES then (case fs_node fs p of Some (FileNode b) \<Rightarrow> Some (take 10000 (decode b)) | _ \<Rightarrow> None) else None)\<rparr>"

text \<open>The directory a path names and what it stands for on the disk.\<close>

definition locate :: "env \<Rightarrow> file_system \<Rightarrow> string list \<Rightarrow> py_error \<Rightarrow> string result" where
  "locate e fs parts unknown = (case map_of (file_roots e) (hd parts) of
       None \<Rightarrow> Inl unknown
     | Some rdir \<Rightarrow> safe_resolve fs rdir (join_with ''/'' (tl parts)))"

definition files_browse :: "(bytes \<Rightarrow> string) \<Rightarrow> env \<Rightarrow> file_system \<Rightarrow> string \<Rightarrow> files_page result" where
  "files_browse decode e fs path =
     (let parts = pure_parts path
      in if parts = [] then Inr ToIndex
         else bind_result (locate e fs parts (HTTPException 404 (''Repertoire inconnu: '' @ hd parts))) (\<lambda>p.
           if fs_node fs p = None then Inl (HTTPException 404 ''Fichier ou repertoire introuvable'')
           else if is_dir fs p then bind_result (list_dir fs p) (\<lambda>es. Inr (Listing es (breadcrumbs parts)))
           else Inr (Detail (file_detail decode fs p) (breadcrumbs parts) (''/admin/files-dl/'' @ path))))"

text \<open>What \<open>FileResponse\<close> sends: the path, its name and content.\<close>

definition files_download :: "env \<Rightarrow> file_system \<Rightarrow> string \<Rightarrow> (string \<times> string \<times> bytes) result" where
  "files_download e fs path =
     (let parts = pure_parts path
      in if parts = [] then Inl (HTTPException 404 ''Not Found'')
         else bind_result (locate e fs parts (HTTPException 404 ''Not Found'')) (\<lambda>p.
           case fs_node fs p of
             Some (FileNode b) \<Rightarrow> Inr (p, basename p, b)
           | _ \<Rightarrow> Inl (HTTPException 404 ''Fichier introuvable'')))"

section \<open>Confinement\<close>

text \<open>The location \<open>p\<close> is a proper answer to a request for \<open>rel\<close> below a directory: the resolved directory followed by plain
  components, and no part of it is a link when \<open>realpath\<close> can follow all links of the requested path. The directory and \<open>rel\<close> are those
  the requested path names.\<close>

definition under_root :: "file_system \<Rightarrow> string \<Rightarrow> string \<Rightarrow> string \<Rightarrow> bool" where
  "under_root fs rdir rel p =
     (let base = snd (realpath (fs_links fs) (fs_limit fs) (fs_cwd fs) rdir)
      in \<exists>rest. p = path_str (base @ rest) \<and> list_all plain (base @ rest) \<and>
           (fst (realpath (fs_links fs) (fs_limit fs) (fs_cwd fs) (joined base rel)) \<longrightarrow> linkfree (fs_links fs) (base @ rest)))"

definition confined :: "env \<Rightarrow> file_system \<Rightarrow> string \<Rightarrow> string \<Rightarrow> bool" where
  "confined e fs path p = (\<exists>name cs rdir. pure_parts path = name # cs \<and> map_of (file_roots e) name = Some rdir \<and>
     under_root fs rdir (join_with ''/'' cs) p)"

lemma safe_resolve_under:
  assumes "list_all plain (fs_cwd fs)" "safe_resolve fs rdir rel = Inr p"
  shows "under_root fs rdir rel p"
proof -
  let ?rp = "realpath (fs_links fs) (fs_limit fs) (fs_cwd fs)"
  define base where "base = snd (?rp rdir)"
  define cand where "cand = snd (?rp (joined base rel))"
  have pl: "list_all plain base" "list_all plain cand" unfolding base_def cand_def by (simp_all add: realpath_plain [OF assms(1)])
  have inside: "path_str cand = path_str base \<or> startswith (path_str cand) (path_str base @ [slash])" and p: "p = path_str cand"
    using assms(2) unfolding safe_resolve_def safe_path_join_eq [OF assms(1) base_def cand_def] by (auto split: if_splits)
  obtain rest where r: "cand = base @ rest" using inside_iff [OF pl inside] .
  have "linkfree (fs_links fs) cand" if "fst (?rp (joined base rel))"
    using that realpath_joined_linkfree [of "fs_links fs" "fs_limit fs" "fs_cwd fs" base rel cand] by (metis cand_def prod.collapse)
  then show ?thesis unfolding under_root_def Let_def base_def [symmetric] using r p pl(2) by blast
qed

lemma locate_confined:
  assumes "list_all plain (fs_cwd fs)" "pure_parts path \<noteq> []" "locate e fs (pure_parts path) err = Inr p"
  shows "confined e fs path p"
proof -
  obtain name cs where n: "pure_parts path = name # cs" using assms(2) by (cases "pure_parts path") simp_all
  then obtain rdir where r: "map_of (file_roots e) name = Some rdir" and j: "safe_resolve fs rdir (join_with ''/'' cs) = Inr p"
    using assms(3) by (auto simp: locate_def split: option.splits)
  from safe_resolve_under [OF assms(1) j] r n show ?thesis unfolding confined_def by blast
qed

lemma map_result_names: "map_result (list_item fs d) ns = Inr es \<Longrightarrow> map de_name es = ns"
  by (induction ns arbitrary: es) (auto simp: bind_result_def list_item_def Let_def split: sum.splits if_splits)

lemma list_dir_names: "list_dir fs d = Inr es \<Longrightarrow> fs_node fs d = Some (DirNode names) \<Longrightarrow> mset (map de_name es) = mset names"
  by (simp add: list_dir_def map_result_names del: mset_map)

text \<open>Property C38. The file browser stays in the directory its path names: what it lists, previews or sends is textually below that
  directory, after the directory itself is resolved; and when \<open>realpath\<close> can follow every link of the requested path (there is no link
  cycle on it), no component of that location is a symbolic link, so the system calls on it cannot leave the directory. A listing
  names exactly the entries of its directory, and a download sends the content of its file.\<close>

theorem files_confined:
  assumes "list_all plain (fs_cwd fs)"
  shows "(case files_download e fs path of Inl err \<Rightarrow> True | Inr (p, n, b) \<Rightarrow> confined e fs path p \<and> fs_node fs p = Some (FileNode b)) \<and>
    (case files_browse decode e fs path of
        Inr (Listing es bs) \<Rightarrow> \<exists>p names. confined e fs path p \<and> fs_node fs p = Some (DirNode names) \<and> mset (map de_name es) = mset names
      | Inr (Detail i bs url) \<Rightarrow> \<exists>p. confined e fs path p \<and> i = file_detail decode fs p
      | _ \<Rightarrow> True)"
proof
  show "case files_download e fs path of Inl err \<Rightarrow> True | Inr (p, n, b) \<Rightarrow> confined e fs path p \<and> fs_node fs p = Some (FileNode b)"
    using locate_confined [OF assms, of path e]
    by (auto simp: files_download_def Let_def bind_result_def split: sum.splits option.splits node.splits)
  show "case files_browse decode e fs path of
        Inr (Listing es bs) \<Rightarrow> \<exists>p names. confined e fs path p \<and> fs_node fs p = Some (DirNode names) \<and> mset (map de_name es) = mset names
      | Inr (Detail i bs url) \<Rightarrow> \<exists>p. confined e fs path p \<and> i = file_detail decode fs p
      | _ \<Rightarrow> True"
  proof (cases "pure_parts path = []")
    case False
    let ?l = "locate e fs (pure_parts path) (HTTPException 404 (''Repertoire inconnu: '' @ hd (pure_parts path)))"
    show ?thesis
    proof (cases ?l)
      case (Inr p)
      then have c: "confined e fs path p" by (rule locate_confined [OF assms False])
      show ?thesis
      proof (cases "fs_node fs p")
        case (Some nd)
        with Inr False c show ?thesis
          by (cases nd; cases "list_dir fs p") (auto simp: files_browse_def Let_def is_dir_def simp del: mset_map dest: list_dir_names)
      next
        case None
        with Inr False show ?thesis by (simp add: files_browse_def Let_def)
      qed
    next
      case (Inl err)
      with False show ?thesis by (simp add: files_browse_def Let_def)
    qed
  next
    case True
    then show ?thesis by (simp add: files_browse_def)
  qed
qed

definition demo_fs :: file_system where
  "demo_fs = \<lparr>fs_links = (\<lambda>p. if p = [''data'', ''enroll'', ''out''] then Some ''/etc'' else None), fs_limit = 40, fs_cwd = [''srv''],
     fs_node = (\<lambda>p. if p = ''/data/enroll'' then Some (DirNode [''b.json'', ''out'']) else if p = ''/data/enroll/b.json'' then Some (FileNode ''{}'')
        else if p = ''/etc/passwd'' then Some (FileNode ''root'') else None), fs_mtime = (\<lambda>_. 0)\<rparr>"

theorem files_confined_witness:
  "files_download (\<lambda>_. None) demo_fs ''enroll/./b.json'' = Inr (''/data/enroll/b.json'', ''b.json'', ''{}'') \<and>
   files_download (\<lambda>_. None) demo_fs ''enroll/out/passwd'' = Inl (HTTPException 400 ''Invalid path'') \<and>
   confined (\<lambda>_. None) demo_fs ''enroll/./b.json'' ''/data/enroll/b.json''"
proof -
  have c: "list_all plain (fs_cwd demo_fs)" by code_simp
  have d: "files_download (\<lambda>_. None) demo_fs ''enroll/./b.json'' = Inr (''/data/enroll/b.json'', ''b.json'', ''{}'')" by code_simp
  have x: "files_download (\<lambda>_. None) demo_fs ''enroll/out/passwd'' = Inl (HTTPException 400 ''Invalid path'')" by code_simp
  from files_confined [OF c, of "\<lambda>_. None" "''enroll/./b.json''" "\<lambda>b. b"] d x show ?thesis by simp
qed

section \<open>Further facts\<close>

text \<open>The requirement is not empty: it rejects the unresolved location of a link out of the directory.\<close>

lemma confined_rejects_link: "\<not> confined (\<lambda>_. None) demo_fs ''enroll/out/passwd'' ''/data/enroll/out/passwd''"
proof
  assume "confined (\<lambda>_. None) demo_fs ''enroll/out/passwd'' ''/data/enroll/out/passwd''"
  moreover have "pure_parts ''enroll/out/passwd'' = [''enroll'', ''out'', ''passwd'']" "map_of (file_roots (\<lambda>_. None)) ''enroll'' = Some ''/data/enroll''"
    "snd (realpath (fs_links demo_fs) (fs_limit demo_fs) (fs_cwd demo_fs) ''/data/enroll'') = [''data'', ''enroll'']"
    "fst (realpath (fs_links demo_fs) (fs_limit demo_fs) (fs_cwd demo_fs) (joined [''data'', ''enroll''] ''out/passwd''))" by code_simp+
  ultimately obtain rest where r: "''/data/enroll/out/passwd'' = path_str ([''data'', ''enroll''] @ rest)" "list_all plain ([''data'', ''enroll''] @ rest)"
    "linkfree (fs_links demo_fs) ([''data'', ''enroll''] @ rest)" by (auto simp: confined_def under_root_def)
  have "''/data/enroll/out/passwd'' = path_str [''data'', ''enroll'', ''out'', ''passwd'']" "list_all plain [''data'', ''enroll'', ''out'', ''passwd'']" by code_simp+
  with r have "[''data'', ''enroll''] @ rest = [''data'', ''enroll'', ''out'', ''passwd'']" by (metis path_str_inj)
  with r(3) show False by (auto simp: linkfree_def demo_fs_def dest!: spec [of _ 3])
qed

text \<open>Every file below a directory can be downloaded under its path.\<close>

lemma pure_parts_join:
  assumes "list_all plain cs" "cs \<noteq> []"
  shows "pure_parts (join_with ''/'' cs) = cs"
proof -
  have "components (join_with [slash] cs) = cs" 
    using components_path_str [of cs] components_append [of "[]" "join_with [slash] cs"] assms(1) by (simp add: path_str_def plain_def list_all_iff)
  moreover have "\<not> startswith (join_with ''/'' cs) ''/''"
    using assms by (cases cs; cases "tl cs"; cases "hd cs") (auto simp: startswith_def plain_def proper_def slash_def)
  ultimately show ?thesis by (simp add: pure_parts_def pure_root_def slash_def)
qed

lemma files_download_complete:
  assumes "list_all plain (fs_cwd fs)" "(name, path_str base) \<in> set (file_roots e)" "base \<noteq> []" "list_all plain (base @ rest)" "rest \<noteq> []"
    "linkfree (fs_links fs) (base @ rest)" "linkfree (fs_links fs) base" "fs_node fs (path_str (base @ rest)) = Some (FileNode b)"
  shows "files_download e fs (join_with ''/'' (name # rest)) = Inr (path_str (base @ rest), basename (path_str (base @ rest)), b)"
proof -
  have names: "name \<in> {''enroll'', ''binaries'', ''config''}" "map_of (file_roots e) name = Some (path_str base)"
    using assms(2) by (auto simp: file_roots_def)
  have "plain name" using names(1) by (auto simp: plain_def proper_def slash_def)
  then have "pure_parts (join_with ''/'' (name # rest)) = name # rest" using assms(4) by (intro pure_parts_join) simp_all
  moreover have "safe_resolve fs (path_str base) (join_with [slash] rest) = Inr (path_str (base @ rest))"
    unfolding safe_resolve_def using assms by (intro safe_path_join_complete) simp_all
  ultimately show ?thesis using names(2) assms(8) by (simp add: files_download_def Let_def locate_def slash_def)
qed

text \<open>A dangling link makes the page of its whole directory fail.\<close>

lemma dangling_link_breaks_listing:
  assumes "fs_node fs d = Some (DirNode names)" "n \<in> set names" "fs_node fs (child d n) = None"
  shows "\<exists>err. list_dir fs d = Inl err"
proof -
  have "list_item fs d n = Inl (OSError ''No such file or directory'')" using assms(3) by (simp add: list_item_def)
  with assms(2) have "\<exists>err. map_result (list_item fs d) (sort_key g names) = Inl err" for g :: "string \<Rightarrow> nat \<times> string"
    by (intro map_result_fails [of n]) simp_all
  then show ?thesis using assms(1) by (simp add: list_dir_def)
qed

text \<open>Sizes: a multiple of a unit is shown as such, and rounding may reach the next unit.\<close>

lemma human_size_examples: "human_size 1023 = ''1023 o''" "human_size 1024 = ''1.0 Ko''" "human_size 1048575 = ''1024.0 Ko''" "human_size 1572864 = ''1.5 Mo''"
  by (simp_all add: human_size_def one_decimal_def tenths_def str_of_nat_def nat_digits.simps digit_char_def char_of_def bit_0)

end
