(* ===== verification/AuditPages.thy ===== *)
theory AuditPages
  imports AdminInv FileBrowser
begin

text \<open>
  Reading the audit log: the service \<open>app/admin/services/audit.py\<close>, the page with its infinite scroll and the CSV export of
  \<open>app/admin/router.py\<close>. \<open>jt\<close> is the text PostgreSQL gives a \<open>jsonb\<close> value, \<open>isof\<close> and \<open>fmt\<close> write a point in time. Entries of one transaction share
  their time, and \<open>ORDER BY created_at DESC\<close> leaves the order among them to the database: \<open>tie\<close> ranks them, anew for every query. The columns \<open>id\<close> and \<open>user_agent\<close> are left out.
\<close>

section \<open>Search\<close>

text \<open>SQL's \<open>LIKE\<close>; a backslash takes the next character as it is.\<close>

fun like :: "string \<Rightarrow> string \<Rightarrow> bool" where
  "like [] s = (s = [])"
| "like (p # ps) [] = (p = CHR ''%'' \<and> like ps [])"
| "like (p # ps) (c # cs) =
     (if p = CHR ''%'' then like ps (c # cs) \<or> like (p # ps) cs
      else if p = CHR ''_'' then like ps cs
      else if p = CHR 0x5C then (case ps of [] \<Rightarrow> False | q # qs \<Rightarrow> q = c \<and> like qs cs)
      else p = c \<and> like ps cs)"

definition ilike :: "string option \<Rightarrow> string \<Rightarrow> bool" where
  "ilike s x = (case s of None \<Rightarrow> False | Some t \<Rightarrow> like (lower (''%'' @ x @ ''%'')) (lower t))"

definition pg_digits :: "string \<Rightarrow> bool" where
  "pg_digits s = (s \<noteq> [] \<and> list_all (\<lambda>c. CHR ''0'' \<le> c \<and> c \<le> CHR ''9'') s)"

text \<open>\<open>s::int\<close> of a text of digits.\<close>

definition int4 :: "string \<Rightarrow> int result" where
  "int4 s = (case py_int s of Some i \<Rightarrow> if i \<le> 2147483647 then Inr i else Inl DatabaseError | None \<Rightarrow> Inl DatabaseError)"

definition payload_text :: "(json \<Rightarrow> string) \<Rightarrow> json option \<Rightarrow> string \<Rightarrow> string option" where
  "payload_text jt pl k = (case pl of Some (JObj d) \<Rightarrow> (case jget d k of JNull \<Rightarrow> None | JStr s \<Rightarrow> Some s | v \<Rightarrow> Some (jt v)) | _ \<Rightarrow> None)"

definition slug_by_id :: "string option \<Rightarrow> admin_db \<Rightarrow> string option result" where
  "slug_by_id s db = (case s of
       Some t \<Rightarrow> if pg_digits t then bind_result (int4 t) (\<lambda>i. Inr (map_option cp_slug (get_plugin (ad_cat db) i))) else Inr None
     | None \<Rightarrow> Inr None)"

definition flag_slug_by_id :: "string option \<Rightarrow> admin_db \<Rightarrow> string option result" where
  "flag_slug_by_id s db = (case s of
       Some t \<Rightarrow> if pg_digits t then bind_result (int4 t) (\<lambda>i. Inr (case find (\<lambda>f. ff_id f = i) (feature_flags (ct_flags (ad_cat db))) of
           Some f \<Rightarrow> if ff_plugin_slug f = [] then None else Some (ff_plugin_slug f) | None \<Rightarrow> None)) else Inr None
     | None \<Rightarrow> Inr None)"

definition PLUGIN_EXPR :: "(json \<Rightarrow> string) \<Rightarrow> admin_db \<Rightarrow> audit_row \<Rightarrow> string option result" where
  "PLUGIN_EXPR jt db r =
     (let rid = au_resource_id r; ty = au_resource_type r
      in or_else (Inr (au_plugin_slug r))
        (or_else (Inr (case rid of Some s \<Rightarrow> if ty = ''plugin'' \<and> \<not> pg_digits s \<and> s \<noteq> ''*'' then Some s else None | None \<Rightarrow> None))
        (or_else (if ty = ''plugin'' then slug_by_id rid db else Inr None)
        (or_else (Inr (payload_text jt (au_payload r) ''plugin_slug''))
        (or_else (slug_by_id (payload_text jt (au_payload r) ''plugin_id'') db)
          (if ty = ''flag'' then flag_slug_by_id rid db else Inr None))))))"

record audit_filter =
  fl_actor :: string
  fl_action :: string
  fl_type :: string
  fl_q :: string
  fl_plugin :: string
  fl_from :: "string option"
  fl_to :: "string option"

definition opt_time :: "admin_env \<Rightarrow> string option \<Rightarrow> timestamp option result" where
  "opt_time en s = (case s of
       None \<Rightarrow> Inr None
     | Some t \<Rightarrow> if t = [] then Inr None else (case ae_timestamptz en t of Some x \<Rightarrow> Inr (Some x) | None \<Rightarrow> Inl DatabaseError))"

definition row_matches :: "(json \<Rightarrow> string) \<Rightarrow> audit_filter \<Rightarrow> timestamp option \<Rightarrow> timestamp option \<Rightarrow> audit_row \<Rightarrow> bool" where
  "row_matches jt f lo hi r =
     ((fl_actor f \<noteq> [] \<longrightarrow> ilike (au_actor_email r) (fl_actor f)) \<and> (fl_action f \<noteq> [] \<longrightarrow> ilike (Some (au_action r)) (fl_action f)) \<and>
      (fl_type f \<noteq> [] \<longrightarrow> au_resource_type r = fl_type f) \<and> (case lo of Some t \<Rightarrow> t \<le> au_created_at r | None \<Rightarrow> True) \<and>
      (case hi of Some t \<Rightarrow> au_created_at r \<le> t | None \<Rightarrow> True) \<and>
      (fl_q f \<noteq> [] \<longrightarrow> ilike (map_option jt (au_payload r)) (fl_q f) \<or> ilike (au_resource_id r) (fl_q f)))"

fun filter_plugin :: "(json \<Rightarrow> string) \<Rightarrow> string \<Rightarrow> admin_db \<Rightarrow> audit_row list \<Rightarrow> audit_row list result" where
  "filter_plugin jt x db [] = Inr []"
| "filter_plugin jt x db (r # rs) = bind_result (PLUGIN_EXPR jt db r) (\<lambda>s. bind_result (filter_plugin jt x db rs) (\<lambda>ys. Inr (if ilike s x then r # ys else ys)))"

text \<open>The rows the \<open>WHERE\<close> clause keeps, and their order in one query: newest first, rows of one time as \<open>tie\<close> has them.\<close>

definition audit_where :: "(json \<Rightarrow> string) \<Rightarrow> admin_env \<Rightarrow> audit_filter \<Rightarrow> admin_db \<Rightarrow> audit_row list result" where
  "audit_where jt en f db =
     bind_result (opt_time en (fl_from f)) (\<lambda>lo. bind_result (opt_time en (fl_to f)) (\<lambda>hi.
       let rows = filter (row_matches jt f lo hi) (ad_audit db)
       in if fl_plugin f = [] then Inr rows else filter_plugin jt (fl_plugin f) db rows))"

definition newest_first :: "(audit_row \<Rightarrow> int) \<Rightarrow> audit_row list \<Rightarrow> audit_row list" where
  "newest_first tie rs = sort_key (\<lambda>r. - au_created_at r) (sort_key tie rs)"

definition audit_matches :: "(audit_row \<Rightarrow> int) \<Rightarrow> (json \<Rightarrow> string) \<Rightarrow> admin_env \<Rightarrow> audit_filter \<Rightarrow> admin_db \<Rightarrow> audit_row list result" where
  "audit_matches tie jt en f db = bind_result (audit_where jt en f db) (\<lambda>rs. Inr (newest_first tie rs))"

definition list_audit_entries ::
  "(audit_row \<Rightarrow> int) \<Rightarrow> (json \<Rightarrow> string) \<Rightarrow> admin_env \<Rightarrow> audit_filter \<Rightarrow> nat \<Rightarrow> int \<Rightarrow> admin_db \<Rightarrow> (audit_row \<times> string option) list result" where
  "list_audit_entries tie jt en f limit offset db =
     (if offset < 0 then Inl DatabaseError
      else bind_result (audit_matches tie jt en f db) (\<lambda>rows.
        map_result (\<lambda>r. bind_result (PLUGIN_EXPR jt db r) (\<lambda>s. Inr (r, s))) (take limit (drop (nat offset) rows))))"



section \<open>Page and export\<close>


record audit_query =
  aqr_actor :: string
  aqr_action :: string
  aqr_type :: string
  aqr_q :: string
  aqr_period :: string
  aqr_from :: string
  aqr_to :: string
  aqr_plugin :: string

definition period_days :: "string \<Rightarrow> int option" where
  "period_days p = map_of [(''24h'', 1), (''7d'', 7), (''30d'', 30)] p"

definition blank_none :: "string \<Rightarrow> string option" where
  "blank_none s = (if s = [] then None else Some s)"

definition audit_date_bounds :: "(timestamp \<Rightarrow> string) \<Rightarrow> timestamp \<Rightarrow> string \<Rightarrow> string \<Rightarrow> string \<Rightarrow> string option \<times> string option" where
  "audit_date_bounds isof now period date_from date_to = (case period_days period of
       Some d \<Rightarrow> (Some (isof (now - secs (86400 * d))), None)
     | None \<Rightarrow>
         if period \<noteq> ''custom'' then (None, None)
         else let t = strip date_to
              in (blank_none (strip date_from), blank_none (if length t = 10 then t @ ''T23:59:59'' else t)))"

definition filter_of :: "(timestamp \<Rightarrow> string) \<Rightarrow> timestamp \<Rightarrow> audit_query \<Rightarrow> audit_filter" where
  "filter_of isof now qy =
     (let (lo, hi) = audit_date_bounds isof now (aqr_period qy) (aqr_from qy) (aqr_to qy)
      in \<lparr>fl_actor = aqr_actor qy, fl_action = aqr_action qy, fl_type = aqr_type qy, fl_q = aqr_q qy, fl_plugin = aqr_plugin qy, fl_from = lo, fl_to = hi\<rparr>)"





text \<open>\<open>csv.writer\<close> with its defaults.\<close>

definition csv_special :: "char \<Rightarrow> bool" where
  "csv_special c = (c \<in> {CHR '','', CHR 0x22, CHR 0x0D, CHR 0x0A})"

definition csv_field :: "string \<Rightarrow> string" where
  "csv_field s = (if list_ex csv_special s then CHR 0x22 # concat (map (\<lambda>c. if c = CHR 0x22 then [c, c] else [c]) s) @ [CHR 0x22] else s)"

definition csv_row :: "string list \<Rightarrow> string" where
  "csv_row fs = join_with '','' (map csv_field fs) @ [CHR 0x0D, CHR 0x0A]"

definition csv_header :: "string list" where
  "csv_header = [''horodatage'', ''acteur'', ''action'', ''plugin'', ''type_ressource'', ''id_ressource'', ''details'']"

definition csv_fields :: "(timestamp \<Rightarrow> string) \<Rightarrow> audit_row \<times> string option \<Rightarrow> string list" where
  "csv_fields fmt = (\<lambda>(r, slug). [fmt (au_created_at r), str_or (au_actor_email r) [], au_action r, str_or slug [], au_resource_type r,
     str_or (au_resource_id r) [], case au_payload r of Some p \<Rightarrow> if truthy p then dumps p else [] | None \<Rightarrow> []])"

definition export_limit :: nat where "export_limit = 10000"

text \<open>An exception closes the connection, which rolls back.\<close>

definition audit_export ::
  "(audit_row \<Rightarrow> int) \<Rightarrow> (json \<Rightarrow> string) \<Rightarrow> (timestamp \<Rightarrow> string) \<Rightarrow> (timestamp \<Rightarrow> string) \<Rightarrow> admin_env \<Rightarrow> admin_request \<Rightarrow> audit_query \<Rightarrow> admin_db \<Rightarrow> string result \<times> admin_db" where
  "audit_export tie jt isof fmt en rq qy db = (case ae_connect en of
       Some e \<Rightarrow> (Inl e, db)
     | None \<Rightarrow>
         (case bind_result (list_audit_entries tie jt en (filter_of isof (aq_now rq) qy) export_limit 0 db) (\<lambda>es.
            bind_result (audit_log en (aq_now rq) (aq_actor rq) (aq_ip rq)
              \<lparr>ent_action = ''audit.export'', ent_type = ''audit'', ent_id = None, ent_payload = [(''count'', JInt (int (length es)))]\<rparr> db) (\<lambda>db'. Inr (es, db'))) of
            Inl e \<Rightarrow> (Inl e, db)
          | Inr (es, db') \<Rightarrow> (Inr (concat (map csv_row (csv_header # map (csv_fields fmt) es))), db')))"

section \<open>Search terms\<close>

definition wild :: "char \<Rightarrow> bool" where
  "wild c = (c \<in> {CHR ''%'', CHR ''_'', CHR 0x5C})"

lemma wild_lower_char: "wild (lower_char c) = wild c"
  by (auto simp: wild_def lower_char_def Let_def char_of_eq_iff take_bit_eq_mod)

lemma like_percent: "like (CHR ''%'' # p) s = (\<exists>a b. s = a @ b \<and> like p b)"
proof (induction s)
  case (Cons c s)
  have "(\<exists>a b. c # s = a @ b \<and> like p b) = (like p (c # s) \<or> (\<exists>a b. s = a @ b \<and> like p b))"
    by (metis append_Cons append_Nil neq_Nil_conv list.inject)
  then show ?case using Cons by simp
qed simp

lemma like_all: "like [CHR ''%''] s"
  by (induction s) auto

lemma like_literal: "list_all (\<lambda>c. \<not> wild c) x \<Longrightarrow> like (x @ [CHR ''%'']) s = (\<exists>b. s = x @ b)"
proof (induction x arbitrary: s)
  case Nil
  then show ?case using like_all by simp
next
  case (Cons c x)
  then show ?case by (cases s) (auto simp: wild_def)
qed

text \<open>A search term without wildcards finds the entries that contain it, whatever the case.\<close>

lemma ilike_contains:
  assumes "list_all (\<lambda>c. \<not> wild c) x"
  shows "ilike (Some t) x = (\<exists>a b. lower t = a @ lower x @ b)"
proof -
  have l: "lower (''%'' @ x @ ''%'') = CHR ''%'' # lower x @ [CHR ''%'']" by (simp add: lower_def lower_char_def)
  have "list_all (\<lambda>c. \<not> wild c) (lower x)" using assms by (auto simp: lower_def list_all_iff wild_lower_char)
  then show ?thesis unfolding ilike_def option.case l like_percent using like_literal by auto
qed

text \<open>An underscore in the term stands for any character.\<close>

lemma underscore_is_wildcard: "ilike (Some ''my-plugin'') ''my_plugin''"
  by code_simp

section \<open>Infinite scroll\<close>

lemma result_fst:
  "map_result (\<lambda>r. bind_result (g r) (\<lambda>s. Inr (r, s))) rs = Inr es \<Longrightarrow> map fst es = rs \<and> list_all (\<lambda>x. g (fst x) = Inr (snd x)) es"
  by (induction rs arbitrary: es) (auto simp: bind_result_eq_Inr)

lemma list_audit_entries_rows:
  assumes "list_audit_entries tie jt en f limit offset db = Inr es"
  shows "\<exists>rows. audit_matches tie jt en f db = Inr rows \<and> 0 \<le> offset \<and> map fst es = take limit (drop (nat offset) rows) \<and>
    list_all (\<lambda>x. PLUGIN_EXPR jt db (fst x) = Inr (snd x)) es"
  using assms by (auto simp: list_audit_entries_def bind_result_eq_Inr dest: result_fst split: if_splits)



lemma newest_first_times: "map (\<lambda>r. - au_created_at r) (newest_first tie rs) = sort (map (\<lambda>r. - au_created_at r) rs)"
  by (rule properties_for_sort [symmetric]) (simp_all add: newest_first_def)





definition demo_query :: audit_query where
  "demo_query = \<lparr>aqr_actor = [], aqr_action = ''FLAG'', aqr_type = [], aqr_q = [], aqr_period = [], aqr_from = [], aqr_to = [], aqr_plugin = []\<rparr>"

definition demo_entry :: "timestamp \<Rightarrow> string \<Rightarrow> audit_row" where
  "demo_entry t act = \<lparr>au_created_at = t, au_actor_email = None, au_actor_sub = None, au_action = act, au_resource_type = ''flag'', au_resource_id = None,
     au_payload = None, au_ip = None, au_plugin_slug = None\<rparr>"



text \<open>Two entries of one transaction, read one per page: the second query may return the first entry again, and the other is never shown.\<close>

lemma audit_ties_repeat:
  "let db = demo_admin_db\<lparr>ad_audit := [demo_entry 1 ''flag.create'', demo_entry 1 ''flag.delete'']\<rparr>; f = filter_of (\<lambda>_. []) 0 demo_query
   in list_audit_entries (\<lambda>r. if au_action r = ''flag.create'' then 0 else 1) dumps demo_admin_env f 1 0 db = Inr [(demo_entry 1 ''flag.create'', None)] \<and>
      list_audit_entries (\<lambda>r. if au_action r = ''flag.create'' then 1 else 0) dumps demo_admin_env f 1 1 db = Inr [(demo_entry 1 ''flag.create'', None)]"
  by code_simp

section \<open>Export\<close>

text \<open>The records of a CSV file, as RFC 4180 reads them: inside quotes or not, the field and the fields read so far, both reversed.\<close>

fun csv_read :: "bool \<Rightarrow> string \<Rightarrow> string list \<Rightarrow> string \<Rightarrow> string list list" where
  "csv_read q cur fs [] = (if cur = [] \<and> fs = [] then [] else [rev (rev cur # fs)])"
| "csv_read True cur fs (c # s) =
     (if c \<noteq> CHR 0x22 then csv_read True (c # cur) fs s
      else case s of d # s' \<Rightarrow> if d = CHR 0x22 then csv_read True (d # cur) fs s' else csv_read False cur fs s | [] \<Rightarrow> csv_read False cur fs s)"
| "csv_read False cur fs (c # s) =
     (if c = CHR 0x22 \<and> cur = [] then csv_read True [] fs s
      else if c = CHR '','' then csv_read False [] (rev cur # fs) s
      else if c = CHR 0x0D then rev (rev cur # fs) # (case s of d # s' \<Rightarrow> if d = CHR 0x0A then csv_read False [] [] s' else csv_read False [] [] s | [] \<Rightarrow> [])
      else csv_read False (c # cur) fs s)"

definition csv_records :: "string \<Rightarrow> string list list" where
  "csv_records = csv_read False [] []"

lemma csv_read_plain: "list_all (\<lambda>c. \<not> csv_special c) s \<Longrightarrow> csv_read False cur fs (s @ rest) = csv_read False (rev s @ cur) fs rest"
  by (induction s arbitrary: cur) (auto simp: csv_special_def)

lemma csv_read_quoted:
  assumes "rest \<noteq> []" "hd rest \<noteq> CHR 0x22"
  shows "csv_read True cur fs (concat (map (\<lambda>c. if c = CHR 0x22 then [c, c] else [c]) s) @ CHR 0x22 # rest) = csv_read False (rev s @ cur) fs rest"
  using assms by (induction s arbitrary: cur) (auto split: list.splits)

lemma csv_read_field:
  assumes "rest \<noteq> []" "hd rest \<in> {CHR '','', CHR 0x0D}"
  shows "csv_read False [] fs (csv_field s @ rest) = csv_read False (rev s) fs rest"
proof (cases "list_ex csv_special s")
  case True
  then show ?thesis using csv_read_quoted [of rest "[]" fs s] assms by (auto simp: csv_field_def)
next
  case False
  then show ?thesis using csv_read_plain [of s "[]" fs rest] by (simp add: csv_field_def list_ex_iff list_all_iff)
qed

lemma csv_read_row: "fl \<noteq> [] \<Longrightarrow> csv_read False [] fs (csv_row fl @ rest) = (rev fs @ fl) # csv_read False [] [] rest"
proof (induction fl arbitrary: fs)
  case (Cons x fl)
  show ?case
  proof (cases fl)
    case Nil
    then show ?thesis using csv_read_field [of "CHR 0x0D # CHR 0x0A # rest" fs x] by (simp add: csv_row_def)
  next
    case (Cons y ys)
    have "csv_row (x # fl) @ rest = csv_field x @ CHR '','' # csv_row fl @ rest" using Cons by (simp add: csv_row_def)
    moreover have "csv_read False [] fs (csv_field x @ CHR '','' # csv_row fl @ rest) = csv_read False [] (x # fs) (csv_row fl @ rest)"
      using csv_read_field [of "CHR '','' # csv_row fl @ rest" fs x] by simp
    ultimately show ?thesis using Cons.IH [of "x # fs"] \<open>fl = y # ys\<close> by simp
  qed
qed simp

lemma csv_records_rows: "list_all (\<lambda>r. r \<noteq> []) rows \<Longrightarrow> csv_records (concat (map csv_row rows)) = rows"
  by (induction rows) (simp_all add: csv_records_def csv_read_row)

text \<open>Property C40. An export reads back as what it shows: its records are the header and the fields of the newest matching entries in order, with the plugin each belongs to, whatever
  characters they hold; it leaves one entry of its own in the log, with their number, and changes nothing else. A failed export changes nothing.\<close>

theorem audit_export_faithful:
  "case audit_export tie jt isof fmt en rq qy db of
     (Inl e, db') \<Rightarrow> db' = db
   | (Inr out, db') \<Rightarrow> \<exists>rows es row. audit_matches tie jt en (filter_of isof (aq_now rq) qy) db = Inr rows \<and>
       sorted (map (\<lambda>r. - au_created_at r) rows) \<and> map fst es = take export_limit rows \<and> list_all (\<lambda>x. PLUGIN_EXPR jt db (fst x) = Inr (snd x)) es \<and>
       csv_records out = csv_header # map (csv_fields fmt) es \<and> db' = db\<lparr>ad_audit := ad_audit db @ [row]\<rparr> \<and>
       au_action row = ''audit.export'' \<and> au_payload row = Some (JObj [(''count'', JInt (int (length es)))])"
proof -
  have csv: "csv_records (concat (map csv_row (csv_header # map (csv_fields fmt) es))) = csv_header # map (csv_fields fmt) es" for es
    by (rule csv_records_rows) (auto simp: csv_header_def csv_fields_def list_all_iff)
  have row: "\<exists>row. d = db\<lparr>ad_audit := ad_audit db @ [row]\<rparr> \<and> au_action row = ''audit.export'' \<and> au_payload row = Some (JObj [(''count'', JInt n)])"
    if "audit_log en now actor ip \<lparr>ent_action = ''audit.export'', ent_type = ''audit'', ent_id = None, ent_payload = [(''count'', JInt n)]\<rparr> db = Inr d" for now actor ip n d
    using that by (auto simp: audit_log_def Let_def bind_result_eq_Inr split: if_splits)
  show ?thesis
  proof (cases "audit_export tie jt isof fmt en rq qy db")
    case (Pair r d)
    show ?thesis
    proof (cases r)
      case (Inl e)
      then show ?thesis using Pair by (auto simp: audit_export_def split: option.splits sum.splits)
    next
      case (Inr out)
      then obtain es where es: "list_audit_entries tie jt en (filter_of isof (aq_now rq) qy) export_limit 0 db = Inr es"
        and a: "audit_log en (aq_now rq) (aq_actor rq) (aq_ip rq) \<lparr>ent_action = ''audit.export'', ent_type = ''audit'', ent_id = None, ent_payload = [(''count'', JInt (int (length es)))]\<rparr> db = Inr d"
        and out: "out = concat (map csv_row (csv_header # map (csv_fields fmt) es))"
        using Pair by (auto simp: audit_export_def bind_result_eq_Inr split: option.splits sum.splits)
      from list_audit_entries_rows [OF es] obtain rows where
        m: "audit_matches tie jt en (filter_of isof (aq_now rq) qy) db = Inr rows" "map fst es = take export_limit rows"
          "list_all (\<lambda>x. PLUGIN_EXPR jt db (fst x) = Inr (snd x)) es" by auto
      have "sorted (map (\<lambda>r. - au_created_at r) rows)" using m(1) by (auto simp: audit_matches_def bind_result_eq_Inr newest_first_times)
      with m row [OF a] csv [of es] show ?thesis unfolding Pair Inr out by auto
    qed
  qed
qed

section \<open>An entry that blocks the page\<close>

text \<open>An identifier beyond the range of \<open>int\<close> in an entry without a plugin makes every page with that entry fail.\<close>

lemma big_id_blocks:
  assumes "au_plugin_slug r = None" "au_resource_type r = ''plugin''" "au_resource_id r = Some s" "pg_digits s" "py_int s = Some i" "i > 2147483647"
  shows "PLUGIN_EXPR jt db r = Inl DatabaseError"
  using assms by (simp add: PLUGIN_EXPR_def or_else_def slug_by_id_def int4_def)

lemma page_blocked:
  assumes "audit_matches tie jt en f db = Inr rows" "r \<in> set (take limit (drop (nat offset) rows))" "PLUGIN_EXPR jt db r = Inl e"
  shows "\<exists>e'. list_audit_entries tie jt en f limit offset db = Inl e'"
proof -
  let ?g = "\<lambda>r. bind_result (PLUGIN_EXPR jt db r) (\<lambda>s. Inr (r, s))"
  have "?g r = Inl e" using assms(3) by simp
  from map_result_fails [where f = ?g, OF assms(2) this] show ?thesis using assms(1) by (simp add: list_audit_entries_def)
qed

text \<open>The status route accepts such an identifier and logs it.\<close>

lemma pg_digits_str_of_int: "0 \<le> i \<Longrightarrow> pg_digits (str_of_int i)"
  using nat_digits_digits [of "nat i"] by (auto simp: pg_digits_def str_of_int_def list_all_iff is_digit_def less_eq_char_def Let_def)

lemma unknown_plugin_blocks_audit:
  assumes "catalog_plugin_status en rq pid st db = (Inr r, db')" "r_status r = 303" "pid > 2147483647" "get_plugin (ad_cat db) pid = None"
  shows "\<exists>row \<in> set (ad_audit db'). \<forall>jt d. PLUGIN_EXPR jt d row = Inl DatabaseError"
proof -
  let ?e = "entry (''plugin.'' @ st) ''plugin'' (str_of_int pid) [(''status'', JStr st)]"
  obtain b cat where u: "update_plugin (aq_now rq) pid [(''status'', JStr st)] (ad_cat db) = Inr (b, cat)"
    and a: "audit_log en (aq_now rq) (aq_actor rq) (aq_ip rq) ?e (db\<lparr>ad_cat := cat\<rparr>) = Inr db'"
    using assms(1) by (auto simp: catalog_plugin_status_def update_and_audit_def transaction_def then_audit_def bad_request_def bind_result_eq_Inr split: option.splits sum.splits)
  from update_plugin_only [OF u] have "cp_id ` set (ct_plugins cat) = cp_id ` set (ct_plugins (ad_cat db))" by (metis list.set_map cat_db.select_convs(1) cat_db.update_convs(1) cat_db.surjective)
  moreover have "pid \<notin> cp_id ` set (ct_plugins (ad_cat db))" using assms(4) by (auto simp: get_plugin_def find_None_iff)
  ultimately have "pid \<notin> cp_id ` set (ct_plugins cat)" by simp
  then have none: "get_plugin cat pid = None" by (auto simp: get_plugin_def find_None_iff)
  have s: "str_of_int pid \<noteq> []" "isdigit (str_of_int pid)" "pg_digits (str_of_int pid)" "strip (py_str (JStr [])) = []"
    using assms(3) pg_digits_str_of_int [of pid] isdigit_str_of_int [of pid] by (auto simp: pg_digits_def)
  have "derive_audit_plugin (ent_type ?e) (ent_id ?e) (ent_payload ?e) (db\<lparr>ad_cat := cat\<rparr>) = Inr None"
    using s none by (simp add: entry_def derive_audit_plugin_def or_else_def plugin_slug_of_def Let_def jget_or_def jget_def dget_def)
  then have "ad_audit db' \<noteq> [] \<and> au_plugin_slug (last (ad_audit db')) = None \<and> au_resource_type (last (ad_audit db')) = ''plugin'' \<and>
      au_resource_id (last (ad_audit db')) = Some (str_of_int pid)"
    using a by (auto simp: audit_log_def Let_def bind_result_eq_Inr entry_def split: if_splits)
  then show ?thesis using s(3) assms(3) big_id_blocks [of "last (ad_audit db')" "str_of_int pid" pid] by (auto intro!: bexI [of _ "last (ad_audit db')"])
qed

end
