(* ===== verification/Devices.thy ===== *)
theory Devices
  imports AuditPages
begin

text \<open>
  The device pages: \<open>app/admin/services/devices.py\<close>, the routes of \<open>app/admin/router.py\<close> that show its figures, and the two time
  helpers of \<open>app/admin/helpers.py\<close>. The tables are those that enrolments and configuration requests write (\<open>Enroll\<close>). A row is inserted with
  \<open>created_at\<close> and \<open>connected_at\<close> both \<open>now()\<close>; the model has one column for them. Mail addresses compare without regard to case (\<open>citext\<close>); of
  equal ones the first in the table is shown. The labels of telemetry events are symbols outside the modelled characters.
\<close>

section \<open>Health\<close>

definition sql_health :: "timestamp \<Rightarrow> timestamp option \<Rightarrow> string" where
  "sql_health now seen = (case seen of None \<Rightarrow> ''never'' | Some t \<Rightarrow> if now - t > secs 86400 then ''stale'' else ''ok'')"

text \<open>\<open>compute_device_health\<close> on points in time; a text that is no date gives \<open>never\<close>.\<close>

definition compute_device_health :: "timestamp \<Rightarrow> timestamp option \<Rightarrow> bool \<Rightarrow> string" where
  "compute_device_health now seen failing = (case seen of
       None \<Rightarrow> ''never''
     | Some t \<Rightarrow> if failing then ''error'' else if now - t > secs 86400 then ''stale'' else ''ok'')"

definition timeago :: "(timestamp \<Rightarrow> string) \<Rightarrow> timestamp \<Rightarrow> timestamp option \<Rightarrow> string" where
  "timeago fmt now dt = (case dt of
       None \<Rightarrow> ''jamais''
     | Some t \<Rightarrow>
         let s = trunc_secs (now - t); days = s div 86400
         in if s < 60 then ''il y a quelques secondes''
            else if s < 3600 then ''il y a '' @ str_of_int (s div 60) @ '' min''
            else if s < 86400 then ''il y a '' @ str_of_int (s div 3600) @ ''h''
            else if days = 1 then ''il y a 1 jour''
            else if days < 30 then ''il y a '' @ str_of_int days @ '' jours''
            else fmt t)"

section \<open>The list of devices\<close>

record device_line =
  dl_client_uuid :: string
  dl_email :: string
  dl_action :: string
  dl_user_agent :: "string option"
  dl_last_contact :: timestamp
  dl_enrollment :: "string option"
  dl_health :: string

definition enrollment_of :: "enroll_store \<Rightarrow> string \<Rightarrow> prov_row option" where
  "enrollment_of st u = find (prov_active u) (provisioning st)"

type_synonym device_key = "string \<times> string \<times> string"

definition device_key :: "conn_row \<Rightarrow> device_key" where
  "device_key c = (cn_client_uuid c, lower (cn_email c), cn_action c)"

definition latest_text :: "string option list \<Rightarrow> string option" where
  "latest_text xs = (let ts = concat (map (\<lambda>x. case x of Some s \<Rightarrow> [s] | None \<Rightarrow> []) xs) in if ts = [] then None else Some (Max (set ts)))"

definition last_contact :: "conn_row list \<Rightarrow> timestamp" where
  "last_contact rows = Max (set (map cn_connected_at rows))"

definition line_of :: "timestamp \<Rightarrow> enroll_store \<Rightarrow> conn_row list \<Rightarrow> device_key \<Rightarrow> device_line" where
  "line_of now st rows k =
     (let g = filter (\<lambda>c. device_key c = k) rows
      in \<lparr>dl_client_uuid = fst k, dl_email = cn_email (hd g), dl_action = snd (snd k), dl_user_agent = latest_text (map cn_user_agent g),
          dl_last_contact = last_contact g, dl_enrollment = map_option pv_status (enrollment_of st (fst k)),
          dl_health = sql_health now (Some (last_contact g))\<rparr>)"

definition device_where :: "string \<Rightarrow> string \<Rightarrow> conn_row \<Rightarrow> bool" where
  "device_where owner platform c = ((owner \<noteq> [] \<longrightarrow> ilike (Some (cn_email c)) owner \<or> ilike (cn_user_agent c) owner) \<and> (platform \<noteq> [] \<longrightarrow> cn_action c = platform))"

definition list_devices :: "timestamp \<Rightarrow> string \<Rightarrow> string \<Rightarrow> string \<Rightarrow> nat \<Rightarrow> int \<Rightarrow> enroll_store \<Rightarrow> device_line list result" where
  "list_devices now owner platform health limit offset st =
     (if offset < 0 then Inl DatabaseError
      else let rows = filter (device_where owner platform) (device_connections st);
               lines = map (line_of now st rows) (remdups (map device_key rows));
               kept = filter (\<lambda>l. health \<noteq> [] \<longrightarrow> dl_health l = health) lines
           in Inr (take limit (drop (nat offset) (sort_key (\<lambda>l. - dl_last_contact l) kept))))"

record health_counts =
  hc_ok :: nat
  hc_stale :: nat
  hc_error :: nat
  hc_never :: nat

definition device_ids :: "enroll_store \<Rightarrow> string list" where
  "device_ids st = remdups (map cn_client_uuid (device_connections st))"

definition contact_of :: "enroll_store \<Rightarrow> string \<Rightarrow> timestamp" where
  "contact_of st u = last_contact (filter (\<lambda>c. cn_client_uuid c = u) (device_connections st))"

text \<open>Every group has a contact: the count of devices never seen is empty.\<close>

definition health_summary :: "timestamp \<Rightarrow> enroll_store \<Rightarrow> health_counts" where
  "health_summary now st =
     (let age = (\<lambda>u. now - contact_of st u)
      in \<lparr>hc_ok = length (filter (\<lambda>u. age u \<le> secs 86400) (device_ids st)),
          hc_stale = length (filter (\<lambda>u. age u > secs 86400 \<and> age u \<le> secs (7 * 86400)) (device_ids st)), hc_error = 0, hc_never = 0\<rparr>)"

record devices_page =
  dp_devices :: "device_line list"
  dp_summary :: health_counts
  dp_filters :: "(string \<times> string) list"
  dp_page :: int

definition devices_list :: "admin_env \<Rightarrow> timestamp \<Rightarrow> string \<Rightarrow> string \<Rightarrow> string \<Rightarrow> int \<Rightarrow> enroll_store \<Rightarrow> devices_page result" where
  "devices_list en now owner platform health page st = (case ae_connect en of
       Some e \<Rightarrow> Inl e
     | None \<Rightarrow> bind_result (list_devices now owner platform health 50 (page * 50) st) (\<lambda>ls.
         Inr \<lparr>dp_devices = ls, dp_summary = health_summary now st, dp_filters = [(''owner'', owner), (''platform'', platform), (''health'', health)], dp_page = page\<rparr>))"

section \<open>One device\<close>

record device_detail_row =
  dd_line :: conn_row
  dd_enrollment :: "string option"
  dd_device_name :: "string option"

definition newest_connections :: "string \<Rightarrow> enroll_store \<Rightarrow> conn_row list" where
  "newest_connections u st = sort_key (\<lambda>c. - cn_connected_at c) (filter (\<lambda>c. cn_client_uuid c = u) (device_connections st))"

definition get_device_detail :: "string \<Rightarrow> enroll_store \<Rightarrow> device_detail_row option" where
  "get_device_detail u st = (case newest_connections u st of
       [] \<Rightarrow> None
     | c # _ \<Rightarrow> Some \<lparr>dd_line = c, dd_enrollment = map_option pv_status (enrollment_of st u), dd_device_name = map_option pv_device_name (enrollment_of st u)\<rparr>)"

definition get_device_connections :: "string \<Rightarrow> nat \<Rightarrow> enroll_store \<Rightarrow> conn_row list" where
  "get_device_connections u limit st = take limit (newest_connections u st)"

text \<open>The columns of \<open>device_telemetry_events\<close> in \<open>db/schema.sql\<close>; the query names one that is not among them.\<close>

definition TELEMETRY_COLUMNS :: "string list" where
  "TELEMETRY_COLUMNS = [''id'', ''client_uuid'', ''email'', ''span_name'', ''span_ts'', ''attributes'', ''plugin_version'', ''source_ip'', ''created_at'']"

definition ACTIVITY_COLUMNS :: "string list" where
  "ACTIVITY_COLUMNS = [''span_name'', ''span_ts'', ''attributes'', ''plugin_version'', ''received_at'']"

definition get_device_activity :: "string list \<Rightarrow> (string \<Rightarrow> 'row list) \<Rightarrow> string \<Rightarrow> nat \<Rightarrow> 'row list result" where
  "get_device_activity columns newest u limit = (if list_all (\<lambda>c. c \<in> set columns) ACTIVITY_COLUMNS then Inr (take limit (newest u)) else Inl DatabaseError)"

record device_campaign =
  dc_campaign_id :: int
  dc_campaign_name :: string
  dc_campaign_status :: "string option"
  dc_row :: status_row

definition get_device_campaign_statuses :: "string \<Rightarrow> cat_db \<Rightarrow> device_campaign list" where
  "get_device_campaign_statuses u cat =
     concat (map (\<lambda>s. map (\<lambda>c. \<lparr>dc_campaign_id = ca_id c, dc_campaign_name = ca_name c, dc_campaign_status = ca_status c, dc_row = s\<rparr>)
         (filter (\<lambda>c. ca_id c = ds_campaign_id s) (ct_campaigns cat)))
       (sort_key (\<lambda>s. - ds_updated_at s) (filter (\<lambda>s. ds_client_uuid s = u) (ct_device_status cat))))"

record device_flag =
  dg_flag :: flag_row
  dg_override :: "bool option"
  dg_min_version :: "string option"
  dg_cohort :: "string option"

definition member_matches :: "string \<Rightarrow> string \<Rightarrow> int \<Rightarrow> member_row \<Rightarrow> bool" where
  "member_matches u email cid m = (cm_cohort_id m = cid \<and> (cm_type m = ''client_uuid'' \<and> cm_value m = u \<or> cm_type m = ''email'' \<and> cm_value m = email))"

text \<open>A left join keeps a row without partner once and repeats it for each partner.\<close>

definition outer :: "'a list \<Rightarrow> 'a option list" where
  "outer xs = (if xs = [] then [None] else map Some xs)"

definition flag_line :: "flag_row \<Rightarrow> override_row option \<Rightarrow> cohort_row option \<Rightarrow> device_flag" where
  "flag_line f ov c = \<lparr>dg_flag = f, dg_override = map_option fo_value ov, dg_min_version = Option.bind ov fo_min_plugin_version, dg_cohort = map_option co_name c\<rparr>"

definition joined_cohorts :: "cohort_db \<Rightarrow> override_row option \<Rightarrow> cohort_row option list" where
  "joined_cohorts cdb ov = outer (case ov of None \<Rightarrow> [] | Some o' \<Rightarrow> filter (\<lambda>c. co_id c = fo_cohort_id o') (cohorts cdb))"

definition joined_members :: "cohort_db \<Rightarrow> string \<Rightarrow> string \<Rightarrow> cohort_row option \<Rightarrow> member_row option list" where
  "joined_members cdb u email c = outer (case c of None \<Rightarrow> [] | Some r \<Rightarrow> filter (member_matches u email (co_id r)) (cohort_members cdb))"

definition get_device_flags :: "string \<Rightarrow> string \<Rightarrow> flag_db \<Rightarrow> cohort_db \<Rightarrow> device_flag list" where
  "get_device_flags u email fdb cdb =
     concat (map (\<lambda>f. concat (map (\<lambda>ov. concat (map (\<lambda>c. map (\<lambda>m. flag_line f ov c) (joined_members cdb u email c)) (joined_cohorts cdb ov)))
         (outer (filter (\<lambda>o'. fo_feature_id o' = ff_id f) (flag_overrides fdb)))))
       (sort_key ff_name (feature_flags fdb)))"

record device_page =
  dv_device :: device_detail_row
  dv_connections :: "conn_row list"
  dv_campaigns :: "device_campaign list"
  dv_flags :: "device_flag list"

definition device_detail :: "admin_env \<Rightarrow> string \<Rightarrow> enroll_store \<Rightarrow> admin_db \<Rightarrow> device_page result" where
  "device_detail en u st db = (case ae_connect en of
       Some e \<Rightarrow> Inl e
     | None \<Rightarrow> (case get_device_detail u st of
         None \<Rightarrow> Inl (HTTPException 404 ''Appareil non trouve'')
       | Some d \<Rightarrow> Inr \<lparr>dv_device = d, dv_connections = get_device_connections u 20 st, dv_campaigns = get_device_campaign_statuses u (ad_cat db),
           dv_flags = get_device_flags u (cn_email (dd_line d)) (ct_flags (ad_cat db)) (ad_cohorts db)\<rparr>))"

section \<open>Facts\<close>

text \<open>The query and the Python helper agree on the health of a device.\<close>

lemma sql_health_is_python: "compute_device_health now seen False = sql_health now seen"
  by (simp add: sql_health_def compute_device_health_def split: option.splits)

lemma filter_split3:
  assumes "\<And>x. x \<in> set xs \<Longrightarrow> (P x \<and> \<not> Q x \<and> \<not> R x) \<or> (\<not> P x \<and> Q x \<and> \<not> R x) \<or> (\<not> P x \<and> \<not> Q x \<and> R x)"
  shows "length (filter P xs) + length (filter Q xs) + length (filter R xs) = length xs"
  using assms by (induction xs) auto

text \<open>The four counters leave out the devices silent for more than a week.\<close>

lemma health_summary_total:
  "hc_ok (health_summary now st) + hc_stale (health_summary now st) + hc_error (health_summary now st) + hc_never (health_summary now st) +
     length (filter (\<lambda>u. now - contact_of st u > secs (7 * 86400)) (device_ids st)) = length (device_ids st)"
proof -
  have "length (filter (\<lambda>u. now - contact_of st u \<le> secs 86400) (device_ids st)) +
      length (filter (\<lambda>u. now - contact_of st u > secs 86400 \<and> now - contact_of st u \<le> secs (7 * 86400)) (device_ids st)) +
      length (filter (\<lambda>u. now - contact_of st u > secs (7 * 86400)) (device_ids st)) = length (device_ids st)"
    by (rule filter_split3) (auto simp: secs_def)
  then show ?thesis by (simp add: health_summary_def Let_def)
qed

text \<open>The activity of a device can never be shown.\<close>

lemma activity_always_fails: "get_device_activity TELEMETRY_COLUMNS newest u limit = Inl DatabaseError"
  by (simp add: get_device_activity_def ACTIVITY_COLUMNS_def TELEMETRY_COLUMNS_def)

text \<open>The flags shown for a device do not depend on the device.\<close>

lemma outer_nonempty [simp]: "outer xs \<noteq> []"
  by (simp add: outer_def)

lemma set_map_const: "xs \<noteq> [] \<Longrightarrow> (\<lambda>_. y) ` set xs = {y}"
  by (cases xs) auto

lemma device_flags_ignore_device: "set (get_device_flags u email fdb cdb) = set (get_device_flags u' email' fdb cdb)"
  by (simp add: get_device_flags_def joined_members_def set_map_const)

text \<open>A page of the list is sorted by contact, and names only connections that exist.\<close>

lemma line_of_exists:
  assumes "list_devices now owner platform health limit offset st = Inr ls" "l \<in> set ls"
  shows "\<exists>c \<in> set (device_connections st). device_where owner platform c \<and> dl_client_uuid l = cn_client_uuid c \<and> dl_action l = cn_action c \<and>
    (health \<noteq> [] \<longrightarrow> dl_health l = health)"
proof -
  define rows where "rows = filter (device_where owner platform) (device_connections st)"
  have "l \<in> set (filter (\<lambda>l. health \<noteq> [] \<longrightarrow> dl_health l = health) (map (line_of now st rows) (remdups (map device_key rows))))"
    using assms by (auto simp: list_devices_def Let_def rows_def simp del: set_filter set_map set_remdups split: if_splits dest!: in_set_takeD in_set_dropD)
  then have "l \<in> line_of now st rows ` device_key ` set rows" and h: "health \<noteq> [] \<longrightarrow> dl_health l = health" by (simp_all add: image_image)
  then obtain c where "c \<in> set rows" "l = line_of now st rows (device_key c)" by blast
  then show ?thesis using h by (auto simp: rows_def device_key_def line_of_def Let_def)
qed

end
