(* ===== verification/Ops.thy ===== *)
theory Ops
  imports Devices RuntimeConfig
begin

text \<open>
  Operation of the server: bounded retries (\<open>app/resilience.py\<close>), the addresses and clients of the key server, the queue object, the health,
  readiness and metrics endpoints, and the threads a process starts and stops (all \<open>app/main.py\<close>), with the figures of \<open>app/services/health.py\<close>.
  What a probe finds is a parameter. Measured latencies are left out.
\<close>

section \<open>Retries\<close>

text \<open>The exceptions the classification tells apart; an \<open>HTTPError\<close> carries its status.\<close>

datatype net_error =
    TimedOut
  | ConnectionFailed
  | UrllibStatus int
  | UrllibOther
  | JwkConnection
  | HttpxTransport
  | HttpxStatus int
  | OtherFailure py_error

definition is_transient_httpx_error :: "net_error \<Rightarrow> bool" where
  "is_transient_httpx_error e = (case e of HttpxTransport \<Rightarrow> True | HttpxStatus n \<Rightarrow> n \<ge> 500 | _ \<Rightarrow> False)"

definition is_transient_network_error :: "net_error \<Rightarrow> bool" where
  "is_transient_network_error e = (case e of
       TimedOut \<Rightarrow> True | ConnectionFailed \<Rightarrow> True | UrllibStatus n \<Rightarrow> n \<ge> 500 | UrllibOther \<Rightarrow> True | JwkConnection \<Rightarrow> True
     | _ \<Rightarrow> is_transient_httpx_error e)"

text \<open>\<open>tenacity.retry\<close> with \<open>stop_after_attempt\<close> and \<open>reraise\<close>: \<open>call\<close> gives the outcome of each attempt; the result comes with the number of attempts made.\<close>

fun retry_from :: "nat \<Rightarrow> (nat \<Rightarrow> net_error + 'a) \<Rightarrow> nat \<Rightarrow> (net_error + 'a) \<times> nat" where
  "retry_from 0 call i = (call i, Suc i)"
| "retry_from (Suc k) call i = (case call i of
       Inr x \<Rightarrow> (Inr x, Suc i)
     | Inl e \<Rightarrow> if is_transient_network_error e then retry_from k call (Suc i) else (Inl e, Suc i))"

definition retry_transient :: "nat \<Rightarrow> (nat \<Rightarrow> net_error + 'a) \<Rightarrow> (net_error + 'a) \<times> nat" where
  "retry_transient tries call = retry_from (tries - 1) call 0"

section \<open>Key server\<close>

record jwks_cache =
  jc_uris :: "(string \<times> (timestamp \<times> string)) list"
  jc_clients :: "(string \<times> (timestamp \<times> string)) list"

definition jwks_ttl :: "settings \<Rightarrow> timestamp" where
  "jwks_ttl cfg = secs (max 60 (auth_jwks_cache_ttl_seconds cfg))"

definition fresh_entry :: "timestamp \<Rightarrow> (timestamp \<times> string) option \<Rightarrow> string option" where
  "fresh_entry now c = (case c of Some (until, x) \<Rightarrow> if until > now then Some x else None | None \<Rightarrow> None)"

text \<open>\<open>discovery\<close>: the body of the discovery document, or \<^const>\<open>None\<close> when it could not be fetched or decoded. The keys of the document compare as texts.\<close>

definition discovered_uri :: "string option \<Rightarrow> string" where
  "discovered_uri discovery = (case Option.bind discovery loads of Some (JObj d) \<Rightarrow> strip (jstr d ''jwks_uri'') | _ \<Rightarrow> [])"

definition resolve_jwks_uri :: "settings \<Rightarrow> (string \<Rightarrow> string option) \<Rightarrow> timestamp \<Rightarrow> string \<Rightarrow> jwks_cache \<Rightarrow> string \<times> jwks_cache" where
  "resolve_jwks_uri cfg discover now issuer c =
     (let explicit = strip (auth_jwks_url cfg)
      in if explicit \<noteq> [] then (explicit, c)
         else case fresh_entry now (dget (jc_uris c) issuer) of
           Some uri \<Rightarrow> (uri, c)
         | None \<Rightarrow>
             let found = discovered_uri (discover (issuer @ ''/.well-known/openid-configuration''));
                 uri = (if found = [] then issuer @ ''/protocol/openid-connect/certs'' else found)
             in (uri, c\<lparr>jc_uris := dset issuer (now + jwks_ttl cfg, uri) (jc_uris c)\<rparr>))"

text \<open>A client is given by the address it fetches keys from.\<close>

definition get_jwks_client :: "settings \<Rightarrow> bool \<Rightarrow> (string \<Rightarrow> string option) \<Rightarrow> timestamp \<Rightarrow> string \<Rightarrow> jwks_cache \<Rightarrow> string result \<times> jwks_cache" where
  "get_jwks_client cfg has_jwt discover now issuer c =
     (if \<not> has_jwt then (Inl (HTTPException 503 ''JWT verification backend is unavailable.''), c)
      else case fresh_entry now (dget (jc_clients c) issuer) of
        Some client \<Rightarrow> (Inr client, c)
      | None \<Rightarrow>
          let (uri, c1) = resolve_jwks_uri cfg discover now issuer c
          in (Inr uri, c1\<lparr>jc_clients := dset issuer (now + jwks_ttl cfg, uri) (jc_clients c1)\<rparr>))"

section \<open>The queue object\<close>

text \<open>\<open>built\<close>: the constructor of \<open>PostgresQueue\<close> returned. The lock makes the test and the assignment one step.\<close>

definition configured_queue :: "settings \<Rightarrow> queue_cfg" where
  "configured_queue cfg = init_queue (queue_lock_ttl_seconds cfg) (queue_default_max_attempts cfg) (queue_retry_base_seconds cfg) (queue_retry_max_seconds cfg) (queue_retry_jitter cfg)"

definition get_queue_manager :: "settings \<Rightarrow> bool \<Rightarrow> string option \<Rightarrow> bool \<Rightarrow> queue_cfg option \<Rightarrow> queue_cfg option \<times> queue_cfg option" where
  "get_queue_manager cfg driver dsn built m =
     (if \<not> queue_enabled cfg \<or> \<not> driver \<or> str_or dsn [] = [] then (None, m)
      else case m of
        Some q \<Rightarrow> (Some q, m)
      | None \<Rightarrow> if built then (Some (configured_queue cfg), Some (configured_queue cfg)) else (None, None))"

section \<open>Health and readiness\<close>

datatype probe = ProbeOk | ProbeFailed string

datatype check_result = CheckOk | CheckSkipped | CheckError string

record health_io =
  hi_local :: probe
  hi_s3 :: probe
  hi_db :: probe
  hi_driver :: bool
  hi_db_url :: "string option"

definition s3_required :: "settings \<Rightarrow> bool" where
  "s3_required cfg = (store_enroll_s3 cfg \<or> binaries_mode cfg \<in> {''presign'', ''proxy''})"

definition probed :: "probe \<Rightarrow> check_result" where
  "probed p = (case p of ProbeOk \<Rightarrow> CheckOk | ProbeFailed m \<Rightarrow> CheckError m)"

definition health_checks :: "settings \<Rightarrow> health_io \<Rightarrow> (string \<times> check_result) list" where
  "health_checks cfg io =
     [(''local_storage'', if store_enroll_locally cfg then probed (hi_local io) else CheckSkipped),
      (''s3'', if \<not> s3_required cfg then CheckSkipped else if str_or (s3_bucket cfg) [] = [] then CheckError ''bucket missing'' else probed (hi_s3 io)),
      (''db'', if str_or (hi_db_url io) [] = [] then CheckError ''DATABASE_URL missing'' else if \<not> hi_driver io then CheckError ''psycopg2 missing'' else probed (hi_db io))]"

definition check_failed :: "check_result \<Rightarrow> bool" where
  "check_failed c = (case c of CheckError _ \<Rightarrow> True | _ \<Rightarrow> False)"

definition check_json :: "check_result \<Rightarrow> json" where
  "check_json c = JObj (case c of CheckOk \<Rightarrow> [(''status'', JStr ''ok'')] | CheckSkipped \<Rightarrow> [(''status'', JStr ''skipped'')]
     | CheckError m \<Rightarrow> [(''status'', JStr ''error''), (''detail'', JStr m)])"

definition problem :: "string \<Rightarrow> string \<Rightarrow> string \<Rightarrow> json dict" where
  "problem kind title detail = [(''type'', JStr (''https://example.com/problems/'' @ kind)), (''title'', JStr title), (''status'', JInt 200), (''detail'', JStr detail)]"

text \<open>The texts of the list \<open>errors\<close> repeat the details and are left out.\<close>

definition healthz :: "settings \<Rightarrow> health_io \<Rightarrow> response" where
  "healthz cfg io =
     (let cs = health_checks cfg io; checks = JObj (map (\<lambda>(n, c). (n, check_json c)) cs)
      in if list_ex (check_failed \<circ> snd) cs
         then \<lparr>r_status = 200, r_body = JObj (problem ''dependency-check'' ''Dependency check failed'' ''One or more dependencies are not healthy.'' @ [(''checks'', checks)]), r_headers = []\<rparr>
         else \<lparr>r_status = 200, r_body = JObj (problem ''dependency-check'' ''OK'' ''All dependencies are healthy.'' @ [(''checks'', checks)]), r_headers = []\<rparr>)"

definition livez :: response where
  "livez = \<lparr>r_status = 200, r_body = JObj (problem ''liveness'' ''OK'' ''Process is alive.''), r_headers = []\<rparr>"

definition readyz :: "proc \<Rightarrow> response" where
  "readyz p = (if should_gate_requests p
     then \<lparr>r_status = 503, r_body = JObj [(''status'', JStr ''starting''), (''ready'', JBool False), (''detail'', JStr ''config not loaded'')], r_headers = [(''Retry-After'', ''3'')]\<rparr>
     else \<lparr>r_status = 200, r_body = JObj [(''status'', JStr ''ok''), (''ready'', JBool True), (''generation'', JInt (pc_generation p))], r_headers = []\<rparr>)"

text \<open>\<open>read_health\<close> of \<open>app/services/health.py\<close>: the files of the kernel as texts, \<^const>\<open>None\<close> where one cannot be read. \<open>rusage\<close> is the resident size the
  \<open>resource\<close> module gives in kilobytes. The load average is a float of the system and left out.\<close>

record host_files =
  ho_status :: "string list option"
  ho_rusage :: "int option"
  ho_memory_max :: "string option"
  ho_memory_limit :: "string option"
  ho_cpus :: "int option"

definition white :: "char \<Rightarrow> bool" where
  "white c = (strip [c] = [])"

fun words_of :: "string \<Rightarrow> string \<Rightarrow> string list" where
  "words_of acc [] = (if acc = [] then [] else [rev acc])"
| "words_of acc (c # s) = (if white c then (if acc = [] then words_of [] s else rev acc # words_of [] s) else words_of (c # acc) s)"

text \<open>\<open>int(line.split()[1]) * 1024\<close>; other exceptions than \<open>OSError\<close> are not caught here.\<close>

definition rss_of_line :: "string \<Rightarrow> int result" where
  "rss_of_line l = (case words_of [] l of
       _ # w # _ \<Rightarrow> (case py_int w of Some n \<Rightarrow> Inr (n * 1024) | None \<Rightarrow> Inl (int_error w))
     | _ \<Rightarrow> Inl (KeyError ''1''))"

definition read_rss_bytes :: "host_files \<Rightarrow> int option result" where
  "read_rss_bytes h = (case Option.bind (ho_status h) (find (\<lambda>l. startswith l ''VmRSS:'')) of
       Some l \<Rightarrow> bind_result (rss_of_line l) (\<lambda>n. Inr (Some n))
     | None \<Rightarrow> Inr (map_option (\<lambda>k. k * 1024) (ho_rusage h)))"

definition memory_limit_v1 :: "host_files \<Rightarrow> int option" where
  "memory_limit_v1 h = (case ho_memory_limit h of
       None \<Rightarrow> None
     | Some s \<Rightarrow> (case py_int (strip s) of Some n \<Rightarrow> if n < 2 ^ 62 then Some n else None | None \<Rightarrow> None))"

definition read_mem_limit_bytes :: "host_files \<Rightarrow> int option" where
  "read_mem_limit_bytes h = (case ho_memory_max h of
       None \<Rightarrow> memory_limit_v1 h
     | Some s \<Rightarrow> let v = strip s in if v = [] \<or> v = ''max'' then None else (case py_int v of Some n \<Rightarrow> Some n | None \<Rightarrow> memory_limit_v1 h))"

definition int_or_null :: "int option \<Rightarrow> json" where
  "int_or_null x = (case x of Some n \<Rightarrow> JInt n | None \<Rightarrow> JNull)"

definition read_health :: "host_files \<Rightarrow> nat \<Rightarrow> json result" where
  "read_health h requests = bind_result (read_rss_bytes h) (\<lambda>rss.
     Inr (JObj [(''rss_bytes'', int_or_null rss), (''mem_limit_bytes'', int_or_null (read_mem_limit_bytes h)), (''cpu_count'', int_or_null (ho_cpus h)), (''requests_total'', JInt (int requests))]))"

definition str_or_null :: "string option \<Rightarrow> json" where
  "str_or_null x = (case x of Some s \<Rightarrow> JStr s | None \<Rightarrow> JNull)"

text \<open>\<open>GET /internal/config/state\<close> of one pod.\<close>

record pod_view =
  vw_env :: env
  vw_host :: string
  vw_pid :: int
  vw_mode :: string
  vw_proc :: proc
  vw_files :: host_files
  vw_requests :: nat

definition internal_config_state :: "headers \<Rightarrow> pod_view \<Rightarrow> response result" where
  "internal_config_state hs v =
     (let expected = getenv (vw_env v) ''DM_QUEUE_ADMIN_TOKEN'' []; provided = (case header hs ''x-internal-token'' of Some s \<Rightarrow> s | None \<Rightarrow> [])
      in if expected = [] then Inl (HTTPException 401 ''unauthorized'')
         else bind_result (compare_digest provided expected) (\<lambda>ok.
           if \<not> ok then Inl (HTTPException 401 ''unauthorized'')
           else bind_result (pod_identity (vw_env v) (vw_host v) (vw_pid v) (Some (str_or (Some (vw_mode v)) ''api''))) (\<lambda>i.
             bind_result (read_health (vw_files v) (vw_requests v)) (\<lambda>h.
               Inr \<lparr>r_status = 200, r_body = JObj [(''pod_name'', JStr (id_name i)), (''node_name'', str_or_null (id_node i)), (''runtime_mode'', JStr (id_mode i)),
                 (''applied_generation'', JInt (pc_generation (vw_proc v))), (''app_version'', JStr (id_version i)), (''ready'', JBool (pc_ready (vw_proc v))), (''health'', h)],
                 r_headers = []\<rparr>))))"

text \<open>\<open>POST /admin/api/config/verify\<close>: \<open>probe\<close> is the request to a pod, \<^const>\<open>None\<close> when it failed.\<close>

record verify_line =
  vl_pod :: string
  vl_reachable :: bool
  vl_generation :: json
  vl_up_to_date :: bool

definition unreachable :: "string \<Rightarrow> verify_line" where
  "unreachable n = \<lparr>vl_pod = n, vl_reachable = False, vl_generation = JNull, vl_up_to_date = False\<rparr>"

definition verify_pod :: "(pod_row \<Rightarrow> response option) \<Rightarrow> int \<Rightarrow> pod_row \<Rightarrow> verify_line" where
  "verify_pod probe gen p =
     (if str_or (pod_ip p) [] = [] then unreachable (pod_name p)
      else case probe p of
        Some r \<Rightarrow>
          if r_status r \<noteq> 200 then unreachable (pod_name p)
          else (case r_body r of
             JObj d \<Rightarrow> (case jget_or d ''applied_generation'' (JInt 0) of
                 JInt n \<Rightarrow> \<lparr>vl_pod = pod_name p, vl_reachable = True, vl_generation = jget d ''applied_generation'', vl_up_to_date = (n \<ge> gen)\<rparr>
               | _ \<Rightarrow> unreachable (pod_name p))
           | _ \<Rightarrow> unreachable (pod_name p))
      | None \<Rightarrow> unreachable (pod_name p))"

definition config_verify :: "admin_env \<Rightarrow> bool \<Rightarrow> (pod_row \<Rightarrow> response option) \<Rightarrow> config_db \<Rightarrow> (int \<times> verify_line list) result" where
  "config_verify en csrf_ok probe db =
     (if \<not> csrf_ok then Inl (HTTPException 403 ''CSRF token invalid'')
      else case ae_connect en of
        Some e \<Rightarrow> Inl e
      | None \<Rightarrow> let gen = fst (get_state db) in Inr (gen, map (verify_pod probe gen) (list_pods db)))"

section \<open>Queue endpoints and metrics\<close>

definition stats_json :: "queue_stats \<Rightarrow> json" where
  "stats_json s = JObj [(''pending'', JInt (int (st_pending s))), (''processing'', JInt (int (st_processing s))), (''done'', JInt (int (st_done s))), (''dead'', JInt (int (st_dead s))),
     (''total'', JInt (int (st_total s))), (''oldest_pending_age_seconds'', JInt (st_oldest_pending_age_seconds s)), (''stale_processing'', JInt (int (st_stale_processing s))),
     (''timestamp'', JInt (st_timestamp s))]"

text \<open>\<open>q\<close>: the queue object, if there is one; the query itself may fail.\<close>

definition queue_answer :: "int \<Rightarrow> json dict \<Rightarrow> response" where
  "queue_answer code d = \<lparr>r_status = code, r_body = JObj d, r_headers = []\<rparr>"

definition queue_health :: "settings \<Rightarrow> headers \<Rightarrow> queue_cfg option \<Rightarrow> timestamp \<Rightarrow> queue_db result \<Rightarrow> response result" where
  "queue_health cfg hs q now db = bind_result (queue_admin_guard cfg hs) (\<lambda>_.
     if \<not> queue_enabled cfg then Inr (queue_answer 200 [(''ok'', JBool True), (''queue'', JObj [(''enabled'', JBool False), (''status'', JStr ''disabled'')])])
     else case q of
       None \<Rightarrow> Inr (queue_answer 503 [(''ok'', JBool False), (''queue'', JObj [(''enabled'', JBool True), (''status'', JStr ''unavailable'')])])
     | Some qc \<Rightarrow> bind_result db (\<lambda>d.
         let s = stats qc now d; healthy = (st_stale_processing s = 0)
         in Inr (queue_answer (if healthy then 200 else 503) [(''ok'', JBool healthy),
              (''queue'', JObj [(''enabled'', JBool True), (''status'', JStr (if healthy then ''ok'' else ''degraded'')), (''stats'', stats_json s)])])))"

definition queue_stats_route :: "settings \<Rightarrow> headers \<Rightarrow> queue_cfg option \<Rightarrow> timestamp \<Rightarrow> queue_db result \<Rightarrow> response result" where
  "queue_stats_route cfg hs q now db = bind_result (queue_admin_guard cfg hs) (\<lambda>_.
     if \<not> queue_enabled cfg then Inr (queue_answer 200 [(''ok'', JBool True), (''queue'', JObj [(''enabled'', JBool False), (''stats'', JObj [])])])
     else case q of
       None \<Rightarrow> Inr (queue_answer 503 [(''ok'', JBool False), (''error'', JStr ''queue is unavailable'')])
     | Some qc \<Rightarrow> bind_result db (\<lambda>d. Inr (queue_answer 200 [(''ok'', JBool True), (''queue'', JObj [(''enabled'', JBool True), (''stats'', stats_json (stats qc now d))])])))"

text \<open>The samples of a metrics page, without the comment lines.\<close>

definition no_stats :: queue_stats where
  "no_stats = \<lparr>st_pending = 0, st_processing = 0, st_done = 0, st_dead = 0, st_total = 0, st_oldest_pending_age_seconds = 0, st_stale_processing = 0, st_timestamp = 0\<rparr>"

definition metrics :: "settings \<Rightarrow> queue_cfg option \<Rightarrow> timestamp \<Rightarrow> queue_db result \<Rightarrow> (string \<times> int) list result" where
  "metrics cfg q now db =
     (if \<not> metrics_enabled cfg then Inl (HTTPException 404 ''Metrics endpoint is disabled.'')
      else let (available, scrape_ok, s) =
             (if \<not> queue_enabled cfg then (0, 1, no_stats)
              else case q of None \<Rightarrow> (0, 0, no_stats) | Some qc \<Rightarrow> (case db of Inr d \<Rightarrow> (1, 1, stats qc now d) | Inl e \<Rightarrow> (0, 0, no_stats)));
             mode = lower (strip (str_or (Some (runtime_mode cfg)) ''api''))
           in Inr [(''dm_metrics_scrape_success'', scrape_ok), (''dm_queue_enabled'', if queue_enabled cfg then 1 else 0), (''dm_queue_available'', available),
             (''dm_queue_pending_jobs'', int (st_pending s)), (''dm_queue_processing_jobs'', int (st_processing s)), (''dm_queue_done_jobs'', int (st_done s)),
             (''dm_queue_dead_jobs'', int (st_dead s)), (''dm_queue_total_jobs'', int (st_total s)), (''dm_queue_oldest_pending_age_seconds'', st_oldest_pending_age_seconds s),
             (''dm_queue_stale_processing_jobs'', int (st_stale_processing s)),
             (''dm_runtime_worker_active{mode='' @ [CHR 0x22] @ mode @ [CHR 0x22] @ ''}'', if mode \<in> {''worker'', ''all''} then 1 else 0)])"

text \<open>\<open>/ops/health/full\<close>: the services that are probed, in order.\<close>

definition kc_probe :: "env \<Rightarrow> string" where
  "kc_probe e =
     (let well_known = (\<lambda>i. if i = [] then [] else i @ ''/.well-known/openid-configuration'');
          admin_issuer = rstrip_char (CHR ''/'') (getenv e ''ADMIN_OIDC_ISSUER_URL'' []); public_issuer = rstrip_char (CHR ''/'') (getenv e ''KEYCLOAK_ISSUER_URL'' [])
      in str_or (Some (getenv e ''DM_AUTH_JWKS_URL'' [])) (str_or (Some (well_known admin_issuer)) (well_known public_issuer)))"

definition service_probes :: "env \<Rightarrow> bool \<Rightarrow> string option \<Rightarrow> (string \<times> string) list" where
  "service_probes e driver url =
     (if driver \<and> str_or url [] \<noteq> [] then [(''postgres'', str_or url [])] else []) @
     (if kc_probe e \<noteq> [] then [(''keycloak'', kc_probe e)] else []) @
     (if getenv e ''LLM_BASE_URL'' [] \<noteq> [] then [(''llm'', rstrip_char (CHR ''/'') (getenv e ''LLM_BASE_URL'' []) @ ''/models'')] else []) @
     [(''relay'', rstrip_char (CHR ''/'') (getenv e ''DM_RELAY_ASSISTANT_URL'' ''http://relay-assistant'') @ ''/healthz'')]"

definition ops_health_full :: "env \<Rightarrow> bool \<Rightarrow> string option \<Rightarrow> (string \<Rightarrow> probe) \<Rightarrow> string \<times> (string \<times> check_result) list" where
  "ops_health_full e driver url ask =
     (let checks = map (\<lambda>(n, a). (n, case ask a of ProbeOk \<Rightarrow> CheckOk | ProbeFailed m \<Rightarrow> CheckError (take 100 m))) (service_probes e driver url)
      in (if list_ex (\<lambda>(n, c). n = ''postgres'' \<and> check_failed c) checks then ''error'' else if list_ex (check_failed \<circ> snd) checks then ''degraded'' else ''ok'', checks))"

text \<open>\<open>/ops/metrics\<close>: \<open>tables\<close> are what the second connection reads, if it works.\<close>

record ops_tables =
  ot_store :: enroll_store
  ot_queue :: queue_db
  ot_campaigns :: "campaign_row list"

definition ops_metrics :: "timestamp \<Rightarrow> bool \<Rightarrow> bool \<Rightarrow> ops_tables option \<Rightarrow> (string \<times> nat) list" where
  "ops_metrics now usable up tables =
     (''dm_service_up{service=postgres}'', if usable \<and> up then 1 else 0) #
     (case (if usable then tables else None) of
        None \<Rightarrow> []
      | Some t \<Rightarrow> [(''dm_devices_enrolled_total'', length (remdups (map pv_client_uuid (filter (\<lambda>r. pv_status r = ''ENROLLED'') (provisioning (ot_store t)))))),
          (''dm_devices_active_7d'', length (remdups (map cn_client_uuid (filter (\<lambda>c. cn_connected_at c > now - secs (7 * 86400)) (device_connections (ot_store t)))))),
          (''dm_queue_pending'', count_status Pending (queue_jobs (ot_queue t))), (''dm_queue_dead'', length (dead_letters (ot_queue t))),
          (''dm_campaigns_active'', length (filter (\<lambda>c. ca_status c = Some ''active'') (ot_campaigns t)))])"

section \<open>Threads of a process\<close>

text \<open>All threads ever started, with their stop flag, and the one the module variable holds.\<close>

record worker_thread =
  th_stop :: bool
  th_alive :: bool

record worker_threads =
  wt_threads :: "worker_thread list"
  wt_current :: "nat option"

definition current_alive :: "worker_threads \<Rightarrow> bool" where
  "current_alive s = (case wt_current s of Some i \<Rightarrow> th_alive (wt_threads s ! i) | None \<Rightarrow> False)"

definition startup_embedded_queue_worker :: "settings \<Rightarrow> worker_threads \<Rightarrow> worker_threads" where
  "startup_embedded_queue_worker cfg s =
     (if lower (strip (str_or (Some (runtime_mode cfg)) ''api'')) \<noteq> ''all'' \<or> \<not> queue_enabled cfg \<or> current_alive s then s
      else \<lparr>wt_threads = wt_threads s @ [\<lparr>th_stop = False, th_alive = True\<rparr>], wt_current = Some (length (wt_threads s))\<rparr>)"

text \<open>\<open>join(timeout=5)\<close> may return while the thread still runs.\<close>

definition shutdown_embedded_queue_worker :: "worker_threads \<Rightarrow> worker_threads" where
  "shutdown_embedded_queue_worker s =
     \<lparr>wt_threads = (case wt_current s of Some i \<Rightarrow> (wt_threads s)[i := (wt_threads s ! i)\<lparr>th_stop := True\<rparr>] | None \<Rightarrow> wt_threads s), wt_current = None\<rparr>"

definition thread_ends :: "nat \<Rightarrow> worker_threads \<Rightarrow> worker_threads" where
  "thread_ends i s = s\<lparr>wt_threads := (wt_threads s)[i := (wt_threads s ! i)\<lparr>th_alive := False\<rparr>]\<rparr>"

inductive threads_reach :: "settings \<Rightarrow> worker_threads \<Rightarrow> bool" for cfg where
  Boot: "threads_reach cfg \<lparr>wt_threads = [], wt_current = None\<rparr>"
| Start: "threads_reach cfg s \<Longrightarrow> threads_reach cfg (startup_embedded_queue_worker cfg s)"
| Stop: "threads_reach cfg s \<Longrightarrow> threads_reach cfg (shutdown_embedded_queue_worker s)"
| Ends: "threads_reach cfg s \<Longrightarrow> i < length (wt_threads s) \<Longrightarrow> threads_reach cfg (thread_ends i s)"

text \<open>The configuration threads: \<open>started\<close> is whether they run.\<close>

definition startup_config_sync :: "(json \<Rightarrow> json result) \<Rightarrow> bool \<Rightarrow> bool \<times> proc \<Rightarrow> unit result \<times> bool \<times> proc" where
  "startup_config_sync to_float has_db st = (case snapshot_baseline to_float False (snd st) of
       (Inl e, p) \<Rightarrow> (Inl e, fst st, p)
     | (Inr _, p) \<Rightarrow> if \<not> has_db \<or> fst st then (Inr (), fst st, p) else (Inr (), True, p\<lparr>pc_gate := True\<rparr>))"

section \<open>Results\<close>

text \<open>A retried call: at most the given number of attempts, each but the last a transient failure; a failure that is not transient ends it at once.\<close>

lemma retry_from_spec:
  assumes "retry_from k call i = (r, n)"
  shows "i < n \<and> n \<le> i + k + 1 \<and> r = call (n - 1) \<and> (\<forall>j. i \<le> j \<and> j < n - 1 \<longrightarrow> (\<exists>e. call j = Inl e \<and> is_transient_network_error e)) \<and>
    (n < i + k + 1 \<longrightarrow> (\<forall>e. r = Inl e \<longrightarrow> \<not> is_transient_network_error e))"
  using assms
proof (induction k call i arbitrary: r n rule: retry_from.induct)
  case (2 k call i)
  show ?case
  proof (cases "\<exists>e. call i = Inl e \<and> is_transient_network_error e")
    case True
    then obtain e where e: "call i = Inl e" "is_transient_network_error e" by blast
    then have rest: "retry_from k call (Suc i) = (r, n)" using 2(2) by simp
    note IH = 2(1) [OF e rest]
    have "\<exists>e. call j = Inl e \<and> is_transient_network_error e" if "i \<le> j" "j < n - 1" for j
      using that e IH by (cases "j = i") auto
    then show ?thesis using IH by auto
  next
    case False
    then show ?thesis using 2(2) by (auto split: sum.splits if_splits)
  qed
qed auto

lemma retry_transient_spec:
  assumes "retry_transient tries call = (r, n)" "0 < tries"
  shows "0 < n" "n \<le> tries" "r = call (n - 1)" "\<And>j. j < n - 1 \<Longrightarrow> \<exists>e. call j = Inl e \<and> is_transient_network_error e"
    "\<And>e. n < tries \<Longrightarrow> r = Inl e \<Longrightarrow> \<not> is_transient_network_error e"
  using retry_from_spec [of "tries - 1" call 0 r n] assms by (auto simp: retry_transient_def)

text \<open>A status below 500 is never retried.\<close>

lemma client_errors_final: "n < 500 \<Longrightarrow> \<not> is_transient_network_error (UrllibStatus n) \<and> \<not> is_transient_network_error (HttpxStatus n)"
  by (simp add: is_transient_network_error_def is_transient_httpx_error_def)

text \<open>Within its lifetime a client is given again without asking the discovery document.\<close>

lemma jwks_client_stable:
  assumes "get_jwks_client cfg True discover now issuer c = (Inr client, c')" "now' < now + jwks_ttl cfg" "dget (jc_clients c) issuer = None"
  shows "get_jwks_client cfg True discover' now' issuer c' = (Inr client, c')"
  using assms by (auto simp: get_jwks_client_def Let_def fresh_entry_def split: option.splits prod.splits if_splits)

text \<open>When the discovery document cannot be read the guessed address is kept as long as a discovered one.\<close>

lemma failed_discovery_kept:
  assumes "strip (auth_jwks_url cfg) = []" "dget (jc_uris c) issuer = None" "discover (issuer @ ''/.well-known/openid-configuration'') = None" "now' < now + jwks_ttl cfg"
  shows "fst (resolve_jwks_uri cfg discover' now' issuer (snd (resolve_jwks_uri cfg discover now issuer c))) = issuer @ ''/protocol/openid-connect/certs''"
  using assms by (simp add: resolve_jwks_uri_def Let_def fresh_entry_def discovered_uri_def)

text \<open>Once there is a queue object it stays the same.\<close>

lemma queue_manager_once:
  "get_queue_manager cfg driver dsn built m = (Some q, m') \<Longrightarrow> m' = Some q \<and> snd (get_queue_manager cfg' driver' dsn' built' m') = Some q"
  by (auto simp: get_queue_manager_def split: if_splits option.splits)

text \<open>The health endpoint answers 200 whatever it found; its title tells.\<close>

lemma healthz_always_200: "r_status (healthz cfg io) = 200"
  by (simp add: healthz_def Let_def)

lemma healthz_title: "(\<exists>d. r_body (healthz cfg io) = JObj d \<and> jget d ''title'' = JStr ''OK'') = (\<forall>(n, c) \<in> set (health_checks cfg io). \<not> check_failed c)"
  by (auto simp: healthz_def Let_def problem_def jget_def dget_def list_ex_iff)

lemma readyz_is_gate: "(r_status (readyz p) = 200) = (\<not> should_gate_requests p)"
  by (simp add: readyz_def)

text \<open>The counts of the queue add up.\<close>

lemma stats_total: "st_pending (stats cfg now db) + st_processing (stats cfg now db) + st_done (stats cfg now db) + st_dead (stats cfg now db) = st_total (stats cfg now db)"
proof -
  have "count_status Pending rs + count_status Processing rs + count_status Done rs + count_status Dead rs = length rs" for rs
  proof (induction rs)
    case (Cons r rs)
    then show ?case by (cases "status r") (auto simp: count_status_def)
  qed (simp add: count_status_def)
  then show ?thesis by (simp add: stats_def Let_def)
qed

text \<open>At most one worker thread runs that was not told to stop, however often start and stop are called.\<close>

definition only_current :: "worker_threads \<Rightarrow> bool" where
  "only_current s = (\<forall>i < length (wt_threads s). th_alive (wt_threads s ! i) \<and> \<not> th_stop (wt_threads s ! i) \<longrightarrow> wt_current s = Some i)"

lemma start_only_current:
  assumes "only_current s"
  shows "only_current (startup_embedded_queue_worker cfg s)"
proof (cases "startup_embedded_queue_worker cfg s = s")
  case False
  then have new: "startup_embedded_queue_worker cfg s = \<lparr>wt_threads = wt_threads s @ [\<lparr>th_stop = False, th_alive = True\<rparr>], wt_current = Some (length (wt_threads s))\<rparr>"
    and dead: "\<not> current_alive s" by (auto simp: startup_embedded_queue_worker_def split: if_splits)
  have "\<not> (th_alive (wt_threads s ! i) \<and> \<not> th_stop (wt_threads s ! i))" if "i < length (wt_threads s)" for i
    using assms dead that by (auto simp: only_current_def current_alive_def)
  then show ?thesis unfolding new by (auto simp: only_current_def nth_append less_Suc_eq)
next
  case True
  then show ?thesis using assms by simp
qed

lemma stop_only_current:
  assumes "only_current s"
  shows "only_current (shutdown_embedded_queue_worker s)"
proof (cases "wt_current s")
  case (Some a)
  let ?ts = "(wt_threads s)[a := (wt_threads s ! a)\<lparr>th_stop := True\<rparr>]"
  have "th_stop (?ts ! i)" if i: "i < length (wt_threads s)" and alive: "th_alive (?ts ! i)" for i
  proof (cases "a = i")
    case False
    then show ?thesis using assms i alive Some unfolding only_current_def by (metis nth_list_update_neq option.inject)
  next
    case True
    with i show ?thesis by simp
  qed
  then show ?thesis using Some unfolding only_current_def shutdown_embedded_queue_worker_def by simp
next
  case None
  then show ?thesis using assms by (simp add: shutdown_embedded_queue_worker_def only_current_def)
qed

lemma ends_only_current:
  assumes "only_current s"
  shows "only_current (thread_ends i s)"
proof -
  let ?ts = "(wt_threads s)[i := (wt_threads s ! i)\<lparr>th_alive := False\<rparr>]"
  have "wt_current s = Some j" if "j < length (wt_threads s)" "th_alive (?ts ! j) \<and> \<not> th_stop (?ts ! j)" for j
    using assms that by (cases "i = j") (auto simp: only_current_def)
  then show ?thesis by (simp add: thread_ends_def only_current_def)
qed

lemma threads_current: "threads_reach cfg s \<Longrightarrow> only_current s"
proof (induction rule: threads_reach.induct)
  case Boot
  show ?case by (simp add: only_current_def)
qed (rule start_only_current stop_only_current ends_only_current, assumption)+

lemma one_embedded_worker:
  assumes "threads_reach cfg s" "i < length (wt_threads s)" "j < length (wt_threads s)"
    "th_alive (wt_threads s ! i)" "\<not> th_stop (wt_threads s ! i)" "th_alive (wt_threads s ! j)" "\<not> th_stop (wt_threads s ! j)"
  shows "i = j"
  using threads_current [OF assms(1)] assms(2-) unfolding only_current_def by (metis option.inject)

lemma config_state_answer:
  assumes "internal_config_state [(''x-internal-token'', token)] v = Inr r"
  shows "token \<noteq> []" "vw_env v ''DM_QUEUE_ADMIN_TOKEN'' = Some token" "\<exists>d. r_body r = JObj d \<and> jget d ''applied_generation'' = JInt (pc_generation (vw_proc v))"
proof -
  have "lower ''x-internal-token'' = ''x-internal-token''" by code_simp
  then have h: "header [(''x-internal-token'', token)] ''x-internal-token'' = Some token" by (simp add: header_def dget_def)
  have "getenv (vw_env v) ''DM_QUEUE_ADMIN_TOKEN'' [] \<noteq> [] \<and> token = getenv (vw_env v) ''DM_QUEUE_ADMIN_TOKEN'' []"
    using assms by (auto simp: internal_config_state_def Let_def h bind_result_eq_Inr compare_digest_def split: if_splits)
  then show "token \<noteq> []" "vw_env v ''DM_QUEUE_ADMIN_TOKEN'' = Some token" by (auto simp: getenv_def split: option.splits)
  show "\<exists>d. r_body r = JObj d \<and> jget d ''applied_generation'' = JInt (pc_generation (vw_proc v))"
    using assms by (auto simp: internal_config_state_def Let_def bind_result_eq_Inr jget_def dget_def split: if_splits)
qed

lemma verify_pod_name [simp]: "vl_pod (verify_pod ask gen p) = pod_name p"
  by (auto simp: verify_pod_def unreachable_def split: option.splits json.splits)

lemma verify_pod_up:
  assumes "vl_up_to_date (verify_pod ask gen p)"
  shows "\<exists>r d n. ask p = Some r \<and> r_body r = JObj d \<and> jget_or d ''applied_generation'' (JInt 0) = JInt n \<and> gen \<le> n \<and> vl_generation (verify_pod ask gen p) = jget d ''applied_generation''"
  using assms by (auto simp: verify_pod_def unreachable_def split: option.splits json.splits if_splits)

text \<open>The verification of the pods is truthful: when the pods answer with their own state, a pod reported up to date shares the
  token of the administration and has applied at least the generation stored in the database. Every enrolled pod is reported.\<close>

theorem config_verify_truthful:
  assumes "config_verify en csrf_ok (\<lambda>p. result_option (internal_config_state [(''x-internal-token'', token)] (pod_of p))) db = Inr (gen, ls)"
  shows "gen = fst (get_state db) \<and> map vl_pod ls = map pod_name (list_pods db) \<and>
    (\<forall>i < length ls. vl_up_to_date (ls ! i) \<longrightarrow>
       (let v = pod_of (list_pods db ! i)
        in gen \<le> pc_generation (vw_proc v) \<and> vl_generation (ls ! i) = JInt (pc_generation (vw_proc v)) \<and> token \<noteq> [] \<and> vw_env v ''DM_QUEUE_ADMIN_TOKEN'' = Some token))"
proof -
  let ?ask = "\<lambda>p. result_option (internal_config_state [(''x-internal-token'', token)] (pod_of p))"
  have g: "gen = fst (get_state db)" and ls: "ls = map (verify_pod ?ask gen) (list_pods db)"
    using assms by (auto simp: config_verify_def Let_def split: if_splits option.splits)
  have "gen \<le> pc_generation (vw_proc (pod_of p)) \<and> vl_generation (verify_pod ?ask gen p) = JInt (pc_generation (vw_proc (pod_of p))) \<and> token \<noteq> [] \<and>
      vw_env (pod_of p) ''DM_QUEUE_ADMIN_TOKEN'' = Some token" if up: "vl_up_to_date (verify_pod ?ask gen p)" for p
  proof -
    obtain r d n where r: "?ask p = Some r" and d: "r_body r = JObj d" "jget_or d ''applied_generation'' (JInt 0) = JInt n" "gen \<le> n"
      "vl_generation (verify_pod ?ask gen p) = jget d ''applied_generation''"
      using verify_pod_up [OF up] by blast
    from r have "internal_config_state [(''x-internal-token'', token)] (pod_of p) = Inr r" by (auto simp: result_option_def split: sum.splits)
    note ans = config_state_answer [OF this]
    from ans(3) d(1) have gen: "jget d ''applied_generation'' = JInt (pc_generation (vw_proc (pod_of p)))" by auto
    then have "n = pc_generation (vw_proc (pod_of p))" using d(2) by (auto simp: jget_or_def split: if_splits)
    then show ?thesis using ans(1,2) d(3,4) gen by simp
  qed
  then show ?thesis using g ls by (simp add: comp_def Let_def)
qed

end
