(* ===== verification/Spec2Isabelle.thy ===== *)
theory Spec2Isabelle
  imports Hash_Vectors AdminAuth LlmTraffic LogFilter Gateway Download Db AdminInv AdminLogin PublicCatalog Ops
begin

text \<open>
  \<^bold>\<open>Verification of the device-management server\<close> (\<open>src/app\<close>).

  \<^bold>\<open>The program.\<close> A FastAPI service that configures and updates the plugins (LibreOffice, Thunderbird, browsers) of a fleet of
  workstations. A device fetches its configuration (\<open>GET /config/config.json\<close>), enrols with an access token of the identity provider
  (\<open>POST /enroll\<close>) and receives relay credentials; with these, or with a signed LLM token derived from them, it reaches the
  upstream services through the relay and the OpenAI-compatible proxy (\<open>app/llm\<close>), which identifies, throttles and accounts every request.
  Telemetry and enrolments are queued in PostgreSQL (\<open>app/postgres_queue.py\<close>) and processed by workers. Administrators work through
  pages of their own (\<open>app/admin\<close>): they publish packages, start update campaigns, switch feature flags, edit the runtime configuration and revoke
  devices. Pods share state through the database only; each keeps caches and memory stores that follow it.

  \<^bold>\<open>Layers.\<close> Every theory names the source files it translates in its opening text.

  \<^item> \<^emph>\<open>Vocabulary\<close>: \<open>Prelude\<close> (Python values, strings, dictionaries, results), \<open>Json\<close> (\<open>json.dumps\<close> and \<open>json.loads\<close>),
    \<open>Hash\<close> with \<open>Hash_Vectors\<close> (SHA-1, SHA-256, MD5, HMAC over words of 32 bits), \<open>Codec\<close> (UTF-8, base64), \<open>Uuid\<close>, \<open>Settings\<close>.
  \<^item> \<^emph>\<open>Credentials\<close>: \<open>Crypto\<close> (\<open>services/crypto.py\<close>), \<open>Tokens\<close> (\<open>llm/tokens.py\<close>), \<open>Relay\<close> (relay credentials and \<open>llm/auth.py\<close>),
    \<open>AdminAuth\<close> (\<open>admin/auth.py\<close>), \<open>AdminLogin\<close> (login and logout routes).
  \<^item> \<^emph>\<open>Jobs\<close>: \<open>Queue\<close> (\<open>postgres_queue.py\<close>), \<open>Enroll\<close>, \<open>Worker\<close> (\<open>worker_main.py\<close> and the job handlers).
  \<^item> \<^emph>\<open>Fleet\<close>: \<open>Flags\<close> (flags and cohorts), \<open>Campaign\<close>, \<open>RuntimeConfig\<close> (\<open>runtime_config.py\<close>), \<open>ConfigEndpoint\<close>, \<open>Gateway\<close> (middleware,
    telemetry, relay endpoints), \<open>Communications\<close>.
  \<^item> \<^emph>\<open>LLM proxy\<close>: \<open>LlmQuota\<close>, \<open>LlmProxy\<close>, \<open>LlmTraffic\<close>.
  \<^item> \<^emph>\<open>Packages\<close>: \<open>PathSafe\<close>, \<open>Upload\<close>, \<open>Catalog\<close>, \<open>Deploy\<close>, \<open>Download\<close>, \<open>Suggest\<close>, \<open>PublicCatalog\<close>.
  \<^item> \<^emph>\<open>Administration\<close>: \<open>Admin\<close> (the audited routes), \<open>AdminPackages\<close> (routes that receive files), \<open>AdminInv\<close> (integrity of the tables),
    \<open>FileBrowser\<close>, \<open>AuditPages\<close> (\<open>admin/services/audit.py\<close>) and \<open>Devices\<close> (\<open>admin/services/devices.py\<close>).
  \<^item> \<^emph>\<open>Process\<close>: \<open>Db\<close> (pool, schema repairs, start-up), \<open>Ops\<close> (retries, key server, health and metrics, threads), \<open>LogFilter\<close>.

  \<^bold>\<open>How code becomes a definition.\<close> A definition keeps the name of the function, method or class it translates (without a leading
  underscore; a suffix or prefix where HOL or another theory has the name). A class or a table row is a record, a table the list of its rows, an SQL
  statement a function on the table, with the keys and checks of \<open>db/schema.sql\<close> as its failures. A handler is a function from the request and the
  state to an answer and the state; \<^typ>\<open>py_error\<close> has one constructor per kind of exception, and every \<open>raise\<close> is a branch. A transaction
  that fails leaves the tables unchanged; in autocommit mode each statement is kept. The clock, random draws, identifiers of
  sequences and the outcomes of the network, the disk and third-party packages are arguments. Time is counted in microseconds.

  \<^bold>\<open>What the lemmas show.\<close>

  \<^item> \<open>Queue\<close>: the rows satisfy an invariant in every reachable state, no two workers hold one job, only the holder can settle it, and the
    table refines the life cycle \<open>job_trans\<close> of a single job. The locale \<open>owner_update\<close> is the contract of the statements that settle
    a job, interpreted for acknowledgement and retry; \<open>queue_step\<close> and \<open>queue_run\<close> are the interleavings. The move to the dead
    letters names a conflict target that is no key of its table (\<open>DEAD_LETTER_KEYS\<close>), so it raises and no job is ever dead; a lock
    that outlives its time to live is not taken over (\<open>abandoned_job_stuck\<close>).
  \<^item> \<open>Worker\<close>: one pass settles every job it claimed, or ends with the exception of the dead-letter statement at the first job that failed
    its last attempt (locale \<open>job_board\<close>, interpreted on the queue); an enrolment through the queue stores what the synchronous path
    stores, but for white space the worker strips.
  \<^item> \<open>Crypto\<close>, \<open>Tokens\<close>, \<open>Relay\<close>, \<open>AdminAuth\<close>, \<open>AdminLogin\<close>: round trips and soundness of what is signed or encrypted; expiry;
    a rotation leaves the new pair as the only one accepted for its client, and no interleaving of rotations leaves two active rows
    (\<open>relay_reach\<close>); an LLM token stops working when its
    client is revoked; no admin page without a session, no session without an accepted identity token of the admin group.
  \<^item> \<open>Enroll\<close>, \<open>ConfigEndpoint\<close>, \<open>Gateway\<close>: who receives credentials, which secrets leave the server, whose override wins, to whom
    telemetry is attributed.
  \<^item> \<open>Flags\<close>, \<open>Campaign\<close>, \<open>RuntimeConfig\<close>: reconciliation of the flag catalogue, provenance of an update directive, monotone
    rollout, one active campaign after a creation, effect of an edited key on the next read, convergence of the pods (\<open>sync_step\<close>, \<open>sync_reach\<close>).
  \<^item> \<open>LlmQuota\<close>: the locale \<open>quota_store\<close> states the window counter; the PostgreSQL and the memory store are its interpretations, and
    exactness and progress are proved once. \<open>LlmProxy\<close>: a backend is contacted only for an accepted request, and each
    request is finalised once. \<open>LlmTraffic\<close>: the concurrent flush (\<open>traffic_run\<close>) loses and invents no count.
  \<^item> \<open>PathSafe\<close>, \<open>Upload\<close>, \<open>Suggest\<close>: confinement of paths under symbolic links, with the exception of a link cycle (\<open>safe_path_join_cycle\<close>), reassembly of chunks in any order, refusal of
    internal addresses, the rate window.
  \<^item> \<open>Catalog\<close>, \<open>Deploy\<close>, \<open>Download\<close>, \<open>AdminPackages\<close>, \<open>PublicCatalog\<close>: well-formed tables (\<open>cat_step\<close>), a deployment or an
    upload publishes exactly one version, a download gives the deployed bytes, a logo is served as it was uploaded.
  \<^item> \<open>Admin\<close>, \<open>AdminInv\<close>: every answer of success but the rejection of a waiting request has left its audit entry, and every other answer left the tables alone; revocation takes
    effect on relay and proxy at once; all routes keep the references between the tables.
  \<^item> \<open>FileBrowser\<close>, \<open>AuditPages\<close>, \<open>Devices\<close>: the browser stays in its directories, the pages of the audit log are complete as far as entries of equal time
    permit (\<open>audit_ties_repeat\<close>) and its export reads back as it was written; what the device figures count and leave out.
  \<^item> \<open>Ops\<close>: exact number of attempts of a retried call, stable key clients, one running worker thread under repeated start and stop
    (\<open>threads_reach\<close>), and that a pod reported up to date is.
  \<^item> \<open>Db\<close>: the pool is created once under concurrent first use (\<open>pool_reach\<close>); the wait for the database ends, with the number of attempts.

  Lemmas named after a defect (for instance \<open>template_silently_lost\<close>, \<open>wizard_path_escapes\<close>, \<open>versions_disagree\<close>) prove
  that the code shows it.

  \<^bold>\<open>Bounds and fuel.\<close> The JSON scanner is given fuel of more than twice the length of its input, and \<open>parse_fuel_enough\<close> shows that more
  changes nothing. \<open>realpath\<close> gives up at a link cycle, as CPython does; its bound on nested links only makes the
  recursion total, the theorems hold for every bound, and \<open>resolve_enough\<close> shows that one as large as the number of links is enough. The search for a free slug of a copy tries one name more than there are plugins, which finds one (\<open>copy_slug_found\<close>). The worker loop runs over a script of polls, one entry
  per poll; its theorems hold for every script. \<open>wait_loop\<close> is a partial function whose termination is a theorem.

  \<^bold>\<open>Limits.\<close> Strings are over U+0000 to U+00FF. A streamed answer of the proxy is read to its end: a client that disconnects is not modelled. Averages, shares and other floats of dashboards are left out or exact. A regular-expression
  engine, the archive and XML readers, PyJWT, Fernet, the resolver, the HTTP client, the object store and the reading of JSON
  values by PostgreSQL are parameters; where a theorem relies on one, it says so and its witness gives an instance.

  \<^bold>\<open>Not modelled.\<close> The read-only pages of the administration that run list queries and render templates (dashboard, lists, adoption
  figures, debug page, preview of a configuration) and \<open>api_extract_version\<close>, which proposes values for a form: they change nothing.
  \<open>catalog_migrate_config_templates\<close>, a one-shot import of template files. The construction of HTTP and object-store clients
  (\<open>llm/http_client.py\<close>, \<open>s3.py\<close>), the Prometheus registry (\<open>llm/metrics.py\<close>), tracing (\<open>observability.py\<close>) and logging set-up: they
  are calls into third-party packages and keep no state of the program. The thread that listens for \<open>NOTIFY\<close> only wakes the synchronisation
  loop earlier. Alembic migrations restate \<open>db/schema.sql\<close>. Scripts, tests and the browser code are outside the server.
\<close>

end
